(* ===== verification/Prelude.thy ===== *)
theory Prelude
  imports Main
begin

text \<open>
  What every other theory of the development shares: the collections its proofs draw on, and
  generic facts about lists and options that no single component owns.

  \<^item> \<open>js_eval\<close> collects the equations that evaluate the JavaScript primitives of \<open>JsValue\<close> on
    concrete arguments; witnesses unfold it.
  \<^item> \<open>wp_rules\<close> collects the equations that push a postcondition through an asynchronous
    handler of \<open>JsAsync\<close>; the functional properties of the handlers are proved with it.
  \<^item> \<open>blind_rules\<close> collects the introduction rules for programs that do not depend on the log file.
  \<^item> \<open>keeps_rules\<close> collects the introduction rules for handlers that do not write their state,
    \<open>run_rules\<close> the equations that execute a handler whose branches are decided by its hypotheses,
    \<open>inv_rules\<close> the introduction rules for handlers that keep an invariant under interleaving,
    \<open>only_rules\<close> the introduction rules for handlers whose events satisfy a predicate,
    \<open>leaves_rules\<close> the introduction rules for handlers that leave an observed part of the state alone,
    \<open>run_in_rules\<close> the equations that execute a handler on a page that is rendered while it waits,
    \<open>calm_rules\<close> the introduction rules for handlers that respect a lock,
    and \<open>iwp_rules\<close> the equations that carry an invariant through interleaved handlers.
\<close>

named_theorems js_eval \<open>evaluation of the JavaScript primitives on concrete arguments\<close>

named_theorems wp_rules \<open>equations computing the weakest precondition of a handler\<close>

named_theorems leaves_rules \<open>handlers that leave a part of their state alone\<close>

named_theorems keeps_rules \<open>handlers that do not write their state\<close>

named_theorems blind_rules \<open>programs that do not depend on the log file\<close>

named_theorems run_rules \<open>equations executing a handler\<close>
named_theorems run_in_rules \<open>execution of handlers on a rendered page\<close>

named_theorems inv_rules \<open>handlers that keep an invariant\<close>

named_theorems only_rules \<open>handlers whose events satisfy a predicate\<close>

named_theorems calm_rules \<open>handlers that respect a lock\<close>

named_theorems iwp_rules \<open>equations carrying an invariant through an interleaved handler\<close>

section \<open>Options\<close>

text \<open>\<open>a ?? b\<close> on an optional value: the default is taken for a missing value only.\<close>

definition coalesce :: "'a option \<Rightarrow> 'a \<Rightarrow> 'a" where
  "coalesce x d = (case x of None \<Rightarrow> d | Some a \<Rightarrow> a)"

lemma coalesce_simps [simp]:
  "coalesce None d = d"
  "coalesce (Some a) d = a"
  by (simp_all add: coalesce_def)

text \<open>\<open>a || b\<close> on an optional string: an empty string counts as missing too.\<close>

definition or_default :: "'a list option \<Rightarrow> 'a list \<Rightarrow> 'a list" where
  "or_default x d = (case x of None \<Rightarrow> d | Some [] \<Rightarrow> d | Some (c # cs) \<Rightarrow> c # cs)"

lemma or_default_simps [simp]:
  "or_default None d = d"
  "or_default (Some []) d = d"
  "or_default (Some (c # cs)) d = c # cs"
  by (simp_all add: or_default_def)

lemma or_default_nonempty: "s \<noteq> [] \<Longrightarrow> or_default (Some s) d = s"
  by (cases s) simp_all

lemma or_default_eq_Nil: "or_default x [] = [] \<longleftrightarrow> x = None \<or> x = Some []"
  by (cases x; cases "the x") simp_all

section \<open>Lists\<close>

lemma find_Some_mem: "find P xs = Some x \<Longrightarrow> x \<in> set xs \<and> P x"
  by (induction xs) (auto split: if_splits)

lemma find_map_of:
  "find (\<lambda>p. fst p = k) ps = map_option (\<lambda>v. (k, v)) (map_of ps k)"
  by (induction ps) auto

lemma dropWhile_idem [simp]: "dropWhile P (dropWhile P xs) = dropWhile P xs"
  by (induction xs) auto

lemma dropWhile_id: "(xs \<noteq> [] \<Longrightarrow> \<not> P (hd xs)) \<Longrightarrow> dropWhile P xs = xs"
  by (cases xs) auto

lemma hd_dropWhile_not: "dropWhile P xs \<noteq> [] \<Longrightarrow> \<not> P (hd (dropWhile P xs))"
  by (induction xs) auto

text \<open>\<open>stripR P xs\<close> drops the longest suffix of \<open>xs\<close> whose elements satisfy \<open>P\<close>.\<close>

definition stripR :: "('a \<Rightarrow> bool) \<Rightarrow> 'a list \<Rightarrow> 'a list" where
  "stripR P xs = rev (dropWhile P (rev xs))"

lemma stripR_idem [simp]: "stripR P (stripR P xs) = stripR P xs"
  by (simp add: stripR_def)

lemma stripR_Nil [simp]: "stripR P [] = []"
  by (simp add: stripR_def)

lemma stripR_snoc [simp]: "stripR P (xs @ [x]) = (if P x then stripR P xs else xs @ [x])"
  by (simp add: stripR_def)

lemma stripR_last: "stripR P xs \<noteq> [] \<Longrightarrow> \<not> P (last (stripR P xs))"
  by (simp add: stripR_def last_rev hd_dropWhile_not)

lemma stripR_prefix: "\<exists>ys. xs = stripR P xs @ ys \<and> (\<forall>y \<in> set ys. P y)"
proof (intro exI conjI)
  have "rev xs = takeWhile P (rev xs) @ dropWhile P (rev xs)" by simp
  then have "rev (rev xs) = rev (takeWhile P (rev xs) @ dropWhile P (rev xs))" by (rule arg_cong)
  then show "xs = stripR P xs @ rev (takeWhile P (rev xs))"
    unfolding stripR_def rev_append rev_rev_ident .
  show "\<forall>y \<in> set (rev (takeWhile P (rev xs))). P y"
    by (auto dest: set_takeWhileD)
qed

lemma stripR_id: "(xs \<noteq> [] \<Longrightarrow> \<not> P (last xs)) \<Longrightarrow> stripR P xs = xs"
  by (cases xs rule: rev_cases) simp_all

end
