(* ===== verification/JsValue.thy ===== *)
theory JsValue
  imports Prelude
begin

text \<open>
  The part of JavaScript's values the program computes with.

  Strings are lists of characters, read as code units U+0000 to U+00FF: literals of the program
  outside that range (typographic quotes, dashes, ellipses) are written with their ASCII
  counterpart. Numbers are integers; the program reads statuses, sizes, versions and counters.
  A value parsed from JSON, or missing, is a \<open>jsval\<close>; property access on it is \<open>jget\<close>.
\<close>

section \<open>Strings\<close>

text \<open>The white space of \<open>trim\<close> and \<open>\s\<close> (ECMAScript WhiteSpace and LineTerminator).\<close>

definition js_ws :: "char \<Rightarrow> bool" where
  "js_ws c = (let n = of_char c :: nat in (9 \<le> n \<and> n \<le> 13) \<or> n = 32 \<or> n = 160)"

definition trim :: "string \<Rightarrow> string" where
  "trim s = stripR js_ws (dropWhile js_ws s)"

text \<open>\<open>toLowerCase\<close>: A-Z, and U+00C0 to U+00DE but the multiplication sign.\<close>

definition lower_char :: "char \<Rightarrow> char" where
  "lower_char c = (let n = of_char c :: nat in
     if (65 \<le> n \<and> n \<le> 90) \<or> (192 \<le> n \<and> n \<le> 222 \<and> n \<noteq> 215) then char_of (n + 32) else c)"

definition to_lower :: "string \<Rightarrow> string" where
  "to_lower s = map lower_char s"

text \<open>
  \<open>toUpperCase\<close>: the sharp s becomes two letters; the micro sign and y with diaeresis, whose
  capitals lie outside the modelled range, stay as they are.
\<close>

definition upper_char :: "char \<Rightarrow> string" where
  "upper_char c = (let n = of_char c :: nat in
     if n = 223 then ''SS''
     else if (97 \<le> n \<and> n \<le> 122) \<or> (224 \<le> n \<and> n \<le> 254 \<and> n \<noteq> 247) then [char_of (n - 32)]
     else [c])"

definition to_upper :: "string \<Rightarrow> string" where
  "to_upper s = concat (map upper_char s)"

definition starts_with :: "string \<Rightarrow> string \<Rightarrow> bool" where
  "starts_with s p = (take (length p) s = p)"

definition ends_with :: "string \<Rightarrow> string \<Rightarrow> bool" where
  "ends_with s p = (length p \<le> length s \<and> drop (length s - length p) s = p)"

fun str_includes :: "string \<Rightarrow> string \<Rightarrow> bool" where
  "str_includes [] p = (p = [])"
| "str_includes (c # s) p = (starts_with (c # s) p \<or> str_includes s p)"

text \<open>\<open>s.replace(p, r)\<close> with a string pattern: the first occurrence only.\<close>

fun replace_first :: "string \<Rightarrow> string \<Rightarrow> string \<Rightarrow> string" where
  "replace_first [] p r = (if p = [] then r else [])"
| "replace_first (c # s) p r =
     (if starts_with (c # s) p then r @ drop (length p) (c # s)
      else c # replace_first s p r)"

text \<open>\<open>s.replace(/\/+$/, "")\<close> and \<open>s.replace(/\/$/, "")\<close>.\<close>

definition strip_slashes :: "string \<Rightarrow> string" where
  "strip_slashes s = stripR (\<lambda>c. c = CHR ''/'') s"

definition strip_slash :: "string \<Rightarrow> string" where
  "strip_slash s = (if s \<noteq> [] \<and> last s = CHR ''/'' then butlast s else s)"

text \<open>\<open>s.split(c)\<close> for a one-character separator: never empty.\<close>

fun split_on :: "char \<Rightarrow> string \<Rightarrow> string list" where
  "split_on c [] = [[]]"
| "split_on c (x # xs) =
     (if x = c then [] # split_on c xs
      else (x # hd (split_on c xs)) # tl (split_on c xs))"

fun join_with :: "string \<Rightarrow> string list \<Rightarrow> string" where
  "join_with sep [] = []"
| "join_with sep [x] = x"
| "join_with sep (x # y # ys) = x @ sep @ join_with sep (y # ys)"

text \<open>\<open>path.basename\<close> (POSIX): trailing slashes are ignored, then the part after the last slash.\<close>

definition basename :: "string \<Rightarrow> string" where
  "basename p = last (split_on CHR ''/'' (strip_slashes p))"

text \<open>Decimal rendering of an integer.\<close>

fun nat_digits :: "nat \<Rightarrow> string" where
  "nat_digits n = (if n < 10 then [char_of (48 + n)]
                   else nat_digits (n div 10) @ [char_of (48 + n mod 10)])"

declare nat_digits.simps [simp del]

definition int_string :: "int \<Rightarrow> string" where
  "int_string i = (if i < 0 then CHR ''-'' # nat_digits (nat (- i)) else nat_digits (nat i))"

text \<open>The order of \<open><\<close> on strings: by code units.\<close>

fun str_lt :: "string \<Rightarrow> string \<Rightarrow> bool" where
  "str_lt s [] = False"
| "str_lt [] (y # ys) = True"
| "str_lt (x # xs) (y # ys) =
     ((of_char x :: nat) < of_char y \<or> (x = y \<and> str_lt xs ys))"

section \<open>Values\<close>

datatype jsval =
    JUndef
  | JNull
  | JBool bool
  | JNum int
  | JStr string
  | JArr "jsval list"
  | JObj "(string \<times> jsval) list"

fun truthy :: "jsval \<Rightarrow> bool" where
  "truthy JUndef = False"
| "truthy JNull = False"
| "truthy (JBool b) = b"
| "truthy (JNum n) = (n \<noteq> 0)"
| "truthy (JStr s) = (s \<noteq> [])"
| "truthy (JArr xs) = True"
| "truthy (JObj ps) = True"

definition nullish :: "jsval \<Rightarrow> bool" where
  "nullish v = (v = JUndef \<or> v = JNull)"

text \<open>\<open>v?.k\<close>: \<open>undefined\<close> for a missing property and for anything but an object.\<close>

fun jget :: "jsval \<Rightarrow> string \<Rightarrow> jsval" where
  "jget (JObj ps) k = (case map_of ps k of None \<Rightarrow> JUndef | Some v \<Rightarrow> v)"
| "jget v k = JUndef"

text \<open>\<open>===\<close>: values parsed apart are never the same object.\<close>

fun strict_eq :: "jsval \<Rightarrow> jsval \<Rightarrow> bool" where
  "strict_eq (JArr xs) w = False"
| "strict_eq (JObj ps) w = False"
| "strict_eq v w = (v = w)"

fun is_str :: "jsval \<Rightarrow> bool" where
  "is_str (JStr s) = True"
| "is_str v = False"

fun the_str :: "jsval \<Rightarrow> string" where
  "the_str (JStr s) = s"
| "the_str v = []"

fun is_arr :: "jsval \<Rightarrow> bool" where
  "is_arr (JArr xs) = True"
| "is_arr v = False"

fun the_arr :: "jsval \<Rightarrow> jsval list" where
  "the_arr (JArr xs) = xs"
| "the_arr v = []"

text \<open>\<open>typeof v === "object" && v !== null\<close>, and the same without arrays.\<close>

fun is_object :: "jsval \<Rightarrow> bool" where
  "is_object (JObj ps) = True"
| "is_object (JArr xs) = True"
| "is_object v = False"

fun is_record :: "jsval \<Rightarrow> bool" where
  "is_record (JObj ps) = True"
| "is_record v = False"

text \<open>\<open>k in v\<close> for an object.\<close>

fun has_key :: "jsval \<Rightarrow> string \<Rightarrow> bool" where
  "has_key (JObj ps) k = (map_of ps k \<noteq> None)"
| "has_key v k = False"

text \<open>\<open>String(v)\<close> and template interpolation; an array joins its elements, nullish ones empty.\<close>

fun js_string :: "jsval \<Rightarrow> string" where
  "js_string JUndef = ''undefined''"
| "js_string JNull = ''null''"
| "js_string (JBool b) = (if b then ''true'' else ''false'')"
| "js_string (JNum n) = int_string n"
| "js_string (JStr s) = s"
| "js_string (JArr xs) =
     join_with '','' (map (\<lambda>x. if nullish x then [] else js_string x) xs)"
| "js_string (JObj ps) = ''[object Object]''"

text \<open>A byte as the URL standard writes it: a percent sign and two capital hexadecimal digits.\<close>

definition upper_hex :: "nat \<Rightarrow> char" where
  "upper_hex n = (if n < 10 then char_of (48 + n) else char_of (55 + n))"

definition percent :: "nat \<Rightarrow> string" where
  "percent n = [CHR ''%'', upper_hex (n div 16), upper_hex (n mod 16)]"

text \<open>
  \<open>JSON.stringify\<close>: a field holding \<open>undefined\<close> is left out, in an array it is written as null.
  Quotes, backslashes and control characters are escaped.
\<close>

definition hex_digit :: "nat \<Rightarrow> char" where
  "hex_digit n = (if n < 10 then char_of (48 + n) else char_of (87 + n))"

definition json_char :: "char \<Rightarrow> string" where
  "json_char c = (let n = of_char c :: nat in
     if c = CHR 0x22 then [CHR 0x5C, CHR 0x22]
     else if c = CHR 0x5C then [CHR 0x5C, CHR 0x5C]
     else if n = 8 then [CHR 0x5C, CHR ''b'']
     else if n = 9 then [CHR 0x5C, CHR ''t'']
     else if n = 10 then [CHR 0x5C, CHR ''n'']
     else if n = 12 then [CHR 0x5C, CHR ''f'']
     else if n = 13 then [CHR 0x5C, CHR ''r'']
     else if n < 32 then [CHR 0x5C, CHR ''u'', CHR ''0'', CHR ''0'', hex_digit (n div 16), hex_digit (n mod 16)]
     else [c])"

definition json_quote :: "string \<Rightarrow> string" where
  "json_quote s = [CHR 0x22] @ concat (map json_char s) @ [CHR 0x22]"

fun json_text :: "jsval \<Rightarrow> string" where
  "json_text JUndef = ''null''"
| "json_text JNull = ''null''"
| "json_text (JBool b) = (if b then ''true'' else ''false'')"
| "json_text (JNum n) = int_string n"
| "json_text (JStr s) = json_quote s"
| "json_text (JArr xs) = ''['' @ join_with '','' (map json_text xs) @ '']''"
| "json_text (JObj ps) =
     ''{'' @ join_with '','' (map (\<lambda>p. json_quote (fst p) @ '':'' @ json_text (snd p))
       (filter (\<lambda>p. snd p \<noteq> JUndef) ps)) @ ''}''"

text \<open>
  \<open>JSON.stringify(v, null, 2)\<close>: members on lines of their own, indented by two more blanks than the
  line \<open>n\<close> of the opening bracket; empty ones stay on the line.
\<close>

definition indent :: "nat \<Rightarrow> string" where
  "indent n = CHR 0x0A # replicate (2 * n) CHR '' ''"

definition bracketed :: "nat \<Rightarrow> char \<Rightarrow> char \<Rightarrow> string list \<Rightarrow> string" where
  "bracketed n l r items = (if items = [] then [l, r]
     else [l] @ indent (Suc n) @ join_with ('','' @ indent (Suc n)) items @ indent n @ [r])"

fun json_pretty :: "nat \<Rightarrow> jsval \<Rightarrow> string" where
  "json_pretty n (JArr xs) = bracketed n CHR ''['' CHR '']'' (map (json_pretty (Suc n)) xs)"
| "json_pretty n (JObj ps) = bracketed n CHR ''{'' CHR ''}''
     (map (\<lambda>p. json_quote (fst p) @ '': '' @ json_pretty (Suc n) (snd p)) (filter (\<lambda>p. snd p \<noteq> JUndef) ps))"
| "json_pretty n v = json_text v"

text \<open>
  \<open>t < v\<close> and \<open>t > v\<close> where \<open>t\<close> is a string that is no numeric literal (a time stamp) and \<open>v\<close>
  any value. Arrays and objects convert to strings and compare as such; \<open>t\<close> against any other
  primitive is a comparison with NaN, which is false.
\<close>

fun prim_string :: "jsval \<Rightarrow> string option" where
  "prim_string (JStr s) = Some s"
| "prim_string (JArr xs) = Some (js_string (JArr xs))"
| "prim_string (JObj ps) = Some (js_string (JObj ps))"
| "prim_string v = None"

definition stamp_lt :: "string \<Rightarrow> jsval \<Rightarrow> bool" where
  "stamp_lt t v = (case prim_string v of None \<Rightarrow> False | Some s \<Rightarrow> str_lt t s)"

definition stamp_gt :: "string \<Rightarrow> jsval \<Rightarrow> bool" where
  "stamp_gt t v = (case prim_string v of None \<Rightarrow> False | Some s \<Rightarrow> str_lt s t)"

section \<open>Facts about strings\<close>

lemma starts_with_Nil [simp]: "starts_with s []"
  by (simp add: starts_with_def)

lemma starts_with_append [simp]: "starts_with (p @ s) p"
  by (simp add: starts_with_def)

lemma starts_with_iff: "starts_with s p \<longleftrightarrow> (\<exists>r. s = p @ r)"
  by (metis append_take_drop_id starts_with_append starts_with_def)

lemma starts_with_Cons [simp]:
  "starts_with [] (q # p) = False"
  "starts_with (c # s) (q # p) = (c = q \<and> starts_with s p)"
  by (auto simp: starts_with_def)

lemma str_includes_Nil [simp]: "str_includes s []"
  by (cases s) simp_all

lemma starts_with_includes: "starts_with s p \<Longrightarrow> str_includes s p"
  by (cases s; cases p) simp_all

lemma str_includes_iff: "str_includes s p \<longleftrightarrow> (\<exists>a b. s = a @ p @ b)"
proof (induction s)
  case Nil
  then show ?case by simp
next
  case (Cons c s)
  show ?case
  proof
    assume "str_includes (c # s) p"
    then consider "starts_with (c # s) p" | "str_includes s p" by auto
    then show "\<exists>a b. c # s = a @ p @ b"
    proof cases
      case 1
      then show ?thesis by (metis starts_with_iff append_Nil)
    next
      case 2
      then show ?thesis using Cons by (metis append_Cons)
    qed
  next
    assume "\<exists>a b. c # s = a @ p @ b"
    then obtain a b where ab: "c # s = a @ p @ b" by blast
    show "str_includes (c # s) p"
    proof (cases a)
      case Nil
      with ab have "starts_with (c # s) p" by (auto simp: starts_with_iff)
      then show ?thesis by simp
    next
      case (Cons a' as)
      with ab have "s = as @ p @ b" by simp
      with Cons.IH show ?thesis by auto
    qed
  qed
qed

lemma replace_first_prefix [simp]:
  "p \<noteq> [] \<Longrightarrow> replace_first (p @ s) p r = r @ s"
  by (cases p) simp_all

lemma ends_with_append [simp]: "ends_with (s @ p) p"
  by (simp add: ends_with_def)

lemma ends_with_iff: "ends_with s p \<longleftrightarrow> (\<exists>r. s = r @ p)"
  by (metis append_take_drop_id ends_with_append ends_with_def)

lemma ends_with_append2: "ends_with s p \<Longrightarrow> ends_with (a @ s) p"
  by (auto simp: ends_with_iff)

lemma trim_Nil [simp]: "trim [] = []"
  by (simp add: trim_def)

lemma trim_hd: "trim s \<noteq> [] \<Longrightarrow> \<not> js_ws (hd (trim s))"
proof -
  assume ne: "trim s \<noteq> []"
  obtain ys where ys: "dropWhile js_ws s = trim s @ ys"
    using stripR_prefix [of "dropWhile js_ws s" js_ws] by (auto simp: trim_def)
  with ne have "hd (trim s) = hd (dropWhile js_ws s)" and "dropWhile js_ws s \<noteq> []"
    by (auto simp: hd_append)
  then show ?thesis by (metis hd_dropWhile_not)
qed

lemma trim_last: "trim s \<noteq> [] \<Longrightarrow> \<not> js_ws (last (trim s))"
  unfolding trim_def by (rule stripR_last)

lemma trim_id: "(s \<noteq> [] \<Longrightarrow> \<not> js_ws (hd s)) \<Longrightarrow> (s \<noteq> [] \<Longrightarrow> \<not> js_ws (last s)) \<Longrightarrow> trim s = s"
  by (simp add: trim_def dropWhile_id stripR_id)

lemma trim_trim [simp]: "trim (trim s) = trim s"
  by (rule trim_id) (simp_all add: trim_hd trim_last)

lemma trim_append_ws:
  assumes "js_ws c" "trim s = s" "s \<noteq> []"
  shows "trim (s @ [c]) = s"
proof -
  have "\<not> js_ws (hd s)" using trim_hd [of s] assms(2,3) by simp
  then have "dropWhile js_ws (s @ [c]) = s @ [c]"
    using assms(3) by (simp add: dropWhile_id)
  moreover have "stripR js_ws s = s"
    using trim_last [of s] assms(2,3) by (simp add: stripR_id)
  ultimately show ?thesis using assms(1) by (simp add: trim_def)
qed

lemma strip_slashes_idem [simp]: "strip_slashes (strip_slashes s) = strip_slashes s"
  by (simp add: strip_slashes_def)

lemma strip_slashes_last: "strip_slashes s \<noteq> [] \<Longrightarrow> last (strip_slashes s) \<noteq> CHR ''/''"
  using stripR_last by (fastforce simp: strip_slashes_def)

subsection \<open>The order of strings is linear\<close>

definition str_le :: "string \<Rightarrow> string \<Rightarrow> bool" where
  "str_le s t = (\<not> str_lt t s)"

lemma str_lt_Nil [simp]: "str_lt [] s = (s \<noteq> [])"
  by (cases s) simp_all

lemma str_lt_irrefl [simp]: "\<not> str_lt s s"
  by (induction s) auto

lemma of_char_nat_inj: "(of_char c :: nat) = of_char d \<Longrightarrow> c = d"
  by (metis char_of_char)

lemma str_lt_trans: "str_lt a b \<Longrightarrow> str_lt b c \<Longrightarrow> str_lt a c"
proof (induction a b arbitrary: c rule: str_lt.induct)
  case (2 y ys)
  then show ?case by (cases c) auto
next
  case (3 x xs y ys)
  then show ?case by (cases c) auto
qed simp

lemma str_lt_total: "str_lt a b \<or> a = b \<or> str_lt b a"
proof (induction a b rule: str_lt.induct)
  case (1 s)
  then show ?case by (cases s) auto
next
  case (3 x xs y ys)
  then show ?case using of_char_nat_inj [of x y] by auto
qed simp

interpretation js_order: linorder str_le str_lt
proof
  show "str_lt x y = (str_le x y \<and> \<not> str_le y x)" for x y
    unfolding str_le_def using str_lt_trans str_lt_irrefl by blast
  show "str_le x x" for x
    by (simp add: str_le_def)
  show "str_le x y \<Longrightarrow> str_le y z \<Longrightarrow> str_le x z" for x y z
    unfolding str_le_def using str_lt_trans str_lt_total by blast
  show "str_le x y \<Longrightarrow> str_le y x \<Longrightarrow> x = y" for x y
    unfolding str_le_def using str_lt_total by blast
  show "str_le x y \<or> str_le y x" for x y
    unfolding str_le_def using str_lt_trans str_lt_irrefl by blast
qed

lemma truthy_JStr_iff [simp]: "is_str v \<Longrightarrow> truthy v \<longleftrightarrow> the_str v \<noteq> []"
  by (cases v) simp_all

lemma jget_nullish [simp]: "jget JUndef k = JUndef" "jget JNull k = JUndef"
  by simp_all

lemma is_str_iff: "is_str v \<longleftrightarrow> (\<exists>s. v = JStr s)"
  by (cases v) simp_all

end
