(* ===== verification/RecruiterTypes.thy ===== *)
theory RecruiterTypes
  imports JsValue
begin

text \<open>
  The data the recruiter's screens exchange (\<open>src/navigation/recruiterTypes.ts\<close>): badges,
  verification states, a candidate's row snapshot, the list query with its filters, and the
  parameters of the detail route. Optional fields are options; string unions are datatypes.
\<close>

datatype signature_badge = SigVerified | SigInvalid | SigUnknown

datatype trust_badge = Trusted | Untrusted | TrustUnknown

datatype verification_state = VVerified | VUnverified | VPending | VUnknown

datatype request_status =
    Draft | Submitted | AttestationPending | Attested | Verified | Unverified | Rejected
  | Consumed | Closed

datatype trust_result = ResVerified | ResVerifiedWithFlags | ResUnverified

record verification_summary =
  vs_state :: verification_state
  vs_trust_result :: "trust_result option"
  vs_request_status :: "request_status option"

record subject_ref =
  full_name :: string
  employee_id :: "string option"

record employment_ref =
  issuer_name :: string
  emp_title :: string
  start_date :: string
  end_date :: "string option"

record badges =
  badge_signature :: signature_badge
  badge_trust :: trust_badge

record candidate_row =
  candidate_id :: string
  subject :: subject_ref
  primary_employment :: employment_ref
  primary_evt_id :: string
  row_badges :: badges
  row_verification :: "verification_summary option"
  row_updated_at :: string

datatype trust_mode = AnyTrust | TrustedOnly | IncludeUntrusted

datatype recruiter_sort = MostRecent | NameAz | TrustFirst

record query_dates =
  start_after :: "string option"
  end_before :: "string option"
  include_current :: "bool option"

record query_page =
  pg_cursor :: "string option"
  pg_limit :: "int option"

record recruiter_query =
  q_search :: string
  q_trust_mode :: trust_mode
  q_signature_status :: "signature_badge list"
  q_company_ids :: "string list"
  q_title_query :: "string option"
  q_dates :: "query_dates option"
  q_sort :: "recruiter_sort option"
  q_page :: "query_page option"

record list_context =
  lc_search :: "string option"
  lc_filters_hash :: "string option"
  lc_sort :: "string option"
  lc_anchor_key :: "string option"

record detail_params =
  dp_candidate_id :: string
  dp_subject :: subject_ref
  dp_primary_evt_id :: string
  dp_list_context :: "list_context option"
  dp_snapshot :: "candidate_row option"

text \<open>The wire spelling of the unions.\<close>

fun sig_string :: "signature_badge \<Rightarrow> string" where
  "sig_string SigVerified = ''verified''"
| "sig_string SigInvalid = ''invalid''"
| "sig_string SigUnknown = ''unknown''"

fun trust_string :: "trust_badge \<Rightarrow> string" where
  "trust_string Trusted = ''trusted''"
| "trust_string Untrusted = ''untrusted''"
| "trust_string TrustUnknown = ''unknown''"

fun vstate_string :: "verification_state \<Rightarrow> string" where
  "vstate_string VVerified = ''verified''"
| "vstate_string VUnverified = ''unverified''"
| "vstate_string VPending = ''pending''"
| "vstate_string VUnknown = ''unknown''"

fun request_status_string :: "request_status \<Rightarrow> string" where
  "request_status_string Draft = ''DRAFT''"
| "request_status_string Submitted = ''SUBMITTED''"
| "request_status_string AttestationPending = ''ATTESTATION_PENDING''"
| "request_status_string Attested = ''ATTESTED''"
| "request_status_string Verified = ''VERIFIED''"
| "request_status_string Unverified = ''UNVERIFIED''"
| "request_status_string Rejected = ''REJECTED''"
| "request_status_string Consumed = ''CONSUMED''"
| "request_status_string Closed = ''CLOSED''"

fun trust_result_string :: "trust_result \<Rightarrow> string" where
  "trust_result_string ResVerified = ''VERIFIED''"
| "trust_result_string ResVerifiedWithFlags = ''VERIFIED_WITH_FLAGS''"
| "trust_result_string ResUnverified = ''UNVERIFIED''"

fun trust_mode_string :: "trust_mode \<Rightarrow> string" where
  "trust_mode_string AnyTrust = ''any''"
| "trust_mode_string TrustedOnly = ''trusted_only''"
| "trust_mode_string IncludeUntrusted = ''include_untrusted''"

fun sort_string :: "recruiter_sort \<Rightarrow> string" where
  "sort_string MostRecent = ''most_recent''"
| "sort_string NameAz = ''name_az''"
| "sort_string TrustFirst = ''trust_first''"

lemma sig_string_inj: "sig_string a = sig_string b \<longleftrightarrow> a = b"
  by (cases a; cases b) simp_all

lemma trust_string_inj: "trust_string a = trust_string b \<longleftrightarrow> a = b"
  by (cases a; cases b) simp_all

text \<open>
  \<open>Array.prototype.sort\<close> without a comparator orders by the wire spelling; the badges are made
  a linear order that agrees with it: invalid, unknown, verified.
\<close>

fun sig_rank :: "signature_badge \<Rightarrow> nat" where
  "sig_rank SigInvalid = 0"
| "sig_rank SigUnknown = 1"
| "sig_rank SigVerified = 2"

lemma sig_rank_inj: "sig_rank a = sig_rank b \<longleftrightarrow> a = b"
  by (cases a; cases b) simp_all

instantiation signature_badge :: linorder
begin

definition less_eq_signature_badge :: "signature_badge \<Rightarrow> signature_badge \<Rightarrow> bool" where
  "less_eq_signature_badge a b = (sig_rank a \<le> sig_rank b)"

definition less_signature_badge :: "signature_badge \<Rightarrow> signature_badge \<Rightarrow> bool" where
  "less_signature_badge a b = (sig_rank a < sig_rank b)"

instance
  by standard (auto simp: less_eq_signature_badge_def less_signature_badge_def sig_rank_inj)

end

lemma sig_less_iff_wire: "a < b \<longleftrightarrow> str_lt (sig_string a) (sig_string b)"
  by (cases a; cases b) (simp_all add: less_signature_badge_def)

end
