(* ===== verification/JsAsync.thy ===== *)
theory JsAsync
  imports JsValue
begin

text \<open>
  Asynchronous handlers. An \<open>async\<close> function runs to its next \<open>await\<close> without being interrupted,
  hands control back, and is resumed with what it awaited. A handler is therefore a resumption:
  synchronous reads and writes of the component's state, effects that return nothing (\<open>Emit\<close>),
  and \<open>Await\<close> with a continuation for the reply.

  \<^item> \<open>run\<close> executes a handler alone in a world that answers each awaited event from what happened
    before; \<open>wp\<close> is its weakest precondition, and \<open>wp_rules\<close> compute it through the combinators.
  \<^item> \<open>advance\<close> executes a handler up to its next \<open>Await\<close>; \<open>pool_step\<close> resumes one of several
    handlers over a shared state, which gives their interleavings.
\<close>

section \<open>Requests, responses, effects\<close>

text \<open>A request body is the value handed to \<open>JSON.stringify\<close>, \<open>JUndef\<close> for none.\<close>

record request =
  rq_url :: string
  rq_method :: string
  rq_headers :: "(string \<times> string) list"
  rq_credentials :: string
  rq_body :: jsval

text \<open>A response carries its text and what \<open>JSON.parse\<close> makes of it (\<open>None\<close>: it throws).\<close>

record response =
  rs_status :: int
  rs_text :: string
  rs_json :: "jsval option"

definition rs_ok :: "response \<Rightarrow> bool" where
  "rs_ok r = (200 \<le> rs_status r \<and> rs_status r \<le> 299)"

text \<open>
  What a handler can throw. \<open>TypeErr\<close> stands for the engine's own errors (a property of
  \<open>undefined\<close>, a call of what is no function), \<open>SyntaxErr\<close> for a failed \<open>JSON.parse\<close>; their
  message texts depend on the engine.
\<close>

datatype exn =
    AuthErr string string "string option"
  | FormErr string
  | JsErr string
  | TypeErr
  | SyntaxErr
  | AbortErr

fun exn_message :: "exn \<Rightarrow> string" where
  "exn_message (AuthErr c m d) = m"
| "exn_message (FormErr m) = m"
| "exn_message (JsErr m) = m"
| "exn_message TypeErr = ''TypeError''"
| "exn_message SyntaxErr = ''SyntaxError''"
| "exn_message AbortErr = ''Aborted''"

datatype event =
    Fetch request
  | StoreGet string
  | StorePut string string
  | StoreDel string
  | HasHardware
  | SupportedTypes
  | Authenticate
  | JoinRefresh nat
  | PickFile string
  | AskPermission
  | StatFile string
  | CopyFile string string
  | ReadFile string
  | DigestFile string
  | PutFile string string "(string \<times> string) list"
  | S3Put string
  | S3Copy string string
  | Alert string string
  | Navigate string jsval
  | ResetTo string jsval
  | AssignLocation string

datatype reply =
    RDone
  | RFail exn
  | RResp response
  | RText "string option"
  | RBool bool
  | RVal jsval

type_synonym trace = "event list"

type_synonym world = "trace \<Rightarrow> event \<Rightarrow> reply"

section \<open>Handlers\<close>

datatype ('s, 'a) prog =
    Return 'a
  | Raise exn
  | Get "'s \<Rightarrow> ('s, 'a) prog"
  | Put 's "('s, 'a) prog"
  | Emit event "('s, 'a) prog"
  | Await event "reply \<Rightarrow> ('s, 'a) prog"

primrec bind :: "('s, 'a) prog \<Rightarrow> ('a \<Rightarrow> ('s, 'b) prog) \<Rightarrow> ('s, 'b) prog" where
  "bind (Return a) f = f a"
| "bind (Raise e) f = Raise e"
| "bind (Get g) f = Get (\<lambda>s. bind (g s) f)"
| "bind (Put s p) f = Put s (bind p f)"
| "bind (Emit e p) f = Emit e (bind p f)"
| "bind (Await e k) f = Await e (\<lambda>r. bind (k r) f)"

text \<open>\<open>seq p q\<close> is the statement sequence \<open>p; q\<close>.\<close>

definition seq :: "('s, 'a) prog \<Rightarrow> ('s, 'b) prog \<Rightarrow> ('s, 'b) prog" where
  "seq p q = bind p (\<lambda>_. q)"

text \<open>\<open>try { p } catch (e) { h e }\<close>\<close>

primrec try_catch :: "('s, 'a) prog \<Rightarrow> (exn \<Rightarrow> ('s, 'a) prog) \<Rightarrow> ('s, 'a) prog" where
  "try_catch (Return a) h = Return a"
| "try_catch (Raise e) h = h e"
| "try_catch (Get g) h = Get (\<lambda>s. try_catch (g s) h)"
| "try_catch (Put s p) h = Put s (try_catch p h)"
| "try_catch (Emit e p) h = Emit e (try_catch p h)"
| "try_catch (Await e k) h = Await e (\<lambda>r. try_catch (k r) h)"

text \<open>\<open>try { p } finally { c }\<close>: \<open>c\<close> runs on both ways out, and its own exception wins.\<close>

primrec try_finally :: "('s, 'a) prog \<Rightarrow> ('s, unit) prog \<Rightarrow> ('s, 'a) prog" where
  "try_finally (Return a) c = bind c (\<lambda>_. Return a)"
| "try_finally (Raise e) c = bind c (\<lambda>_. Raise e)"
| "try_finally (Get g) c = Get (\<lambda>s. try_finally (g s) c)"
| "try_finally (Put s p) c = Put s (try_finally p c)"
| "try_finally (Emit e p) c = Emit e (try_finally p c)"
| "try_finally (Await e k) c = Await e (\<lambda>r. try_finally (k r) c)"

definition skip :: "('s, unit) prog" where
  "skip = Return ()"

definition gets :: "('s \<Rightarrow> 'a) \<Rightarrow> ('s, 'a) prog" where
  "gets f = Get (\<lambda>s. Return (f s))"

definition modify :: "('s \<Rightarrow> 's) \<Rightarrow> ('s, unit) prog" where
  "modify f = Get (\<lambda>s. Put (f s) (Return ()))"

definition emit :: "event \<Rightarrow> ('s, unit) prog" where
  "emit e = Emit e (Return ())"

definition do_if :: "bool \<Rightarrow> ('s, unit) prog \<Rightarrow> ('s, unit) prog" where
  "do_if b p = (if b then p else Return ())"

text \<open>\<open>await fetch(rq)\<close>: the network rejects, or delivers a response.\<close>

definition fetch :: "request \<Rightarrow> ('s, response) prog" where
  "fetch rq = Await (Fetch rq)
     (\<lambda>r. case r of RResp x \<Rightarrow> Return x | RFail e \<Rightarrow> Raise e | _ \<Rightarrow> Raise TypeErr)"

text \<open>\<open>await res.json()\<close> and the non-optional property access \<open>v.k\<close>.\<close>

definition res_json :: "response \<Rightarrow> ('s, jsval) prog" where
  "res_json x = (case rs_json x of None \<Rightarrow> Raise SyntaxErr | Some v \<Rightarrow> Return v)"

definition prop_of :: "jsval \<Rightarrow> string \<Rightarrow> ('s, jsval) prog" where
  "prop_of v k = (if nullish v then Raise TypeErr else Return (jget v k))"

text \<open>\<open>v.slice(0, n)\<close>, as the log lines call it: only strings and arrays have the method.\<close>

definition need_slice :: "jsval \<Rightarrow> ('s, unit) prog" where
  "need_slice v = (if is_str v \<or> is_arr v then Return () else Raise TypeErr)"

section \<open>Running a handler alone\<close>

primrec run :: "world \<Rightarrow> ('s, 'a) prog \<Rightarrow> 's \<Rightarrow> trace \<Rightarrow> (exn + 'a) \<times> 's \<times> trace" where
  "run w (Return a) s t = (Inr a, s, t)"
| "run w (Raise e) s t = (Inl e, s, t)"
| "run w (Get g) s t = run w (g s) s t"
| "run w (Put s' p) s t = run w p s' t"
| "run w (Emit e p) s t = run w p s (t @ [e])"
| "run w (Await e k) s t = run w (k (w t e)) s (t @ [e])"

definition result_of :: "world \<Rightarrow> ('s, 'a) prog \<Rightarrow> 's \<Rightarrow> exn + 'a" where
  "result_of w p s = fst (run w p s [])"

definition state_of :: "world \<Rightarrow> ('s, 'a) prog \<Rightarrow> 's \<Rightarrow> 's" where
  "state_of w p s = fst (snd (run w p s []))"

definition trace_of :: "world \<Rightarrow> ('s, 'a) prog \<Rightarrow> 's \<Rightarrow> trace" where
  "trace_of w p s = snd (snd (run w p s []))"

lemma run_bind:
  "run w (bind p f) s t =
     (case run w p s t of (Inl e, s', t') \<Rightarrow> (Inl e, s', t') | (Inr a, s', t') \<Rightarrow> run w (f a) s' t')"
  by (induction p arbitrary: s t) (auto split: prod.splits sum.splits)

lemma run_try_catch:
  "run w (try_catch p h) s t =
     (case run w p s t of (Inl e, s', t') \<Rightarrow> run w (h e) s' t' | (Inr a, s', t') \<Rightarrow> (Inr a, s', t'))"
  by (induction p arbitrary: s t) (auto split: prod.splits sum.splits)

lemma run_try_finally:
  "run w (try_finally p c) s t =
     (case run w p s t of (r, s', t') \<Rightarrow>
        (case run w c s' t' of (Inl e, s'', t'') \<Rightarrow> (Inl e, s'', t'') | (Inr u, s'', t'') \<Rightarrow> (r, s'', t'')))"
  by (induction p arbitrary: s t) (auto simp: run_bind split: prod.splits sum.splits)

text \<open>A handler only adds to the history.\<close>

lemma run_trace_extends: "\<exists>t'. snd (snd (run w p s t)) = t @ t'"
proof (induction p arbitrary: s t)
  case (Emit e p)
  obtain t' where "snd (snd (run w p s (t @ [e]))) = (t @ [e]) @ t'" using Emit by blast
  then show ?case by simp
next
  case (Await e k)
  obtain t' where "snd (snd (run w (k (w t e)) s (t @ [e]))) = (t @ [e]) @ t'" using Await by blast
  then show ?case by simp
qed simp_all

text \<open>What the first part of a statement has done stays done.\<close>

lemma run_extends: "run w p s t = (r, s', t') \<Longrightarrow> \<exists>rest. t' = t @ rest"
  using run_trace_extends [of w p s t] by simp

lemma run_bind_extends:
  "run w p s t = (r1, s1, t1) \<Longrightarrow> run w (bind p f) s t = (r, s', t') \<Longrightarrow> \<exists>rest. t' = t1 @ rest"
  by (auto simp: run_bind split: sum.splits dest: run_extends)

lemma run_catch_extends:
  "run w p s t = (r1, s1, t1) \<Longrightarrow> run w (try_catch p h) s t = (r, s', t') \<Longrightarrow> \<exists>rest. t' = t1 @ rest"
  by (auto simp: run_try_catch split: sum.splits dest: run_extends)

section \<open>Weakest preconditions\<close>

definition wp :: "world \<Rightarrow> ('s, 'a) prog \<Rightarrow> ('a \<Rightarrow> 's \<Rightarrow> trace \<Rightarrow> bool) \<Rightarrow>
    (exn \<Rightarrow> 's \<Rightarrow> trace \<Rightarrow> bool) \<Rightarrow> 's \<Rightarrow> trace \<Rightarrow> bool" where
  "wp w p Q E s t =
     (case run w p s t of (Inl e, s', t') \<Rightarrow> E e s' t' | (Inr a, s', t') \<Rightarrow> Q a s' t')"

lemma wp_prims [wp_rules]:
  "wp w (Return a) Q E s t = Q a s t"
  "wp w (Raise e) Q E s t = E e s t"
  "wp w (Get g) Q E s t = wp w (g s) Q E s t"
  "wp w (Put s' p) Q E s t = wp w p Q E s' t"
  "wp w (Emit ev p) Q E s t = wp w p Q E s (t @ [ev])"
  "wp w (Await ev k) Q E s t = wp w (k (w t ev)) Q E s (t @ [ev])"
  by (simp_all add: wp_def)

lemma wp_bind [wp_rules]:
  "wp w (bind p f) Q E s t = wp w p (\<lambda>a. wp w (f a) Q E) E s t"
  by (auto simp: wp_def run_bind split: prod.splits sum.splits)

lemma wp_seq [wp_rules]: "wp w (seq p q) Q E s t = wp w p (\<lambda>a. wp w q Q E) E s t"
  by (simp add: seq_def wp_bind)

lemma wp_try_catch [wp_rules]:
  "wp w (try_catch p h) Q E s t = wp w p Q (\<lambda>e. wp w (h e) Q E) s t"
  by (auto simp: wp_def run_try_catch split: prod.splits sum.splits)

lemma wp_try_finally [wp_rules]:
  "wp w (try_finally p c) Q E s t =
     wp w p (\<lambda>a. wp w c (\<lambda>_. Q a) E) (\<lambda>e. wp w c (\<lambda>_. E e) E) s t"
  by (auto simp: wp_def run_try_finally split: prod.splits sum.splits)

lemma wp_gets [wp_rules]: "wp w (gets f) Q E s t = Q (f s) s t"
  by (simp add: gets_def wp_prims)

lemma wp_basic [wp_rules]:
  "wp w skip Q E s t = Q () s t"
  "wp w (modify f) Q E s t = Q () (f s) t"
  "wp w (emit ev) Q E s t = Q () s (t @ [ev])"
  by (simp_all add: skip_def modify_def emit_def wp_prims)

lemma wp_do_if [wp_rules]: "wp w (do_if b p) Q E s t = (if b then wp w p Q E s t else Q () s t)"
  by (simp add: do_if_def wp_prims)

lemma wp_if [wp_rules]:
  "wp w (if b then p else q) Q E s t = (if b then wp w p Q E s t else wp w q Q E s t)"
  by simp

lemma wp_let [wp_rules]: "wp w (let x = v in p x) Q E s t = (let x = v in wp w (p x) Q E s t)"
  by (simp add: Let_def)

lemma wp_option [wp_rules]:
  "wp w (case x of None \<Rightarrow> p | Some a \<Rightarrow> q a) Q E s t =
     (case x of None \<Rightarrow> wp w p Q E s t | Some a \<Rightarrow> wp w (q a) Q E s t)"
  by (cases x) simp_all

lemma wp_fetch [wp_rules]:
  "wp w (fetch rq) Q E s t =
     (case w t (Fetch rq) of RResp x \<Rightarrow> Q x s (t @ [Fetch rq]) | RFail e \<Rightarrow> E e s (t @ [Fetch rq])
      | _ \<Rightarrow> E TypeErr s (t @ [Fetch rq]))"
  by (simp add: fetch_def wp_prims split: reply.split)

lemma wp_res_json [wp_rules]:
  "wp w (res_json x) Q E s t =
     (case rs_json x of None \<Rightarrow> E SyntaxErr s t | Some v \<Rightarrow> Q v s t)"
  by (simp add: res_json_def wp_prims split: option.split)

lemma wp_prop_of [wp_rules]:
  "wp w (prop_of v k) Q E s t = (if nullish v then E TypeErr s t else Q (jget v k) s t)"
  by (simp add: prop_of_def wp_prims)

lemma wp_need_slice [wp_rules]:
  "wp w (need_slice v) Q E s t = (if is_str v \<or> is_arr v then Q () s t else E TypeErr s t)"
  by (simp add: need_slice_def wp_prims)

text \<open>A postcondition is weakened by consequence.\<close>

lemma wp_mono:
  "wp w p Q E s t \<Longrightarrow> (\<And>a s' t'. Q a s' t' \<Longrightarrow> Q' a s' t') \<Longrightarrow>
     (\<And>e s' t'. E e s' t' \<Longrightarrow> E' e s' t') \<Longrightarrow> wp w p Q' E' s t"
  by (auto simp: wp_def split: prod.splits sum.splits)

lemma wp_state_of: "wp w p (\<lambda>_ s' _. P s') (\<lambda>_ s' _. P s') s [] \<longleftrightarrow> P (state_of w p s)"
  by (auto simp: wp_def state_of_def split: prod.splits sum.splits)

lemma wp_trace_of: "wp w p (\<lambda>_ _ t'. P t') (\<lambda>_ _ t'. P t') s [] \<longleftrightarrow> P (trace_of w p s)"
  by (auto simp: wp_def trace_of_def split: prod.splits sum.splits)

lemma wp_result_of:
  "wp w p (\<lambda>a _ _. P (Inr a)) (\<lambda>e _ _. P (Inl e)) s [] \<longleftrightarrow> P (result_of w p s)"
  by (auto simp: wp_def result_of_def split: prod.splits sum.splits)

lemma wp_run: "wp w p (\<lambda>a s' t'. P (Inr a, s', t')) (\<lambda>e s' t'. P (Inl e, s', t')) s t
    \<longleftrightarrow> P (run w p s t)"
  by (auto simp: wp_def split: prod.splits sum.splits)

text \<open>Executing a handler; a precondition that picks one outcome gives the run.\<close>

lemma run_of_wp:
  assumes "\<And>(Q :: 'a \<Rightarrow> 's \<Rightarrow> trace \<Rightarrow> bool) E. wp w p Q E s t = Q a s' t'"
  shows "run w p s t = (Inr a, s', t')"
  using assms [where Q = "\<lambda>b u v. (b, u, v) = (a, s', t')" and E = "\<lambda>_ _ _. False"]
  by (auto simp: wp_def split: prod.splits sum.splits)

lemma run_seq: "run w (seq p q) s t =
    (case run w p s t of (Inl e, s', t') \<Rightarrow> (Inl e, s', t') | (Inr a, s', t') \<Rightarrow> run w q s' t')"
  by (simp add: seq_def run_bind)

lemma run_gets: "run w (gets f) s t = (Inr (f s), s, t)"
  by (simp add: gets_def)

lemma run_basic:
  "run w skip s t = (Inr (), s, t)"
  "run w (modify f) s t = (Inr (), f s, t)"
  "run w (emit ev) s t = (Inr (), s, t @ [ev])"
  "run w (do_if b p) s t = (if b then run w p s t else (Inr (), s, t))"
  by (simp_all add: skip_def modify_def emit_def do_if_def)

lemma run_fetch:
  "run w (fetch rq) s t =
     ((case w t (Fetch rq) of RResp x \<Rightarrow> Inr x | RFail e \<Rightarrow> Inl e | _ \<Rightarrow> Inl TypeErr), s, t @ [Fetch rq])"
  by (simp add: fetch_def split: reply.split)

lemma run_library:
  "run w (res_json x) s t = (case rs_json x of None \<Rightarrow> Inl SyntaxErr | Some v \<Rightarrow> Inr v, s, t)"
  "run w (prop_of v k) s t = (if nullish v then Inl TypeErr else Inr (jget v k), s, t)"
  by (simp_all add: res_json_def prop_of_def split: option.split)

lemmas [run_rules] = run_bind run_seq run_try_catch run_try_finally run_gets run_basic
  run_fetch run_library

section \<open>Handlers that only read\<close>

text \<open>\<open>keeps p\<close>: however \<open>p\<close> ends, the state is the one it started in.\<close>

definition keeps :: "('s, 'a) prog \<Rightarrow> bool" where
  "keeps p = (\<forall>w s t. fst (snd (run w p s t)) = s)"

lemma keeps_run: "keeps p \<Longrightarrow> run w p s t = (r, s', t') \<Longrightarrow> s' = s"
  unfolding keeps_def by (metis fst_conv snd_conv)

lemma keeps_state_of: "keeps p \<Longrightarrow> state_of w p s = s"
  by (simp add: keeps_def state_of_def)

lemma keeps_prims [keeps_rules]:
  "keeps (Return a)"
  "keeps (Raise e)"
  "keeps skip"
  "keeps (emit ev)"
  "keeps (gets f)"
  by (simp_all add: keeps_def skip_def emit_def gets_def)

lemma keeps_Await [keeps_rules]: "(\<And>r. keeps (k r)) \<Longrightarrow> keeps (Await e k)"
  by (simp add: keeps_def)

lemma keeps_bind [keeps_rules]: "keeps p \<Longrightarrow> (\<And>a. keeps (f a)) \<Longrightarrow> keeps (bind p f)"
  unfolding keeps_def run_bind by (auto split: prod.splits sum.splits) (metis fst_conv snd_conv)+

lemma keeps_seq [keeps_rules]: "keeps p \<Longrightarrow> keeps q \<Longrightarrow> keeps (seq p q)"
  unfolding seq_def by (rule keeps_bind)

lemma keeps_try_catch [keeps_rules]: "keeps p \<Longrightarrow> (\<And>e. keeps (h e)) \<Longrightarrow> keeps (try_catch p h)"
  unfolding keeps_def run_try_catch by (auto split: prod.splits sum.splits) (metis fst_conv snd_conv)+

lemma keeps_cases [keeps_rules]:
  "(b \<Longrightarrow> keeps p) \<Longrightarrow> (\<not> b \<Longrightarrow> keeps q) \<Longrightarrow> keeps (if b then p else q)"
  "(b \<Longrightarrow> keeps u) \<Longrightarrow> keeps (do_if b u)"
  "keeps (g v) \<Longrightarrow> keeps (let x = v in g x)"
  by (simp_all add: do_if_def keeps_prims)

lemma keeps_option [keeps_rules]:
  "(x = None \<Longrightarrow> keeps p) \<Longrightarrow> (\<And>a. x = Some a \<Longrightarrow> keeps (q a)) \<Longrightarrow>
     keeps (case x of None \<Rightarrow> p | Some a \<Rightarrow> q a)"
  by (cases x) simp_all

lemma keeps_library [keeps_rules]:
  "keeps (fetch rq)"
  "keeps (res_json x)"
  "keeps (prop_of v k)"
  "keeps (need_slice v)"
  by (auto simp: fetch_def res_json_def prop_of_def need_slice_def
      intro!: keeps_prims keeps_Await split: reply.split option.split)

lemma wp_total: "(\<And>a s' t'. Q a s' t') \<Longrightarrow> (\<And>e s' t'. E e s' t') \<Longrightarrow> wp w p Q E s t"
  by (auto simp: wp_def split: prod.splits sum.splits)

lemma wp_no_error:
  "(\<And>a s' t'. Q a s' t') \<Longrightarrow> wp w (try_catch p (\<lambda>_. Return d)) Q E s t"
  by (auto simp: wp_try_catch wp_prims intro: wp_total)

section \<open>The events of a handler\<close>

text \<open>Whatever state it runs in and whatever is replied, every event of the handler satisfies \<open>P\<close>.\<close>

primrec emits_only :: "(event \<Rightarrow> bool) \<Rightarrow> ('s, 'a) prog \<Rightarrow> bool" where
  "emits_only P (Return a) = True"
| "emits_only P (Raise e) = True"
| "emits_only P (Get g) = (\<forall>s. emits_only P (g s))"
| "emits_only P (Put s p) = emits_only P p"
| "emits_only P (Emit e p) = (P e \<and> emits_only P p)"
| "emits_only P (Await e k) = (P e \<and> (\<forall>r. emits_only P (k r)))"

lemma emits_only_run:
  "emits_only P p \<Longrightarrow> run w p s t = (r, s', t') \<Longrightarrow> \<exists>evs. t' = t @ evs \<and> (\<forall>e \<in> set evs. P e)"
proof (induction p arbitrary: s t)
  case (Get g)
  then have "emits_only P (g s)" "run w (g s) s t = (r, s', t')" by auto
  with Get.IH show ?case by blast
next
  case (Emit e p)
  then obtain evs where "t' = (t @ [e]) @ evs" "\<forall>e \<in> set evs. P e" by fastforce
  with Emit.prems show ?case by (intro exI [of _ "e # evs"]) simp
next
  case (Await e k)
  then have "emits_only P (k (w t e))" "run w (k (w t e)) s (t @ [e]) = (r, s', t')" by auto
  with Await.IH obtain evs where "t' = (t @ [e]) @ evs" "\<forall>e \<in> set evs. P e" by blast
  with Await.prems show ?case by (intro exI [of _ "e # evs"]) simp
qed auto

lemma emits_only_mono: "emits_only P p \<Longrightarrow> (\<And>e. P e \<Longrightarrow> Q e) \<Longrightarrow> emits_only Q p"
  by (induction p) auto

lemma only_bind [only_rules]:
  "emits_only P p \<Longrightarrow> (\<And>a. emits_only P (f a)) \<Longrightarrow> emits_only P (bind p f)"
  by (induction p) auto

lemma only_seq [only_rules]: "emits_only P p \<Longrightarrow> emits_only P q \<Longrightarrow> emits_only P (seq p q)"
  unfolding seq_def by (rule only_bind)

lemma only_try_catch [only_rules]:
  "emits_only P p \<Longrightarrow> (\<And>e. emits_only P (h e)) \<Longrightarrow> emits_only P (try_catch p h)"
  by (induction p) auto

lemma only_try_finally [only_rules]:
  "emits_only P p \<Longrightarrow> emits_only P c \<Longrightarrow> emits_only P (try_finally p c)"
  by (induction p) (auto intro: only_bind)

lemma only_prims [only_rules]:
  "emits_only P (Return a)" "emits_only P (Raise e)" "emits_only P skip" "emits_only P (gets f)"
  "emits_only P (modify g)" "emits_only P (res_json x)" "emits_only P (prop_of v k)"
  "emits_only P (need_slice v)"
  by (simp_all add: skip_def gets_def modify_def res_json_def prop_of_def need_slice_def split: option.split)

lemma only_events [only_rules]:
  "P e \<Longrightarrow> emits_only P (emit e)"
  "P e \<Longrightarrow> (\<And>r. emits_only P (k r)) \<Longrightarrow> emits_only P (Await e k)"
  "P (Fetch rq) \<Longrightarrow> emits_only P (fetch rq)"
  by (simp_all add: emit_def fetch_def split: reply.split)

lemma only_cases [only_rules]:
  "(b \<Longrightarrow> emits_only P p) \<Longrightarrow> (\<not> b \<Longrightarrow> emits_only P q) \<Longrightarrow> emits_only P (if b then p else q)"
  "(b \<Longrightarrow> emits_only P u) \<Longrightarrow> emits_only P (do_if b u)"
  "emits_only P (g v) \<Longrightarrow> emits_only P (let x = v in g x)"
  by (simp_all add: do_if_def)

lemma only_option [only_rules]:
  "emits_only P p \<Longrightarrow> (\<And>a. emits_only P (q a)) \<Longrightarrow> emits_only P (case x of None \<Rightarrow> p | Some a \<Rightarrow> q a)"
  by (cases x) simp_all

lemma only_sum [only_rules]:
  "(\<And>e. emits_only P (p e)) \<Longrightarrow> (\<And>a. emits_only P (q a)) \<Longrightarrow>
     emits_only P (case x of Inl e \<Rightarrow> p e | Inr a \<Rightarrow> q a)"
  by (cases x) simp_all

text \<open>Passing a call that does not write, and one that causes no effect either.\<close>

lemma wp_keeps: "keeps p \<Longrightarrow> (\<And>a t'. Q a s t') \<Longrightarrow> (\<And>e t'. E e s t') \<Longrightarrow> wp w p Q E s t"
  unfolding wp_def by (auto split: prod.splits sum.splits dest: keeps_run)

lemma run_silent:
  assumes "keeps p" "emits_only (\<lambda>_. False) p"
  obtains r where "run w p s t = (r, s, t)"
proof -
  obtain r s' t' where rn: "run w p s t = (r, s', t')" by (metis prod.collapse)
  have "s' = s" "t' = t" using keeps_run [OF assms(1) rn] emits_only_run [OF assms(2) rn] by auto
  with rn that show ?thesis by blast
qed

lemma wp_silent:
  assumes "keeps p" "emits_only (\<lambda>_. False) p" "\<And>a. Q a s t" "\<And>e. E e s t"
  shows "wp w p Q E s t"
proof -
  obtain r where "run w p s t = (r, s, t)" by (rule run_silent [OF assms(1,2)])
  with assms(3,4) show ?thesis by (auto simp: wp_def split: sum.split)
qed

section \<open>Interleaved handlers\<close>

text \<open>A handler runs to its next \<open>Await\<close>, or to its end, without interruption.\<close>

primrec advance :: "('s, 'a) prog \<Rightarrow> 's \<Rightarrow> trace \<Rightarrow> ('s, 'a) prog \<times> 's \<times> trace" where
  "advance (Return a) s t = (Return a, s, t)"
| "advance (Raise e) s t = (Raise e, s, t)"
| "advance (Get g) s t = advance (g s) s t"
| "advance (Put s' p) s t = advance p s' t"
| "advance (Emit e p) s t = advance p s (t @ [e])"
| "advance (Await e k) s t = (Await e k, s, t)"

record ('s, 'a) pool =
  tasks :: "('s, 'a) prog list"
  shared :: 's
  history :: trace

text \<open>Start a handler: it runs synchronously to its first \<open>Await\<close> and is parked there.\<close>

definition pool_start :: "('s, 'a) prog \<Rightarrow> ('s, 'a) pool \<Rightarrow> ('s, 'a) pool" where
  "pool_start p pl = (case advance p (shared pl) (history pl) of
     (p', s', t') \<Rightarrow> \<lparr>tasks = tasks pl @ [p'], shared = s', history = t'\<rparr>)"

text \<open>Resume the parked handler \<open>i\<close> with reply \<open>r\<close>; a finished one stays as it is.\<close>

definition pool_resume :: "nat \<Rightarrow> reply \<Rightarrow> ('s, 'a) pool \<Rightarrow> ('s, 'a) pool" where
  "pool_resume i r pl =
     (if i < length (tasks pl) then
        (case tasks pl ! i of
           Await e k \<Rightarrow> (case advance (k r) (shared pl) (history pl @ [e]) of
              (p', s', t') \<Rightarrow> \<lparr>tasks = (tasks pl)[i := p'], shared = s', history = t'\<rparr>)
         | _ \<Rightarrow> pl)
      else pl)"

datatype ('s, 'a) move = Start "('s, 'a) prog" | Resume nat reply

fun pool_exec :: "('s, 'a) move list \<Rightarrow> ('s, 'a) pool \<Rightarrow> ('s, 'a) pool" where
  "pool_exec [] pl = pl"
| "pool_exec (Start p # ms) pl = pool_exec ms (pool_start p pl)"
| "pool_exec (Resume i r # ms) pl = pool_exec ms (pool_resume i r pl)"

text \<open>The pools reachable by starting handlers of a given set and resuming parked ones.\<close>

inductive pool_reach :: "(('s, 'a) prog \<Rightarrow> bool) \<Rightarrow> 's \<Rightarrow> ('s, 'a) pool \<Rightarrow> bool"
  for H :: "('s, 'a) prog \<Rightarrow> bool" and s0 :: 's where
  pool_init: "pool_reach H s0 \<lparr>tasks = [], shared = s0, history = []\<rparr>"
| pool_spawn: "pool_reach H s0 pl \<Longrightarrow> H p \<Longrightarrow> pool_reach H s0 (pool_start p pl)"
| pool_wake: "pool_reach H s0 pl \<Longrightarrow> pool_reach H s0 (pool_resume i r pl)"

lemma pool_exec_reach:
  "pool_reach H s0 pl \<Longrightarrow> (\<forall>p. Start p \<in> set ms \<longrightarrow> H p) \<Longrightarrow> pool_reach H s0 (pool_exec ms pl)"
  by (induction ms pl rule: pool_exec.induct) (auto intro: pool_reach.intros)

subsection \<open>Invariants of interleaved handlers\<close>

text \<open>
  \<open>iwp I p Q E s\<close>: from state \<open>s\<close>, \<open>p\<close> establishes \<open>I\<close> wherever it is suspended, whatever other
  handlers that keep \<open>I\<close> do to the state meanwhile and whatever the replies are, and it ends in
  \<open>Q\<close> or, with an exception, in \<open>E\<close>.
\<close>

primrec iwp :: "('s \<Rightarrow> bool) \<Rightarrow> ('s, 'a) prog \<Rightarrow> ('a \<Rightarrow> 's \<Rightarrow> bool) \<Rightarrow> (exn \<Rightarrow> 's \<Rightarrow> bool) \<Rightarrow> 's \<Rightarrow> bool" where
  "iwp I (Return a) Q E s = Q a s"
| "iwp I (Raise e) Q E s = E e s"
| "iwp I (Get g) Q E s = iwp I (g s) Q E s"
| "iwp I (Put s' p) Q E s = iwp I p Q E s'"
| "iwp I (Emit ev p) Q E s = iwp I p Q E s"
| "iwp I (Await ev k) Q E s = (I s \<and> (\<forall>r s'. I s' \<longrightarrow> iwp I (k r) Q E s'))"

lemma iwp_ends: "iwp I (Return a) Q E = Q a" "iwp I (Raise e) Q E = E e"
  by (rule ext, simp)+

lemma iwp_mono:
  "iwp I p Q E s \<Longrightarrow> (\<And>a s'. Q a s' \<Longrightarrow> Q' a s') \<Longrightarrow> (\<And>e s'. E e s' \<Longrightarrow> E' e s') \<Longrightarrow> iwp I p Q' E' s"
  by (induction p arbitrary: s) auto

lemma iwp_bind [iwp_rules]: "iwp I (bind p f) Q E s = iwp I p (\<lambda>a. iwp I (f a) Q E) E s"
  by (induction p arbitrary: s) auto

lemma iwp_seq [iwp_rules]: "iwp I (seq p q) Q E s = iwp I p (\<lambda>_. iwp I q Q E) E s"
  by (simp add: seq_def iwp_bind)

lemma iwp_try_catch [iwp_rules]:
  "iwp I (try_catch p h) Q E s = iwp I p Q (\<lambda>e. iwp I (h e) Q E) s"
  by (induction p arbitrary: s) auto

lemma iwp_try_finally [iwp_rules]:
  "iwp I (try_finally p c) Q E s =
     iwp I p (\<lambda>a. iwp I c (\<lambda>_. Q a) E) (\<lambda>e. iwp I c (\<lambda>_. E e) E) s"
  by (induction p arbitrary: s) (simp_all add: iwp_bind iwp_ends)

lemma iwp_gets [iwp_rules]: "iwp I (gets f) Q E s = Q (f s) s"
  by (simp add: gets_def)

lemma iwp_basic [iwp_rules]:
  "iwp I skip Q E s = Q () s"
  "iwp I (modify f) Q E s = Q () (f s)"
  "iwp I (emit ev) Q E s = Q () s"
  "iwp I (do_if b p) Q E s = (if b then iwp I p Q E s else Q () s)"
  by (simp_all add: skip_def modify_def emit_def do_if_def)

lemma iwp_if [iwp_rules]:
  "iwp I (if b then p else q) Q E s = (if b then iwp I p Q E s else iwp I q Q E s)"
  by simp

lemma iwp_let [iwp_rules]: "iwp I (let x = v in p x) Q E s = (let x = v in iwp I (p x) Q E s)"
  by (simp add: Let_def)

lemma iwp_option [iwp_rules]:
  "iwp I (case x of None \<Rightarrow> p | Some a \<Rightarrow> q a) Q E s =
     (case x of None \<Rightarrow> iwp I p Q E s | Some a \<Rightarrow> iwp I (q a) Q E s)"
  by (cases x) simp_all

lemma iwp_fetch [iwp_rules]:
  "iwp I (fetch rq) Q E s =
     (I s \<and> (\<forall>s'. I s' \<longrightarrow> (\<forall>x. Q x s') \<and> (\<forall>e. E e s')))"
proof -
  have "(\<forall>r. iwp I (case r of RResp x \<Rightarrow> Return x | RFail e \<Rightarrow> Raise e | _ \<Rightarrow> Raise TypeErr) Q E s')
      \<longleftrightarrow> (\<forall>x. Q x s') \<and> (\<forall>e. E e s')" (is "?l = ?r") for s'
  proof
    assume l: ?l
    have "Q x s'" for x using spec [OF l, of "RResp x"] by simp
    moreover have "E e s'" for e using spec [OF l, of "RFail e"] by simp
    ultimately show ?r by blast
  qed (auto split: reply.split)
  then show ?thesis by (simp add: fetch_def) blast
qed

lemma iwp_library [iwp_rules]:
  "iwp I (res_json x) Qv E s = (case rs_json x of None \<Rightarrow> E SyntaxErr s | Some v \<Rightarrow> Qv v s)"
  "iwp I (prop_of v k) Qv E s = (if nullish v then E TypeErr s else Qv (jget v k) s)"
  "iwp I (need_slice v) Qu E s = (if is_str v \<or> is_arr v then Qu () s else E TypeErr s)"
  by (simp_all add: res_json_def prop_of_def need_slice_def split: option.split)

text \<open>A handler up to its next suspension, and the pools of handlers that keep \<open>I\<close>.\<close>

text \<open>\<open>gives I P p\<close>: \<open>p\<close> keeps \<open>I\<close> from suspension to suspension, and what it returns satisfies \<open>P\<close>.\<close>

definition gives :: "('s \<Rightarrow> bool) \<Rightarrow> ('a \<Rightarrow> bool) \<Rightarrow> ('s, 'a) prog \<Rightarrow> bool" where
  "gives I P p = (\<forall>s. I s \<longrightarrow> iwp I p (\<lambda>a s'. I s' \<and> P a) (\<lambda>_. I) s)"

definition keeps_inv :: "('s \<Rightarrow> bool) \<Rightarrow> ('s, 'a) prog \<Rightarrow> bool" where
  "keeps_inv I p = gives I (\<lambda>_. True) p"

primrec parked :: "('s \<Rightarrow> bool) \<Rightarrow> ('s, 'a) prog \<Rightarrow> bool" where
  "parked I (Return a) = True"
| "parked I (Raise e) = True"
| "parked I (Get g) = False"
| "parked I (Put s p) = False"
| "parked I (Emit e p) = False"
| "parked I (Await e k) = (\<forall>r s'. I s' \<longrightarrow> iwp I (k r) (\<lambda>_. I) (\<lambda>_. I) s')"

lemma advance_iwp:
  "iwp I p (\<lambda>_. I) (\<lambda>_. I) s \<Longrightarrow>
     (case advance p s t of (p', s', t') \<Rightarrow> parked I p' \<and> I s')"
  by (induction p arbitrary: s t) auto

definition pool_inv :: "('s \<Rightarrow> bool) \<Rightarrow> ('s, 'a) pool \<Rightarrow> bool" where
  "pool_inv I pl = (I (shared pl) \<and> (\<forall>p \<in> set (tasks pl). parked I p))"

lemma pool_inv_start:
  assumes "pool_inv I pl" "keeps_inv I p"
  shows "pool_inv I (pool_start p pl)"
  using assms advance_iwp [of I p "shared pl" "history pl"]
  by (auto simp: pool_inv_def keeps_inv_def gives_def pool_start_def split: prod.splits)

lemma pool_inv_resume:
  assumes inv: "pool_inv I pl"
  shows "pool_inv I (pool_resume i r pl)"
proof (cases "i < length (tasks pl)")
  case True
  then have parked: "parked I (tasks pl ! i)" using inv by (simp add: pool_inv_def)
  show ?thesis
  proof (cases "tasks pl ! i")
    case (Await e k)
    have "iwp I (k r) (\<lambda>_. I) (\<lambda>_. I) (shared pl)"
      using parked inv Await by (simp add: pool_inv_def)
    then have "case advance (k r) (shared pl) (history pl @ [e]) of (p', s', t') \<Rightarrow> parked I p' \<and> I s'"
      by (rule advance_iwp)
    then show ?thesis
      using inv True Await set_update_subset_insert [of "tasks pl" i]
      by (auto simp: pool_inv_def pool_resume_def split: prod.splits)
  qed (use inv True in \<open>simp_all add: pool_resume_def\<close>)
qed (use inv in \<open>simp add: pool_resume_def\<close>)

text \<open>
  An invariant that every handler keeps from suspension to suspension holds in every state that
  any interleaving of the handlers reaches.
\<close>

lemma pool_reach_inv:
  assumes "pool_reach H s0 pl" "I s0" "\<And>p. H p \<Longrightarrow> keeps_inv I p"
  shows "I (shared pl)"
proof -
  have "pool_inv I pl"
    using assms(1)
    by induction (simp_all add: pool_inv_def [of I "\<lparr>tasks = [], shared = s0, history = []\<rparr>"] assms
        pool_inv_start pool_inv_resume)
  then show ?thesis by (simp add: pool_inv_def)
qed

subsection \<open>Keeping an invariant, compositionally\<close>

lemma gives_weaken: "gives I P p \<Longrightarrow> (\<And>a. P a \<Longrightarrow> Q a) \<Longrightarrow> gives I Q p"
  by (auto simp: gives_def elim!: iwp_mono)

lemma gives_keeps: "gives I P p \<Longrightarrow> keeps_inv I p"
  unfolding keeps_inv_def by (erule gives_weaken) simp

lemma keeps_invI: "(\<And>s. I s \<Longrightarrow> iwp I p (\<lambda>_. I) (\<lambda>_. I) s) \<Longrightarrow> keeps_inv I p"
  by (simp add: keeps_inv_def gives_def)

lemma keeps_invD: "keeps_inv I p \<Longrightarrow> I s \<Longrightarrow> iwp I p (\<lambda>_. I) (\<lambda>_. I) s"
  by (simp add: keeps_inv_def gives_def)

lemma gives_bind:
  "gives I P p \<Longrightarrow> (\<And>a. P a \<Longrightarrow> gives I Q (f a)) \<Longrightarrow> gives I Q (bind p f)"
  by (auto simp: gives_def iwp_bind elim!: iwp_mono)

lemma gives_bind_keep:
  "keeps_inv I p \<Longrightarrow> (\<And>a. gives I Q (f a)) \<Longrightarrow> gives I Q (bind p f)"
  unfolding keeps_inv_def by (rule gives_bind)

lemma gives_seq: "keeps_inv I p \<Longrightarrow> gives I Q q \<Longrightarrow> gives I Q (seq p q)"
  unfolding seq_def by (rule gives_bind_keep)

lemma gives_ends:
  "P a \<Longrightarrow> gives I P (Return a)" "gives I P (Raise e)"
  by (simp_all add: gives_def)

lemma gives_if:
  "(b \<Longrightarrow> gives I P p) \<Longrightarrow> (\<not> b \<Longrightarrow> gives I P q) \<Longrightarrow> gives I P (if b then p else q)"
  by simp

lemma gives_let: "gives I P (g v) \<Longrightarrow> gives I P (let x = v in g x)"
  by simp

lemma gives_prop_of: "(\<not> nullish v \<Longrightarrow> gives I P (f (jget v k))) \<Longrightarrow> gives I P (bind (prop_of v k) f)"
  by (simp add: gives_def iwp_rules)

lemma gives_need_slice:
  "(is_str v \<or> is_arr v \<Longrightarrow> gives I P p) \<Longrightarrow> gives I P (seq (need_slice v) p)"
  by (simp add: gives_def iwp_rules)

lemmas gives_rules = gives_seq gives_ends gives_if gives_let gives_prop_of gives_need_slice

lemma inv_use_gives: "keeps_inv I (bind p f)" if "gives I P p" "\<And>a. P a \<Longrightarrow> keeps_inv I (f a)"
  using that gives_bind [of I P p "\<lambda>_. True" f] by (simp add: keeps_inv_def)

lemma inv_prop_of: "(\<not> nullish v \<Longrightarrow> keeps_inv I (f (jget v k))) \<Longrightarrow> keeps_inv I (bind (prop_of v k) f)"
  unfolding keeps_inv_def by (rule gives_prop_of)

lemma inv_need_slice:
  "(is_str v \<or> is_arr v \<Longrightarrow> keeps_inv I p) \<Longrightarrow> keeps_inv I (seq (need_slice v) p)"
  unfolding keeps_inv_def by (rule gives_need_slice)

lemma inv_prims [inv_rules]:
  "keeps_inv I (Return a)" "keeps_inv I (Raise e)" "keeps_inv I skip" "keeps_inv I (emit ev)"
  "keeps_inv I (gets f)" "keeps_inv I (fetch rq)"
  by (simp_all add: keeps_inv_def gives_def iwp_rules)

lemma inv_library [inv_rules]:
  "keeps_inv I (res_json x)" "keeps_inv I (prop_of v k)" "keeps_inv I (need_slice v)"
  by (simp_all add: keeps_inv_def gives_def iwp_rules split: option.split)

lemma inv_modify [inv_rules]: "(\<And>s. I s \<Longrightarrow> I (f s)) \<Longrightarrow> keeps_inv I (modify f)"
  by (simp add: keeps_inv_def gives_def iwp_rules)

lemma inv_Await [inv_rules]: "(\<And>r. keeps_inv I (k r)) \<Longrightarrow> keeps_inv I (Await e k)"
  by (simp add: keeps_inv_def gives_def)

lemma inv_bind [inv_rules]:
  "keeps_inv I p \<Longrightarrow> (\<And>a. keeps_inv I (f a)) \<Longrightarrow> keeps_inv I (bind p f)"
  unfolding keeps_inv_def by (rule gives_bind)

lemma inv_seq [inv_rules]: "keeps_inv I p \<Longrightarrow> keeps_inv I q \<Longrightarrow> keeps_inv I (seq p q)"
  unfolding seq_def by (rule inv_bind)

lemma inv_try_catch [inv_rules]:
  "keeps_inv I p \<Longrightarrow> (\<And>e. keeps_inv I (h e)) \<Longrightarrow> keeps_inv I (try_catch p h)"
  by (auto simp: keeps_inv_def gives_def iwp_try_catch elim!: iwp_mono)

lemma inv_try_finally [inv_rules]:
  "keeps_inv I p \<Longrightarrow> keeps_inv I c \<Longrightarrow> keeps_inv I (try_finally p c)"
  by (auto simp: keeps_inv_def gives_def iwp_try_finally elim!: iwp_mono)

lemma inv_cases [inv_rules]:
  "(b \<Longrightarrow> keeps_inv I p) \<Longrightarrow> (\<not> b \<Longrightarrow> keeps_inv I q) \<Longrightarrow> keeps_inv I (if b then p else q)"
  "(b \<Longrightarrow> keeps_inv I u) \<Longrightarrow> keeps_inv I (do_if b u)"
  "keeps_inv I (g v) \<Longrightarrow> keeps_inv I (let x = v in g x)"
  by (simp_all add: do_if_def inv_prims)

lemma inv_option [inv_rules]:
  "keeps_inv I p \<Longrightarrow> (\<And>a. keeps_inv I (q a)) \<Longrightarrow> keeps_inv I (case x of None \<Rightarrow> p | Some a \<Rightarrow> q a)"
  by (cases x) simp_all

lemma inv_sum [inv_rules]:
  "(\<And>e. keeps_inv I (p e)) \<Longrightarrow> (\<And>a. keeps_inv I (q a)) \<Longrightarrow>
     keeps_inv I (case x of Inl e \<Rightarrow> p e | Inr a \<Rightarrow> q a)"
  by (cases x) simp_all

lemma inv_reply [inv_rules]:
  "keeps_inv I d \<Longrightarrow> (\<And>e. keeps_inv I (p e)) \<Longrightarrow> keeps_inv I (case r of RFail e \<Rightarrow> p e | _ \<Rightarrow> d)"
  by (cases r) simp_all

end
