(* ===== verification/Gate.thy ===== *)
theory Gate
  imports RecruiterTypes JsAsync
begin

text \<open>
  Deciding what a recruiter may see of a candidate.

  \<^item> \<open>src/navigation/verificationGateMachine.ts\<close>: the classifier \<open>gateStateFromOutcome\<close> of a
    verification outcome and the table of gate states with their routes and texts. An outcome
    arrives as unchecked JSON, so the classifier is modelled on values; \<open>outcome_js\<close> is the value
    of a well-typed outcome.
  \<^item> \<open>src/navigation/useCandidateDetailGate.ts\<close>, \<open>components/VerificationLockScreen.tsx\<close> and
    \<open>screens/CandidateDetail.tsx\<close>: the gate the detail screen really uses, and what it renders.
  \<^item> \<open>src/verification/verifyClient.ts\<close>: asking the server for an outcome.
  \<^item> \<open>src/navigation/devGateLogger.ts\<close>: the development log line.
\<close>

section \<open>Outcomes\<close>

datatype validity_window = ValidNow | NotValidNow | WindowUnknown

datatype revocation = NotRevoked | Revoked | RevocationUnknown

record why =
  why_summary :: string
  why_code :: string

record checks =
  chk_validity_window :: validity_window
  chk_revocation :: revocation

record verification_outcome =
  vo_signature :: signature_badge
  vo_trust :: trust_badge
  vo_why :: "why option"
  vo_checks :: "checks option"

fun window_string :: "validity_window \<Rightarrow> string" where
  "window_string ValidNow = ''valid_now''"
| "window_string NotValidNow = ''not_valid_now''"
| "window_string WindowUnknown = ''unknown''"

fun revocation_string :: "revocation \<Rightarrow> string" where
  "revocation_string NotRevoked = ''not_revoked''"
| "revocation_string Revoked = ''revoked''"
| "revocation_string RevocationUnknown = ''unknown''"

definition why_js :: "why \<Rightarrow> jsval" where
  "why_js y = JObj [(''summary'', JStr (why_summary y)), (''code'', JStr (why_code y))]"

definition checks_js :: "checks \<Rightarrow> jsval" where
  "checks_js c = JObj [(''validity_window'', JStr (window_string (chk_validity_window c))),
                       (''revocation'', JStr (revocation_string (chk_revocation c)))]"

definition outcome_js :: "verification_outcome \<Rightarrow> jsval" where
  "outcome_js out = JObj
     [(''signature'', JStr (sig_string (vo_signature out))),
      (''trust'', JStr (trust_string (vo_trust out))),
      (''why'', case vo_why out of None \<Rightarrow> JUndef | Some y \<Rightarrow> why_js y),
      (''checks'', case vo_checks out of None \<Rightarrow> JUndef | Some c \<Rightarrow> checks_js c)]"

section \<open>The gate machine\<close>

datatype gate_state =
    ALLOW | LOCK_UNKNOWN | LOCK_BAD_SIGNATURE | LOCK_REVOKED | LOCK_NOT_VALID_NOW
  | LOCK_UNTRUSTED | LOCK_POLICY

datatype cta_action = GO_BACK | OPEN_FILTERS | NO_ACTION

record cta =
  cta_text :: string
  cta_action :: cta_action

record gate_ux =
  ux_title :: string
  ux_message :: string
  ux_primary :: cta
  ux_secondary :: "cta option"

definition normalizeWhyCode :: "string option \<Rightarrow> string" where
  "normalizeWhyCode code = to_upper (trim (coalesce code []))"

definition isPolicyOrSchemaCode :: "string option \<Rightarrow> bool" where
  "isPolicyOrSchemaCode code =
     (let c = normalizeWhyCode code in
      if c = [] then False
      else starts_with c ''POLICY_'' \<or> starts_with c ''SCHEMA_'' \<or> starts_with c ''SHAPE_''
         \<or> starts_with c ''POL_'' \<or> str_includes c ''POLICY'' \<or> str_includes c ''SCHEMA''
         \<or> str_includes c ''SHAPE'')"

text \<open>
  \<open>outcome.why?.code\<close> as \<open>normalizeWhyCode\<close> uses it: nothing when nullish, and \<open>trim\<close> is no
  method of a value that is not a string.
\<close>

definition why_code_arg :: "jsval \<Rightarrow> exn + string option" where
  "why_code_arg v = (if nullish v then Inr None else if is_str v then Inr (Some (the_str v))
                     else Inl TypeErr)"

definition nullish_or :: "jsval \<Rightarrow> jsval \<Rightarrow> jsval" where
  "nullish_or v d = (if nullish v then d else v)"

definition gateStateFromOutcome :: "jsval \<Rightarrow> exn + gate_state" where
  "gateStateFromOutcome outcome =
    (if \<not> truthy outcome then Inr LOCK_UNKNOWN
     else if jget outcome ''signature'' = JStr ''invalid'' then Inr LOCK_BAD_SIGNATURE
     else if jget outcome ''signature'' = JStr ''unknown'' then Inr LOCK_UNKNOWN
     else
       (let rev = nullish_or (jget (jget outcome ''checks'') ''revocation'') (JStr ''unknown'') in
        if rev = JStr ''revoked'' then Inr LOCK_REVOKED
        else
          (let vw = nullish_or (jget (jget outcome ''checks'') ''validity_window'') (JStr ''unknown'') in
           if vw = JStr ''not_valid_now'' then Inr LOCK_NOT_VALID_NOW
           else if jget outcome ''trust'' = JStr ''trusted'' then Inr ALLOW
           else if jget outcome ''trust'' = JStr ''unknown'' then Inr LOCK_UNKNOWN
           else
             (case why_code_arg (jget (jget outcome ''why'') ''code'') of
                Inl e \<Rightarrow> Inl e
              | Inr code \<Rightarrow> Inr (if isPolicyOrSchemaCode code then LOCK_POLICY else LOCK_UNTRUSTED)))))"

datatype gate_route = RecruiterCandidates | CandidateDetail | RecruiterFilters

record gate_entry =
  allowed_routes :: "gate_route list"
  entry_ux :: gate_ux

definition all_routes :: "gate_route list" where
  "all_routes = [RecruiterCandidates, CandidateDetail, RecruiterFilters]"

definition lock_entry :: "string \<Rightarrow> string \<Rightarrow> gate_entry" where
  "lock_entry title message = \<lparr>allowed_routes = all_routes, entry_ux =
     \<lparr>ux_title = title, ux_message = message,
      ux_primary = \<lparr>cta_text = ''Back to candidates'', cta_action = GO_BACK\<rparr>,
      ux_secondary = Some \<lparr>cta_text = ''Adjust filters'', cta_action = OPEN_FILTERS\<rparr>\<rparr>\<rparr>"

fun VERIFICATION_GATE_MACHINE :: "gate_state \<Rightarrow> gate_entry" where
  "VERIFICATION_GATE_MACHINE ALLOW = \<lparr>allowed_routes = all_routes, entry_ux =
     \<lparr>ux_title = ''Verified'',
      ux_message = ''This employment record is verified and trusted by your company policy.'',
      ux_primary = \<lparr>cta_text = ''Continue'', cta_action = NO_ACTION\<rparr>, ux_secondary = None\<rparr>\<rparr>"
| "VERIFICATION_GATE_MACHINE LOCK_UNKNOWN = lock_entry ''Verification unavailable''
     ''This record can't be verified right now, so details are locked for safety.''"
| "VERIFICATION_GATE_MACHINE LOCK_BAD_SIGNATURE = lock_entry ''Invalid signature''
     ''This record failed signature verification and cannot be trusted.''"
| "VERIFICATION_GATE_MACHINE LOCK_REVOKED = lock_entry ''Revoked''
     ''This employment record was revoked and cannot be used for verification.''"
| "VERIFICATION_GATE_MACHINE LOCK_NOT_VALID_NOW = lock_entry ''Not valid now''
     ''This record is outside its validity window, so details are locked.''"
| "VERIFICATION_GATE_MACHINE LOCK_UNTRUSTED = lock_entry ''Untrusted issuer''
     ''This issuer is not trusted, so details are locked until policy changes.''"
| "VERIFICATION_GATE_MACHINE LOCK_POLICY = lock_entry ''Blocked by policy''
     ''Your company policy blocks this record, so details are locked.''"

section \<open>The development log line\<close>

fun gate_name :: "gate_state \<Rightarrow> string" where
  "gate_name ALLOW = ''ALLOW''"
| "gate_name LOCK_UNKNOWN = ''LOCK_UNKNOWN''"
| "gate_name LOCK_BAD_SIGNATURE = ''LOCK_BAD_SIGNATURE''"
| "gate_name LOCK_REVOKED = ''LOCK_REVOKED''"
| "gate_name LOCK_NOT_VALID_NOW = ''LOCK_NOT_VALID_NOW''"
| "gate_name LOCK_UNTRUSTED = ''LOCK_UNTRUSTED''"
| "gate_name LOCK_POLICY = ''LOCK_POLICY''"

text \<open>\<open>None\<close> when nothing is logged; the empty-set sign for a missing previous state is \<open>(none)\<close>.\<close>

definition logGateTransition :: "bool \<Rightarrow> gate_state option \<Rightarrow> gate_state \<Rightarrow> string option \<Rightarrow>
    signature_badge option \<Rightarrow> trust_badge option \<Rightarrow> string option" where
  "logGateTransition is_dev prev next whyCode signature trust =
    (if \<not> is_dev then None
     else
       (let p = coalesce (map_option gate_name prev) ''(none)'';
            code = trim (coalesce whyCode []);
            meta = join_with '' ''
              ([''sig='' @ coalesce (map_option sig_string signature) ''?'',
                ''trust='' @ coalesce (map_option trust_string trust) ''?'']
               @ (if code = [] then [] else [''why='' @ code]))
        in Some (''[nav-lock] '' @ p @ '' -> '' @ gate_name next @
             (if meta = [] then [] else '' ('' @ meta @ '')''))))"

section \<open>The gate of the detail screen\<close>

datatype detail_gate = DALLOW | DLOCK_UNKNOWN | DLOCK_PENDING

fun gateFromVerificationState :: "verification_state option \<Rightarrow> detail_gate" where
  "gateFromVerificationState (Some VVerified) = DALLOW"
| "gateFromVerificationState (Some VUnverified) = DALLOW"
| "gateFromVerificationState (Some VPending) = DLOCK_PENDING"
| "gateFromVerificationState _ = DLOCK_UNKNOWN"

datatype gate_result =
    Checking
  | Ready detail_gate "candidate_row option" "verification_state option"

definition useCandidateDetailGate :: "candidate_row option \<Rightarrow> gate_result" where
  "useCandidateDetailGate prefetchSnapshot =
    (case prefetchSnapshot of
       None \<Rightarrow> Ready DLOCK_UNKNOWN None (Some VUnknown)
     | Some snap \<Rightarrow>
         (let verificationState = map_option vs_state (row_verification snap);
              gate = gateFromVerificationState verificationState
          in Ready gate (Some snap) verificationState))"

text \<open>What the detail screen renders: a lock with its two texts, or the lines of the record.\<close>

datatype detail_view = CheckingView | LockView string string | DetailView "string list"

definition VerificationLockScreen :: "detail_gate \<Rightarrow> detail_view" where
  "VerificationLockScreen gate = LockView
     (if gate = DLOCK_PENDING then ''Pending verification'' else ''Verification unavailable'')
     (if gate = DLOCK_PENDING
      then ''This record has not yet reached a usable verification outcome, so details are locked for now.''
      else ''This record does not currently have a usable verification outcome, so details are locked.'')"

definition opt_line :: "string \<Rightarrow> string option \<Rightarrow> string list" where
  "opt_line label x = (case x of None \<Rightarrow> [] | Some v \<Rightarrow> if v = [] then [] else [label @ v])"

definition CandidateDetailScreen :: "detail_params \<Rightarrow> detail_view" where
  "CandidateDetailScreen ps =
    (case useCandidateDetailGate (dp_snapshot ps) of
       Checking \<Rightarrow> CheckingView
     | Ready gate snap outcome \<Rightarrow>
         if gate \<noteq> DALLOW then VerificationLockScreen gate
         else
           (let vs = Option.bind snap row_verification;
                trust = map_option (\<lambda>r. badge_trust (row_badges r)) snap
            in DetailView
              ([''Candidate ID: '' @ dp_candidate_id ps, full_name (dp_subject ps)]
               @ opt_line ''Employee ID: '' (employee_id (dp_subject ps))
               @ opt_line ''Verification state: '' (map_option (\<lambda>v. vstate_string (vs_state v)) vs)
               @ opt_line ''Request status: ''
                   (map_option request_status_string (Option.bind vs vs_request_status))
               @ opt_line ''Trust result: ''
                   (map_option trust_result_string (Option.bind vs vs_trust_result))
               @ (if trust = Some Untrusted
                  then [''Warning: this issuer is not trusted by current recruiter policy.''] else [])
               @ (if trust = Some TrustUnknown
                  then [''Issuer trust is unknown under current recruiter policy.''] else [])
               @ [''Detail content is available because this request reached a usable verification outcome for recruiter review.''])))"

section \<open>Asking the server\<close>

definition unknown_outcome :: "string \<Rightarrow> string \<Rightarrow> jsval" where
  "unknown_outcome summary code = JObj
     [(''signature'', JStr ''unknown''), (''trust'', JStr ''unknown''),
      (''why'', JObj [(''summary'', JStr summary), (''code'', JStr code)]),
      (''checks'', JObj [(''validity_window'', JStr ''unknown''), (''revocation'', JStr ''unknown'')])]"

definition outcome_request :: "string \<Rightarrow> string \<Rightarrow> request" where
  "outcome_request base jws =
     \<lparr>rq_url = base @ ''/v1/verification/outcome'', rq_method = ''POST'',
      rq_headers = [(''Content-Type'', ''application/json'')], rq_credentials = [],
      rq_body = JObj [(''jwsCompact'', JStr jws)]\<rparr>"

text \<open>
  The log line after a successful response reads \<open>out.signature\<close>, \<open>out.trust\<close> and
  \<open>out.why?.code\<close>, in production too, so a body of \<open>null\<close> throws.
\<close>

definition verifyOutcomeOnServer :: "string \<Rightarrow> string \<Rightarrow> ('s, jsval) prog" where
  "verifyOutcomeOnServer base jws =
    (if base = [] then Return (unknown_outcome ''Missing API_BASE_URL'' ''MISSING_API_BASE_URL'')
     else
       bind (fetch (outcome_request base jws)) (\<lambda>res.
       if \<not> rs_ok res
       then Return (unknown_outcome ''Verification request failed.'' (''HTTP_'' @ int_string (rs_status res)))
       else
         bind (res_json res) (\<lambda>out.
         seq (prop_of out ''signature'')
         (seq (prop_of out ''trust'')
         (Return out)))))"

definition verifyOutcomeFromJws :: "string \<Rightarrow> string \<Rightarrow> ('s, jsval) prog" where
  "verifyOutcomeFromJws base jws = verifyOutcomeOnServer base jws"

section \<open>Gated views\<close>

text \<open>
  Both gates are used in the same way: a classifier with one open state decides whether the view
  is the locked one. A provider says which inputs are usable; a client learns that exactly the
  others are locked.
\<close>

locale gated_view =
  fixes gate :: "'i \<Rightarrow> 'g"
    and open_gate :: 'g
    and view :: "'i \<Rightarrow> 'v"
    and locked :: "'v \<Rightarrow> bool"
    and usable :: "'i \<Rightarrow> bool"
  assumes gate_open: "gate i = open_gate \<longleftrightarrow> usable i"
    and view_closed: "gate i \<noteq> open_gate \<Longrightarrow> locked (view i)"
    and view_open: "gate i = open_gate \<Longrightarrow> \<not> locked (view i)"
begin

lemma locked_iff: "locked (view i) \<longleftrightarrow> \<not> usable i"
  using gate_open view_closed view_open by blast

lemma usable_if_shown: "\<not> locked (view i) \<Longrightarrow> usable i"
  using locked_iff by blast

end

subsection \<open>The detail screen\<close>

definition detail_gate_of :: "detail_params \<Rightarrow> detail_gate" where
  "detail_gate_of ps = gateFromVerificationState
     (map_option vs_state (Option.bind (dp_snapshot ps) row_verification))"

definition has_usable_state :: "detail_params \<Rightarrow> bool" where
  "has_usable_state ps =
     (case Option.bind (dp_snapshot ps) row_verification of
        None \<Rightarrow> False | Some v \<Rightarrow> vs_state v = VVerified \<or> vs_state v = VUnverified)"

fun is_lock :: "detail_view \<Rightarrow> bool" where
  "is_lock (LockView a b) = True"
| "is_lock v = False"

lemma gateFromVerificationState_allow:
  "gateFromVerificationState st = DALLOW \<longleftrightarrow> st = Some VVerified \<or> st = Some VUnverified"
  by (cases st rule: gateFromVerificationState.cases) simp_all

lemma useCandidateDetailGate_gate:
  "\<exists>snap out. useCandidateDetailGate (dp_snapshot ps) = Ready (detail_gate_of ps) snap out"
  by (cases "dp_snapshot ps") (auto simp: useCandidateDetailGate_def detail_gate_of_def Let_def)

lemma CandidateDetailScreen_lock: "is_lock (CandidateDetailScreen ps) \<longleftrightarrow> detail_gate_of ps \<noteq> DALLOW"
  using useCandidateDetailGate_gate [of ps]
  by (auto simp: CandidateDetailScreen_def VerificationLockScreen_def Let_def)

interpretation detail_screen:
  gated_view detail_gate_of DALLOW CandidateDetailScreen is_lock has_usable_state
  by unfold_locales
    (auto simp: CandidateDetailScreen_lock detail_gate_of_def has_usable_state_def
      gateFromVerificationState_allow split: option.split)

text \<open>
  C1. The detail screen shows a candidate's record exactly when the row it was opened from
  carries a verification state and that state is verified or unverified; a pending, unknown or
  missing state, or a missing row, is always locked.
\<close>

theorem detail_shown_iff_usable:
  "\<not> is_lock (CandidateDetailScreen ps) \<longleftrightarrow>
     (\<exists>row v. dp_snapshot ps = Some row \<and> row_verification row = Some v \<and>
              (vs_state v = VVerified \<or> vs_state v = VUnverified))"
  unfolding detail_screen.locked_iff
  by (auto simp: has_usable_state_def split: option.split bind_splits)

subsection \<open>The outcome classifier\<close>

definition outcome_gate :: "verification_outcome \<Rightarrow> gate_state" where
  "outcome_gate out =
    (case vo_signature out of
       SigInvalid \<Rightarrow> LOCK_BAD_SIGNATURE
     | SigUnknown \<Rightarrow> LOCK_UNKNOWN
     | SigVerified \<Rightarrow>
        (if map_option chk_revocation (vo_checks out) = Some Revoked then LOCK_REVOKED
         else if map_option chk_validity_window (vo_checks out) = Some NotValidNow
         then LOCK_NOT_VALID_NOW
         else (case vo_trust out of
                 Trusted \<Rightarrow> ALLOW
               | TrustUnknown \<Rightarrow> LOCK_UNKNOWN
               | Untrusted \<Rightarrow>
                   if isPolicyOrSchemaCode (map_option why_code (vo_why out))
                   then LOCK_POLICY else LOCK_UNTRUSTED)))"

lemma outcome_js_get [simp]:
  "truthy (outcome_js out)"
  "jget (outcome_js out) ''signature'' = JStr (sig_string (vo_signature out))"
  "jget (outcome_js out) ''trust'' = JStr (trust_string (vo_trust out))"
  "jget (outcome_js out) ''why'' = (case vo_why out of None \<Rightarrow> JUndef | Some y \<Rightarrow> why_js y)"
  "jget (outcome_js out) ''checks'' = (case vo_checks out of None \<Rightarrow> JUndef | Some c \<Rightarrow> checks_js c)"
  by (simp_all add: outcome_js_def)

lemma outcome_js_code:
  "why_code_arg (jget (case vo_why out of None \<Rightarrow> JUndef | Some y \<Rightarrow> why_js y) ''code'')
     = Inr (map_option why_code (vo_why out))"
  by (cases "vo_why out") (simp_all add: why_code_arg_def nullish_def why_js_def)

lemma outcome_js_checks:
  "nullish_or (jget (case vo_checks out of None \<Rightarrow> JUndef | Some c \<Rightarrow> checks_js c) ''revocation'')
     (JStr ''unknown'') = JStr ''revoked''
   \<longleftrightarrow> map_option chk_revocation (vo_checks out) = Some Revoked"
  "nullish_or (jget (case vo_checks out of None \<Rightarrow> JUndef | Some c \<Rightarrow> checks_js c) ''validity_window'')
     (JStr ''unknown'') = JStr ''not_valid_now''
   \<longleftrightarrow> map_option chk_validity_window (vo_checks out) = Some NotValidNow"
proof -
  have r: "revocation_string x = ''revoked'' \<longleftrightarrow> x = Revoked" for x by (cases x) simp_all
  have v: "window_string x = ''not_valid_now'' \<longleftrightarrow> x = NotValidNow" for x by (cases x) simp_all
  show "nullish_or (jget (case vo_checks out of None \<Rightarrow> JUndef | Some c \<Rightarrow> checks_js c) ''revocation'')
     (JStr ''unknown'') = JStr ''revoked''
   \<longleftrightarrow> map_option chk_revocation (vo_checks out) = Some Revoked"
    by (cases "vo_checks out") (simp_all add: nullish_or_def nullish_def checks_js_def r)
  show "nullish_or (jget (case vo_checks out of None \<Rightarrow> JUndef | Some c \<Rightarrow> checks_js c) ''validity_window'')
     (JStr ''unknown'') = JStr ''not_valid_now''
   \<longleftrightarrow> map_option chk_validity_window (vo_checks out) = Some NotValidNow"
    by (cases "vo_checks out") (simp_all add: nullish_or_def nullish_def checks_js_def v)
qed

text \<open>On the value of a well-typed outcome the classifier computes \<open>outcome_gate\<close>.\<close>

lemma gateStateFromOutcome_typed: "gateStateFromOutcome (outcome_js out) = Inr (outcome_gate out)"
proof (cases "vo_signature out")
  case SigVerified
  then show ?thesis
    by (cases "vo_trust out")
      (simp_all add: gateStateFromOutcome_def outcome_gate_def Let_def outcome_js_code outcome_js_checks)
qed (simp_all add: gateStateFromOutcome_def outcome_gate_def)

text \<open>
  The outcomes that open the gate: the checks must not report a revocation or a closed window; they may
  be absent or unknown.
\<close>

definition outcome_usable :: "verification_outcome \<Rightarrow> bool" where
  "outcome_usable out =
    (vo_signature out = SigVerified \<and> vo_trust out = Trusted
     \<and> map_option chk_revocation (vo_checks out) \<noteq> Some Revoked
     \<and> map_option chk_validity_window (vo_checks out) \<noteq> Some NotValidNow)"

lemma outcome_gate_allow: "outcome_gate out = ALLOW \<longleftrightarrow> outcome_usable out"
  by (auto simp: outcome_gate_def outcome_usable_def split: signature_badge.split trust_badge.split)

lemma machine_secondary: "ux_secondary (entry_ux (VERIFICATION_GATE_MACHINE g)) = None \<longleftrightarrow> g = ALLOW"
  by (cases g) (simp_all add: lock_entry_def)

interpretation machine_view:
  gated_view outcome_gate ALLOW "\<lambda>out. entry_ux (VERIFICATION_GATE_MACHINE (outcome_gate out))"
    "\<lambda>ux. ux_secondary ux \<noteq> None" outcome_usable
  by unfold_locales (simp_all add: machine_secondary outcome_gate_allow)

text \<open>
  C2. For a well-typed outcome the classifier never throws, and it opens the gate exactly when
  the signature is verified, the issuer is trusted, and no check says \<open>revoked\<close> or \<open>not_valid_now\<close>.
  An outcome without checks, or whose checks say \<open>unknown\<close>, is not locked by them: revocation and
  validity need not have been confirmed. Precisely for the open gate the texts come without the
  lock's actions.
\<close>

theorem gate_opens_iff_usable:
  "(gateStateFromOutcome (outcome_js out) = Inr ALLOW \<longleftrightarrow>
       vo_signature out = SigVerified \<and> vo_trust out = Trusted
       \<and> (vo_checks out = None \<or> chk_revocation (the (vo_checks out)) \<noteq> Revoked
            \<and> chk_validity_window (the (vo_checks out)) \<noteq> NotValidNow)) \<and>
   (gateStateFromOutcome (outcome_js out) = Inr ALLOW \<longleftrightarrow> outcome_usable out) \<and>
   (\<exists>g. gateStateFromOutcome (outcome_js out) = Inr g \<and>
       (ux_secondary (entry_ux (VERIFICATION_GATE_MACHINE g)) \<noteq> None \<longleftrightarrow> \<not> outcome_usable out))"
  using machine_view.locked_iff
  by (auto simp: gateStateFromOutcome_typed outcome_gate_allow outcome_usable_def)

text \<open>
  On an arbitrary value, as a server may send it, the gate opens exactly when the value is
  truthy, its signature is neither \<open>invalid\<close> nor \<open>unknown\<close>, it is not reported revoked or out of
  its window, and its trust is \<open>trusted\<close>. In particular a missing or misspelt signature does not
  lock: only the two literal strings do.
\<close>

lemma gate_open_raw_iff:
  "gateStateFromOutcome v = Inr ALLOW \<longleftrightarrow>
     truthy v \<and> jget v ''signature'' \<notin> {JStr ''invalid'', JStr ''unknown''}
     \<and> jget (jget v ''checks'') ''revocation'' \<noteq> JStr ''revoked''
     \<and> jget (jget v ''checks'') ''validity_window'' \<noteq> JStr ''not_valid_now''
     \<and> jget v ''trust'' = JStr ''trusted''"
  by (auto simp: gateStateFromOutcome_def Let_def nullish_or_def nullish_def split: sum.split)

text \<open>A value without any signature field opens the gate.\<close>

lemma gate_open_without_signature:
  "gateStateFromOutcome (JObj [(''trust'', JStr ''trusted'')]) = Inr ALLOW"
  by (simp add: gateStateFromOutcome_def nullish_or_def nullish_def)

end
