(* ===== verification/NodeHost.thy ===== *)
theory NodeHost
  imports JsAsync
begin

text \<open>
  The Node process the command line programs run in: environment variables, the files they read,
  the clock, and what they append and print. A file carries its text and what \<open>JSON.parse\<close> makes
  of it; paths are relative to the working directory. \<open>clock h i\<close> is the \<open>i\<close>-th reading of
  \<open>new Date().toISOString()\<close>.

  \<open>pkg/logger.ts\<close> is modelled here: \<open>audit\<close> appends one JSON line to the day's log file and
  prints it.
\<close>

record disk_file =
  fl_text :: string
  fl_json :: "jsval option"

record node_host =
  env :: "string \<Rightarrow> string option"
  files :: "string \<Rightarrow> disk_file option"
  clock :: "nat \<Rightarrow> string"
  reads :: nat
  append_ok :: "string \<Rightarrow> bool"
  log_lines :: "(string \<times> jsval) list"
  out_lines :: "jsval list"

definition isoNow :: "(node_host, string) prog" where
  "isoNow = bind (gets (\<lambda>h. clock h (reads h))) (\<lambda>ts.
         seq (modify (\<lambda>h. h\<lparr>reads := Suc (reads h)\<rparr>)) (Return ts))"

definition print_line :: "jsval \<Rightarrow> (node_host, unit) prog" where
  "print_line l = modify (\<lambda>h. h\<lparr>out_lines := out_lines h @ [l]\<rparr>)"

text \<open>\<open>fs.readFileSync\<close> and \<open>JSON.parse(fs.readFileSync(p))\<close>.\<close>

definition read_text :: "string \<Rightarrow> (node_host, string) prog" where
  "read_text p = bind (gets (\<lambda>h. files h p)) (\<lambda>f. case f of
     None \<Rightarrow> Raise (JsErr ''ENOENT'') | Some x \<Rightarrow> Return (fl_text x))"

definition read_json :: "string \<Rightarrow> (node_host, jsval) prog" where
  "read_json p = bind (gets (\<lambda>h. files h p)) (\<lambda>f. case f of
     None \<Rightarrow> Raise (JsErr ''ENOENT'')
   | Some x \<Rightarrow> (case fl_json x of None \<Rightarrow> Raise SyntaxErr | Some v \<Rightarrow> Return v))"

section \<open>The audit log\<close>

datatype stage = SignatureStage | ShapeStage | LivenessStage | RevocationStage | PolicyStage

datatype outcome = ACCEPT | REJECT

record audit_event =
  au_stage :: stage
  au_outcome :: outcome
  au_reason :: "string option"
  au_details :: "(string \<times> jsval) list option"

fun stage_string :: "stage \<Rightarrow> string" where
  "stage_string SignatureStage = ''signature''"
| "stage_string ShapeStage = ''shape''"
| "stage_string LivenessStage = ''liveness''"
| "stage_string RevocationStage = ''revocation''"
| "stage_string PolicyStage = ''policy''"

fun outcome_string :: "outcome \<Rightarrow> string" where
  "outcome_string ACCEPT = ''ACCEPT''"
| "outcome_string REJECT = ''REJECT''"

definition audit_line :: "string \<Rightarrow> audit_event \<Rightarrow> jsval" where
  "audit_line ts e = JObj
     ([(''ts'', JStr ts), (''stage'', JStr (stage_string (au_stage e))),
       (''outcome'', JStr (outcome_string (au_outcome e)))]
      @ (case au_reason e of None \<Rightarrow> [] | Some r \<Rightarrow> [(''reason'', JStr r)])
      @ (case au_details e of None \<Rightarrow> [] | Some d \<Rightarrow> [(''details'', JObj d)]))"

text \<open>
  The clock is read twice, for the line and for the file name. A failing append is caught; the
  line is printed in either case.
\<close>

definition audit :: "audit_event \<Rightarrow> (node_host, unit) prog" where
  "audit e =
     bind isoNow (\<lambda>ts.
     let line = audit_line ts e in
     bind isoNow (\<lambda>day.
     let fname = take 10 day @ ''.log'' in
     seq (try_catch
            (bind (gets (\<lambda>h. append_ok h fname)) (\<lambda>ok.
               if ok then modify (\<lambda>h. h\<lparr>log_lines := log_lines h @ [(fname, line)]\<rparr>)
               else Raise (JsErr ''append failed'')))
            (\<lambda>_. skip))
         (print_line line)))"

text \<open>The two kinds of events the verifier writes.\<close>

definition accepted :: "stage \<Rightarrow> audit_event" where
  "accepted s = \<lparr>au_stage = s, au_outcome = ACCEPT, au_reason = None, au_details = None\<rparr>"

definition rejected :: "stage \<Rightarrow> string \<Rightarrow> (string \<times> jsval) list \<Rightarrow> audit_event" where
  "rejected s r d = \<lparr>au_stage = s, au_outcome = REJECT, au_reason = Some r, au_details = Some d\<rparr>"

section \<open>The effect of an audit event\<close>

definition audit_host :: "audit_event \<Rightarrow> node_host \<Rightarrow> node_host" where
  "audit_host e h =
     (let line = audit_line (clock h (reads h)) e;
          fname = take 10 (clock h (Suc (reads h))) @ ''.log''
      in h\<lparr>reads := Suc (Suc (reads h)),
           log_lines := (if append_ok h fname then log_lines h @ [(fname, line)] else log_lines h),
           out_lines := out_lines h @ [line]\<rparr>)"

lemma run_audit: "run w (audit e) h t = (Inr (), audit_host e h, t)"
  by (simp add: audit_def isoNow_def print_line_def seq_def skip_def gets_def modify_def audit_host_def
      Let_def run_bind run_try_catch)

lemma audit_host_fields [simp]:
  "env (audit_host e h) = env h"
  "files (audit_host e h) = files h"
  "clock (audit_host e h) = clock h"
  "append_ok (audit_host e h) = append_ok h"
  "reads (audit_host e h) = reads h + 2"
  "out_lines (audit_host e h) = out_lines h @ [audit_line (clock h (reads h)) e]"
  by (simp_all add: audit_host_def Let_def)

lemma wp_audit [wp_rules]: "wp w (audit e) Q E h t = Q () (audit_host e h) t"
  by (simp add: wp_def run_audit)

lemma wp_isoNow [wp_rules]:
  "wp w isoNow Q E h t = Q (clock h (reads h)) (h\<lparr>reads := Suc (reads h)\<rparr>) t"
  by (simp add: isoNow_def wp_rules)

lemma wp_print_line [wp_rules]:
  "wp w (print_line l) Q E h t = Q () (h\<lparr>out_lines := out_lines h @ [l]\<rparr>) t"
  by (simp add: print_line_def wp_rules)

lemma wp_read_text [wp_rules]:
  "wp w (read_text p) Q E h t =
     (case files h p of None \<Rightarrow> E (JsErr ''ENOENT'') h t | Some x \<Rightarrow> Q (fl_text x) h t)"
  by (simp add: read_text_def wp_rules split: option.split)

lemma wp_read_json [wp_rules]:
  "wp w (read_json p) Q E h t =
     (case files h p of None \<Rightarrow> E (JsErr ''ENOENT'') h t
      | Some x \<Rightarrow> (case fl_json x of None \<Rightarrow> E SyntaxErr h t | Some v \<Rightarrow> Q v h t))"
  by (simp add: read_json_def wp_rules split: option.split)

text \<open>What a printed line says: its stage and outcome.\<close>

definition line_says :: "jsval \<Rightarrow> string \<times> string" where
  "line_says l = (the_str (jget l ''stage''), the_str (jget l ''outcome''))"

lemma line_says_audit [simp]:
  "line_says (audit_line ts e) = (stage_string (au_stage e), outcome_string (au_outcome e))"
  by (simp add: line_says_def audit_line_def)

lemma keeps_files [keeps_rules]: "keeps (read_text p)" "keeps (read_json p)"
  by (auto simp: read_text_def read_json_def intro!: keeps_rules split: option.split)

lemma run_files [run_rules]:
  "run w (read_text p) h t =
     ((case files h p of None \<Rightarrow> Inl (JsErr ''ENOENT'') | Some x \<Rightarrow> Inr (fl_text x)), h, t)"
  "run w (read_json p) h t =
     ((case files h p of None \<Rightarrow> Inl (JsErr ''ENOENT'')
       | Some x \<Rightarrow> (case fl_json x of None \<Rightarrow> Inl SyntaxErr | Some v \<Rightarrow> Inr v)), h, t)"
  by (simp_all add: read_text_def read_json_def run_bind run_gets split: option.split)

section \<open>Programs that do not depend on the log file\<close>

text \<open>
  Two hosts that agree but for the log file and its disk; a program is blind to the log when it
  gives the same result, history and printed lines on both.
\<close>

definition same_but_log :: "node_host \<Rightarrow> node_host \<Rightarrow> bool" where
  "same_but_log h h' = (env h = env h' \<and> files h = files h' \<and> clock h = clock h'
     \<and> reads h = reads h' \<and> out_lines h = out_lines h')"

definition agree :: "('e + 'a) \<times> node_host \<times> trace \<Rightarrow> ('e + 'a) \<times> node_host \<times> trace \<Rightarrow> bool" where
  "agree x y = (fst x = fst y \<and> same_but_log (fst (snd x)) (fst (snd y)) \<and> snd (snd x) = snd (snd y))"

definition log_blind :: "(node_host, 'a) prog \<Rightarrow> bool" where
  "log_blind p = (\<forall>w h h' t. same_but_log h h' \<longrightarrow> agree (run w p h t) (run w p h' t))"

lemma blindD: "log_blind p \<Longrightarrow> same_but_log h h' \<Longrightarrow> agree (run w p h t) (run w p h' t)"
  by (simp add: log_blind_def)

lemma blind_prims [blind_rules]:
  "log_blind (Return a)" "log_blind (Raise e)" "log_blind (fetch rq)" "log_blind (res_json x)"
  "log_blind (prop_of v k)" "log_blind skip"
  by (simp_all add: log_blind_def agree_def run_rules)

lemma blind_gets [blind_rules]:
  "(\<And>h h'. same_but_log h h' \<Longrightarrow> f h = f h') \<Longrightarrow> log_blind (gets f)"
  by (simp add: log_blind_def agree_def run_rules)

lemma blind_read [blind_rules]: "log_blind (read_text p)" "log_blind (read_json p)"
  by (simp_all add: log_blind_def agree_def run_rules same_but_log_def)

lemma blind_isoNow [blind_rules]: "log_blind isoNow"
  by (simp add: log_blind_def agree_def isoNow_def run_rules same_but_log_def)

lemma blind_audit [blind_rules]: "log_blind (audit e)" "log_blind (print_line l)"
  by (simp_all add: log_blind_def agree_def run_audit print_line_def run_rules same_but_log_def)

lemma blind_bind [blind_rules]:
  assumes "log_blind p" "\<And>a. log_blind (f a)"
  shows "log_blind (bind p f)"
  unfolding log_blind_def
proof (intro allI impI)
  fix w h h' t assume "same_but_log h h'"
  then have "agree (run w p h t) (run w p h' t)" by (rule blindD [OF assms(1)])
  moreover have "agree (run w (f a) k u) (run w (f a) k' u)" if "same_but_log k k'" for a k k' u
    using assms(2) that by (rule blindD)
  ultimately show "agree (run w (bind p f) h t) (run w (bind p f) h' t)"
    by (auto simp: run_bind agree_def split: prod.splits sum.splits)
qed

lemma blind_try_catch [blind_rules]:
  assumes "log_blind p" "\<And>e. log_blind (g e)"
  shows "log_blind (try_catch p g)"
  unfolding log_blind_def
proof (intro allI impI)
  fix w h h' t assume "same_but_log h h'"
  then have "agree (run w p h t) (run w p h' t)" by (rule blindD [OF assms(1)])
  moreover have "agree (run w (g e) k u) (run w (g e) k' u)" if "same_but_log k k'" for e k k' u
    using assms(2) that by (rule blindD)
  ultimately show "agree (run w (try_catch p g) h t) (run w (try_catch p g) h' t)"
    by (auto simp: run_try_catch agree_def split: prod.splits sum.splits)
qed

lemma blind_seq [blind_rules]: "log_blind p \<Longrightarrow> log_blind q \<Longrightarrow> log_blind (seq p q)"
  unfolding seq_def by (rule blind_bind)

lemma blind_cases [blind_rules]:
  "(b \<Longrightarrow> log_blind p) \<Longrightarrow> (\<not> b \<Longrightarrow> log_blind q) \<Longrightarrow> log_blind (if b then p else q)"
  "log_blind (g v) \<Longrightarrow> log_blind (let x = v in g x)"
  by simp_all

lemma blind_option [blind_rules]:
  "log_blind p \<Longrightarrow> (\<And>a. log_blind (q a)) \<Longrightarrow> log_blind (case x of None \<Rightarrow> p | Some a \<Rightarrow> q a)"
  by (cases x) simp_all

lemma blind_sum [blind_rules]:
  "(\<And>e. log_blind (p e)) \<Longrightarrow> (\<And>a. log_blind (q a)) \<Longrightarrow> log_blind (case x of Inl e \<Rightarrow> p e | Inr a \<Rightarrow> q a)"
  by (cases x) simp_all

lemma blind_prod [blind_rules]:
  "(\<And>a b. log_blind (p a b)) \<Longrightarrow> log_blind (case x of (a, b) \<Rightarrow> p a b)"
  by (cases x) simp_all

end
