(* ===== verification/TrustTypes.thy ===== *)
theory TrustTypes
  imports JsValue
begin

text \<open>
  The data of the trust layer (\<open>types/trust.ts\<close>): the endpoint configuration, keys, the status
  list, the policy the verifier reads, the DP-1 disambiguation result with its runtime guard, and
  the VP-1 verification policy.

  An optional field is an option; scores, margins and ages are integers. Documents arrive as
  unchecked JSON, so each type that the code casts a parsed value to has an encoding \<open>..._js\<close>
  into values: the value a document of that type parses to.
\<close>

section \<open>Configuration, keys, status list, policy\<close>

record trust_cfg_file =
  cf_base_url :: "string option"
  cf_jwks_path :: "string option"
  cf_status_path :: "string option"
  cf_policy_path :: "string option"
  cf_latest_pointer :: "string option"

record latest_json =
  lj_sha :: "string option"
  lj_prefix :: "string option"

record jwk =
  jwk_use :: bool
  jwk_kid :: string
  jwk_alg :: bool
  jwk_n :: string
  jwk_e :: string

type_synonym jwks = "jwk list"

datatype entry_status = Good | EntryRevoked

record status_entry =
  se_serial :: string
  se_status :: entry_status

record status_list =
  sl_version :: "string option"
  sl_ttl_s :: "int option"
  sl_entries :: "status_entry list"

record policy =
  po_schema_uri :: string
  po_allowed_assurance :: "string list"

definition opt_field :: "string \<Rightarrow> ('a \<Rightarrow> jsval) \<Rightarrow> 'a option \<Rightarrow> (string \<times> jsval) list" where
  "opt_field k enc x = (case x of None \<Rightarrow> [] | Some v \<Rightarrow> [(k, enc v)])"

lemma map_of_opt_field [simp]:
  "map_of (opt_field k enc x) k' = (if k = k' then map_option enc x else None)"
  by (simp add: opt_field_def split: option.split)

definition strs_js :: "string list \<Rightarrow> jsval" where
  "strs_js ss = JArr (map JStr ss)"

definition cfg_js :: "trust_cfg_file \<Rightarrow> jsval" where
  "cfg_js c = JObj (opt_field ''base_url'' JStr (cf_base_url c)
     @ opt_field ''jwks_path'' JStr (cf_jwks_path c)
     @ opt_field ''status_path'' JStr (cf_status_path c)
     @ opt_field ''policy_path'' JStr (cf_policy_path c)
     @ opt_field ''latest_pointer'' JStr (cf_latest_pointer c))"

definition latest_js :: "latest_json \<Rightarrow> jsval" where
  "latest_js l = JObj (opt_field ''sha'' JStr (lj_sha l) @ opt_field ''prefix'' JStr (lj_prefix l))"

definition jwk_js :: "jwk \<Rightarrow> jsval" where
  "jwk_js k = JObj ([(''kty'', JStr ''RSA'')]
     @ (if jwk_use k then [(''use'', JStr ''sig'')] else [])
     @ [(''kid'', JStr (jwk_kid k))]
     @ (if jwk_alg k then [(''alg'', JStr ''RS256'')] else [])
     @ [(''n'', JStr (jwk_n k)), (''e'', JStr (jwk_e k))])"

definition jwks_js :: "jwks \<Rightarrow> jsval" where
  "jwks_js ks = JObj [(''keys'', JArr (map jwk_js ks))]"

fun entry_status_string :: "entry_status \<Rightarrow> string" where
  "entry_status_string Good = ''good''"
| "entry_status_string EntryRevoked = ''revoked''"

definition entry_js :: "status_entry \<Rightarrow> jsval" where
  "entry_js e = JObj [(''serial'', JStr (se_serial e)),
                      (''status'', JStr (entry_status_string (se_status e)))]"

definition statuslist_js :: "status_list \<Rightarrow> jsval" where
  "statuslist_js l = JObj (opt_field ''version'' JStr (sl_version l)
     @ opt_field ''ttl_s'' JNum (sl_ttl_s l)
     @ [(''entries'', JArr (map entry_js (sl_entries l)))])"

definition policy_js :: "policy \<Rightarrow> jsval" where
  "policy_js p = JObj [(''schema_uri'', JStr (po_schema_uri p)),
                       (''allowed_assurance'', strs_js (po_allowed_assurance p))]"

section \<open>DP-1: disambiguation results\<close>

datatype dp1_outcome_code = SELECTED | NO_VALID_ATTESTATIONS | AMBIGUOUS_RESULT

datatype dp1_eligibility = Eligible | Ineligible

record dp1_dimension_scores =
  issuer_confidence :: int
  schema_fidelity :: int
  temporal_alignment :: int
  revocation_freshness :: int
  uniqueness_signals :: int

record dp1_candidate =
  cand_serial :: string
  cand_issuer_id :: "string option"
  cand_score :: int
  cand_eligibility :: dp1_eligibility
  cand_ineligible_reasons :: "string list option"
  cand_dimensions :: dp1_dimension_scores

record dp1_context =
  ctx_policy_uri :: "string option"
  ctx_run_at :: "string option"

record dp1_decision =
  dec_code :: dp1_outcome_code
  dec_selected_serial :: "string option"
  dec_reason :: string
  dec_tiebreak_applied :: "bool option"
  dec_tiebreak_reason :: "string option"
  dec_ambiguous_serials :: "string list option"

record dp1_result =
  dpr_id :: string
  dpr_version :: string
  dpr_context :: dp1_context
  dpr_candidates :: "dp1_candidate list"
  dpr_decision :: dp1_decision

fun outcome_code_string :: "dp1_outcome_code \<Rightarrow> string" where
  "outcome_code_string SELECTED = ''SELECTED''"
| "outcome_code_string NO_VALID_ATTESTATIONS = ''NO_VALID_ATTESTATIONS''"
| "outcome_code_string AMBIGUOUS_RESULT = ''AMBIGUOUS_RESULT''"

fun eligibility_string :: "dp1_eligibility \<Rightarrow> string" where
  "eligibility_string Eligible = ''eligible''"
| "eligibility_string Ineligible = ''ineligible''"

definition dimensions_js :: "dp1_dimension_scores \<Rightarrow> jsval" where
  "dimensions_js d = JObj
     [(''issuer_confidence'', JNum (issuer_confidence d)),
      (''schema_fidelity'', JNum (schema_fidelity d)),
      (''temporal_alignment'', JNum (temporal_alignment d)),
      (''revocation_freshness'', JNum (revocation_freshness d)),
      (''uniqueness_signals'', JNum (uniqueness_signals d))]"

definition candidate_js :: "dp1_candidate \<Rightarrow> jsval" where
  "candidate_js c = JObj ([(''serial'', JStr (cand_serial c))]
     @ opt_field ''issuer_id'' JStr (cand_issuer_id c)
     @ [(''score'', JNum (cand_score c)),
        (''eligibility'', JStr (eligibility_string (cand_eligibility c)))]
     @ opt_field ''ineligible_reasons'' strs_js (cand_ineligible_reasons c)
     @ [(''dimensions'', dimensions_js (cand_dimensions c))])"

definition context_js :: "dp1_context \<Rightarrow> jsval" where
  "context_js c = JObj ([(''claim_type'', JStr ''employment.role''),
                         (''profile_id'', JStr ''AP-1/employment.role/v1'')]
     @ opt_field ''policy_uri'' JStr (ctx_policy_uri c)
     @ opt_field ''run_at'' JStr (ctx_run_at c))"

definition decision_js :: "dp1_decision \<Rightarrow> jsval" where
  "decision_js d = JObj ([(''code'', JStr (outcome_code_string (dec_code d)))]
     @ opt_field ''selected_serial'' JStr (dec_selected_serial d)
     @ [(''reason'', JStr (dec_reason d))]
     @ opt_field ''tiebreak_applied'' JBool (dec_tiebreak_applied d)
     @ opt_field ''tiebreak_reason'' JStr (dec_tiebreak_reason d)
     @ opt_field ''ambiguous_serials'' strs_js (dec_ambiguous_serials d))"

definition dp1_schema :: string where
  "dp1_schema = ''schema/disambiguation.result/v1''"

definition dp1_js :: "dp1_result \<Rightarrow> jsval" where
  "dp1_js r = JObj
     [(''id'', JStr (dpr_id r)), (''schema_uri'', JStr dp1_schema),
      (''version'', JStr (dpr_version r)), (''context'', context_js (dpr_context r)),
      (''candidates'', JArr (map candidate_js (dpr_candidates r))),
      (''decision'', decision_js (dpr_decision r))]"

definition isDp1DisambiguationResultV1 :: "jsval \<Rightarrow> bool" where
  "isDp1DisambiguationResultV1 v =
     (is_object v \<and> strict_eq (jget v ''schema_uri'') (JStr dp1_schema))"

lemma guard_iff_schema:
  "isDp1DisambiguationResultV1 v \<longleftrightarrow> is_object v \<and> jget v ''schema_uri'' = JStr dp1_schema"
  by (cases "jget v ''schema_uri''") (auto simp: isDp1DisambiguationResultV1_def)

text \<open>
  The guard of a disambiguation result accepts every result, and nothing but the value of
  its field \<open>schema_uri\<close> matters to it: whatever the other fields are, an object that carries the
  schema identifier is taken for a result, one that does not is refused.
\<close>

lemma guard_decided_by_schema:
  "isDp1DisambiguationResultV1 (dp1_js r) \<and>
   isDp1DisambiguationResultV1 (JObj ((''schema_uri'', JStr dp1_schema) # ps)) \<and>
   (isDp1DisambiguationResultV1 v \<longleftrightarrow> (\<exists>ps. v = JObj ps \<and> map_of ps ''schema_uri'' = Some (JStr dp1_schema)))"
proof (intro conjI)
  show "isDp1DisambiguationResultV1 (dp1_js r)" by (simp add: guard_iff_schema dp1_js_def)
  show "isDp1DisambiguationResultV1 (JObj ((''schema_uri'', JStr dp1_schema) # ps))"
    by (simp add: guard_iff_schema)
  show "isDp1DisambiguationResultV1 v
      \<longleftrightarrow> (\<exists>ps. v = JObj ps \<and> map_of ps ''schema_uri'' = Some (JStr dp1_schema))"
    by (cases v) (auto simp: guard_iff_schema split: option.splits)
qed

section \<open>VP-1: verification policies\<close>

datatype risk_tier = LowRisk | MediumRisk | HighRisk | CustomRisk

datatype verification_use_case = Screening | Hiring | Compliance | OtherUse

datatype assurance_level = TAL1 | TAL2 | TAL3 | TAL4

datatype key_state = KeyActive | KeyGrace | KeyDeprecated

datatype disposition = DispReject | DispReview

record assurance_policy =
  ap_allowed_levels :: "assurance_level list"
  ap_min_level :: "assurance_level option"

record soft_ambiguity =
  sa_enable :: bool
  margin_soft :: int
  margin_hard :: int
  max_candidates_considered :: int

record scoring_policy =
  min_score_accept :: int
  min_score_review :: int
  sp_soft_ambiguity :: soft_ambiguity

text \<open>The three ages may be omitted, or null: \<open>Some None\<close>.\<close>

record recency_policy =
  max_claim_age_days :: "int option option"
  max_issued_age_days :: "int option option"
  max_last_seen_age_days :: "int option option"
  max_revocation_age_seconds :: int

record trust_constraints =
  min_trust_path_strength :: int
  allowed_key_states :: "key_state list"

record disposition_policy =
  disp_no_valid_attestations :: disposition
  disp_ambiguous_result :: disposition

record audit_policy =
  emit_verification_receipt :: bool
  include_scores :: bool
  include_candidate_set_hash :: bool

record applies_to =
  at_claim_types :: "string list"
  at_schema_uri :: "string option"

record verification_policy =
  vp_id :: string
  vp_version :: string
  vp_description :: "string option"
  vp_risk_tier :: risk_tier
  vp_applies_to :: applies_to
  vp_assurance :: "assurance_policy option"
  vp_scoring :: scoring_policy
  vp_recency :: recency_policy
  vp_trust_constraints :: trust_constraints
  vp_disposition :: disposition_policy
  vp_audit :: audit_policy

fun risk_tier_string :: "risk_tier \<Rightarrow> string" where
  "risk_tier_string LowRisk = ''LOW''"
| "risk_tier_string MediumRisk = ''MEDIUM''"
| "risk_tier_string HighRisk = ''HIGH''"
| "risk_tier_string CustomRisk = ''CUSTOM''"

fun level_string :: "assurance_level \<Rightarrow> string" where
  "level_string TAL1 = ''TAL-1''"
| "level_string TAL2 = ''TAL-2''"
| "level_string TAL3 = ''TAL-3''"
| "level_string TAL4 = ''TAL-4''"

fun key_state_string :: "key_state \<Rightarrow> string" where
  "key_state_string KeyActive = ''active''"
| "key_state_string KeyGrace = ''grace''"
| "key_state_string KeyDeprecated = ''deprecated''"

fun disposition_string :: "disposition \<Rightarrow> string" where
  "disposition_string DispReject = ''REJECT''"
| "disposition_string DispReview = ''REVIEW''"

text \<open>The assurance levels are ordered as the policy's minimum level reads them.\<close>

instantiation assurance_level :: linorder
begin

fun level_rank :: "assurance_level \<Rightarrow> nat" where
  "level_rank TAL1 = 1"
| "level_rank TAL2 = 2"
| "level_rank TAL3 = 3"
| "level_rank TAL4 = 4"

definition less_eq_assurance_level :: "assurance_level \<Rightarrow> assurance_level \<Rightarrow> bool" where
  "less_eq_assurance_level a b = (level_rank a \<le> level_rank b)"

definition less_assurance_level :: "assurance_level \<Rightarrow> assurance_level \<Rightarrow> bool" where
  "less_assurance_level a b = (level_rank a < level_rank b)"

instance
proof
  fix x y :: assurance_level
  show "x \<le> y \<Longrightarrow> y \<le> x \<Longrightarrow> x = y"
    by (cases x; cases y) (simp_all add: less_eq_assurance_level_def)
qed (auto simp: less_eq_assurance_level_def less_assurance_level_def)

end

lemma level_less_iff_wire: "a < b \<longleftrightarrow> str_lt (level_string a) (level_string b)"
  by (cases a; cases b) (simp_all add: less_assurance_level_def)

definition age_field :: "string \<Rightarrow> int option option \<Rightarrow> (string \<times> jsval) list" where
  "age_field k x = opt_field k (\<lambda>v. case v of None \<Rightarrow> JNull | Some n \<Rightarrow> JNum n) x"

definition vp1_js :: "verification_policy \<Rightarrow> jsval" where
  "vp1_js p = JObj ([(''id'', JStr (vp_id p)), (''version'', JStr (vp_version p))]
     @ opt_field ''description'' JStr (vp_description p)
     @ [(''risk_tier'', JStr (risk_tier_string (vp_risk_tier p))),
        (''applies_to'', JObj ([(''claim_types'', strs_js (at_claim_types (vp_applies_to p)))]
           @ opt_field ''schema_uri'' JStr (at_schema_uri (vp_applies_to p))))]
     @ opt_field ''assurance'' (\<lambda>a. JObj
         ([(''allowed_levels'', strs_js (map level_string (ap_allowed_levels a)))]
          @ opt_field ''min_level'' (\<lambda>l. JStr (level_string l)) (ap_min_level a))) (vp_assurance p)
     @ [(''scoring'', (let s = vp_scoring p; m = sp_soft_ambiguity s in JObj
          [(''min_score_accept'', JNum (min_score_accept s)),
           (''min_score_review'', JNum (min_score_review s)),
           (''soft_ambiguity'', JObj
              [(''enable'', JBool (sa_enable m)), (''margin_soft'', JNum (margin_soft m)),
               (''margin_hard'', JNum (margin_hard m)),
               (''max_candidates_considered'', JNum (max_candidates_considered m))])])),
        (''recency'', (let r = vp_recency p in JObj
          (age_field ''max_claim_age_days'' (max_claim_age_days r)
           @ age_field ''max_issued_age_days'' (max_issued_age_days r)
           @ age_field ''max_last_seen_age_days'' (max_last_seen_age_days r)
           @ [(''max_revocation_age_seconds'', JNum (max_revocation_age_seconds r))]))),
        (''trust_constraints'', (let c = vp_trust_constraints p in JObj
          [(''min_trust_path_strength'', JNum (min_trust_path_strength c)),
           (''allowed_key_states'', strs_js (map key_state_string (allowed_key_states c)))])),
        (''disposition'', (let d = vp_disposition p in JObj
          [(''no_valid_attestations'', JStr (disposition_string (disp_no_valid_attestations d))),
           (''ambiguous_result'', JStr (disposition_string (disp_ambiguous_result d)))])),
        (''audit'', (let a = vp_audit p in JObj
          [(''emit_verification_receipt'', JBool (emit_verification_receipt a)),
           (''include_scores'', JBool (include_scores a)),
           (''include_candidate_set_hash'', JBool (include_candidate_set_hash a))]))])"

text \<open>A VP-1 policy has neither of the two fields the verifier reads from its policy document.\<close>

lemma vp1_js_fields:
  "jget (vp1_js p) ''schema_uri'' = JUndef"
  "jget (vp1_js p) ''allowed_assurance'' = JUndef"
  by (simp_all add: vp1_js_def map_add_def)

end
