(* ===== verification/TrustEndpoints.thy ===== *)
theory TrustEndpoints
  imports NodeHost TrustTypes
begin

text \<open>
  Finding and reading the trust artifacts (\<open>pkg/verification/trust-endpoints.ts\<close>): the
  configuration from environment, file and defaults; the addresses of the key set, the status
  list and the policy in the modes local, stable and pinned; and fetching the three documents.

  The abort timer of \<open>fetchJson\<close> shows as a fetch that fails with \<open>AbortErr\<close>. The order in which
  the three parallel requests settle is the argument \<open>order\<close> of \<open>fetchTrustArtifacts\<close>.
\<close>

section \<open>Configuration\<close>

record trust_cfg =
  base_url :: string
  jwks_path :: string
  status_path :: string
  policy_path :: string
  latest_pointer :: string

text \<open>
  \<open>(env.K || fileCfg.f || "dflt").trim()\<close>: the file's value is only read when the variable is
  missing or empty, \<open>fileCfg\<close> may be null, and a truthy value that is no string has no \<open>trim\<close>.
\<close>

definition cfg_value :: "string option \<Rightarrow> jsval \<Rightarrow> string \<Rightarrow> string \<Rightarrow> (node_host, string) prog" where
  "cfg_value envv fileCfg k dflt =
     (if or_default envv [] \<noteq> [] then Return (trim (or_default envv []))
      else
        bind (prop_of fileCfg k) (\<lambda>v.
        if \<not> truthy v then Return (trim dflt)
        else if is_str v then Return (trim (the_str v))
        else Raise TypeErr))"

definition loadTrustConfig :: "(node_host, trust_cfg) prog" where
  "loadTrustConfig =
     bind (try_catch (read_json ''config/trust-endpoints.json'') (\<lambda>_. Return (JObj []))) (\<lambda>fileCfg.
     bind (gets env) (\<lambda>env.
     bind (cfg_value (env ''TRUST_BASE_URL'') fileCfg ''base_url'' []) (\<lambda>base.
     bind (cfg_value (env ''TRUST_JWKS_PATH'') fileCfg ''jwks_path'' ''/trust/jwks.json'') (\<lambda>jp.
     bind (cfg_value (env ''TRUST_STATUS_PATH'') fileCfg ''status_path'' ''/trust/statuslist.json'') (\<lambda>sp.
     bind (cfg_value (env ''TRUST_POLICY_PATH'') fileCfg ''policy_path'' ''/trust/policy.json'') (\<lambda>pp.
     bind (cfg_value (env ''TRUST_LATEST_PATH'') fileCfg ''latest_pointer''
             ''/attestation-engine/latest.json'') (\<lambda>lp.
     Return \<lparr>base_url = base, jwks_path = jp, status_path = sp, policy_path = pp,
             latest_pointer = lp\<rparr>)))))))"

section \<open>Addresses\<close>

definition get_request :: "string \<Rightarrow> request" where
  "get_request url = \<lparr>rq_url = url, rq_method = ''GET'', rq_headers = [], rq_credentials = [],
                      rq_body = JUndef\<rparr>"

definition fetchJson :: "string \<Rightarrow> ('s, jsval) prog" where
  "fetchJson url =
     bind (fetch (get_request url)) (\<lambda>res.
     if \<not> rs_ok res then Raise (JsErr (''HTTP '' @ int_string (rs_status res) @ '' for '' @ url))
     else res_json res)"

definition joinUrl :: "string \<Rightarrow> string \<Rightarrow> string" where
  "joinUrl base p =
     (let p = (if \<not> starts_with p ''/'' then ''/'' @ p else p) in strip_slashes base @ p)"

datatype fetch_mode = Stable | Pinned

datatype url_mode = LocalMode | StableMode | PinnedMode

record trust_urls =
  tu_mode :: url_mode
  jwksUrl :: string
  statusUrl :: string
  policyUrl :: string
  latestPtrUrl :: string

definition stable_urls :: "trust_cfg \<Rightarrow> trust_urls" where
  "stable_urls c = \<lparr>tu_mode = StableMode,
     jwksUrl = joinUrl (base_url c) (jwks_path c),
     statusUrl = joinUrl (base_url c) (status_path c),
     policyUrl = joinUrl (base_url c) (policy_path c),
     latestPtrUrl = joinUrl (base_url c) (latest_pointer c)\<rparr>"

definition pinned_urls :: "trust_cfg \<Rightarrow> string \<Rightarrow> trust_urls" where
  "pinned_urls c prefix = \<lparr>tu_mode = PinnedMode,
     jwksUrl = joinUrl (base_url c) (''/'' @ prefix @ jwks_path c),
     statusUrl = joinUrl (base_url c) (''/'' @ prefix @ status_path c),
     policyUrl = joinUrl (base_url c) (''/'' @ prefix @ policy_path c),
     latestPtrUrl = joinUrl (base_url c) (latest_pointer c)\<rparr>"

text \<open>\<open>latest?.prefix?.trim()\<close>, then the test for an empty or missing one.\<close>

definition latest_prefix :: "string \<Rightarrow> jsval \<Rightarrow> ('s, string) prog" where
  "latest_prefix url latest =
     (let v = jget latest ''prefix'' in
      if nullish v then Raise (JsErr (''latest.json missing 'prefix' at '' @ url))
      else if \<not> is_str v then Raise TypeErr
      else if trim (the_str v) = [] then Raise (JsErr (''latest.json missing 'prefix' at '' @ url))
      else Return (trim (the_str v)))"

definition getTrustUrls :: "fetch_mode \<Rightarrow> (node_host, trust_urls) prog" where
  "getTrustUrls mode =
     bind loadTrustConfig (\<lambda>c.
     bind (gets env) (\<lambda>env.
     if env ''TRUST_MODE'' = Some ''local'' \<or> base_url c = []
     then Return \<lparr>tu_mode = LocalMode, jwksUrl = [], statusUrl = [], policyUrl = [],
                  latestPtrUrl = []\<rparr>
     else if mode = Pinned then
       (let ptr = joinUrl (base_url c) (latest_pointer c) in
        bind (fetchJson ptr) (\<lambda>latest.
        bind (latest_prefix ptr latest) (\<lambda>prefix.
        Return (pinned_urls c prefix))))
     else Return (stable_urls c)))"

section \<open>Fetching the artifacts\<close>

record artifacts =
  ar_source :: url_mode
  ar_jwks :: jsval
  ar_statuslist :: jsval
  ar_policy :: jsval

text \<open>
  \<open>Promise.all\<close>: every member runs to its end whatever the others do; the result is the list of
  the members' values, or the rejection of the member that fails first in the settling order; members that \<open>order\<close> does
  not name settle last.
\<close>

definition settle :: "('s, 'a) prog \<Rightarrow> ('s, exn + 'a) prog" where
  "settle p = try_catch (bind p (\<lambda>a. Return (Inr a))) (\<lambda>e. Return (Inl e))"

fun first_failure :: "nat list \<Rightarrow> (exn + 'a) list \<Rightarrow> exn option" where
  "first_failure [] rs = None"
| "first_failure (i # is) rs =
     (if i < length rs then (case rs ! i of Inl e \<Rightarrow> Some e | Inr a \<Rightarrow> first_failure is rs)
      else first_failure is rs)"

definition promise_all3 :: "nat list \<Rightarrow> ('s, 'a) prog \<Rightarrow> ('s, 'a) prog \<Rightarrow> ('s, 'a) prog \<Rightarrow>
    ('s, 'a list) prog" where
  "promise_all3 order p q r =
     bind (settle p) (\<lambda>a. bind (settle q) (\<lambda>b. bind (settle r) (\<lambda>c.
     case first_failure (order @ [0, 1, 2]) [a, b, c] of
       Some e \<Rightarrow> Raise e
     | None \<Rightarrow> Return (concat (map (case_sum (\<lambda>_. []) (\<lambda>x. [x])) [a, b, c])))))"

definition default_policy :: jsval where
  "default_policy = JObj [(''allowed_assurance'', JArr []), (''schema_uri'', JStr [])]"

definition local_artifacts :: "(node_host, artifacts) prog" where
  "local_artifacts =
     bind (read_json ''trust/jwks.json'') (\<lambda>jwks.
     bind (read_json ''trust/statuslist.json'') (\<lambda>statuslist.
     bind (gets (\<lambda>h. files h ''trust/policy.json'' \<noteq> None)) (\<lambda>exists.
     bind (if exists then read_json ''trust/policy.json'' else Return default_policy) (\<lambda>policy.
     Return \<lparr>ar_source = LocalMode, ar_jwks = jwks, ar_statuslist = statuslist,
             ar_policy = policy\<rparr>))))"

definition fetchTrustArtifacts :: "nat list \<Rightarrow> fetch_mode option \<Rightarrow> (node_host, artifacts) prog" where
  "fetchTrustArtifacts order opts =
     bind (getTrustUrls (coalesce opts Stable)) (\<lambda>urls.
     if tu_mode urls = LocalMode then local_artifacts
     else
       bind (promise_all3 order (fetchJson (jwksUrl urls)) (fetchJson (statusUrl urls))
               (fetchJson (policyUrl urls))) (\<lambda>docs.
       Return \<lparr>ar_source = tu_mode urls, ar_jwks = docs ! 0, ar_statuslist = docs ! 1,
               ar_policy = docs ! 2\<rparr>))"

section \<open>What the configuration comes to\<close>

text \<open>The value of a setting, for a configuration file of the declared type.\<close>

definition setting :: "string option \<Rightarrow> string option \<Rightarrow> string \<Rightarrow> string" where
  "setting envv filev dflt =
     trim (if or_default envv [] \<noteq> [] then or_default envv [] else or_default filev dflt)"

lemma wp_cfg_value:
  "\<not> nullish fileCfg \<Longrightarrow> jget fileCfg k = (case filev of None \<Rightarrow> JUndef | Some s \<Rightarrow> JStr s) \<Longrightarrow>
     wp w (cfg_value envv fileCfg k dflt) Q E h t = Q (setting envv filev dflt) h t"
  by (cases filev rule: option.exhaust; cases "the filev")
    (auto simp: cfg_value_def setting_def wp_rules)

definition typed_cfg :: "(string \<Rightarrow> string option) \<Rightarrow> trust_cfg_file \<Rightarrow> trust_cfg" where
  "typed_cfg e c =
    \<lparr>base_url = setting (e ''TRUST_BASE_URL'') (cf_base_url c) [],
     jwks_path = setting (e ''TRUST_JWKS_PATH'') (cf_jwks_path c) ''/trust/jwks.json'',
     status_path = setting (e ''TRUST_STATUS_PATH'') (cf_status_path c) ''/trust/statuslist.json'',
     policy_path = setting (e ''TRUST_POLICY_PATH'') (cf_policy_path c) ''/trust/policy.json'',
     latest_pointer = setting (e ''TRUST_LATEST_PATH'') (cf_latest_pointer c)
       ''/attestation-engine/latest.json''\<rparr>"

definition no_cfg :: trust_cfg_file where
  "no_cfg = \<lparr>cf_base_url = None, cf_jwks_path = None, cf_status_path = None,
             cf_policy_path = None, cf_latest_pointer = None\<rparr>"

text \<open>The host's configuration file has the declared type; a missing or broken one reads as empty.\<close>

definition cfg_file :: "node_host \<Rightarrow> trust_cfg_file \<Rightarrow> bool" where
  "cfg_file h c = (case files h ''config/trust-endpoints.json'' of
      None \<Rightarrow> c = no_cfg
    | Some f \<Rightarrow> (case fl_json f of None \<Rightarrow> c = no_cfg | Some v \<Rightarrow> v = cfg_js c))"

lemma cfg_js_get:
  "\<not> nullish (cfg_js c)"
  "jget (cfg_js c) ''base_url'' = (case cf_base_url c of None \<Rightarrow> JUndef | Some s \<Rightarrow> JStr s)"
  "jget (cfg_js c) ''jwks_path'' = (case cf_jwks_path c of None \<Rightarrow> JUndef | Some s \<Rightarrow> JStr s)"
  "jget (cfg_js c) ''status_path'' = (case cf_status_path c of None \<Rightarrow> JUndef | Some s \<Rightarrow> JStr s)"
  "jget (cfg_js c) ''policy_path'' = (case cf_policy_path c of None \<Rightarrow> JUndef | Some s \<Rightarrow> JStr s)"
  "jget (cfg_js c) ''latest_pointer'' = (case cf_latest_pointer c of None \<Rightarrow> JUndef | Some s \<Rightarrow> JStr s)"
  by (simp_all add: cfg_js_def map_add_def nullish_def split: option.split)

lemma cfg_file_value:
  "cfg_file h c \<Longrightarrow>
     wp w (try_catch (read_json ''config/trust-endpoints.json'') (\<lambda>_. Return (JObj []))) Q E h t
     = Q (if files h ''config/trust-endpoints.json'' = None
             \<or> fl_json (the (files h ''config/trust-endpoints.json'')) = None
          then JObj [] else cfg_js c) h t"
  by (auto simp: cfg_file_def wp_rules split: option.splits)

lemma wp_loadTrustConfig:
  assumes "cfg_file h c"
  shows "wp w loadTrustConfig Q E h t = Q (typed_cfg (env h) c) h t"
proof (cases "files h ''config/trust-endpoints.json'' = None
             \<or> fl_json (the (files h ''config/trust-endpoints.json'')) = None")
  case True
  have "c = no_cfg" using assms True by (auto simp: cfg_file_def split: option.splits)
  then show ?thesis
    using True unfolding loadTrustConfig_def
    by (simp add: wp_bind cfg_file_value [OF assms] wp_gets wp_prims typed_cfg_def no_cfg_def
        wp_cfg_value [where filev = None] nullish_def)
next
  case False
  have "wp w (try_catch (read_json ''config/trust-endpoints.json'') (\<lambda>_. Return (JObj []))) Q' E h t
      = Q' (cfg_js c) h t" for Q'
    by (simp only: cfg_file_value [OF assms] False if_False)
  then show ?thesis
    unfolding loadTrustConfig_def
    by (simp add: wp_bind wp_gets wp_prims typed_cfg_def
        wp_cfg_value [OF cfg_js_get(1,2)] wp_cfg_value [OF cfg_js_get(1,3)]
        wp_cfg_value [OF cfg_js_get(1,4)] wp_cfg_value [OF cfg_js_get(1,5)]
        wp_cfg_value [OF cfg_js_get(1,6)])
qed

text \<open>Nothing in the reading of the artifacts writes the host.\<close>

lemma keeps_cfg_value [keeps_rules]: "keeps (cfg_value a b c d)"
  unfolding cfg_value_def by (intro keeps_rules)

lemma keeps_loadTrustConfig [keeps_rules]: "keeps loadTrustConfig"
  unfolding loadTrustConfig_def by (intro keeps_rules)

lemma keeps_fetchJson [keeps_rules]: "keeps (fetchJson url)"
  unfolding fetchJson_def by (intro keeps_rules)

lemma keeps_getTrustUrls [keeps_rules]: "keeps (getTrustUrls mode)"
  unfolding getTrustUrls_def latest_prefix_def by (intro keeps_rules)

lemma keeps_promise_all3 [keeps_rules]:
  "keeps p \<Longrightarrow> keeps q \<Longrightarrow> keeps r \<Longrightarrow> keeps (promise_all3 order p q r)"
  unfolding promise_all3_def settle_def by (intro keeps_rules)

lemma keeps_fetchTrustArtifacts [keeps_rules]: "keeps (fetchTrustArtifacts order opts)"
  unfolding fetchTrustArtifacts_def local_artifacts_def by (intro keeps_rules)

section \<open>Addresses of the artifacts\<close>

text \<open>\<open>joinUrl\<close> puts exactly one slash between the base and the path.\<close>

lemma joinUrl_slash: "joinUrl base (''/'' @ p) = strip_slashes base @ ''/'' @ p"
  by (simp add: joinUrl_def)

lemma joinUrl_no_slash: "\<not> starts_with p ''/'' \<Longrightarrow> joinUrl base p = strip_slashes base @ ''/'' @ p"
  by (simp add: joinUrl_def)

lemma joinUrl_base_slashes: "joinUrl (base @ ''/'') p = joinUrl base p"
  by (simp add: joinUrl_def strip_slashes_def)

text \<open>
  Where the artifacts are read from, for a configuration file of the declared type: locally,
  with no request, in local mode or without a base address; at the stable addresses, with no
  request, in stable mode; and in pinned mode after one request for the pointer, at the addresses
  under the trimmed prefix it names.
\<close>

theorem trust_urls_by_mode:
  assumes cfg: "cfg_file h c" and c': "c' = typed_cfg (env h) c"
    and ptr: "ptr = get_request (joinUrl (base_url c') (latest_pointer c'))"
  shows "(env h ''TRUST_MODE'' = Some ''local'' \<or> base_url c' = [] \<longrightarrow>
       run w (getTrustUrls mode) h [] = (Inr \<lparr>tu_mode = LocalMode, jwksUrl = [], statusUrl = [],
         policyUrl = [], latestPtrUrl = []\<rparr>, h, []))
     \<and> (env h ''TRUST_MODE'' \<noteq> Some ''local'' \<and> base_url c' \<noteq> [] \<and> mode = Stable \<longrightarrow>
       run w (getTrustUrls mode) h [] = (Inr (stable_urls c'), h, []))
     \<and> (env h ''TRUST_MODE'' \<noteq> Some ''local'' \<and> base_url c' \<noteq> [] \<and> mode = Pinned
        \<and> w [] (Fetch ptr) = RResp x \<and> rs_ok x \<and> rs_json x = Some (latest_js l)
        \<and> lj_prefix l = Some prefix \<and> trim prefix \<noteq> [] \<longrightarrow>
       run w (getTrustUrls mode) h [] = (Inr (pinned_urls c' (trim prefix)), h, [Fetch ptr]))"
proof -
  have "run w loadTrustConfig h t = (Inr c', h, t)" for t
    unfolding c' by (rule run_of_wp) (rule wp_loadTrustConfig [OF cfg])
  then show ?thesis
    by (auto simp: getTrustUrls_def run_rules Let_def fetchJson_def latest_prefix_def latest_js_def
        map_add_def nullish_def ptr)
qed

definition shipped_cfg :: trust_cfg_file where
  "shipped_cfg = \<lparr>cf_base_url = Some ''https://cdn.example/'', cf_jwks_path = Some ''/trust/jwks.json'',
     cf_status_path = Some ''/trust/statuslist.json'', cf_policy_path = None,
     cf_latest_pointer = Some ''/attestation-engine/latest.json''\<rparr>"

definition sample_host :: "(string \<Rightarrow> disk_file option) \<Rightarrow> node_host" where
  "sample_host fs = \<lparr>env = (\<lambda>_. None), files = fs, clock = (\<lambda>_. ''2025-11-09T10:00:00.000Z''),
     reads = 0, append_ok = (\<lambda>_. True), log_lines = [], out_lines = []\<rparr>"

definition cfg_files :: "string \<Rightarrow> disk_file option" where
  "cfg_files = [''config/trust-endpoints.json'' \<mapsto> \<lparr>fl_text = [], fl_json = Some (cfg_js shipped_cfg)\<rparr>]"

definition latest_world :: world where
  "latest_world t e = RResp \<lparr>rs_status = 200, rs_text = [],
     rs_json = Some (latest_js \<lparr>lj_sha = None, lj_prefix = Some ''attestation-engine/abc ''\<rparr>)\<rparr>"

lemma sample_cfg:
  "cfg_file (sample_host cfg_files) shipped_cfg"
  "env (sample_host fs) = (\<lambda>_. None)"
  "typed_cfg (\<lambda>_. None) shipped_cfg =
     \<lparr>base_url = ''https://cdn.example/'', jwks_path = ''/trust/jwks.json'',
      status_path = ''/trust/statuslist.json'', policy_path = ''/trust/policy.json'',
      latest_pointer = ''/attestation-engine/latest.json''\<rparr>"
  by (simp_all add: cfg_file_def sample_host_def cfg_files_def typed_cfg_def setting_def shipped_cfg_def
      trim_def stripR_def js_ws_def)

lemma trust_urls_by_mode_witness:
  "run latest_world (getTrustUrls Pinned) (sample_host cfg_files) []
     = (Inr (pinned_urls (typed_cfg (\<lambda>_. None) shipped_cfg) ''attestation-engine/abc''),
        sample_host cfg_files,
        [Fetch (get_request ''https://cdn.example/attestation-engine/latest.json'')])"
proof -
  have "joinUrl ''https://cdn.example/'' ''/attestation-engine/latest.json''
      = ''https://cdn.example/attestation-engine/latest.json''"
    by (simp add: joinUrl_def strip_slashes_def stripR_def)
  then show ?thesis
    using trust_urls_by_mode [OF sample_cfg(1) refl refl, of latest_world Pinned
        "\<lparr>rs_status = 200, rs_text = [], rs_json = Some (latest_js \<lparr>lj_sha = None,
           lj_prefix = Some ''attestation-engine/abc ''\<rparr>)\<rparr>"
        "\<lparr>lj_sha = None, lj_prefix = Some ''attestation-engine/abc ''\<rparr>" "''attestation-engine/abc ''"]
    by (simp add: sample_cfg latest_world_def rs_ok_def trim_def stripR_def js_ws_def)
qed

section \<open>All or nothing\<close>

definition fetch_outcome :: "world \<Rightarrow> trace \<Rightarrow> string \<Rightarrow> exn + jsval" where
  "fetch_outcome w t url =
     (case w t (Fetch (get_request url)) of
        RResp x \<Rightarrow> if rs_ok x then (case rs_json x of None \<Rightarrow> Inl SyntaxErr | Some v \<Rightarrow> Inr v)
                   else Inl (JsErr (''HTTP '' @ int_string (rs_status x) @ '' for '' @ url))
      | RFail e \<Rightarrow> Inl e
      | _ \<Rightarrow> Inl TypeErr)"

lemma run_fetchJson [run_rules]:
  "run w (fetchJson url) s t = (fetch_outcome w t url, s, t @ [Fetch (get_request url)])"
  by (simp add: fetchJson_def fetch_outcome_def run_rules split: reply.split option.split)

lemma run_settle_fetchJson [run_rules]:
  "run w (settle (fetchJson url)) s t = (Inr (fetch_outcome w t url), s, t @ [Fetch (get_request url)])"
  by (simp add: settle_def run_rules split: sum.split)

lemma first_failure_None:
  "first_failure is rs = None \<longleftrightarrow> (\<forall>i \<in> set is. i < length rs \<longrightarrow> isl (rs ! i) = False)"
  by (induction "is") (auto split: sum.splits)

lemma all3_ok: "first_failure (order @ [0, Suc 0, 2]) [a, b, c] = None \<Longrightarrow> \<exists>x y z. a = Inr x \<and> b = Inr y \<and> c = Inr z"
  by (cases a; cases b; cases c) (auto simp: first_failure_None)

lemma run_promise_fetches:
  "run w (promise_all3 order (fetchJson u) (fetchJson v) (fetchJson x)) s t =
     (let t1 = t @ [Fetch (get_request u)]; t2 = t1 @ [Fetch (get_request v)];
          a = fetch_outcome w t u; b = fetch_outcome w t1 v; c = fetch_outcome w t2 x
      in (case first_failure (order @ [0, 1, 2]) [a, b, c] of
            Some e \<Rightarrow> Inl e
          | None \<Rightarrow> Inr (concat (map (case_sum (\<lambda>_. []) (\<lambda>x. [x])) [a, b, c])),
          s, t2 @ [Fetch (get_request x)]))"
  by (simp add: promise_all3_def run_rules Let_def split: option.split)

lemma promise_fetches_Inr:
  assumes "run w (promise_all3 order (fetchJson u) (fetchJson v) (fetchJson x)) s t = (Inr ds, s', t')"
  shows "\<exists>a b c. ds = [a, b, c] \<and> s' = s
     \<and> t' = t @ [Fetch (get_request u), Fetch (get_request v), Fetch (get_request x)]
     \<and> fetch_outcome w t u = Inr a
     \<and> fetch_outcome w (t @ [Fetch (get_request u)]) v = Inr b
     \<and> fetch_outcome w (t @ [Fetch (get_request u), Fetch (get_request v)]) x = Inr c"
  using assms by (auto simp: run_promise_fetches Let_def split: option.splits dest!: all3_ok)

lemma fetch_outcome_Inr:
  "fetch_outcome w t url = Inr v \<longleftrightarrow>
     (\<exists>x. w t (Fetch (get_request url)) = RResp x \<and> rs_ok x \<and> rs_json x = Some v)"
  by (auto simp: fetch_outcome_def split: reply.splits option.splits)

text \<open>The JSON of a successful answer; \<open>None\<close> for a refusal, a failure or a text that is not JSON.\<close>

definition json_of_answer :: "world \<Rightarrow> trace \<Rightarrow> string \<Rightarrow> jsval option" where
  "json_of_answer w t url = (case w t (Fetch (get_request url)) of
       RResp x \<Rightarrow> if rs_ok x then rs_json x else None
     | _ \<Rightarrow> None)"

lemma fetch_outcome_answer:
  "fetch_outcome w t url = Inr v \<longleftrightarrow> json_of_answer w t url = Some v"
  "isl (fetch_outcome w t url) \<longleftrightarrow> json_of_answer w t url = None"
  by (auto simp: fetch_outcome_def json_of_answer_def split: reply.splits option.splits)

lemma remote_mode:
  assumes "cfg_file h c" "base_url (typed_cfg (env h) c) \<noteq> []" "env h ''TRUST_MODE'' \<noteq> Some ''local''"
    and "run w (getTrustUrls mode) h t = (Inr urls, h', t')"
  shows "tu_mode urls = (if mode = Pinned then PinnedMode else StableMode)"
proof -
  have "run w loadTrustConfig h u = (Inr (typed_cfg (env h) c), h, u)" for u
    by (rule run_of_wp) (rule wp_loadTrustConfig [OF assms(1)])
  with assms(2-4) show ?thesis
    by (cases mode) (auto simp: getTrustUrls_def run_bind run_rules Let_def pinned_urls_def stable_urls_def
        split: prod.splits sum.splits if_splits)
qed

lemma fetch_three:
  assumes "run w (promise_all3 order (fetchJson u) (fetchJson v) (fetchJson x)) s t = (r, s', t')"
  shows "s' = s \<and> t' = t @ [Fetch (get_request u), Fetch (get_request v), Fetch (get_request x)]
    \<and> (case (json_of_answer w t u, json_of_answer w (t @ [Fetch (get_request u)]) v,
             json_of_answer w (t @ [Fetch (get_request u), Fetch (get_request v)]) x) of
         (Some a, Some b, Some d) \<Rightarrow> r = Inr [a, b, d]
       | _ \<Rightarrow> \<exists>e. r = Inl e)"
proof (cases r)
  case (Inl e)
  have "\<not> (\<exists>a b d. fetch_outcome w t u = Inr a \<and> fetch_outcome w (t @ [Fetch (get_request u)]) v = Inr b
      \<and> fetch_outcome w (t @ [Fetch (get_request u), Fetch (get_request v)]) x = Inr d)"
  proof
    assume "\<exists>a b d. fetch_outcome w t u = Inr a \<and> fetch_outcome w (t @ [Fetch (get_request u)]) v = Inr b
      \<and> fetch_outcome w (t @ [Fetch (get_request u), Fetch (get_request v)]) x = Inr d"
    then obtain a b d where ok: "fetch_outcome w t u = Inr a" "fetch_outcome w (t @ [Fetch (get_request u)]) v = Inr b"
      "fetch_outcome w (t @ [Fetch (get_request u), Fetch (get_request v)]) x = Inr d" by blast
    have "first_failure is [Inr a, Inr b, Inr d] = None" for "is" :: "nat list"
      by (auto simp: first_failure_None nth_Cons split: nat.split)
    with assms Inl ok show False by (simp add: run_promise_fetches Let_def)
  qed
  with assms Inl show ?thesis
    by (auto simp: run_promise_fetches Let_def fetch_outcome_answer split: option.splits)
next
  case (Inr ds)
  with promise_fetches_Inr [of w order u v x s t ds s' t'] assms show ?thesis
    by (auto simp: fetch_outcome_answer)
qed

text \<open>
  C6. With a base address configured and \<open>TRUST_MODE\<close> not \<open>local\<close>, the artifacts come from the network
  alone. Either the addresses could not be found out (pinned mode without a usable pointer), and
  the error is passed on; or the addresses are of the mode that was asked for, the last three requests
  go to them, and if all three are answered with success and JSON the result is those three
  documents, while if any of them is not, the call fails. No failed request is replaced by a local
  file or by another document, whatever order the answers arrive in.
\<close>

theorem remote_artifacts_all_or_nothing:
  assumes "cfg_file h c" "base_url (typed_cfg (env h) c) \<noteq> []" "env h ''TRUST_MODE'' \<noteq> Some ''local''"
    and run: "run w (fetchTrustArtifacts order opts) h [] = (r, h', t)"
  shows "h' = h \<and>
    ((\<exists>e. r = Inl e \<and> run w (getTrustUrls (coalesce opts Stable)) h [] = (Inl e, h, t))
     \<or> (\<exists>urls t0. run w (getTrustUrls (coalesce opts Stable)) h [] = (Inr urls, h, t0)
         \<and> tu_mode urls = (if coalesce opts Stable = Pinned then PinnedMode else StableMode)
         \<and> t = t0 @ [Fetch (get_request (jwksUrl urls)), Fetch (get_request (statusUrl urls)),
                     Fetch (get_request (policyUrl urls))]
         \<and> (case (json_of_answer w t0 (jwksUrl urls),
                  json_of_answer w (t0 @ [Fetch (get_request (jwksUrl urls))]) (statusUrl urls),
                  json_of_answer w (t0 @ [Fetch (get_request (jwksUrl urls)), Fetch (get_request (statusUrl urls))])
                    (policyUrl urls)) of
              (Some a, Some b, Some d) \<Rightarrow>
                r = Inr \<lparr>ar_source = tu_mode urls, ar_jwks = a, ar_statuslist = b, ar_policy = d\<rparr>
            | _ \<Rightarrow> \<exists>e. r = Inl e)))"
proof -
  obtain u h1 t0 where g: "run w (getTrustUrls (coalesce opts Stable)) h [] = (u, h1, t0)"
    by (metis prod_cases3)
  then have h1: "h1 = h" using keeps_getTrustUrls by (auto dest: keeps_run)
  show ?thesis
  proof (cases u)
    case (Inl e)
    with run g h1 show ?thesis by (auto simp: fetchTrustArtifacts_def run_bind)
  next
    case (Inr urls)
    have mode: "tu_mode urls = (if coalesce opts Stable = Pinned then PinnedMode else StableMode)"
      using remote_mode [OF assms(1-3)] g Inr by metis
    obtain q h2 t2 where q: "run w (promise_all3 order (fetchJson (jwksUrl urls)) (fetchJson (statusUrl urls))
        (fetchJson (policyUrl urls))) h t0 = (q, h2, t2)" by (metis prod_cases3)
    have "r = (case q of Inl e \<Rightarrow> Inl e
        | Inr ds \<Rightarrow> Inr \<lparr>ar_source = tu_mode urls, ar_jwks = ds ! 0, ar_statuslist = ds ! 1, ar_policy = ds ! 2\<rparr>)
      \<and> h' = h2 \<and> t = t2"
      using run g h1 Inr q mode by (auto simp: fetchTrustArtifacts_def run_bind run_rules split: sum.splits if_splits)
    with fetch_three [OF q] g h1 Inr mode show ?thesis
      by (auto split: option.splits)
  qed
qed

text \<open>A network that answers every address but the status list's.\<close>

definition broken_status_world :: world where
  "broken_status_world t e = (case e of
       Fetch rq \<Rightarrow> RResp \<lparr>rs_status = (if rq_url rq = ''https://cdn.example/trust/statuslist.json'' then 503 else 200),
                      rs_text = [], rs_json = Some (JObj [])\<rparr>
     | _ \<Rightarrow> RDone)"

lemma remote_artifacts_all_or_nothing_witness:
  "\<exists>e. fst (run broken_status_world (fetchTrustArtifacts [2, 0] None) (sample_host cfg_files) []) = Inl e"
proof -
  obtain r h' t where run: "run broken_status_world (fetchTrustArtifacts [2, 0] None) (sample_host cfg_files) [] = (r, h', t)"
    by (metis prod_cases3)
  have cfg: "run w loadTrustConfig (sample_host cfg_files) t
      = (Inr (typed_cfg (\<lambda>_. None) shipped_cfg), sample_host cfg_files, t)" for w t
    using wp_loadTrustConfig [OF sample_cfg(1)] by (intro run_of_wp) (simp add: sample_cfg(2))
  have urls: "run w (getTrustUrls Stable) (sample_host cfg_files) []
      = (Inr (stable_urls (typed_cfg (\<lambda>_. None) shipped_cfg)), sample_host cfg_files, [])" for w
    by (simp add: getTrustUrls_def run_rules cfg sample_cfg)
  have "statusUrl (stable_urls (typed_cfg (\<lambda>_. None) shipped_cfg)) = ''https://cdn.example/trust/statuslist.json''"
    by (simp add: stable_urls_def sample_cfg joinUrl_def strip_slashes_def stripR_def)
  then have "json_of_answer broken_status_world t (statusUrl (stable_urls (typed_cfg (\<lambda>_. None) shipped_cfg))) = None" for t
    by (simp add: json_of_answer_def broken_status_world_def get_request_def rs_ok_def)
  then have "\<exists>e. r = Inl e"
    using remote_artifacts_all_or_nothing [OF sample_cfg(1) _ _ run] urls
    by (auto simp: sample_cfg split: option.splits)
  with run show ?thesis by simp
qed

text \<open>
  A path configured without its leading slash: in stable mode it is read at the same address
  as with the slash, in pinned mode it is glued to the prefix.
\<close>

lemma pinned_path_needs_slash:
  "stable_urls (c\<lparr>jwks_path := ''trust/jwks.json''\<rparr>) = stable_urls (c\<lparr>jwks_path := ''/trust/jwks.json''\<rparr>)
   \<and> jwksUrl (pinned_urls (c\<lparr>jwks_path := ''/trust/jwks.json''\<rparr>) prefix)
       = strip_slashes (base_url c) @ ''/'' @ prefix @ ''/trust/jwks.json''
   \<and> jwksUrl (pinned_urls (c\<lparr>jwks_path := ''trust/jwks.json''\<rparr>) prefix)
       = strip_slashes (base_url c) @ ''/'' @ prefix @ ''trust/jwks.json''"
  by (simp add: stable_urls_def pinned_urls_def joinUrl_def)

text \<open>Reading the artifacts does not depend on the log file.\<close>

lemma blind_fetchTrustArtifacts [blind_rules]: "log_blind (fetchTrustArtifacts order opts)"
  unfolding fetchTrustArtifacts_def getTrustUrls_def loadTrustConfig_def cfg_value_def latest_prefix_def
    fetchJson_def local_artifacts_def promise_all3_def settle_def
  by (intro blind_rules; simp add: same_but_log_def)

end
