(* ===== verification/Verify.thy ===== *)
theory Verify
  imports TrustEndpoints
begin

text \<open>
  Verifying an attestation (\<open>pkg/verification/verify.ts\<close>) and the programs around it: the command
  line (\<open>run-verify.ts\<close>) and the signer (\<open>pkg/issuer/sign-file.ts\<close>).

  The JOSE library is not part of the repository: a \<open>jose\<close> is the pair of \<open>createLocalJWKSet\<close> and
  \<open>jwtVerify\<close> with RS256 (payload and protected header, or an exception).
  A check that ends the verification with an early return gives \<open>Some\<close> code, one that passes
  \<open>None\<close>; \<open>verdict_gates\<close> is the specification, the ordered list of what each check rejects.
\<close>

section \<open>Codes\<close>

datatype vcode =
    BAD_SIGNATURE | HEADER_INVALID | SCHEMA_URI_INVALID | SCHEMA_INVALID
  | DISCLOSURE_MODE_INVALID | HASH_INVALID | NOT_YET_VALID | EXPIRED | REVOKED
  | REVOCATION_STATUS_INVALID | POLICY_ASSURANCE_INVALID | VALID

fun vcode_string :: "vcode \<Rightarrow> string" where
  "vcode_string BAD_SIGNATURE = ''BAD_SIGNATURE''"
| "vcode_string HEADER_INVALID = ''HEADER_INVALID''"
| "vcode_string SCHEMA_URI_INVALID = ''SCHEMA_URI_INVALID''"
| "vcode_string SCHEMA_INVALID = ''SCHEMA_INVALID''"
| "vcode_string DISCLOSURE_MODE_INVALID = ''DISCLOSURE_MODE_INVALID''"
| "vcode_string HASH_INVALID = ''HASH_INVALID''"
| "vcode_string NOT_YET_VALID = ''NOT_YET_VALID''"
| "vcode_string EXPIRED = ''EXPIRED''"
| "vcode_string REVOKED = ''REVOKED''"
| "vcode_string REVOCATION_STATUS_INVALID = ''REVOCATION_STATUS_INVALID''"
| "vcode_string POLICY_ASSURANCE_INVALID = ''POLICY_ASSURANCE_INVALID''"
| "vcode_string VALID = ''VALID''"

record verify_result =
  vr_ok :: bool
  vr_code :: vcode

type_synonym 'k jose = "(jsval \<Rightarrow> exn + 'k) \<times> (string \<Rightarrow> 'k \<Rightarrow> exn + jsval \<times> jsval)"

section \<open>The checks\<close>

definition reject :: "stage \<Rightarrow> string \<Rightarrow> (string \<times> jsval) list \<Rightarrow> vcode \<Rightarrow>
    (node_host, vcode option) prog" where
  "reject s r d c = seq (audit (rejected s r d)) (Return (Some c))"

definition accept :: "stage \<Rightarrow> (node_host, vcode option) prog" where
  "accept s = seq (audit (accepted s)) (Return None)"

text \<open>\<open>return\<close> if the check returned, else go on.\<close>

definition or_else :: "(node_host, vcode option) prog \<Rightarrow> (node_host, vcode option) prog \<Rightarrow>
    (node_host, vcode option) prog" where
  "or_else p q = bind p (\<lambda>r. case r of Some c \<Rightarrow> Return (Some c) | None \<Rightarrow> q)"

definition header_check :: "jsval \<Rightarrow> (node_host, vcode option) prog" where
  "header_check hdr =
     bind (prop_of hdr ''alg'') (\<lambda>alg.
     if \<not> strict_eq alg (JStr ''RS256'') \<or> \<not> is_str (jget hdr ''kid'')
     then reject SignatureStage ''header_invalid'' [(''alg'', alg), (''kid'', jget hdr ''kid'')]
            HEADER_INVALID
     else accept SignatureStage)"

definition schema_check :: "jsval \<Rightarrow> jsval \<Rightarrow> (node_host, vcode option) prog" where
  "schema_check payload policy =
     (let schemaUri = jget payload ''schema_uri''; attId = jget payload ''id'';
          title = jget (jget (jget payload ''claim'') ''value'') ''title'';
          serial = jget (jget payload ''revocation'') ''serial'';
          notBefore = jget (jget payload ''validity'') ''not_before'';
          notAfter = jget (jget payload ''validity'') ''not_after'';
          assurance = jget (jget payload ''policy'') ''assurance''
      in bind (prop_of policy ''schema_uri'') (\<lambda>expected.
         if \<not> strict_eq schemaUri expected
         then reject ShapeStage ''schema_uri_mismatch''
                [(''schemaUri'', schemaUri), (''expected'', expected)] SCHEMA_URI_INVALID
         else if \<not> truthy attId \<or> \<not> truthy title \<or> \<not> truthy serial \<or> \<not> truthy notBefore
                 \<or> \<not> truthy notAfter \<or> \<not> truthy assurance
         then seq (audit \<lparr>au_stage = ShapeStage, au_outcome = REJECT,
                    au_reason = Some ''missing_required_field'', au_details = None\<rparr>)
                (Return (Some SCHEMA_INVALID))
         else accept ShapeStage))"

definition disclosure_check :: "jsval \<Rightarrow> (node_host, vcode option) prog" where
  "disclosure_check payload =
     (let mode = jget (jget payload ''disclosure'') ''mode'';
          hashAlg = jget (jget payload ''hash'') ''payload_alg'';
          hashVal = jget (jget payload ''hash'') ''payload_hash''
      in if \<not> strict_eq mode (JStr ''full'')
         then reject ShapeStage ''disclosure_mode_invalid'' [(''mode'', mode)] DISCLOSURE_MODE_INVALID
         else if \<not> strict_eq hashAlg (JStr ''SHA-256'') \<or> \<not> is_str hashVal \<or> the_str hashVal = []
         then reject ShapeStage ''hash_invalid''
                [(''payload_alg'', hashAlg), (''hasHash'', JBool (truthy hashVal))] HASH_INVALID
         else accept ShapeStage)"

definition liveness_check :: "jsval \<Rightarrow> (node_host, vcode option) prog" where
  "liveness_check payload =
     (let notBefore = jget (jget payload ''validity'') ''not_before'';
          notAfter = jget (jget payload ''validity'') ''not_after''
      in bind isoNow (\<lambda>now.
         if stamp_lt now notBefore
         then reject LivenessStage ''not_yet_valid''
                [(''now'', JStr now), (''not_before'', notBefore)] NOT_YET_VALID
         else if stamp_gt now notAfter
         then reject LivenessStage ''expired''
                [(''now'', JStr now), (''not_after'', notAfter)] EXPIRED
         else accept LivenessStage))"

text \<open>
  \<open>entries?.find((e) => e.serial === serial)\<close>: the first entry with the serial. A nullish entry
  on the way throws, and so does an \<open>entries\<close> that is neither nullish nor an array.
\<close>

fun find_serial :: "jsval \<Rightarrow> jsval list \<Rightarrow> exn + jsval option" where
  "find_serial serial [] = Inr None"
| "find_serial serial (e # es) =
     (if nullish e then Inl TypeErr
      else if strict_eq (jget e ''serial'') serial then Inr (Some e)
      else find_serial serial es)"

definition find_entry :: "jsval \<Rightarrow> jsval \<Rightarrow> exn + jsval option" where
  "find_entry serial entries =
     (if nullish entries then Inr None
      else if is_arr entries then find_serial serial (the_arr entries) else Inl TypeErr)"

definition revocation_check :: "jsval \<Rightarrow> jsval \<Rightarrow> (node_host, vcode option) prog" where
  "revocation_check payload statuslist =
     (let serial = jget (jget payload ''revocation'') ''serial''
      in bind (prop_of statuslist ''entries'') (\<lambda>entries.
         case find_entry serial entries of
           Inl e \<Rightarrow> Raise e
         | Inr None \<Rightarrow>
             seq (audit \<lparr>au_stage = RevocationStage, au_outcome = ACCEPT,
                au_reason = Some ''unknown_not_listed'', au_details = Some [(''serial'', serial)]\<rparr>)
             (Return None)
         | Inr (Some entry) \<Rightarrow>
             if strict_eq (jget entry ''status'') (JStr ''revoked'')
             then reject RevocationStage ''revoked'' [(''serial'', serial)] REVOKED
             else if \<not> strict_eq (jget entry ''status'') (JStr ''good'')
             then reject RevocationStage ''invalid_status_value''
                    [(''serial'', serial), (''status'', jget entry ''status'')]
                    REVOCATION_STATUS_INVALID
             else accept RevocationStage))"

text \<open>\<open>new Set(v ?? [])\<close> as the list of its members: an array, or the letters of a string.\<close>

definition set_members :: "jsval \<Rightarrow> exn + jsval list" where
  "set_members v =
     (if nullish v then Inr []
      else if is_arr v then Inr (the_arr v)
      else if is_str v then Inr (map (\<lambda>c. JStr [c]) (the_str v))
      else Inl TypeErr)"

definition policy_check :: "jsval \<Rightarrow> jsval \<Rightarrow> (node_host, vcode option) prog" where
  "policy_check payload policy =
     (let assurance = jget (jget payload ''policy'') ''assurance''
      in case set_members (jget policy ''allowed_assurance'') of
           Inl e \<Rightarrow> Raise e
         | Inr allowed \<Rightarrow>
             if \<not> (\<exists>a \<in> set allowed. strict_eq a assurance)
             then reject PolicyStage ''assurance_invalid''
                    [(''assurance'', assurance), (''allowed'', JArr (remdups allowed))]
                    POLICY_ASSURANCE_INVALID
             else accept PolicyStage)"

definition payload_checks :: "artifacts \<Rightarrow> jsval \<Rightarrow> jsval \<Rightarrow> (node_host, vcode option) prog" where
  "payload_checks a payload hdr =
     or_else (header_check hdr)
    (or_else (schema_check payload (ar_policy a))
    (or_else (disclosure_check payload)
    (or_else (liveness_check payload)
    (or_else (revocation_check payload (ar_statuslist a))
             (policy_check payload (ar_policy a))))))"

definition verifyAttestationJws :: "nat list \<Rightarrow> 'k jose \<Rightarrow> string \<Rightarrow> (node_host, verify_result) prog" where
  "verifyAttestationJws order j jwsCompact =
     bind (fetchTrustArtifacts order (Some Stable)) (\<lambda>a.
     bind (prop_of (ar_jwks a) ''keys'') (\<lambda>ks.
     case fst j (if truthy ks then ks else JArr []) of
       Inl e \<Rightarrow> Raise e
     | Inr keyset \<Rightarrow>
        (case snd j jwsCompact keyset of
           Inl e \<Rightarrow> seq (audit (rejected SignatureStage ''bad_signature''
                                [(''err'', JStr (exn_message e))]))
                     (Return \<lparr>vr_ok = False, vr_code = BAD_SIGNATURE\<rparr>)
         | Inr (payload, hdr) \<Rightarrow>
             bind (payload_checks a payload hdr) (\<lambda>r. case r of
               Some c \<Rightarrow> Return \<lparr>vr_ok = False, vr_code = c\<rparr>
             | None \<Rightarrow> Return \<lparr>vr_ok = True, vr_code = VALID\<rparr>))))"

section \<open>The command line\<close>

text \<open>
  \<open>main\<close> of \<open>run-verify.ts\<close> with its \<open>catch\<close>: the exit status. The file is named by the first
  argument; an empty or missing one is a usage error.
\<close>

definition result_js :: "verify_result \<Rightarrow> jsval" where
  "result_js r = JObj [(''ok'', JBool (vr_ok r)), (''code'', JStr (vcode_string (vr_code r)))]"

definition run_verify_main :: "nat list \<Rightarrow> 'k jose \<Rightarrow> string option \<Rightarrow> (node_host, nat) prog" where
  "run_verify_main order j arg =
     (if or_default arg [] = [] then Return 2
      else
        try_catch
          (bind (read_text (the arg)) (\<lambda>txt.
           bind (verifyAttestationJws order j (trim txt)) (\<lambda>res.
           seq (print_line (JArr [JStr ''RESULT:'', result_js res]))
           (Return (if vr_ok res then 0 else 1)))))
          (\<lambda>_. Return 1))"

text \<open>
  \<open>sign-file.ts\<close>: \<open>import_key\<close> stands for \<open>importPKCS8\<close> and \<open>sign\<close> for the chain of \<open>SignJWT\<close>.
  The arguments are those after the program's name.
\<close>

definition flag_value :: "string list \<Rightarrow> nat \<Rightarrow> string" where
  "flag_value args i = (if i < length args then args ! i else [])"

fun index_of :: "'a \<Rightarrow> 'a list \<Rightarrow> nat option" where
  "index_of x [] = None"
| "index_of x (y # ys) = (if x = y then Some 0 else map_option Suc (index_of x ys))"

definition sign_header :: "string \<Rightarrow> jsval" where
  "sign_header kid = JObj [(''alg'', JStr ''RS256''), (''kid'', JStr kid), (''typ'', JStr ''JWT'')]"

definition sign_file_main :: "(string \<Rightarrow> exn + 'p) \<Rightarrow> (jsval \<Rightarrow> jsval \<Rightarrow> 'p \<Rightarrow> exn + string) \<Rightarrow>
    string list \<Rightarrow> (node_host, nat) prog" where
  "sign_file_main import_key sign args =
    (case index_of ''--kid'' args of
       None \<Rightarrow> Return 2
     | Some i \<Rightarrow>
        if flag_value args (i + 1) = [] \<or> flag_value args (i + 2) = [] then Return 2
        else
         (let kid = flag_value args (i + 1); inPath = flag_value args (i + 2);
              pemPath = ''keys/'' @ kid @ ''.pem''
          in bind (gets (\<lambda>h. files h pemPath \<noteq> None)) (\<lambda>exists.
             if \<not> exists then Return 3
             else
               try_catch
                (bind (read_json inPath) (\<lambda>payload.
                 bind (read_text pemPath) (\<lambda>pkcs8.
                 case import_key pkcs8 of
                   Inl e \<Rightarrow> Raise e
                 | Inr key \<Rightarrow>
                    (case sign payload (sign_header kid) key of
                       Inl e \<Rightarrow> Raise e
                     | Inr jws \<Rightarrow> seq (print_line (JStr (jws @ [CHR 0x0A]))) (Return 0)))))
                (\<lambda>_. Return 1))))"

section \<open>The specification: the first check that rejects\<close>

text \<open>
  Each check of the code with what it rejects, in the order of the code (AP-1's check of the claim's
  type is not made); \<open>Inl\<close> is a check that throws because
  the key set's header, the policy or the status list is not of its type.
\<close>

definition verdict_gates :: "jsval \<Rightarrow> jsval \<Rightarrow> jsval \<Rightarrow> jsval \<Rightarrow> string \<Rightarrow> (vcode \<times> (exn + bool)) list" where
  "verdict_gates payload hdr statuslist policy now =
    (let serial = jget (jget payload ''revocation'') ''serial'';
         notBefore = jget (jget payload ''validity'') ''not_before'';
         notAfter = jget (jget payload ''validity'') ''not_after'';
         assurance = jget (jget payload ''policy'') ''assurance'';
         hash = jget payload ''hash'';
         entry = (if nullish statuslist then Inl TypeErr
                  else find_entry serial (jget statuslist ''entries''));
         status_is = (\<lambda>P. case entry of Inl e \<Rightarrow> Inl e | Inr None \<Rightarrow> Inr False
                          | Inr (Some e) \<Rightarrow> Inr (P (jget e ''status'')))
     in [(HEADER_INVALID, if nullish hdr then Inl TypeErr
            else Inr (jget hdr ''alg'' \<noteq> JStr ''RS256'' \<or> \<not> is_str (jget hdr ''kid''))),
         (SCHEMA_URI_INVALID, if nullish policy then Inl TypeErr
            else Inr (\<not> strict_eq (jget payload ''schema_uri'') (jget policy ''schema_uri''))),
         (SCHEMA_INVALID, Inr (\<exists>v \<in> {jget payload ''id'', jget (jget (jget payload ''claim'') ''value'') ''title'',
            serial, notBefore, notAfter, assurance}. \<not> truthy v)),
         (DISCLOSURE_MODE_INVALID, Inr (jget (jget payload ''disclosure'') ''mode'' \<noteq> JStr ''full'')),
         (HASH_INVALID, Inr (jget hash ''payload_alg'' \<noteq> JStr ''SHA-256'' \<or> \<not> is_str (jget hash ''payload_hash'')
            \<or> jget hash ''payload_hash'' = JStr [])),
         (NOT_YET_VALID, Inr (stamp_lt now notBefore)),
         (EXPIRED, Inr (stamp_gt now notAfter)),
         (REVOKED, status_is (\<lambda>st. st = JStr ''revoked'')),
         (REVOCATION_STATUS_INVALID, status_is (\<lambda>st. st \<noteq> JStr ''good'')),
         (POLICY_ASSURANCE_INVALID,
            case set_members (jget policy ''allowed_assurance'') of Inl e \<Rightarrow> Inl e
            | Inr allowed \<Rightarrow> Inr (\<not> (\<exists>a \<in> set allowed. strict_eq a assurance)))])"

fun first_reject :: "(vcode \<times> (exn + bool)) list \<Rightarrow> exn + vcode" where
  "first_reject [] = Inr VALID"
| "first_reject ((c, Inl e) # gs) = Inl e"
| "first_reject ((c, Inr b) # gs) = (if b then Inr c else first_reject gs)"

text \<open>The audit trail a verdict leaves: stage and outcome of each line.\<close>

definition passed :: "stage list \<Rightarrow> (string \<times> string) list" where
  "passed ss = map (\<lambda>s. (stage_string s, ''ACCEPT'')) ss"

definition failed_at :: "stage \<Rightarrow> (string \<times> string) list" where
  "failed_at s = [(stage_string s, ''REJECT'')]"

fun verdict_trail :: "vcode \<Rightarrow> (string \<times> string) list" where
  "verdict_trail BAD_SIGNATURE = failed_at SignatureStage"
| "verdict_trail HEADER_INVALID = failed_at SignatureStage"
| "verdict_trail SCHEMA_URI_INVALID = passed [SignatureStage] @ failed_at ShapeStage"
| "verdict_trail SCHEMA_INVALID = passed [SignatureStage] @ failed_at ShapeStage"
| "verdict_trail DISCLOSURE_MODE_INVALID = passed [SignatureStage, ShapeStage] @ failed_at ShapeStage"
| "verdict_trail HASH_INVALID = passed [SignatureStage, ShapeStage] @ failed_at ShapeStage"
| "verdict_trail NOT_YET_VALID =
     passed [SignatureStage, ShapeStage, ShapeStage] @ failed_at LivenessStage"
| "verdict_trail EXPIRED = passed [SignatureStage, ShapeStage, ShapeStage] @ failed_at LivenessStage"
| "verdict_trail REVOKED =
     passed [SignatureStage, ShapeStage, ShapeStage, LivenessStage] @ failed_at RevocationStage"
| "verdict_trail REVOCATION_STATUS_INVALID =
     passed [SignatureStage, ShapeStage, ShapeStage, LivenessStage] @ failed_at RevocationStage"
| "verdict_trail POLICY_ASSURANCE_INVALID =
     passed [SignatureStage, ShapeStage, ShapeStage, LivenessStage, RevocationStage] @ failed_at PolicyStage"
| "verdict_trail VALID =
     passed [SignatureStage, ShapeStage, ShapeStage, LivenessStage, RevocationStage, PolicyStage]"

section \<open>Each check against its specification\<close>

text \<open>
  \<open>checks p n cs tr gs\<close>: run on any host, \<open>p\<close> gives the first rejection among the gates \<open>gs\<close>
  (which may look at the next readings of the clock) with a code of \<open>cs\<close>; what it prints is \<open>tr\<close>
  of its result; and when it passes it has read the clock \<open>n\<close> times.
\<close>

definition verdict_of :: "exn + vcode option \<Rightarrow> exn + vcode" where
  "verdict_of r = map_sum id (\<lambda>c. case c of None \<Rightarrow> VALID | Some c \<Rightarrow> c) r"

lemma verdict_of_VALID: "verdict_of r = Inr VALID \<longleftrightarrow> r = Inr None \<or> r = Inr (Some VALID)"
  by (auto simp: verdict_of_def map_sum_def split: sum.splits option.splits)

definition checks :: "(node_host, vcode option) prog \<Rightarrow> nat \<Rightarrow> vcode set \<Rightarrow>
    (vcode option \<Rightarrow> (string \<times> string) list) \<Rightarrow>
    ((nat \<Rightarrow> string) \<Rightarrow> (vcode \<times> (exn + bool)) list) \<Rightarrow> bool" where
  "checks p n cs tr gs = (\<forall>w h t. \<exists>r h'. run w p h t = (r, h', t) \<and> clock h' = clock h
     \<and> (r = Inr None \<longrightarrow> reads h' = reads h + n)
     \<and> (\<forall>c. r = Inr (Some c) \<longrightarrow> c \<in> cs)
     \<and> (\<forall>c. r = Inr c \<longrightarrow> map line_says (out_lines h') = map line_says (out_lines h) @ tr c)
     \<and> verdict_of r = first_reject (gs (\<lambda>i. clock h (reads h + i))))"

definition one_line :: "stage \<Rightarrow> vcode option \<Rightarrow> (string \<times> string) list" where
  "one_line st c = [(stage_string st, if c = None then ''ACCEPT'' else ''REJECT'')]"

lemma run_reject: "run w (reject s r d c) h t = (Inr (Some c), audit_host (rejected s r d) h, t)"
  by (simp add: reject_def run_rules run_audit)

lemma run_accept: "run w (accept s) h t = (Inr None, audit_host (accepted s) h, t)"
  by (simp add: accept_def run_rules run_audit)

lemma run_isoNow: "run w isoNow h t = (Inr (clock h (reads h)), h\<lparr>reads := Suc (reads h)\<rparr>, t)"
  by (simp add: isoNow_def run_rules)

lemma strict_eq_JStr [simp]: "strict_eq v (JStr s) \<longleftrightarrow> v = JStr s"
  by (cases v) simp_all

lemma str_not_empty: "is_str v \<Longrightarrow> the_str v = [] \<longleftrightarrow> v = JStr []"
  by (cases v) simp_all

lemmas check_simps = checks_def run_rules run_reject run_accept run_audit run_isoNow one_line_def
  verdict_of_def rejected_def accepted_def Let_def verdict_gates_def

lemma header_checks:
  "checks (header_check hdr) 2 {HEADER_INVALID} (one_line SignatureStage)
     (\<lambda>_. take 1 (verdict_gates payload hdr statuslist policy n))"
  by (simp add: header_check_def check_simps)

lemma schema_checks:
  "checks (schema_check payload policy) 2 {SCHEMA_URI_INVALID, SCHEMA_INVALID} (one_line ShapeStage)
     (\<lambda>_. take 2 (drop 1 (verdict_gates payload hdr statuslist policy n)))"
  by (simp add: schema_check_def check_simps)

lemma disclosure_checks:
  "checks (disclosure_check payload) 2 {DISCLOSURE_MODE_INVALID, HASH_INVALID} (one_line ShapeStage)
     (\<lambda>_. take 2 (drop 3 (verdict_gates payload hdr statuslist policy n)))"
  by (auto simp: disclosure_check_def check_simps str_not_empty)

lemma liveness_checks:
  "checks (liveness_check payload) 3 {NOT_YET_VALID, EXPIRED} (one_line LivenessStage)
     (\<lambda>f. take 2 (drop 5 (verdict_gates payload hdr statuslist policy (f 0))))"
  by (simp add: liveness_check_def check_simps)

lemma revocation_checks:
  "checks (revocation_check payload statuslist) 2 {REVOKED, REVOCATION_STATUS_INVALID}
     (one_line RevocationStage) (\<lambda>_. take 2 (drop 7 (verdict_gates payload hdr statuslist policy n)))"
proof (cases "nullish statuslist")
  case False
  then show ?thesis
    by (cases "find_entry (jget (jget payload ''revocation'') ''serial'') (jget statuslist ''entries'')";
        cases "projr (find_entry (jget (jget payload ''revocation'') ''serial'') (jget statuslist ''entries''))")
      (simp_all add: revocation_check_def check_simps)
qed (simp add: revocation_check_def check_simps)

lemma policy_checks:
  "checks (policy_check payload policy) 2 {POLICY_ASSURANCE_INVALID} (one_line PolicyStage)
     (\<lambda>_. drop 9 (verdict_gates payload hdr statuslist policy n))"
  by (cases "set_members (jget policy ''allowed_assurance'')") (simp_all add: policy_check_def check_simps)

section \<open>The checks in sequence\<close>

lemma first_reject_append:
  "VALID \<notin> fst ` set gs \<Longrightarrow>
     first_reject (gs @ gs') = (if first_reject gs = Inr VALID then first_reject gs' else first_reject gs)"
  by (induction gs rule: first_reject.induct) auto

definition then_trail :: "vcode set \<Rightarrow> (vcode option \<Rightarrow> (string \<times> string) list) \<Rightarrow>
    (vcode option \<Rightarrow> (string \<times> string) list) \<Rightarrow> vcode option \<Rightarrow> (string \<times> string) list" where
  "then_trail cs tr tr' c = (if c \<in> Some ` cs then tr c else tr None @ tr' c)"

lemma run_or_else:
  "run w (or_else p q) h t =
     (case run w p h t of (Inr None, h', t') \<Rightarrow> run w q h' t' | r \<Rightarrow> r)"
  by (auto simp: or_else_def run_bind split: prod.splits sum.splits option.splits)

lemma checks_or_else:
  assumes p: "checks p n cs tr gs" and q: "checks q m ds tr' gs'"
    and disj: "cs \<inter> ds = {}" "VALID \<notin> cs"
    and codes: "\<And>f. fst ` set (gs f) \<subseteq> cs"
  shows "checks (or_else p q) (n + m) (cs \<union> ds) (then_trail cs tr tr')
           (\<lambda>f. gs f @ gs' (\<lambda>i. f (n + i)))"
  unfolding checks_def
proof (intro allI)
  fix w :: world and h :: node_host and t :: trace
  let ?f = "\<lambda>i. clock h (reads h + i)"
  obtain r h1 where 1: "run w p h t = (r, h1, t)" "clock h1 = clock h"
    "r = Inr None \<Longrightarrow> reads h1 = reads h + n" "\<And>c. r = Inr (Some c) \<Longrightarrow> c \<in> cs"
    "\<And>c. r = Inr c \<Longrightarrow> map line_says (out_lines h1) = map line_says (out_lines h) @ tr c"
    "verdict_of r = first_reject (gs ?f)"
    using p unfolding checks_def by blast
  have fr: "first_reject (gs ?f @ gs') =
      (if first_reject (gs ?f) = Inr VALID then first_reject gs' else first_reject (gs ?f))" for gs'
    using codes [of ?f] disj(2) by (intro first_reject_append) blast
  show "\<exists>r h'. run w (or_else p q) h t = (r, h', t) \<and> clock h' = clock h
     \<and> (r = Inr None \<longrightarrow> reads h' = reads h + (n + m))
     \<and> (\<forall>c. r = Inr (Some c) \<longrightarrow> c \<in> cs \<union> ds)
     \<and> (\<forall>c. r = Inr c \<longrightarrow> map line_says (out_lines h') = map line_says (out_lines h) @ then_trail cs tr tr' c)
     \<and> verdict_of r = first_reject (gs ?f @ gs' (\<lambda>i. ?f (n + i)))"
  proof (cases "r = Inr None")
    case True
    obtain r' h2 where 2: "run w q h1 t = (r', h2, t)" "clock h2 = clock h1"
      "r' = Inr None \<Longrightarrow> reads h2 = reads h1 + m" "\<And>c. r' = Inr (Some c) \<Longrightarrow> c \<in> ds"
      "\<And>c. r' = Inr c \<Longrightarrow> map line_says (out_lines h2) = map line_says (out_lines h1) @ tr' c"
      "verdict_of r' = first_reject (gs' (\<lambda>i. clock h1 (reads h1 + i)))"
      using q unfolding checks_def by blast
    have "first_reject (gs ?f) = Inr VALID" using 1(6) True by (simp add: verdict_of_def)
    then show ?thesis
      using 1 2 True disj by (auto simp: run_or_else fr then_trail_def add.assoc)
  next
    case False
    then have "first_reject (gs ?f) \<noteq> Inr VALID" and "run w (or_else p q) h t = (r, h1, t)"
      using 1(1,4) disj(2) unfolding 1(6) [symmetric] verdict_of_VALID
      by (auto simp: run_or_else split: sum.splits option.splits)
    moreover have "then_trail cs tr tr' c = tr c" if "r = Inr c" for c
      using 1(4) False that by (cases c) (auto simp: then_trail_def)
    ultimately show ?thesis
      using 1 False by (auto simp: fr)
  qed
qed

lemma verdict_trail_chain:
  "c \<noteq> Some VALID \<Longrightarrow> c \<noteq> Some BAD_SIGNATURE \<Longrightarrow>
   verdict_trail (case c of None \<Rightarrow> VALID | Some c \<Rightarrow> c) =
     then_trail {HEADER_INVALID} (one_line SignatureStage)
    (then_trail {SCHEMA_URI_INVALID, SCHEMA_INVALID} (one_line ShapeStage)
    (then_trail {DISCLOSURE_MODE_INVALID, HASH_INVALID} (one_line ShapeStage)
    (then_trail {NOT_YET_VALID, EXPIRED} (one_line LivenessStage)
    (then_trail {REVOKED, REVOCATION_STATUS_INVALID} (one_line RevocationStage)
       (one_line PolicyStage))))) c"
  by (cases c; cases "the c") (simp_all add: then_trail_def one_line_def passed_def failed_at_def)

lemma checks_weaken:
  assumes "checks p n cs tr gs" "cs \<subseteq> cs'" "\<And>c. c \<in> insert None (Some ` cs) \<Longrightarrow> tr c = tr' c" "gs = gs'"
  shows "checks p n cs' tr' gs'"
  unfolding checks_def
proof (intro allI)
  fix w :: world and h :: node_host and t :: trace
  obtain r h' where r: "run w p h t = (r, h', t)" "clock h' = clock h"
    "r = Inr None \<Longrightarrow> reads h' = reads h + n" "\<And>c. r = Inr (Some c) \<Longrightarrow> c \<in> cs"
    "\<And>c. r = Inr c \<Longrightarrow> map line_says (out_lines h') = map line_says (out_lines h) @ tr c"
    "verdict_of r = first_reject (gs (\<lambda>i. clock h (reads h + i)))"
    using assms(1) unfolding checks_def by blast
  have "tr c = tr' c" if "r = Inr c" for c
    using r(4) that by (cases c) (auto intro: assms(3))
  with r assms(2,4) show "\<exists>r h'. run w p h t = (r, h', t) \<and> clock h' = clock h
     \<and> (r = Inr None \<longrightarrow> reads h' = reads h + n)
     \<and> (\<forall>c. r = Inr (Some c) \<longrightarrow> c \<in> cs')
     \<and> (\<forall>c. r = Inr c \<longrightarrow> map line_says (out_lines h') = map line_says (out_lines h) @ tr' c)
     \<and> verdict_of r = first_reject (gs' (\<lambda>i. clock h (reads h + i)))"
    by (intro exI [of _ r] exI [of _ h']) auto
qed

lemma payload_checks_checks:
  "checks (payload_checks a payload hdr) 13 (UNIV - {VALID, BAD_SIGNATURE})
     (\<lambda>c. verdict_trail (case c of None \<Rightarrow> VALID | Some c \<Rightarrow> c))
     (\<lambda>f. verdict_gates payload hdr (ar_statuslist a) (ar_policy a) (f 6))"
proof -
  let ?sl = "ar_statuslist a" and ?po = "ar_policy a"
  note V = verdict_gates_def Let_def
  note chain =
    checks_or_else [OF header_checks [of hdr payload ?sl ?po "[]"]
    checks_or_else [OF schema_checks [of payload ?po hdr ?sl "[]"]
    checks_or_else [OF disclosure_checks [of payload hdr ?sl ?po "[]"]
    checks_or_else [OF liveness_checks [of payload hdr ?sl ?po]
    checks_or_else [OF revocation_checks [of payload ?sl hdr ?po "[]"]
      policy_checks [of payload ?po hdr ?sl "[]"]]]]]]
  have n: "13 = 2 + (2 + (2 + (3 + (2 + 2 :: nat))))" by simp
  show ?thesis
    unfolding payload_checks_def n
  proof (rule checks_weaken [OF chain])
    fix c assume "c \<in> insert None (Some ` ({HEADER_INVALID} \<union> ({SCHEMA_URI_INVALID, SCHEMA_INVALID}
      \<union> ({DISCLOSURE_MODE_INVALID, HASH_INVALID} \<union> ({NOT_YET_VALID, EXPIRED}
      \<union> ({REVOKED, REVOCATION_STATUS_INVALID} \<union> {POLICY_ASSURANCE_INVALID}))))))"
    then show "then_trail {HEADER_INVALID} (one_line SignatureStage)
      (then_trail {SCHEMA_URI_INVALID, SCHEMA_INVALID} (one_line ShapeStage)
      (then_trail {DISCLOSURE_MODE_INVALID, HASH_INVALID} (one_line ShapeStage)
      (then_trail {NOT_YET_VALID, EXPIRED} (one_line LivenessStage)
      (then_trail {REVOKED, REVOCATION_STATUS_INVALID} (one_line RevocationStage)
         (one_line PolicyStage))))) c = verdict_trail (case c of None \<Rightarrow> VALID | Some c \<Rightarrow> c)"
      by (subst verdict_trail_chain) auto
  qed (simp_all add: V)
qed

section \<open>Verdicts\<close>

text \<open>
  \<open>verifying w order j jws h a payload hdr\<close>: in the world \<open>w\<close> the artifacts \<open>a\<close> are read, the key
  set is built from them, and the library accepts the signature of \<open>jws\<close>, giving \<open>payload\<close> and
  the protected header \<open>hdr\<close>.
\<close>

definition keys_of :: "artifacts \<Rightarrow> jsval" where
  "keys_of a = (if truthy (jget (ar_jwks a) ''keys'') then jget (ar_jwks a) ''keys'' else JArr [])"

definition verifying :: "world \<Rightarrow> nat list \<Rightarrow> 'k jose \<Rightarrow> string \<Rightarrow> node_host \<Rightarrow> artifacts \<Rightarrow> jsval \<Rightarrow> jsval \<Rightarrow> bool" where
  "verifying w order j jws h a payload hdr =
     (result_of w (fetchTrustArtifacts order (Some Stable)) h = Inr a \<and> \<not> nullish (ar_jwks a)
      \<and> (case fst j (keys_of a) of Inl e \<Rightarrow> False | Inr keyset \<Rightarrow> snd j jws keyset = Inr (payload, hdr)))"

definition graded :: "exn + vcode \<Rightarrow> exn + verify_result" where
  "graded r = map_sum id (\<lambda>c. \<lparr>vr_ok = (c = VALID), vr_code = c\<rparr>) r"

lemma graded_simps [simp]:
  "graded (Inl e) = Inl e"
  "graded (Inr c) = Inr \<lparr>vr_ok = (c = VALID), vr_code = c\<rparr>"
  by (simp_all add: graded_def)

lemma verifyingE:
  assumes "verifying w order j jws h a payload hdr"
  obtains t keyset where "run w (fetchTrustArtifacts order (Some Stable)) h [] = (Inr a, h, t)"
    "\<not> nullish (ar_jwks a)" "fst j (keys_of a) = Inr keyset" "snd j jws keyset = Inr (payload, hdr)"
proof -
  obtain r h' t where run: "run w (fetchTrustArtifacts order (Some Stable)) h [] = (r, h', t)"
    by (metis prod_cases3)
  then have "h' = h" by (rule keeps_run [OF keeps_fetchTrustArtifacts])
  with run assms that show thesis
    by (auto simp: verifying_def result_of_def split: sum.splits)
qed

lemma run_verify:
  assumes "verifying w order j jws h a payload hdr"
  shows "\<exists>r h' t. run w (verifyAttestationJws order j jws) h [] = (graded r, h', t)
     \<and> r = first_reject (verdict_gates payload hdr (ar_statuslist a) (ar_policy a) (clock h (reads h + 6)))
     \<and> (\<forall>c. r = Inr c \<longrightarrow>
          map line_says (out_lines h') = map line_says (out_lines h) @ verdict_trail c)"
proof -
  obtain t keyset where art: "run w (fetchTrustArtifacts order (Some Stable)) h [] = (Inr a, h, t)"
    "\<not> nullish (ar_jwks a)" "fst j (keys_of a) = Inr keyset" "snd j jws keyset = Inr (payload, hdr)"
    using assms by (rule verifyingE)
  obtain r h' where r: "run w (payload_checks a payload hdr) h t = (r, h', t)"
    "\<And>c. r = Inr (Some c) \<Longrightarrow> c \<in> UNIV - {VALID, BAD_SIGNATURE}"
    "\<And>c. r = Inr c \<Longrightarrow> map line_says (out_lines h') = map line_says (out_lines h)
        @ verdict_trail (case c of None \<Rightarrow> VALID | Some c \<Rightarrow> c)"
    "verdict_of r = first_reject (verdict_gates payload hdr (ar_statuslist a) (ar_policy a) (clock h (reads h + 6)))"
    using payload_checks_checks [of a payload hdr] unfolding checks_def by blast
  have "run w (verifyAttestationJws order j jws) h [] = (graded (verdict_of r), h', t)"
    using art r(1,2)
    by (auto simp: verifyAttestationJws_def keys_of_def run_rules verdict_of_def
        split: sum.split option.split)
  moreover have "map line_says (out_lines h') = map line_says (out_lines h) @ verdict_trail c"
    if "verdict_of r = Inr c" for c
    using r(3) that by (cases r) (auto simp: verdict_of_def)
  ultimately show ?thesis using r(4) by blast
qed

lemma verify_result_cases:
  assumes "verifying w order j jws h a payload hdr"
  shows "result_of w (verifyAttestationJws order j jws) h = graded
     (first_reject (verdict_gates payload hdr (ar_statuslist a) (ar_policy a) (clock h (reads h + 6))))"
  using run_verify [OF assms] by (auto simp: result_of_def)

text \<open>
  C3. The verdict is the first rejection in the order of the verifier's checks. Once the artifacts
  are read and the signature is accepted, the verifier runs through header, schema address,
  required fields, disclosure mode, hash, validity window, revocation and policy, and returns the
  code of the first that rejects, VALID when none does; a check that throws ends it with that
  exception. The result is ok exactly when the code is VALID. It is AP-1's order, without the
  check of the claim's type that AP-1 puts after the schema address and the code does not make.
\<close>

theorem verify_first_rejection:
  assumes "verifying w order j jws h a payload hdr"
  shows "result_of w (verifyAttestationJws order j jws) h = graded
     (first_reject (verdict_gates payload hdr (ar_statuslist a) (ar_policy a) (clock h (reads h + 6))))"
  by (rule verify_result_cases [OF assms])

lemma first_reject_valid:
  "VALID \<notin> fst ` set gs \<Longrightarrow> first_reject gs = Inr VALID \<longleftrightarrow> (\<forall>g \<in> set gs. snd g = Inr False)"
  by (induction gs rule: first_reject.induct) auto

lemma gates_not_VALID: "VALID \<notin> fst ` set (verdict_gates payload hdr sl po n)"
  by (simp add: verdict_gates_def Let_def)

lemma graded_ok: "graded r = Inr v \<and> vr_ok v \<longleftrightarrow> r = Inr VALID \<and> v = \<lparr>vr_ok = True, vr_code = VALID\<rparr>"
  by (cases r) auto

text \<open>The lookup in a status list of the declared type.\<close>

lemma find_entry_typed:
  "find_entry serial (jget (statuslist_js sl) ''entries'') =
     Inr (map_option entry_js (find (\<lambda>e. JStr (se_serial e) = serial) (sl_entries sl)))"
proof -
  have "find_serial serial (map entry_js es) =
      Inr (map_option entry_js (find (\<lambda>e. JStr (se_serial e) = serial) es))" for es
    by (induction es) (auto simp: entry_js_def nullish_def)
  then show ?thesis
    by (simp add: find_entry_def statuslist_js_def map_add_def nullish_def split: option.split)
qed

definition listed_good :: "status_list \<Rightarrow> jsval \<Rightarrow> bool" where
  "listed_good sl serial = (case find (\<lambda>e. JStr (se_serial e) = serial) (sl_entries sl) of
     None \<Rightarrow> True | Some e \<Rightarrow> se_status e = Good)"

text \<open>
  The conditions the verifier puts on an attestation, given a status list and a policy of their
  types. AP-1's condition on \<open>claim.type\<close> is not among them.
\<close>

definition acceptable :: "jsval \<Rightarrow> jsval \<Rightarrow> status_list \<Rightarrow> policy \<Rightarrow> string \<Rightarrow> bool" where
  "acceptable payload hdr sl po now =
    (let serial = jget (jget payload ''revocation'') ''serial'';
         notBefore = jget (jget payload ''validity'') ''not_before'';
         notAfter = jget (jget payload ''validity'') ''not_after'';
         assurance = jget (jget payload ''policy'') ''assurance''
     in jget hdr ''alg'' = JStr ''RS256'' \<and> is_str (jget hdr ''kid'')
      \<and> jget payload ''schema_uri'' = JStr (po_schema_uri po)
      \<and> (\<forall>v \<in> {jget payload ''id'', jget (jget (jget payload ''claim'') ''value'') ''title'',
            serial, notBefore, notAfter, assurance}. truthy v)
      \<and> jget (jget payload ''disclosure'') ''mode'' = JStr ''full''
      \<and> jget (jget payload ''hash'') ''payload_alg'' = JStr ''SHA-256''
      \<and> (\<exists>x. jget (jget payload ''hash'') ''payload_hash'' = JStr x \<and> x \<noteq> [])
      \<and> \<not> stamp_lt now notBefore \<and> \<not> stamp_gt now notAfter
      \<and> listed_good sl serial
      \<and> (\<exists>x \<in> set (po_allowed_assurance po). JStr x = assurance))"

lemma typed_fields:
  "\<not> nullish (policy_js po)" "\<not> nullish (statuslist_js sl)"
  "jget (policy_js po) ''schema_uri'' = JStr (po_schema_uri po)"
  "set_members (jget (policy_js po) ''allowed_assurance'') = Inr (map JStr (po_allowed_assurance po))"
  by (simp_all add: policy_js_def statuslist_js_def nullish_def set_members_def strs_js_def)

lemma entry_status_js:
  "jget (entry_js e) ''status'' = JStr ''revoked'' \<longleftrightarrow> se_status e = EntryRevoked"
  "jget (entry_js e) ''status'' = JStr ''good'' \<longleftrightarrow> se_status e = Good"
  by (cases "se_status e"; simp add: entry_js_def)+

lemma gates_pass_iff:
  "(\<forall>g \<in> set (verdict_gates payload hdr (statuslist_js sl) (policy_js po) now). snd g = Inr False)
     \<longleftrightarrow> \<not> nullish hdr \<and> acceptable payload hdr sl po now"
proof (cases "find (\<lambda>e. JStr (se_serial e) = jget (jget payload ''revocation'') ''serial'') (sl_entries sl)")
  case None
  then show ?thesis
    by (auto simp: verdict_gates_def acceptable_def Let_def typed_fields find_entry_typed
        listed_good_def is_str_iff)
next
  case (Some e)
  then show ?thesis
    by (cases "se_status e")
      (auto simp: verdict_gates_def acceptable_def Let_def typed_fields find_entry_typed
        listed_good_def is_str_iff entry_status_js)
qed

lemma valid_iff_acceptable:
  assumes v: "verifying w order j jws h a payload hdr"
    and types: "ar_statuslist a = statuslist_js sl" "ar_policy a = policy_js po"
  shows "result_of w (verifyAttestationJws order j jws) h = Inr \<lparr>vr_ok = True, vr_code = VALID\<rparr> \<longleftrightarrow>
     \<not> nullish hdr \<and> acceptable payload hdr sl po (clock h (reads h + 6))"
proof -
  have "graded r = Inr \<lparr>vr_ok = True, vr_code = VALID\<rparr> \<longleftrightarrow> r = Inr VALID" for r
    by (cases r) auto
  then show ?thesis
    unfolding verify_result_cases [OF v] types
    by (simp add: first_reject_valid gates_not_VALID gates_pass_iff)
qed

text \<open>
  Which claim an attestation makes is not looked at: AP-1 also asks (section 4.2) for a
  \<open>claim.type\<close> of \<open>employment.role\<close> and names the code CLAIM_TYPE_INVALID, which the verifier does not
  have. Payloads that differ in nothing but their claim, and there not in its value, meet the same
  checks.
\<close>

lemma claim_type_not_checked:
  assumes "\<And>k. k \<noteq> ''claim'' \<Longrightarrow> jget payload k = jget payload' k"
    and "jget (jget payload ''claim'') ''value'' = jget (jget payload' ''claim'') ''value''"
  shows "verdict_gates payload hdr sl po n = verdict_gates payload' hdr sl po n"
  unfolding verdict_gates_def by (simp add: assms)

text \<open>
  C4. When the verifier reports VALID: with a status list and a policy of the declared types, an
  attestation whose signature the library accepts is reported VALID exactly when its algorithm is
  RS256 under a named key, its schema is the policy's, its six required fields are present, it
  discloses in full, carries a SHA-256 hash, is within its validity window as the strings
  compare, the first status entry for its serial, if there is one, says good, and its
  assurance level is among those allowed. These are the conditions of the code; AP-1 has one more,
  a \<open>claim.type\<close> of \<open>employment.role\<close>, which the code does not test (lemma \<open>claim_type_not_checked\<close>).
\<close>

theorem verify_valid_iff:
  assumes v: "verifying w order j jws h a payload hdr"
    and types: "ar_statuslist a = statuslist_js sl" "ar_policy a = policy_js po"
  shows "result_of w (verifyAttestationJws order j jws) h = Inr \<lparr>vr_ok = True, vr_code = VALID\<rparr> \<longleftrightarrow>
     \<not> nullish hdr \<and> acceptable payload hdr sl po (clock h (reads h + 6))"
  by (rule valid_iff_acceptable [OF assms])

text \<open>A vocabulary of examples: an attestation, its header, and a library that accepts it.\<close>

definition sample_payload :: jsval where
  "sample_payload = JObj
     [(''id'', JStr ''att-1''), (''schema_uri'', JStr ''schema/employment.role/v1''),
      (''claim'', JObj [(''value'', JObj [(''title'', JStr ''Engineer'')])]),
      (''validity'', JObj [(''not_before'', JStr ''2025-01-01T00:00:00.000Z''),
                           (''not_after'', JStr ''2026-01-01T00:00:00.000Z'')]),
      (''revocation'', JObj [(''serial'', JStr ''s-1'')]),
      (''policy'', JObj [(''assurance'', JStr ''TAL-3'')]),
      (''disclosure'', JObj [(''mode'', JStr ''full'')]),
      (''hash'', JObj [(''payload_alg'', JStr ''SHA-256''), (''payload_hash'', JStr ''00ff'')])]"

definition sample_jose :: "unit jose" where
  "sample_jose = ((\<lambda>_. Inr ()), (\<lambda>jws _. if jws = ''a.b.c'' then Inr (sample_payload, sign_header ''k1'')
                                   else Inl (JsErr ''signature verification failed'')))"

definition sample_status :: status_list where
  "sample_status = \<lparr>sl_version = None, sl_ttl_s = None,
     sl_entries = [\<lparr>se_serial = ''s-0'', se_status = EntryRevoked\<rparr>]\<rparr>"

definition sample_policy :: policy where
  "sample_policy = \<lparr>po_schema_uri = ''schema/employment.role/v1'', po_allowed_assurance = [''TAL-3'', ''TAL-4'']\<rparr>"

definition trust_files :: "jsval \<Rightarrow> string \<Rightarrow> disk_file option" where
  "trust_files po =
     [''trust/jwks.json'' \<mapsto> \<lparr>fl_text = [], fl_json = Some (jwks_js [])\<rparr>,
      ''trust/statuslist.json'' \<mapsto> \<lparr>fl_text = [], fl_json = Some (statuslist_js sample_status)\<rparr>,
      ''trust/policy.json'' \<mapsto> \<lparr>fl_text = [], fl_json = Some po\<rparr>,
      ''keys/k1.pem'' \<mapsto> \<lparr>fl_text = ''pem'', fl_json = None\<rparr>,
      ''att.json'' \<mapsto> \<lparr>fl_text = [], fl_json = Some sample_payload\<rparr>,
      ''att.jws'' \<mapsto> \<lparr>fl_text = ''a.b.c '', fl_json = None\<rparr>]"

definition offline :: world where
  "offline t e = RFail (JsErr ''offline'')"

definition sample_artifacts :: "jsval \<Rightarrow> artifacts" where
  "sample_artifacts po = \<lparr>ar_source = LocalMode, ar_jwks = jwks_js [],
     ar_statuslist = statuslist_js sample_status, ar_policy = po\<rparr>"

lemma sample_files: "files (sample_host fs) = fs"
  by (simp add: sample_host_def)

lemma run_sample_artifacts:
  "run offline (fetchTrustArtifacts order opts) (sample_host (trust_files po)) []
     = (Inr (sample_artifacts po), sample_host (trust_files po), [])"
proof -
  have "cfg_file (sample_host (trust_files po)) no_cfg"
    by (simp add: cfg_file_def sample_host_def trust_files_def)
  moreover have "base_url (typed_cfg (\<lambda>_. None) no_cfg) = []"
    by (simp add: typed_cfg_def no_cfg_def setting_def)
  ultimately have "run offline loadTrustConfig (sample_host (trust_files po)) []
      = (Inr (typed_cfg (\<lambda>_. None) no_cfg), sample_host (trust_files po), [])"
    using wp_loadTrustConfig by (intro run_of_wp) (simp add: sample_cfg(2))
  with \<open>base_url (typed_cfg (\<lambda>_. None) no_cfg) = []\<close> show ?thesis
    by (simp add: fetchTrustArtifacts_def getTrustUrls_def local_artifacts_def run_rules
        sample_cfg(2) sample_files trust_files_def sample_artifacts_def)
qed

lemma sample_verifying:
  "verifying offline order sample_jose ''a.b.c'' (sample_host (trust_files po)) (sample_artifacts po)
     sample_payload (sign_header ''k1'')"
  unfolding verifying_def result_of_def run_sample_artifacts
  by (simp add: sample_jose_def sample_artifacts_def jwks_js_def nullish_def)

lemma sample_acceptable:
  "acceptable sample_payload (sign_header ''k1'') sample_status sample_policy ''2025-11-09T10:00:00.000Z''"
  by (simp add: acceptable_def sample_payload_def sign_header_def sample_policy_def Let_def
      listed_good_def sample_status_def stamp_lt_def stamp_gt_def)

lemma verify_first_rejection_witness:
  "result_of offline (verifyAttestationJws [] sample_jose ''a.b.c'') (sample_host (trust_files JNull))
     = Inl TypeErr"
  using verify_first_rejection [OF sample_verifying, of "[]" JNull]
  by (simp add: sample_artifacts_def verdict_gates_def Let_def sign_header_def nullish_def)

lemma verify_valid_iff_witness:
  "result_of offline (verifyAttestationJws [] sample_jose ''a.b.c'')
     (sample_host (trust_files (policy_js sample_policy))) = Inr \<lparr>vr_ok = True, vr_code = VALID\<rparr>"
proof -
  have "\<not> nullish (sign_header ''k1'')" by (simp add: sign_header_def nullish_def)
  with sample_acceptable show ?thesis
    using verify_valid_iff [OF sample_verifying, of "policy_js sample_policy" sample_status sample_policy "[]"]
    by (simp add: sample_artifacts_def sample_host_def)
qed

section \<open>The audit trail\<close>

lemma run_verify_cases:
  assumes "run w (verifyAttestationJws order j jws) h [] = (Inr r, h', t)"
  shows "(\<exists>a payload hdr. verifying w order j jws h a payload hdr)
    \<or> (r = \<lparr>vr_ok = False, vr_code = BAD_SIGNATURE\<rparr> \<and> map line_says (out_lines h') =
         map line_says (out_lines h) @ verdict_trail BAD_SIGNATURE)"
proof -
  obtain a t1 where art: "run w (fetchTrustArtifacts order (Some Stable)) h [] = (Inr a, h, t1)"
    using assms keeps_run [OF keeps_fetchTrustArtifacts]
    by (auto simp: verifyAttestationJws_def run_bind split: prod.splits sum.splits)
  then have jw: "\<not> nullish (ar_jwks a)"
    using assms by (auto simp: verifyAttestationJws_def run_rules split: if_splits)
  obtain ks where ks: "fst j (keys_of a) = Inr ks"
    using assms art jw by (auto simp: verifyAttestationJws_def keys_of_def run_rules split: sum.splits)
  show ?thesis
  proof (cases "snd j jws ks")
    case (Inl e)
    then show ?thesis
      using assms art jw ks
      by (auto simp: verifyAttestationJws_def keys_of_def run_rules run_audit rejected_def failed_at_def)
  next
    case (Inr p)
    then have "verifying w order j jws h a (fst p) (snd p)"
      using art jw ks by (simp add: verifying_def result_of_def)
    then show ?thesis by blast
  qed
qed

lemma run_verify_trail:
  assumes "run w (verifyAttestationJws order j jws) h [] = (Inr r, h', t)"
  shows "vr_ok r = (vr_code r = VALID)"
    and "map line_says (out_lines h') = map line_says (out_lines h) @ verdict_trail (vr_code r)"
proof -
  have "vr_ok r = (vr_code r = VALID) \<and>
    map line_says (out_lines h') = map line_says (out_lines h) @ verdict_trail (vr_code r)"
    using run_verify_cases [OF assms]
  proof (elim disjE exE)
    fix a payload hdr assume "verifying w order j jws h a payload hdr"
    from run_verify [OF this] obtain v where v: "Inr r = graded v"
      "\<And>c. v = Inr c \<Longrightarrow> map line_says (out_lines h') = map line_says (out_lines h) @ verdict_trail c"
      using assms by auto
    then show ?thesis by (cases v) auto
  qed auto
  then show "vr_ok r = (vr_code r = VALID)"
    and "map line_says (out_lines h') = map line_says (out_lines h) @ verdict_trail (vr_code r)"
    by auto
qed

text \<open>
  C7. The audit trail tells the verdict. A verification that returns, by whatever way, has
  printed exactly the trail of its verdict: an ACCEPT line for each stage passed, in order, and
  for a rejection one last REJECT line at the stage of the code.
\<close>

theorem audit_trail_of_verdict:
  assumes "run w (verifyAttestationJws order j jws) h [] = (Inr r, h', t)"
  shows "map line_says (out_lines h') = map line_says (out_lines h) @ verdict_trail (vr_code r)
     \<and> vr_ok r = (vr_code r = VALID)
     \<and> (snd (last (verdict_trail (vr_code r))) = ''REJECT'') = (\<not> vr_ok r)"
proof -
  have "(snd (last (verdict_trail c)) = ''REJECT'') = (c \<noteq> VALID)" for c
    by (cases c) (simp_all add: passed_def failed_at_def)
  then show ?thesis using run_verify_trail [OF assms] by simp
qed

lemma audit_trail_of_verdict_witness:
  "\<exists>h'. run offline (verifyAttestationJws [] sample_jose ''x'') (sample_host (trust_files JNull)) []
      = (Inr \<lparr>vr_ok = False, vr_code = BAD_SIGNATURE\<rparr>, h', [])
    \<and> map line_says (out_lines h') = [(''signature'', ''REJECT'')]"
proof -
  obtain h' where run: "run offline (verifyAttestationJws [] sample_jose ''x'') (sample_host (trust_files JNull)) []
      = (Inr \<lparr>vr_ok = False, vr_code = BAD_SIGNATURE\<rparr>, h', [])"
    by (simp add: verifyAttestationJws_def run_rules run_sample_artifacts run_audit sample_jose_def)
      (simp add: sample_artifacts_def jwks_js_def nullish_def run_rules run_audit)
  show ?thesis
    using audit_trail_of_verdict [OF run] run by (simp add: failed_at_def sample_host_def)
qed

text \<open>
  Logging never decides. On two hosts that differ only in whether the audit file can be
  appended to, and in what it holds, the verification gives the same result, sends the same
  requests and prints the same lines.
\<close>

lemma verdict_independent_of_audit_disk:
  "agree (run w (verifyAttestationJws order j jws) h t)
         (run w (verifyAttestationJws order j jws) (h\<lparr>append_ok := f, log_lines := ls\<rparr>) t)"
proof -
  have "log_blind (verifyAttestationJws order j jws)"
    unfolding verifyAttestationJws_def payload_checks_def or_else_def header_check_def schema_check_def
      disclosure_check_def liveness_check_def revocation_check_def policy_check_def reject_def accept_def
    by (intro blind_rules; simp add: same_but_log_def)
  then show ?thesis by (rule blindD) (simp add: same_but_log_def)
qed

section \<open>Policies and dates the checks cannot use\<close>

text \<open>
  Under a policy document in the VP-1 format, which the repository ships as its policy, no
  attestation is ever reported VALID: the two fields the verifier reads are not in that format.
\<close>

lemma vp1_policy_never_valid:
  assumes v: "verifying w order j jws h a payload hdr" and po: "ar_policy a = vp1_js p"
  shows "result_of w (verifyAttestationJws order j jws) h \<noteq> Inr \<lparr>vr_ok = True, vr_code = VALID\<rparr>"
proof -
  let ?gs = "verdict_gates payload hdr (ar_statuslist a) (ar_policy a) (clock h (reads h + 6))"
  have "(POLICY_ASSURANCE_INVALID, Inr True) \<in> set ?gs"
    by (simp add: verdict_gates_def Let_def po vp1_js_fields set_members_def nullish_def)
  then have "first_reject ?gs \<noteq> Inr VALID"
    by (force simp: first_reject_valid gates_not_VALID)
  then show ?thesis
    unfolding verify_result_cases [OF v] by (cases "first_reject ?gs") auto
qed

definition sample_vp1 :: verification_policy where
  "sample_vp1 = \<lparr>vp_id = ''vp-1.employment-role.high-hiring'', vp_version = ''1.0.0'', vp_description = None,
     vp_risk_tier = HighRisk,
     vp_applies_to = \<lparr>at_claim_types = [''employment.role''], at_schema_uri = Some ''schema/employment.role/v1''\<rparr>,
     vp_assurance = Some \<lparr>ap_allowed_levels = [TAL1, TAL2, TAL3, TAL4], ap_min_level = Some TAL3\<rparr>,
     vp_scoring = \<lparr>min_score_accept = 85, min_score_review = 70,
       sp_soft_ambiguity = \<lparr>sa_enable = True, margin_soft = 5, margin_hard = 15,
                            max_candidates_considered = 5\<rparr>\<rparr>,
     vp_recency = \<lparr>max_claim_age_days = Some (Some 365), max_issued_age_days = Some (Some 365),
       max_last_seen_age_days = Some (Some 90), max_revocation_age_seconds = 3600\<rparr>,
     vp_trust_constraints = \<lparr>min_trust_path_strength = 3, allowed_key_states = [KeyActive]\<rparr>,
     vp_disposition = \<lparr>disp_no_valid_attestations = DispReject, disp_ambiguous_result = DispReject\<rparr>,
     vp_audit = \<lparr>emit_verification_receipt = True, include_scores = True, include_candidate_set_hash = True\<rparr>\<rparr>"

lemma vp1_policy_never_valid_witness:
  "result_of offline (verifyAttestationJws [] sample_jose ''a.b.c'')
     (sample_host (trust_files (vp1_js sample_vp1))) \<noteq> Inr \<lparr>vr_ok = True, vr_code = VALID\<rparr>"
  by (rule vp1_policy_never_valid [OF sample_verifying]) (simp add: sample_artifacts_def)

text \<open>
  The validity window is enforced for dates that are strings, as the strings compare and
  without any tolerance: such a verification passes the liveness check exactly when the reading
  of the clock is neither below the one nor above the other. Dates that are numbers are never
  rejected, however far in the future or the past.
\<close>

lemma liveness_only_for_strings:
  "(jget (jget payload ''validity'') ''not_before'' = JStr nb \<and>
    jget (jget payload ''validity'') ''not_after'' = JStr na \<longrightarrow>
      (result_of w (liveness_check payload) h = Inr None \<longleftrightarrow>
         str_le nb (clock h (reads h)) \<and> str_le (clock h (reads h)) na))
   \<and> (jget (jget payload ''validity'') ''not_before'' = JNum i \<and>
      jget (jget payload ''validity'') ''not_after'' = JNum k \<longrightarrow>
      result_of w (liveness_check payload) h = Inr None)"
  by (auto simp: result_of_def liveness_check_def check_simps stamp_lt_def stamp_gt_def str_le_def)

lemma liveness_only_for_strings_witness:
  "result_of offline (liveness_check (JObj [(''validity'',
       JObj [(''not_before'', JNum 99999999999), (''not_after'', JNum 1)])])) (sample_host cfg_files)
     = Inr None
   \<and> result_of offline (liveness_check sample_payload) (sample_host cfg_files) = Inr None"
proof
  show "result_of offline (liveness_check (JObj [(''validity'',
       JObj [(''not_before'', JNum 99999999999), (''not_after'', JNum 1)])])) (sample_host cfg_files)
     = Inr None"
    using liveness_only_for_strings [of "JObj [(''validity'',
       JObj [(''not_before'', JNum 99999999999), (''not_after'', JNum 1)])]" _ _ _ _ 99999999999 1]
    by simp
  show "result_of offline (liveness_check sample_payload) (sample_host cfg_files) = Inr None"
    using liveness_only_for_strings [of sample_payload "''2025-01-01T00:00:00.000Z''"
        "''2026-01-01T00:00:00.000Z''" offline "sample_host cfg_files"]
    by (simp add: sample_payload_def sample_host_def str_le_def)
qed

section \<open>The exit status of the command line\<close>

text \<open>
  The exit status of the command line. It is 2 exactly when no file is named; otherwise it is
  0 when the named file can be read and the verification of its trimmed text reports VALID, and 1
  in every other case, whether the verdict is a rejection or something throws.
\<close>

theorem run_verify_exit_status:
  "result_of w (run_verify_main order j arg) h = Inr
     (if or_default arg [] = [] then 2
      else (case files h (the arg) of
              None \<Rightarrow> 1
            | Some f \<Rightarrow> if result_of w (verifyAttestationJws order j (trim (fl_text f))) h
                          = Inr \<lparr>vr_ok = True, vr_code = VALID\<rparr> then 0 else 1))"
proof (cases "or_default arg [] = [] \<or> files h (the arg) = None")
  case True
  then show ?thesis by (auto simp: run_verify_main_def result_of_def run_rules)
next
  case False
  then obtain f where f: "files h (the arg) = Some f" by auto
  obtain r h' t where run: "run w (verifyAttestationJws order j (trim (fl_text f))) h [] = (r, h', t)"
    by (metis prod_cases3)
  have "vr_ok v \<longleftrightarrow> v = \<lparr>vr_ok = True, vr_code = VALID\<rparr>" if "r = Inr v" for v
    using run_verify_trail(1) [OF run [unfolded that]] by (cases v) auto
  then show ?thesis
    using False f run by (cases r) (auto simp: run_verify_main_def result_of_def run_rules print_line_def)
qed

end
