(* ===== verification/SignVerify.thy ===== *)
theory SignVerify
  imports Verify "HOL-Library.Countable"
begin

text \<open>
  The signer (\<open>pkg/issuer/sign-file.ts\<close>) and the verifier (\<open>pkg/verification/verify.ts\<close> and its command
  line) together. The JOSE library is a parameter; of it the property uses what RFC 7515 and the
  library's documentation say of a signature and the key that belongs to it.
\<close>

section \<open>What is used of the JOSE library\<close>

text \<open>A compact JWS is made of base64url characters and dots (RFC 7515, section 7.1).\<close>

definition compact_chars :: "char set" where
  "compact_chars = set ''ABCDEFGHIJKLMNOPQRSTUVWXYZabcdefghijklmnopqrstuvwxyz0123456789-_.''"

text \<open>Claims of the payload that \<open>jwtVerify\<close> would test against the time.\<close>

definition without_times :: "jsval \<Rightarrow> bool" where
  "without_times payload = (\<exists>fs. payload = JObj fs \<and> set (map fst fs) \<inter> {''exp'', ''nbf'', ''iat''} = {})"

text \<open>The key set has exactly one key of this name, the public half (modulus and exponent) \<open>pub\<close>.\<close>

definition names_key :: "jwks \<Rightarrow> string \<Rightarrow> string \<times> string \<Rightarrow> bool" where
  "names_key ks kid pub = (case filter (\<lambda>k. jwk_kid k = kid) ks of
       [k] \<Rightarrow> (jwk_n k, jwk_e k) = pub
     | _ \<Rightarrow> False)"

text \<open>
  The documented behaviour: a local key set can be made of an array of keys; a signature is a compact
  JWS; and a payload read from JSON that has no time claims, signed under a header that names the key,
  is verified by a key set in which exactly that name stands for the public half of the signing
  key, giving back payload and header. Nothing is said of other keys.
\<close>

definition jose_laws :: "(string \<Rightarrow> exn + 'p) \<Rightarrow> (jsval \<Rightarrow> jsval \<Rightarrow> 'p \<Rightarrow> exn + string) \<Rightarrow>
    ('p \<Rightarrow> string \<times> string) \<Rightarrow> 'k jose \<Rightarrow> jsval \<Rightarrow> bool" where
  "jose_laws import_key sign public_half j payload =
    ((\<forall>ks. \<exists>keyset. fst j (JArr (map jwk_js ks)) = Inr keyset)
     \<and> (\<forall>hdr key jws. sign payload hdr key = Inr jws \<longrightarrow> jws \<noteq> [] \<and> set jws \<subseteq> compact_chars)
     \<and> (\<forall>pem key kid jws ks keyset. import_key pem = Inr key \<longrightarrow> sign payload (sign_header kid) key = Inr jws \<longrightarrow>
          fst j (JArr (map jwk_js ks)) = Inr keyset \<longrightarrow> names_key ks kid (public_half key) \<longrightarrow>
          without_times payload \<longrightarrow> snd j jws keyset = Inr (payload, sign_header kid)))"

lemma compact_not_ws: "c \<in> compact_chars \<Longrightarrow> \<not> js_ws c"
  by (auto simp: compact_chars_def js_ws_def)

lemma trim_compact:
  assumes "jws \<noteq> []" "set jws \<subseteq> compact_chars"
  shows "trim (jws @ [CHR 0x0A]) = jws"
proof (rule trim_append_ws)
  have "hd jws \<in> compact_chars" "last jws \<in> compact_chars" using assms by auto
  then show "trim jws = jws" by (intro trim_id) (simp_all add: compact_not_ws)
qed (simp_all add: js_ws_def assms(1))

section \<open>The signer's output through the verifier\<close>

lemma sign_header_passes:
  "first_reject (verdict_gates payload (sign_header kid) sl po n) =
     first_reject (tl (verdict_gates payload (sign_header kid) sl po n))"
  by (simp add: verdict_gates_def Let_def sign_header_def nullish_def)

lemma signed_output:
  assumes "run w (sign_file_main import_key sign [''--kid'', kid, path]) h [] = (Inr 0, h', t)"
  obtains f payload g key jws where "files h path = Some f" "fl_json f = Some payload"
    "files h (''keys/'' @ kid @ ''.pem'') = Some g" "import_key (fl_text g) = Inr key"
    "sign payload (sign_header kid) key = Inr jws" "out_lines h' = out_lines h @ [JStr (jws @ [CHR 0x0A])]"
  using assms
  by (auto simp: sign_file_main_def run_rules print_line_def Let_def flag_value_def
      split: if_splits option.splits sum.splits)

lemma typed_keys: "ar_jwks a = jwks_js ks \<Longrightarrow> \<not> nullish (ar_jwks a) \<and> keys_of a = JArr (map jwk_js ks)"
  by (simp add: jwks_js_def keys_of_def nullish_def)

text \<open>
  C8. What the signer prints, the verifier accepts as signed. The issuer signs a file of claims with
  the key \<open>kid\<close>; the verifier's artifacts have a key set in which \<open>kid\<close> is the public half of that
  private key and no other key has its name, and a status list and a policy of their types. Then
  the signer's output, saved to a file and handed to the verifier's command line, has as its verdict
  the first rejection of the checks after the signature's and the header's, on the payload of the
  signed file; and the command exits with 0 exactly when that payload meets the verifier's conditions,
  and otherwise with 1. Of the library only the laws above are used, for the payload that is signed.
\<close>

theorem sign_then_verify:
  fixes j :: "'k jose" and import_key :: "string \<Rightarrow> exn + 'p"
  assumes signed: "run w (sign_file_main import_key sign [''--kid'', kid, path]) h [] = (Inr 0, h', t)"
    and claims: "files h path = Some f" "fl_json f = Some payload" "without_times payload"
    and jose: "jose_laws import_key sign public_half j payload"
    and pair: "files h (''keys/'' @ kid @ ''.pem'') = Some g" "import_key (fl_text g) = Inr key"
      "names_key ks kid (public_half key)"
    and art: "result_of v (fetchTrustArtifacts order (Some Stable)) hv = Inr a"
      "ar_jwks a = jwks_js ks" "ar_statuslist a = statuslist_js sl" "ar_policy a = policy_js po"
  shows "\<exists>jws. out_lines h' = out_lines h @ [JStr (jws @ [CHR 0x0A])]
     \<and> result_of v (verifyAttestationJws order j (trim (jws @ [CHR 0x0A]))) hv =
         graded (first_reject (tl (verdict_gates payload (sign_header kid) (ar_statuslist a) (ar_policy a)
           (clock hv (reads hv + 6)))))
     \<and> (\<forall>saved x. saved \<noteq> [] \<longrightarrow> files hv saved = Some x \<longrightarrow> fl_text x = jws @ [CHR 0x0A] \<longrightarrow>
          result_of v (run_verify_main order j (Some saved)) hv =
            Inr (if acceptable payload (sign_header kid) sl po (clock hv (reads hv + 6)) then 0 else 1))"
proof -
  from signed_output [OF signed] claims pair obtain jws where s: "sign payload (sign_header kid) key = Inr jws"
    "out_lines h' = out_lines h @ [JStr (jws @ [CHR 0x0A])]" by (metis option.sel sum.sel(2))
  obtain keyset where keyset: "fst j (JArr (map jwk_js ks)) = Inr keyset"
    using jose unfolding jose_laws_def by blast
  have ok: "snd j jws keyset = Inr (payload, sign_header kid)"
    using jose pair(2,3) s(1) keyset claims(3) unfolding jose_laws_def by blast
  have t: "trim (jws @ [CHR 0x0A]) = jws"
    using jose s(1) unfolding jose_laws_def by (blast intro: trim_compact)
  have v: "verifying v order j jws hv a payload (sign_header kid)"
    using art(1) typed_keys [OF art(2)] keyset ok by (simp add: verifying_def)
  have "\<not> nullish (sign_header kid)" by (simp add: sign_header_def nullish_def)
  then have valid: "result_of v (verifyAttestationJws order j jws) hv = Inr \<lparr>vr_ok = True, vr_code = VALID\<rparr>
      \<longleftrightarrow> acceptable payload (sign_header kid) sl po (clock hv (reads hv + 6))"
    using valid_iff_acceptable [OF v art(3,4)] by simp
  have "result_of v (verifyAttestationJws order j (trim (jws @ [CHR 0x0A]))) hv =
         graded (first_reject (tl (verdict_gates payload (sign_header kid) (ar_statuslist a) (ar_policy a)
           (clock hv (reads hv + 6)))))"
    by (simp only: t verify_result_cases [OF v] sign_header_passes)
  moreover have "result_of v (run_verify_main order j (Some saved)) hv =
      Inr (if acceptable payload (sign_header kid) sl po (clock hv (reads hv + 6)) then 0 else 1)"
    if "saved \<noteq> []" "files hv saved = Some x" "fl_text x = jws @ [CHR 0x0A]" for saved x
    using that valid t by (simp add: run_verify_exit_status or_default_def split: list.split)
  ultimately show ?thesis using s(2) by (intro exI [of _ jws] conjI allI impI)
qed

section \<open>A library that keeps the laws\<close>

text \<open>
  Signatures as terms: the text of a signature stands for payload, header and key, and verifying
  it asks for the public half under the name in the header. The private keys are the texts of their
  files, and the public half of a key has that text as its modulus.
\<close>

instance jsval :: countable
  by countable_datatype

definition term_sign :: "jsval \<Rightarrow> jsval \<Rightarrow> string \<Rightarrow> exn + string" where
  "term_sign payload hdr key = Inr (CHR ''e'' # replicate (to_nat (payload, hdr, key)) CHR ''A'')"

definition term_public :: "string \<Rightarrow> string \<times> string" where
  "term_public key = (key, ''AQAB'')"

definition term_keyset :: "jsval \<Rightarrow> exn + (jsval \<times> jsval) list" where
  "term_keyset v = (case v of JArr ks \<Rightarrow> Inr (map (\<lambda>k. (jget k ''kid'', jget k ''n'')) ks) | _ \<Rightarrow> Inl TypeErr)"

definition term_verify :: "string \<Rightarrow> (jsval \<times> jsval) list \<Rightarrow> exn + jsval \<times> jsval" where
  "term_verify jws keys =
     (let (payload, hdr, key) = (from_nat (length jws - 1) :: jsval \<times> jsval \<times> string)
      in if term_sign payload hdr key = Inr jws \<and> filter (\<lambda>k. fst k = jget hdr ''kid'') keys = [(jget hdr ''kid'', JStr key)]
         then Inr (payload, hdr) else Inl (JsErr ''signature verification failed''))"

definition term_jose :: "(jsval \<times> jsval) list jose" where
  "term_jose = (term_keyset, term_verify)"

lemma jwk_js_fields: "jget (jwk_js k) ''kid'' = JStr (jwk_kid k)" "jget (jwk_js k) ''n'' = JStr (jwk_n k)"
  by (simp_all add: jwk_js_def)

lemma term_filter:
  "filter (\<lambda>k. fst k = JStr kid) (map (\<lambda>k. (JStr (jwk_kid k), JStr (jwk_n k))) ks)
     = map (\<lambda>k. (JStr (jwk_kid k), JStr (jwk_n k))) (filter (\<lambda>k. jwk_kid k = kid) ks)"
  by (induction ks) simp_all

lemma term_laws: "jose_laws Inr term_sign term_public term_jose payload"
  unfolding jose_laws_def
proof (intro conjI allI impI)
  show "\<exists>keyset. fst term_jose (JArr (map jwk_js ks)) = Inr keyset" for ks
    by (simp add: term_jose_def term_keyset_def)
  show "jws \<noteq> []" "set jws \<subseteq> compact_chars" if "term_sign payload hdr key = Inr jws" for hdr key jws
  proof -
    have "CHR ''e'' \<in> compact_chars" "CHR ''A'' \<in> compact_chars" by (simp_all add: compact_chars_def)
    then show "jws \<noteq> []" "set jws \<subseteq> compact_chars"
      using that by (auto simp: term_sign_def split: if_splits)
  qed
next
  fix pem key kid jws ks keyset
  assume "term_sign payload (sign_header kid) key = Inr jws" "fst term_jose (JArr (map jwk_js ks)) = Inr keyset"
    "names_key ks kid (term_public key)"
  then have jws: "jws = CHR ''e'' # replicate (to_nat (payload, sign_header kid, key)) CHR ''A''"
    and keyset: "keyset = map (\<lambda>k. (JStr (jwk_kid k), JStr (jwk_n k))) ks"
    and named: "names_key ks kid (term_public key)"
    by (simp_all add: term_sign_def term_jose_def term_keyset_def jwk_js_fields comp_def)
  from named obtain k where k: "filter (\<lambda>k. jwk_kid k = kid) ks = [k]" "jwk_n k = key"
    by (auto simp: names_key_def term_public_def split: list.splits)
  have "k \<in> set (filter (\<lambda>k. jwk_kid k = kid) ks)" unfolding k(1) by simp
  then have "jwk_kid k = kid" by simp
  with k have "filter (\<lambda>k. fst k = JStr kid) keyset = [(JStr kid, JStr key)]"
    unfolding keyset term_filter by simp
  moreover have "jget (sign_header kid) ''kid'' = JStr kid" by (simp add: sign_header_def)
  ultimately show "snd term_jose jws keyset = Inr (payload, sign_header kid)"
    by (simp add: term_jose_def term_verify_def term_sign_def jws)
qed

text \<open>The issuer's and the verifier's directory: the key's public half is published, the output saved.\<close>

definition issuer_files :: "string \<Rightarrow> string \<Rightarrow> disk_file option" where
  "issuer_files saved = (trust_files (policy_js sample_policy))
     (''trust/jwks.json'' \<mapsto> \<lparr>fl_text = [], fl_json = Some (jwks_js [\<lparr>jwk_use = True, jwk_kid = ''k1'', jwk_alg = True,
        jwk_n = ''pem'', jwk_e = ''AQAB''\<rparr>])\<rparr>,
      ''att.jws'' \<mapsto> \<lparr>fl_text = saved, fl_json = None\<rparr>)"

definition issuer_artifacts :: artifacts where
  "issuer_artifacts = (sample_artifacts (policy_js sample_policy))\<lparr>ar_jwks := jwks_js
     [\<lparr>jwk_use = True, jwk_kid = ''k1'', jwk_alg = True, jwk_n = ''pem'', jwk_e = ''AQAB''\<rparr>]\<rparr>"

lemma run_issuer_artifacts:
  "result_of offline (fetchTrustArtifacts order opts) (sample_host (issuer_files saved)) = Inr issuer_artifacts"
proof -
  have "cfg_file (sample_host (issuer_files saved)) no_cfg"
    by (simp add: cfg_file_def sample_host_def issuer_files_def trust_files_def)
  moreover have base: "base_url (typed_cfg (\<lambda>_. None) no_cfg) = []"
    by (simp add: typed_cfg_def no_cfg_def setting_def)
  ultimately have "run offline loadTrustConfig (sample_host (issuer_files saved)) []
      = (Inr (typed_cfg (\<lambda>_. None) no_cfg), sample_host (issuer_files saved), [])"
    using wp_loadTrustConfig by (intro run_of_wp) (simp add: sample_cfg(2))
  with base show ?thesis
    by (simp add: result_of_def fetchTrustArtifacts_def getTrustUrls_def local_artifacts_def run_rules
        sample_cfg(2) sample_files issuer_files_def trust_files_def issuer_artifacts_def sample_artifacts_def)
qed

lemma sign_then_verify_witness:
  "\<exists>h' jws. run offline (sign_file_main Inr term_sign [''--kid'', ''k1'', ''att.json'']) (sample_host (issuer_files [])) []
       = (Inr 0, h', [])
     \<and> out_lines h' = [JStr (jws @ [CHR 0x0A])]
     \<and> result_of offline (run_verify_main [] term_jose (Some ''att.jws'')) (sample_host (issuer_files (jws @ [CHR 0x0A])))
         = Inr 0"
proof -
  let ?h = "sample_host (issuer_files [])"
  obtain h' where run: "run offline (sign_file_main Inr term_sign [''--kid'', ''k1'', ''att.json'']) ?h [] = (Inr 0, h', [])"
    by (simp add: sign_file_main_def run_rules Let_def print_line_def flag_value_def sample_files
        issuer_files_def trust_files_def term_sign_def)
  have claims: "without_times sample_payload" by (simp add: without_times_def sample_payload_def)
  let ?key = "\<lparr>jwk_use = True, jwk_kid = ''k1'', jwk_alg = True, jwk_n = ''pem'', jwk_e = ''AQAB''\<rparr>"
  have disk: "files ?h ''att.json'' = Some \<lparr>fl_text = [], fl_json = Some sample_payload\<rparr>"
    "files ?h (''keys/'' @ ''k1'' @ ''.pem'') = Some \<lparr>fl_text = ''pem'', fl_json = None\<rparr>"
    by (simp_all add: sample_files issuer_files_def trust_files_def)
  have key: "names_key [?key] ''k1'' (term_public ''pem'')" by (simp add: names_key_def term_public_def)
  have art: "ar_jwks issuer_artifacts = jwks_js [?key]" "ar_statuslist issuer_artifacts = statuslist_js sample_status"
    "ar_policy issuer_artifacts = policy_js sample_policy"
    by (simp_all add: issuer_artifacts_def sample_artifacts_def)
  note signed = sign_then_verify [OF run disk(1) _ claims term_laws disk(2) _ _ run_issuer_artifacts art,
      of "''pem''" "[]", simplified, OF key]
  from signed [of "[]"] obtain jws where out: "out_lines h' = out_lines ?h @ [JStr (jws @ [CHR 0x0A])]" by auto
  let ?v = "sample_host (issuer_files (jws @ [CHR 0x0A]))"
  from signed [of "jws @ [CHR 0x0A]"] out have "result_of offline (run_verify_main [] term_jose (Some ''att.jws'')) ?v =
      Inr (if acceptable sample_payload (sign_header ''k1'') sample_status sample_policy (clock ?v (reads ?v + 6)) then 0 else 1)"
    by (auto simp: sample_files issuer_files_def)
  moreover have "clock ?v (reads ?v + 6) = ''2025-11-09T10:00:00.000Z''" "out_lines ?h = []"
    by (simp_all add: sample_host_def)
  ultimately show ?thesis using run out sample_acceptable by auto
qed

end
