(* ===== verification/AuthTypes.thy ===== *)
theory AuthTypes
  imports JsAsync
begin

text \<open>
  The session's data (\<open>src/auth/types.ts\<close>) and the Kratos documents it exchanges
  (\<open>src/auth/kratosTypes.ts\<close>). Kratos answers arrive as unchecked JSON, so each Kratos type has an
  encoding \<open>..._js\<close>, the value a document of that type parses to; the handlers compute on values.
\<close>

section \<open>The session's types\<close>

datatype auth_status = StChecking | StUnauthenticated | StAuthenticated | StSessionExpired

datatype expired_reason = RefreshUnauthorized | ApiUnauthorized | ApiForbidden

record app_user =
  us_id :: string
  us_email :: string
  us_name :: "string option"
  us_role :: "string option"

record token_pair =
  tp_access_token :: string
  tp_refresh_token :: string
  tp_expires_in :: "int option"
  tp_user :: app_user

record register_input =
  ri_email :: string
  ri_password :: string
  ri_full_name :: "string option"

datatype register_result =
    VerificationRequired jsval string
  | LoginRequired
  | RegAuthenticated

datatype refresh_result = RefreshOk jsval | RefreshFail

definition field :: "string \<Rightarrow> ('a \<Rightarrow> jsval) \<Rightarrow> 'a option \<Rightarrow> (string \<times> jsval) list" where
  "field k enc x = (case x of None \<Rightarrow> [] | Some v \<Rightarrow> [(k, enc v)])"

lemma map_of_field [simp]:
  "map_of (field k enc x) k' = (if k = k' then map_option enc x else None)"
  by (simp add: field_def split: option.split)

definition user_js :: "app_user \<Rightarrow> jsval" where
  "user_js u = JObj ([(''id'', JStr (us_id u)), (''email'', JStr (us_email u))]
     @ field ''name'' JStr (us_name u) @ field ''role'' JStr (us_role u))"

definition tokens_js :: "token_pair \<Rightarrow> jsval" where
  "tokens_js p = JObj ([(''access_token'', JStr (tp_access_token p)),
                        (''refresh_token'', JStr (tp_refresh_token p))]
     @ field ''expires_in'' JNum (tp_expires_in p) @ [(''user'', user_js (tp_user p))])"

lemma tokens_js_get [simp]:
  "\<not> nullish (tokens_js p)"
  "jget (tokens_js p) ''access_token'' = JStr (tp_access_token p)"
  "jget (tokens_js p) ''refresh_token'' = JStr (tp_refresh_token p)"
  "jget (tokens_js p) ''user'' = user_js (tp_user p)"
  by (simp_all add: tokens_js_def nullish_def map_add_def)

section \<open>Kratos documents\<close>

record kratos_text =
  kt_id :: int
  kt_text :: string
  kt_type :: string
  kt_context :: "jsval option"

record kratos_attributes =
  ka_name :: "string option"
  ka_value :: "string option"
  ka_type :: "string option"

record kratos_node =
  kn_type :: string
  kn_group :: string
  kn_attributes :: "kratos_attributes option"
  kn_messages :: "kratos_text list option"
  kn_meta :: "jsval option"

record kratos_ui =
  ku_action :: string
  ku_method :: string
  ku_nodes :: "kratos_node list"
  ku_messages :: "kratos_text list option"

datatype flow_type = ApiFlow | BrowserFlow

record login_flow =
  lf_id :: string
  lf_type :: flow_type
  lf_ui :: kratos_ui

record registration_flow =
  rf_id :: string
  rf_type :: "flow_type option"
  rf_ui :: kratos_ui

record recovery_flow =
  vf_id :: string
  vf_type :: flow_type
  vf_expires_at :: "string option"
  vf_issued_at :: "string option"
  vf_request_url :: "string option"
  vf_return_to :: "string option"
  vf_state :: string
  vf_ui :: kratos_ui

record kratos_error =
  ke_id :: "string option"
  ke_type :: "string option"
  ke_ui :: "kratos_ui option"
  ke_error_message :: "string option option"

record native_session =
  ns_id :: string
  ns_identity_id :: string
  ns_traits :: "(string \<times> jsval) list"

record native_login =
  nl_session_token :: "string option"
  nl_session :: "native_session option"

record native_registration =
  nr_session_token :: string
  nr_session_id :: "string option"

fun flow_type_string :: "flow_type \<Rightarrow> string" where
  "flow_type_string ApiFlow = ''api''"
| "flow_type_string BrowserFlow = ''browser''"

definition text_js :: "kratos_text \<Rightarrow> jsval" where
  "text_js t = JObj ([(''id'', JNum (kt_id t)), (''text'', JStr (kt_text t)), (''type'', JStr (kt_type t))]
     @ field ''context'' (\<lambda>c. c) (kt_context t))"

definition attributes_js :: "kratos_attributes \<Rightarrow> jsval" where
  "attributes_js a = JObj (field ''name'' JStr (ka_name a) @ field ''value'' JStr (ka_value a)
     @ field ''type'' JStr (ka_type a))"

definition node_js :: "kratos_node \<Rightarrow> jsval" where
  "node_js n = JObj ([(''type'', JStr (kn_type n)), (''group'', JStr (kn_group n))]
     @ field ''attributes'' attributes_js (kn_attributes n)
     @ field ''messages'' (\<lambda>ms. JArr (map text_js ms)) (kn_messages n)
     @ field ''meta'' (\<lambda>m. m) (kn_meta n))"

definition ui_js :: "kratos_ui \<Rightarrow> jsval" where
  "ui_js u = JObj ([(''action'', JStr (ku_action u)), (''method'', JStr (ku_method u)),
                    (''nodes'', JArr (map node_js (ku_nodes u)))]
     @ field ''messages'' (\<lambda>ms. JArr (map text_js ms)) (ku_messages u))"

definition login_flow_js :: "login_flow \<Rightarrow> jsval" where
  "login_flow_js f = JObj [(''id'', JStr (lf_id f)), (''type'', JStr (flow_type_string (lf_type f))),
                           (''ui'', ui_js (lf_ui f))]"

definition registration_flow_js :: "registration_flow \<Rightarrow> jsval" where
  "registration_flow_js f = JObj ([(''id'', JStr (rf_id f))]
     @ field ''type'' (\<lambda>t. JStr (flow_type_string t)) (rf_type f) @ [(''ui'', ui_js (rf_ui f))])"

definition recovery_flow_js :: "recovery_flow \<Rightarrow> jsval" where
  "recovery_flow_js f = JObj ([(''id'', JStr (vf_id f)), (''type'', JStr (flow_type_string (vf_type f)))]
     @ field ''expires_at'' JStr (vf_expires_at f) @ field ''issued_at'' JStr (vf_issued_at f)
     @ field ''request_url'' JStr (vf_request_url f) @ field ''return_to'' JStr (vf_return_to f)
     @ [(''state'', JStr (vf_state f)), (''ui'', ui_js (vf_ui f))])"

definition kratos_error_js :: "kratos_error \<Rightarrow> jsval" where
  "kratos_error_js e = JObj (field ''id'' JStr (ke_id e) @ field ''type'' JStr (ke_type e)
     @ field ''ui'' ui_js (ke_ui e)
     @ field ''error'' (\<lambda>m. JObj (field ''message'' JStr m)) (ke_error_message e))"

definition native_session_js :: "native_session \<Rightarrow> jsval" where
  "native_session_js n = JObj [(''id'', JStr (ns_id n)),
     (''identity'', JObj [(''id'', JStr (ns_identity_id n)), (''traits'', JObj (ns_traits n))])]"

definition native_login_js :: "native_login \<Rightarrow> jsval" where
  "native_login_js l = JObj (field ''session_token'' JStr (nl_session_token l)
     @ field ''session'' native_session_js (nl_session l))"

definition native_registration_js :: "native_registration \<Rightarrow> jsval" where
  "native_registration_js r = JObj ([(''session_token'', JStr (nr_session_token r))]
     @ field ''session'' (\<lambda>i. JObj [(''id'', JStr i)]) (nr_session_id r))"

lemma nullish_ui [simp]: "\<not> nullish (ui_js u)"
  by (simp add: ui_js_def nullish_def)

lemma ui_js_get [simp]:
  "jget (ui_js u) ''action'' = JStr (ku_action u)"
  "jget (ui_js u) ''method'' = JStr (ku_method u)"
  "jget (ui_js u) ''nodes'' = JArr (map node_js (ku_nodes u))"
  "jget (ui_js u) ''messages'' = (case ku_messages u of None \<Rightarrow> JUndef | Some ms \<Rightarrow> JArr (map text_js ms))"
  by (auto simp: ui_js_def map_add_def split: option.split)

lemma flow_js_get [simp]:
  "\<not> nullish (login_flow_js f)" "jget (login_flow_js f) ''ui'' = ui_js (lf_ui f)"
  "\<not> nullish (registration_flow_js g)" "jget (registration_flow_js g) ''ui'' = ui_js (rf_ui g)"
  by (auto simp: login_flow_js_def registration_flow_js_def nullish_def map_add_def)

section \<open>Reading Kratos documents\<close>

text \<open>\<open>v[0]\<close> and the test \<open>v.length === 0\<close> on a truthy value.\<close>

definition first_item :: "jsval \<Rightarrow> jsval" where
  "first_item v = (case v of JArr (x # xs) \<Rightarrow> x | JObj ps \<Rightarrow> jget v ''0'' | JStr (c # cs) \<Rightarrow> JStr [c]
                   | _ \<Rightarrow> JUndef)"

definition length_zero :: "jsval \<Rightarrow> bool" where
  "length_zero v = (v = JArr [] \<or> jget v ''length'' = JNum 0)"

text \<open>\<open>data.ui?.messages\<close>, its first text, or one of two default sentences.\<close>

definition ui_message :: "string \<Rightarrow> string \<Rightarrow> jsval \<Rightarrow> ('s, string) prog" where
  "ui_message none_msg no_text data =
     bind (prop_of data ''ui'') (\<lambda>ui.
     let msgs = jget ui ''messages'' in
     if \<not> truthy msgs \<or> length_zero msgs then Return none_msg
     else
       (let text = jget (first_item msgs) ''text''
        in Return (if nullish text then no_text else js_string text)))"

definition extractLoginErrorMessage :: "jsval \<Rightarrow> ('s, string) prog" where
  "extractLoginErrorMessage = ui_message
     ''Unable to sign in. Please check your email and password.''
     ''Unable to sign in. Please try again.''"

definition extractRegistrationErrorMessage :: "jsval \<Rightarrow> ('s, string) prog" where
  "extractRegistrationErrorMessage = ui_message
     ''We could not create your account. Please check your details and try again.''
     ''We could not create your account. Please try again.''"

text \<open>
  \<open>nodes?.find((node) => node.attributes?.name === name)?.attributes?.value\<close>: nothing without
  nodes, an engine error when a nullish node is met or \<open>nodes\<close> is no array.
\<close>

fun find_node :: "string \<Rightarrow> jsval list \<Rightarrow> exn + jsval" where
  "find_node name [] = Inr JUndef"
| "find_node name (n # ns) =
     (if nullish n then Inl TypeErr
      else if jget (jget n ''attributes'') ''name'' = JStr name then Inr n
      else find_node name ns)"

definition node_value :: "jsval \<Rightarrow> string \<Rightarrow> ('s, jsval) prog" where
  "node_value nodes name =
     (if nullish nodes then Return JUndef
      else if is_arr nodes then
        (case find_node name (the_arr nodes) of
           Inl e \<Rightarrow> Raise e
         | Inr n \<Rightarrow> Return (jget (jget n ''attributes'') ''value''))
      else Raise TypeErr)"

text \<open>\<open>v?.slice(0, n)\<close> in a log line: harmless on a nullish value.\<close>

definition opt_slice :: "jsval \<Rightarrow> ('s, unit) prog" where
  "opt_slice v = (if nullish v then Return () else need_slice v)"

lemma keeps_kratos [keeps_rules]:
  "keeps (ui_message a b d)" "keeps (node_value v n)" "keeps (opt_slice w)"
  unfolding ui_message_def node_value_def opt_slice_def
  by (auto intro!: keeps_rules split: sum.split)

lemma keeps_extract [keeps_rules]:
  "keeps (extractLoginErrorMessage d)" "keeps (extractRegistrationErrorMessage d)"
  unfolding extractLoginErrorMessage_def extractRegistrationErrorMessage_def
  by (rule keeps_rules)+

text \<open>On a typed user interface: the value of the first node with the name.\<close>

definition typed_node_value :: "kratos_ui \<Rightarrow> string \<Rightarrow> string option" where
  "typed_node_value u name =
     Option.bind (find (\<lambda>n. Option.bind (kn_attributes n) ka_name = Some name) (ku_nodes u))
       (\<lambda>n. Option.bind (kn_attributes n) ka_value)"

lemma node_js_attr:
  "\<not> nullish (node_js n)"
  "jget (jget (node_js n) ''attributes'') ''name'' =
     (case Option.bind (kn_attributes n) ka_name of None \<Rightarrow> JUndef | Some s \<Rightarrow> JStr s)"
  "jget (jget (node_js n) ''attributes'') ''value'' =
     (case Option.bind (kn_attributes n) ka_value of None \<Rightarrow> JUndef | Some s \<Rightarrow> JStr s)"
  by (auto simp: node_js_def attributes_js_def nullish_def map_add_def split: option.split)

lemma find_node_typed:
  "find_node name (map node_js ns) =
     Inr (case find (\<lambda>n. Option.bind (kn_attributes n) ka_name = Some name) ns of
            None \<Rightarrow> JUndef | Some n \<Rightarrow> node_js n)"
  by (induction ns) (auto simp: node_js_attr split: option.splits)

lemma run_node_value_typed [run_rules]:
  "run w (node_value (JArr (map node_js (ku_nodes u))) name) s t =
     (Inr (case typed_node_value u name of None \<Rightarrow> JUndef | Some v \<Rightarrow> JStr v), s, t)"
  by (auto simp: node_value_def nullish_def find_node_typed typed_node_value_def node_js_attr
      split: option.splits)

end
