(* ===== verification/AuthSession.thy ===== *)
theory AuthSession
  imports AuthTypes
begin

text \<open>
  The session of the app (\<open>src/auth/AuthContext.tsx\<close>): the provider's state, the stored refresh
  token, and the handlers that change them. The record is open, so that the screens extend it
  with their own state and call these handlers on it.

  A \<open>useState\<close> cell and a \<open>useRef\<close> cell are both fields; a set state is what the next handler or
  render reads. The in-flight refresh promise is a number: \<open>JoinRefresh i\<close> awaits it. Console
  lines are left out except where reading their arguments can throw.
\<close>

record auth =
  on_web :: bool
  status :: auth_status
  accessToken :: jsval
  user :: jsval
  isLoggingOut :: bool
  isLoggingOutRef :: bool
  sessionExpiredReason :: "expired_reason option"
  refreshInFlight :: "nat option"
  flights :: nat

type_synonym ('x, 'a) handler = "('x auth_scheme, 'a) prog"

definition KRATOS_BASE_URL :: string where
  "KRATOS_BASE_URL = ''https://auth.cvera.app''"

definition API_BASE_URL :: string where
  "API_BASE_URL = ''https://api.cvera.app''"

definition REFRESH_TOKEN_KEY :: string where
  "REFRESH_TOKEN_KEY = ''cvera_refresh_token_v1''"

definition setStatus :: "auth_status \<Rightarrow> ('x, unit) handler" where
  "setStatus v = modify (\<lambda>s. s\<lparr>status := v\<rparr>)"

definition setAccessToken :: "jsval \<Rightarrow> ('x, unit) handler" where
  "setAccessToken v = modify (\<lambda>s. s\<lparr>accessToken := v\<rparr>)"

definition setUser :: "jsval \<Rightarrow> ('x, unit) handler" where
  "setUser v = modify (\<lambda>s. s\<lparr>user := v\<rparr>)"

definition setSessionExpiredReason :: "expired_reason option \<Rightarrow> ('x, unit) handler" where
  "setSessionExpiredReason v = modify (\<lambda>s. s\<lparr>sessionExpiredReason := v\<rparr>)"

definition setIsLoggingOut :: "bool \<Rightarrow> ('x, unit) handler" where
  "setIsLoggingOut v = modify (\<lambda>s. s\<lparr>isLoggingOut := v\<rparr>)"

definition is_web :: "('x, bool) handler" where
  "is_web = gets on_web"

lemmas setter_defs = setStatus_def setAccessToken_def setUser_def setSessionExpiredReason_def
  setIsLoggingOut_def is_web_def

section \<open>The stored refresh token\<close>

text \<open>
  On the web \<open>localStorage.setItem\<close> stores the string of any value; the native key store refuses
  a value that is no string.
\<close>

definition put_token :: "string \<Rightarrow> ('x, unit) handler" where
  "put_token token = Await (StorePut REFRESH_TOKEN_KEY token)
     (\<lambda>r. case r of RFail e \<Rightarrow> Raise e | _ \<Rightarrow> Return ())"

definition storeRefreshToken :: "jsval \<Rightarrow> ('x, unit) handler" where
  "storeRefreshToken token =
     bind is_web (\<lambda>web.
     if web then put_token (js_string token)
     else if is_str token then put_token (the_str token)
     else Raise (JsErr ''Invalid value provided to SecureStore''))"

definition getStoredRefreshToken :: "('x, string option) handler" where
  "getStoredRefreshToken = Await (StoreGet REFRESH_TOKEN_KEY)
     (\<lambda>r. case r of RText v \<Rightarrow> Return v | RFail e \<Rightarrow> Raise e | _ \<Rightarrow> Return None)"

definition hasStoredSession :: "('x, bool) handler" where
  "hasStoredSession =
     bind is_web (\<lambda>web.
     if web then Return False
     else
       bind getStoredRefreshToken (\<lambda>refreshToken.
       Return (refreshToken \<noteq> None \<and> refreshToken \<noteq> Some [])))"

definition clearStoredRefreshToken :: "('x, unit) handler" where
  "clearStoredRefreshToken = Await (StoreDel REFRESH_TOKEN_KEY)
     (\<lambda>r. case r of RFail e \<Rightarrow> Raise e | _ \<Rightarrow> Return ())"

section \<open>Session transitions\<close>

definition markSessionExpired :: "expired_reason \<Rightarrow> ('x, unit) handler" where
  "markSessionExpired reason =
     seq (setAccessToken JNull)
    (seq (setUser JNull)
    (seq (setSessionExpiredReason (Some reason))
    (seq (try_catch clearStoredRefreshToken (\<lambda>_. skip))
         (setStatus StSessionExpired))))"

definition beginReauth :: "('x, unit) handler" where
  "beginReauth = seq (setSessionExpiredReason None) (setStatus StUnauthenticated)"

text \<open>The four assignments that end a session without a reason.\<close>

definition drop_session :: "('x, unit) handler" where
  "drop_session =
     seq (setAccessToken JNull)
    (seq (setUser JNull)
    (seq (setSessionExpiredReason None)
         (setStatus StUnauthenticated)))"

definition json_headers :: "(string \<times> string) list" where
  "json_headers = [(''Content-Type'', ''application/json'')]"

definition post_json :: "string \<Rightarrow> jsval \<Rightarrow> request" where
  "post_json url body = \<lparr>rq_url = url, rq_method = ''POST'', rq_headers = json_headers,
     rq_credentials = [], rq_body = body\<rparr>"

definition accept_headers :: "(string \<times> string) list" where
  "accept_headers = [(''Accept'', ''application/json'')]"

definition bare_request :: "string \<Rightarrow> string \<Rightarrow> string \<Rightarrow> request" where
  "bare_request method url cred = \<lparr>rq_url = url, rq_method = method, rq_headers = accept_headers,
     rq_credentials = cred, rq_body = JUndef\<rparr>"

section \<open>Refresh, single flight\<close>

definition refresh_request :: "string \<Rightarrow> request" where
  "refresh_request token = post_json (API_BASE_URL @ ''/auth/refresh'')
     (JObj [(''refresh_token'', JStr token)])"

text \<open>
  The body of the promise. Its requests go to an address the interceptor passes on unchanged
  (\<open>interceptor_passes\<close> below), so they are sent directly.
\<close>

definition refresh_body :: "('x, refresh_result) handler" where
  "refresh_body =
     bind getStoredRefreshToken (\<lambda>refreshToken.
     case refreshToken of
       None \<Rightarrow> seq drop_session (Return RefreshFail)
     | Some token \<Rightarrow>
        if token = [] then seq drop_session (Return RefreshFail)
        else
          bind (try_catch (bind (fetch (refresh_request token)) (\<lambda>r. Return (Some r))) (\<lambda>_. Return None))
            (\<lambda>res. case res of
              None \<Rightarrow> seq clearStoredRefreshToken (seq drop_session (Return RefreshFail))
            | Some res \<Rightarrow>
                if rs_status res = 401
                then seq (markSessionExpired RefreshUnauthorized) (Return RefreshFail)
                else if \<not> rs_ok res
                then seq clearStoredRefreshToken (seq drop_session (Return RefreshFail))
                else
                  bind (res_json res) (\<lambda>data.
                  bind (prop_of data ''access_token'') (\<lambda>access.
                  seq (need_slice access)
                 (seq (need_slice (jget data ''refresh_token''))
                 (seq (setAccessToken access)
                 (seq (setUser (jget data ''user''))
                 (seq (setSessionExpiredReason None)
                 (seq (storeRefreshToken (jget data ''refresh_token''))
                 (seq (setStatus StAuthenticated)
                      (Return (RefreshOk access))))))))))))"

definition decode_refresh :: "jsval \<Rightarrow> refresh_result" where
  "decode_refresh v = (if truthy (jget v ''ok'') then RefreshOk (jget v ''accessToken'') else RefreshFail)"

definition join_refresh :: "nat \<Rightarrow> ('x, refresh_result) handler" where
  "join_refresh i = Await (JoinRefresh i)
     (\<lambda>r. case r of RFail e \<Rightarrow> Raise e | RVal v \<Rightarrow> Return (decode_refresh v) | _ \<Rightarrow> Return RefreshFail)"

definition refresh :: "('x, refresh_result) handler" where
  "refresh =
     bind (gets refreshInFlight) (\<lambda>flight. case flight of
       Some i \<Rightarrow> join_refresh i
     | None \<Rightarrow>
        seq (modify (\<lambda>s. s\<lparr>refreshInFlight := Some (flights s), flights := Suc (flights s)\<rparr>))
            (try_finally refresh_body (modify (\<lambda>s. s\<lparr>refreshInFlight := None\<rparr>))))"

definition restoreSession :: "('x, refresh_result) handler" where
  "restoreSession = refresh"

section \<open>The fetch interceptor\<close>

definition shouldHandleUrl :: "string \<Rightarrow> bool" where
  "shouldHandleUrl url = starts_with url API_BASE_URL"

definition isAuthEndpoint :: "string \<Rightarrow> bool" where
  "isAuthEndpoint url = (str_includes url ''/auth/refresh'' \<or> str_includes url ''/auth/logout''
     \<or> str_includes url ''/auth/exchange'')"

text \<open>\<open>Headers\<close>: names are compared without case, \<open>set\<close> replaces.\<close>

definition has_header :: "string \<Rightarrow> (string \<times> string) list \<Rightarrow> bool" where
  "has_header k hs = (\<exists>h \<in> set hs. to_lower (fst h) = to_lower k)"

definition get_header :: "string \<Rightarrow> (string \<times> string) list \<Rightarrow> string option" where
  "get_header k hs = map_option snd (find (\<lambda>h. to_lower (fst h) = to_lower k) hs)"

definition set_header :: "string \<Rightarrow> string \<Rightarrow> (string \<times> string) list \<Rightarrow> (string \<times> string) list" where
  "set_header k v hs = filter (\<lambda>h. to_lower (fst h) \<noteq> to_lower k) hs @ [(k, v)]"

definition bearer :: "jsval \<Rightarrow> string" where
  "bearer token = ''Bearer '' @ js_string token"

definition authorized :: "jsval \<Rightarrow> request \<Rightarrow> request" where
  "authorized token rq =
     (if truthy token \<and> \<not> has_header ''Authorization'' (rq_headers rq)
      then rq\<lparr>rq_headers := set_header ''Authorization'' (bearer token) (rq_headers rq)\<rparr> else rq)"

definition retry_request :: "jsval \<Rightarrow> request \<Rightarrow> request" where
  "retry_request token rq = rq\<lparr>rq_headers := set_header ''Authorization'' (bearer token)
     (set_header ''x-auth-retry'' ''1'' (rq_headers rq))\<rparr>"

definition api_fetch :: "request \<Rightarrow> ('x, response) handler" where
  "api_fetch rq =
     (let url = rq_url rq in
      if url = [] \<or> \<not> shouldHandleUrl url \<or> isAuthEndpoint url then fetch rq
      else
        bind (gets accessToken) (\<lambda>token.
        let isRetry = (get_header ''x-auth-retry'' (rq_headers rq) = Some ''1'') in
        bind (fetch (authorized token rq)) (\<lambda>res.
        if rs_status res \<noteq> 401 \<and> rs_status res \<noteq> 403 then Return res
        else if isRetry then
          seq (if rs_status res = 401 then markSessionExpired ApiUnauthorized
               else markSessionExpired ApiForbidden) (Return res)
        else
          bind refresh (\<lambda>result. case result of
            RefreshFail \<Rightarrow> Return res
          | RefreshOk token' \<Rightarrow> fetch (retry_request token' rq)))))"

section \<open>Hydrating a browser session\<close>

definition adopt_tokens :: "jsval \<Rightarrow> ('x, unit) handler" where
  "adopt_tokens tokens =
     seq (storeRefreshToken (jget tokens ''refresh_token''))
    (seq (setAccessToken (jget tokens ''access_token''))
    (seq (setUser (jget tokens ''user''))
    (seq (setSessionExpiredReason None)
         (setStatus StAuthenticated))))"

definition hydrateWebKratosSession :: "('x, bool) handler" where
  "hydrateWebKratosSession =
     bind is_web (\<lambda>web.
     if \<not> web then Return False
     else
       try_catch
        (bind (api_fetch (bare_request ''GET'' (KRATOS_BASE_URL @ ''/sessions/whoami'') ''include'')) (\<lambda>res.
         if \<not> rs_ok res then Return False
         else
           bind (res_json res) (\<lambda>session.
           let kratosIdentityId = jget (jget session ''identity'') ''id'' in
           if \<not> is_str kratosIdentityId \<or> the_str kratosIdentityId = [] then Return False
           else
             bind (api_fetch (bare_request ''POST'' (API_BASE_URL @ ''/auth/web/exchange'') ''include''))
               (\<lambda>exchangeRes.
             if \<not> rs_ok exchangeRes then Return False
             else
               bind (res_json exchangeRes) (\<lambda>tokens.
               seq (prop_of tokens ''refresh_token'')
              (seq (adopt_tokens tokens)
                   (Return True)))))))
        (\<lambda>_. Return False))"

section \<open>Exchange, login, register\<close>

definition exchangeSessionToken :: "jsval \<Rightarrow> ('x, jsval) handler" where
  "exchangeSessionToken sessionToken =
     bind (api_fetch (post_json (API_BASE_URL @ ''/auth/exchange'')
             (JObj [(''kratos_session_token'', sessionToken)]))) (\<lambda>res.
     if \<not> rs_ok res
     then Raise (AuthErr ''token_exchange_failed'' ''Could not complete sign-in. Please try again.''
                   (Some (rs_text res)))
     else
       bind (res_json res) (\<lambda>data.
       bind (prop_of data ''access_token'') (\<lambda>access.
       seq (need_slice access)
      (seq (need_slice (jget data ''refresh_token''))
           (Return data)))))"

definition credentials_of :: "bool \<Rightarrow> string" where
  "credentials_of web = (if web then ''include'' else ''omit'')"

text \<open>The request that submits a Kratos form: to the flow's action, by the flow's method.\<close>

definition submit_form :: "bool \<Rightarrow> jsval \<Rightarrow> jsval \<Rightarrow> (string \<times> jsval) list \<Rightarrow> ('x, response) handler" where
  "submit_form web ui csrf body =
     bind (prop_of ui ''action'') (\<lambda>action.
     let m = jget ui ''method'' in
     api_fetch \<lparr>rq_url = js_string action, rq_method = (if nullish m then ''POST'' else js_string m),
        rq_headers = [(''Accept'', ''application/json''), (''Content-Type'', ''application/json; charset=utf-8'')]
          @ (if web \<and> truthy csrf then [(''X-CSRF-Token'', js_string csrf)] else []),
        rq_credentials = credentials_of web,
        rq_body = JObj (body @ (if web then [(''csrf_token'', csrf)] else []))\<rparr>)"

definition csrf_of :: "bool \<Rightarrow> jsval \<Rightarrow> ('x, jsval) handler" where
  "csrf_of web ui =
     (if web then bind (prop_of ui ''nodes'') (\<lambda>nodes. node_value nodes ''csrf_token'')
      else Return JUndef)"

definition missing_csrf :: exn where
  "missing_csrf = AuthErr ''missing_csrf_token''
     ''Unable to complete browser sign-in because the CSRF token was missing.'' None"

definition create_flow :: "bool \<Rightarrow> string \<Rightarrow> ('x, response) handler" where
  "create_flow web kind = api_fetch (bare_request ''GET''
     (KRATOS_BASE_URL @ ''/self-service/'' @ kind @ (if web then ''/browser'' else ''/api''))
     (credentials_of web))"

definition start_login_failed :: "response \<Rightarrow> ('x, unit) handler" where
  "start_login_failed flowRes =
     seq (setStatus StUnauthenticated)
         (Raise (AuthErr ''create_login_flow_failed'' ''Unable to start sign-in.'' (Some (rs_text flowRes))))"

definition error_id :: "response \<Rightarrow> jsval" where
  "error_id res = (case rs_json res of None \<Rightarrow> JUndef | Some v \<Rightarrow> jget (jget v ''error'') ''id'')"

text \<open>On a device, the session token of Kratos is exchanged for the tokens of the API.\<close>

definition native_login_result :: "jsval \<Rightarrow> ('x, unit) handler" where
  "native_login_result submitJson =
     bind (prop_of submitJson ''session_token'') (\<lambda>session_token.
     if \<not> truthy session_token then
       seq (setStatus StUnauthenticated)
           (Raise (AuthErr ''missing_session_token'' ''Kratos did not return a session token.'' None))
     else
       seq (need_slice session_token)
      (bind (exchangeSessionToken session_token) (\<lambda>tokens.
       adopt_tokens tokens)))"

definition login :: "string \<Rightarrow> string \<Rightarrow> ('x, unit) handler" where
  "login email password =
     seq (setStatus StChecking)
    (bind is_web (\<lambda>web.
     bind (create_flow web ''login'') (\<lambda>flowRes.
     if \<not> rs_ok flowRes then
       (if web \<and> rs_status flowRes = 400 \<and> error_id flowRes = JStr ''session_already_available'' then
          bind hydrateWebKratosSession (\<lambda>hydrated.
          if hydrated then skip else start_login_failed flowRes)
        else start_login_failed flowRes)
     else
       bind (res_json flowRes) (\<lambda>flow.
       bind (prop_of flow ''ui'') (\<lambda>ui.
       bind (csrf_of web ui) (\<lambda>csrfToken.
       seq (opt_slice csrfToken)
      (if web \<and> \<not> truthy csrfToken then seq (setStatus StUnauthenticated) (Raise missing_csrf)
       else
         bind (submit_form web ui csrfToken
                 [(''method'', JStr ''password''), (''identifier'', JStr (to_lower (trim email))),
                  (''password'', JStr password)]) (\<lambda>submitRes.
         bind (res_json submitRes) (\<lambda>submitJson.
         if rs_status submitRes = 400 then
           bind (extractLoginErrorMessage submitJson) (\<lambda>msg.
           seq (setStatus StUnauthenticated) (Raise (AuthErr ''invalid_credentials'' msg None)))
         else if \<not> rs_ok submitRes then
           seq (setStatus StUnauthenticated)
               (Raise (AuthErr ''login_failed'' ''Sign-in failed unexpectedly.'' (Some (json_text submitJson))))
         else if web then
           bind hydrateWebKratosSession (\<lambda>hydrated.
           if \<not> hydrated then
             seq (setStatus StUnauthenticated)
                 (Raise (AuthErr ''web_exchange_failed''
                    ''Sign-in succeeded, but we could not finish loading your app session.'' None))
           else skip)
         else
           native_login_result submitJson)))))))))"

text \<open>
  A non-empty answer is parsed; one that is not JSON stays a string, an empty one is null.
\<close>

definition loose_json :: "response \<Rightarrow> jsval" where
  "loose_json res = (if rs_text res = [] then JNull
     else (case rs_json res of None \<Rightarrow> JStr (rs_text res) | Some v \<Rightarrow> v))"

definition is_verification_item :: "jsval \<Rightarrow> bool" where
  "is_verification_item item = (is_object item \<and> has_key item ''action''
     \<and> jget item ''action'' = JStr ''show_verification_ui'' \<and> has_key item ''flow'')"

definition verification_url :: "jsval \<Rightarrow> jsval" where
  "verification_url submitJson =
     (let continueWith = (if has_key submitJson ''continue_with'' then jget submitJson ''continue_with'' else JUndef)
      in if is_arr continueWith
         then (case find is_verification_item (the_arr continueWith) of
                 None \<Rightarrow> JUndef | Some item \<Rightarrow> jget (jget item ''flow'') ''url'')
         else JUndef)"

text \<open>\<open>url_flow u\<close> stands for \<open>new URL(u).searchParams.get("flow")\<close>, which throws on a bad address.\<close>

definition register_web_result :: "(jsval \<Rightarrow> exn + string option) \<Rightarrow> jsval \<Rightarrow> ('x, register_result) handler" where
  "register_web_result url_flow submitJson =
     (let verificationUrl = verification_url submitJson in
      seq (setStatus StUnauthenticated)
     (if truthy verificationUrl then
        (case url_flow verificationUrl of
           Inl e \<Rightarrow> Raise e
         | Inr flow \<Rightarrow> if or_default flow [] \<noteq> []
                      then Return (VerificationRequired verificationUrl (or_default flow []))
                      else Return LoginRequired)
      else Return LoginRequired))"

definition native_register_result :: "jsval \<Rightarrow> ('x, register_result) handler" where
  "native_register_result submitJson =
     bind (prop_of submitJson ''session_token'') (\<lambda>session_token.
     if \<not> truthy session_token then
       seq (setStatus StUnauthenticated)
           (Raise (AuthErr ''missing_session_token''
              ''Registration did not return a session token from the identity service.'' None))
     else
       seq (need_slice session_token)
      (bind (exchangeSessionToken session_token) (\<lambda>tokens.
       seq (adopt_tokens tokens) (Return RegAuthenticated))))"

definition register_body :: "(jsval \<Rightarrow> exn + string option) \<Rightarrow> string \<Rightarrow> string \<Rightarrow> ('x, register_result) handler" where
  "register_body url_flow email password =
     bind is_web (\<lambda>web.
     bind (create_flow web ''registration'') (\<lambda>flowRes.
     if \<not> rs_ok flowRes then
       seq (setStatus StUnauthenticated)
           (Raise (AuthErr ''create_registration_flow_failed''
              ''Unable to start registration. Please try again.'' (Some (rs_text flowRes))))
     else
       bind (res_json flowRes) (\<lambda>flow.
       bind (prop_of flow ''ui'') (\<lambda>ui.
       seq (prop_of ui ''nodes'')
      (bind (csrf_of web ui) (\<lambda>csrfToken.
       seq (opt_slice csrfToken)
      (if web \<and> \<not> truthy csrfToken then seq (setStatus StUnauthenticated) (Raise missing_csrf)
       else
         bind (submit_form web ui csrfToken
                 [(''method'', JStr ''password''), (''traits.email'', JStr email),
                  (''password'', JStr password)]) (\<lambda>submitRes.
         let submitJson = loose_json submitRes in
         if rs_status submitRes = 400 then
           bind (if is_object submitJson then extractRegistrationErrorMessage submitJson
                 else Return ''We could not create your account. Please check your details and try again.'')
             (\<lambda>msg. seq (setStatus StUnauthenticated) (Raise (FormErr msg)))
         else if \<not> rs_ok submitRes then
           seq (setStatus StUnauthenticated)
               (Raise (AuthErr ''registration_failed'' ''Registration failed unexpectedly. Please try again.''
                  (Some (if is_str submitJson then the_str submitJson else json_text submitJson))))
         else if web then register_web_result url_flow submitJson
         else
           native_register_result submitJson))))))))"

definition register :: "(jsval \<Rightarrow> exn + string option) \<Rightarrow> register_input \<Rightarrow> ('x, register_result) handler" where
  "register url_flow inp =
     (let email = to_lower (trim (ri_email inp)); password = ri_password inp in
      seq (setStatus StChecking)
          (try_catch (register_body url_flow email password)
             (\<lambda>e. seq (setStatus StUnauthenticated) (Raise e))))"

section \<open>Logout\<close>

definition browser_logout :: "('x, unit) handler" where
  "browser_logout =
     try_catch
      (bind (api_fetch (bare_request ''GET'' (KRATOS_BASE_URL @ ''/self-service/logout/browser'') ''include''))
        (\<lambda>flowRes.
         if rs_ok flowRes then
           bind (res_json flowRes) (\<lambda>flowJson.
           bind (prop_of flowJson ''logout_url'') (\<lambda>url.
           if truthy url then seq (api_fetch (bare_request ''GET'' (js_string url) ''include'')) skip
           else skip))
         else skip))
      (\<lambda>_. skip)"

definition api_logout :: "string \<Rightarrow> ('x, unit) handler" where
  "api_logout token =
     try_catch
       (seq (api_fetch \<lparr>rq_url = API_BASE_URL @ ''/auth/logout'', rq_method = ''POST'',
               rq_headers = accept_headers @ json_headers, rq_credentials = [],
               rq_body = JObj [(''refresh_token'', JStr token)]\<rparr>) skip)
       (\<lambda>_. skip)"

definition logout_body :: "('x, unit) handler" where
  "logout_body =
     bind getStoredRefreshToken (\<lambda>refreshToken.
     seq (if or_default refreshToken [] \<noteq> [] then api_logout (or_default refreshToken []) else skip)
    (bind is_web (\<lambda>web.
     seq (do_if web browser_logout)
    (seq clearStoredRefreshToken
         drop_session))))"

definition logout :: "('x, unit) handler" where
  "logout =
     bind (gets isLoggingOutRef) (\<lambda>busy.
     if busy then skip
     else
       seq (modify (\<lambda>s. s\<lparr>isLoggingOutRef := True\<rparr>))
      (seq (setIsLoggingOut True)
           (try_finally logout_body
              (seq (modify (\<lambda>s. s\<lparr>isLoggingOutRef := False\<rparr>)) (setIsLoggingOut False)))))"

section \<open>The effect that hydrates a web session\<close>

definition self_service_route :: "string \<Rightarrow> bool" where
  "self_service_route pathname =
     (pathname \<in> {''/login'', ''/recovery'', ''/verify'', ''/settings'', ''/error''})"

definition web_hydration :: "string \<Rightarrow> ('x, unit) handler" where
  "web_hydration pathname =
     bind is_web (\<lambda>web.
     if \<not> web then skip
     else if self_service_route pathname then setStatus StUnauthenticated
     else
       bind hydrateWebKratosSession (\<lambda>hydrated.
       if \<not> hydrated then setStatus StUnauthenticated else skip))"

definition initial_auth :: "bool \<Rightarrow> auth" where
  "initial_auth w = \<lparr>on_web = w, status = StChecking, accessToken = JNull, user = JNull,
     isLoggingOut = False, isLoggingOutRef = False, sessionExpiredReason = None,
     refreshInFlight = None, flights = 0\<rparr>"

end
