(* ===== verification/AuthSafety.thy ===== *)
theory AuthSafety
  imports AuthSession
begin

text \<open>
  What holds of the session (\<open>AuthSession\<close>): an invariant of every interleaving of its handlers,
  single flight, the outcomes of refresh, login, register and logout, what the fetch interceptor
  sends, and the race between a refresh and a logout.
\<close>

section \<open>An invariant of all interleavings\<close>

definition sliceable :: "jsval \<Rightarrow> bool" where
  "sliceable v = (is_str v \<or> is_arr v)"

definition coherent :: "bool \<Rightarrow> 'x auth_scheme \<Rightarrow> bool" where
  "coherent b s = (on_web s = b \<and> isLoggingOut s = isLoggingOutRef s
     \<and> (\<not> b \<longrightarrow> user s \<noteq> JNull \<longrightarrow> sliceable (accessToken s)))"

lemma inv_setters [inv_rules]:
  "keeps_inv (coherent b) (setStatus v)" "keeps_inv (coherent b) (setSessionExpiredReason r)"
  "keeps_inv (coherent b) is_web"
  unfolding setter_defs by (rule inv_rules; simp add: coherent_def)+

lemma inv_store [inv_rules]:
  "keeps_inv I (put_token token)" "keeps_inv I (storeRefreshToken v)"
  "keeps_inv I getStoredRefreshToken" "keeps_inv I hasStoredSession" "keeps_inv I clearStoredRefreshToken"
  unfolding put_token_def storeRefreshToken_def getStoredRefreshToken_def hasStoredSession_def
    clearStoredRefreshToken_def setter_defs
  by (intro inv_rules; simp add: inv_rules split: reply.split)+

lemma inv_identity:
  assumes "sliceable access \<or> b \<or> u = JNull" "keeps_inv (coherent b) p"
  shows "keeps_inv (coherent b) (seq (setAccessToken access) (seq (setUser u) p))"
proof (rule keeps_invI)
  fix s :: "'a auth_scheme" assume "coherent b s"
  then have "coherent b (s\<lparr>accessToken := access, user := u\<rparr>)"
    using assms(1) by (auto simp: coherent_def)
  then show "iwp (coherent b) (seq (setAccessToken access) (seq (setUser u) p)) (\<lambda>_. coherent b) (\<lambda>_. coherent b) s"
    using keeps_invD [OF assms(2)] by (simp add: iwp_rules setAccessToken_def setUser_def)
qed

lemma gives_is_web: "gives (coherent b) (\<lambda>w. w = b) is_web"
  by (simp add: gives_def is_web_def iwp_rules coherent_def)

lemma inv_drop_session [inv_rules]: "keeps_inv (coherent b) drop_session"
  unfolding drop_session_def by (rule inv_identity, simp) (intro inv_rules)

lemma inv_markSessionExpired [inv_rules]: "keeps_inv (coherent b) (markSessionExpired r)"
  unfolding markSessionExpired_def by (rule inv_identity, simp) (intro inv_rules)

lemma inv_beginReauth [inv_rules]: "keeps_inv (coherent b) beginReauth"
  unfolding beginReauth_def by (intro inv_rules)

lemma inv_adopt_tokens:
  "sliceable (jget tokens ''access_token'') \<or> b \<Longrightarrow> keeps_inv (coherent b) (adopt_tokens tokens)"
  unfolding adopt_tokens_def
  by (rule inv_seq [OF inv_store(2)], rule inv_identity, blast) (intro inv_rules)

lemma inv_refresh_body [inv_rules]: "keeps_inv (coherent b) refresh_body"
proof -
  have ok: "keeps_inv (coherent b) (bind (prop_of data ''access_token'') (\<lambda>access.
      seq (need_slice access)
     (seq (need_slice (jget data ''refresh_token''))
     (seq (setAccessToken access)
     (seq (setUser (jget data ''user''))
     (seq (setSessionExpiredReason None)
     (seq (storeRefreshToken (jget data ''refresh_token''))
     (seq (setStatus StAuthenticated)
          (Return (RefreshOk access))))))))) :: ('a, refresh_result) handler)" for data
    by (rule inv_prop_of, rule inv_need_slice, rule inv_need_slice, rule inv_identity,
        simp add: sliceable_def) (intro inv_rules)
  show ?thesis
    unfolding refresh_body_def by (intro inv_rules ok)
qed

lemma inv_refresh [inv_rules]: "keeps_inv (coherent b) refresh"
  unfolding refresh_def join_refresh_def
  by (intro inv_rules; simp add: coherent_def inv_rules split: reply.split)

lemma inv_api_fetch [inv_rules]: "keeps_inv (coherent b) (api_fetch rq)"
proof -
  have "keeps_inv (coherent b) (case r of RefreshFail \<Rightarrow> Return res | RefreshOk t \<Rightarrow> fetch (retry_request t rq))"
    for r res by (cases r) (simp_all add: inv_rules)
  then show ?thesis unfolding api_fetch_def by (intro inv_rules)
qed

lemma inv_hydrate [inv_rules]: "keeps_inv (coherent b) hydrateWebKratosSession"
  unfolding hydrateWebKratosSession_def
  by (rule inv_use_gives [OF gives_is_web]) (intro inv_rules inv_adopt_tokens; simp)

lemma gives_exchange:
  "gives (coherent b) (\<lambda>d. sliceable (jget d ''access_token'')) (exchangeSessionToken v)"
  unfolding exchangeSessionToken_def sliceable_def
  by (rule gives_bind_keep, rule inv_rules, rule gives_if, rule gives_ends, rule gives_bind_keep, rule inv_rules)
    (rule gives_rules | assumption)+

lemma inv_exchange_adopt:
  "keeps_inv (coherent b) (bind (exchangeSessionToken v) (\<lambda>tokens. adopt_tokens tokens))"
  "keeps_inv (coherent b) (bind (exchangeSessionToken v) (\<lambda>tokens. seq (adopt_tokens tokens) (Return r)))"
  by (rule inv_use_gives [OF gives_exchange], intro inv_rules inv_adopt_tokens, simp)+

lemma inv_kratos [inv_rules]:
  "keeps_inv I (ui_message a c d)" "keeps_inv I (node_value v n)" "keeps_inv I (opt_slice x)"
  "keeps_inv I (extractLoginErrorMessage d)" "keeps_inv I (extractRegistrationErrorMessage d)"
  unfolding extractLoginErrorMessage_def extractRegistrationErrorMessage_def ui_message_def
    node_value_def opt_slice_def
  by (intro inv_rules; simp)+

lemma inv_forms [inv_rules]:
  "keeps_inv (coherent b) (create_flow web kind)" "keeps_inv (coherent b) (csrf_of web ui)"
  "keeps_inv (coherent b) (submit_form web ui csrf body)"
  "keeps_inv (coherent b) (start_login_failed res)"
  unfolding create_flow_def csrf_of_def submit_form_def start_login_failed_def
  by (intro inv_rules)+

lemma inv_login [inv_rules]: "keeps_inv (coherent b) (login email password)"
  unfolding login_def native_login_result_def by (intro inv_exchange_adopt inv_rules)

lemma inv_register [inv_rules]: "keeps_inv (coherent b) (register url_flow inp)"
  unfolding register_def register_body_def native_register_result_def register_web_result_def
  by (intro inv_exchange_adopt inv_rules)

lemma inv_logout_finish:
  "keeps_inv (coherent b) (seq (modify (\<lambda>s. s\<lparr>isLoggingOutRef := v\<rparr>)) (setIsLoggingOut v))"
  by (rule keeps_invI) (simp add: iwp_rules setter_defs coherent_def)

lemma inv_logout [inv_rules]: "keeps_inv (coherent b) logout"
proof -
  have body: "keeps_inv (coherent b) (try_finally logout_body
      (seq (modify (\<lambda>s. s\<lparr>isLoggingOutRef := False\<rparr>)) (setIsLoggingOut False)) :: ('a, unit) handler)"
    unfolding logout_body_def api_logout_def browser_logout_def
    by (intro inv_logout_finish inv_rules)
  have "keeps_inv (coherent b) (seq (modify (\<lambda>s. s\<lparr>isLoggingOutRef := True\<rparr>))
      (seq (setIsLoggingOut True) (try_finally logout_body
      (seq (modify (\<lambda>s. s\<lparr>isLoggingOutRef := False\<rparr>)) (setIsLoggingOut False)))) :: ('a, unit) handler)"
  proof (rule keeps_invI)
    fix s :: "'a auth_scheme" assume "coherent b s"
    then have "coherent b (s\<lparr>isLoggingOutRef := True, isLoggingOut := True\<rparr>)"
      by (simp add: coherent_def)
    from keeps_invD [OF body this] show "iwp (coherent b) (seq (modify (\<lambda>s. s\<lparr>isLoggingOutRef := True\<rparr>))
      (seq (setIsLoggingOut True) (try_finally logout_body
      (seq (modify (\<lambda>s. s\<lparr>isLoggingOutRef := False\<rparr>)) (setIsLoggingOut False)))))
      (\<lambda>_. coherent b) (\<lambda>_. coherent b) s"
      by (simp add: iwp_seq iwp_basic setIsLoggingOut_def)
  qed
  then show ?thesis unfolding logout_def by (intro inv_bind inv_prims(5) inv_cases(1) inv_prims(3))
qed

lemma inv_web_hydration [inv_rules]: "keeps_inv (coherent b) (web_hydration pathname)"
  unfolding web_hydration_def by (intro inv_rules)

text \<open>The handlers the app starts, each as a task whose result is dropped.\<close>

definition task :: "('x, 'a) handler \<Rightarrow> ('x, unit) handler" where
  "task p = bind p (\<lambda>_. Return ())"

inductive session_task :: "('x, unit) handler \<Rightarrow> bool" where
  "session_task (task (login email password))"
| "session_task (task (register url_flow inp))"
| "session_task (task logout)"
| "session_task (task refresh)"
| "session_task (task restoreSession)"
| "session_task (task hasStoredSession)"
| "session_task (task beginReauth)"
| "session_task (task (api_fetch rq))"
| "session_task (task (web_hydration pathname))"

lemma inv_task: "keeps_inv I p \<Longrightarrow> keeps_inv I (task p)"
  unfolding task_def by (intro inv_rules)

lemma inv_session_task: "session_task p \<Longrightarrow> keeps_inv (coherent b) p"
  by (induction rule: session_task.induct)
    (auto intro!: inv_task inv_rules simp: restoreSession_def)

text \<open>
  C27. Under every interleaving of the session's handlers, with any answers: the two logging-out
  flags agree, and on a native device a user is only ever set together with an access token that
  has a text, so no screen shows an identity without a token behind it.
\<close>

theorem session_coherent:
  assumes "pool_reach session_task (initial_auth b) pl"
  shows "isLoggingOut (shared pl) = isLoggingOutRef (shared pl)
     \<and> (\<not> b \<longrightarrow> user (shared pl) \<noteq> JNull \<longrightarrow> sliceable (accessToken (shared pl)))"
proof -
  have "coherent b (initial_auth b)" by (simp add: coherent_def initial_auth_def)
  from pool_reach_inv [OF assms this inv_session_task] show ?thesis
    by (simp add: coherent_def)
qed

lemma session_coherent_witness:
  "isLoggingOut (shared (pool_exec [Start (task logout), Resume 0 (RText None)]
     \<lparr>tasks = [], shared = initial_auth False, history = []\<rparr>))"
proof -
  let ?pl = "pool_exec [Start (task logout), Resume 0 (RText None)]
     \<lparr>tasks = [], shared = initial_auth False, history = []\<rparr>"
  have "pool_reach session_task (initial_auth False) ?pl"
    by (rule pool_exec_reach) (auto intro: pool_init session_task.intros)
  from session_coherent [OF this] show ?thesis
    by (simp add: task_def logout_def logout_body_def getStoredRefreshToken_def clearStoredRefreshToken_def
        setter_defs seq_def gets_def modify_def skip_def do_if_def pool_start_def pool_resume_def initial_auth_def)
qed

section \<open>Logout\<close>

lemma run_store [run_rules]:
  "run w getStoredRefreshToken s t = ((case w t (StoreGet REFRESH_TOKEN_KEY) of RText v \<Rightarrow> Inr v
     | RFail e \<Rightarrow> Inl e | _ \<Rightarrow> Inr None), s, t @ [StoreGet REFRESH_TOKEN_KEY])"
  "run w clearStoredRefreshToken s t = ((case w t (StoreDel REFRESH_TOKEN_KEY) of RFail e \<Rightarrow> Inl e
     | _ \<Rightarrow> Inr ()), s, t @ [StoreDel REFRESH_TOKEN_KEY])"
  "run w (put_token v) s t = ((case w t (StorePut REFRESH_TOKEN_KEY v) of RFail e \<Rightarrow> Inl e
     | _ \<Rightarrow> Inr ()), s, t @ [StorePut REFRESH_TOKEN_KEY v])"
  by (simp_all add: getStoredRefreshToken_def clearStoredRefreshToken_def put_token_def split: reply.split)

lemma wp_store [wp_rules]:
  "wp w getStoredRefreshToken Qo E s t = (case w t (StoreGet REFRESH_TOKEN_KEY) of
      RText v \<Rightarrow> Qo v s (t @ [StoreGet REFRESH_TOKEN_KEY])
    | RFail e \<Rightarrow> E e s (t @ [StoreGet REFRESH_TOKEN_KEY]) | _ \<Rightarrow> Qo None s (t @ [StoreGet REFRESH_TOKEN_KEY]))"
  "wp w clearStoredRefreshToken Q E s t = (case w t (StoreDel REFRESH_TOKEN_KEY) of
      RFail e \<Rightarrow> E e s (t @ [StoreDel REFRESH_TOKEN_KEY]) | _ \<Rightarrow> Q () s (t @ [StoreDel REFRESH_TOKEN_KEY]))"
  "wp w (put_token v) Q E s t = (case w t (StorePut REFRESH_TOKEN_KEY v) of
      RFail e \<Rightarrow> E e s (t @ [StorePut REFRESH_TOKEN_KEY v]) | _ \<Rightarrow> Q () s (t @ [StorePut REFRESH_TOKEN_KEY v]))"
  by (simp_all add: wp_def run_rules split: reply.split)

lemma wp_setters [wp_rules]:
  "wp w (setStatus v) Q E s t = Q () (s\<lparr>status := v\<rparr>) t"
  "wp w (setAccessToken x) Q E s t = Q () (s\<lparr>accessToken := x\<rparr>) t"
  "wp w (setUser x) Q E s t = Q () (s\<lparr>user := x\<rparr>) t"
  "wp w (setSessionExpiredReason y) Q E s t = Q () (s\<lparr>sessionExpiredReason := y\<rparr>) t"
  "wp w (setIsLoggingOut z) Q E s t = Q () (s\<lparr>isLoggingOut := z\<rparr>) t"
  by (simp_all add: setter_defs wp_rules)

lemma wp_is_web [wp_rules]: "wp w is_web Q E s t = Q (on_web s) s t"
  by (simp add: is_web_def wp_rules)

definition key_store_works :: "world \<Rightarrow> bool" where
  "key_store_works w = (\<forall>t k v e. w t (StoreGet k) \<noteq> RFail e \<and> w t (StoreDel k) \<noteq> RFail e
     \<and> w t (StorePut k v) \<noteq> RFail e)"

definition logged_out :: "'x auth_scheme \<Rightarrow> bool" where
  "logged_out s = (status s = StUnauthenticated \<and> accessToken s = JNull \<and> user s = JNull
     \<and> sessionExpiredReason s = None \<and> \<not> isLoggingOut s \<and> \<not> isLoggingOutRef s)"

lemma wp_quiet_catch: "(\<And>s' t'. Q () s' t') \<Longrightarrow> wp w (try_catch p (\<lambda>_. skip)) Q E s t"
  by (auto simp: wp_try_catch wp_rules intro: wp_total)

text \<open>
  C29. Logging out always logs out. Whatever the two servers answer or fail to answer, if the key
  store works, a logout that is not a duplicate returns normally, its last effect deletes the
  stored token, and it leaves the state unauthenticated without token, user or expiry reason and
  with both flags down. A duplicate does nothing.
\<close>

theorem logout_always_clears:
  assumes "key_store_works w"
  shows "(\<not> isLoggingOutRef s \<longrightarrow> (\<exists>s' t'. run w logout s t = (Inr (), s', t' @ [StoreDel REFRESH_TOKEN_KEY])
            \<and> logged_out s'))
     \<and> (isLoggingOutRef s \<longrightarrow> run w logout s t = (Inr (), s, t))"
proof -
  let ?ok = "\<lambda>s' t'. logged_out s' \<and> (\<exists>u. t' = u @ [StoreDel REFRESH_TOKEN_KEY])"
  have store: "w u (StoreGet k) \<noteq> RFail e" "w u (StoreDel k) \<noteq> RFail e" for u k e
    using assms by (auto simp: key_store_works_def)
  have tail: "wp w (seq clearStoredRefreshToken drop_session) (\<lambda>_ s' t'. ?ok (s'\<lparr>isLoggingOutRef := False,
      isLoggingOut := False\<rparr>) t') (\<lambda>_ _ _. False) s' t'" for s' t'
    using store by (simp add: drop_session_def wp_rules logged_out_def split: reply.split)
  have quiet: "wp w (if c then api_logout k else skip) Q (\<lambda>_ _ _. False) s' t'"
      "wp w (do_if d browser_logout) Q (\<lambda>_ _ _. False) s' t'"
    if "\<And>s' t'. Q () s' t'" for Q c k d s' t'
    using that by (auto simp: api_logout_def browser_logout_def wp_if wp_do_if wp_basic intro: wp_quiet_catch)
  let ?Q = "\<lambda>_ s' t'. ?ok (s'\<lparr>isLoggingOutRef := False, isLoggingOut := False\<rparr>) t'"
  let ?rest = "bind is_web (\<lambda>web. seq (do_if web browser_logout) (seq clearStoredRefreshToken drop_session))"
  have rest: "wp w ?rest ?Q (\<lambda>_ _ _. False) s' t'" for s' t'
    unfolding wp_bind wp_is_web
    by (subst wp_seq) (rule quiet(2), rule tail)
  have head: "wp w (seq (if c then api_logout k else skip) ?rest) ?Q (\<lambda>_ _ _. False) s' t'" for c k s' t'
    by (subst wp_seq) (rule quiet(1), rule rest)
  have body: "wp w logout_body ?Q (\<lambda>_ _ _. False) s' t'" for s' t'
    unfolding logout_body_def wp_bind [where p = getStoredRefreshToken] wp_store
    by (split reply.split) (use store(1) head in blast)
  let ?down = "seq (modify (\<lambda>s. s\<lparr>isLoggingOutRef := False\<rparr>)) (setIsLoggingOut False)"
  have "wp w logout_body (\<lambda>a. wp w ?down (\<lambda>_. ?ok) (\<lambda>_ _ _. False)) (\<lambda>e. wp w ?down (\<lambda>_ _ _. False) (\<lambda>_ _ _. False))
      s' t'" for s' t'
    by (rule wp_mono [OF body]) (simp_all add: wp_rules)
  then have "wp w logout (\<lambda>_. ?ok) (\<lambda>_ _ _. False) s t" if "\<not> isLoggingOutRef s"
    using that by (simp add: logout_def wp_seq wp_bind wp_gets wp_setters wp_basic wp_if wp_try_finally)
  moreover have "run w logout s t = (Inr (), s, t)" if "isLoggingOutRef s"
    using that by (simp add: logout_def run_rules)
  ultimately show ?thesis by (fastforce simp: wp_def split: prod.splits sum.splits)
qed

definition silent_world :: world where
  "silent_world t e = (case e of StoreGet k \<Rightarrow> RText (Some ''r0'') | Fetch rq \<Rightarrow> RFail (JsErr ''offline'')
                       | _ \<Rightarrow> RDone)"

lemma silent_store: "key_store_works silent_world"
  by (simp add: key_store_works_def silent_world_def)

lemma logout_always_clears_witness:
  "\<exists>s' t'. run silent_world logout ((initial_auth True)\<lparr>status := StAuthenticated, accessToken := JStr ''a0''\<rparr>) []
     = (Inr (), s', t' @ [StoreDel REFRESH_TOKEN_KEY]) \<and> logged_out s'"
  using logout_always_clears [OF silent_store,
      of "(initial_auth True)\<lparr>status := StAuthenticated, accessToken := JStr ''a0''\<rparr>" "[]"]
  by (simp add: initial_auth_def)

section \<open>Refresh\<close>

lemma run_setters [run_rules]:
  "run w (setStatus v) s t = (Inr (), s\<lparr>status := v\<rparr>, t)"
  "run w (setAccessToken x) s t = (Inr (), s\<lparr>accessToken := x\<rparr>, t)"
  "run w (setUser x) s t = (Inr (), s\<lparr>user := x\<rparr>, t)"
  "run w (setSessionExpiredReason y) s t = (Inr (), s\<lparr>sessionExpiredReason := y\<rparr>, t)"
  "run w (setIsLoggingOut z) s t = (Inr (), s\<lparr>isLoggingOut := z\<rparr>, t)"
  by (simp_all add: setter_defs run_rules)

lemma run_is_web [run_rules]: "run w is_web s t = (Inr (on_web s), s, t)"
  by (simp add: is_web_def run_rules)

lemma run_need_slice [run_rules]: "sliceable v \<Longrightarrow> run w (need_slice v) s t = (Inr (), s, t)"
  by (simp add: need_slice_def sliceable_def)

text \<open>The session after it was dropped, expired, or renewed with a pair of tokens.\<close>

definition dropped :: "'x auth_scheme \<Rightarrow> 'x auth_scheme" where
  "dropped s = s\<lparr>accessToken := JNull, user := JNull, sessionExpiredReason := None,
                 status := StUnauthenticated\<rparr>"

definition expired :: "expired_reason \<Rightarrow> 'x auth_scheme \<Rightarrow> 'x auth_scheme" where
  "expired r s = s\<lparr>accessToken := JNull, user := JNull, sessionExpiredReason := Some r,
                   status := StSessionExpired\<rparr>"

definition renewed :: "token_pair \<Rightarrow> 'x auth_scheme \<Rightarrow> 'x auth_scheme" where
  "renewed p s = s\<lparr>accessToken := JStr (tp_access_token p), user := user_js (tp_user p),
                   sessionExpiredReason := None, status := StAuthenticated\<rparr>"

lemma run_session_steps [run_rules]:
  "run w drop_session s t = (Inr (), dropped s, t)"
  "(\<And>e. w t (StoreDel REFRESH_TOKEN_KEY) \<noteq> RFail e) \<Longrightarrow>
     run w (markSessionExpired r) s t = (Inr (), expired r s, t @ [StoreDel REFRESH_TOKEN_KEY])"
  "run w (storeRefreshToken (JStr v)) s t = run w (put_token v) s t"
  by (simp_all add: drop_session_def markSessionExpired_def storeRefreshToken_def run_rules dropped_def
      expired_def split: reply.split)

definition flown :: "'x auth_scheme \<Rightarrow> 'x auth_scheme" where
  "flown s = s\<lparr>refreshInFlight := None, flights := Suc (flights s)\<rparr>"

text \<open>What the request for new tokens came to.\<close>

datatype refresh_answer = NoAnswer | Answer response

definition answer :: "world \<Rightarrow> trace \<Rightarrow> request \<Rightarrow> refresh_answer" where
  "answer w t rq = (case w t (Fetch rq) of RResp x \<Rightarrow> Answer x | _ \<Rightarrow> NoAnswer)"

text \<open>
  The outcomes of a refresh, on a working key store and with no refresh in flight. Without a
  stored token, or with an empty one, no request is sent and the session is dropped. Otherwise
  one request carries the stored token: no answer, or an answer that is neither a success nor a
  401, deletes the stored token and drops the session; a 401 deletes it and marks the session
  expired; a success with a pair of tokens renews the session, stores exactly the new refresh
  token and returns the new access token.
\<close>

lemma refresh_outcomes:
  assumes store: "key_store_works w" and idle: "refreshInFlight s = None"
    and get: "w t (StoreGet REFRESH_TOKEN_KEY) = RText tok"
    and t1: "t1 = t @ [StoreGet REFRESH_TOKEN_KEY]"
    and t2: "t2 = t1 @ [Fetch (refresh_request (the tok))]"
    and ans: "a = answer w t1 (refresh_request (the tok))"
  shows "(or_default tok [] = [] \<longrightarrow> run w refresh s t = (Inr RefreshFail, flown (dropped s), t1))
     \<and> (or_default tok [] \<noteq> [] \<and> (a = NoAnswer \<or> (\<exists>x. a = Answer x \<and> \<not> rs_ok x \<and> rs_status x \<noteq> 401)) \<longrightarrow>
         run w refresh s t = (Inr RefreshFail, flown (dropped s), t2 @ [StoreDel REFRESH_TOKEN_KEY]))
     \<and> (or_default tok [] \<noteq> [] \<and> (\<exists>x. a = Answer x \<and> rs_status x = 401) \<longrightarrow>
         run w refresh s t = (Inr RefreshFail, flown (expired RefreshUnauthorized s),
           t2 @ [StoreDel REFRESH_TOKEN_KEY]))
     \<and> (or_default tok [] \<noteq> [] \<and> (\<exists>x. a = Answer x \<and> rs_ok x \<and> rs_json x = Some (tokens_js p)) \<longrightarrow>
         run w refresh s t = (Inr (RefreshOk (JStr (tp_access_token p))), flown (renewed p s),
           t2 @ [StorePut REFRESH_TOKEN_KEY (tp_refresh_token p)]))"
proof -
  let ?s = "s\<lparr>refreshInFlight := Some (flights s), flights := Suc (flights s)\<rparr>"
  have works: "w u (StoreDel k) \<noteq> RFail e" "w u (StorePut k v) \<noteq> RFail e" for u k v e
    using store by (auto simp: key_store_works_def)
  have del: "run w clearStoredRefreshToken s' u = (Inr (), s', u @ [StoreDel REFRESH_TOKEN_KEY])" for s' :: "'a auth_scheme" and u
    using works by (simp add: run_rules split: reply.split)
  have put: "run w (put_token v) s' u = (Inr (), s', u @ [StorePut REFRESH_TOKEN_KEY v])" for s' :: "'a auth_scheme" and u v
    using works by (simp add: run_rules split: reply.split)
  have start: "run w refresh s t = (case run w refresh_body ?s t of
      (r, s', t') \<Rightarrow> (r, s'\<lparr>refreshInFlight := None\<rparr>, t'))"
    using idle by (simp add: refresh_def run_rules split: prod.splits sum.splits)
  have none: "run w refresh_body ?s t = (Inr RefreshFail, dropped ?s, t1)" if "or_default tok [] = []"
    using that get by (auto simp: or_default_eq_Nil refresh_body_def run_rules t1)
  have body: "run w refresh_body ?s t =
      (case a of NoAnswer \<Rightarrow> (Inr RefreshFail, dropped ?s, t2 @ [StoreDel REFRESH_TOKEN_KEY])
       | Answer x \<Rightarrow>
           if rs_status x = 401 then (Inr RefreshFail, expired RefreshUnauthorized ?s, t2 @ [StoreDel REFRESH_TOKEN_KEY])
           else if \<not> rs_ok x then (Inr RefreshFail, dropped ?s, t2 @ [StoreDel REFRESH_TOKEN_KEY])
           else if rs_json x = Some (tokens_js p) then
             (Inr (RefreshOk (JStr (tp_access_token p))), renewed p ?s,
              t2 @ [StorePut REFRESH_TOKEN_KEY (tp_refresh_token p)])
           else run w refresh_body ?s t)"
    if ne: "or_default tok [] \<noteq> []"
  proof -
    obtain v where v: "tok = Some v" "v \<noteq> []" using ne by (auto simp: or_default_eq_Nil)
    show ?thesis
      using get v works ans
      by (cases "w t1 (Fetch (refresh_request v))")
        (simp_all add: refresh_body_def run_bind run_store(1) run_try_catch run_fetch run_seq run_session_steps
          del put run_library run_setters run_need_slice sliceable_def renewed_def answer_def t1 t2)
  qed
  show ?thesis
    unfolding start using none body
    by (auto simp: dropped_def expired_def renewed_def flown_def rs_ok_def split: refresh_answer.splits)
qed

definition sample_tokens :: token_pair where
  "sample_tokens = \<lparr>tp_access_token = ''a1'', tp_refresh_token = ''r1'', tp_expires_in = None,
     tp_user = \<lparr>us_id = ''u'', us_email = ''u@x'', us_name = None, us_role = Some ''hr''\<rparr>\<rparr>"

definition token_response :: response where
  "token_response = \<lparr>rs_status = 200, rs_text = [], rs_json = Some (tokens_js sample_tokens)\<rparr>"

definition renewing_world :: world where
  "renewing_world t e = (case e of StoreGet k \<Rightarrow> RText (Some ''r0'') | Fetch rq \<Rightarrow> RResp token_response
                         | _ \<Rightarrow> RDone)"

lemma refresh_outcomes_witness:
  "run renewing_world refresh (initial_auth False) [] =
     (Inr (RefreshOk (JStr ''a1'')), flown (renewed sample_tokens (initial_auth False)),
      [StoreGet REFRESH_TOKEN_KEY, Fetch (refresh_request ''r0''), StorePut REFRESH_TOKEN_KEY ''r1''])"
  using refresh_outcomes [of renewing_world "initial_auth False" "[]" "Some ''r0''", OF _ _ _ refl refl refl]
  by (simp add: key_store_works_def renewing_world_def initial_auth_def answer_def token_response_def
      rs_ok_def sample_tokens_def)

section \<open>The interceptor\<close>

text \<open>The events a refresh or an expiry can cause.\<close>

fun session_event :: "event \<Rightarrow> bool" where
  "session_event (StoreGet k) = True"
| "session_event (StorePut k v) = True"
| "session_event (StoreDel k) = True"
| "session_event (JoinRefresh i) = True"
| "session_event (Fetch rq) = (rq_url rq = API_BASE_URL @ ''/auth/refresh'')"
| "session_event _ = False"

lemma only_store [only_rules]:
  "emits_only session_event getStoredRefreshToken" "emits_only session_event clearStoredRefreshToken"
  "emits_only session_event (storeRefreshToken v)"
  unfolding getStoredRefreshToken_def clearStoredRefreshToken_def storeRefreshToken_def put_token_def is_web_def
  by (auto intro!: only_rules split: reply.split)

lemma only_setters [only_rules]:
  "emits_only P (setStatus v)" "emits_only P (setAccessToken x)" "emits_only P (setUser x)"
  "emits_only P (setSessionExpiredReason y)" "emits_only P (setIsLoggingOut z)" "emits_only P is_web"
  "emits_only P drop_session"
  unfolding drop_session_def setter_defs by (intro only_rules)+

lemma only_mark [only_rules]: "emits_only session_event (markSessionExpired r)"
  unfolding markSessionExpired_def by (intro only_rules)

lemma only_refresh_body: "emits_only session_event refresh_body"
  unfolding refresh_body_def
  by (intro only_rules; simp add: refresh_request_def post_json_def)

lemma only_refresh [only_rules]: "emits_only session_event refresh"
  unfolding refresh_def join_refresh_def
  by (intro only_rules only_refresh_body) (auto intro: only_rules split: reply.split)

text \<open>The interceptor passes the requests of a refresh on unchanged.\<close>

lemma interceptor_passes:
  "isAuthEndpoint (rq_url rq) \<Longrightarrow> api_fetch rq = fetch rq"
  "\<not> shouldHandleUrl (rq_url rq) \<Longrightarrow> api_fetch rq = fetch rq"
  "api_fetch (refresh_request token) = fetch (refresh_request token)"
proof -
  show "isAuthEndpoint (rq_url rq) \<Longrightarrow> api_fetch rq = fetch rq"
    "\<not> shouldHandleUrl (rq_url rq) \<Longrightarrow> api_fetch rq = fetch rq"
    by (simp_all add: api_fetch_def Let_def)
  have "isAuthEndpoint (rq_url (refresh_request token))"
    by (simp add: isAuthEndpoint_def refresh_request_def post_json_def API_BASE_URL_def)
  then show "api_fetch (refresh_request token) = fetch (refresh_request token)"
    by (simp add: api_fetch_def Let_def)
qed

text \<open>
  Where the token of a successful renewal comes from: the answer to the renewal's request or, when
  the renewal of another request was joined, the result of that one.
\<close>

definition brought_by :: "world \<Rightarrow> trace \<Rightarrow> trace \<Rightarrow> jsval \<Rightarrow> bool" where
  "brought_by w t t' token = (\<exists>before after stored x tokens. t' = t @ before @ Fetch (refresh_request stored) # after
     \<and> w (t @ before) (Fetch (refresh_request stored)) = RResp x \<and> rs_ok x \<and> rs_json x = Some tokens
     \<and> token = jget tokens ''access_token'')"

definition renewed_by :: "world \<Rightarrow> 'x auth_scheme \<Rightarrow> trace \<Rightarrow> trace \<Rightarrow> jsval \<Rightarrow> bool" where
  "renewed_by w s t evs token = (case refreshInFlight s of
       None \<Rightarrow> brought_by w t (t @ evs) token
     | Some i \<Rightarrow> \<exists>v. evs = [JoinRefresh i] \<and> w t (JoinRefresh i) = RVal v \<and> token = jget v ''accessToken'')"

lemma brought_byI:
  "w (t @ [g]) (Fetch (refresh_request v)) = RResp x \<Longrightarrow> rs_ok x \<Longrightarrow> rs_json x = Some d \<Longrightarrow>
     brought_by w t (t @ [g, Fetch (refresh_request v), p]) (jget d ''access_token'')"
  unfolding brought_by_def
  by (intro exI [of _ "[g]"] exI [of _ "[p]"] exI [of _ v] exI [of _ x] exI [of _ d]) simp

lemma stored_wp:
  "(\<And>v. Q () s (t @ [StorePut REFRESH_TOKEN_KEY v])) \<Longrightarrow> wp w (storeRefreshToken x) Q (\<lambda>_ _ _. True) s t"
  by (auto simp: storeRefreshToken_def wp_rules split: reply.split)

lemma body_renews:
  "wp w refresh_body (\<lambda>r s' t'. \<forall>token. r = RefreshOk token \<longrightarrow> accessToken s' = token \<and> brought_by w t t' token)
     (\<lambda>_ _ _. True) s t"
proof -
  have failed: "wp w (seq p (Return RefreshFail)) (\<lambda>r s' t'. \<forall>token. r = RefreshOk token \<longrightarrow> accessToken s' = token \<and> brought_by w t t' token)
     (\<lambda>_ _ _. True) s' t'" for p :: "('a auth_scheme, unit) prog" and s' t'
    unfolding wp_seq wp_prims by (rule wp_total) simp_all
  have failed2: "wp w (seq q (seq p (Return RefreshFail))) (\<lambda>r s' t'. \<forall>token. r = RefreshOk token \<longrightarrow> accessToken s' = token \<and> brought_by w t t' token)
     (\<lambda>_ _ _. True) s' t'" for p q :: "('a auth_scheme, unit) prog" and s' t'
    unfolding wp_seq wp_prims by (rule wp_total) (simp, rule wp_total, simp_all)
  show ?thesis
    unfolding refresh_body_def wp_bind [where p = getStoredRefreshToken] wp_store wp_option wp_if
    by (auto simp: failed failed2 wp_bind wp_try_catch wp_fetch wp_prims wp_option wp_if wp_res_json wp_prop_of
        wp_seq [where p = "need_slice x" for x] wp_need_slice wp_seq [where p = "setAccessToken x" for x]
        wp_seq [where p = "setUser x" for x] wp_seq [where p = "setSessionExpiredReason x" for x]
        wp_seq [where p = "setStatus x" for x] wp_seq [where p = "storeRefreshToken x" for x]
        wp_setters brought_byI intro!: stored_wp split: option.split reply.split)
qed

lemma refresh_renews:
  assumes "run w refresh s t = (Inr (RefreshOk token), s', t @ evs)"
  shows "renewed_by w s t evs token" "refreshInFlight s = None \<Longrightarrow> accessToken s' = token"
proof -
  have "renewed_by w s t evs token \<and> (refreshInFlight s = None \<longrightarrow> accessToken s' = token)"
  proof (cases "refreshInFlight s")
    case None
    have "wp w refresh (\<lambda>r s' t'. \<forall>token. r = RefreshOk token \<longrightarrow> accessToken s' = token \<and> brought_by w t t' token)
        (\<lambda>_ _ _. True) s t"
      unfolding refresh_def wp_bind wp_gets None option.case wp_seq wp_try_finally wp_basic
      by (rule wp_mono [OF body_renews]) simp_all
    with assms None show ?thesis by (simp add: wp_def renewed_by_def)
  next
    case (Some i)
    with assms show ?thesis
      by (auto simp: refresh_def run_rules join_refresh_def decode_refresh_def renewed_by_def
          split: reply.splits if_splits)
  qed
  then show "renewed_by w s t evs token" "refreshInFlight s = None \<Longrightarrow> accessToken s' = token" by simp_all
qed

text \<open>What follows an answer 401 or 403: to a request already marked as a retry, and to any other.\<close>

lemma api_fetch_refused:
  assumes h: "shouldHandleUrl (rq_url rq)" "\<not> isAuthEndpoint (rq_url rq)"
    and x: "w t (Fetch (authorized (accessToken s) rq)) = RResp x" "rs_status x \<in> {401, 403}"
  shows "get_header ''x-auth-retry'' (rq_headers rq) = Some ''1'' \<Longrightarrow>
      run w (api_fetch rq) s t = (case run w (markSessionExpired
          (if rs_status x = 401 then ApiUnauthorized else ApiForbidden)) s (t @ [Fetch (authorized (accessToken s) rq)]) of
        (Inl e, s', t') \<Rightarrow> (Inl e, s', t') | (Inr _, s', t') \<Rightarrow> (Inr x, s', t'))"
    and "get_header ''x-auth-retry'' (rq_headers rq) \<noteq> Some ''1'' \<Longrightarrow>
      run w (api_fetch rq) s t = (case run w refresh s (t @ [Fetch (authorized (accessToken s) rq)]) of
        (Inl e, s', t') \<Rightarrow> (Inl e, s', t') | (Inr RefreshFail, s', t') \<Rightarrow> (Inr x, s', t')
      | (Inr (RefreshOk token), s', t') \<Rightarrow> run w (fetch (retry_request token rq)) s' t')"
proof -
  have ne: "rq_url rq \<noteq> []" using h(1) by (auto simp: shouldHandleUrl_def API_BASE_URL_def)
  show "get_header ''x-auth-retry'' (rq_headers rq) = Some ''1'' \<Longrightarrow>
      run w (api_fetch rq) s t = (case run w (markSessionExpired
          (if rs_status x = 401 then ApiUnauthorized else ApiForbidden)) s (t @ [Fetch (authorized (accessToken s) rq)]) of
        (Inl e, s', t') \<Rightarrow> (Inl e, s', t') | (Inr _, s', t') \<Rightarrow> (Inr x, s', t'))"
    using h ne x by (auto simp: api_fetch_def Let_def run_rules split: sum.split prod.split)
  show "get_header ''x-auth-retry'' (rq_headers rq) \<noteq> Some ''1'' \<Longrightarrow>
      run w (api_fetch rq) s t = (case run w refresh s (t @ [Fetch (authorized (accessToken s) rq)]) of
        (Inl e, s', t') \<Rightarrow> (Inl e, s', t') | (Inr RefreshFail, s', t') \<Rightarrow> (Inr x, s', t')
      | (Inr (RefreshOk token), s', t') \<Rightarrow> run w (fetch (retry_request token rq)) s' t')"
    using h ne x by (auto simp: api_fetch_def Let_def run_rules split: sum.split prod.split refresh_result.split)
qed

lemma api_fetch_unanswered:
  assumes h: "shouldHandleUrl (rq_url rq)" "\<not> isAuthEndpoint (rq_url rq)"
  shows "(\<And>x. w t (Fetch (authorized (accessToken s) rq)) \<noteq> RResp x) \<Longrightarrow>
      \<exists>e. run w (api_fetch rq) s t = (Inl e, s, t @ [Fetch (authorized (accessToken s) rq)])"
    and "w t (Fetch (authorized (accessToken s) rq)) = RResp x \<Longrightarrow> rs_status x \<notin> {401, 403} \<Longrightarrow>
      run w (api_fetch rq) s t = (Inr x, s, t @ [Fetch (authorized (accessToken s) rq)])"
proof -
  have ne: "rq_url rq \<noteq> []" using h(1) by (auto simp: shouldHandleUrl_def API_BASE_URL_def)
  show "(\<And>x. w t (Fetch (authorized (accessToken s) rq)) \<noteq> RResp x) \<Longrightarrow>
      \<exists>e. run w (api_fetch rq) s t = (Inl e, s, t @ [Fetch (authorized (accessToken s) rq)])"
    using h ne by (auto simp: api_fetch_def Let_def run_rules split: reply.split)
  show "w t (Fetch (authorized (accessToken s) rq)) = RResp x \<Longrightarrow> rs_status x \<notin> {401, 403} \<Longrightarrow>
      run w (api_fetch rq) s t = (Inr x, s, t @ [Fetch (authorized (accessToken s) rq)])"
    using h ne by (simp add: api_fetch_def Let_def run_rules)
qed

text \<open>
  C30. A request of the app is sent at most twice, the second time with the renewed token. For an
  address of the API outside the session's own endpoints the interceptor first sends the request,
  with the access token as bearer unless it brings its own authorization. An answer other than 401
  and 403 is returned as it is, and no answer is the caller's exception, with nothing else done. After
  401 or 403 only session events follow (the renewal's request and the key store), and the request is
  sent once more exactly when it is not itself a retry and the renewal succeeds: marked as a retry,
  carrying the access token that the answer to the renewal's request brought (or the renewal under
  way that was joined), which is then also the session's; and the second answer is the caller's,
  whatever it is. Otherwise the caller gets the first answer (or an exception), and the request is not
  sent again. Every other address is fetched directly.
\<close>

theorem interceptor_one_retry:
  fixes rq :: request and s :: "'x auth_scheme"
  defines "sent \<equiv> Fetch (authorized (accessToken s) rq)"
  shows "(\<not> shouldHandleUrl (rq_url rq) \<or> isAuthEndpoint (rq_url rq) \<longrightarrow> run w (api_fetch rq) s t = run w (fetch rq) s t)
   \<and> (shouldHandleUrl (rq_url rq) \<and> \<not> isAuthEndpoint (rq_url rq) \<longrightarrow>
       (case w t sent of
          RResp x \<Rightarrow>
            if rs_status x \<notin> {401, 403} then run w (api_fetch rq) s t = (Inr x, s, t @ [sent])
            else if get_header ''x-auth-retry'' (rq_headers rq) \<noteq> Some ''1''
                \<and> (\<exists>token. fst (run w refresh s (t @ [sent])) = Inr (RefreshOk token))
            then \<exists>token s' evs. run w refresh s (t @ [sent]) = (Inr (RefreshOk token), s', t @ sent # evs)
               \<and> (\<forall>e \<in> set evs. session_event e) \<and> renewed_by w s (t @ [sent]) evs token
               \<and> (refreshInFlight s = None \<longrightarrow> accessToken s' = token)
               \<and> run w (api_fetch rq) s t = run w (fetch (retry_request token rq)) s' (t @ sent # evs)
            else \<exists>r s' evs. run w (api_fetch rq) s t = (r, s', t @ sent # evs)
               \<and> (\<forall>e \<in> set evs. session_event e) \<and> (r = Inr x \<or> isl r)
        | _ \<Rightarrow> \<exists>e. run w (api_fetch rq) s t = (Inl e, s, t @ [sent])))"
proof (cases "shouldHandleUrl (rq_url rq) \<and> \<not> isAuthEndpoint (rq_url rq)")
  case False
  then show ?thesis using interceptor_passes by metis
next
  case True
  then have h: "shouldHandleUrl (rq_url rq)" "\<not> isAuthEndpoint (rq_url rq)" by simp_all
  note none = api_fetch_unanswered(1) [OF h, of w t s, folded sent_def]
  show ?thesis
  proof (cases "\<exists>x. w t sent = RResp x \<and> rs_status x \<in> {401, 403}")
    case False
    then show ?thesis
      using True none api_fetch_unanswered(2) [OF h, of w t s, folded sent_def] by (auto split: reply.split)
  next
    case refused: True
    then obtain x where x: "w t sent = RResp x" "rs_status x \<in> {401, 403}" by blast
    note after = api_fetch_refused [OF h, of w t s, folded sent_def, OF x]
    let ?reason = "if rs_status x = 401 then ApiUnauthorized else ApiForbidden"
    obtain r1 s1 t1 where mark: "run w (markSessionExpired ?reason) s (t @ [sent]) = (r1, s1, t1)" by (metis prod_cases3)
    obtain r2 s2 t2 where ref: "run w refresh s (t @ [sent]) = (r2, s2, t2)" by (metis prod_cases3)
    from emits_only_run [OF only_mark mark] emits_only_run [OF only_refresh ref]
    obtain e1 e2 where evs: "t1 = (t @ [sent]) @ e1" "\<forall>e \<in> set e1. session_event e"
      "t2 = (t @ [sent]) @ e2" "\<forall>e \<in> set e2. session_event e" by blast
    show ?thesis
    proof (cases "get_header ''x-auth-retry'' (rq_headers rq) = Some ''1''")
      case marked: True
      then show ?thesis
        using True x after(1) [OF marked] mark evs(1,2) by (cases r1) auto
    next
      case unmarked: False
      show ?thesis
      proof (cases "\<exists>token. r2 = Inr (RefreshOk token)")
        case renewed: True
        then obtain token where token: "r2 = Inr (RefreshOk token)" ..
        note renewal = refresh_renews [OF ref [unfolded token evs(3)]]
        show ?thesis using True x after(2) [OF unmarked] ref token evs(3,4) renewal unmarked by auto
      next
        case failed: False
        then show ?thesis
          using True x after(2) [OF unmarked] ref evs(3,4) by (auto split: sum.splits refresh_result.splits)
      qed
    qed
  qed
qed

text \<open>A server whose access token has run out, and an address outside the API.\<close>

definition expired_world :: world where
  "expired_world t e = (case e of
       Fetch rq \<Rightarrow> if rq_url rq = API_BASE_URL @ ''/auth/refresh'' then RResp token_response
         else RResp \<lparr>rs_status = (if get_header ''x-auth-retry'' (rq_headers rq) = Some ''1'' then 200 else 401), rs_text = [], rs_json = None\<rparr>
     | StoreGet k \<Rightarrow> RText (Some ''r0'') | _ \<Rightarrow> RDone)"

lemma interceptor_one_retry_witness:
  "(\<exists>s'. run expired_world (api_fetch (bare_request ''GET'' (API_BASE_URL @ ''/hr/queue'') [])) (initial_auth False) []
     = (Inr \<lparr>rs_status = 200, rs_text = [], rs_json = None\<rparr>, s',
        [Fetch (bare_request ''GET'' (API_BASE_URL @ ''/hr/queue'') []), StoreGet REFRESH_TOKEN_KEY,
         Fetch (refresh_request ''r0''), StorePut REFRESH_TOKEN_KEY ''r1'',
         Fetch (retry_request (JStr ''a1'') (bare_request ''GET'' (API_BASE_URL @ ''/hr/queue'') []))])
      \<and> accessToken s' = JStr ''a1'')
   \<and> run expired_world (api_fetch (bare_request ''GET'' ''https://elsewhere'' [])) (initial_auth False) []
     = run expired_world (fetch (bare_request ''GET'' ''https://elsewhere'' [])) (initial_auth False) []"
proof
  let ?rq = "bare_request ''GET'' (API_BASE_URL @ ''/hr/queue'') []"
  have h: "shouldHandleUrl (rq_url ?rq)" "\<not> isAuthEndpoint (rq_url ?rq)" "rq_url ?rq \<noteq> API_BASE_URL @ ''/auth/refresh''"
    by (simp_all add: bare_request_def shouldHandleUrl_def isAuthEndpoint_def API_BASE_URL_def)
  have unmarked: "get_header ''x-auth-retry'' (rq_headers ?rq) = None" by code_simp
  have plain: "authorized (accessToken (initial_auth False)) ?rq = ?rq"
    by (simp add: authorized_def initial_auth_def)
  have first: "expired_world [] (Fetch ?rq) = RResp \<lparr>rs_status = 401, rs_text = [], rs_json = None\<rparr>"
    using h(3) unmarked by (simp add: expired_world_def)
  have url: "rq_url (refresh_request ''r0'') = API_BASE_URL @ ''/auth/refresh''"
    by (simp add: refresh_request_def post_json_def)
  have renewal: "run expired_world refresh (initial_auth False) [Fetch ?rq] = (Inr (RefreshOk (JStr ''a1'')),
      flown (renewed sample_tokens (initial_auth False)),
      [Fetch ?rq, StoreGet REFRESH_TOKEN_KEY, Fetch (refresh_request ''r0''), StorePut REFRESH_TOKEN_KEY ''r1''])"
    using refresh_outcomes [of expired_world "initial_auth False" "[Fetch ?rq]" "Some ''r0''", OF _ _ _ refl refl refl]
    by (simp add: key_store_works_def expired_world_def url initial_auth_def answer_def token_response_def
        rs_ok_def sample_tokens_def)
  have retry: "rq_url (retry_request (JStr ''a1'') ?rq) \<noteq> API_BASE_URL @ ''/auth/refresh''"
    "get_header ''x-auth-retry'' (rq_headers (retry_request (JStr ''a1'') ?rq)) = Some ''1''"
    by (simp add: retry_request_def bare_request_def, simp add: retry_request_def, code_simp)
  have "run expired_world (api_fetch ?rq) (initial_auth False) [] = run expired_world (fetch (retry_request (JStr ''a1'') ?rq))
      (flown (renewed sample_tokens (initial_auth False)))
      [Fetch ?rq, StoreGet REFRESH_TOKEN_KEY, Fetch (refresh_request ''r0''), StorePut REFRESH_TOKEN_KEY ''r1'']"
    using interceptor_one_retry [of ?rq expired_world "initial_auth False" "[]"] h(1,2) unmarked first renewal
    by (simp add: plain)
  moreover have "accessToken (flown (renewed sample_tokens (initial_auth False))) = JStr ''a1''"
    by (simp add: flown_def renewed_def sample_tokens_def)
  ultimately show "\<exists>s'. run expired_world (api_fetch ?rq) (initial_auth False) []
     = (Inr \<lparr>rs_status = 200, rs_text = [], rs_json = None\<rparr>, s',
        [Fetch ?rq, StoreGet REFRESH_TOKEN_KEY, Fetch (refresh_request ''r0''), StorePut REFRESH_TOKEN_KEY ''r1'',
         Fetch (retry_request (JStr ''a1'') ?rq)]) \<and> accessToken s' = JStr ''a1''"
    using retry by (simp add: run_rules expired_world_def)
  have "\<not> shouldHandleUrl (rq_url (bare_request ''GET'' ''https://elsewhere'' []))"
    by (simp add: bare_request_def shouldHandleUrl_def API_BASE_URL_def)
  then show "run expired_world (api_fetch (bare_request ''GET'' ''https://elsewhere'' [])) (initial_auth False) []
     = run expired_world (fetch (bare_request ''GET'' ''https://elsewhere'' [])) (initial_auth False) []"
    using interceptor_one_retry [of "bare_request ''GET'' ''https://elsewhere'' []" expired_world "initial_auth False" "[]"] by simp
qed

section \<open>A refresh racing a logout\<close>

definition signed_in :: auth where
  "signed_in = (initial_auth False)\<lparr>status := StAuthenticated, accessToken := JStr ''a0''\<rparr>"

text \<open>
  The schedule: a refresh has read the token and waits for its answer when the user logs out; the
  logout completes; then the answer to the refresh arrives.
\<close>

definition logout_during_refresh :: "(auth, unit) move list" where
  "logout_during_refresh =
    [Start (task refresh), Resume 0 (RText (Some ''r0'')),
     Start (task logout), Resume 1 (RText (Some ''r0'')),
     Resume 1 (RResp \<lparr>rs_status = 204, rs_text = [], rs_json = None\<rparr>), Resume 1 RDone]"

definition late_answer :: "(auth, unit) move list" where
  "late_answer = [Resume 0 (RResp token_response), Resume 0 RDone]"

text \<open>
  A refresh that is answered after a logout has completed signs the user in again: the state
  the logout left is unauthenticated with the stored token deleted, and when the answer arrives
  the session is authenticated, with a new access token in memory and a new refresh token stored.
\<close>

lemma logout_race_signs_in_again:
  "let pl = pool_exec logout_during_refresh \<lparr>tasks = [], shared = signed_in, history = []\<rparr>;
       pl' = pool_exec late_answer pl
   in logged_out (shared pl) \<and> last (history pl) = StoreDel REFRESH_TOKEN_KEY
    \<and> status (shared pl') = StAuthenticated \<and> accessToken (shared pl') = JStr ''a1''
    \<and> last (history pl') = StorePut REFRESH_TOKEN_KEY ''r1''"
  by code_simp

section \<open>Login and registration\<close>

text \<open>Failures of the platform are no session errors of the app's own.\<close>

definition plain_failures :: "world \<Rightarrow> bool" where
  "plain_failures w = (\<forall>t e c m d. w t e \<noteq> RFail (AuthErr c m d))"

definition own_error :: "exn \<Rightarrow> bool" where
  "own_error e = (\<exists>c m d. e = AuthErr c m d \<and> c \<noteq> ''token_exchange_failed'')"

definition login_post :: "exn + unit \<Rightarrow> 'x auth_scheme \<Rightarrow> bool" where
  "login_post r s = (case r of Inr u \<Rightarrow> status s = StAuthenticated
     | Inl e \<Rightarrow> own_error e \<longrightarrow> status s = StUnauthenticated)"

text \<open>No handler below the login raises one of the errors the login raises itself.\<close>

definition no_own :: "world \<Rightarrow> ('s, 'a) prog \<Rightarrow> bool" where
  "no_own w p = (\<forall>s t. wp w p (\<lambda>_ _ _. True) (\<lambda>e _ _. \<not> own_error e) s t)"

lemma no_own_wp: "no_own w p \<Longrightarrow> (\<And>a s' t'. Q a s' t') \<Longrightarrow> (\<And>e s' t'. \<not> own_error e \<Longrightarrow> E e s' t') \<Longrightarrow> wp w p Q E s t"
  unfolding no_own_def by (blast intro: wp_mono)

lemma no_own_bind: "no_own w p \<Longrightarrow> (\<And>a. no_own w (f a)) \<Longrightarrow> no_own w (bind p f)"
  unfolding no_own_def wp_bind by (blast intro: wp_mono)

lemma no_own_seq: "no_own w p \<Longrightarrow> no_own w q \<Longrightarrow> no_own w (seq p q)"
  unfolding seq_def by (rule no_own_bind)

lemma no_own_catch: "(\<And>e. no_own w (h e)) \<Longrightarrow> no_own w (try_catch p h)"
  unfolding no_own_def wp_try_catch by (blast intro: wp_total)

lemma no_own_finally: "no_own w p \<Longrightarrow> no_own w c \<Longrightarrow> no_own w (try_finally p c)"
  unfolding no_own_def wp_try_finally by (blast intro: wp_mono)

lemma no_own_prims:
  "no_own w (Return a)" "no_own w skip" "no_own w (gets f)" "no_own w (modify g)" "no_own w (res_json x)"
  "no_own w (prop_of v k)" "no_own w (need_slice v)"
  "\<not> own_error e \<Longrightarrow> no_own w (Raise e)"
  by (auto simp: no_own_def wp_rules own_error_def split: option.split)

lemma no_own_cases:
  "(b \<Longrightarrow> no_own w p) \<Longrightarrow> (\<not> b \<Longrightarrow> no_own w q) \<Longrightarrow> no_own w (if b then p else q)"
  "no_own w (g v) \<Longrightarrow> no_own w (let x = v in g x)"
  "no_own w p \<Longrightarrow> (\<And>a. no_own w (qf a)) \<Longrightarrow> no_own w (case x of None \<Rightarrow> p | Some a \<Rightarrow> qf a)"
  by (auto split: option.split)

lemma no_own_await:
  assumes "plain_failures w"
  shows "no_own w (fetch rq)" "no_own w getStoredRefreshToken" "no_own w clearStoredRefreshToken"
    "no_own w (storeRefreshToken v)" "no_own w (join_refresh i)"
proof -
  have f: "w t e = RFail x \<Longrightarrow> \<not> own_error x" for t e x
    using assms by (auto simp: plain_failures_def own_error_def)
  show "no_own w (fetch rq)" "no_own w getStoredRefreshToken" "no_own w clearStoredRefreshToken"
    "no_own w (storeRefreshToken v)" "no_own w (join_refresh i)"
    using f by (auto simp: no_own_def wp_rules storeRefreshToken_def wp_is_web join_refresh_def own_error_def
        split: reply.splits)
qed

lemmas no_own_rules = no_own_bind no_own_seq no_own_catch no_own_finally no_own_prims no_own_cases no_own_await

lemma no_own_setters:
  "no_own w (setStatus v)" "no_own w (setAccessToken x)" "no_own w (setUser x)"
  "no_own w (setSessionExpiredReason y)" "no_own w drop_session" "no_own w is_web"
  unfolding drop_session_def setter_defs by (intro no_own_rules)+

lemma no_own_session:
  assumes "plain_failures w"
  shows "no_own w (markSessionExpired r)" "no_own w refresh" "no_own w (api_fetch rq)"
    "no_own w (adopt_tokens v)" "no_own w (exchangeSessionToken v)" "no_own w hydrateWebKratosSession"
proof -
  show mark: "no_own w (markSessionExpired r)" for r
    unfolding markSessionExpired_def by (intro no_own_setters no_own_rules assms)
  have rb: "no_own w refresh_body"
    unfolding refresh_body_def by (intro no_own_setters mark no_own_rules assms)
  show ref: "no_own w refresh"
    unfolding refresh_def by (intro rb no_own_rules assms)
  have "no_own w (case r of RefreshFail \<Rightarrow> Return res | RefreshOk t \<Rightarrow> fetch (retry_request t rq))" for r res rq
    by (cases r) (auto intro: no_own_rules assms)
  then show api: "no_own w (api_fetch rq)" for rq
    unfolding api_fetch_def by (intro ref mark no_own_rules assms)
  show "no_own w (adopt_tokens v)"
    unfolding adopt_tokens_def by (intro no_own_setters no_own_rules assms)
  show "no_own w (exchangeSessionToken v)"
    unfolding exchangeSessionToken_def by (intro api no_own_rules assms) (simp add: own_error_def)
  show "no_own w hydrateWebKratosSession"
    unfolding hydrateWebKratosSession_def by (intro no_own_setters no_own_rules)
qed

definition signs_in :: "world \<Rightarrow> ('x, unit) handler \<Rightarrow> bool" where
  "signs_in w p = (\<forall>s t. wp w p (\<lambda>_ s' _. status s' = StAuthenticated)
     (\<lambda>e s' _. own_error e \<longrightarrow> status s' = StUnauthenticated) s t)"

lemma signs_in_bind: "no_own w p \<Longrightarrow> (\<And>a. signs_in w (f a)) \<Longrightarrow> signs_in w (bind p f)"
  unfolding signs_in_def wp_bind by (blast intro: no_own_wp)

lemma signs_in_seq: "no_own w p \<Longrightarrow> signs_in w q \<Longrightarrow> signs_in w (seq p q)"
  unfolding seq_def by (rule signs_in_bind)

lemma signs_in_cases:
  "(b \<Longrightarrow> signs_in w p) \<Longrightarrow> (\<not> b \<Longrightarrow> signs_in w q) \<Longrightarrow> signs_in w (if b then p else q)"
  by simp

lemma signs_in_fail: "signs_in w (seq (setStatus StUnauthenticated) (Raise e))"
  by (simp add: signs_in_def wp_rules)

lemma signs_in_fail_bind:
  "no_own w p \<Longrightarrow> signs_in w (bind p (\<lambda>m. seq (setStatus StUnauthenticated) (Raise (g m))))"
  by (erule signs_in_bind) (rule signs_in_fail)

text \<open>\<open>true_signed w p\<close>: when \<open>p\<close> returns true, the session is authenticated.\<close>

definition true_signed :: "world \<Rightarrow> ('x, bool) handler \<Rightarrow> bool" where
  "true_signed w p = (\<forall>s t. wp w p (\<lambda>h s' _. h \<longrightarrow> status s' = StAuthenticated) (\<lambda>_ _ _. True) s t)"

lemma wp_adopt: "wp w (adopt_tokens v) (\<lambda>_ s' _. status s' = StAuthenticated) (\<lambda>_ _ _. True) s t"
  unfolding adopt_tokens_def wp_seq [where p = "storeRefreshToken x" for x]
  by (rule wp_total) (simp_all add: wp_rules)

lemma true_signed_bind: "(\<And>a. true_signed w (f a)) \<Longrightarrow> true_signed w (bind p f)"
  unfolding true_signed_def wp_bind by (blast intro: wp_total)

lemma true_signed_seq: "true_signed w q \<Longrightarrow> true_signed w (seq p q)"
  unfolding seq_def by (rule true_signed_bind)

lemma true_signed_catch: "true_signed w p \<Longrightarrow> true_signed w (try_catch p (\<lambda>_. Return False))"
  unfolding true_signed_def wp_try_catch wp_prims by (blast intro: wp_mono)

lemma true_signed_cases:
  "true_signed w (Return False)"
  "(b \<Longrightarrow> true_signed w p) \<Longrightarrow> (\<not> b \<Longrightarrow> true_signed w q) \<Longrightarrow> true_signed w (if b then p else q)"
  "true_signed w (g x) \<Longrightarrow> true_signed w (let y = x in g y)"
  by (simp_all add: true_signed_def wp_rules)

lemmas true_signed_rules = true_signed_bind true_signed_seq true_signed_catch true_signed_cases

lemma true_signed_adopt: "true_signed w (seq (adopt_tokens v) (Return True))"
  unfolding true_signed_def wp_seq wp_prims by (auto intro: wp_mono [OF wp_adopt])

lemma true_signed_hydrate: "true_signed w hydrateWebKratosSession"
  unfolding hydrateWebKratosSession_def
  by (intro true_signed_adopt true_signed_rules)

lemma hydrate_returns: "wp w hydrateWebKratosSession (\<lambda>_ _ _. True) (\<lambda>_ _ _. False) s t"
  unfolding hydrateWebKratosSession_def wp_bind wp_is_web wp_if wp_prims
  by (auto intro: wp_no_error)

lemma wp_conj:
  "wp w p Q E s t \<Longrightarrow> wp w p Q' E' s t \<Longrightarrow>
     wp w p (\<lambda>a s' t'. Q a s' t' \<and> Q' a s' t') (\<lambda>e s' t'. E e s' t' \<and> E' e s' t') s t"
  by (auto simp: wp_def split: prod.splits sum.splits)

lemma wp_hydrate_true:
  "wp w hydrateWebKratosSession (\<lambda>h s' _. h \<longrightarrow> status s' = StAuthenticated) (\<lambda>_ _ _. False) s t"
  using wp_conj [OF hydrate_returns true_signed_hydrate [unfolded true_signed_def, rule_format]]
  by (rule wp_mono) auto

lemma signs_in_hydrate:
  "signs_in w p \<Longrightarrow> signs_in w (bind hydrateWebKratosSession (\<lambda>h. if h then skip else p))"
  "signs_in w p \<Longrightarrow> signs_in w (bind hydrateWebKratosSession (\<lambda>h. if \<not> h then p else skip))"
  unfolding signs_in_def wp_bind by (auto intro!: wp_mono [OF wp_hydrate_true] simp: wp_rules)

lemma signs_in_adopt: "plain_failures w \<Longrightarrow> signs_in w (adopt_tokens v)"
  unfolding signs_in_def
  using wp_conj [OF wp_adopt no_own_session(4) [unfolded no_own_def, rule_format]]
  by (blast intro: wp_mono)

lemma no_own_forms:
  assumes "plain_failures w"
  shows "no_own w (create_flow web kind)" "no_own w (csrf_of web ui)" "no_own w (submit_form web ui csrf body)"
    "no_own w (extractLoginErrorMessage v)" "no_own w (opt_slice x)"
proof -
  have node: "no_own w (node_value nodes k)" for nodes k
  proof -
    have "find_node k ns = Inl e \<Longrightarrow> e = TypeErr" for ns e
      by (induction ns) (auto split: if_splits)
    then have "find_node k ns = Inl e \<Longrightarrow> \<not> own_error e" for ns e by (auto simp: own_error_def)
    moreover have "\<not> own_error TypeErr" by (simp add: own_error_def)
    ultimately show ?thesis by (auto simp: node_value_def no_own_def wp_rules split: sum.split)
  qed
  show "no_own w (create_flow web kind)" "no_own w (csrf_of web ui)" "no_own w (submit_form web ui csrf body)"
    unfolding create_flow_def csrf_of_def submit_form_def
    by (intro node no_own_session no_own_rules assms)+
  show "no_own w (extractLoginErrorMessage v)" "no_own w (opt_slice x)"
    unfolding extractLoginErrorMessage_def ui_message_def opt_slice_def by (intro no_own_rules)+
qed

text \<open>
  How a login ends, on a platform whose failures are no session errors. When it returns, the
  session is authenticated. When it raises one of its own errors (other than the failed token
  exchange), the session is unauthenticated. But when the request for the flow gets no answer,
  the error is passed on and the session is left in the state checking.
\<close>

lemma login_outcome:
  assumes "plain_failures w"
  shows "(\<forall>s'. (\<exists>t'. run w (login email password) s t = (Inr (), s', t')) \<longrightarrow> status s' = StAuthenticated)
     \<and> (\<forall>s' e. (\<exists>t'. run w (login email password) s t = (Inl e, s', t')) \<and> own_error e \<longrightarrow>
           status s' = StUnauthenticated)
     \<and> (\<forall>e. w t (Fetch (bare_request ''GET'' (KRATOS_BASE_URL @ ''/self-service/login'' @
               (if on_web s then ''/browser'' else ''/api'')) (credentials_of (on_web s)))) = RFail e \<longrightarrow>
           (\<exists>t'. run w (login email password) s t = (Inl e, s\<lparr>status := StChecking\<rparr>, t')))"
proof -
  have "signs_in w (login email password :: ('a, unit) handler)"
    unfolding login_def native_login_result_def start_login_failed_def
    by (intro signs_in_hydrate signs_in_fail_bind signs_in_fail signs_in_adopt signs_in_seq signs_in_bind signs_in_cases
        no_own_forms no_own_session no_own_setters no_own_rules assms)
  then have "wp w (login email password) (\<lambda>_ s' _. status s' = StAuthenticated)
      (\<lambda>e s' _. own_error e \<longrightarrow> status s' = StUnauthenticated) s t"
    by (simp add: signs_in_def)
  moreover have "run w (login email password) s t = (Inl e, s\<lparr>status := StChecking\<rparr>, t @ [Fetch rq])"
    if rq: "rq = bare_request ''GET'' (KRATOS_BASE_URL @ ''/self-service/login'' @
               (if on_web s then ''/browser'' else ''/api'')) (credentials_of (on_web s))"
      and fail: "w t (Fetch rq) = RFail e" for rq e
  proof -
    have "\<not> shouldHandleUrl (rq_url rq)"
      by (simp add: rq bare_request_def shouldHandleUrl_def KRATOS_BASE_URL_def API_BASE_URL_def)
    then have api: "api_fetch rq = (fetch rq :: ('a, response) handler)" by (rule interceptor_passes)
    have "create_flow (on_web s) ''login'' = (api_fetch rq :: ('a, response) handler)"
      by (simp add: create_flow_def rq)
    with api have "create_flow (on_web s) ''login'' = (fetch rq :: ('a, response) handler)" by simp
    then show ?thesis
      using fail by (simp add: login_def native_login_result_def run_rules)
  qed
  ultimately show ?thesis
    by (auto simp: wp_def)
qed

lemma login_outcome_witness:
  "status (state_of silent_world (login ''a@b'' ''pw'') (initial_auth True)) = StChecking"
proof -
  have "plain_failures silent_world"
    by (auto simp: plain_failures_def silent_world_def split: event.splits)
  from login_outcome [OF this, of "''a@b''" "''pw''" "initial_auth True" "[]"] show ?thesis
    by (auto simp: silent_world_def state_of_def)
qed

definition registers :: "world \<Rightarrow> ('x, register_result) handler \<Rightarrow> bool" where
  "registers w p = (\<forall>s t. wp w p
     (\<lambda>r s' _. status s' = (if r = RegAuthenticated then StAuthenticated else StUnauthenticated)) (\<lambda>_ _ _. True) s t)"

lemma registers_bind: "(\<And>a. registers w (f a)) \<Longrightarrow> registers w (bind p f)"
  unfolding registers_def wp_bind by (blast intro: wp_total)

lemma registers_seq: "registers w q \<Longrightarrow> registers w (seq p q)"
  unfolding seq_def by (rule registers_bind)

lemma registers_ends:
  "registers w (Raise e)"
  "registers w (seq (adopt_tokens v) (Return RegAuthenticated))"
  "registers w (register_web_result url_flow v)"
  by (auto simp: registers_def wp_rules register_web_result_def Let_def wp_seq
      intro!: wp_mono [OF wp_adopt] split: sum.split)

lemma registers_cases:
  "(b \<Longrightarrow> registers w p) \<Longrightarrow> (\<not> b \<Longrightarrow> registers w q) \<Longrightarrow> registers w (if b then p else q)"
  "registers w (g x) \<Longrightarrow> registers w (let y = x in g y)"
  by simp_all

text \<open>
  However a registration ends, it does not end in the state checking: the session is
  authenticated exactly when the result says so, and unauthenticated in every other case, a
  verification that is still required and every exception included.
\<close>

lemma register_never_checking:
  "case run w (register url_flow inp) s t of (r, s', t') \<Rightarrow>
     status s' = (if r = Inr RegAuthenticated then StAuthenticated else StUnauthenticated)"
proof -
  let ?Q = "\<lambda>r s' _. status s' = (if r = RegAuthenticated then StAuthenticated else StUnauthenticated)"
  have "registers w (register_body url_flow email password :: ('a, register_result) handler)" for email password
    unfolding register_body_def native_register_result_def
    by (intro registers_ends registers_seq registers_bind registers_cases)
  then have body: "wp w (register_body url_flow email password) ?Q (\<lambda>_ _ _. True) s' t'"
    for email password and s' :: "'a auth_scheme" and t'
    by (simp add: registers_def)
  have "wp w (register_body url_flow email password) ?Q
      (\<lambda>e. wp w (seq (setStatus StUnauthenticated) (Raise e)) ?Q (\<lambda>_ s' _. status s' = StUnauthenticated)) s' t'"
    for email password and s' :: "'a auth_scheme" and t'
    by (rule wp_mono [OF body]) (simp_all add: wp_rules)
  then have "wp w (register url_flow inp) ?Q (\<lambda>_ s' _. status s' = StUnauthenticated) s t"
    by (simp add: register_def Let_def wp_seq wp_setters wp_try_catch)
  moreover obtain r s' t' where "run w (register url_flow inp) s t = (r, s', t')" by (metis prod_cases3)
  ultimately show ?thesis by (cases r) (auto simp: wp_def)
qed

end
