(* ===== verification/FlightLock.thy ===== *)
theory FlightLock
  imports JsAsync
begin

text \<open>
  A lock that interleaved handlers share: a cell of the state that one handler takes and gives
  back, and events that only its owner may await. \<open>prot\<close> follows the ownership through a handler;
  in the locale, handlers that respect the protocol are shown to exclude each other: in every
  reachable pool at most one of them awaits a guarded event.
\<close>

section \<open>Ownership through a handler\<close>

text \<open>
  Taking the lock requires that the handler does not own it, giving it back that it does; a
  guarded event is awaited by the owner only; and while it is suspended the owner relies on the
  lock staying taken.
\<close>

primrec prot :: "('s \<Rightarrow> bool) \<Rightarrow> (event \<Rightarrow> bool) \<Rightarrow> ('s, 'a) prog \<Rightarrow> ('a \<Rightarrow> bool \<Rightarrow> 's \<Rightarrow> bool) \<Rightarrow>
    (exn \<Rightarrow> bool \<Rightarrow> 's \<Rightarrow> bool) \<Rightarrow> bool \<Rightarrow> 's \<Rightarrow> bool" where
  "prot held G (Return a) Q E own s = Q a own s"
| "prot held G (Raise e) Q E own s = E e own s"
| "prot held G (Get g) Q E own s = prot held G (g s) Q E own s"
| "prot held G (Put s' p) Q E own s =
     ((held s \<noteq> held s' \<longrightarrow> own = held s)
      \<and> prot held G p Q E (if held s = held s' then own else held s') s')"
| "prot held G (Emit ev p) Q E own s = prot held G p Q E own s"
| "prot held G (Await ev k) Q E own s =
     ((G ev \<longrightarrow> own) \<and> (\<forall>r s'. (own \<longrightarrow> held s') \<longrightarrow> prot held G (k r) Q E own s'))"

lemma prot_mono:
  "prot held G p Q E own s \<Longrightarrow> (\<And>a b s'. Q a b s' \<Longrightarrow> Q' a b s') \<Longrightarrow> (\<And>e b s'. E e b s' \<Longrightarrow> E' e b s') \<Longrightarrow>
     prot held G p Q' E' own s"
  by (induction p arbitrary: own s) auto

lemma prot_ends: "prot held G (Return a) Q E = Q a" "prot held G (Raise e) Q E = E e"
  by (intro ext; simp)+

lemma prot_bind: "prot held G (bind p f) Q E own s = prot held G p (\<lambda>a. prot held G (f a) Q E) E own s"
  by (induction p arbitrary: own s) auto

lemma prot_seq: "prot held G (seq p q) Q E own s = prot held G p (\<lambda>_. prot held G q Q E) E own s"
  by (simp add: seq_def prot_bind)

lemma prot_try_catch:
  "prot held G (try_catch p h) Q E own s = prot held G p Q (\<lambda>e. prot held G (h e) Q E) own s"
  by (induction p arbitrary: own s) auto

lemma prot_try_finally:
  "prot held G (try_finally p c) Q E own s =
     prot held G p (\<lambda>a. prot held G c (\<lambda>_. Q a) E) (\<lambda>e. prot held G c (\<lambda>_. E e) E) own s"
  by (induction p arbitrary: own s) (simp_all add: prot_bind prot_ends)

text \<open>A handler that leaves the lock as it found it, owning it throughout or not at all.\<close>

definition calm :: "('s \<Rightarrow> bool) \<Rightarrow> (event \<Rightarrow> bool) \<Rightarrow> bool \<Rightarrow> ('s, 'a) prog \<Rightarrow> bool" where
  "calm held G own p = (\<forall>s. (own \<longrightarrow> held s) \<longrightarrow>
     prot held G p (\<lambda>_ b s'. b = own \<and> (own \<longrightarrow> held s')) (\<lambda>_ b s'. b = own \<and> (own \<longrightarrow> held s')) own s)"

lemma calmI:
  "(\<And>s. (own \<longrightarrow> held s) \<Longrightarrow>
     prot held G p (\<lambda>_ b s'. b = own \<and> (own \<longrightarrow> held s')) (\<lambda>_ b s'. b = own \<and> (own \<longrightarrow> held s')) own s) \<Longrightarrow>
   calm held G own p"
  by (simp add: calm_def)

lemma calmD:
  "calm held G own p \<Longrightarrow> (own \<longrightarrow> held s) \<Longrightarrow> (\<And>a s'. (own \<longrightarrow> held s') \<Longrightarrow> Q a own s') \<Longrightarrow>
     (\<And>e s'. (own \<longrightarrow> held s') \<Longrightarrow> E e own s') \<Longrightarrow> prot held G p Q E own s"
  unfolding calm_def by (erule allE, erule impE, assumption) (erule prot_mono; auto)

lemma calm_prims [calm_rules]:
  "calm held G own (Return a)" "calm held G own (Raise e)" "calm held G own skip"
  "calm held G own (gets f)" "calm held G own (emit ev)"
  "calm held G own (res_json x)" "calm held G own (prop_of v k)" "calm held G own (need_slice v)"
  by (auto simp: calm_def skip_def gets_def emit_def res_json_def prop_of_def need_slice_def split: option.split)

lemma calm_modify [calm_rules]: "(\<And>s. held (f s) = held s) \<Longrightarrow> calm held G own (modify f)"
  by (simp add: calm_def modify_def)

lemma calm_fetch [calm_rules]: "(G (Fetch rq) \<Longrightarrow> own) \<Longrightarrow> calm held G own (fetch rq)"
  by (auto simp: calm_def fetch_def split: reply.split)

lemma calm_Await [calm_rules]:
  "(G ev \<Longrightarrow> own) \<Longrightarrow> (\<And>r. calm held G own (k r)) \<Longrightarrow> calm held G own (Await ev k)"
  by (auto simp: calm_def)

lemma calm_bind [calm_rules]:
  assumes "calm held G own p" "\<And>a. calm held G own (f a)"
  shows "calm held G own (bind p f)"
  by (rule calmI, unfold prot_bind, rule calmD [OF assms(1)], assumption, rule calmD [OF assms(2)]) simp_all

lemma calm_seq [calm_rules]: "calm held G own p \<Longrightarrow> calm held G own q \<Longrightarrow> calm held G own (seq p q)"
  unfolding seq_def by (rule calm_bind)

lemma calm_try_catch [calm_rules]:
  assumes "calm held G own p" "\<And>e. calm held G own (h e)"
  shows "calm held G own (try_catch p h)"
  by (rule calmI, unfold prot_try_catch, rule calmD [OF assms(1)], assumption, simp,
      rule calmD [OF assms(2)]) simp_all

lemma calm_try_finally [calm_rules]:
  "calm held G own p \<Longrightarrow> calm held G own c \<Longrightarrow> calm held G own (try_finally p c)"
  by (rule calmI, unfold prot_try_finally, erule calmD, assumption; erule (1) calmD; simp)

lemma calm_cases [calm_rules]:
  "(b \<Longrightarrow> calm held G own p) \<Longrightarrow> (\<not> b \<Longrightarrow> calm held G own q) \<Longrightarrow> calm held G own (if b then p else q)"
  "(b \<Longrightarrow> calm held G own u) \<Longrightarrow> calm held G own (do_if b u)"
  "calm held G own (g v) \<Longrightarrow> calm held G own (let x = v in g x)"
  by (simp_all add: do_if_def calm_prims)

lemma calm_option [calm_rules]:
  "calm held G own p \<Longrightarrow> (\<And>a. calm held G own (q a)) \<Longrightarrow>
     calm held G own (case x of None \<Rightarrow> p | Some a \<Rightarrow> q a)"
  by (cases x) simp_all

lemma calm_sum [calm_rules]:
  "(\<And>e. calm held G own (p e)) \<Longrightarrow> (\<And>a. calm held G own (q a)) \<Longrightarrow>
     calm held G own (case x of Inl e \<Rightarrow> p e | Inr a \<Rightarrow> q a)"
  by (cases x) simp_all

section \<open>Mutual exclusion\<close>

text \<open>A parked handler, with or without the lock.\<close>

fun at_rest :: "('s \<Rightarrow> bool) \<Rightarrow> (event \<Rightarrow> bool) \<Rightarrow> bool \<Rightarrow> ('s, 'a) prog \<Rightarrow> bool" where
  "at_rest held G own (Return a) = (\<not> own)"
| "at_rest held G own (Raise e) = (\<not> own)"
| "at_rest held G own (Await ev k) = ((G ev \<longrightarrow> own) \<and> (\<forall>r s'. (own \<longrightarrow> held s') \<longrightarrow>
     prot held G (k r) (\<lambda>_ b _. \<not> b) (\<lambda>_ b _. \<not> b) own s'))"
| "at_rest held G own p = False"

fun awaits :: "(event \<Rightarrow> bool) \<Rightarrow> ('s, 'a) prog \<Rightarrow> bool" where
  "awaits G (Await ev k) = G ev"
| "awaits G p = False"

lemma at_rest_awaits: "at_rest held G own p \<Longrightarrow> awaits G p \<Longrightarrow> own"
  by (cases p) simp_all

lemma switched:
  "(o2 \<longrightarrow> c) \<Longrightarrow> (b = c \<longrightarrow> o2 = (if a = b then o0 else b)) \<Longrightarrow>
   (b \<noteq> c \<longrightarrow> (if a = b then o0 else b) = b \<and> o2 = c) \<Longrightarrow> ((if a = b then o0 else b) \<longrightarrow> b) \<Longrightarrow>
   (a \<noteq> b \<longrightarrow> o0 = a) \<Longrightarrow> (a = c \<longrightarrow> o2 = o0) \<and> (a \<noteq> c \<longrightarrow> o0 = a \<and> o2 = c)"
  by (cases a; cases b; cases c) simp_all

lemma prot_advance:
  "prot held G p (\<lambda>_ b _. \<not> b) (\<lambda>_ b _. \<not> b) own s \<Longrightarrow> (own \<longrightarrow> held s) \<Longrightarrow> advance p s t = (p', s', t') \<Longrightarrow>
     \<exists>own'. at_rest held G own' p' \<and> (own' \<longrightarrow> held s') \<and> (held s = held s' \<longrightarrow> own' = own)
       \<and> (held s \<noteq> held s' \<longrightarrow> own = held s \<and> own' = held s')"
proof (induction p arbitrary: own s t)
  case (Put x p)
  let ?own = "if held s = held x then own else held x"
  have p1: "held s \<noteq> held x \<longrightarrow> own = held s" and p2: "prot held G p (\<lambda>_ b _. \<not> b) (\<lambda>_ b _. \<not> b) ?own x"
    using Put.prems(1) unfolding prot.simps by (rule conjunct1, rule conjunct2)
  have p3: "?own \<longrightarrow> held x" using Put.prems(2) by (cases "held s = held x") simp_all
  have p4: "advance p x t = (p', s', t')" using Put.prems(3) unfolding advance.simps .
  from Put.IH [OF p2 p3 p4] obtain own' where o: "at_rest held G own' p'" "own' \<longrightarrow> held s'"
    "held x = held s' \<longrightarrow> own' = ?own" "held x \<noteq> held s' \<longrightarrow> ?own = held x \<and> own' = held s'" by blast
  have "(held s = held s' \<longrightarrow> own' = own) \<and> (held s \<noteq> held s' \<longrightarrow> own = held s \<and> own' = held s')"
    using o(2-4) p3 p1 by (rule switched)
  with o(1,2) show ?case by blast
next
  case (Get g)
  show ?case
    by (rule Get.IH [OF rangeI Get.prems(1) [unfolded prot.simps] Get.prems(2) Get.prems(3) [unfolded advance.simps]])
qed auto

text \<open>The owner of the lock in a pool.\<close>

definition owned_by :: "('s \<Rightarrow> bool) \<Rightarrow> (event \<Rightarrow> bool) \<Rightarrow> nat option \<Rightarrow> ('s, 'a) pool \<Rightarrow> bool" where
  "owned_by held G ow pl = ((ow \<noteq> None \<longleftrightarrow> held (shared pl)) \<and> (\<forall>i. ow = Some i \<longrightarrow> i < length (tasks pl))
     \<and> (\<forall>i < length (tasks pl). at_rest held G (ow = Some i) (tasks pl ! i)))"

text \<open>The owner after a handler \<open>i\<close> has run: itself, nobody, or whoever had the lock before.\<close>

definition next_owner :: "nat \<Rightarrow> bool \<Rightarrow> nat option \<Rightarrow> nat option" where
  "next_owner i own ow = (if own then Some i else if ow = Some i then None else ow)"

lemma next_owner_held:
  "(ow \<noteq> None) = a \<Longrightarrow> a = b \<longrightarrow> own = (ow = Some i) \<Longrightarrow> a \<noteq> b \<longrightarrow> (ow = Some i) = a \<and> own = b \<Longrightarrow>
     (next_owner i own ow \<noteq> None) = b"
  by (cases a; cases b; cases ow) (auto simp: next_owner_def)

lemma next_owner_self: "(next_owner i own ow = Some i) = own"
  by (simp add: next_owner_def)

lemma next_owner_other:
  "(ow \<noteq> None) = a \<Longrightarrow> a = b \<longrightarrow> own = (ow = Some i) \<Longrightarrow> a \<noteq> b \<longrightarrow> (ow = Some i) = a \<and> own = b \<Longrightarrow>
     j \<noteq> i \<Longrightarrow> (next_owner i own ow = Some j) = (ow = Some j)"
  by (cases a; cases b; cases ow) (auto simp: next_owner_def)

lemma next_owner_range: "next_owner i own ow = Some j \<Longrightarrow> j = i \<or> ow = Some j"
  by (simp add: next_owner_def split: if_splits)

lemma owned_update:
  assumes own: "(ow \<noteq> None) = held s" "\<forall>j. ow = Some j \<longrightarrow> j < n"
    and rest: "\<And>j. j < n \<Longrightarrow> at_rest held G (ow = Some j) (ts ! j)"
    and new: "at_rest held G own' p'" "held s = held s' \<longrightarrow> own' = (ow = Some i)"
      "held s \<noteq> held s' \<longrightarrow> (ow = Some i) = held s \<and> own' = held s'"
    and i: "i < length ts'" "n \<le> length ts'" "ts' ! i = p'"
      "\<And>j. j < length ts' \<Longrightarrow> j \<noteq> i \<Longrightarrow> j < n \<and> ts' ! j = ts ! j"
  shows "\<exists>ow'. owned_by held G ow' \<lparr>tasks = ts', shared = s', history = t'\<rparr>"
proof -
  let ?ow = "next_owner i own' ow"
  have "(?ow \<noteq> None) = held s'" by (rule next_owner_held [OF own(1) new(2,3)])
  moreover have "j < length ts'" if "?ow = Some j" for j
    using next_owner_range [OF that] i(1,2) own(2) by (elim disjE) (simp_all add: less_le_trans [of j n])
  moreover have "at_rest held G (?ow = Some j) (ts' ! j)" if "j < length ts'" for j
  proof (cases "j = i")
    case True
    then show ?thesis unfolding True next_owner_self i(3) by (rule_tac new(1))
  next
    case False
    show ?thesis unfolding next_owner_other [OF own(1) new(2,3) False]
      using i(4) [OF that False] rest [of j] by simp
  qed
  ultimately show ?thesis by (intro exI [of _ ?ow]) (simp add: owned_by_def)
qed

lemma owned_byD:
  assumes "owned_by held G ow pl"
  shows "(ow \<noteq> None) = held (shared pl)" "\<forall>j. ow = Some j \<longrightarrow> j < length (tasks pl)"
    "\<And>j. j < length (tasks pl) \<Longrightarrow> at_rest held G (ow = Some j) (tasks pl ! j)"
  using assms by (simp_all add: owned_by_def)

lemma owned_start:
  assumes "owned_by held G ow pl" "calm held G False p"
  shows "\<exists>ow'. owned_by held G ow' (pool_start p pl)"
proof -
  note o = owned_byD [OF assms(1)]
  obtain p' s' t' where a: "advance p (shared pl) (history pl) = (p', s', t')" by (metis prod_cases3)
  have "prot held G p (\<lambda>_ b _. \<not> b) (\<lambda>_ b _. \<not> b) False (shared pl)"
    by (rule calmD [OF assms(2)]) simp_all
  from prot_advance [OF this _ a] obtain own' where new: "at_rest held G own' p'"
    "held (shared pl) = held s' \<longrightarrow> own' = False"
    "held (shared pl) \<noteq> held s' \<longrightarrow> False = held (shared pl) \<and> own' = held s'" by blast
  have none: "(ow = Some (length (tasks pl))) = False" using o(2) by blast
  have "\<exists>ow'. owned_by held G ow' \<lparr>tasks = tasks pl @ [p'], shared = s', history = t'\<rparr>"
    by (rule owned_update [OF o(1) o(2) o(3) new(1) new(2,3) [folded none]])
      (simp_all add: nth_append)
  then show ?thesis by (simp add: pool_start_def a)
qed

lemma owned_resume:
  assumes own: "owned_by held G ow pl"
  shows "\<exists>ow'. owned_by held G ow' (pool_resume i r pl)"
proof (cases "i < length (tasks pl)")
  case True
  note o = owned_byD [OF own]
  show ?thesis
  proof (cases "tasks pl ! i")
    case (Await e k)
    obtain p' s' t' where a: "advance (k r) (shared pl) (history pl @ [e]) = (p', s', t')" by (metis prod_cases3)
    have h: "ow = Some i \<longrightarrow> held (shared pl)" using o(1) by auto
    with o(3) [OF True] Await
    have "prot held G (k r) (\<lambda>_ b _. \<not> b) (\<lambda>_ b _. \<not> b) (ow = Some i) (shared pl)" by simp
    from prot_advance [OF this h a] obtain own' where new: "at_rest held G own' p'"
      "held (shared pl) = held s' \<longrightarrow> own' = (ow = Some i)"
      "held (shared pl) \<noteq> held s' \<longrightarrow> (ow = Some i) = held (shared pl) \<and> own' = held s'" by blast
    have "\<exists>ow'. owned_by held G ow' \<lparr>tasks = (tasks pl)[i := p'], shared = s', history = t'\<rparr>"
      by (rule owned_update [OF o(1) o(2) o(3) new]) (use True in \<open>simp_all\<close>)
    then show ?thesis using True Await by (simp add: pool_resume_def a)
  qed (use own True in \<open>auto simp: pool_resume_def\<close>)
qed (use own in \<open>auto simp: pool_resume_def\<close>)

text \<open>
  The interface: handlers that respect the lock. A client learns that they exclude each other.
\<close>

locale flight_lock =
  fixes held :: "'s \<Rightarrow> bool" and G :: "event \<Rightarrow> bool" and H :: "('s, 'a) prog \<Rightarrow> bool"
  assumes respects: "H p \<Longrightarrow> calm held G False p"
begin

lemma owner_exists:
  assumes "pool_reach H s0 pl" "\<not> held s0"
  shows "\<exists>ow. owned_by held G ow pl"
  using assms(1)
proof induction
  case pool_init
  then show ?case using assms(2) by (intro exI [of _ None]) (simp add: owned_by_def)
next
  case (pool_spawn pl p)
  then show ?case using owned_start respects by blast
next
  case (pool_wake pl i r)
  then show ?case using owned_resume by blast
qed

lemma mutual_exclusion:
  assumes "pool_reach H s0 pl" "\<not> held s0" "i < length (tasks pl)" "j < length (tasks pl)"
    "awaits G (tasks pl ! i)" "awaits G (tasks pl ! j)"
  shows "i = j \<and> held (shared pl)"
proof -
  obtain ow where ow: "owned_by held G ow pl" using owner_exists [OF assms(1,2)] ..
  then have "ow = Some i" "ow = Some j"
    using assms(3-6) by (auto simp: owned_by_def dest: at_rest_awaits)
  with ow show ?thesis by (auto simp: owned_by_def)
qed

end

end
