(* ===== verification/ScreenLock.thy ===== *)
theory ScreenLock
  imports AuthSession FlightLock
begin

text \<open>
  Locks of the screens, in the terms of \<open>FlightLock\<close>: the session's handlers, which run inside those of
  a screen, neither touch a lock in the screen's part of the state nor send the requests it guards.
\<close>

lemma calm_refresh_cases [calm_rules]:
  "calm held G own p \<Longrightarrow> (\<And>v. calm held G own (q v)) \<Longrightarrow>
     calm held G own (case r of RefreshFail \<Rightarrow> p | RefreshOk v \<Rightarrow> q v)"
  by (cases r) simp_all

text \<open>
  The interface: a lock in a screen's part of the state, guarding requests that are none of the
  session's.
\<close>

locale screen_lock =
  fixes held :: "'x auth_scheme \<Rightarrow> bool" and G :: "event \<Rightarrow> bool"
  assumes off: "auth.more s = auth.more s' \<Longrightarrow> held s = held s'"
    and quiet: "G e \<Longrightarrow> \<exists>rq. e = Fetch rq \<and> rq_url rq \<noteq> API_BASE_URL @ ''/auth/refresh''"
    and same_url: "rq_url rq = rq_url rq' \<Longrightarrow> G (Fetch rq) = G (Fetch rq')"
begin

lemma calm_setters: "calm held G own (setStatus a)" "calm held G own (setAccessToken v)" "calm held G own (setUser v)"
  "calm held G own (setSessionExpiredReason r)" "calm held G own is_web"
  "calm held G own (modify (\<lambda>s. s\<lparr>refreshInFlight := c\<rparr>))"
  "calm held G own (modify (\<lambda>s. s\<lparr>refreshInFlight := Some (flights s), flights := Suc (flights s)\<rparr>))"
  by (simp_all add: setter_defs, (rule calm_rules; rule off; simp)+)

lemma calm_store: "calm held G own (put_token s)" "calm held G own getStoredRefreshToken" "calm held G own clearStoredRefreshToken"
  "calm held G own (join_refresh i)"
  using quiet by (auto simp: put_token_def getStoredRefreshToken_def clearStoredRefreshToken_def join_refresh_def
      calm_def split: reply.split)

lemmas calm_session = calm_setters calm_store

lemma calm_tokens: "calm held G own (storeRefreshToken v)" "calm held G own drop_session" "calm held G own (markSessionExpired r)"
  unfolding storeRefreshToken_def drop_session_def markSessionExpired_def
  by (intro calm_rules calm_session)+

lemma calm_refresh: "calm held G own refresh"
proof -
  have "\<not> G (Fetch (refresh_request token))" for token
    using quiet [of "Fetch (refresh_request token)"] by (auto simp: refresh_request_def post_json_def)
  then show ?thesis
    unfolding refresh_def refresh_body_def by (intro calm_rules calm_session calm_tokens) simp_all
qed

lemma calm_api_fetch: "(G (Fetch rq) \<Longrightarrow> own) \<Longrightarrow> calm held G own (api_fetch rq)"
proof -
  assume "G (Fetch rq) \<Longrightarrow> own"
  moreover have "G (Fetch (authorized token rq)) = G (Fetch rq)" "G (Fetch (retry_request token rq)) = G (Fetch rq)" for token
    by (rule same_url, simp add: authorized_def retry_request_def)+
  ultimately show ?thesis
    unfolding api_fetch_def by (intro calm_rules calm_session calm_tokens calm_refresh) simp_all
qed

end

end
