(* ===== verification/SingleFlight.thy ===== *)
theory SingleFlight
  imports AuthSafety ScreenLock
begin

text \<open>
  The single-flight promise of \<open>refresh\<close>: the cell \<open>refreshInFlight\<close> is the lock of \<open>FlightLock\<close>,
  the request to the refresh endpoint its guarded event.
\<close>

definition refreshing :: "'x auth_scheme \<Rightarrow> bool" where
  "refreshing s = (refreshInFlight s \<noteq> None)"

definition asks_refresh :: "request \<Rightarrow> bool" where
  "asks_refresh rq = (rq_url rq = API_BASE_URL @ ''/auth/refresh''
     \<and> (case rq_body rq of JObj [(k, v)] \<Rightarrow> k = ''refresh_token'' | _ \<Rightarrow> False))"

definition refresh_event :: "event \<Rightarrow> bool" where
  "refresh_event e = (case e of Fetch rq \<Rightarrow> asks_refresh rq | _ \<Rightarrow> False)"

lemma refresh_event_simps [simp]:
  "refresh_event (Fetch rq) = asks_refresh rq"
  "\<not> refresh_event (StoreGet k)" "\<not> refresh_event (StorePut k v)" "\<not> refresh_event (StoreDel k)"
  "\<not> refresh_event (JoinRefresh i)"
  by (simp_all add: refresh_event_def)

abbreviation steady :: "bool \<Rightarrow> ('x, 'a) handler \<Rightarrow> bool" where
  "steady \<equiv> calm refreshing refresh_event"

lemma steady_setters [calm_rules]:
  "steady own (setStatus a)" "steady own (setAccessToken v)" "steady own (setUser v)"
  "steady own (setSessionExpiredReason r)" "steady own (setIsLoggingOut c)" "steady own is_web"
  "steady own (modify (\<lambda>s. s\<lparr>isLoggingOutRef := c\<rparr>))"
  by (simp_all add: setter_defs, (rule calm_rules; simp add: refreshing_def)+)

lemma steady_reply [calm_rules]:
  "(\<And>v. r = RText v \<Longrightarrow> steady own (f v)) \<Longrightarrow> (\<And>e. r = RFail e \<Longrightarrow> steady own (g e)) \<Longrightarrow> steady own h \<Longrightarrow>
     steady own (case r of RText v \<Rightarrow> f v | RFail e \<Rightarrow> g e | _ \<Rightarrow> h)"
  by (cases r) simp_all

lemma steady_store [calm_rules]:
  "steady own (put_token s)" "steady own getStoredRefreshToken" "steady own clearStoredRefreshToken"
  by (auto simp: put_token_def getStoredRefreshToken_def clearStoredRefreshToken_def calm_def split: reply.split)

lemma steady_tokens [calm_rules]:
  "steady own (storeRefreshToken v)" "steady own hasStoredSession" "steady own drop_session"
  "steady own (markSessionExpired r)" "steady own beginReauth" "steady own (adopt_tokens v)"
  unfolding storeRefreshToken_def hasStoredSession_def drop_session_def markSessionExpired_def
    beginReauth_def adopt_tokens_def
  by (intro calm_rules)+

text \<open>The owner of the lock runs the promise's body; nobody else sends its request.\<close>

lemma steady_refresh_body: "steady True refresh_body"
  unfolding refresh_body_def by (intro calm_rules) (simp_all)

lemma steady_join [calm_rules]: "steady own (join_refresh i)"
  by (auto simp: join_refresh_def calm_def split: reply.split)

lemma steady_refresh [calm_rules]: "steady False refresh"
proof -
  have body: "prot refreshing refresh_event refresh_body
      (\<lambda>a. prot refreshing refresh_event (modify (\<lambda>s. s\<lparr>refreshInFlight := None\<rparr>)) (\<lambda>_ b s'. \<not> b) (\<lambda>_ b s'. \<not> b))
      (\<lambda>e. prot refreshing refresh_event (modify (\<lambda>s. s\<lparr>refreshInFlight := None\<rparr>)) (\<lambda>_ b s'. \<not> b) (\<lambda>_ b s'. \<not> b))
      True s" if "refreshing s" for s :: "'a auth_scheme"
    by (rule calmD [OF steady_refresh_body]) (simp add: that, simp_all add: modify_def refreshing_def)
  show ?thesis
    unfolding calm_def refresh_def
  proof (intro allI impI)
    fix s :: "'a auth_scheme"
    show "prot refreshing refresh_event
      (bind (gets refreshInFlight) (\<lambda>flight. case flight of Some i \<Rightarrow> join_refresh i
         | None \<Rightarrow> seq (modify (\<lambda>s. s\<lparr>refreshInFlight := Some (flights s), flights := Suc (flights s)\<rparr>))
            (try_finally refresh_body (modify (\<lambda>s. s\<lparr>refreshInFlight := None\<rparr>)))))
      (\<lambda>_ b s'. b = False \<and> (False \<longrightarrow> refreshing s')) (\<lambda>_ b s'. b = False \<and> (False \<longrightarrow> refreshing s')) False s"
    proof (cases "refreshInFlight s")
      case None
      let ?s = "s\<lparr>refreshInFlight := Some (flights s), flights := Suc (flights s)\<rparr>"
      have "refreshing ?s" "\<not> refreshing s" using None by (simp_all add: refreshing_def)
      then show ?thesis using body [of ?s] None
        by (simp add: prot_bind prot_seq prot_try_finally gets_def modify_def)
    next
      case (Some i)
      have "prot refreshing refresh_event (join_refresh i) (\<lambda>_ b s'. \<not> b) (\<lambda>_ b s'. \<not> b) False s"
        by (rule calmD [OF steady_join]) simp_all
      then show ?thesis using Some by (simp add: prot_bind gets_def)
    qed
  qed
qed

text \<open>Requests that are no refresh request.\<close>

lemma asks_refresh_other [simp]:
  "\<not> asks_refresh (bare_request m u c)"
  "\<not> asks_refresh (post_json (API_BASE_URL @ ''/auth/exchange'') v)"
  by (simp_all add: asks_refresh_def bare_request_def post_json_def)

lemma asks_refresh_headers [simp]:
  "asks_refresh (rq\<lparr>rq_headers := hs\<rparr>) = asks_refresh rq"
  "asks_refresh (authorized token rq) = asks_refresh rq"
  "asks_refresh (retry_request token rq) = asks_refresh rq"
  by (simp_all add: asks_refresh_def authorized_def retry_request_def)

lemma steady_api_fetch [calm_rules]: "\<not> asks_refresh rq \<Longrightarrow> steady False (api_fetch rq)"
  unfolding api_fetch_def by (intro calm_rules) simp_all

lemma steady_kratos [calm_rules]:
  "steady own (ui_message a b d)" "steady own (node_value nodes name)" "steady own (opt_slice v)"
  "steady own (csrf_of c ui)" "steady own (extractLoginErrorMessage d)"
  "steady own (extractRegistrationErrorMessage d)"
  unfolding ui_message_def node_value_def opt_slice_def csrf_of_def extractLoginErrorMessage_def
    extractRegistrationErrorMessage_def
  by (intro calm_rules)+

lemma form_body_no_refresh:
  "b \<noteq> [] \<Longrightarrow> fst (hd b) \<noteq> ''refresh_token'' \<Longrightarrow> rq_body rq = JObj (b @ c) \<Longrightarrow> \<not> asks_refresh rq"
  by (cases b) (auto simp: asks_refresh_def split: list.splits)

lemma steady_submit_form [calm_rules]:
  "b \<noteq> [] \<Longrightarrow> fst (hd b) \<noteq> ''refresh_token'' \<Longrightarrow> steady False (submit_form web ui csrf b)"
  unfolding submit_form_def by (intro calm_rules form_body_no_refresh [of b]; simp)

lemma steady_create_flow [calm_rules]: "steady False (create_flow web kind)"
  unfolding create_flow_def by (intro calm_rules) simp_all

lemma steady_exchange [calm_rules]: "steady False (exchangeSessionToken v)"
  unfolding exchangeSessionToken_def by (intro calm_rules) simp_all

lemma steady_hydrate [calm_rules]: "steady False hydrateWebKratosSession"
  unfolding hydrateWebKratosSession_def by (intro calm_rules) simp_all

lemma steady_login [calm_rules]: "steady False (login email password)"
  unfolding login_def native_login_result_def start_login_failed_def by (intro calm_rules) simp_all

lemma steady_register [calm_rules]: "steady False (register url_flow inp)"
  unfolding register_def register_body_def native_register_result_def register_web_result_def by (intro calm_rules) simp_all

lemma steady_api_logout [calm_rules]: "steady False (api_logout token)"
  unfolding api_logout_def by (intro calm_rules) (simp add: asks_refresh_def API_BASE_URL_def)

lemma steady_browser_logout [calm_rules]: "steady False browser_logout"
  unfolding browser_logout_def by (intro calm_rules) simp_all

lemma steady_logout [calm_rules]: "steady False logout"
  unfolding logout_def logout_body_def by (intro calm_rules) (simp_all add: refreshing_def)

lemma steady_web_hydration [calm_rules]: "steady False (web_hydration pathname)"
  unfolding web_hydration_def by (intro calm_rules)

text \<open>
  The handlers of the session; the one open entry, \<open>fetch\<close> as the screens call it, does not send
  a refresh request of its own.
\<close>

definition refresh_by_session :: "('x, unit) handler \<Rightarrow> bool" where
  "refresh_by_session p = (session_task p \<and> (\<forall>rq. p = task (api_fetch rq) \<longrightarrow> \<not> asks_refresh rq))"

lemma steady_task: "steady False p \<Longrightarrow> steady False (task p)"
  unfolding task_def by (intro calm_rules)

lemma steady_session_task:
  assumes "refresh_by_session p"
  shows "steady False p"
  using assms unfolding refresh_by_session_def
  by (auto elim!: session_task.cases intro!: steady_task calm_rules simp: restoreSession_def)

interpretation single: flight_lock refreshing refresh_event refresh_by_session
  by unfold_locales (rule steady_session_task)

text \<open>
  C28. Single flight. However the session's handlers interleave, at most one of them is waiting
  for the answer to a refresh request, and while one is, \<open>refreshInFlight\<close> is set, so that every
  other caller joins it.
\<close>

theorem refresh_single_flight:
  assumes "pool_reach refresh_by_session (initial_auth b) pl"
    and "i < length (tasks pl)" "j < length (tasks pl)"
    and "awaits refresh_event (tasks pl ! i)" "awaits refresh_event (tasks pl ! j)"
  shows "i = j \<and> refreshInFlight (shared pl) \<noteq> None"
  using single.mutual_exclusion [OF assms(1) _ assms(2-5)]
  by (simp add: refreshing_def initial_auth_def)

lemma task_refresh_no_fetch: "task refresh = task (api_fetch rq) \<Longrightarrow> \<not> asks_refresh rq"
  by (auto simp: task_def refresh_def gets_def api_fetch_def fetch_def asks_refresh_def seq_def isAuthEndpoint_def
      API_BASE_URL_def)

text \<open>Two refreshes at once: the second joins, one request is under way.\<close>

definition two_refreshes :: "(auth, unit) pool" where
  "two_refreshes = pool_exec [Start (task refresh), Start (task refresh), Resume 0 (RText (Some ''rt''))]
     \<lparr>tasks = [], shared = initial_auth False, history = []\<rparr>"

lemma refresh_single_flight_witness:
  "length (tasks two_refreshes) = 2 \<and> awaits refresh_event (tasks two_refreshes ! 0)
     \<and> refreshInFlight (shared two_refreshes) \<noteq> None \<and> \<not> awaits refresh_event (tasks two_refreshes ! 1)"
proof -
  have reach: "pool_reach refresh_by_session (initial_auth False) two_refreshes"
    unfolding two_refreshes_def
    by (rule pool_exec_reach [OF pool_init])
      (auto simp: refresh_by_session_def task_refresh_no_fetch intro: session_task.intros)
  have len: "length (tasks two_refreshes) = 2" and first: "awaits refresh_event (tasks two_refreshes ! 0)"
    by code_simp+
  have range: "0 < length (tasks two_refreshes)" "1 < length (tasks two_refreshes)" using len by simp_all
  show ?thesis
    using len first refresh_single_flight [OF reach range(1) range(1) first first]
      refresh_single_flight [OF reach range first] by auto
qed

end
