(* ===== verification/Rendering.thy ===== *)
theory Rendering
  imports JsAsync
begin

text \<open>
  A handler on a page that is rendered while it waits. \<open>run_in w c\<close> runs a handler like \<open>run w\<close>, but at
  every suspension the page is brought up to date by \<open>c\<close>: React renders what the state asks for,
  and a component that is no longer shown loses its own state. \<open>leaves R p\<close> says that \<open>p\<close> changes
  nothing of what \<open>R\<close> observes, on any such page.
\<close>

section \<open>Running a handler on a page\<close>

primrec run_in :: "world \<Rightarrow> ('s \<Rightarrow> 's) \<Rightarrow> ('s, 'a) prog \<Rightarrow> 's \<Rightarrow> trace \<Rightarrow> (exn + 'a) \<times> 's \<times> trace" where
  "run_in w c (Return a) s t = (Inr a, s, t)"
| "run_in w c (Raise e) s t = (Inl e, s, t)"
| "run_in w c (Get g) s t = run_in w c (g s) s t"
| "run_in w c (Put s' p) s t = run_in w c p s' t"
| "run_in w c (Emit e p) s t = run_in w c p s (t @ [e])"
| "run_in w c (Await e k) s t = run_in w c (k (w t e)) (c s) (t @ [e])"

lemma run_in_id: "run_in w (\<lambda>s. s) p s t = run w p s t"
  by (induction p arbitrary: s t) simp_all

lemma run_in_bind [run_in_rules]:
  "run_in w c (bind p f) s t =
     (case run_in w c p s t of (Inl e, s', t') \<Rightarrow> (Inl e, s', t') | (Inr a, s', t') \<Rightarrow> run_in w c (f a) s' t')"
  by (induction p arbitrary: s t) (auto split: prod.splits sum.splits)

lemma run_in_seq [run_in_rules]:
  "run_in w c (seq p q) s t =
     (case run_in w c p s t of (Inl e, s', t') \<Rightarrow> (Inl e, s', t') | (Inr a, s', t') \<Rightarrow> run_in w c q s' t')"
  by (simp add: seq_def run_in_bind)

lemma run_in_try_catch [run_in_rules]:
  "run_in w c (try_catch p h) s t =
     (case run_in w c p s t of (Inl e, s', t') \<Rightarrow> run_in w c (h e) s' t' | (Inr a, s', t') \<Rightarrow> (Inr a, s', t'))"
  by (induction p arbitrary: s t) (auto split: prod.splits sum.splits)

lemma run_in_try_finally [run_in_rules]:
  "run_in w c (try_finally p d) s t =
     (case run_in w c p s t of (r, s', t') \<Rightarrow>
        (case run_in w c d s' t' of (Inl e, s'', t'') \<Rightarrow> (Inl e, s'', t'') | (Inr u, s'', t'') \<Rightarrow> (r, s'', t'')))"
  by (induction p arbitrary: s t) (auto simp: run_in_bind split: prod.splits sum.splits)

lemma run_in_basic [run_in_rules]:
  "run_in w c skip s t = (Inr (), s, t)"
  "run_in w c (gets f) s t = (Inr (f s), s, t)"
  "run_in w c (modify g) s t = (Inr (), g s, t)"
  "run_in w c (emit ev) s t = (Inr (), s, t @ [ev])"
  "run_in w c (do_if b u) s t = (if b then run_in w c u s t else (Inr (), s, t))"
  by (simp_all add: skip_def gets_def modify_def emit_def do_if_def)

lemma run_in_fetch [run_in_rules]:
  "run_in w c (fetch rq) s t =
     ((case w t (Fetch rq) of RResp x \<Rightarrow> Inr x | RFail e \<Rightarrow> Inl e | _ \<Rightarrow> Inl TypeErr), c s, t @ [Fetch rq])"
  by (simp add: fetch_def split: reply.split)

section \<open>Handlers that leave a part of the state alone\<close>

definition leaves :: "('s \<Rightarrow> 'b) \<Rightarrow> ('s, 'a) prog \<Rightarrow> bool" where
  "leaves R p = (\<forall>w c s t. (\<forall>s'. R s' = R s \<longrightarrow> R (c s') = R s') \<longrightarrow> R (fst (snd (run_in w c p s t))) = R s)"

lemma leaves_inD:
  "leaves R p \<Longrightarrow> (\<And>s'. R s' = R s \<Longrightarrow> R (c s') = R s') \<Longrightarrow> run_in w c p s t = (r, s', t') \<Longrightarrow> R s' = R s"
  unfolding leaves_def by (metis fst_conv snd_conv)

lemma leavesD: "leaves R p \<Longrightarrow> run w p s t = (r, s', t') \<Longrightarrow> R s' = R s"
  using leaves_inD [where c = "\<lambda>s. s"] by (metis run_in_id)

lemma leavesI:
  "(\<And>w c s t r s' t'. (\<And>u. R u = R s \<Longrightarrow> R (c u) = R u) \<Longrightarrow> run_in w c p s t = (r, s', t') \<Longrightarrow> R s' = R s) \<Longrightarrow>
     leaves R p"
  unfolding leaves_def by (metis prod.collapse)

lemma leaves_prims [leaves_rules]:
  "leaves R (Return a)" "leaves R (Raise e)" "leaves R skip" "leaves R (emit ev)" "leaves R (gets f)"
  by (simp_all add: leaves_def run_in_rules)

lemma leaves_modify [leaves_rules]: "(\<And>s. R (f s) = R s) \<Longrightarrow> leaves R (modify f)"
  by (simp add: leaves_def run_in_rules)

lemma leaves_Await [leaves_rules]:
  assumes "\<And>r. leaves R (k r)"
  shows "leaves R (Await e k)"
proof (rule leavesI)
  fix w c s t r s' t'
  assume c: "\<And>u. R u = R s \<Longrightarrow> R (c u) = R u" and rn: "run_in w c (Await e k) s t = (r, s', t')"
  then have cs: "R (c s) = R s" by blast
  moreover have k: "run_in w c (k (w t e)) (c s) (t @ [e]) = (r, s', t')" using rn by simp
  ultimately have "R s' = R (c s)" by (intro leaves_inD [OF assms _ k]) (simp add: c)
  with cs show "R s' = R s" by simp
qed

lemma leaves_bind [leaves_rules]:
  assumes "leaves R p" "\<And>a. leaves R (f a)"
  shows "leaves R (bind p f)"
proof (rule leavesI)
  fix w c s t r s' t'
  assume c: "\<And>u. R u = R s \<Longrightarrow> R (c u) = R u" and rn: "run_in w c (bind p f) s t = (r, s', t')"
  obtain r1 s1 t1 where p: "run_in w c p s t = (r1, s1, t1)" by (metis prod.collapse)
  then have s1: "R s1 = R s" using leaves_inD [OF assms(1), of s c] c by blast
  show "R s' = R s"
  proof (cases r1)
    case (Inl e)
    with rn p s1 show ?thesis by (simp add: run_in_bind)
  next
    case (Inr a)
    with rn p have "run_in w c (f a) s1 t1 = (r, s', t')" by (simp add: run_in_bind)
    then have "R s' = R s1" using leaves_inD [OF assms(2), of s1 c] c s1 by metis
    with s1 show ?thesis by simp
  qed
qed

lemma leaves_seq [leaves_rules]: "leaves R p \<Longrightarrow> leaves R q \<Longrightarrow> leaves R (seq p q)"
  unfolding seq_def by (rule leaves_bind)

text \<open>The two \<open>try\<close> statements, by the run of their bodies.\<close>

lemma leaves_try_catch [leaves_rules]:
  assumes "leaves R p" "\<And>e. leaves R (h e)"
  shows "leaves R (try_catch p h)"
proof (rule leavesI)
  fix w c s t r s' t'
  assume c: "\<And>u. R u = R s \<Longrightarrow> R (c u) = R u" and rn: "run_in w c (try_catch p h) s t = (r, s', t')"
  obtain r1 s1 t1 where p: "run_in w c p s t = (r1, s1, t1)" by (metis prod.collapse)
  then have s1: "R s1 = R s" using leaves_inD [OF assms(1), of s c] c by blast
  show "R s' = R s"
  proof (cases r1)
    case (Inl e)
    with rn p have "run_in w c (h e) s1 t1 = (r, s', t')" by (simp add: run_in_try_catch)
    then have "R s' = R s1" using leaves_inD [OF assms(2), of s1 c] c s1 by metis
    with s1 show ?thesis by simp
  next
    case (Inr a)
    with rn p s1 show ?thesis by (simp add: run_in_try_catch)
  qed
qed

lemma leaves_try_finally [leaves_rules]:
  assumes "leaves R p" "leaves R d"
  shows "leaves R (try_finally p d)"
proof (rule leavesI)
  fix w c s t r s' t'
  assume c: "\<And>u. R u = R s \<Longrightarrow> R (c u) = R u" and rn: "run_in w c (try_finally p d) s t = (r, s', t')"
  obtain r1 s1 t1 where p: "run_in w c p s t = (r1, s1, t1)" by (metis prod.collapse)
  then have s1: "R s1 = R s" using leaves_inD [OF assms(1), of s c] c by blast
  obtain r2 s2 t2 where d: "run_in w c d s1 t1 = (r2, s2, t2)" by (metis prod.collapse)
  then have "R s2 = R s1" using leaves_inD [OF assms(2), of s1 c] c s1 by metis
  moreover have "s' = s2" using rn p d by (auto simp: run_in_try_finally split: sum.splits)
  ultimately show "R s' = R s" using s1 by simp
qed

lemma leaves_cases [leaves_rules]:
  "(b \<Longrightarrow> leaves R p) \<Longrightarrow> (\<not> b \<Longrightarrow> leaves R q) \<Longrightarrow> leaves R (if b then p else q)"
  "(b \<Longrightarrow> leaves R u) \<Longrightarrow> leaves R (do_if b u)"
  "leaves R (g v) \<Longrightarrow> leaves R (let x = v in g x)"
  by (simp_all add: do_if_def leaves_prims)

lemma leaves_option [leaves_rules]:
  "leaves R p \<Longrightarrow> (\<And>a. leaves R (q a)) \<Longrightarrow> leaves R (case x of None \<Rightarrow> p | Some a \<Rightarrow> q a)"
  by (cases x) simp_all

lemma leaves_sum [leaves_rules]:
  "(\<And>e. leaves R (p e)) \<Longrightarrow> (\<And>a. leaves R (q a)) \<Longrightarrow> leaves R (case x of Inl e \<Rightarrow> p e | Inr a \<Rightarrow> q a)"
  by (cases x) simp_all

lemma leaves_library [leaves_rules]:
  "leaves R (fetch rq)" "leaves R (res_json x)" "leaves R (prop_of v k)" "leaves R (need_slice v)"
  unfolding fetch_def res_json_def prop_of_def need_slice_def
  by (auto intro!: leaves_prims leaves_Await split: reply.split option.split)

end
