(* ===== verification/Screens.thy ===== *)
theory Screens
  imports AuthSafety Rendering
begin

text \<open>
  What the screens share. A screen's state extends the session's, so the session's handlers run
  on it as they are; they leave the extension alone (\<open>leaves auth.more\<close>), which is how a screen's
  own properties hold whatever the session does meanwhile.
\<close>

section \<open>Postconditions that pass calls of the session\<close>

lemma leaves_refresh_result [leaves_rules]:
  "leaves R p \<Longrightarrow> (\<And>v. leaves R (q v)) \<Longrightarrow> leaves R (case r of RefreshFail \<Rightarrow> p | RefreshOk v \<Rightarrow> q v)"
  by (cases r) simp_all

text \<open>A call that may do anything but touch the observed part.\<close>

lemma wp_leaves:
  "leaves R p \<Longrightarrow> (\<And>a s' t'. R s' = R s \<Longrightarrow> Q a s' t') \<Longrightarrow> (\<And>e s' t'. R s' = R s \<Longrightarrow> E e s' t') \<Longrightarrow>
     wp w p Q E s t"
  unfolding wp_def by (auto split: prod.splits sum.splits dest: leavesD)

text \<open>The rules by which a postcondition passes calls of the session.\<close>

lemma wp_bind_leaves:
  "leaves R p \<Longrightarrow> (\<And>a s' t'. R s' = R s \<Longrightarrow> wp w (f a) Q E s' t') \<Longrightarrow>
     (\<And>e s' t'. R s' = R s \<Longrightarrow> E e s' t') \<Longrightarrow> wp w (bind p f) Q E s t"
  unfolding wp_bind by (rule wp_leaves)

lemma wp_seq_leaves:
  "leaves R p \<Longrightarrow> (\<And>s' t'. R s' = R s \<Longrightarrow> wp w q Q E s' t') \<Longrightarrow>
     (\<And>e s' t'. R s' = R s \<Longrightarrow> E e s' t') \<Longrightarrow> wp w (seq p q) Q E s t"
  unfolding wp_seq by (rule wp_leaves)

lemma wp_cases_I:
  "(b \<Longrightarrow> wp w p Q E s t) \<Longrightarrow> (\<not> b \<Longrightarrow> wp w q Q E s t) \<Longrightarrow> wp w (if b then p else q) Q E s t"
  "wp w (g v) Q E s t \<Longrightarrow> wp w (let x = v in g x) Q E s t"
  by simp_all

section \<open>The session's handlers leave the screens alone\<close>

abbreviation off_screen :: "('x auth_scheme, 'a) prog \<Rightarrow> bool" where
  "off_screen \<equiv> leaves auth.more"

lemma off_screen_setters [leaves_rules]:
  "off_screen (setStatus a)" "off_screen (setAccessToken v)" "off_screen (setUser v)"
  "off_screen (setSessionExpiredReason r)" "off_screen (setIsLoggingOut c)" "off_screen is_web"
  unfolding setter_defs by (rule leaves_rules; simp)+

lemma off_screen_store [leaves_rules]:
  "off_screen (put_token s)" "off_screen getStoredRefreshToken" "off_screen clearStoredRefreshToken"
  unfolding put_token_def getStoredRefreshToken_def clearStoredRefreshToken_def
  by (auto intro!: leaves_rules split: reply.split)

lemma off_screen_tokens [leaves_rules]:
  "off_screen (storeRefreshToken v)" "off_screen hasStoredSession" "off_screen drop_session"
  "off_screen (markSessionExpired r)" "off_screen beginReauth" "off_screen (adopt_tokens v)"
  unfolding storeRefreshToken_def hasStoredSession_def drop_session_def markSessionExpired_def
    beginReauth_def adopt_tokens_def
  by (intro leaves_rules)+

lemma off_screen_refresh [leaves_rules]: "off_screen refresh"
  unfolding refresh_def refresh_body_def join_refresh_def
  by (intro leaves_rules) (auto intro!: leaves_rules split: reply.split)

lemma off_screen_api_fetch [leaves_rules]: "off_screen (api_fetch rq)"
  unfolding api_fetch_def by (intro leaves_rules)

lemma off_screen_hydrate [leaves_rules]: "off_screen hydrateWebKratosSession"
  unfolding hydrateWebKratosSession_def by (intro leaves_rules)

lemma off_screen_kratos [leaves_rules]:
  "leaves R (ui_message a b d)" "leaves R (node_value nodes name)" "leaves R (opt_slice v)"
  "leaves R (csrf_of c ui)"
  unfolding csrf_of_def ui_message_def node_value_def opt_slice_def
  by (auto intro!: leaves_rules split: sum.split)

lemma off_screen_forms [leaves_rules]:
  "off_screen (submit_form web ui csrf b)" "off_screen (create_flow web kind)"
  "off_screen (exchangeSessionToken v)"
  unfolding submit_form_def create_flow_def exchangeSessionToken_def by (intro leaves_rules)+

lemma off_screen_login [leaves_rules]: "off_screen (login email password)"
  unfolding login_def native_login_result_def start_login_failed_def extractLoginErrorMessage_def by (intro leaves_rules)

lemma off_screen_register [leaves_rules]: "off_screen (register url_flow inp)"
  unfolding register_def register_body_def native_register_result_def register_web_result_def extractRegistrationErrorMessage_def
  by (intro leaves_rules)

lemma off_screen_logout [leaves_rules]: "off_screen logout"
  unfolding logout_def logout_body_def browser_logout_def api_logout_def by (intro leaves_rules; simp)

section \<open>What the screens make of an answer\<close>

text \<open>\<open>v ?? d\<close> on values.\<close>

definition js_coalesce :: "jsval \<Rightarrow> jsval \<Rightarrow> jsval" where
  "js_coalesce v d = (if nullish v then d else v)"

text \<open>\<open>text ? JSON.parse(text) : null\<close>\<close>

definition parsed_or_null :: "response \<Rightarrow> ('s, jsval) prog" where
  "parsed_or_null res = (if rs_text res = [] then Return JNull else res_json res)"

text \<open>
  The message of a refused request: the text, or the status, unless the text is a JSON document with
  an \<open>error\<close> that is not missing.
\<close>

definition refusal_text :: "response \<Rightarrow> string" where
  "refusal_text res =
     (let err = (if rs_text res = [] then ''HTTP '' @ int_string (rs_status res) else rs_text res) in
      case rs_json res of
        None \<Rightarrow> err
      | Some j \<Rightarrow> (if nullish (jget j ''error'') then err else js_string (jget j ''error'')))"

definition alert :: "string \<Rightarrow> string \<Rightarrow> ('s, unit) prog" where
  "alert title message = emit (Alert title message)"

lemma keeps_answers [keeps_rules]: "keeps (parsed_or_null res)" "keeps (alert a b)"
  unfolding parsed_or_null_def alert_def by (intro keeps_rules)+

lemma leaves_answers [leaves_rules]: "leaves R (parsed_or_null res)" "leaves R (alert a b)"
  unfolding parsed_or_null_def alert_def by (intro leaves_rules)+

section \<open>What a screen shows\<close>

text \<open>
  A rendered screen is the list of its texts, fields and buttons in order; layout and colours are
  left out. A field has its label, its value and whether it can be edited; a button its caption
  and whether it can be pressed.
\<close>

datatype element =
    Caption string
  | Notice string
  | Spinner
  | Field string string bool
  | Button string bool

fun reacts :: "element \<Rightarrow> bool" where
  "reacts (Field l v e) = e"
| "reacts (Button l e) = e"
| "reacts _ = False"

text \<open>\<open>cond && element\<close>, and the notice for a text that may be missing or empty.\<close>

definition show_if :: "bool \<Rightarrow> element list \<Rightarrow> element list" where
  "show_if b es = (if b then es else [])"

definition notice_of :: "string option \<Rightarrow> element list" where
  "notice_of x = show_if (or_default x [] \<noteq> []) [Notice (or_default x [])]"

text \<open>A button that shows a spinner instead of its caption while busy.\<close>

definition busy_button :: "bool \<Rightarrow> string \<Rightarrow> element list" where
  "busy_button busy label = Button label (\<not> busy) # show_if busy [Spinner]"

lemma reacts_show_if: "x \<in> set (show_if b es) \<Longrightarrow> b \<and> x \<in> set es"
  by (simp add: show_if_def split: if_splits)

lemma notice_of_silent: "x \<in> set (notice_of m) \<Longrightarrow> \<not> reacts x"
  by (auto simp: notice_of_def dest: reacts_show_if)

end
