(* ===== verification/Recovery.thy ===== *)
theory Recovery
  imports Screens
begin

text \<open>
  Password recovery: the reducer of \<open>src/auth/recoveryStateMachine.ts\<close> and the screen
  \<open>screens/RecoveryScreen.tsx\<close>. In a browser the screen follows a Kratos flow (load, send the
  e-mail, submit the code); on a device it only asks for the e-mail.
\<close>

section \<open>The reducer\<close>

text \<open>A flow's identifier is what its JSON document holds under \<open>id\<close>.\<close>

datatype recovery_ui =
    RIdle
  | RBootstrapping
  | RLoading
  | REnteringEmail jsval bool
  | RSubmittingEmail jsval
  | REmailSent jsval "string option" bool
  | RSubmittingCode jsval
  | RRestarting
  | RExpired "string option"
  | RComplete
  | RNativeApi

datatype recovery_action =
    BOOTSTRAP_BROWSER_FLOW
  | LOAD_BROWSER_FLOW
  | ENTER_EMAIL jsval bool
  | SUBMIT_EMAIL jsval
  | EMAIL_SENT jsval "string option" bool
  | SUBMIT_CODE jsval
  | FLOW_COMPLETE
  | FLOW_EXPIRED "string option"
  | RESTART_FLOW
  | USE_NATIVE_API_RECOVERY
  | RESET

fun recoveryReducer :: "recovery_ui \<Rightarrow> recovery_action \<Rightarrow> recovery_ui" where
  "recoveryReducer state BOOTSTRAP_BROWSER_FLOW = RBootstrapping"
| "recoveryReducer state LOAD_BROWSER_FLOW = RLoading"
| "recoveryReducer state (ENTER_EMAIL flowId canResend) = REnteringEmail flowId canResend"
| "recoveryReducer state (SUBMIT_EMAIL flowId) = RSubmittingEmail flowId"
| "recoveryReducer state (EMAIL_SENT flowId email canResend) = REmailSent flowId email canResend"
| "recoveryReducer state (SUBMIT_CODE flowId) = RSubmittingCode flowId"
| "recoveryReducer state FLOW_COMPLETE = RComplete"
| "recoveryReducer state (FLOW_EXPIRED reason) = RExpired reason"
| "recoveryReducer state RESTART_FLOW = RRestarting"
| "recoveryReducer state USE_NATIVE_API_RECOVERY = RNativeApi"
| "recoveryReducer state RESET = RIdle"

section \<open>Addresses\<close>

text \<open>
  \<open>/\S+@\S+\.\S+/\<close>, searched anywhere: \<open>mail_host seen\<close> looks for the dot behind the at sign with
  at least one character before and behind it, \<open>mail_at prev\<close> for the at sign.
\<close>

fun mail_host :: "bool \<Rightarrow> string \<Rightarrow> bool" where
  "mail_host seen [] = False"
| "mail_host seen (c # cs) = (\<not> js_ws c
     \<and> (seen \<and> c = CHR ''.'' \<and> (case cs of [] \<Rightarrow> False | d # ds \<Rightarrow> \<not> js_ws d) \<or> mail_host True cs))"

fun mail_at :: "bool \<Rightarrow> string \<Rightarrow> bool" where
  "mail_at prev [] = False"
| "mail_at prev (c # cs) = (prev \<and> c = CHR ''@'' \<and> mail_host False cs \<or> mail_at (\<not> js_ws c) cs)"

definition isValidEmail :: "string \<Rightarrow> bool" where
  "isValidEmail value = (let email = trim value in email \<noteq> [] \<and> mail_at False email)"

text \<open>\<open>encodeURIComponent\<close>: all but the unreserved characters become percent-encoded UTF-8.\<close>

definition unreserved :: "char \<Rightarrow> bool" where
  "unreserved c = (let n = of_char c :: nat in
     (48 \<le> n \<and> n \<le> 57) \<or> (65 \<le> n \<and> n \<le> 90) \<or> (97 \<le> n \<and> n \<le> 122)
     \<or> c \<in> set ''-_.!~*()'' \<or> n = 39)"

definition encode_char :: "char \<Rightarrow> string" where
  "encode_char c = (let n = of_char c :: nat in
     if unreserved c then [c]
     else if n < 128 then percent n
     else percent (192 + n div 64) @ percent (128 + n mod 64))"

definition encodeURIComponent :: "string \<Rightarrow> string" where
  "encodeURIComponent s = concat (map encode_char s)"

section \<open>Reading a recovery flow\<close>

definition flow_nodes :: "jsval \<Rightarrow> ('s, jsval) prog" where
  "flow_nodes flow = bind (prop_of flow ''ui'') (\<lambda>ui. prop_of ui ''nodes'')"

definition missing_recovery_csrf :: exn where
  "missing_recovery_csrf = AuthErr ''missing_csrf_token''
     ''Unable to continue password recovery. Please restart recovery.'' None"

definition extractCsrfToken :: "jsval \<Rightarrow> ('s, string) prog" where
  "extractCsrfToken flow =
     bind (flow_nodes flow) (\<lambda>nodes.
     if nullish nodes then Raise TypeErr
     else
       bind (node_value nodes ''csrf_token'') (\<lambda>value.
       if \<not> is_str value \<or> the_str value = [] then Raise missing_recovery_csrf
       else Return (the_str value)))"

text \<open>\<open>nodes.some(...)\<close> stops at the first match.\<close>

fun some_email_node :: "jsval list \<Rightarrow> exn + bool" where
  "some_email_node [] = Inr False"
| "some_email_node (n # ns) =
     (if nullish n then Inl TypeErr
      else if jget (jget n ''attributes'') ''name'' = JStr ''email''
           \<and> jget (jget n ''attributes'') ''type'' = JStr ''submit'' then Inr True
      else some_email_node ns)"

definition hasRecoveryEmailNode :: "jsval \<Rightarrow> ('s, bool) prog" where
  "hasRecoveryEmailNode flow =
     bind (flow_nodes flow) (\<lambda>nodes.
     if is_arr nodes
     then (case some_email_node (the_arr nodes) of Inl e \<Rightarrow> Raise e | Inr b \<Rightarrow> Return b)
     else Raise TypeErr)"

definition mapBrowserFlowToAction :: "jsval \<Rightarrow> string option \<Rightarrow> ('s, recovery_action) prog" where
  "mapBrowserFlowToAction flow email =
     bind (prop_of flow ''state'') (\<lambda>state.
     if state = JStr ''choose_method'' then Return (ENTER_EMAIL (jget flow ''id'') False)
     else if state = JStr ''sent_email'' then
       bind (hasRecoveryEmailNode flow) (\<lambda>canResend.
       Return (EMAIL_SENT (jget flow ''id'') email canResend))
     else Return (FLOW_EXPIRED (Some (''Unhandled recovery state: '' @ js_string state))))"

fun find_redirect :: "jsval list \<Rightarrow> exn + string option" where
  "find_redirect [] = Inr None"
| "find_redirect (item # items) =
     (if nullish item then Inl TypeErr
      else if jget item ''action'' = JStr ''redirect_browser_to'' \<and> is_str (jget item ''redirect_browser_to'')
      then Inr (Some (the_str (jget item ''redirect_browser_to'')))
      else find_redirect items)"

definition getContinueWithRedirect :: "jsval \<Rightarrow> ('s, string option) prog" where
  "getContinueWithRedirect response =
     (if \<not> is_object response then Raise TypeErr
      else if has_key response ''redirect_browser_to'' then
        Return (if is_str (jget response ''redirect_browser_to'')
                then Some (the_str (jget response ''redirect_browser_to'')) else None)
      else if \<not> has_key response ''continue_with'' \<or> \<not> is_arr (jget response ''continue_with'') then Return None
      else (case find_redirect (the_arr (jget response ''continue_with'')) of
              Inl e \<Rightarrow> Raise e | Inr r \<Rightarrow> Return r))"

section \<open>The screen\<close>

record recovery = auth +
  uiState :: recovery_ui
  protocolFlow :: jsval
  recoveryEmail :: string
  recoveryCode :: string
  recoveryError :: "string option"
  recoveryInfo :: "string option"
  browserFlowId :: "string option"

definition dispatch :: "recovery_action \<Rightarrow> (recovery, unit) prog" where
  "dispatch a = modify (\<lambda>s. s\<lparr>uiState := recoveryReducer (uiState s) a\<rparr>)"

definition setRecoveryError :: "string option \<Rightarrow> (recovery, unit) prog" where
  "setRecoveryError v = modify (\<lambda>s. s\<lparr>recoveryError := v\<rparr>)"

definition setRecoveryInfo :: "string option \<Rightarrow> (recovery, unit) prog" where
  "setRecoveryInfo v = modify (\<lambda>s. s\<lparr>recoveryInfo := v\<rparr>)"

definition setProtocolFlow :: "jsval \<Rightarrow> (recovery, unit) prog" where
  "setProtocolFlow v = modify (\<lambda>s. s\<lparr>protocolFlow := v\<rparr>)"

fun ui_busy :: "recovery_ui \<Rightarrow> bool" where
  "ui_busy RBootstrapping = True"
| "ui_busy RLoading = True"
| "ui_busy (RSubmittingEmail i) = True"
| "ui_busy (RSubmittingCode i) = True"
| "ui_busy RRestarting = True"
| "ui_busy _ = False"

definition loadBrowserRecoveryFlow :: "string \<Rightarrow> (recovery, unit) prog" where
  "loadBrowserRecoveryFlow flowId =
     try_catch
       (bind (api_fetch (bare_request ''GET''
                (KRATOS_BASE_URL @ ''/self-service/recovery/flows?id='' @ encodeURIComponent flowId) ''include''))
         (\<lambda>response.
          if \<not> rs_ok response
          then dispatch (FLOW_EXPIRED (Some (''Flow load failed: '' @ int_string (rs_status response))))
          else
            bind (res_json response) (\<lambda>data.
            seq (setProtocolFlow data)
           (bind (mapBrowserFlowToAction data None) dispatch))))
       (\<lambda>e. dispatch (FLOW_EXPIRED (Some (exn_message e))))"

definition start_browser_recovery :: "(recovery, unit) prog" where
  "start_browser_recovery = emit (AssignLocation (KRATOS_BASE_URL @ ''/self-service/recovery/browser''))"

text \<open>The effect on mounting.\<close>

definition recovery_mount :: "(recovery, unit) prog" where
  "recovery_mount =
     bind is_web (\<lambda>web.
     if \<not> web then dispatch USE_NATIVE_API_RECOVERY
     else
       bind (gets browserFlowId) (\<lambda>fid.
       if or_default fid [] = [] then seq (dispatch BOOTSTRAP_BROWSER_FLOW) start_browser_recovery
       else seq (dispatch LOAD_BROWSER_FLOW) (loadBrowserRecoveryFlow (or_default fid []))))"

definition form_headers :: "(string \<times> string) list" where
  "form_headers = [(''Accept'', ''application/json''), (''Content-Type'', ''application/json; charset=utf-8'')]"

definition recovery_post :: "jsval \<Rightarrow> string \<Rightarrow> (string \<times> jsval) list \<Rightarrow> request" where
  "recovery_post action cred body = \<lparr>rq_url = js_string action, rq_method = ''POST'',
     rq_headers = form_headers, rq_credentials = cred, rq_body = JObj body\<rparr>"

text \<open>\<open>response.json().catch(() => null)\<close>\<close>

definition json_or_null :: "response \<Rightarrow> jsval" where
  "json_or_null res = coalesce (rs_json res) JNull"

definition no_longer_valid :: "response \<Rightarrow> recovery_action" where
  "no_longer_valid res =
     FLOW_EXPIRED (Some (''Recovery flow is no longer valid: '' @ int_string (rs_status res)))"

definition submitBrowserRecoveryEmail :: "string \<Rightarrow> (recovery, unit) prog" where
  "submitBrowserRecoveryEmail normalizedEmail =
     bind (gets protocolFlow) (\<lambda>flow.
     if \<not> truthy flow then dispatch (FLOW_EXPIRED (Some ''Recovery flow is missing.''))
     else
       bind (extractCsrfToken flow) (\<lambda>csrfToken.
       seq (dispatch (SUBMIT_EMAIL (jget flow ''id'')))
      (bind (prop_of flow ''ui'') (\<lambda>ui.
       bind (prop_of ui ''action'') (\<lambda>action.
       bind (api_fetch (recovery_post action ''include''
               [(''method'', JStr ''code''), (''email'', JStr normalizedEmail), (''csrf_token'', JStr csrfToken)]))
         (\<lambda>response.
       if rs_status response = 403 \<or> rs_status response = 410 then dispatch (no_longer_valid response)
       else
         (let data = json_or_null response in
          if \<not> truthy data then dispatch (FLOW_EXPIRED (Some ''Recovery response was empty.''))
          else
            seq (setProtocolFlow data)
           (seq (setRecoveryInfo (Some ''If that email exists, you'll receive a recovery code shortly.''))
           (bind (mapBrowserFlowToAction data (Some normalizedEmail)) dispatch)))))))))"

definition instructions_info :: string where
  "instructions_info = ''If that email exists, you'll receive password reset instructions shortly.''"

definition submitNativeRecoveryEmail :: "string \<Rightarrow> (recovery, unit) prog" where
  "submitNativeRecoveryEmail normalizedEmail =
     bind (api_fetch (bare_request ''GET'' (KRATOS_BASE_URL @ ''/self-service/recovery/api'') []))
       (\<lambda>flowResponse.
     if \<not> rs_ok flowResponse
     then Raise (AuthErr ''create_recovery_flow_failed''
                   ''Unable to start password recovery. Please try again.'' None)
     else
       bind (res_json flowResponse) (\<lambda>nativeFlow.
       bind (prop_of nativeFlow ''ui'') (\<lambda>ui.
       bind (prop_of ui ''action'') (\<lambda>action.
       bind (api_fetch (recovery_post action []
               [(''method'', JStr ''code''), (''email'', JStr normalizedEmail)])) (\<lambda>submitResponse.
       if \<not> rs_ok submitResponse \<and> rs_status submitResponse \<noteq> 400
       then Raise (AuthErr ''recovery_submit_failed''
                     ''We couldn't send recovery instructions. Please try again.'' None)
       else setRecoveryInfo (Some instructions_info))))))"

definition submitRecoveryEmail :: "(recovery, unit) prog" where
  "submitRecoveryEmail =
     bind (gets recoveryEmail) (\<lambda>email.
     let normalizedEmail = to_lower (trim email) in
     seq (setRecoveryError None)
    (seq (setRecoveryInfo None)
    (if \<not> isValidEmail normalizedEmail
     then setRecoveryError (Some ''Please check your email address and try again.'')
     else
       try_catch
         (bind is_web (\<lambda>web.
          if web then submitBrowserRecoveryEmail normalizedEmail
          else seq (dispatch USE_NATIVE_API_RECOVERY) (submitNativeRecoveryEmail normalizedEmail)))
         (\<lambda>_. seq (setRecoveryError None) (setRecoveryInfo (Some instructions_info))))))"

text \<open>
  Submitting the code: \<open>after_code\<close> is what happens once the server has answered with anything but
  403 and 410; \<open>redirect\<close> leaves the page when the answer names an address.
\<close>

definition follow_redirect :: "jsval \<Rightarrow> (recovery, unit) prog \<Rightarrow> (recovery, unit) prog" where
  "follow_redirect data p =
     bind (getContinueWithRedirect data) (\<lambda>redirectUrl.
     if or_default redirectUrl [] \<noteq> [] then emit (AssignLocation (or_default redirectUrl [])) else p)"

definition code_refused :: "jsval \<Rightarrow> string \<Rightarrow> (recovery, unit) prog" where
  "code_refused flow email =
     seq (setRecoveryError (Some ''That recovery code could not be accepted. Please try again.''))
    (bind (hasRecoveryEmailNode flow) (\<lambda>canResend.
     dispatch (EMAIL_SENT (jget flow ''id'')
       (let e = to_lower (trim email) in if e = [] then None else Some e) canResend)))"

definition code_accepted :: "(recovery, unit) prog" where
  "code_accepted =
     seq (dispatch FLOW_COMPLETE)
         (setRecoveryInfo (Some ''Recovery code accepted. Continue with the password reset step shown by Kratos.''))"

definition after_code :: "jsval \<Rightarrow> string \<Rightarrow> response \<Rightarrow> (recovery, unit) prog" where
  "after_code flow email response =
     (let data = json_or_null response;
          settle = (if \<not> rs_ok response then code_refused flow email
                    else if truthy data then
                      follow_redirect data
                        (seq (do_if (has_key data ''ui'' \<and> has_key data ''id'' \<and> has_key data ''state'')
                                (setProtocolFlow data))
                             code_accepted)
                    else code_accepted)
      in if rs_status response = 422 \<and> truthy data then follow_redirect data settle else settle)"

definition send_code :: "jsval \<Rightarrow> string \<Rightarrow> string \<Rightarrow> (recovery, unit) prog" where
  "send_code flow email trimmedCode =
     bind (extractCsrfToken flow) (\<lambda>csrfToken.
     seq (dispatch (SUBMIT_CODE (jget flow ''id'')))
    (bind (prop_of flow ''ui'') (\<lambda>ui.
     bind (prop_of ui ''action'') (\<lambda>action.
     bind (api_fetch (recovery_post action ''include''
             [(''method'', JStr ''code''), (''code'', JStr trimmedCode), (''csrf_token'', JStr csrfToken)]))
       (\<lambda>response.
     if rs_status response = 403 \<or> rs_status response = 410 then dispatch (no_longer_valid response)
     else after_code flow email response)))))"

definition submitRecoveryCode :: "(recovery, unit) prog" where
  "submitRecoveryCode =
     bind (gets recoveryCode) (\<lambda>code. bind (gets recoveryEmail) (\<lambda>email. bind (gets protocolFlow) (\<lambda>flow.
     seq (setRecoveryError None)
    (seq (setRecoveryInfo None)
    (bind is_web (\<lambda>web.
     if \<not> web then skip
     else if \<not> truthy flow then dispatch (FLOW_EXPIRED (Some ''Recovery flow is missing.''))
     else if trim code = [] then setRecoveryError (Some ''Please enter the recovery code from your email.'')
     else try_catch (send_code flow email (trim code))
            (\<lambda>e. dispatch (FLOW_EXPIRED (Some (exn_message e))))))))))"

definition restartRecoveryFlow :: "(recovery, unit) prog" where
  "restartRecoveryFlow =
     seq (dispatch RESTART_FLOW) (bind is_web (\<lambda>web. do_if web start_browser_recovery))"

fun entering_email :: "recovery_ui \<Rightarrow> bool" where
  "entering_email (REnteringEmail i c) = True"
| "entering_email RNativeApi = True"
| "entering_email _ = False"

fun entering_code :: "recovery_ui \<Rightarrow> bool" where
  "entering_code (REmailSent i e c) = True"
| "entering_code _ = False"

fun can_resend :: "recovery_ui \<Rightarrow> bool" where
  "can_resend (REmailSent i e c) = c"
| "can_resend _ = False"

fun flow_expired :: "recovery_ui \<Rightarrow> bool" where
  "flow_expired (RExpired r) = True"
| "flow_expired _ = False"

definition recovery_notices :: "recovery \<Rightarrow> element list" where
  "recovery_notices s =
     [Caption ''Reset password'', Caption ''Enter your work email and we'll send reset instructions.'']
     @ notice_of (recoveryError s) @ notice_of (recoveryInfo s)
     @ show_if (ui_busy (uiState s)) [Spinner, Caption ''Preparing password recovery...'']"

definition recovery_forms :: "recovery \<Rightarrow> element list" where
  "recovery_forms s = (let ui = uiState s; isBusy = ui_busy ui in
     show_if (entering_email ui) (Field ''Work email'' (recoveryEmail s) (\<not> isBusy)
       # busy_button isBusy ''Reset password'')
     @ show_if (entering_code ui) (Field ''Recovery code'' (recoveryCode s) (\<not> isBusy)
       # busy_button isBusy ''Continue''
       @ show_if (can_resend ui) [Button ''Resend code'' (\<not> isBusy)]))"

definition recovery_footer :: "recovery \<Rightarrow> element list" where
  "recovery_footer s = (let ui = uiState s in
     show_if (flow_expired ui)
       [Notice ''This recovery session expired or is no longer valid. Please restart password recovery.'',
        Button ''Restart recovery'' True]
     @ show_if (ui = RComplete) [Notice ''Recovery code accepted. Continue with the next password reset step.'']
     @ [Button ''Back to sign in'' (\<not> ui_busy ui)])"

definition RecoveryScreen :: "recovery \<Rightarrow> element list" where
  "RecoveryScreen s = recovery_notices s @ recovery_forms s @ recovery_footer s"

definition initial_recovery :: "auth \<Rightarrow> string option \<Rightarrow> recovery" where
  "initial_recovery a fid = auth.extend a \<lparr>uiState = RIdle, protocolFlow = JNull, recoveryEmail = [],
     recoveryCode = [], recoveryError = None, recoveryInfo = None, browserFlowId = fid\<rparr>"

end
