(* ===== verification/RecoverySafety.thy ===== *)
theory RecoverySafety
  imports Recovery
begin

text \<open>
  What holds of password recovery: the address check is the regular expression, a device learns
  nothing about an address, submitting a code always settles, and a lost answer to the e-mail
  form blocks the browser screen.
\<close>

section \<open>The address check\<close>

definition word :: "string \<Rightarrow> bool" where
  "word u = (u \<noteq> [] \<and> (\<forall>c \<in> set u. \<not> js_ws c))"

lemma word_Cons: "word (c # u) = (\<not> js_ws c \<and> (u = [] \<or> word u))"
  by (auto simp: word_def)

lemma word_hd: "word w \<Longrightarrow> case w @ b of [] \<Rightarrow> False | d # ds \<Rightarrow> \<not> js_ws d"
  by (cases w) (simp_all add: word_def)

lemma mail_hostI: "word w \<Longrightarrow> v = [] \<and> seen \<or> word v \<Longrightarrow> mail_host seen (v @ CHR ''.'' # w @ b)"
proof (induction v arbitrary: seen)
  case Nil
  moreover have "\<not> js_ws (CHR ''.'')" by code_simp
  ultimately show ?case using word_hd [of w b] by (simp add: word_def)
qed (auto simp: word_Cons)

lemma mail_hostD:
  "mail_host seen s \<Longrightarrow> \<exists>v w b. s = v @ CHR ''.'' # w @ b \<and> (v = [] \<and> seen \<or> word v) \<and> word w"
proof (induction s arbitrary: seen)
  case (Cons c cs)
  show ?case
  proof (cases "mail_host True cs")
    case True
    with Cons.IH obtain v w b where "cs = v @ CHR ''.'' # w @ b" "v = [] \<or> word v" "word w" by blast
    with Cons.prems have "c # cs = (c # v) @ CHR ''.'' # w @ b" "word (c # v)" "word w"
      by (auto simp: word_Cons)
    then show ?thesis by blast
  next
    case False
    with Cons.prems obtain d ds where "seen" "c = CHR ''.''" "cs = d # ds" "\<not> js_ws d"
      by (auto split: list.splits)
    then have "c # cs = [] @ CHR ''.'' # [d] @ ds" "word [d]" "seen" by (simp_all add: word_def)
    then show ?thesis by blast
  qed
qed simp

lemma mail_host_iff: "mail_host False s \<longleftrightarrow> (\<exists>v w b. s = v @ CHR ''.'' # w @ b \<and> word v \<and> word w)"
  using mail_hostD [of False s] mail_hostI by blast

lemma mail_atI:
  "mail_host False r \<Longrightarrow> u = [] \<and> prev \<or> word u \<Longrightarrow> mail_at prev (u @ CHR ''@'' # r)"
proof (induction u arbitrary: prev)
  case (Cons c u)
  then show ?case by (auto simp: word_Cons)
qed (simp add: word_def)

lemma mail_at_skip: "word u \<Longrightarrow> mail_host False r \<Longrightarrow> mail_at prev (a @ u @ CHR ''@'' # r)"
  by (induction a arbitrary: prev) (simp_all add: mail_atI)

lemma mail_atD:
  "mail_at prev s \<Longrightarrow> \<exists>a u r. s = a @ u @ CHR ''@'' # r \<and> mail_host False r
     \<and> (word u \<or> a = [] \<and> u = [] \<and> prev)"
proof (induction s arbitrary: prev)
  case (Cons c cs)
  show ?case
  proof (cases "mail_at (\<not> js_ws c) cs")
    case True
    with Cons.IH obtain a u r where *: "cs = a @ u @ CHR ''@'' # r" "mail_host False r"
      "word u \<or> a = [] \<and> u = [] \<and> \<not> js_ws c" by blast
    show ?thesis
    proof (cases "word u")
      case True
      then have "c # cs = (c # a) @ u @ CHR ''@'' # r" "word u" using * by simp_all
      with *(2) show ?thesis by blast
    next
      case False
      with *(3) have "a = []" "u = []" "\<not> js_ws c" by blast+
      with *(1) have "c # cs = [] @ [c] @ CHR ''@'' # r" "word [c]" by (simp_all add: word_def)
      with *(2) show ?thesis by blast
    qed
  next
    case False
    with Cons.prems have "prev" "c # cs = [] @ [] @ CHR ''@'' # cs" "mail_host False cs" by auto
    then show ?thesis by blast
  qed
qed simp

text \<open>
  The address check is the regular expression: an address is accepted exactly when its
  trimmed text has a stretch \<open>u@v.w\<close> with three non-empty parts without white space.
\<close>

lemma isValidEmail_iff:
  "isValidEmail value \<longleftrightarrow> (\<exists>a u v w b. trim value = a @ u @ ''@'' @ v @ ''.'' @ w @ b
     \<and> word u \<and> word v \<and> word w)"
proof -
  have "mail_at False s \<longleftrightarrow> (\<exists>a u r. s = a @ u @ CHR ''@'' # r \<and> word u \<and> mail_host False r)" for s
    using mail_atD [of False s] mail_at_skip by blast
  moreover have "mail_at False s \<longrightarrow> s \<noteq> []" for s by (cases s) simp_all
  ultimately have "isValidEmail value \<longleftrightarrow>
      (\<exists>a u r. trim value = a @ u @ CHR ''@'' # r \<and> word u \<and> mail_host False r)"
    by (auto simp: isValidEmail_def Let_def)
  then show ?thesis unfolding mail_host_iff by fastforce
qed

section \<open>Frames\<close>

text \<open>The screen's own part of the state, and handlers that leave it to the session.\<close>

lemma recovery_more:
  "(auth.more (s' :: recovery) = auth.more s) = (uiState s' = uiState s \<and> protocolFlow s' = protocolFlow s
     \<and> recoveryEmail s' = recoveryEmail s \<and> recoveryCode s' = recoveryCode s
     \<and> recoveryError s' = recoveryError s \<and> recoveryInfo s' = recoveryInfo s
     \<and> browserFlowId s' = browserFlowId s)"
  by (cases s; cases s') simp

lemma wp_recovery_setters [wp_rules]:
  "wp w (dispatch a) Q E s t = Q () (s\<lparr>uiState := recoveryReducer (uiState s) a\<rparr>) t"
  "wp w (setRecoveryError v) Q E s t = Q () (s\<lparr>recoveryError := v\<rparr>) t"
  "wp w (setRecoveryInfo v) Q E s t = Q () (s\<lparr>recoveryInfo := v\<rparr>) t"
  "wp w (setProtocolFlow u) Q E s t = Q () (s\<lparr>protocolFlow := u\<rparr>) t"
  by (simp_all add: dispatch_def setRecoveryError_def setRecoveryInfo_def setProtocolFlow_def wp_rules)

text \<open>
  A device learns nothing about an address. Submitting a well-formed address on a device
  ends, for every behaviour of the server and the network, without an exception and in one and
  the same screen: no error, the sentence that does not say whether the address exists, and the
  native state; a malformed address is refused without a request.
\<close>

lemma native_recovery_reveals_nothing:
  assumes "\<not> on_web s"
  shows "(isValidEmail (to_lower (trim (recoveryEmail s))) \<longrightarrow>
      (\<exists>s' t'. run w submitRecoveryEmail s t = (Inr (), s', t')
        \<and> auth.more s' = auth.more (s\<lparr>recoveryError := None, recoveryInfo := Some instructions_info,
             uiState := RNativeApi\<rparr>)))
     \<and> (\<not> isValidEmail (to_lower (trim (recoveryEmail s))) \<longrightarrow>
      run w submitRecoveryEmail s t = (Inr (), s\<lparr>recoveryInfo := None,
         recoveryError := Some ''Please check your email address and try again.''\<rparr>, t))"
proof -
  let ?goal = "\<lambda>s'. auth.more s' = auth.more (s\<lparr>recoveryError := None, recoveryInfo := Some instructions_info,
             uiState := RNativeApi\<rparr>)"
  have native: "wp w (submitNativeRecoveryEmail m) (\<lambda>_ s' _. ?goal s') (\<lambda>_ s' _. auth.more s' = auth.more s0) s0 t0"
    if s0: "auth.more s0 = auth.more (s\<lparr>recoveryError := None, recoveryInfo := None, uiState := RNativeApi\<rparr>)"
    for m s0 t0
    unfolding submitNativeRecoveryEmail_def
    by (intro wp_bind_leaves [where R = auth.more] leaves_rules wp_cases_I)
      (use s0 in \<open>simp_all add: wp_rules recovery_more\<close>)
  have "wp w submitRecoveryEmail (\<lambda>_ s' _. ?goal s') (\<lambda>_ _ _. False) s t"
    if "isValidEmail (to_lower (trim (recoveryEmail s)))"
    using that assms unfolding submitRecoveryEmail_def
    by (simp add: wp_rules Let_def)
      (rule wp_mono [OF native]; simp add: recovery_more wp_rules)
  moreover have "run w submitRecoveryEmail s t = (Inr (), s\<lparr>recoveryInfo := None,
         recoveryError := Some ''Please check your email address and try again.''\<rparr>, t)"
    if "\<not> isValidEmail (to_lower (trim (recoveryEmail s)))"
    using that by (simp add: submitRecoveryEmail_def setRecoveryError_def setRecoveryInfo_def run_rules Let_def)
  ultimately show ?thesis by (auto simp: wp_def split: prod.splits sum.splits)
qed

definition sample_recovery :: recovery where
  "sample_recovery = (initial_recovery (initial_auth False) None)\<lparr>recoveryEmail := '' A@b.c''\<rparr>"

lemma native_recovery_reveals_nothing_witness:
  "\<exists>s' t'. run silent_world submitRecoveryEmail sample_recovery [] = (Inr (), s', t')
     \<and> recoveryInfo s' = Some instructions_info \<and> recoveryError s' = None"
proof -
  have "\<not> on_web sample_recovery" "isValidEmail (to_lower (trim (recoveryEmail sample_recovery)))" by code_simp+
  with native_recovery_reveals_nothing [of sample_recovery silent_world "[]"]
  obtain s' t' where "run silent_world submitRecoveryEmail sample_recovery [] = (Inr (), s', t')"
    "auth.more s' = auth.more (sample_recovery\<lparr>recoveryError := None, recoveryInfo := Some instructions_info,
             uiState := RNativeApi\<rparr>)" by blast
  then show ?thesis by (simp add: recovery_more)
qed

section \<open>Submitting the code\<close>

definition settled :: "recovery \<Rightarrow> trace \<Rightarrow> bool" where
  "settled s t = (\<not> ui_busy (uiState s) \<or> (\<exists>url u. t = u @ [AssignLocation url]))"

text \<open>Handlers that raise no matter what are settled by the catch clause.\<close>

definition settles :: "world \<Rightarrow> (recovery, unit) prog \<Rightarrow> bool" where
  "settles w p = (\<forall>s t. wp w p (\<lambda>_. settled) (\<lambda>_ _ _. True) s t)"

lemma settles_bind: "(\<And>a. settles w (f a)) \<Longrightarrow> settles w (bind p f)"
  unfolding settles_def wp_bind by (auto intro: wp_total)

lemma settles_seq: "settles w q \<Longrightarrow> settles w (seq p q)"
  unfolding settles_def wp_seq by (auto intro: wp_total)

lemma settles_cases:
  "(b \<Longrightarrow> settles w p) \<Longrightarrow> (\<not> b \<Longrightarrow> settles w q) \<Longrightarrow> settles w (if b then p else q)"
  "settles w (g v) \<Longrightarrow> settles w (let x = v in g x)"
  by simp_all

lemma settles_ends:
  "(\<And>u. \<not> ui_busy (recoveryReducer u a)) \<Longrightarrow> settles w (dispatch a)"
  "settles w (emit (AssignLocation url))"
  "(\<And>u. \<not> ui_busy (recoveryReducer u a)) \<Longrightarrow> settles w (seq (dispatch a) (setRecoveryInfo i))"
  by (simp_all add: settles_def wp_rules settled_def)

lemmas settles_rules = settles_ends settles_cases settles_bind settles_seq

lemma settles_after_code: "settles w (after_code flow email response)"
  unfolding after_code_def follow_redirect_def code_refused_def code_accepted_def no_longer_valid_def
  by (intro settles_rules; simp)

lemma settles_send_code: "settles w (send_code flow email code)"
  unfolding send_code_def no_longer_valid_def by (intro settles_rules settles_after_code; simp)

text \<open>
  Submitting a recovery code always settles. For every behaviour of server and network, from
  a screen that is not busy, the handler returns without an exception, and the screen is not left
  busy unless the page has been sent to another address.
\<close>

lemma recovery_code_settles:
  assumes "\<not> ui_busy (uiState s)"
  shows "\<exists>s' t'. run w submitRecoveryCode s t = (Inr (), s', t') \<and> settled s' t'"
proof -
  have sent: "wp w (send_code flow email code) (\<lambda>_. settled)
      (\<lambda>e s. settled (s\<lparr>uiState := RExpired (Some (exn_message e))\<rparr>)) s' t'"
    for flow email code s' t'
    by (rule wp_mono [OF settles_send_code [unfolded settles_def, rule_format]])
      (simp_all add: wp_rules settled_def)
  have idle: "settled s' u" if "\<not> ui_busy (uiState s')" for s' u
    using that by (simp add: settled_def)
  have "wp w submitRecoveryCode (\<lambda>_. settled) (\<lambda>_ _ _. False) s t"
    unfolding submitRecoveryCode_def wp_bind wp_seq wp_gets wp_recovery_setters wp_is_web wp_if wp_try_catch wp_basic
    using assms sent by (simp add: idle)
  then show ?thesis by (auto simp: wp_def split: prod.splits sum.splits)
qed

definition lost_flow :: recovery where
  "lost_flow = (initial_recovery (initial_auth True) None)\<lparr>protocolFlow := JObj [(''id'', JStr ''f1'')],
     recoveryCode := ''123456'', uiState := REmailSent (JStr ''f1'') None False\<rparr>"

lemma recovery_code_settles_witness:
  "\<exists>s' t'. run silent_world submitRecoveryCode lost_flow [] = (Inr (), s', t') \<and> settled s' t'"
  by (rule recovery_code_settles) code_simp

section \<open>Losing the answer to the e-mail form\<close>

text \<open>
  In a browser, when the request that sends the e-mail gets no answer, the handler returns
  normally with the neutral sentence, but the screen stays in the submitting state for ever: none
  of its controls reacts, not even the way back to the sign-in.
\<close>

lemma recovery_email_lost_answer_blocks:
  assumes web: "on_web s" and valid: "isValidEmail email" "email = to_lower (trim (recoveryEmail s))"
    and flow: "protocolFlow s = recovery_flow_js f"
    and token: "typed_node_value (vf_ui f) ''csrf_token'' = Some token" "token \<noteq> []"
    and action: "\<not> shouldHandleUrl (ku_action (vf_ui f))"
    and lost: "w t (Fetch (recovery_post (JStr (ku_action (vf_ui f))) ''include''
        [(''method'', JStr ''code''), (''email'', JStr email), (''csrf_token'', JStr token)])) = RFail e"
  shows "\<exists>s' t'. run w submitRecoveryEmail s t = (Inr (), s', t')
     \<and> uiState s' = RSubmittingEmail (JStr (vf_id f)) \<and> recoveryInfo s' = Some instructions_info
     \<and> recoveryError s' = None \<and> (\<forall>x \<in> set (RecoveryScreen s'). \<not> reacts x)"
proof -
  have get: "\<not> nullish (recovery_flow_js f)" "truthy (recovery_flow_js f)"
    "jget (recovery_flow_js f) ''ui'' = ui_js (vf_ui f)" "jget (recovery_flow_js f) ''id'' = JStr (vf_id f)"
    by (auto simp: recovery_flow_js_def nullish_def map_add_def)
  have post: "api_fetch (recovery_post (JStr (ku_action (vf_ui f))) c b) = fetch (recovery_post (JStr (ku_action (vf_ui f))) c b)"
    for c b using action by (intro interceptor_passes) (simp add: recovery_post_def)
  have csrf: "run w (extractCsrfToken (recovery_flow_js f)) s0 t0 = (Inr token, s0, t0)" for s0 :: recovery and t0
    using token by (simp add: extractCsrfToken_def flow_nodes_def run_rules get) (simp add: nullish_def)
  have "run w submitRecoveryEmail s t = (Inr (), s\<lparr>recoveryError := None, recoveryInfo := Some instructions_info,
      uiState := RSubmittingEmail (JStr (vf_id f))\<rparr>, t @ [Fetch (recovery_post (JStr (ku_action (vf_ui f))) ''include''
        [(''method'', JStr ''code''), (''email'', JStr email), (''csrf_token'', JStr token)])])"
    using web valid flow lost
    by (simp add: submitRecoveryEmail_def submitBrowserRecoveryEmail_def run_rules Let_def get csrf post
        setRecoveryError_def setRecoveryInfo_def dispatch_def is_web_def)
  then show ?thesis
    by (auto simp: RecoveryScreen_def recovery_notices_def recovery_forms_def recovery_footer_def Let_def
        show_if_def dest: notice_of_silent)
qed

definition sample_flow :: recovery_flow where
  "sample_flow = \<lparr>vf_id = ''f1'', vf_type = BrowserFlow, vf_expires_at = None, vf_issued_at = None,
     vf_request_url = None, vf_return_to = None, vf_state = ''choose_method'',
     vf_ui = \<lparr>ku_action = ''https://auth.cvera.app/submit'', ku_method = ''POST'',
       ku_nodes = [\<lparr>kn_type = ''input'', kn_group = ''default'', kn_attributes = Some
          \<lparr>ka_name = Some ''csrf_token'', ka_value = Some ''tok'', ka_type = Some ''hidden''\<rparr>,
          kn_messages = None, kn_meta = None\<rparr>], ku_messages = None\<rparr>\<rparr>"

definition waiting_for_email :: recovery where
  "waiting_for_email = (initial_recovery (initial_auth True) (Some ''f1''))\<lparr>recoveryEmail := ''a@b.c'',
     protocolFlow := recovery_flow_js sample_flow, uiState := REnteringEmail (JStr ''f1'') False\<rparr>"

lemma recovery_email_lost_answer_blocks_witness:
  "\<exists>s' t'. run silent_world submitRecoveryEmail waiting_for_email [] = (Inr (), s', t')
     \<and> (\<forall>x \<in> set (RecoveryScreen s'). \<not> reacts x)"
proof -
  have "\<exists>s' t'. run silent_world submitRecoveryEmail waiting_for_email [] = (Inr (), s', t')
     \<and> uiState s' = RSubmittingEmail (JStr (vf_id sample_flow)) \<and> recoveryInfo s' = Some instructions_info
     \<and> recoveryError s' = None \<and> (\<forall>x \<in> set (RecoveryScreen s'). \<not> reacts x)"
  proof (rule recovery_email_lost_answer_blocks [where email = "''a@b.c''" and token = "''tok''" and e = "JsErr ''offline''"])
    show "on_web waiting_for_email" "isValidEmail ''a@b.c''"
      "''a@b.c'' = to_lower (trim (recoveryEmail waiting_for_email))"
      "typed_node_value (vf_ui sample_flow) ''csrf_token'' = Some ''tok''"
      "\<not> shouldHandleUrl (ku_action (vf_ui sample_flow))" by code_simp+
  qed (simp_all add: waiting_for_email_def silent_world_def)
  then show ?thesis by blast
qed

end
