(* ===== verification/Biometrics.thy ===== *)
theory Biometrics
  imports JsAsync
begin

text \<open>
  \<open>src/auth/biometrics.ts\<close>: availability and the unlock prompt. The device library is not part of
  the program: its calls are awaited events, its answers arbitrary values; its enumeration
  constants are represented by their names.
\<close>

datatype modality = Face | Fingerprint | Iris | UnknownModality

datatype unavailable_reason = NoHardware | NotEnrolled

datatype cancelled_reason = UserCancel | SystemCancel | AppCancel

datatype failure_reason =
    Lockout
  | NoSpace
  | Timeout
  | UnableToProcess
  | NotAvailable
  | PasscodeNotSet
  | AuthenticationFailed
  | UserFallback
  | InvalidContext
  | UnknownFailure

datatype availability =
    Available "modality list"
  | Unavailable unavailable_reason

datatype biometric_result =
    BioSuccess
  | BioUnavailable unavailable_reason
  | BioCancelled cancelled_reason
  | BioFailed failure_reason "jsval option"

definition mapAuthenticationType :: "jsval \<Rightarrow> modality" where
  "mapAuthenticationType type =
     (if type = JStr ''FACIAL_RECOGNITION'' then Face
      else if type = JStr ''FINGERPRINT'' then Fingerprint
      else if type = JStr ''IRIS'' then Iris
      else UnknownModality)"

definition mapAuthenticationError :: "jsval \<Rightarrow> biometric_result" where
  "mapAuthenticationError err =
     (if err = JStr ''not_enrolled'' then BioUnavailable NotEnrolled
      else if err = JStr ''user_cancel'' then BioCancelled UserCancel
      else if err = JStr ''system_cancel'' then BioCancelled SystemCancel
      else if err = JStr ''app_cancel'' then BioCancelled AppCancel
      else if err = JStr ''lockout'' then BioFailed Lockout None
      else if err = JStr ''no_space'' then BioFailed NoSpace None
      else if err = JStr ''timeout'' then BioFailed Timeout None
      else if err = JStr ''unable_to_process'' then BioFailed UnableToProcess None
      else if err = JStr ''not_available'' then BioFailed NotAvailable None
      else if err = JStr ''passcode_not_set'' then BioFailed PasscodeNotSet None
      else if err = JStr ''authentication_failed'' then BioFailed AuthenticationFailed None
      else if err = JStr ''user_fallback'' then BioFailed UserFallback None
      else if err = JStr ''invalid_context'' then BioFailed InvalidContext None
      else BioFailed UnknownFailure None)"

text \<open>A call of the library: it rejects, or answers with a value.\<close>

definition ask :: "event \<Rightarrow> ('s, jsval) prog" where
  "ask ev = Await ev (\<lambda>r. case r of RVal v \<Rightarrow> Return v | RBool b \<Rightarrow> Return (JBool b)
     | RFail e \<Rightarrow> Raise e | _ \<Rightarrow> Return JUndef)"

definition getBiometricAvailability :: "('s, availability) prog" where
  "getBiometricAvailability =
     bind (ask HasHardware) (\<lambda>hasHardware.
     if \<not> truthy hasHardware then Return (Unavailable NoHardware)
     else
       bind (ask SupportedTypes) (\<lambda>authenticationTypes.
       if is_arr authenticationTypes
       then Return (Available (map mapAuthenticationType (the_arr authenticationTypes)))
       else Raise TypeErr))"

definition with_warning :: "jsval \<Rightarrow> biometric_result \<Rightarrow> biometric_result" where
  "with_warning warning mapped =
     (case mapped of BioFailed r w \<Rightarrow> if truthy warning then BioFailed r (Some warning) else mapped | _ \<Rightarrow> mapped)"

definition runBiometricCheck :: "('s, biometric_result) prog" where
  "runBiometricCheck =
     bind getBiometricAvailability (\<lambda>availability. case availability of
       Unavailable reason \<Rightarrow> Return (BioUnavailable reason)
     | Available modalities \<Rightarrow>
         try_catch
           (bind (ask Authenticate) (\<lambda>result.
            bind (prop_of result ''success'') (\<lambda>success.
            if truthy success then Return BioSuccess
            else Return (with_warning (jget result ''warning'') (mapAuthenticationError (jget result ''error''))))))
           (\<lambda>_. Return (BioFailed UnknownFailure None)))"

text \<open>Success is only ever reported for an answer that says so.\<close>

lemma mapped_error_not_success [simp]:
  "mapAuthenticationError err \<noteq> BioSuccess" "with_warning v (mapAuthenticationError err) \<noteq> BioSuccess"
  by (auto simp: mapAuthenticationError_def with_warning_def)

lemma keeps_ask [keeps_rules]: "keeps (ask ev)"
  unfolding ask_def by (rule keeps_rules) (simp add: keeps_rules split: reply.split)

lemma keeps_availability [keeps_rules]: "keeps getBiometricAvailability"
  unfolding getBiometricAvailability_def by (intro keeps_rules)

lemma keeps_check [keeps_rules]: "keeps runBiometricCheck"
  unfolding runBiometricCheck_def
  by (intro keeps_rules) (auto intro!: keeps_rules split: availability.split)

end
