(* ===== verification/AppShell.thy ===== *)
theory AppShell
  imports Biometrics Screens
begin

text \<open>
  \<open>AppShell.tsx\<close>: the biometric gate in front of the app, its bootstrap, and what the shell shows.
  The shell gets the session's operations from the context (\<open>useAuth\<close>); the bootstrap is therefore
  written over them, and the locale below says what it relies on.
\<close>

datatype gate =
    CheckingSession
  | Prompting
  | RestoringSession
  | GateCancelled
  | GateUnavailable unavailable_reason
  | GateFailed failure_reason
  | GateComplete

datatype app_route = RtRecruiter | RtHRReview | RtReqHome | RtHome

definition routeForRole :: "jsval \<Rightarrow> app_route" where
  "routeForRole role =
     (if role = JStr ''recruiter'' then RtRecruiter
      else if role = JStr ''hr_reviewer'' then RtHRReview
      else if role = JStr ''requestor'' then RtReqHome
      else if role = JStr ''cvera'' then RtRecruiter
      else RtHome)"

record shell = auth +
  biometricGate :: gate

definition setBiometricGate :: "gate \<Rightarrow> (shell, unit) prog" where
  "setBiometricGate g = modify (\<lambda>s. s\<lparr>biometricGate := g\<rparr>)"

definition continueWithPassword :: "(shell, unit) prog \<Rightarrow> (shell, unit) prog" where
  "continueWithPassword reauth = seq (setBiometricGate GateComplete) reauth"

text \<open>What follows the prompt, and the part of the bootstrap inside its \<open>try\<close>.\<close>

definition after_prompt ::
    "(shell, refresh_result) prog \<Rightarrow> biometric_result \<Rightarrow> (shell, unit) prog" where
  "after_prompt restore biometricResult = (case biometricResult of
       BioSuccess \<Rightarrow> seq (setBiometricGate RestoringSession)
                    (seq restore (setBiometricGate GateComplete))
     | BioCancelled reason \<Rightarrow> setBiometricGate GateCancelled
     | BioUnavailable reason \<Rightarrow> setBiometricGate (GateUnavailable reason)
     | BioFailed reason warning \<Rightarrow> setBiometricGate (GateFailed reason))"

definition native_bootstrap ::
    "(shell, bool) prog \<Rightarrow> (shell, refresh_result) prog \<Rightarrow> (shell, unit) prog \<Rightarrow> (shell, unit) prog" where
  "native_bootstrap has_stored restore reauth =
     bind has_stored (\<lambda>storedSessionExists.
     if \<not> storedSessionExists then seq (setBiometricGate GateComplete) reauth
     else
       seq (setBiometricGate Prompting)
      (bind runBiometricCheck (after_prompt restore)))"

definition bootstrap ::
    "(shell, bool) prog \<Rightarrow> (shell, refresh_result) prog \<Rightarrow> (shell, unit) prog \<Rightarrow> (shell, unit) prog" where
  "bootstrap has_stored restore reauth =
     bind is_web (\<lambda>web.
     if web then setBiometricGate GateComplete
     else
       seq (setBiometricGate CheckingSession)
           (try_catch (native_bootstrap has_stored restore reauth)
              (\<lambda>_. setBiometricGate (GateFailed UnknownFailure))))"

definition runNativeBootstrap :: "(shell, unit) prog" where
  "runNativeBootstrap = bootstrap hasStoredSession restoreSession beginReauth"

section \<open>What the shell shows\<close>

datatype shell_view =
    ShellElements "element list"
  | ShowSessionExpired
  | ShowAuthNavigator
  | ShowMainApp app_route

definition cancelled_view :: "element list" where
  "cancelled_view =
     [Caption ''Cvera is locked'', Caption ''Use Face ID to unlock your existing Cvera session.'',
      Button ''Try Face ID again'' True, Button ''Sign in with password'' True]"

definition unavailable_view :: "unavailable_reason \<Rightarrow> element list" where
  "unavailable_view reason =
     [Caption ''Face ID unavailable'',
      Caption (if reason = NotEnrolled then ''Face ID is not enrolled on this device.''
               else ''Face ID is not available on this device.''),
      Button ''Sign in with password'' True]"

definition failed_view :: "failure_reason \<Rightarrow> element list" where
  "failed_view reason =
     (let isLockedOut = (reason = Lockout) in
      [Caption (if isLockedOut then ''Face ID temporarily locked'' else ''Face ID could not unlock Cvera''),
       Caption (if isLockedOut then ''Face ID is temporarily unavailable after unsuccessful attempts.''
                else ''Your existing Cvera session has not been restored.'')]
      @ show_if (\<not> isLockedOut) [Button ''Try Face ID again'' True]
      @ [Button ''Sign in with password'' True])"

definition session_view :: "'x auth_scheme \<Rightarrow> shell_view" where
  "session_view s =
     (if status s = StChecking then ShellElements [Spinner]
      else if status s = StSessionExpired then ShowSessionExpired
      else if status s = StUnauthenticated then ShowAuthNavigator
      else if status s \<noteq> StAuthenticated \<or> \<not> truthy (jget (user s) ''role'') then ShellElements [Spinner]
      else ShowMainApp (routeForRole (jget (user s) ''role'')))"

definition AppShell :: "shell \<Rightarrow> shell_view" where
  "AppShell s = (case biometricGate s of
       CheckingSession \<Rightarrow> ShellElements [Spinner]
     | Prompting \<Rightarrow> ShellElements [Spinner]
     | RestoringSession \<Rightarrow> ShellElements [Spinner]
     | GateCancelled \<Rightarrow> ShellElements cancelled_view
     | GateUnavailable reason \<Rightarrow> ShellElements (unavailable_view reason)
     | GateFailed reason \<Rightarrow> ShellElements (failed_view reason)
     | GateComplete \<Rightarrow> session_view s)"

definition initial_shell :: "bool \<Rightarrow> shell" where
  "initial_shell web = auth.extend (initial_auth web) \<lparr>biometricGate = CheckingSession\<rparr>"

text \<open>
  The app itself is shown exactly when the gate is complete and the session is authenticated
  with a user that has a role, and then at the route of that role.
\<close>

lemma app_shown_iff:
  "AppShell s = ShowMainApp r \<longleftrightarrow> biometricGate s = GateComplete \<and> status s = StAuthenticated
     \<and> truthy (jget (user s) ''role'') \<and> r = routeForRole (jget (user s) ''role'')"
  by (cases "status s") (auto simp: AppShell_def session_view_def split: gate.split)

section \<open>Unlocking before restoring\<close>

text \<open>The use of session material: a request, or a change of the stored token.\<close>

fun uses_session :: "event \<Rightarrow> bool" where
  "uses_session (Fetch rq) = True"
| "uses_session (StorePut k v) = True"
| "uses_session (StoreDel k) = True"
| "uses_session (JoinRefresh i) = True"
| "uses_session _ = False"

fun unlocks :: "reply \<Rightarrow> bool" where
  "unlocks (RVal v) = truthy (jget v ''success'')"
| "unlocks _ = False"

text \<open>No session material is used until the prompt has been answered with a success.\<close>

primrec locked :: "('s, 'a) prog \<Rightarrow> bool" where
  "locked (Return a) = True"
| "locked (Raise e) = True"
| "locked (Get g) = (\<forall>s. locked (g s))"
| "locked (Put s p) = locked p"
| "locked (Emit e p) = (\<not> uses_session e \<and> e \<noteq> Authenticate \<and> locked p)"
| "locked (Await e k) = (\<not> uses_session e \<and> (\<forall>r. e = Authenticate \<and> unlocks r \<or> locked (k r)))"

text \<open>Of the events \<open>evs\<close> after \<open>t\<close>, every use of the session follows a prompt answered with a success.\<close>

definition unlocked_first :: "world \<Rightarrow> trace \<Rightarrow> trace \<Rightarrow> bool" where
  "unlocked_first w t evs = (\<forall>i < length evs. uses_session (evs ! i) \<longrightarrow>
     (\<exists>j < i. evs ! j = Authenticate \<and> unlocks (w (t @ take j evs) Authenticate)))"

lemma unlocked_first_Cons:
  assumes "\<not> uses_session e" "unlocked_first w (t @ [e]) evs"
  shows "unlocked_first w t (e # evs)"
  unfolding unlocked_first_def
proof (intro allI impI)
  fix i assume i: "i < length (e # evs)" "uses_session ((e # evs) ! i)"
  then obtain n where n: "i = Suc n" "n < length evs" "uses_session (evs ! n)"
    using assms(1) by (cases i) auto
  with assms(2) obtain j where "j < n" "evs ! j = Authenticate" "unlocks (w ((t @ [e]) @ take j evs) Authenticate)"
    unfolding unlocked_first_def by blast
  then show "\<exists>j < i. (e # evs) ! j = Authenticate \<and> unlocks (w (t @ take j (e # evs)) Authenticate)"
    using n(1) by (intro exI [of _ "Suc j"]) simp
qed

lemma unlocked_first_unlock:
  assumes "unlocks (w t Authenticate)"
  shows "unlocked_first w t (Authenticate # evs)"
  unfolding unlocked_first_def
proof (intro allI impI)
  fix i assume "uses_session ((Authenticate # evs) ! i)"
  then have "0 < i" by (cases i) simp_all
  then show "\<exists>j < i. (Authenticate # evs) ! j = Authenticate \<and> unlocks (w (t @ take j (Authenticate # evs)) Authenticate)"
    using assms by (intro exI [of _ 0]) simp
qed

lemma locked_run:
  "locked p \<Longrightarrow> run w p s t = (r, s', t') \<Longrightarrow> \<exists>evs. t' = t @ evs \<and> unlocked_first w t evs"
proof (induction p arbitrary: s t)
  case (Get g)
  then have "locked (g s)" "run w (g s) s t = (r, s', t')" by auto
  with Get.IH show ?case by blast
next
  case (Emit e p)
  then obtain evs where "t' = (t @ [e]) @ evs" "unlocked_first w (t @ [e]) evs" by fastforce
  with Emit.prems(1) show ?case by (intro exI [of _ "e # evs"]) (simp add: unlocked_first_Cons)
next
  case (Await e k)
  let ?r = "w t e"
  have rn: "run w (k ?r) s (t @ [e]) = (r, s', t')" using Await.prems(2) by simp
  show ?case
  proof (cases "e = Authenticate \<and> unlocks ?r")
    case True
    obtain evs where "t' = t @ e # evs" using run_trace_extends [of w "k ?r" s "t @ [e]"] rn by auto
    with True show ?thesis using unlocked_first_unlock [of w t evs] by auto
  next
    case False
    with Await.prems(1) have "locked (k ?r)" "\<not> uses_session e" by auto
    with Await.IH rn obtain evs where "t' = (t @ [e]) @ evs" "unlocked_first w (t @ [e]) evs" by blast
    with \<open>\<not> uses_session e\<close> show ?thesis by (intro exI [of _ "e # evs"]) (simp add: unlocked_first_Cons)
  qed
qed (auto simp: unlocked_first_def)

text \<open>Handlers that never use the session, and the prompt in front of one that does.\<close>

lemma locked_only: "emits_only (\<lambda>e. \<not> uses_session e \<and> e \<noteq> Authenticate) p \<Longrightarrow> locked p"
  by (induction p) auto

lemma locked_bind: "locked p \<Longrightarrow> (\<And>a. locked (f a)) \<Longrightarrow> locked (bind p f)"
  by (induction p) auto

lemma locked_seq: "locked p \<Longrightarrow> locked q \<Longrightarrow> locked (seq p q)"
  unfolding seq_def by (rule locked_bind) simp_all

lemma locked_try_catch: "locked p \<Longrightarrow> (\<And>e. locked (h e)) \<Longrightarrow> locked (try_catch p h)"
  by (induction p) auto

lemma locked_gate [simp]: "locked (setBiometricGate g)"
  by (simp add: setBiometricGate_def modify_def)

lemma locked_check:
  assumes "\<And>b. b \<noteq> BioSuccess \<Longrightarrow> locked (f b)"
  shows "locked (bind runBiometricCheck f)"
proof -
  have fails: "locked (f (with_warning v (mapAuthenticationError e)))" "locked (f (BioFailed r u))"
    "locked (f (BioUnavailable q))" for v e r u q
    by (simp_all add: assms)
  show ?thesis
    by (auto simp: runBiometricCheck_def getBiometricAvailability_def ask_def prop_of_def fails nullish_def
        split: reply.split)
qed

definition resolved :: "gate \<Rightarrow> bool" where
  "resolved g = (g \<notin> {CheckingSession, Prompting, RestoringSession})"

lemma resolved_simps [simp]:
  "resolved GateComplete" "resolved GateCancelled" "resolved (GateUnavailable q)" "resolved (GateFailed f)"
  by (simp_all add: resolved_def)

lemma wp_gate: "wp w (setBiometricGate g) Q E s t = Q () (s\<lparr>biometricGate := g\<rparr>) t"
  by (simp add: setBiometricGate_def wp_rules)

lemma shell_more: "(auth.more (s' :: shell) = auth.more s) = (biometricGate s' = biometricGate s)"
  by (cases s; cases s') simp

text \<open>
  The interface the shell expects of the session: looking for a stored session only reads the key
  store, giving up the session causes no effect at all, and both keep the access token and user.
\<close>

locale session_operations =
  fixes has_stored :: "(shell, bool) prog"
    and restore :: "(shell, refresh_result) prog"
    and reauth :: "(shell, unit) prog"
  assumes stored_reads: "emits_only (\<lambda>e. \<exists>k. e = StoreGet k) has_stored"
    and stored_keeps: "keeps has_stored"
    and reauth_silent: "emits_only (\<lambda>e. False) reauth"
    and reauth_gate: "leaves auth.more reauth"
    and reauth_total: "wp w reauth (\<lambda>_ s' _. status s' = StUnauthenticated) (\<lambda>_ _ _. False) s t"
    and restore_gate: "leaves auth.more restore"
begin

lemma locked_stored: "locked has_stored"
  by (rule locked_only, rule emits_only_mono [OF stored_reads]) auto

lemma locked_reauth: "locked reauth"
  by (rule locked_only, rule emits_only_mono [OF reauth_silent]) auto

lemma bootstrap_locked: "locked (bootstrap has_stored restore reauth)"
  unfolding bootstrap_def native_bootstrap_def after_prompt_def
  by (auto simp: is_web_def gets_def locked_reauth split: biometric_result.split
      intro!: locked_seq locked_bind locked_try_catch locked_check locked_stored)

text \<open>Every bootstrap ends, and ends in a state that is no spinner.\<close>

lemma bootstrap_ends:
  "wp w (bootstrap has_stored restore reauth) (\<lambda>_ s' _. resolved (biometricGate s')) (\<lambda>_ _ _. False) s t"
proof -
  have gave_up: "wp w reauth (\<lambda>_ s' _. resolved (biometricGate s')) E s t" if "resolved (biometricGate s)" for E s t
    by (rule wp_mono [OF wp_conj [OF reauth_total wp_leaves [OF reauth_gate,
        where Q = "\<lambda>_ s' _. biometricGate s' = biometricGate s" and E = "\<lambda>_ _ _. True"]]])
      (use that in \<open>auto simp: shell_more\<close>)
  have opened: "wp w (seq restore (setBiometricGate GateComplete)) (\<lambda>_ s' _. resolved (biometricGate s')) (\<lambda>_ _ _. True) s t"
    for s t
    unfolding wp_seq wp_gate by (rule wp_total) simp_all
  have prompted: "wp w (after_prompt restore b) (\<lambda>_ s' _. resolved (biometricGate s')) (\<lambda>_ _ _. True) s t" for b s t
    using opened by (cases b) (simp_all add: after_prompt_def wp_gate wp_seq)
  have native: "wp w (native_bootstrap has_stored restore reauth) (\<lambda>_ s' _. resolved (biometricGate s')) (\<lambda>_ _ _. True) s t"
    for s t
    unfolding native_bootstrap_def wp_bind
    by (rule wp_total) (simp_all add: gave_up wp_seq wp_gate wp_bind prompted wp_total)
  show ?thesis
    unfolding bootstrap_def wp_bind wp_is_web wp_if wp_seq wp_gate wp_try_catch
    using native by (auto intro: wp_mono)
qed

end

text \<open>The session provides these operations.\<close>

lemma wp_beginReauth: "wp w beginReauth Q E s t =
    Q () (s\<lparr>sessionExpiredReason := None, status := StUnauthenticated\<rparr>) t"
  by (simp add: beginReauth_def wp_rules)

interpretation session: session_operations hasStoredSession restoreSession beginReauth
proof
  show "emits_only (\<lambda>e. \<exists>k. e = StoreGet k) (hasStoredSession :: (shell, bool) prog)"
    unfolding hasStoredSession_def getStoredRefreshToken_def
    by (intro only_rules) (auto intro: only_rules split: reply.split)
  show "keeps (hasStoredSession :: (shell, bool) prog)"
    unfolding hasStoredSession_def getStoredRefreshToken_def is_web_def
    by (intro keeps_rules) (auto intro: keeps_rules split: reply.split)
  show "emits_only (\<lambda>e. False) (beginReauth :: (shell, unit) prog)"
    unfolding beginReauth_def by (intro only_rules)
qed (auto intro: leaves_rules simp: restoreSession_def wp_beginReauth)

text \<open>
  C32. The stored session is used only after an unlock. Whatever the device, the key store and the
  servers answer, of the events of a bootstrap on a device every request and every change of the
  stored token comes after a prompt that was answered with a success.
\<close>

theorem bootstrap_unlocks_first:
  assumes "run w runNativeBootstrap s t = (r, s', t')"
  shows "\<exists>evs. t' = t @ evs \<and> (\<forall>i < length evs. uses_session (evs ! i) \<longrightarrow>
     (\<exists>j < i. evs ! j = Authenticate \<and> unlocks (w (t @ take j evs) Authenticate)))"
  using locked_run [OF session.bootstrap_locked assms [unfolded runNativeBootstrap_def]]
  by (simp add: unlocked_first_def)

definition unlocking_world :: world where
  "unlocking_world t e = (case e of
       StoreGet k \<Rightarrow> RText (Some ''r0'')
     | HasHardware \<Rightarrow> RBool True
     | SupportedTypes \<Rightarrow> RVal (JArr [JStr ''FACIAL_RECOGNITION''])
     | Authenticate \<Rightarrow> RVal (JObj [(''success'', JBool True)])
     | Fetch rq \<Rightarrow> RResp token_response
     | _ \<Rightarrow> RDone)"

lemma bootstrap_unlocks_first_witness:
  "\<exists>evs. snd (snd (run unlocking_world runNativeBootstrap (initial_shell False) [])) = evs
     \<and> (\<exists>rq \<in> set evs. uses_session rq)
     \<and> (\<forall>i < length evs. uses_session (evs ! i) \<longrightarrow> (\<exists>j < i. evs ! j = Authenticate))"
proof -
  obtain r s' t' where run: "run unlocking_world runNativeBootstrap (initial_shell False) [] = (r, s', t')"
    by (metis prod_cases3)
  have "\<exists>rq \<in> set (snd (snd (run unlocking_world runNativeBootstrap (initial_shell False) []))). uses_session rq"
    by code_simp
  with bootstrap_unlocks_first [OF run] run show ?thesis by fastforce
qed

text \<open>
  The bootstrap always resolves. It never throws, and it never leaves the shell in a state
  that only shows a spinner: the gate ends complete, cancelled, unavailable or failed.
\<close>

theorem bootstrap_resolves:
  "\<exists>s' t'. run w runNativeBootstrap s t = (Inr (), s', t')
     \<and> biometricGate s' \<notin> {CheckingSession, Prompting, RestoringSession}"
  using session.bootstrap_ends [of w s t] unfolding runNativeBootstrap_def [symmetric]
  by (auto simp: wp_def resolved_def split: prod.splits sum.splits)

end
