(* ===== verification/Publish.thy ===== *)
theory Publish
  imports JsAsync
begin

text \<open>
  \<open>scripts/publish.ts\<close>: publishing a commit's trust artifacts to the object store. The process has
  its environment, the disk, a clock, and \<open>git\<close>; the store is the map from keys to objects (body,
  content type, cache control and access rule) that the requests build up, each of which it may refuse. The \<open>glob\<close> package is a parameter: the
  files a pattern matches on a disk.
\<close>

record stored =
  ob_body :: string
  ob_type :: string
  ob_cache :: string
  ob_acl :: string

record pub_host =
  p_env :: "string \<Rightarrow> string option"
  p_files :: "string \<Rightarrow> string option"
  p_clock :: "nat \<Rightarrow> string"
  p_ticks :: nat
  p_git :: "string option"
  p_out :: "string list"
  bucket :: "string \<Rightarrow> stored option"

type_synonym glob = "string \<Rightarrow> (string \<Rightarrow> string option) \<Rightarrow> string list"

section \<open>Helpers of the script\<close>

definition pub_audit_file :: string where
  "pub_audit_file = ''audit/publish-audit.jsonl''"

definition append_file :: "string \<Rightarrow> string \<Rightarrow> pub_host \<Rightarrow> pub_host" where
  "append_file p l h = h\<lparr>p_files := (p_files h)(p \<mapsto> coalesce (p_files h p) [] @ l)\<rparr>"

definition pub_audit :: "string \<Rightarrow> string \<Rightarrow> string \<Rightarrow> (string \<times> jsval) list \<Rightarrow> (pub_host, unit) prog" where
  "pub_audit stage out reason details =
     bind (gets (\<lambda>h. p_clock h (p_ticks h))) (\<lambda>ts.
     let line = json_text (JObj [(''ts'', JStr ts), (''stage'', JStr stage), (''outcome'', JStr out),
                                 (''reason'', JStr reason), (''details'', JObj details)]) @ ''\<newline>'' in
     seq (modify (\<lambda>h. append_file pub_audit_file line (h\<lparr>p_ticks := Suc (p_ticks h)\<rparr>)))
         (modify (\<lambda>h. h\<lparr>p_out := p_out h @ [trim line]\<rparr>)))"

definition guessContentType :: "string \<Rightarrow> string" where
  "guessContentType key =
     (if ends_with key ''.json'' then ''application/json''
      else if ends_with key ''.jws'' then ''application/jose''
      else if ends_with key ''.jsonl'' then ''text/plain''
      else ''application/octet-stream'')"

text \<open>A request to the store; when it is accepted, the store changes.\<close>

definition s3_send :: "event \<Rightarrow> (pub_host \<Rightarrow> pub_host) \<Rightarrow> (pub_host, unit) prog" where
  "s3_send ev change = Await ev (\<lambda>r. case r of RFail e \<Rightarrow> Raise e | _ \<Rightarrow> modify change)"

definition store_object :: "string \<Rightarrow> stored \<Rightarrow> pub_host \<Rightarrow> pub_host" where
  "store_object key obj h = h\<lparr>bucket := (bucket h)(key \<mapsto> obj)\<rparr>"

definition putRaw :: "string \<Rightarrow> string \<Rightarrow> string option \<Rightarrow> string \<Rightarrow> (pub_host, unit) prog" where
  "putRaw key body contentType cacheControl = s3_send (S3Put key)
     (store_object key \<lparr>ob_body = body, ob_type = coalesce contentType ''application/octet-stream'',
        ob_cache = cacheControl, ob_acl = ''public-read''\<rparr>)"

definition immutable_cache :: string where
  "immutable_cache = ''public, max-age=31536000, immutable''"

definition stable_cache :: string where
  "stable_cache = ''public, max-age=60, s-maxage=60''"

definition putObject :: "string \<Rightarrow> string \<Rightarrow> bool \<Rightarrow> string option \<Rightarrow> (pub_host, unit) prog" where
  "putObject src key immutable contentType =
     bind (gets (\<lambda>h. p_files h src)) (\<lambda>f. case f of
       None \<Rightarrow> Raise (JsErr ''ENOENT'')
     | Some body \<Rightarrow> putRaw key body contentType (if immutable then immutable_cache else stable_cache))"

text \<open>
  A copy takes the source's body, new metadata and its own access rule; a missing source is refused
  by the store.
\<close>

definition copy_object :: "string \<Rightarrow> string \<Rightarrow> pub_host \<Rightarrow> pub_host" where
  "copy_object src dst h = (case bucket h src of None \<Rightarrow> h
     | Some obj \<Rightarrow> store_object dst \<lparr>ob_body = ob_body obj, ob_type = guessContentType dst,
         ob_cache = stable_cache, ob_acl = ''public-read''\<rparr> h)"

definition maybeCopy :: "string \<Rightarrow> string \<Rightarrow> (pub_host, unit) prog" where
  "maybeCopy src dst =
     seq (s3_send (S3Copy src dst) (copy_object src dst))
         (pub_audit ''publish'' ''ACCEPT'' ''refreshed_stable'' [(''from'', JStr src), (''to'', JStr dst)])"

section \<open>What is published\<close>

record upload_spec =
  sp_src :: string
  sp_dst :: string
  sp_stable :: bool
  sp_contentType :: string
  sp_isPrefix :: bool
  sp_required :: bool

definition trust_spec :: "string \<Rightarrow> string \<Rightarrow> upload_spec" where
  "trust_spec prefix path = \<lparr>sp_src = path, sp_dst = prefix @ ''/'' @ path, sp_stable = True,
     sp_contentType = ''application/json'', sp_isPrefix = False, sp_required = True\<rparr>"

definition folder_spec :: "string \<Rightarrow> string \<Rightarrow> string \<Rightarrow> upload_spec" where
  "folder_spec src dst contentType = \<lparr>sp_src = src, sp_dst = dst, sp_stable = False,
     sp_contentType = contentType, sp_isPrefix = True, sp_required = False\<rparr>"

definition trust_paths :: "string list" where
  "trust_paths = [''trust/jwks.json'', ''trust/policy.json'', ''trust/statuslist.json'']"

definition upload_specs :: "string \<Rightarrow> upload_spec list" where
  "upload_specs prefix =
     map (trust_spec prefix) trust_paths
     @ [folder_spec ''examples/**/*.json'' (prefix @ ''/vectors/'') ''application/json'',
        folder_spec ''out/**/*.jws'' (prefix @ ''/vectors/'') ''application/jose'',
        folder_spec ''audit/**/*.jsonl'' (prefix @ ''/audit/'') ''text/plain'']"

record upload =
  up_src :: string
  up_key :: string
  up_stable :: bool
  up_contentType :: string

definition upload_of :: "upload_spec \<Rightarrow> string \<Rightarrow> upload" where
  "upload_of spec m = \<lparr>up_src = m,
     up_key = (if sp_isPrefix spec then strip_slashes (sp_dst spec) @ ''/'' @ basename m else sp_dst spec),
     up_stable = sp_stable spec, up_contentType = sp_contentType spec\<rparr>"

fun expand_specs :: "glob \<Rightarrow> (string \<Rightarrow> string option) \<Rightarrow> upload_spec list \<Rightarrow> exn + upload list" where
  "expand_specs glob files [] = Inr []"
| "expand_specs glob files (spec # specs) =
     (let matches = glob (sp_src spec) files in
      if matches = [] \<and> sp_required spec
      then Inl (JsErr (''Missing required legacy publication artifact: '' @ sp_src spec))
      else (case expand_specs glob files specs of
              Inl e \<Rightarrow> Inl e | Inr us \<Rightarrow> Inr (map (upload_of spec) matches @ us)))"

fun for_each :: "('b \<Rightarrow> ('s, unit) prog) \<Rightarrow> 'b list \<Rightarrow> ('s, unit) prog" where
  "for_each f [] = skip"
| "for_each f (x # xs) = seq (f x) (for_each f xs)"

definition upload_versioned :: "upload \<Rightarrow> (pub_host, unit) prog" where
  "upload_versioned u =
     seq (putObject (up_src u) (up_key u) True (Some (up_contentType u)))
         (pub_audit ''publish'' ''ACCEPT'' ''uploaded_versioned'' [(''key'', JStr (up_key u))])"

definition latest_key :: string where
  "latest_key = ''attestation-engine/latest.json''"

definition latest_body :: "string \<Rightarrow> string \<Rightarrow> string" where
  "latest_body sha prefix = json_pretty 0 (JObj [(''sha'', JStr sha), (''prefix'', JStr prefix)])"

definition stable_key :: "string \<Rightarrow> string \<Rightarrow> string" where
  "stable_key prefix key = replace_first key (prefix @ ''/'') []"

definition upload_audit_log :: "string \<Rightarrow> (pub_host, unit) prog" where
  "upload_audit_log prefix =
     bind (gets (\<lambda>h. p_files h pub_audit_file \<noteq> None)) (\<lambda>exists.
     do_if exists (putObject pub_audit_file (prefix @ ''/audit/publish-audit.jsonl'') True (Some ''text/plain'')))"

definition update_latest :: "string \<Rightarrow> string \<Rightarrow> (pub_host, unit) prog" where
  "update_latest sha prefix =
     seq (putRaw latest_key (latest_body sha prefix) (Some ''application/json'') ''max-age=30, s-maxage=30'')
         (pub_audit ''publish'' ''ACCEPT'' ''updated_latest'' [(''key'', JStr latest_key), (''sha'', JStr sha)])"

definition promote :: "string \<Rightarrow> upload \<Rightarrow> (pub_host, unit) prog" where
  "promote prefix u = maybeCopy (up_key u) (stable_key prefix (up_key u))"

definition pub_print :: "string \<Rightarrow> (pub_host, unit) prog" where
  "pub_print l = modify (\<lambda>h. h\<lparr>p_out := p_out h @ [l]\<rparr>)"

definition pub_main :: "glob \<Rightarrow> string \<Rightarrow> string \<Rightarrow> string \<Rightarrow> (pub_host, unit) prog" where
  "pub_main glob base sha prefix =
     bind (gets p_files) (\<lambda>files.
     case expand_specs glob files (upload_specs prefix) of
       Inl e \<Rightarrow> Raise e
     | Inr uploads \<Rightarrow>
         seq (for_each upload_versioned uploads)
        (seq (upload_audit_log prefix)
        (seq (update_latest sha prefix)
        (seq (for_each (promote prefix) (filter up_stable uploads))
        (seq (pub_print (''Pinned:  '' @ base @ ''/'' @ prefix @ ''/''))
        (seq (pub_print (''Latest:  '' @ base @ ''/attestation-engine/latest.json''))
             (pub_print (''Stable:  '' @ base @ ''/trust/jwks.json''))))))))"

section \<open>The process\<close>

text \<open>
  The exit status. \<open>TRUST_BASE_URL\<close> has a default, so the address built from the space's name in
  its place is never used. \<open>git\<close> is asked when the environment does not name the commit.
\<close>

definition default_base :: string where
  "default_base = ''https://hapis.sfo3.cdn.digitaloceanspaces.com''"

definition missing_setting :: "(string \<Rightarrow> string option) \<Rightarrow> string \<Rightarrow> bool" where
  "missing_setting e k = (or_default (e k) [] = [])"

definition pub_commit :: "pub_host \<Rightarrow> string option" where
  "pub_commit h = (if or_default (p_env h ''GITHUB_SHA'') [] \<noteq> [] then p_env h ''GITHUB_SHA''
     else map_option trim (p_git h))"

definition pub_prefix :: "string \<Rightarrow> string" where
  "pub_prefix sha = ''attestation-engine/'' @ sha"

definition publish :: "glob \<Rightarrow> (pub_host, int) prog" where
  "publish glob =
     bind (gets (\<lambda>h. h)) (\<lambda>h.
     if missing_setting (p_env h) ''DO_SPACE'' \<or> missing_setting (p_env h) ''DO_SPACES_KEY''
        \<or> missing_setting (p_env h) ''DO_SPACES_SECRET'' then Return 1
     else (case pub_commit h of
         None \<Rightarrow> Return 1
       | Some sha \<Rightarrow>
           try_catch
             (seq (pub_main glob (coalesce (p_env h ''TRUST_BASE_URL'') default_base) sha (pub_prefix sha))
                  (Return 0))
             (\<lambda>_. Return 1)))"

end
