(* ===== verification/PublishSafety.thy ===== *)
theory PublishSafety
  imports Publish
begin

text \<open>
  What publishing guarantees: the pointer never names a version whose artifacts are not stored,
  a successful run leaves pinned and stable copies that agree with the disk; and what it does not:
  files of the same name in the examples overwrite each other.
\<close>

section \<open>Hoare triples\<close>

definition triple :: "('s \<Rightarrow> bool) \<Rightarrow> ('s, unit) prog \<Rightarrow> ('s \<Rightarrow> bool) \<Rightarrow> ('s \<Rightarrow> bool) \<Rightarrow> bool" where
  "triple P p Q E = (\<forall>w s t. P s \<longrightarrow> wp w p (\<lambda>_ s' _. Q s') (\<lambda>_ s' _. E s') s t)"

lemma tripleD: "triple P p Q E \<Longrightarrow> P s \<Longrightarrow> wp w p (\<lambda>_ s' _. Q s') (\<lambda>_ s' _. E s') s t"
  by (simp add: triple_def)

lemma triple_seq: "triple P p R E \<Longrightarrow> triple R q Q E \<Longrightarrow> triple P (seq p q) Q E"
  unfolding triple_def wp_seq by (intro allI impI, rule wp_mono, blast) simp_all

lemma triple_conseq:
  "triple P p Q E \<Longrightarrow> (\<And>s. P' s \<Longrightarrow> P s) \<Longrightarrow> (\<And>s. Q s \<Longrightarrow> Q' s) \<Longrightarrow> (\<And>s. E s \<Longrightarrow> E' s) \<Longrightarrow> triple P' p Q' E'"
  unfolding triple_def by (intro allI impI, rule wp_mono [where Q = "\<lambda>_ s' _. Q s'" and E = "\<lambda>_ s' _. E s'"]) simp_all

lemma triple_each:
  "(\<And>x. x \<in> set xs \<Longrightarrow> triple I (f x) I E) \<Longrightarrow> triple I (for_each f xs) I E"
proof (induction xs)
  case Nil
  then show ?case by (simp add: triple_def wp_rules)
next
  case (Cons x xs)
  then show ?case by (auto intro: triple_seq)
qed

lemma prog_bind_assoc: "bind (bind p f) g = bind p (\<lambda>a. bind (f a) g)"
  by (induction p) simp_all

lemma for_each_append: "for_each f (xs @ ys) = seq (for_each f xs) (for_each f ys)"
  by (induction xs) (simp_all add: seq_def skip_def prog_bind_assoc)

lemma triple_send:
  "(\<And>s. P s \<Longrightarrow> Q (change s)) \<Longrightarrow> (\<And>s. P s \<Longrightarrow> E s) \<Longrightarrow> triple P (s3_send ev change) Q E"
  by (auto simp: triple_def s3_send_def wp_rules split: reply.split)

lemma triple_modify: "(\<And>s. P s \<Longrightarrow> Q (f s)) \<Longrightarrow> triple P (modify f) Q E"
  by (simp add: triple_def wp_rules)

text \<open>What the audit writes: its file, the clock and the console.\<close>

definition audit_free :: "(pub_host \<Rightarrow> bool) \<Rightarrow> bool" where
  "audit_free P = (\<forall>s f n out. P s \<longrightarrow> P (s\<lparr>p_files := (p_files s)(pub_audit_file := f), p_ticks := n, p_out := out\<rparr>))"

lemma triple_audit:
  assumes "audit_free P"
  shows "triple P (pub_audit stage out reason details) P E"
proof -
  have "P (append_file pub_audit_file l (s\<lparr>p_ticks := n\<rparr>)\<lparr>p_out := os\<rparr>)" if "P s" for s l n os
  proof -
    have "append_file pub_audit_file l (s\<lparr>p_ticks := n\<rparr>)\<lparr>p_out := os\<rparr>
        = s\<lparr>p_files := (p_files s)(pub_audit_file := Some (coalesce (p_files s pub_audit_file) [] @ l)), p_ticks := n, p_out := os\<rparr>"
      by (simp add: append_file_def)
    then show ?thesis using assms that unfolding audit_free_def by metis
  qed
  then show ?thesis by (simp add: triple_def pub_audit_def wp_rules Let_def append_file_def)
qed

section \<open>The artifacts of a version\<close>

definition pinned_key :: "string \<Rightarrow> string \<Rightarrow> string" where
  "pinned_key prefix path = prefix @ ''/'' @ path"

text \<open>The disk still holds the trust artifacts it held; the store holds them under the version.\<close>

definition disk_holds :: "(string \<Rightarrow> string option) \<Rightarrow> pub_host \<Rightarrow> bool" where
  "disk_holds F h = (\<forall>p \<in> set trust_paths. F p \<noteq> None \<and> p_files h p = F p)"

definition artifact :: "(string \<Rightarrow> string option) \<Rightarrow> string \<Rightarrow> string \<Rightarrow> stored" where
  "artifact F p cache = \<lparr>ob_body = the (F p), ob_type = ''application/json'', ob_cache = cache,
     ob_acl = ''public-read''\<rparr>"

definition holds_at :: "(string \<Rightarrow> string option) \<Rightarrow> (string \<Rightarrow> string) \<Rightarrow> string \<Rightarrow> string list \<Rightarrow> pub_host \<Rightarrow> bool" where
  "holds_at F key cache ps h = (\<forall>p \<in> set ps. bucket h (key p) = Some (artifact F p cache))"

definition before_pointer :: "(string \<Rightarrow> string option) \<Rightarrow> string \<Rightarrow> stored option \<Rightarrow> string list \<Rightarrow> pub_host \<Rightarrow> bool" where
  "before_pointer F prefix old ps h = (disk_holds F h
     \<and> holds_at F (pinned_key prefix) immutable_cache ps h \<and> bucket h latest_key = old)"

definition after_pointer :: "(string \<Rightarrow> string option) \<Rightarrow> string \<Rightarrow> string \<Rightarrow> string list \<Rightarrow> pub_host \<Rightarrow> bool" where
  "after_pointer F sha prefix qs h = (holds_at F (pinned_key prefix) immutable_cache trust_paths h
     \<and> holds_at F (\<lambda>p. p) stable_cache qs h
     \<and> map_option ob_body (bucket h latest_key) = Some (latest_body sha prefix)
     \<and> map_option ob_acl (bucket h latest_key) = Some ''public-read'')"

definition pointer_safe ::
    "(string \<Rightarrow> string option) \<Rightarrow> string \<Rightarrow> string \<Rightarrow> stored option \<Rightarrow> pub_host \<Rightarrow> bool" where
  "pointer_safe F sha prefix old h = (bucket h latest_key \<noteq> old \<longrightarrow>
     holds_at F (pinned_key prefix) immutable_cache trust_paths h
     \<and> map_option ob_body (bucket h latest_key) = Some (latest_body sha prefix))"

lemma audit_free_before [simp]: "audit_free (before_pointer F prefix old ps)"
  by (simp add: audit_free_def before_pointer_def disk_holds_def holds_at_def trust_paths_def pub_audit_file_def)

lemma audit_free_after [simp]: "audit_free (after_pointer F sha prefix qs)"
  by (simp add: audit_free_def after_pointer_def holds_at_def)

lemma before_safe: "before_pointer F prefix old ps h \<Longrightarrow> pointer_safe F sha prefix old h"
  by (simp add: before_pointer_def pointer_safe_def)

lemma after_safe: "after_pointer F sha prefix qs h \<Longrightarrow> pointer_safe F sha prefix old h"
  by (simp add: after_pointer_def pointer_safe_def)

text \<open>Uploading one of the three artifacts, and any other object.\<close>

definition foreign :: "string \<Rightarrow> string \<Rightarrow> bool" where
  "foreign prefix key = (key \<noteq> latest_key \<and> (\<forall>p \<in> set trust_paths. key \<noteq> pinned_key prefix p))"

lemma triple_put:
  "(\<And>s body. P s \<Longrightarrow> p_files s src = Some body \<Longrightarrow> Q (store_object key \<lparr>ob_body = body,
       ob_type = coalesce ct ''application/octet-stream'',
       ob_cache = (if imm then immutable_cache else stable_cache), ob_acl = ''public-read''\<rparr> s)) \<Longrightarrow>
   (\<And>s. P s \<Longrightarrow> E s) \<Longrightarrow> triple P (putObject src key imm ct) Q E"
  by (auto simp: triple_def putObject_def putRaw_def wp_rules s3_send_def split: option.split reply.split)

lemma upload_trust:
  assumes "p \<in> set trust_paths" "pinned_key prefix p \<noteq> latest_key"
  shows "triple (before_pointer F prefix old ps) (upload_versioned (upload_of (trust_spec prefix p) p))
     (before_pointer F prefix old (p # ps)) (pointer_safe F sha prefix old)"
  unfolding upload_versioned_def
  by (rule triple_seq, rule triple_put [where Q = "before_pointer F prefix old (p # ps)"])
    (use assms in \<open>auto simp: before_safe triple_audit upload_of_def trust_spec_def before_pointer_def store_object_def
       disk_holds_def holds_at_def artifact_def pinned_key_def\<close>)

lemma put_foreign:
  "foreign prefix key \<Longrightarrow> ps \<subseteq> set trust_paths \<Longrightarrow> set qs = ps \<Longrightarrow>
   triple (before_pointer F prefix old qs) (putObject src key imm ct)
     (before_pointer F prefix old qs) (pointer_safe F sha prefix old)"
  by (rule triple_put) (auto simp: before_safe before_pointer_def store_object_def
       disk_holds_def holds_at_def foreign_def subset_iff)

lemma upload_foreign:
  "foreign prefix (up_key u) \<Longrightarrow> triple (before_pointer F prefix old trust_paths) (upload_versioned u)
     (before_pointer F prefix old trust_paths) (pointer_safe F sha prefix old)"
  unfolding upload_versioned_def
  by (rule triple_seq, rule put_foreign, assumption) (simp_all add: triple_audit)

lemma upload_log:
  "foreign prefix (prefix @ ''/audit/publish-audit.jsonl'') \<Longrightarrow>
   triple (before_pointer F prefix old trust_paths) (upload_audit_log prefix)
     (before_pointer F prefix old trust_paths) (pointer_safe F sha prefix old)"
  using put_foreign [of prefix "prefix @ ''/audit/publish-audit.jsonl''" "set trust_paths" trust_paths F old]
  unfolding triple_def upload_audit_log_def by (auto simp: wp_rules)

lemma move_pointer:
  assumes "\<forall>p \<in> set trust_paths. pinned_key prefix p \<noteq> latest_key"
  shows "triple (before_pointer F prefix old trust_paths) (update_latest sha prefix)
     (after_pointer F sha prefix []) (pointer_safe F sha prefix old)"
  unfolding update_latest_def putRaw_def
  by (rule triple_seq, rule triple_send [where Q = "after_pointer F sha prefix []"])
    (use assms in \<open>auto simp: before_safe triple_audit before_pointer_def after_pointer_def store_object_def holds_at_def\<close>)

lemma promote_trust:
  assumes "p \<in> set trust_paths" "\<forall>q \<in> set trust_paths. pinned_key prefix q \<noteq> p" "p \<noteq> latest_key"
  shows "triple (after_pointer F sha prefix qs) (promote prefix (upload_of (trust_spec prefix p) p))
     (after_pointer F sha prefix (p # qs)) (pointer_safe F sha prefix old)"
proof -
  have key: "up_key (upload_of (trust_spec prefix p) p) = pinned_key prefix p"
    by (simp add: upload_of_def trust_spec_def pinned_key_def)
  have stable: "stable_key prefix (pinned_key prefix p) = p"
    using replace_first_prefix [of "prefix @ ''/''" p "[]"] by (simp add: stable_key_def pinned_key_def)
  have guess: "guessContentType p = ''application/json''"
    using assms(1) unfolding trust_paths_def by (auto simp: guessContentType_def ends_with_def)
  have copy: "copy_object (pinned_key prefix p) p h = store_object p (artifact F p stable_cache) h"
    if "after_pointer F sha prefix qs h" for h
    using that assms(1) by (simp add: after_pointer_def holds_at_def copy_object_def artifact_def guess)
  have "after_pointer F sha prefix (p # qs) (store_object p (artifact F p stable_cache) h)"
    if "after_pointer F sha prefix qs h" for h
    using that assms by (auto simp: after_pointer_def holds_at_def store_object_def)
  then show ?thesis
    unfolding promote_def maybeCopy_def key stable
    by (intro triple_seq [OF triple_send [where Q = "after_pointer F sha prefix (p # qs)"]])
      (simp_all add: copy triple_audit after_safe)
qed

section \<open>A whole run\<close>

text \<open>
  The three patterns of the script that are plain paths match the file of that name, if there is one;
  nothing is assumed of the patterns with wildcards.
\<close>

definition globs_literally :: "glob \<Rightarrow> bool" where
  "globs_literally glob = (\<forall>p \<in> set trust_paths. \<forall>F. glob p F = (if F p = None then [] else [p]))"

definition folder_upload :: "string \<Rightarrow> upload \<Rightarrow> bool" where
  "folder_upload prefix u = (\<not> up_stable u \<and> (\<exists>d m. (d = ''vectors'' \<or> d = ''audit'')
     \<and> up_key u = prefix @ ''/'' @ d @ ''/'' @ m))"

lemma strip_folder: "strip_slashes (prefix @ ''/vectors/'') = prefix @ ''/vectors''"
  "strip_slashes (prefix @ ''/audit/'') = prefix @ ''/audit''"
proof -
  have "strip_slashes ((prefix @ ''/vectors'') @ [CHR ''/'']) = prefix @ ''/vectors''"
    "strip_slashes ((prefix @ ''/audit'') @ [CHR ''/'']) = prefix @ ''/audit''"
    unfolding strip_slashes_def stripR_snoc by (simp_all add: stripR_id)
  then show "strip_slashes (prefix @ ''/vectors/'') = prefix @ ''/vectors''"
    "strip_slashes (prefix @ ''/audit/'') = prefix @ ''/audit''" by simp_all
qed

lemma folder_upload_of:
  "d = ''vectors'' \<or> d = ''audit'' \<Longrightarrow> folder_upload prefix (upload_of (folder_spec src (prefix @ ''/'' @ d @ ''/'') ct) m)"
  using strip_folder [of prefix]
  by (auto simp: folder_upload_def upload_of_def folder_spec_def intro: exI [of _ "''vectors''"] exI [of _ "''audit''"])

lemma expand_optional:
  "\<not> sp_required spec \<Longrightarrow> expand_specs glob F specs = Inr us \<Longrightarrow>
     expand_specs glob F (spec # specs) = Inr (map (upload_of spec) (glob (sp_src spec) F) @ us)"
  by (simp add: Let_def)

lemma folder_uploads:
  assumes "expand_specs glob F [folder_spec a (prefix @ ''/vectors/'') x, folder_spec b (prefix @ ''/vectors/'') y,
     folder_spec c (prefix @ ''/audit/'') z] = Inr us" "u \<in> set us"
  shows "folder_upload prefix u"
proof -
  have "\<not> sp_required (folder_spec s d t)" for s d t by (simp add: folder_spec_def)
  then have "us = map (upload_of (folder_spec a (prefix @ ''/vectors/'') x)) (glob a F)
      @ map (upload_of (folder_spec b (prefix @ ''/vectors/'') y)) (glob b F)
      @ map (upload_of (folder_spec c (prefix @ ''/audit/'') z)) (glob c F)"
    using assms(1) by (simp add: expand_optional folder_spec_def)
  with assms(2) show ?thesis
    using folder_upload_of [of "''vectors''" prefix] folder_upload_of [of "''audit''" prefix] by auto
qed

lemma expand_literal:
  assumes "glob p F = (if F p = None then [] else [p])"
    and "expand_specs glob F (trust_spec prefix p # specs) = Inr us"
  shows "\<exists>us'. expand_specs glob F specs = Inr us' \<and> us = upload_of (trust_spec prefix p) p # us' \<and> F p \<noteq> None"
proof -
  have spec: "sp_src (trust_spec prefix p) = p" "sp_required (trust_spec prefix p)"
    by (simp_all add: trust_spec_def)
  show ?thesis
  proof (cases "F p")
    case None
    then show ?thesis using assms spec by (simp add: Let_def)
  next
    case (Some body)
    then show ?thesis using assms spec by (cases "expand_specs glob F specs") (simp_all add: Let_def)
  qed
qed

lemma expand_literals:
  assumes "\<And>p. p \<in> set ps \<Longrightarrow> glob p F = (if F p = None then [] else [p])"
    and "expand_specs glob F (map (trust_spec prefix) ps @ specs) = Inr us"
  shows "\<exists>rest. expand_specs glob F specs = Inr rest \<and> us = map (\<lambda>p. upload_of (trust_spec prefix p) p) ps @ rest
    \<and> (\<forall>p \<in> set ps. F p \<noteq> None)"
  using assms
proof (induction ps arbitrary: us)
  case (Cons p ps)
  from expand_literal [of glob p F prefix "map (trust_spec prefix) ps @ specs" us] Cons.prems
  obtain us' where "expand_specs glob F (map (trust_spec prefix) ps @ specs) = Inr us'"
    "us = upload_of (trust_spec prefix p) p # us'" "F p \<noteq> None" by auto
  with Cons.IH [of us'] Cons.prems(1) show ?case by auto
qed simp

lemma expand_trust:
  assumes "globs_literally glob" "expand_specs glob F (upload_specs prefix) = Inr us"
  shows "\<exists>rest. us = map (\<lambda>p. upload_of (trust_spec prefix p) p) trust_paths @ rest
    \<and> (\<forall>p \<in> set trust_paths. F p \<noteq> None) \<and> (\<forall>u \<in> set rest. folder_upload prefix u)"
proof -
  have "glob p F = (if F p = None then [] else [p])" if "p \<in> set trust_paths" for p
    using assms(1) that unfolding globs_literally_def by blast
  from expand_literals [of trust_paths glob F prefix, OF this assms(2) [unfolded upload_specs_def]]
  obtain rest where rest: "expand_specs glob F [folder_spec ''examples/**/*.json'' (prefix @ ''/vectors/'') ''application/json'',
        folder_spec ''out/**/*.jws'' (prefix @ ''/vectors/'') ''application/jose'',
        folder_spec ''audit/**/*.jsonl'' (prefix @ ''/audit/'') ''text/plain''] = Inr rest"
    and us: "us = map (\<lambda>p. upload_of (trust_spec prefix p) p) trust_paths @ rest" "\<forall>p \<in> set trust_paths. F p \<noteq> None"
    by blast
  have "\<forall>u \<in> set rest. folder_upload prefix u" using folder_uploads [OF rest] by blast
  with us show ?thesis by blast
qed

section \<open>The run\<close>

text \<open>The keys of a version: no object of a run but the three artifacts is stored under their keys.\<close>

lemma slash_keys: "pub_prefix sha @ ''/'' @ p \<noteq> latest_key"
proof
  assume "pub_prefix sha @ ''/'' @ p = latest_key"
  then have "sha @ ''/'' @ p = ''latest.json''" by (simp add: pub_prefix_def latest_key_def)
  moreover have "CHR ''/'' \<in> set (sha @ ''/'' @ p)" by simp
  ultimately have "CHR ''/'' \<in> set ''latest.json''" by (simp only:)
  then show False by simp
qed

lemma pinned_not_latest: "p \<in> set trust_paths \<Longrightarrow> pinned_key (pub_prefix sha) p \<noteq> latest_key"
  using slash_keys [of sha p] by (auto simp: pinned_key_def trust_paths_def)

lemma folder_foreign:
  assumes "d = ''vectors'' \<or> d = ''audit''"
  shows "foreign (pub_prefix sha) (pub_prefix sha @ ''/'' @ d @ ''/'' @ m)"
  using assms slash_keys [of sha "d @ ''/'' @ m"]
  by (auto simp: foreign_def pinned_key_def trust_paths_def)

lemma pinned_not_stable:
  "p \<in> set trust_paths \<Longrightarrow> q \<in> set trust_paths \<Longrightarrow> pinned_key (pub_prefix sha) q \<noteq> p"
  by (auto simp: pinned_key_def pub_prefix_def trust_paths_def)

lemma trust_not_latest: "p \<in> set trust_paths \<Longrightarrow> p \<noteq> latest_key"
  by (auto simp: latest_key_def trust_paths_def)

lemma filter_trust:
  assumes "\<forall>u \<in> set rest. folder_upload prefix u"
  shows "filter up_stable (map (\<lambda>p. upload_of (trust_spec prefix p) p) ps @ rest)
    = map (\<lambda>p. upload_of (trust_spec prefix p) p) ps"
proof -
  have "filter up_stable (map (\<lambda>p. upload_of (trust_spec prefix p) p) ps) = map (\<lambda>p. upload_of (trust_spec prefix p) p) ps"
    by (induction ps) (simp_all add: upload_of_def trust_spec_def)
  moreover have "filter up_stable rest = []" using assms by (simp add: filter_empty_conv folder_upload_def)
  ultimately show ?thesis by simp
qed

text \<open>A list of artifacts is uploaded, or promoted, one by one.\<close>

lemma each_in_turn:
  assumes "\<And>p ps. p \<in> set qs \<Longrightarrow> triple (I ps) (f p) (I (p # ps)) E"
  shows "triple (I ps) (for_each f qs) (I (rev qs @ ps)) E"
  using assms
proof (induction qs arbitrary: ps)
  case Nil
  then show ?case by (simp add: triple_def wp_rules)
next
  case (Cons q qs)
  have "triple (I ps) (f q) (I (q # ps)) E" using Cons.prems by simp
  moreover have "triple (I (q # ps)) (for_each f qs) (I (rev qs @ (q # ps))) E" using Cons by simp
  ultimately show ?case by (simp add: triple_seq)
qed

lemma for_each_map: "for_each f (map g xs) = for_each (\<lambda>x. f (g x)) xs"
  by (induction xs) simp_all

lemma rev_paths:
  "before_pointer F prefix old (rev trust_paths @ []) = before_pointer F prefix old trust_paths"
  "after_pointer F sha prefix (rev trust_paths @ []) = after_pointer F sha prefix trust_paths"
  by (rule ext, simp add: before_pointer_def after_pointer_def holds_at_def)+

lemma upload_all:
  assumes "\<forall>u \<in> set rest. folder_upload (pub_prefix sha) u"
  shows "triple (before_pointer F (pub_prefix sha) old [])
     (for_each upload_versioned (map (\<lambda>p. upload_of (trust_spec (pub_prefix sha) p) p) trust_paths @ rest))
     (before_pointer F (pub_prefix sha) old trust_paths) (pointer_safe F sha (pub_prefix sha) old)"
proof -
  have "triple (before_pointer F (pub_prefix sha) old [])
     (for_each (\<lambda>p. upload_versioned (upload_of (trust_spec (pub_prefix sha) p) p)) trust_paths)
     (before_pointer F (pub_prefix sha) old (rev trust_paths @ [])) (pointer_safe F sha (pub_prefix sha) old)"
    by (rule each_in_turn) (simp add: upload_trust pinned_not_latest)
  moreover have "triple (before_pointer F (pub_prefix sha) old trust_paths) (for_each upload_versioned rest)
     (before_pointer F (pub_prefix sha) old trust_paths) (pointer_safe F sha (pub_prefix sha) old)"
    using assms folder_foreign by (intro triple_each upload_foreign) (force simp: folder_upload_def)
  ultimately show ?thesis unfolding for_each_append for_each_map rev_paths by (rule triple_seq)
qed

lemma promote_all:
  "triple (after_pointer F sha (pub_prefix sha) [])
     (for_each (promote (pub_prefix sha)) (map (\<lambda>p. upload_of (trust_spec (pub_prefix sha) p) p) trust_paths))
     (after_pointer F sha (pub_prefix sha) trust_paths) (pointer_safe F sha (pub_prefix sha) old)"
proof -
  have "triple (after_pointer F sha (pub_prefix sha) [])
     (for_each (\<lambda>p. promote (pub_prefix sha) (upload_of (trust_spec (pub_prefix sha) p) p)) trust_paths)
     (after_pointer F sha (pub_prefix sha) (rev trust_paths @ [])) (pointer_safe F sha (pub_prefix sha) old)"
    by (rule each_in_turn) (simp add: promote_trust pinned_not_stable trust_not_latest)
  then show ?thesis unfolding for_each_map rev_paths .
qed

lemma triple_print:
  "triple (after_pointer F sha prefix qs) (pub_print l) (after_pointer F sha prefix qs) E"
  unfolding pub_print_def by (rule triple_modify) (simp add: after_pointer_def holds_at_def)

lemma main_triple:
  assumes "globs_literally glob" "expand_specs glob F (upload_specs (pub_prefix sha)) = Inr us"
  shows "triple (\<lambda>h. p_files h = F \<and> bucket h latest_key = old) (pub_main glob base sha (pub_prefix sha))
     (after_pointer F sha (pub_prefix sha) trust_paths) (pointer_safe F sha (pub_prefix sha) old)"
proof -
  obtain rest where us: "us = map (\<lambda>p. upload_of (trust_spec (pub_prefix sha) p) p) trust_paths @ rest"
    and F: "\<forall>p \<in> set trust_paths. F p \<noteq> None" and rest: "\<forall>u \<in> set rest. folder_upload (pub_prefix sha) u"
    using expand_trust [OF assms] by blast
  have "foreign (pub_prefix sha) (pub_prefix sha @ ''/audit/publish-audit.jsonl'')"
    using folder_foreign [of "''audit''" sha "''publish-audit.jsonl''"] by simp
  then have body: "triple (before_pointer F (pub_prefix sha) old [])
      (seq (for_each upload_versioned us)
        (seq (upload_audit_log (pub_prefix sha))
        (seq (update_latest sha (pub_prefix sha))
        (seq (for_each (promote (pub_prefix sha)) (filter up_stable us))
        (seq (pub_print (''Pinned:  '' @ base @ ''/'' @ pub_prefix sha @ ''/''))
        (seq (pub_print (''Latest:  '' @ base @ ''/attestation-engine/latest.json''))
             (pub_print (''Stable:  '' @ base @ ''/trust/jwks.json''))))))))
      (after_pointer F sha (pub_prefix sha) trust_paths) (pointer_safe F sha (pub_prefix sha) old)"
    unfolding us filter_trust [OF rest]
    by (intro triple_seq [OF upload_all [OF rest]] triple_seq [OF upload_log] triple_seq [OF move_pointer]
        triple_seq [OF promote_all] triple_seq [OF triple_print] triple_print) (simp_all add: pinned_not_latest)
  show ?thesis
    unfolding triple_def
  proof (intro allI impI)
    fix w and h :: pub_host and t assume h: "p_files h = F \<and> bucket h latest_key = old"
    then have "before_pointer F (pub_prefix sha) old [] h"
      using F by (simp add: before_pointer_def disk_holds_def holds_at_def)
    from tripleD [OF body this] h assms(2)
    show "wp w (pub_main glob base sha (pub_prefix sha)) (\<lambda>_ s' _. after_pointer F sha (pub_prefix sha) trust_paths s')
        (\<lambda>_ s' _. pointer_safe F sha (pub_prefix sha) old s') h t"
      by (simp add: pub_main_def wp_bind wp_gets)
  qed
qed

lemma publish_main:
  assumes "globs_literally glob" "pub_commit h = Some sha"
  shows "wp w (publish glob)
     (\<lambda>n h' _. pointer_safe (p_files h) sha (pub_prefix sha) (bucket h latest_key) h' \<and> n \<in> {0, 1}
        \<and> (n = 0 \<longrightarrow> after_pointer (p_files h) sha (pub_prefix sha) trust_paths h')) (\<lambda>_ _ _. False) h t"
proof -
  let ?main = "pub_main glob (coalesce (p_env h ''TRUST_BASE_URL'') default_base) sha (pub_prefix sha)"
  let ?safe = "pointer_safe (p_files h) sha (pub_prefix sha) (bucket h latest_key)"
  have here: "?safe h" by (simp add: pointer_safe_def)
  have main: "wp w ?main (\<lambda>_ s' _. after_pointer (p_files h) sha (pub_prefix sha) trust_paths s') (\<lambda>_ s' _. ?safe s') h t"
  proof (cases "expand_specs glob (p_files h) (upload_specs (pub_prefix sha))")
    case (Inl e)
    then show ?thesis using here by (simp add: pub_main_def wp_rules)
  next
    case (Inr us)
    from tripleD [OF main_triple [OF assms(1) Inr]] show ?thesis by simp
  qed
  have "wp w (seq ?main (Return 0)) (\<lambda>n h' _. ?safe h' \<and> n \<in> {0, 1}
        \<and> (n = (0 :: int) \<longrightarrow> after_pointer (p_files h) sha (pub_prefix sha) trust_paths h')) (\<lambda>_ s' _. ?safe s') h t"
    unfolding wp_seq by (rule wp_mono [OF main]) (simp_all add: wp_prims after_safe)
  then have "wp w (try_catch (seq ?main (Return 0)) (\<lambda>_. Return 1)) (\<lambda>n h' _. ?safe h' \<and> n \<in> {0, 1}
        \<and> (n = (0 :: int) \<longrightarrow> after_pointer (p_files h) sha (pub_prefix sha) trust_paths h')) (\<lambda>_ _ _. False) h t"
    unfolding wp_try_catch by (rule wp_mono) (simp_all add: wp_prims)
  then show ?thesis
    using assms(2) here by (simp add: publish_def wp_bind wp_gets wp_if wp_prims)
qed

text \<open>
  C9. Publishing never leaves a dangling pointer. Whichever requests the store refuses and whatever
  the disk lacks, a run ends with exit status 0 or 1. If it has changed \<open>latest.json\<close> or exits
  with 0, then \<open>latest.json\<close> names this commit and its prefix, and all three trust artifacts are
  stored under that prefix as they were on the disk, publicly readable and marked immutable; so
  with status 1 the pointer is either the old object or one that names this commit with its
  artifacts in place. With status 0 the stable copies are the same documents. Of \<open>glob\<close> only the three
  plain paths of the script are assumed to match the file of that name.
\<close>

theorem publish_pointer_never_dangles:
  assumes "globs_literally glob" "pub_commit h = Some sha" "run w (publish glob) h t = (r, h', t')"
  shows "r \<in> {Inr 0, Inr 1}
    \<and> (bucket h' latest_key \<noteq> bucket h latest_key \<or> r = Inr 0 \<longrightarrow> (\<forall>p \<in> set trust_paths.
         bucket h' (pub_prefix sha @ ''/'' @ p) = Some \<lparr>ob_body = the (p_files h p),
            ob_type = ''application/json'', ob_cache = ''public, max-age=31536000, immutable'', ob_acl = ''public-read''\<rparr>)
         \<and> map_option ob_body (bucket h' latest_key) = Some (latest_body sha (pub_prefix sha)))
    \<and> (r = Inr 0 \<longrightarrow> (\<forall>p \<in> set trust_paths. bucket h' p = Some \<lparr>ob_body = the (p_files h p),
            ob_type = ''application/json'', ob_cache = ''public, max-age=60, s-maxage=60'', ob_acl = ''public-read''\<rparr>))"
proof -
  have holds: "(\<forall>p \<in> set trust_paths. bucket h' (key p) = Some \<lparr>ob_body = the (p_files h p),
            ob_type = ''application/json'', ob_cache = c, ob_acl = ''public-read''\<rparr>) = holds_at (p_files h) key c trust_paths h'" for key c
    by (simp add: holds_at_def artifact_def)
  from publish_main [OF assms(1,2), of w t] assms(3) obtain n where n: "r = Inr n" "n \<in> {0, 1}"
    "pointer_safe (p_files h) sha (pub_prefix sha) (bucket h latest_key) h'"
    "n = 0 \<longrightarrow> after_pointer (p_files h) sha (pub_prefix sha) trust_paths h'"
    by (cases r) (simp_all add: wp_def)
  then show ?thesis
    unfolding holds immutable_cache_def [symmetric] stable_cache_def [symmetric] pinned_key_def [symmetric]
    by (auto simp: pointer_safe_def after_pointer_def)
qed

text \<open>
  A missing trust artifact stops the publication before anything is changed: the status is 1,
  no request is sent, and the store, the disk and the pointer are as before.
\<close>

theorem publish_missing_artifact:
  assumes "globs_literally glob" "p \<in> set trust_paths" "p_files h p = None"
  shows "run w (publish glob) h t = (Inr 1, h, t)"
proof -
  have "\<exists>e. expand_specs glob (p_files h) (upload_specs prefix) = Inl e" for prefix
  proof (cases "expand_specs glob (p_files h) (upload_specs prefix)")
    case (Inr us)
    from expand_trust [OF assms(1) Inr] assms(2,3) show ?thesis by blast
  qed simp
  then obtain f where "\<And>prefix. expand_specs glob (p_files h) (upload_specs prefix) = Inl (f prefix)" by metis
  then show ?thesis
    by (simp add: publish_def pub_main_def run_rules split: option.split)
qed

section \<open>Success\<close>

text \<open>Parts of the run that keep \<open>I\<close> and do not throw.\<close>

definition runs_through :: "world \<Rightarrow> ('s \<Rightarrow> bool) \<Rightarrow> ('s, unit) prog \<Rightarrow> bool" where
  "runs_through w I p = (\<forall>s t. I s \<longrightarrow> wp w p (\<lambda>_ s' _. I s') (\<lambda>_ _ _. False) s t)"

lemma through_seq: "runs_through w I p \<Longrightarrow> runs_through w I q \<Longrightarrow> runs_through w I (seq p q)"
  unfolding runs_through_def wp_seq
  by (intro allI impI, rule wp_mono [where Q = "\<lambda>_ s' _. I s'" and E = "\<lambda>_ _ _. False"]) simp_all

lemma through_each: "(\<And>x. x \<in> set xs \<Longrightarrow> runs_through w I (f x)) \<Longrightarrow> runs_through w I (for_each f xs)"
  by (induction xs) (auto simp: through_seq, simp add: runs_through_def wp_rules)

text \<open>The files a run will read are on the disk.\<close>

definition readable :: "string set \<Rightarrow> pub_host \<Rightarrow> bool" where
  "readable ps h = (\<forall>p \<in> ps. p_files h p \<noteq> None)"

lemma through_audit: "runs_through w (readable ps) (pub_audit stage out reason details)"
  by (simp add: runs_through_def pub_audit_def wp_rules Let_def append_file_def readable_def)

lemma through_send:
  "(\<And>t e. w t ev \<noteq> RFail e) \<Longrightarrow> (\<And>h. p_files (change h) = p_files h) \<Longrightarrow> runs_through w (readable ps) (s3_send ev change)"
  by (auto simp: runs_through_def s3_send_def wp_rules readable_def split: reply.split)

lemma store_files: "p_files (store_object k ob h) = p_files h" "p_files (copy_object a b h) = p_files h"
  by (simp_all add: store_object_def copy_object_def split: option.split)

lemma through_put:
  assumes "\<And>t e. w t (S3Put key) \<noteq> RFail e" "src \<in> ps"
  shows "runs_through w (readable ps) (putObject src key imm ct)"
proof -
  have "wp w (putRaw key body ct' c) (\<lambda>_ s' _. readable ps s') (\<lambda>_ _ _. False) s t" if "readable ps s" for body ct' c s t
    using through_send [of w "S3Put key" _ ps, OF assms(1) store_files(1)] that by (simp add: runs_through_def putRaw_def)
  then show ?thesis
    using assms(2) by (auto simp: runs_through_def putObject_def wp_bind wp_gets readable_def split: option.split)
qed

lemma through_log:
  assumes "\<And>t ev e. w t ev \<noteq> RFail e"
  shows "runs_through w (readable ps) (upload_audit_log prefix)"
proof -
  have "wp w (putObject pub_audit_file key True ct) (\<lambda>_ s' _. readable ps s') (\<lambda>_ _ _. False) s t"
    if "p_files s pub_audit_file \<noteq> None" "readable ps s" for key ct s t
  proof (rule wp_mono [where Q = "\<lambda>_ s' _. readable (insert pub_audit_file ps) s'" and E = "\<lambda>_ _ _. False"])
    have "readable (insert pub_audit_file ps) s" using that by (simp add: readable_def)
    then show "wp w (putObject pub_audit_file key True ct) (\<lambda>_ s' _. readable (insert pub_audit_file ps) s')
        (\<lambda>_ _ _. False) s t"
      using through_put [of w key pub_audit_file "insert pub_audit_file ps" True ct] assms
      by (simp add: runs_through_def)
  qed (simp_all add: readable_def)
  then show ?thesis by (simp add: runs_through_def upload_audit_log_def wp_bind wp_gets wp_do_if)
qed

lemma through_print: "runs_through w (readable ps) (pub_print l)"
  by (simp add: runs_through_def pub_print_def wp_rules readable_def)

text \<open>A run on a complete disk with a willing store succeeds.\<close>

lemma expand_total:
  "(\<And>spec. spec \<in> set specs \<Longrightarrow> sp_required spec \<Longrightarrow> glob (sp_src spec) F \<noteq> []) \<Longrightarrow>
   \<exists>us. expand_specs glob F specs = Inr us \<and> (\<forall>u \<in> set us. \<exists>spec \<in> set specs. up_src u \<in> set (glob (sp_src spec) F))"
proof (induction specs)
  case (Cons spec specs)
  then obtain us where "expand_specs glob F specs = Inr us"
    "\<forall>u \<in> set us. \<exists>spec \<in> set specs. up_src u \<in> set (glob (sp_src spec) F)" by auto
  then show ?case using Cons.prems [of spec] by (auto simp: Let_def upload_of_def)
qed simp

lemma publish_succeeds:
  assumes "globs_literally glob" "pub_commit h = Some sha"
    and files: "\<And>pat m. m \<in> set (glob pat (p_files h)) \<Longrightarrow> p_files h m \<noteq> None" "\<And>p. p \<in> set trust_paths \<Longrightarrow> p_files h p \<noteq> None"
    and settings: "\<not> missing_setting (p_env h) ''DO_SPACE''" "\<not> missing_setting (p_env h) ''DO_SPACES_KEY''"
      "\<not> missing_setting (p_env h) ''DO_SPACES_SECRET''"
    and willing: "\<And>t ev e. w t ev \<noteq> RFail e"
  shows "wp w (publish glob) (\<lambda>n _ _. n = 0) (\<lambda>_ _ _. False) h t"
proof -
  have "glob (sp_src spec) (p_files h) \<noteq> []"
    if spec: "spec \<in> set (upload_specs (pub_prefix sha))" "sp_required spec" for spec
  proof -
    obtain p where p: "p \<in> set trust_paths" "sp_src spec = p"
      using spec unfolding upload_specs_def by (auto simp: trust_spec_def folder_spec_def)
    then have "glob p (p_files h) = [p]"
      using assms(1) files(2) [OF p(1)] by (simp add: globs_literally_def)
    then show ?thesis using p(2) by simp
  qed
  then obtain us where us: "expand_specs glob (p_files h) (upload_specs (pub_prefix sha)) = Inr us"
    "\<forall>u \<in> set us. \<exists>spec \<in> set (upload_specs (pub_prefix sha)). up_src u \<in> set (glob (sp_src spec) (p_files h))"
    using expand_total by metis
  let ?ps = "up_src ` set us"
  have "runs_through w (readable ?ps)
      (seq (for_each upload_versioned us)
        (seq (upload_audit_log (pub_prefix sha))
        (seq (update_latest sha (pub_prefix sha))
        (seq (for_each (promote (pub_prefix sha)) (filter up_stable us))
        (seq (pub_print (''Pinned:  '' @ base @ ''/'' @ pub_prefix sha @ ''/''))
        (seq (pub_print (''Latest:  '' @ base @ ''/attestation-engine/latest.json''))
             (pub_print (''Stable:  '' @ base @ ''/trust/jwks.json''))))))))" for base
    unfolding upload_versioned_def update_latest_def promote_def maybeCopy_def putRaw_def
    by (intro through_seq through_each through_audit through_put through_log through_send through_print
        willing store_files imageI)
  moreover have "readable ?ps h" using us(2) files(1) by (auto simp: readable_def)
  ultimately have "wp w (pub_main glob base sha (pub_prefix sha)) (\<lambda>_ _ _. True) (\<lambda>_ _ _. False) h t" for base
    using us(1) unfolding runs_through_def pub_main_def wp_bind wp_gets
    by (simp add: wp_mono [where Q = "\<lambda>_ s' _. readable ?ps s'" and E = "\<lambda>_ _ _. False"])
  then have "wp w (try_catch (seq (pub_main glob base sha (pub_prefix sha)) (Return 0)) (\<lambda>_. Return 1))
      (\<lambda>n _ _. n = (0 :: int)) (\<lambda>_ _ _. False) h t" for base
    unfolding wp_try_catch wp_seq by (rule wp_mono) (simp_all add: wp_prims)
  then show ?thesis using assms(2) settings by (simp add: publish_def wp_bind wp_gets wp_if)
qed

section \<open>A disk, a glob and a store\<close>

definition trust_disk :: "string \<Rightarrow> string option" where
  "trust_disk = map_of [(''trust/jwks.json'', ''J''), (''trust/policy.json'', ''P''), (''trust/statuslist.json'', ''S''),
     (''examples/a/case.json'', ''1''), (''examples/b/case.json'', ''2'')]"

text \<open>A glob that knows the files of this disk.\<close>

definition disk_glob :: glob where
  "disk_glob p F = (if CHR ''*'' \<notin> set p then (if F p = None then [] else [p])
     else if p = ''examples/**/*.json'' then
       filter (\<lambda>m. F m \<noteq> None) [''examples/a/case.json'', ''examples/b/case.json'']
     else [])"

lemma disk_glob_literal: "globs_literally disk_glob"
  by (simp add: globs_literally_def disk_glob_def trust_paths_def)

definition ci_env :: "string \<Rightarrow> string option" where
  "ci_env = map_of [(''DO_SPACE'', ''hapis''), (''DO_SPACES_KEY'', ''k''), (''DO_SPACES_SECRET'', ''s''),
     (''GITHUB_SHA'', ''c0ffee'')]"

definition ci_host :: "(string \<Rightarrow> string option) \<Rightarrow> pub_host" where
  "ci_host disk = \<lparr>p_env = ci_env, p_files = disk, p_clock = (\<lambda>_. ''2026-01-01''), p_ticks = 0, p_git = None,
     p_out = [], bucket = (\<lambda>_. None)\<rparr>"

definition willing_store :: world where
  "willing_store t e = RDone"

definition after_run :: pub_host where
  "after_run = fst (snd (run willing_store (publish disk_glob) (ci_host trust_disk) []))"

lemma ci_commit: "pub_commit (ci_host trust_disk) = Some ''c0ffee''"
  by code_simp

lemma ci_succeeds:
  obtains t' where "run willing_store (publish disk_glob) (ci_host trust_disk) [] = (Inr 0, after_run, t')"
proof -
  obtain r h' t' where run: "run willing_store (publish disk_glob) (ci_host trust_disk) [] = (r, h', t')"
    by (metis prod_cases3)
  have "wp willing_store (publish disk_glob) (\<lambda>n _ _. n = 0) (\<lambda>_ _ _. False) (ci_host trust_disk) []"
    by (rule publish_succeeds [OF disk_glob_literal ci_commit])
      (auto simp: disk_glob_def ci_host_def trust_paths_def trust_disk_def missing_setting_def ci_env_def
        readable_def willing_store_def split: if_splits)
  with run have "r = Inr 0" by (cases r) (simp_all add: wp_def)
  moreover have "h' = after_run" using run by (simp add: after_run_def)
  ultimately show thesis using that run by simp
qed

lemma publish_pointer_never_dangles_witness:
  "bucket after_run latest_key \<noteq> None
    \<and> map_option ob_body (bucket after_run ''attestation-engine/c0ffee/trust/policy.json'') = Some ''P''"
proof -
  obtain t' where run: "run willing_store (publish disk_glob) (ci_host trust_disk) [] = (Inr 0, after_run, t')"
    by (rule ci_succeeds)
  show ?thesis
    using publish_pointer_never_dangles [OF disk_glob_literal ci_commit run]
    by (auto simp: trust_paths_def pub_prefix_def ci_host_def trust_disk_def)
qed

lemma publish_missing_artifact_witness:
  "run willing_store (publish disk_glob) (ci_host (trust_disk(''trust/policy.json'' := None))) []
     = (Inr 1, ci_host (trust_disk(''trust/policy.json'' := None)), [])"
  by (rule publish_missing_artifact [OF disk_glob_literal, of "''trust/policy.json''"])
    (simp_all add: trust_paths_def ci_host_def)

text \<open>Two examples of one file name get one key: the later upload replaces the earlier.\<close>

lemma same_name_same_key:
  "basename m = basename m' \<Longrightarrow> up_key (upload_of (folder_spec src dst ct) m) = up_key (upload_of (folder_spec src' dst ct') m')"
  by (simp add: upload_of_def folder_spec_def)

end
