(* ===== verification/ReleaseScripts.thy ===== *)
theory ReleaseScripts
  imports JsAsync
begin

text \<open>
  The other release scripts: \<open>scripts/archive-ci-evidence.mjs\<close>, \<open>scripts/archive-deployment-evidence.mjs\<close>
  and \<open>scripts/make-jwks.mjs\<close>. The object store refuses a request as it likes and, as the scripts
  ask for (\<open>IfNoneMatch: "*"\<close>), always where the key is taken. The conversion of a PEM file into a
  public JWK is a parameter.
\<close>

section \<open>Archiving evidence\<close>

record evidence_object =
  ev_body :: string
  ev_type :: string

record ev_host =
  ev_env :: "string \<Rightarrow> string option"
  ev_files :: "string \<Rightarrow> string option"
  archive :: "string \<Rightarrow> evidence_object option"
  ev_out :: "string list"

definition required_env :: "string list" where
  "required_env = [''DO_SPACES_KEY'', ''DO_SPACES_SECRET'', ''DO_SPACE'', ''DO_REGION'', ''DO_ENDPOINT'',
     ''GITHUB_SHA'', ''CI_EVIDENCE_DATE'']"

fun require_env :: "(string \<Rightarrow> string option) \<Rightarrow> string list \<Rightarrow> exn option" where
  "require_env e [] = None"
| "require_env e (name # names) =
     (if e name = None \<or> e name = Some []
      then Some (JsErr (''Missing required environment variable: '' @ name))
      else require_env e names)"

text \<open>\<open>/^[0-9a-f]{40}$/i\<close> and \<open>/^\d{4}-\d{2}-\d{2}$/\<close>\<close>

definition is_digit :: "char \<Rightarrow> bool" where
  "is_digit c = (let n = of_char c :: nat in 48 \<le> n \<and> n \<le> 57)"

definition is_hex :: "char \<Rightarrow> bool" where
  "is_hex c = (let n = of_char c :: nat in is_digit c \<or> (65 \<le> n \<and> n \<le> 70) \<or> (97 \<le> n \<and> n \<le> 102))"

definition full_sha :: "string \<Rightarrow> bool" where
  "full_sha s = (length s = 40 \<and> list_all is_hex s)"

fun match_all :: "(char \<Rightarrow> bool) list \<Rightarrow> string \<Rightarrow> bool" where
  "match_all [] s = (s = [])"
| "match_all (p # ps) [] = False"
| "match_all (p # ps) (c # s) = (p c \<and> match_all ps s)"

definition iso_date :: "string \<Rightarrow> bool" where
  "iso_date s = (let d = is_digit; dash = (\<lambda>c. c = CHR ''-'') in
     match_all [d, d, d, d, dash, d, d, dash, d, d] s)"

definition checked_env :: "(string \<Rightarrow> string option) \<Rightarrow> exn + (string \<times> string)" where
  "checked_env e = (case require_env e required_env of
       Some x \<Rightarrow> Inl x
     | None \<Rightarrow>
         (let sha = the (e ''GITHUB_SHA''); date = the (e ''CI_EVIDENCE_DATE'') in
          if \<not> full_sha sha then Inl (JsErr (''GITHUB_SHA must be a full 40-character Git SHA: '' @ sha))
          else if \<not> iso_date date then Inl (JsErr (''CI_EVIDENCE_DATE must use YYYY-MM-DD format: '' @ date))
          else Inr (sha, date)))"

definition archive_object :: "string \<Rightarrow> evidence_object \<Rightarrow> (ev_host, unit) prog" where
  "archive_object key obj = Await (S3Put key) (\<lambda>r. case r of
       RFail e \<Rightarrow> Raise e
     | _ \<Rightarrow> bind (gets (\<lambda>h. archive h key)) (\<lambda>old.
         if old \<noteq> None then Raise (JsErr ''PreconditionFailed'')
         else modify (\<lambda>h. h\<lparr>archive := (archive h)(key \<mapsto> obj)\<rparr>)))"

definition read_evidence :: "string \<Rightarrow> (ev_host, string) prog" where
  "read_evidence p = bind (gets (\<lambda>h. ev_files h p)) (\<lambda>f. case f of
     None \<Rightarrow> Raise (JsErr ''ENOENT'') | Some body \<Rightarrow> Return body)"

definition ev_print :: "string \<Rightarrow> (ev_host, unit) prog" where
  "ev_print l = modify (\<lambda>h. h\<lparr>ev_out := ev_out h @ [l]\<rparr>)"

definition archive_file :: "string \<times> string \<times> string \<Rightarrow> (ev_host, unit) prog" where
  "archive_file f = (case f of (source, destination, contentType) \<Rightarrow>
     bind (read_evidence source) (\<lambda>body.
     seq (archive_object destination \<lparr>ev_body = body, ev_type = contentType\<rparr>)
         (ev_print (''Archived '' @ destination))))"

fun archive_each :: "(string \<times> string \<times> string) list \<Rightarrow> (ev_host, unit) prog" where
  "archive_each [] = skip"
| "archive_each (f # fs) = seq (archive_file f) (archive_each fs)"

definition evidence_prefix :: "string \<Rightarrow> string \<Rightarrow> string" where
  "evidence_prefix sha date = ''ci-evidence/'' @ date @ ''/'' @ sha"

definition ci_evidence_files :: "string \<Rightarrow> (string \<times> string \<times> string) list" where
  "ci_evidence_files prefix =
     [(''.ci-evidence/manifest.json'', prefix @ ''/manifest.json'', ''application/json''),
      (''.ci-evidence/node-tests.txt'', prefix @ ''/node-tests.txt'', ''text/plain; charset=utf-8''),
      (''.ci-evidence/go-tests.txt'', prefix @ ''/go-tests.txt'', ''text/plain; charset=utf-8'')]"

definition deployment_files :: "string \<Rightarrow> (string \<times> string \<times> string) list" where
  "deployment_files prefix = [(''.ci-evidence/deployment.json'', prefix @ ''/deployment.json'', ''application/json'')]"

definition archive_script :: "(string \<Rightarrow> (string \<times> string \<times> string) list) \<Rightarrow> (string \<Rightarrow> string \<Rightarrow> string) \<Rightarrow>
    (ev_host, unit) prog" where
  "archive_script evidence last_line =
     bind (gets ev_env) (\<lambda>e. case checked_env e of
       Inl x \<Rightarrow> Raise x
     | Inr (sha, date) \<Rightarrow>
         seq (archive_each (evidence (evidence_prefix sha date)))
             (ev_print (last_line sha (evidence_prefix sha date))))"

definition archive_ci_evidence :: "(ev_host, unit) prog" where
  "archive_ci_evidence = archive_script ci_evidence_files
     (\<lambda>sha prefix. ''CI evidence archived for '' @ sha @ '' under '' @ prefix @ ''/'')"

definition archive_deployment_evidence :: "(ev_host, unit) prog" where
  "archive_deployment_evidence = archive_script deployment_files
     (\<lambda>sha prefix. ''Deployment evidence archived for '' @ sha @ ''.'')"

section \<open>The archive is written once\<close>

definition archived_only_adds :: "ev_host \<Rightarrow> ev_host \<Rightarrow> bool" where
  "archived_only_adds h h' = (ev_files h' = ev_files h \<and> archive h \<subseteq>\<^sub>m archive h')"

fun stored_new :: "ev_host \<Rightarrow> ev_host \<Rightarrow> string \<times> string \<times> string \<Rightarrow> bool" where
  "stored_new h h' (source, destination, contentType) = (archive h destination = None
     \<and> (\<exists>body. ev_files h source = Some body \<and> archive h' destination = Some \<lparr>ev_body = body, ev_type = contentType\<rparr>))"

lemma only_adds_trans: "archived_only_adds h h' \<Longrightarrow> archived_only_adds h' h'' \<Longrightarrow> archived_only_adds h h''"
  by (auto simp: archived_only_adds_def intro: map_le_trans)

lemma stored_new_later: "stored_new h h' f \<Longrightarrow> archived_only_adds h' h'' \<Longrightarrow> stored_new h h'' f"
  by (cases f) (force simp: archived_only_adds_def map_le_def)

lemma stored_new_earlier:
  assumes "stored_new h' h'' f" "archived_only_adds h h'"
  shows "stored_new h h'' f"
proof -
  have "archive h k = None" if "archive h' k = None" for k
    using assms(2) that unfolding archived_only_adds_def map_le_def by (metis domI option.exhaust option.discI)
  then show ?thesis using assms by (cases f) (simp add: archived_only_adds_def)
qed

lemma only_adds_new:
  "archive h k = None \<Longrightarrow> archived_only_adds h (h\<lparr>archive := (archive h)(k \<mapsto> obj)\<rparr>)"
  "archive h k = None \<Longrightarrow> archived_only_adds h (h\<lparr>archive := (archive h)(k \<mapsto> obj), ev_out := out\<rparr>)"
  by (auto simp: archived_only_adds_def map_le_def)

lemma only_adds_refl: "archived_only_adds h h"
  by (simp add: archived_only_adds_def)

lemma wp_archive_file:
  "wp w (archive_file f) (\<lambda>_ h' _. archived_only_adds h h' \<and> stored_new h h' f) (\<lambda>_ h' _. archived_only_adds h h') h t"
  by (cases f) (auto simp: archive_file_def read_evidence_def archive_object_def ev_print_def wp_rules only_adds_new
      only_adds_refl split: option.split reply.split)

lemma wp_archive_each:
  "wp w (archive_each fs) (\<lambda>_ h' _. archived_only_adds h h' \<and> (\<forall>f \<in> set fs. stored_new h h' f))
     (\<lambda>_ h' _. archived_only_adds h h') h t"
proof (induction fs arbitrary: h t)
  case Nil
  show ?case by (simp add: wp_rules only_adds_refl)
next
  case (Cons f fs)
  show ?case
    unfolding archive_each.simps wp_seq
    by (rule wp_mono [OF wp_archive_file], rule wp_mono [OF Cons])
      (auto intro: only_adds_trans stored_new_later stored_new_earlier)
qed

lemma wp_archive_script:
  "wp w (archive_script evidence last_line)
     (\<lambda>_ h' _. archived_only_adds h h' \<and> (\<exists>sha date. full_sha sha \<and> iso_date date
        \<and> ev_env h ''GITHUB_SHA'' = Some sha \<and> ev_env h ''CI_EVIDENCE_DATE'' = Some date
        \<and> (\<forall>f \<in> set (evidence (evidence_prefix sha date)). stored_new h h' f)))
     (\<lambda>_ h' _. archived_only_adds h h') h t"
proof (cases "checked_env (ev_env h)")
  case (Inl e)
  then show ?thesis by (simp add: archive_script_def wp_rules only_adds_refl)
next
  case (Inr r)
  obtain sha date where r: "r = (sha, date)" by (cases r)
  have env: "full_sha sha" "iso_date date" "ev_env h ''GITHUB_SHA'' = Some sha" "ev_env h ''CI_EVIDENCE_DATE'' = Some date"
    using Inr unfolding r checked_env_def required_env_def
    by (auto simp: Let_def split: option.splits if_splits)
  have printed: "archived_only_adds h (h'\<lparr>ev_out := out\<rparr>) = archived_only_adds h h'"
    "stored_new h (h'\<lparr>ev_out := out\<rparr>) f = stored_new h h' f" for h' out f
    by (simp add: archived_only_adds_def, cases f, simp)
  show ?thesis
    using Inr unfolding archive_script_def r wp_bind wp_gets
    by (simp add: wp_seq ev_print_def wp_basic)
      (rule wp_mono [OF wp_archive_each], use env in \<open>auto simp: printed wp_basic\<close>)
qed

text \<open>
  The evidence archive is written once. Whatever the store and the disk do, neither script ever
  changes or removes an archived object; and a script that ends without an exception has put
  every one of its documents, as it is on the disk, under a key that was free, below the date and
  the full commit hash of its environment.
\<close>

lemma evidence_written_once:
  assumes "run w p h t = (r, h', t')"
    and "(p, evidence) = (archive_ci_evidence, ci_evidence_files)
       \<or> (p, evidence) = (archive_deployment_evidence, deployment_files)"
  shows "archive h \<subseteq>\<^sub>m archive h'
    \<and> (r = Inr () \<longrightarrow> (\<exists>sha date. full_sha sha \<and> iso_date date
         \<and> ev_env h ''GITHUB_SHA'' = Some sha \<and> ev_env h ''CI_EVIDENCE_DATE'' = Some date
         \<and> (\<forall>f \<in> set (evidence (''ci-evidence/'' @ date @ ''/'' @ sha)). stored_new h h' f)))"
proof -
  obtain last_line where "p = archive_script evidence last_line"
    using assms(2) unfolding archive_ci_evidence_def archive_deployment_evidence_def by blast
  with wp_archive_script [of w evidence last_line h t] assms(1) show ?thesis
    unfolding evidence_prefix_def by (cases r) (auto simp: wp_def archived_only_adds_def)
qed

definition ci_sha :: string where
  "ci_sha = replicate 40 CHR ''a''"

definition evidence_env :: "string \<Rightarrow> string option" where
  "evidence_env = map_of ((''GITHUB_SHA'', ci_sha) # (''CI_EVIDENCE_DATE'', ''2026-01-31'')
     # map (\<lambda>k. (k, ''x'')) (take 5 required_env))"

definition evidence_host :: ev_host where
  "evidence_host = \<lparr>ev_env = evidence_env, ev_files = (\<lambda>_. Some ''{}''), archive = (\<lambda>_. None), ev_out = []\<rparr>"

definition open_archive :: world where
  "open_archive t e = RDone"

lemma evidence_written_once_witness:
  "\<exists>h'. fst (snd (run open_archive archive_deployment_evidence evidence_host [])) = h'
     \<and> (\<exists>sha date. stored_new evidence_host h' (''.ci-evidence/deployment.json'',
          ''ci-evidence/'' @ date @ ''/'' @ sha @ ''/deployment.json'', ''application/json''))"
proof -
  obtain r h' t' where run: "run open_archive archive_deployment_evidence evidence_host [] = (r, h', t')"
    by (metis prod_cases3)
  have "fst (run open_archive archive_deployment_evidence evidence_host []) = Inr ()" by code_simp
  with run have "r = Inr ()" by simp
  with evidence_written_once [OF run, of deployment_files] run show ?thesis
    by (auto simp: deployment_files_def)
qed

section \<open>Building the key set\<close>

definition kid_inputs :: "string list" where
  "kid_inputs = [''keys/public/issuer-prod-2026-10.pub.pem'']"

definition jwks_out :: string where
  "jwks_out = ''trust/jwks.json''"

text \<open>\<open>s.replace(/suffix$/i, "")\<close> for a suffix in lower case.\<close>

definition drop_suffix :: "string \<Rightarrow> string \<Rightarrow> string" where
  "drop_suffix sfx s = (if ends_with (to_lower s) sfx then take (length s - length sfx) s else s)"

definition kidFromPath :: "string \<Rightarrow> string" where
  "kidFromPath p =
     (let tail = last (split_on CHR ''/'' p); base = (if tail = [] then p else tail)
      in drop_suffix ''.pem'' (drop_suffix ''.pub.pem'' base))"

definition stripPad :: "jsval \<Rightarrow> jsval" where
  "stripPad s = (if is_str s then JStr (stripR (\<lambda>c. c = CHR ''='') (the_str s)) else s)"

text \<open>\<open>export_jwk\<close> reads a PEM text.\<close>

definition jwk_entry :: "(string \<Rightarrow> exn + jsval) \<Rightarrow> (string \<Rightarrow> string option) \<Rightarrow> string \<Rightarrow> exn + jsval" where
  "jwk_entry export_jwk files pemPath = (case files pemPath of
       None \<Rightarrow> Inl (JsErr ''ENOENT'')
     | Some pem \<Rightarrow> (case export_jwk pem of
           Inl e \<Rightarrow> Inl e
         | Inr jwk \<Rightarrow>
             if nullish jwk then Inl TypeErr
             else Inr (JObj [(''kty'', jget jwk ''kty''), (''n'', stripPad (jget jwk ''n'')),
                        (''e'', stripPad (jget jwk ''e'')), (''alg'', JStr ''RS256''), (''use'', JStr ''sig''),
                        (''kid'', JStr (kidFromPath pemPath))])))"

fun jwk_entries :: "(string \<Rightarrow> exn + jsval) \<Rightarrow> (string \<Rightarrow> string option) \<Rightarrow> string list \<Rightarrow> exn + jsval list" where
  "jwk_entries ex files [] = Inr []"
| "jwk_entries ex files (p # ps) = (case jwk_entry ex files p of
       Inl e \<Rightarrow> Inl e
     | Inr k \<Rightarrow> (case jwk_entries ex files ps of Inl e \<Rightarrow> Inl e | Inr ks \<Rightarrow> Inr (k # ks)))"

text \<open>
  The exit status and the disk. The set is written to a temporary file that is then renamed, so a
  failure leaves the disk as it was; console lines are left out.
\<close>

definition make_jwks :: "(string \<Rightarrow> exn + jsval) \<Rightarrow> string list \<Rightarrow> (string \<Rightarrow> string option) \<Rightarrow>
    int \<times> (string \<Rightarrow> string option)" where
  "make_jwks export_jwk inputs files = (case jwk_entries export_jwk files inputs of
       Inl e \<Rightarrow> (2, files)
     | Inr keys \<Rightarrow>
         (let out = json_pretty 0 (JObj [(''keys'', JArr keys)]) @ [CHR 0x0A];
              tmp = jwks_out @ ''.tmp''
          in (0, (files(tmp \<mapsto> out))(tmp := None, jwks_out \<mapsto> out))))"

lemma jwk_entries_length: "jwk_entries ex files ps = Inr ks \<Longrightarrow> length ks = length ps"
  by (induction ps arbitrary: ks) (auto split: sum.splits)

end
