(* ===== verification/RecruiterQuery.thy ===== *)
theory RecruiterQuery
  imports RecruiterTypes JsAsync
begin

text \<open>
  The recruiter's list query: the filter store of \<open>src/state/recruiterFiltersStore.ts\<close> and the pure
  functions on queries and rows of \<open>screens/RecruiterCandidates.tsx\<close> (normal form, identity, query
  string, page without cursor, deduplication).
\<close>

section \<open>The filter store\<close>

definition DEFAULT_RECRUITER_QUERY :: recruiter_query where
  "DEFAULT_RECRUITER_QUERY = \<lparr>q_search = [], q_trust_mode = AnyTrust,
     q_signature_status = [SigVerified, SigInvalid, SigUnknown], q_company_ids = [], q_title_query = None,
     q_dates = None, q_sort = Some MostRecent, q_page = Some \<lparr>pg_cursor = None, pg_limit = Some 25\<rparr>\<rparr>"

text \<open>A copy shares no list or nested record with the original; as a value it is the same.\<close>

definition cloneQuery :: "recruiter_query \<Rightarrow> recruiter_query" where
  "cloneQuery q = q\<lparr>q_signature_status := q_signature_status q @ [], q_company_ids := q_company_ids q @ [],
     q_page := map_option (\<lambda>p. \<lparr>pg_cursor = pg_cursor p, pg_limit = pg_limit p\<rparr>) (q_page q),
     q_dates := map_option (\<lambda>d. \<lparr>start_after = start_after d, end_before = end_before d,
        include_current = include_current d\<rparr>) (q_dates q)\<rparr>"

record filters_store =
  applied :: recruiter_query
  draft :: recruiter_query

definition initial_store :: filters_store where
  "initial_store = \<lparr>applied = cloneQuery DEFAULT_RECRUITER_QUERY, draft = cloneQuery DEFAULT_RECRUITER_QUERY\<rparr>"

definition setApplied :: "recruiter_query \<Rightarrow> 'x filters_store_scheme \<Rightarrow> 'x filters_store_scheme" where
  "setApplied q s = s\<lparr>applied := cloneQuery q\<rparr>"

definition openDraftWithInitial :: "recruiter_query \<Rightarrow> 'x filters_store_scheme \<Rightarrow> 'x filters_store_scheme" where
  "openDraftWithInitial initial s = s\<lparr>draft := cloneQuery initial\<rparr>"

text \<open>A patch is what it does to the draft's fields.\<close>

definition setDraft :: "(recruiter_query \<Rightarrow> recruiter_query) \<Rightarrow> 'x filters_store_scheme \<Rightarrow> 'x filters_store_scheme" where
  "setDraft patch s = s\<lparr>draft := patch (draft s)\<rparr>"

definition resetDraftToDefaults :: "'x filters_store_scheme \<Rightarrow> 'x filters_store_scheme" where
  "resetDraftToDefaults s = s\<lparr>draft := cloneQuery DEFAULT_RECRUITER_QUERY\<rparr>"

definition applyDraft :: "'x filters_store_scheme \<Rightarrow> 'x filters_store_scheme" where
  "applyDraft s = s\<lparr>applied := cloneQuery (draft s)\<rparr>"

section \<open>Queries\<close>

definition stripCursor :: "recruiter_query \<Rightarrow> recruiter_query" where
  "stripCursor q = q\<lparr>q_page := Some \<lparr>pg_cursor = None,
     pg_limit = Some (coalesce (Option.bind (q_page q) pg_limit) 25)\<rparr>\<rparr>"

text \<open>\<open>x || undefined\<close> on an optional text.\<close>

definition non_empty :: "string option \<Rightarrow> string option" where
  "non_empty x = (if or_default x [] = [] then None else x)"

definition normal_dates :: "query_dates \<Rightarrow> query_dates" where
  "normal_dates d = \<lparr>start_after = non_empty (start_after d), end_before = non_empty (end_before d),
     include_current = Some (coalesce (include_current d) False)\<rparr>"

definition normal_page :: "query_page \<Rightarrow> query_page option" where
  "normal_page p = (case pg_limit p of None \<Rightarrow> None
     | Some n \<Rightarrow> if n = 0 then None else Some \<lparr>pg_cursor = None, pg_limit = Some n\<rparr>)"

definition str_sort :: "string list \<Rightarrow> string list" where
  "str_sort xs = foldr (\<lambda>x ys. takeWhile (\<lambda>y. str_lt y x) ys @ x # dropWhile (\<lambda>y. str_lt y x) ys) xs []"

definition normalizeQuery :: "recruiter_query \<Rightarrow> recruiter_query" where
  "normalizeQuery q = \<lparr>q_search = trim (q_search q), q_trust_mode = q_trust_mode q,
     q_signature_status = sort (q_signature_status q), q_company_ids = str_sort (q_company_ids q),
     q_title_query = non_empty (map_option trim (q_title_query q)), q_dates = map_option normal_dates (q_dates q),
     q_sort = Some (coalesce (q_sort q) MostRecent), q_page = Option.bind (q_page q) normal_page\<rparr>"

definition opt_str :: "string \<Rightarrow> string option \<Rightarrow> (string \<times> jsval) list" where
  "opt_str k x = (case x of None \<Rightarrow> [] | Some s \<Rightarrow> [(k, JStr s)])"

definition dates_js :: "query_dates \<Rightarrow> jsval" where
  "dates_js d = JObj (opt_str ''start_after'' (start_after d) @ opt_str ''end_before'' (end_before d)
     @ (case include_current d of None \<Rightarrow> [] | Some b \<Rightarrow> [(''include_current'', JBool b)]))"

definition page_js :: "query_page \<Rightarrow> jsval" where
  "page_js p = JObj (opt_str ''cursor'' (pg_cursor p)
     @ (case pg_limit p of None \<Rightarrow> [] | Some n \<Rightarrow> [(''limit'', JNum n)]))"

text \<open>The query as an object, in the order \<open>normalizeQuery\<close> and the default query write it.\<close>

definition query_js :: "recruiter_query \<Rightarrow> jsval" where
  "query_js q = JObj ([(''search'', JStr (q_search q)), (''trust_mode'', JStr (trust_mode_string (q_trust_mode q))),
     (''signature_status'', JArr (map (\<lambda>x. JStr (sig_string x)) (q_signature_status q))),
     (''company_ids'', JArr (map JStr (q_company_ids q)))]
     @ opt_str ''title_query'' (q_title_query q)
     @ (case q_dates q of None \<Rightarrow> [] | Some d \<Rightarrow> [(''dates'', dates_js d)])
     @ (case q_sort q of None \<Rightarrow> [] | Some x \<Rightarrow> [(''sort'', JStr (sort_string x))])
     @ (case q_page q of None \<Rightarrow> [] | Some p \<Rightarrow> [(''page'', page_js p)]))"

definition queryKey :: "recruiter_query \<Rightarrow> string" where
  "queryKey q = json_text (query_js (normalizeQuery q))"

section \<open>The query string\<close>

text \<open>
  \<open>URLSearchParams\<close> writes form encoding: a blank as a plus sign, letters, digits and \<open>*-._\<close> as they
  are, everything else percent-encoded in UTF-8.
\<close>

definition form_plain :: "char \<Rightarrow> bool" where
  "form_plain c = (let n = of_char c :: nat in
     (48 \<le> n \<and> n \<le> 57) \<or> (65 \<le> n \<and> n \<le> 90) \<or> (97 \<le> n \<and> n \<le> 122) \<or> n \<in> {42, 45, 46, 95})"

definition form_char :: "char \<Rightarrow> string" where
  "form_char c = (let n = of_char c :: nat in
     if n = 32 then ''+''
     else if form_plain c then [c]
     else if n < 128 then percent n
     else percent (192 + n div 64) @ percent (128 + n mod 64))"

definition form_encode :: "string \<Rightarrow> string" where
  "form_encode s = concat (map form_char s)"

definition form_pair :: "string \<times> string \<Rightarrow> string" where
  "form_pair p = form_encode (fst p) @ ''='' @ form_encode (snd p)"

text \<open>\<open>Array.from(new Set(xs))\<close>: the first of equal elements stays.\<close>

fun uniq :: "'a list \<Rightarrow> 'a list" where
  "uniq [] = []"
| "uniq (x # xs) = x # uniq (filter (\<lambda>y. y \<noteq> x) xs)"

lemma uniq_remdups: "set (uniq xs) = set xs" "distinct (uniq xs)"
  by (induction xs rule: uniq.induct) auto

definition query_pairs :: "recruiter_query \<Rightarrow> (string \<times> string) list" where
  "query_pairs q =
     (let search = trim (q_search q); cursor = or_default (Option.bind (q_page q) pg_cursor) [] in
      (if search \<noteq> [] then [(''search'', search)] else [])
      @ [(''trust_mode'', trust_mode_string (q_trust_mode q))]
      @ map (\<lambda>x. (''signature_status'', sig_string x)) (uniq (q_signature_status q))
      @ map (\<lambda>x. (''company_ids'', x)) (uniq (q_company_ids q))
      @ [(''sort'', sort_string (coalesce (q_sort q) MostRecent)),
         (''limit'', int_string (coalesce (Option.bind (q_page q) pg_limit) 25))]
      @ (if cursor \<noteq> [] then [(''cursor'', cursor)] else []))"

definition encodeQueryParams :: "recruiter_query \<Rightarrow> string" where
  "encodeQueryParams q = join_with ''&'' (map form_pair (query_pairs q))"

section \<open>Deduplication\<close>

text \<open>A \<open>Map\<close> keeps the place of a key's first insertion and the value of its last.\<close>

fun map_set :: "('k \<times> 'v) list \<Rightarrow> 'k \<Rightarrow> 'v \<Rightarrow> ('k \<times> 'v) list" where
  "map_set [] k v = [(k, v)]"
| "map_set ((k', v') # m) k v = (if k' = k then (k, v) # m else (k', v') # map_set m k v)"

fun dedupe_into :: "(jsval \<times> jsval) list \<Rightarrow> jsval list \<Rightarrow> exn + (jsval \<times> jsval) list" where
  "dedupe_into m [] = Inr m"
| "dedupe_into m (it # its) =
     (if nullish it then Inl TypeErr else dedupe_into (map_set m (jget it ''candidate_id'') it) its)"

definition dedupedItems :: "jsval list \<Rightarrow> exn + jsval list" where
  "dedupedItems items = (case dedupe_into [] items of Inl e \<Rightarrow> Inl e | Inr m \<Rightarrow> Inr (map snd m))"

end
