(* ===== verification/QueryString.thy ===== *)
theory QueryString
  imports RecruiterQuery
begin

text \<open>
  The query string is faithful: a reader that undoes the form encoding, as the URL standard
  describes it, gets back exactly the pairs that were written.
\<close>

section \<open>Reading a query string\<close>

definition hex_value :: "char \<Rightarrow> nat" where
  "hex_value c = (let n = of_char c :: nat in if n < 58 then n - 48 else n - 55)"

definition byte_value :: "char \<Rightarrow> char \<Rightarrow> nat" where
  "byte_value a b = 16 * hex_value a + hex_value b"

text \<open>A byte below 128 is a character; otherwise the next encoded byte completes it.\<close>

function form_decode :: "string \<Rightarrow> string" where
  "form_decode s = (case s of
       [] \<Rightarrow> []
     | c # r \<Rightarrow>
         if c = CHR ''+'' then CHR '' '' # form_decode r
         else if c \<noteq> CHR ''%'' \<or> length r < 2 then c # form_decode r
         else if byte_value (r ! 0) (r ! 1) < 128 then char_of (byte_value (r ! 0) (r ! 1)) # form_decode (drop 2 r)
         else char_of ((byte_value (r ! 0) (r ! 1) - 192) * 64 + (byte_value (r ! 3) (r ! 4) - 128))
              # form_decode (drop 5 r))"
  by pat_completeness auto
termination
  by (relation "measure length") auto

declare form_decode.simps [simp del]

definition read_pair :: "string \<Rightarrow> string \<times> string" where
  "read_pair s = (form_decode (takeWhile (\<lambda>c. c \<noteq> CHR ''='') s), form_decode (tl (dropWhile (\<lambda>c. c \<noteq> CHR ''='') s)))"

definition read_query_string :: "string \<Rightarrow> (string \<times> string) list" where
  "read_query_string s = map read_pair (split_on CHR ''&'' s)"

section \<open>One character\<close>

lemma hex_value_upper: "n < 16 \<Longrightarrow> hex_value (upper_hex n) = n"
  by (simp add: hex_value_def upper_hex_def)

lemma byte_percent: "n < 256 \<Longrightarrow> byte_value (upper_hex (n div 16)) (upper_hex (n mod 16)) = n"
  by (simp add: byte_value_def hex_value_upper less_mult_imp_div_less)

lemma of_char_less: "(of_char c :: nat) < 256"
  by (metis nat_of_char_less_256)

lemma char_eqI: "(of_char c :: nat) = n \<Longrightarrow> char_of n = c"
  by auto

lemma utf8_bytes: "n < 256 \<Longrightarrow> 192 + n div 64 < (256 :: nat)" "128 + n mod 64 < (256 :: nat)"
  using less_mult_imp_div_less [of n 4 64] by simp_all

lemma decode_char: "form_decode (form_char c @ s) = c # form_decode s"
proof -
  let ?n = "of_char c :: nat"
  have less: "?n < 256" by (rule of_char_less)
  consider "?n = 32" | "?n \<noteq> 32" "form_plain c" | "?n \<noteq> 32" "\<not> form_plain c" "?n < 128"
    | "?n \<noteq> 32" "\<not> form_plain c" "128 \<le> ?n" by fastforce
  then show ?thesis
  proof cases
    case 1
    then have "c = CHR '' ''" by (intro of_char_nat_inj) simp
    with 1 show ?thesis by (simp add: form_char_def form_decode.simps [of "CHR ''+'' # s"])
  next
    case 2
    then have "c \<noteq> CHR ''+''" "c \<noteq> CHR ''%''" by (auto simp: form_plain_def Let_def)
    with 2 show ?thesis by (simp add: form_char_def form_decode.simps [of "c # s"])
  next
    case 3
    then have "form_char c = percent ?n" by (simp add: form_char_def)
    with 3 show ?thesis
      by (simp add: percent_def form_decode.simps [of "CHR ''%'' # _"] byte_percent less)
  next
    case 4
    then have "form_char c = percent (192 + ?n div 64) @ percent (128 + ?n mod 64)"
      by (simp add: form_char_def Let_def)
    moreover have "192 + ?n div 64 < 256" "128 + ?n mod 64 < 256" using less by (simp_all add: utf8_bytes)
    moreover have "?n div 64 * 64 + ?n mod 64 = ?n" by simp
    ultimately show ?thesis using 4
      by (simp add: percent_def form_decode.simps [of "CHR ''%'' # _"] byte_percent)
  qed
qed

lemma decode_encode: "form_decode (form_encode s) = s"
proof (induction s)
  case Nil
  show ?case by (simp add: form_encode_def form_decode.simps)
next
  case (Cons c s)
  then show ?case by (simp add: form_encode_def decode_char)
qed

text \<open>The separators do not occur in encoded text.\<close>

lemma upper_hex_safe: "n < 16 \<Longrightarrow> upper_hex n \<noteq> CHR ''&'' \<and> upper_hex n \<noteq> CHR ''=''"
  by (auto simp: upper_hex_def dest!: arg_cong [where f = "of_char :: char \<Rightarrow> nat"])

lemma percent_safe: "n < 256 \<Longrightarrow> CHR ''&'' \<notin> set (percent n) \<and> CHR ''='' \<notin> set (percent n)"
  using upper_hex_safe [of "n div 16"] upper_hex_safe [of "n mod 16"]
  by (auto simp: percent_def less_mult_imp_div_less)

lemma form_char_safe: "CHR ''&'' \<notin> set (form_char c) \<and> CHR ''='' \<notin> set (form_char c)"
proof -
  have "(of_char c :: nat) < 256" by (rule of_char_less)
  then have "192 + of_char c div 64 < (256 :: nat)" "128 + of_char c mod 64 < (256 :: nat)" "(of_char c :: nat) < 256"
    by (simp_all add: utf8_bytes)
  from this [THEN percent_safe] show ?thesis
    by (auto simp: form_char_def form_plain_def Let_def)
qed

lemma form_encode_safe: "CHR ''&'' \<notin> set (form_encode s)" "CHR ''='' \<notin> set (form_encode s)"
  using form_char_safe by (auto simp: form_encode_def)

section \<open>The whole string\<close>

lemma split_on_fresh: "c \<notin> set s \<Longrightarrow> split_on c s = [s]"
  by (induction s) auto

lemma split_on_first: "c \<notin> set s \<Longrightarrow> split_on c (s @ c # r) = s # split_on c r"
  by (induction s) auto

lemma split_on_join: "xs \<noteq> [] \<Longrightarrow> (\<forall>x \<in> set xs. c \<notin> set x) \<Longrightarrow> split_on c (join_with [c] xs) = xs"
  by (induction xs rule: induct_list012) (simp_all add: split_on_fresh split_on_first)

lemma read_form_pair: "read_pair (form_pair p) = p"
proof -
  have "takeWhile (\<lambda>c. c \<noteq> CHR ''='') (form_pair p) = form_encode (fst p)"
    "dropWhile (\<lambda>c. c \<noteq> CHR ''='') (form_pair p) = ''='' @ form_encode (snd p)"
    using form_encode_safe(2) [of "fst p"] by (auto simp: form_pair_def takeWhile_append dropWhile_append)
  then show ?thesis by (simp add: read_pair_def decode_encode)
qed

lemma query_pairs_nonempty: "query_pairs q \<noteq> []"
  by (simp add: query_pairs_def Let_def)

lemma query_string_read: "read_query_string (encodeQueryParams q) = query_pairs q"
proof -
  have "\<forall>x \<in> set (map form_pair (query_pairs q)). CHR ''&'' \<notin> set x"
    using form_encode_safe(1) by (auto simp: form_pair_def)
  then have "split_on CHR ''&'' (encodeQueryParams q) = map form_pair (query_pairs q)"
    unfolding encodeQueryParams_def by (intro split_on_join) (simp_all add: query_pairs_nonempty)
  then show ?thesis by (simp add: read_query_string_def read_form_pair comp_def)
qed

text \<open>
  The query string is read back as it was meant: undoing the form encoding gives the pairs of
  the query, that is the trimmed search text, the trust mode, the statuses and companies without
  repetition, the order, the limit and the cursor. The title filter and the dates, although they
  are part of the query's identity, are not among them.
\<close>

lemma query_string_roundtrip:
  "read_query_string (encodeQueryParams q) = query_pairs q
    \<and> distinct (filter (\<lambda>p. fst p = ''signature_status'' \<or> fst p = ''company_ids'') (query_pairs q))
    \<and> encodeQueryParams (q\<lparr>q_title_query := t, q_dates := d\<rparr>) = encodeQueryParams q"
proof (intro conjI)
  show "read_query_string (encodeQueryParams q) = query_pairs q" by (rule query_string_read)
  show "encodeQueryParams (q\<lparr>q_title_query := t, q_dates := d\<rparr>) = encodeQueryParams q"
    by (simp add: encodeQueryParams_def query_pairs_def)
  have "filter (\<lambda>p. fst p = ''signature_status'' \<or> fst p = ''company_ids'') (query_pairs q)
      = map (\<lambda>x. (''signature_status'', sig_string x)) (uniq (q_signature_status q))
        @ map (\<lambda>x. (''company_ids'', x)) (uniq (q_company_ids q))"
    by (simp add: query_pairs_def Let_def filter_map comp_def)
  moreover have "distinct \<dots>"
    by (auto simp: distinct_map inj_on_def sig_string_inj uniq_remdups)
  ultimately show "distinct (filter (\<lambda>p. fst p = ''signature_status'' \<or> fst p = ''company_ids'') (query_pairs q))"
    by simp
qed

end
