(* ===== verification/RecruiterScreen.thy ===== *)
theory RecruiterScreen
  imports RecruiterQuery Screens
begin

text \<open>
  The recruiter's list and filter screens (\<open>screens/RecruiterCandidates.tsx\<close>,
  \<open>screens/RecruiterFilters.tsx\<close>) and the row they show (\<open>components/CandidateRow.tsx\<close>). The list
  holds what the server sent under \<open>items\<close>, unchecked (a text there, which has the methods of a list
  used here, is outside the model); an abort shows as a rejected fetch.
\<close>

section \<open>State\<close>

record candidates = auth +
  store :: filters_store
  items :: jsval
  nextCursor :: jsval
  loading :: bool
  refreshing :: bool
  loadingMore :: bool
  listErr :: "string option"
  didHydrate :: bool
  unmounted :: bool
  focusSignal :: "nat option"
  signals :: nat
  abortedSignals :: "nat list"

type_synonym 'a list_handler = "(candidates, 'a) prog"

definition setItems :: "jsval \<Rightarrow> unit list_handler" where
  "setItems v = modify (\<lambda>s. s\<lparr>items := v\<rparr>)"

definition setNextCursor :: "jsval \<Rightarrow> unit list_handler" where
  "setNextCursor v = modify (\<lambda>s. s\<lparr>nextCursor := v\<rparr>)"

definition setListErr :: "string option \<Rightarrow> unit list_handler" where
  "setListErr v = modify (\<lambda>s. s\<lparr>listErr := v\<rparr>)"

definition new_signal :: "nat list_handler" where
  "new_signal = bind (gets signals) (\<lambda>i. seq (modify (\<lambda>s. s\<lparr>signals := Suc i\<rparr>)) (Return i))"

definition on_store :: "(filters_store \<Rightarrow> filters_store) \<Rightarrow> unit list_handler" where
  "on_store f = modify (\<lambda>s. s\<lparr>store := f (store s)\<rparr>)"

section \<open>Fetching\<close>

definition candidates_request :: "string \<Rightarrow> recruiter_query \<Rightarrow> jsval \<Rightarrow> request" where
  "candidates_request base q token = \<lparr>rq_url = base @ ''/v1/recruiter/candidates?'' @ encodeQueryParams q,
     rq_method = ''GET'', rq_headers = [(''Accept'', ''application/json''), (''Authorization'', bearer token)],
     rq_credentials = [], rq_body = JUndef\<rparr>"

definition body_or_null :: "response \<Rightarrow> string \<Rightarrow> ('s, jsval) prog" where
  "body_or_null res invalid =
     (if rs_text res = [] then Return JNull
      else (case rs_json res of None \<Rightarrow> Raise (JsErr invalid) | Some v \<Rightarrow> Return v))"

definition error_text :: "jsval \<Rightarrow> string \<Rightarrow> string" where
  "error_text data fallback = (if truthy (jget data ''error'') then js_string (jget data ''error'') else fallback)"

definition apiGetRecruiterCandidates :: "string \<Rightarrow> recruiter_query \<Rightarrow> jsval \<Rightarrow> jsval list_handler" where
  "apiGetRecruiterCandidates base q token =
     (if base = [] then Raise (JsErr ''Missing EXPO_PUBLIC_EVT_API_BASE_URL'')
      else
        bind (api_fetch (candidates_request base q token)) (\<lambda>res.
        bind (body_or_null res ''invalid_json_from_server'') (\<lambda>data.
        if \<not> rs_ok res then Raise (JsErr (error_text data ''candidates_fetch_failed''))
        else seq (prop_of data ''items'') (Return data))))"

definition list_error :: "exn \<Rightarrow> string" where
  "list_error e = (if exn_message e = [] then ''candidates_fetch_failed'' else exn_message e)"

definition baseQuery :: "candidates \<Rightarrow> recruiter_query" where
  "baseQuery s = stripCursor (applied (store s))"

datatype fetch_reason = OnFocus | OnRefresh

definition set_busy :: "fetch_reason \<Rightarrow> bool \<Rightarrow> unit list_handler" where
  "set_busy mode b = (case mode of
       OnFocus \<Rightarrow> modify (\<lambda>s. s\<lparr>loading := b\<rparr>)
     | OnRefresh \<Rightarrow> modify (\<lambda>s. s\<lparr>refreshing := b\<rparr>))"

definition no_items :: "unit list_handler" where
  "no_items = seq (setItems (JArr [])) (setNextCursor JNull)"

definition fetchFirstPage :: "string \<Rightarrow> nat \<Rightarrow> fetch_reason \<Rightarrow> unit list_handler" where
  "fetchFirstPage base signal mode =
     bind (gets baseQuery) (\<lambda>q. bind (gets accessToken) (\<lambda>token.
     seq (set_busy mode True)
    (seq (setListErr None)
    (try_finally
      (try_catch
        (if \<not> truthy token then seq no_items (setListErr (Some ''Missing access token (sign in again)''))
         else
           bind (apiGetRecruiterCandidates base q token) (\<lambda>resp.
           seq (setItems (js_coalesce (jget resp ''items'') (JArr [])))
               (setNextCursor (js_coalesce (jget resp ''next_cursor'') JNull))))
        (\<lambda>e. if e = AbortErr then skip
             else seq (setListErr (Some (list_error e))) no_items))
      (bind (gets (\<lambda>s. signal \<in> set (abortedSignals s))) (\<lambda>aborted.
       if aborted then skip else set_busy mode False))))))"

text \<open>
  The effect on the query's identity and the token: the previous run's signal is aborted, then a
  new first page is fetched.
\<close>

definition focus_effect :: "string \<Rightarrow> unit list_handler" where
  "focus_effect base =
     bind (gets focusSignal) (\<lambda>old.
     seq (modify (\<lambda>s. s\<lparr>abortedSignals := (case old of None \<Rightarrow> [] | Some i \<Rightarrow> [i]) @ abortedSignals s\<rparr>))
    (bind new_signal (\<lambda>i.
     seq (modify (\<lambda>s. s\<lparr>focusSignal := Some i\<rparr>))
         (fetchFirstPage base i OnFocus))))"

definition onRefresh :: "string \<Rightarrow> unit list_handler" where
  "onRefresh base =
     bind (gets loadingMore) (\<lambda>more.
     if more then skip else bind new_signal (\<lambda>i. fetchFirstPage base i OnRefresh))"

text \<open>\<open>prev.concat(v)\<close>: an array is appended element by element, anything else as one element.\<close>

definition js_concat :: "jsval \<Rightarrow> jsval \<Rightarrow> jsval" where
  "js_concat prev v = JArr (the_arr prev @ (if is_arr v then the_arr v else [v]))"

definition page_query :: "recruiter_query \<Rightarrow> jsval \<Rightarrow> recruiter_query" where
  "page_query q cursor = q\<lparr>q_page := Some \<lparr>pg_cursor = Some (js_string cursor),
     pg_limit = Some (coalesce (Option.bind (q_page q) pg_limit) 25)\<rparr>\<rparr>"

definition load_page :: "string \<Rightarrow> recruiter_query \<Rightarrow> jsval \<Rightarrow> nat \<Rightarrow> unit list_handler" where
  "load_page base q2 token signal =
     try_finally
      (try_catch
        (bind (apiGetRecruiterCandidates base q2 token) (\<lambda>resp.
         seq (modify (\<lambda>s. s\<lparr>items := js_concat (items s) (js_coalesce (jget resp ''items'') (JArr []))\<rparr>))
             (setNextCursor (js_coalesce (jget resp ''next_cursor'') JNull))))
        (\<lambda>e. if e = AbortErr then skip else setListErr (Some (list_error e))))
      (bind (gets (\<lambda>s. signal \<in> set (abortedSignals s))) (\<lambda>aborted.
       if aborted then skip else modify (\<lambda>s. s\<lparr>loadingMore := False\<rparr>)))"

definition loadMore :: "string \<Rightarrow> unit list_handler" where
  "loadMore base =
     bind (gets (\<lambda>s. s)) (\<lambda>s.
     if \<not> truthy (nextCursor s) \<or> loadingMore s \<or> loading s \<or> refreshing s then skip
     else if \<not> truthy (accessToken s) then skip
     else
       bind new_signal (\<lambda>i.
       seq (modify (\<lambda>s. s\<lparr>loadingMore := True\<rparr>))
      (seq (setListErr None)
           (load_page base (page_query (baseQuery s) (nextCursor s)) (accessToken s) i))))"

section \<open>Persistence\<close>

definition STORAGE_KEY_RECRUITER_QUERY :: string where
  "STORAGE_KEY_RECRUITER_QUERY = ''recruiterCandidates:lastQuery:v1''"

text \<open>
  \<open>parse raw\<close> is \<open>JSON.parse\<close> of the stored text, read as a query without a check (\<open>None\<close>: it
  throws); documents of another shape are outside the model.
\<close>

definition hydrate_list :: "(string \<Rightarrow> recruiter_query option) \<Rightarrow> unit list_handler" where
  "hydrate_list parse =
     (let set_if_mounted = (\<lambda>q. bind (gets unmounted) (\<lambda>cancelled.
            if cancelled then skip else on_store (setApplied (stripCursor q))))
      in try_finally
        (try_catch
          (bind (Await (StoreGet STORAGE_KEY_RECRUITER_QUERY)
                  (\<lambda>r. case r of RText v \<Rightarrow> Return v | RFail e \<Rightarrow> Raise e | _ \<Rightarrow> Return None)) (\<lambda>raw.
           if or_default raw [] = [] then set_if_mounted DEFAULT_RECRUITER_QUERY
           else (case parse (or_default raw []) of
                   None \<Rightarrow> Raise SyntaxErr
                 | Some q \<Rightarrow> set_if_mounted q)))
          (\<lambda>_. set_if_mounted DEFAULT_RECRUITER_QUERY))
        (bind (gets unmounted) (\<lambda>cancelled.
         if cancelled then skip else modify (\<lambda>s. s\<lparr>didHydrate := True\<rparr>))))"

definition persist_list :: "unit list_handler" where
  "persist_list =
     bind (gets didHydrate) (\<lambda>hydrated.
     if \<not> hydrated then skip
     else
       bind (gets (\<lambda>s. stripCursor (applied (store s)))) (\<lambda>toStore.
       try_catch
         (Await (StorePut STORAGE_KEY_RECRUITER_QUERY (json_text (query_js toStore)))
            (\<lambda>r. case r of RFail e \<Rightarrow> Raise e | _ \<Rightarrow> Return ()))
         (\<lambda>_. skip)))"

section \<open>Navigation and filters\<close>

definition onPressRow :: "jsval \<Rightarrow> unit list_handler" where
  "onPressRow row = emit (Navigate ''CandidateDetail'' (JObj
     [(''candidate_id'', jget row ''candidate_id''), (''subject_ref'', jget row ''subject''),
      (''primary_evt_ref'', jget row ''primary_evt''), (''prefetch_snapshot'', row)]))"

definition openFilters :: "unit list_handler" where
  "openFilters =
     bind (gets (\<lambda>s. applied (store s))) (\<lambda>q.
     seq (on_store (openDraftWithInitial (stripCursor q)))
         (emit (Navigate ''RecruiterFilters'' JUndef)))"

definition choose_trust :: "trust_mode \<Rightarrow> unit list_handler" where
  "choose_trust m = on_store (setDraft (\<lambda>q. q\<lparr>q_trust_mode := m\<rparr>))"

definition filters_reset :: "unit list_handler" where
  "filters_reset = on_store resetDraftToDefaults"

definition filters_done :: "unit list_handler" where
  "filters_done = seq (on_store applyDraft) (emit (Navigate ''back'' JUndef))"

text \<open>A chosen option shows a filled circle, written with an asterisk.\<close>

definition radio :: "bool \<Rightarrow> string \<Rightarrow> element" where
  "radio on label = Button ((if on then ''* '' else ''o '') @ label) True"

definition RecruiterFiltersScreen :: "filters_store \<Rightarrow> element list" where
  "RecruiterFiltersScreen s = (let m = q_trust_mode (draft s) in
     [Caption ''Trust (platform policy)'', radio (m = TrustedOnly) ''Trusted issuers only'',
      radio (m = IncludeUntrusted) ''Allow untrusted issuers'', radio (m = AnyTrust) ''Any'',
      Button ''Reset'' True, Button ''Done'' True])"

section \<open>Rows\<close>

definition shortId :: "string \<Rightarrow> nat \<Rightarrow> string" where
  "shortId i keep = (if length i \<le> keep then i else take keep i)"

definition safeText :: "string option \<Rightarrow> string" where
  "safeText v = trim (coalesce v [])"

text \<open>\<open>date_parse\<close> is \<open>Date.parse\<close> in milliseconds (\<open>None\<close>: not a number), \<open>now_ms\<close> the clock.\<close>

definition timeAgo :: "(string \<Rightarrow> int option) \<Rightarrow> int \<Rightarrow> string \<Rightarrow> string" where
  "timeAgo date_parse now_ms stamp =
     (if stamp = [] then []
      else (case date_parse stamp of
          None \<Rightarrow> []
        | Some t \<Rightarrow>
            (let diffSec = max 0 ((now_ms - t) div 1000); diffMin = diffSec div 60; diffHr = diffMin div 60 in
             if diffSec < 60 then int_string diffSec @ ''s ago''
             else if diffMin < 60 then int_string diffMin @ ''m ago''
             else if diffHr < 48 then int_string diffHr @ ''h ago''
             else int_string (diffHr div 24) @ ''d ago'')))"

fun VerificationChip :: "verification_state \<Rightarrow> string" where
  "VerificationChip VVerified = ''Verified''"
| "VerificationChip VUnverified = ''Unverified''"
| "VerificationChip VPending = ''Pending''"
| "VerificationChip VUnknown = ''Unknown''"

fun TrustLine :: "trust_badge \<Rightarrow> string" where
  "TrustLine Trusted = ''Trusted issuer''"
| "TrustLine Untrusted = ''Untrusted issuer''"
| "TrustLine TrustUnknown = ''Issuer trust unknown''"

fun VerificationLine :: "verification_state \<Rightarrow> string" where
  "VerificationLine VVerified = ''Verified''"
| "VerificationLine VUnverified = ''Unverified''"
| "VerificationLine VPending = ''Pending verification''"
| "VerificationLine VUnknown = ''Verification unavailable''"

definition or_text :: "string \<Rightarrow> string \<Rightarrow> string" where
  "or_text a b = (if a = [] then b else a)"

definition displayName :: "candidate_row \<Rightarrow> string" where
  "displayName item =
     (let fullName = safeText (Some (full_name (subject item)));
          employeeId = safeText (employee_id (subject item))
      in or_text fullName (if employeeId \<noteq> [] then ''Employee '' @ employeeId
                           else ''Candidate '' @ shortId (candidate_id item) 8))"

definition subLeft :: "candidate_row \<Rightarrow> string" where
  "subLeft item =
     (let title = safeText (Some (emp_title (primary_employment item)));
          issuer = safeText (Some (issuer_name (primary_employment item)))
      in if title \<noteq> [] \<or> issuer \<noteq> []
         then join_with [CHR '' '', CHR 0xB7, CHR '' ''] (filter (\<lambda>x. x \<noteq> []) [title, issuer])
         else ''No employment details provided'')"

definition CandidateRow :: "(string \<Rightarrow> int option) \<Rightarrow> int \<Rightarrow> candidate_row \<Rightarrow> element list" where
  "CandidateRow date_parse now_ms item =
     (let trust = badge_trust (row_badges item);
          state = (case row_verification item of None \<Rightarrow> VUnknown | Some v \<Rightarrow> vs_state v);
          updated = timeAgo date_parse now_ms (row_updated_at item)
      in [Caption (VerificationChip state)]
         @ show_if (updated \<noteq> []) [Caption updated]
         @ [Button (displayName item) True, Caption (subLeft item), Caption (TrustLine trust),
            Caption (VerificationLine state),
            Caption (''EVT '' @ or_text (shortId (primary_evt_id item) 8) ''-''),
            Caption (''Candidate '' @ or_text (shortId (candidate_id item) 8) ''-'')])"

text \<open>The list: its count, its rows or the element for an empty list, its footer.\<close>

definition empty_list_view :: "candidates \<Rightarrow> element list" where
  "empty_list_view s =
     (if loading s then [Spinner]
      else if or_default (listErr s) [] \<noteq> [] then [Notice (or_default (listErr s) [])]
      else [Caption ''No candidates match these filters.''])"

definition RecruiterCandidatesScreen :: "candidates \<Rightarrow> exn + (element list \<times> jsval list)" where
  "RecruiterCandidatesScreen s =
     (if \<not> is_arr (items s) then Inl TypeErr
      else (case dedupedItems (the_arr (items s)) of
          Inl e \<Rightarrow> Inl e
        | Inr rows \<Rightarrow> Inr ([Button ''Filter'' True, Caption (int_string (int (length rows)) @ '' candidates'')]
            @ (if rows = [] then empty_list_view s else [])
            @ show_if (loadingMore s) [Spinner], rows)))"

definition initial_candidates :: "auth \<Rightarrow> candidates" where
  "initial_candidates a = auth.extend a \<lparr>store = initial_store, items = JArr [], nextCursor = JNull,
     loading = False, refreshing = False, loadingMore = False, listErr = None, didHydrate = False,
     unmounted = False, focusSignal = None, signals = 0, abortedSignals = []\<rparr>"

end
