(* ===== verification/RecruiterSafety.thy ===== *)
theory RecruiterSafety
  imports RecruiterScreen
begin

text \<open>
  Properties of the recruiter's list: what its deduplication shows, and what an answer that arrives
  after the query has changed does to it.
\<close>

section \<open>Deduplication\<close>

lemma uniq_snoc: "uniq (xs @ [x]) = (if x \<in> set xs then uniq xs else uniq xs @ [x])"
  by (induction xs rule: uniq.induct) auto

text \<open>A map given by its keys in order and a value for each key.\<close>

definition tabulate_map :: "'k list \<Rightarrow> ('k \<Rightarrow> 'v) \<Rightarrow> ('k \<times> 'v) list" where
  "tabulate_map ks f = map (\<lambda>k. (k, f k)) ks"

lemma map_set_tabulate:
  "distinct ks \<Longrightarrow> map_set (tabulate_map ks f) k v =
     tabulate_map (if k \<in> set ks then ks else ks @ [k]) (f(k := v))"
  by (induction ks) (auto simp: tabulate_map_def)

lemma dedupe_into_snoc:
  "dedupe_into m (its @ [it]) = (case dedupe_into m its of Inl e \<Rightarrow> Inl e
     | Inr m' \<Rightarrow> if nullish it then Inl TypeErr else Inr (map_set m' (jget it ''candidate_id'') it))"
  by (induction its arbitrary: m) auto

definition with_id :: "jsval list \<Rightarrow> jsval \<Rightarrow> jsval list" where
  "with_id its k = filter (\<lambda>it. jget it ''candidate_id'' = k) its"

lemma dedupe_into_tabulate:
  "dedupe_into [] its = (if list_ex nullish its then Inl TypeErr
     else Inr (tabulate_map (uniq (map (\<lambda>it. jget it ''candidate_id'') its)) (\<lambda>k. last (with_id its k))))"
proof (induction its rule: rev_induct)
  case Nil
  then show ?case by (simp add: tabulate_map_def)
next
  case (snoc it its)
  define ids where "ids = map (\<lambda>x. jget x ''candidate_id'') its"
  have f: "(\<lambda>k. last (with_id (its @ [it]) k)) = (\<lambda>k. last (with_id its k))(jget it ''candidate_id'' := it)"
    by (rule ext) (simp add: with_id_def)
  have u: "uniq (ids @ [jget it ''candidate_id'']) =
      (if jget it ''candidate_id'' \<in> set (uniq ids) then uniq ids else uniq ids @ [jget it ''candidate_id''])"
    by (simp add: uniq_snoc uniq_remdups)
  show ?case
    unfolding dedupe_into_snoc snoc f map_append list.map ids_def [symmetric] u
    by (simp add: map_set_tabulate uniq_remdups)
qed

text \<open>
  The list shows each candidate once: the rows are those of the distinct identifiers in the
  order in which the pages brought them first, and each is the version that came last. It cannot
  be shown exactly when a row is null.
\<close>

lemma dedupedItems_spec:
  "dedupedItems its = (if list_ex nullish its then Inl TypeErr
     else Inr (map (\<lambda>k. last (with_id its k)) (uniq (map (\<lambda>it. jget it ''candidate_id'') its))))"
  by (simp add: dedupedItems_def dedupe_into_tabulate tabulate_map_def)

section \<open>A page of the old query in the list of the new one\<close>

definition at_list :: candidates where
  "at_list = initial_candidates ((initial_auth False)\<lparr>status := StAuthenticated, accessToken := JStr ''a0''\<rparr>)"

definition page_of :: "string \<Rightarrow> jsval \<Rightarrow> response" where
  "page_of cid cursor = \<lparr>rs_status = 200, rs_text = ''json'',
     rs_json = Some (JObj [(''items'', JArr [JObj [(''candidate_id'', JStr cid)]]), (''next_cursor'', cursor)])\<rparr>"

text \<open>
  The schedule: the first page of the unfiltered query arrives, the end of the list is reached and the
  second page requested; the user chooses trusted issuers only, the first page of the new query is
  fetched and arrives; then the second page of the old query arrives.
\<close>

definition filter_during_load :: "(candidates, unit) move list" where
  "filter_during_load =
    [Start (focus_effect ''b''), Resume 0 (RResp (page_of ''u1'' (JStr ''c1''))),
     Start (loadMore ''b''),
     Start openFilters, Start (choose_trust TrustedOnly), Start filters_done,
     Start (focus_effect ''b''), Resume 5 (RResp (page_of ''t1'' JNull))]"

definition late_page :: "(candidates, unit) move list" where
  "late_page = [Resume 1 (RResp (page_of ''u2'' (JStr ''c2'')))]"

definition old_page_url :: string where
  "old_page_url = rq_url (candidates_request ''b'' (page_query (stripCursor DEFAULT_RECRUITER_QUERY) (JStr ''c1''))
     (JStr ''a0''))"

text \<open>
  A page requested before the filters changed and delivered after is appended to the list of the
  new filters, and its cursor becomes the list's: with trusted issuers only in force, the list shows
  a row of the unfiltered query, and the next page will be asked for with the unfiltered cursor.
\<close>

lemma stale_page_appended:
  "let pl = pool_exec filter_during_load \<lparr>tasks = [], shared = at_list, history = []\<rparr>;
       pl' = pool_exec late_page pl
   in q_trust_mode (applied (store (shared pl'))) = TrustedOnly
    \<and> items (shared pl) = JArr [JObj [(''candidate_id'', JStr ''t1'')]] \<and> nextCursor (shared pl) = JNull
    \<and> (case last (history pl') of Fetch r \<Rightarrow> rq_url r = old_page_url | _ \<Rightarrow> False)
    \<and> items (shared pl') = JArr [JObj [(''candidate_id'', JStr ''t1'')], JObj [(''candidate_id'', JStr ''u2'')]]
    \<and> nextCursor (shared pl') = JStr ''c2''"
  by code_simp

end
