(* ===== verification/Base64.thy ===== *)
theory Base64
  imports JsAsync "HOL-Library.Word"
begin

text \<open>
  The base64 decoder and the hexadecimal writer of \<open>screens/HRReviewScreen.SettingsStyle.tsx\<close>, with the
  bit operations at the width JavaScript gives them: \<open><<\<close>, \<open>>>\<close> and \<open>|\<close> compute on 32 bits, the right
  shift keeps the sign, and an element of a \<open>Uint8Array\<close> keeps 8 bits.
\<close>

unbundle bit_operations_syntax

section \<open>The decoder\<close>

definition b64_lookup :: string where
  "b64_lookup = ''ABCDEFGHIJKLMNOPQRSTUVWXYZabcdefghijklmnopqrstuvwxyz0123456789+/''"

text \<open>\<open>s.indexOf(c)\<close> for one character.\<close>

fun indexOf :: "string \<Rightarrow> char \<Rightarrow> int" where
  "indexOf [] c = -1"
| "indexOf (x # xs) c = (if x = c then 0 else (let i = indexOf xs c in if i < 0 then -1 else i + 1))"

definition group_triple :: "char \<Rightarrow> char \<Rightarrow> char \<Rightarrow> char \<Rightarrow> 32 word" where
  "group_triple a b c d =
     (let c1 = word_of_int (indexOf b64_lookup a); c2 = word_of_int (indexOf b64_lookup b);
          c3 = word_of_int (indexOf b64_lookup c); c4 = word_of_int (indexOf b64_lookup d)
      in push_bit 18 c1 OR push_bit 12 c2 OR push_bit 6 (c3 AND 63) OR (c4 AND 63))"

definition triple_bytes :: "32 word \<Rightarrow> 8 word list" where
  "triple_bytes t = [ucast (signed_drop_bit 16 t AND 0xff), ucast (signed_drop_bit 8 t AND 0xff), ucast (t AND 0xff)]"

text \<open>The loop; \<open>room\<close> is how many bytes are still to be written, \<open>bytesLen - byteIndex\<close>.\<close>

fun decode_groups :: "nat \<Rightarrow> string \<Rightarrow> 8 word list" where
  "decode_groups room (a # b # c # d # rest) =
     (let bytes = take room (triple_bytes (group_triple a b c d))
      in bytes @ decode_groups (room - length bytes) rest)"
| "decode_groups room _ = []"

definition b64_padding :: "string \<Rightarrow> nat" where
  "b64_padding clean = (if ends_with clean ''=='' then 2 else if ends_with clean ''='' then 1 else 0)"

definition base64ToUint8Array :: "string \<Rightarrow> exn + 8 word list" where
  "base64ToUint8Array b64 =
     (let clean = filter (\<lambda>c. \<not> js_ws c) b64; len = length clean in
      if len mod 4 \<noteq> 0 then Inl (JsErr ''Invalid base64 input.'')
      else Inr (decode_groups (len * 3 div 4 - b64_padding clean) clean))"

section \<open>Hexadecimal\<close>

definition byte_hex :: "8 word \<Rightarrow> string" where
  "byte_hex b = [hex_digit (unat b div 16), hex_digit (unat b mod 16)]"

definition arrayBufferToHex :: "8 word list \<Rightarrow> string" where
  "arrayBufferToHex bytes = concat (map byte_hex bytes)"

section \<open>The encoding of RFC 4648\<close>

definition b64_digit :: "8 word \<Rightarrow> char" where
  "b64_digit d = b64_lookup ! unat d"

fun base64_encode :: "8 word list \<Rightarrow> string" where
  "base64_encode [] = []"
| "base64_encode [a] = [b64_digit (drop_bit 2 a), b64_digit (push_bit 4 (a AND 3)), CHR ''='', CHR ''='']"
| "base64_encode [a, b] = [b64_digit (drop_bit 2 a), b64_digit (push_bit 4 (a AND 3) OR drop_bit 4 b),
     b64_digit (push_bit 2 (b AND 15)), CHR ''='']"
| "base64_encode (a # b # c # bs) = [b64_digit (drop_bit 2 a), b64_digit (push_bit 4 (a AND 3) OR drop_bit 4 b),
     b64_digit (push_bit 2 (b AND 15) OR drop_bit 6 c), b64_digit (c AND 63)] @ base64_encode bs"

section \<open>Decoding what was encoded\<close>

lemma lookup_facts: "length b64_lookup = 64" "distinct b64_lookup" "CHR ''='' \<notin> set b64_lookup"
  "list_all (\<lambda>c. \<not> js_ws c) b64_lookup"
  by code_simp+

lemma indexOf_nth: "distinct xs \<Longrightarrow> n < length xs \<Longrightarrow> indexOf xs (xs ! n) = int n"
  by (induction xs arbitrary: n) (auto simp: nth_Cons Let_def split: nat.splits)

lemma indexOf_missing: "c \<notin> set xs \<Longrightarrow> indexOf xs c = -1"
  by (induction xs) auto

lemma indexOf_digit: "d < 64 \<Longrightarrow> word_of_int (indexOf b64_lookup (b64_digit d)) = (ucast d :: 32 word)"
  by (simp add: b64_digit_def indexOf_nth lookup_facts word_less_nat_alt)

lemma indexOf_pad: "word_of_int (indexOf b64_lookup CHR ''='') = (-1 :: 32 word)"
  by (simp add: indexOf_missing lookup_facts)

lemma small_word: "x AND 63 = x \<Longrightarrow> x < (64 :: 8 word)"
proof -
  assume "x AND 63 = x"
  moreover have "x AND 63 \<le> 63" by (rule word_and_le1)
  ultimately have "x \<le> 63" by simp
  also have "(63 :: 8 word) < 64" by simp
  finally show "x < 64" .
qed

lemma as_masks: "(0xff :: 32 word) = mask 8" "(63 :: 32 word) = mask 6" "(63 :: 8 word) = mask 6"
  "(15 :: 8 word) = mask 4" "(3 :: 8 word) = mask 2"
  by (simp_all add: mask_eq_exp_minus_1)

lemma byte_eqI: "(bit x 0 = bit y 0) \<Longrightarrow> (bit x 1 = bit y 1) \<Longrightarrow> (bit x 2 = bit y 2) \<Longrightarrow> (bit x 3 = bit y 3) \<Longrightarrow>
   (bit x 4 = bit y 4) \<Longrightarrow> (bit x 5 = bit y 5) \<Longrightarrow> (bit x 6 = bit y 6) \<Longrightarrow> (bit x 7 = bit y 7) \<Longrightarrow> x = (y :: 8 word)"
proof (rule bit_word_eqI)
  fix n assume *: "bit x 0 = bit y 0" "bit x 1 = bit y 1" "bit x 2 = bit y 2" "bit x 3 = bit y 3"
    "bit x 4 = bit y 4" "bit x 5 = bit y 5" "bit x 6 = bit y 6" "bit x 7 = bit y 7" "n < LENGTH(8)"
  from *(9) have "n < 8" by simp
  then have "n = 0 \<or> n = 1 \<or> n = 2 \<or> n = 3 \<or> n = 4 \<or> n = 5 \<or> n = 6 \<or> n = 7" by presburger
  with * show "bit x n = bit y n" by blast
qed

lemma no_ninth_bit: "8 \<le> n \<Longrightarrow> \<not> bit (a :: 8 word) n"
  using bit_imp_le_length [of a n] by auto

lemma digits_small:
  "drop_bit 2 (a :: 8 word) < 64" "push_bit 4 (a AND 3) OR drop_bit 4 (b :: 8 word) < 64"
  "push_bit 4 (a AND 3) < (64 :: 8 word)" "push_bit 2 (b AND 15) < (64 :: 8 word)"
  "push_bit 2 (b AND 15) OR drop_bit 6 (c :: 8 word) < 64" "c AND 63 < 64"
  by (rule small_word; rule byte_eqI; simp add: as_masks bit_simps no_ninth_bit)+

lemmas digit_index = indexOf_digit [OF digits_small(1)] indexOf_digit [OF digits_small(2)]
  indexOf_digit [OF digits_small(3)] indexOf_digit [OF digits_small(4)] indexOf_digit [OF digits_small(5)]
  indexOf_digit [OF digits_small(6)]

lemma group3: "triple_bytes (group_triple (b64_digit (drop_bit 2 a)) (b64_digit (push_bit 4 (a AND 3) OR drop_bit 4 b))
     (b64_digit (push_bit 2 (b AND 15) OR drop_bit 6 c)) (b64_digit (c AND 63))) = [a, b, c]"
  unfolding triple_bytes_def group_triple_def digit_index Let_def list.inject
  by (intro conjI refl byte_eqI; simp add: as_masks bit_simps no_ninth_bit)

text \<open>The last group of a text that does not fill it: the padding reads as 63, the room cuts it off.\<close>

lemma take_of_three: "take 2 [x, y, z] = [x, y]" "take 1 [x, y, z] = [x]"
  by simp_all

lemma group2: "take 2 (triple_bytes (group_triple (b64_digit (drop_bit 2 a)) (b64_digit (push_bit 4 (a AND 3) OR drop_bit 4 b))
     (b64_digit (push_bit 2 (b AND 15))) CHR ''='')) = [a, b]"
  unfolding triple_bytes_def group_triple_def digit_index indexOf_pad Let_def take_of_three list.inject
  by (intro conjI refl byte_eqI; simp add: as_masks bit_simps no_ninth_bit)

lemma group1: "take 1 (triple_bytes (group_triple (b64_digit (drop_bit 2 a)) (b64_digit (push_bit 4 (a AND 3)))
     CHR ''='' CHR ''='')) = [a]"
  unfolding triple_bytes_def group_triple_def digit_index indexOf_pad Let_def take_of_three list.inject
  by (intro conjI refl byte_eqI; simp add: as_masks bit_simps no_ninth_bit)

lemma triple_length [simp]: "length (triple_bytes t) = 3"
  by (simp add: triple_bytes_def)

lemma decode_groups_encode: "decode_groups (length bs) (base64_encode bs) = bs"
  using group1 group2 group3 by (induction bs rule: base64_encode.induct) (simp_all add: Let_def triple_bytes_def)

lemma encode_length: "length (base64_encode bs) = 4 * ((length bs + 2) div 3)"
proof (induction bs rule: base64_encode.induct)
  case (4 a b c bs)
  have "(length (a # b # c # bs) + 2) div 3 = Suc ((length bs + 2) div 3)" by simp
  with 4 show ?case by simp
qed simp_all

lemma digit_plain: "d < 64 \<Longrightarrow> b64_digit d \<noteq> CHR ''='' \<and> \<not> js_ws (b64_digit d)"
proof -
  assume "d < 64"
  then have "b64_digit d \<in> set b64_lookup" by (simp add: b64_digit_def lookup_facts word_less_nat_alt)
  then show ?thesis using lookup_facts(3,4) by (auto simp: list_all_iff)
qed

lemmas digits_plain = digit_plain [OF digits_small(1)] digit_plain [OF digits_small(2)] digit_plain [OF digits_small(3)]
  digit_plain [OF digits_small(4)] digit_plain [OF digits_small(5)] digit_plain [OF digits_small(6)]

lemma encode_plain: "c \<in> set (base64_encode bs) \<Longrightarrow> \<not> js_ws c"
  by (induction bs rule: base64_encode.induct) (use digits_plain in \<open>auto simp: js_ws_def\<close>)

lemma padding_last2: "b64_padding (p @ [x, y]) = (if y = CHR ''='' then if x = CHR ''='' then 2 else 1 else 0)"
  by (simp add: b64_padding_def ends_with_def)

lemma encode_last2: "bs \<noteq> [] \<Longrightarrow> \<exists>p x y. base64_encode bs = p @ [x, y]
   \<and> (y = CHR ''='') = (length bs mod 3 \<noteq> 0) \<and> (x = CHR ''='') = (length bs mod 3 = 1)"
proof (induction bs rule: base64_encode.induct)
  case (2 a)
  show ?case by (rule exI [of _ "take 2 (base64_encode [a])"]) simp
next
  case (3 a b)
  show ?case by (rule exI [of _ "take 2 (base64_encode [a, b])"]) (use digits_plain in simp)
next
  case (4 a b c bs)
  show ?case
  proof (cases "bs = []")
    case True
    then show ?thesis using digits_plain by (intro exI [of _ "take 2 (base64_encode [a, b, c])"]) simp
  next
    case False
    with 4 obtain p x y where "base64_encode bs = p @ [x, y]" "(y = CHR ''='') = (length bs mod 3 \<noteq> 0)"
      "(x = CHR ''='') = (length bs mod 3 = 1)" by blast
    then show ?thesis by (intro exI [of _ "take 4 (base64_encode (a # b # c # bs)) @ p"]) simp
  qed
qed simp

lemma encode_padding: "b64_padding (base64_encode bs) = (3 - length bs mod 3) mod 3"
proof (cases "bs = []")
  case False
  then obtain p x y where *: "base64_encode bs = p @ [x, y]" "(y = CHR ''='') = (length bs mod 3 \<noteq> 0)"
    "(x = CHR ''='') = (length bs mod 3 = 1)" using encode_last2 by blast
  have "length bs mod 3 = 0 \<or> length bs mod 3 = 1 \<or> length bs mod 3 = 2" by presburger
  then show ?thesis unfolding *(1) padding_last2 by (elim disjE) (simp_all add: *(2,3))
qed (simp add: b64_padding_def ends_with_def)

lemma padded_length: "4 * ((n + 2) div 3) * 3 div 4 - (3 - n mod 3) mod 3 = (n :: nat)"
proof -
  obtain q r where n: "n = 3 * q + r" "r < 3"
    using mod_less_divisor [of 3 n] mult_div_mod_eq [of 3 n] by (metis zero_less_numeral)
  then have "n mod 3 = r" by simp
  from n(2) consider "r = 0" | "r = 1" | "r = 2" by linarith
  then show ?thesis unfolding \<open>n mod 3 = r\<close> unfolding n(1) by cases simp_all
qed

lemma decodes_encoding: "base64ToUint8Array (base64_encode bytes) = Inr bytes"
proof -
  have "filter (\<lambda>c. \<not> js_ws c) (base64_encode bytes) = base64_encode bytes"
    by (simp add: encode_plain)
  moreover have "length (base64_encode bytes) * 3 div 4 - b64_padding (base64_encode bytes) = length bytes"
    unfolding encode_length encode_padding by (rule padded_length)
  ultimately show ?thesis by (simp add: base64ToUint8Array_def decode_groups_encode encode_length)
qed

lemma decode_groups_length: "length (decode_groups room s) = min room (3 * (length s div 4))"
proof (induction room s rule: decode_groups.induct)
  case (1 room a b c d rest)
  have "length (a # b # c # d # rest) div 4 = Suc (length rest div 4)" by simp
  with 1 show ?case by (auto simp: Let_def min_def)
qed simp_all

lemma hex_digit_inj: "m < 16 \<Longrightarrow> n < 16 \<Longrightarrow> hex_digit m = hex_digit n \<Longrightarrow> m = n"
proof -
  assume *: "m < 16" "n < 16" "hex_digit m = hex_digit n"
  then have "(of_char (hex_digit m) :: nat) = of_char (hex_digit n)" by simp
  with * show ?thesis by (auto simp: hex_digit_def split: if_splits)
qed

lemma byte_hex_inj: "byte_hex a = byte_hex b \<longleftrightarrow> a = b"
proof
  assume *: "byte_hex a = byte_hex b"
  have "unat a < 256" "unat b < 256" using unsigned_less [of a] unsigned_less [of b] by simp_all
  then have "unat a div 16 < 16" "unat b div 16 < 16" by simp_all
  with * have "unat a div 16 = unat b div 16" "unat a mod 16 = unat b mod 16"
    by (auto simp: byte_hex_def intro: hex_digit_inj)
  then have "unat a = unat b" by (metis mult_div_mod_eq)
  then show "a = b" unfolding word_unat_eq_iff .
qed simp

text \<open>Two digests have the same text exactly when they are the same.\<close>

lemma arrayBufferToHex_inj: "arrayBufferToHex xs = arrayBufferToHex ys \<Longrightarrow> xs = ys"
proof (induction xs arbitrary: ys)
  case Nil
  then show ?case by (cases ys) (simp_all add: arrayBufferToHex_def byte_hex_def)
next
  case (Cons x xs)
  then obtain y ys' where ys: "ys = y # ys'" by (cases ys) (auto simp: arrayBufferToHex_def byte_hex_def)
  with Cons.prems have "byte_hex x = byte_hex y" "arrayBufferToHex xs = arrayBufferToHex ys'"
    by (simp_all add: arrayBufferToHex_def byte_hex_def)
  then show ?case using Cons.IH by (simp add: ys byte_hex_inj)
qed

text \<open>
  C37. The decoder undoes the encoding of RFC 4648, for every file and wherever white space has been
  inserted into the text; it refuses exactly the texts whose length without white space is no
  multiple of four, and two digests have the same text exactly when they are the same.
\<close>

theorem base64_roundtrip:
  "base64ToUint8Array (base64_encode bytes) = Inr bytes
    \<and> base64ToUint8Array s = base64ToUint8Array (filter (\<lambda>c. \<not> js_ws c) s)
    \<and> (base64ToUint8Array s = Inl (JsErr ''Invalid base64 input.'')) = (length (filter (\<lambda>c. \<not> js_ws c) s) mod 4 \<noteq> 0)
    \<and> (arrayBufferToHex xs = arrayBufferToHex ys) = (xs = ys)"
  using arrayBufferToHex_inj [of xs ys]
  by (auto simp: decodes_encoding) (auto simp: base64ToUint8Array_def Let_def split: if_splits)

end
