(* ===== verification/Evidence.thy ===== *)
theory Evidence
  imports Base64 Screens Recovery
begin

text \<open>
  Attaching evidence on the HR review screen (\<open>screens/HRReviewScreen.SettingsStyle.tsx\<close>, first half):
  picking a document or a photo, checking it against the client's policy, computing its digest and
  uploading it. The pickers, the file system, the hash and the upload are awaited; what they answer
  has the documented types.
\<close>

section \<open>Files\<close>

datatype upload_state = Idle | Picking | Initing | Uploading | UploadDone jsval | UploadError string

record evidence_file =
  ef_uri :: string
  ef_name :: string
  ef_mimeType :: string
  ef_size :: int

record picked_file =
  pk_uri :: string
  pk_name :: "string option"
  pk_mimeType :: "string option"
  pk_size :: "int option"

text \<open>The device: the base address, the cache directory, the clock where a name and a copy are made.\<close>

record device =
  dv_base :: string
  dv_cacheDirectory :: string
  dv_named_at :: int
  dv_copied_at :: int

definition MAX_FILE_BYTES :: int where
  "MAX_FILE_BYTES = 5000000"

definition ALLOWED_MIME_TYPES :: "string list" where
  "ALLOWED_MIME_TYPES = [''application/pdf'', ''image/jpeg'', ''image/png'']"

definition inferExtensionFromMime :: "string \<Rightarrow> string" where
  "inferExtensionFromMime mimeType =
     (if mimeType = ''application/pdf'' then ''pdf'' else if mimeType = ''image/jpeg'' then ''jpg'' else ''png'')"

text \<open>\<open>s.replace(/[P]+/g, r)\<close>: every maximal run becomes \<open>r\<close>.\<close>

fun collapse :: "(char \<Rightarrow> bool) \<Rightarrow> string \<Rightarrow> bool \<Rightarrow> string \<Rightarrow> string" where
  "collapse P r inside [] = []"
| "collapse P r inside (c # s) =
     (if P c then (if inside then [] else r) @ collapse P r True s else c # collapse P r False s)"

definition control_char :: "char \<Rightarrow> bool" where
  "control_char c = (let n = of_char c :: nat in n \<le> 31 \<or> n = 127)"

definition sanitizeFilename :: "int \<Rightarrow> string \<Rightarrow> string" where
  "sanitizeFilename now_ms name =
     (let replaced = collapse js_ws ''_'' False
            (collapse control_char [] False
              (collapse (\<lambda>c. c = CHR ''/'' \<or> c = CHR 0x5C) ''_'' False (trim name)))
      in if replaced \<noteq> [] then replaced else ''evidence-'' @ int_string now_ms)"

definition mime_by_ending :: "string \<Rightarrow> string option" where
  "mime_by_ending lower =
     (if ends_with lower ''.pdf'' then Some ''application/pdf''
      else if ends_with lower ''.jpg'' \<or> ends_with lower ''.jpeg'' then Some ''image/jpeg''
      else if ends_with lower ''.png'' then Some ''image/png''
      else None)"

definition guessMimeTypeFromName :: "string \<Rightarrow> string option" where
  "guessMimeTypeFromName filename = mime_by_ending (to_lower filename)"

definition ensureFileUri :: "string \<Rightarrow> string" where
  "ensureFileUri uri = (if starts_with uri ''file://'' then uri else uri)"

text \<open>\<open>s.replace(/\.[^/.]+$/, "")\<close>\<close>

definition drop_extension :: "string \<Rightarrow> string" where
  "drop_extension s =
     (let tail = takeWhile (\<lambda>c. c \<noteq> CHR ''.'') (rev s) in
      if tail \<noteq> [] \<and> CHR ''/'' \<notin> set tail \<and> length tail < length s
      then take (length s - length tail - 1) s else s)"

section \<open>Reading a file\<close>

definition unsupported_type :: exn where
  "unsupported_type = JsErr ''Unsupported file type. Use PDF, JPG, or PNG.''"

definition bad_size :: exn where
  "bad_size = JsErr ''Missing or invalid file size.''"

definition too_large :: exn where
  "too_large = JsErr ''File is too large. Max is 5MB.''"

definition ask :: "event \<Rightarrow> ('s, reply) prog" where
  "ask ev = Await ev (\<lambda>r. case r of RFail e \<Rightarrow> Raise e | _ \<Rightarrow> Return r)"

definition reply_value :: "reply \<Rightarrow> jsval" where
  "reply_value r = (case r of RVal v \<Rightarrow> v | _ \<Rightarrow> JUndef)"

definition reply_text :: "reply \<Rightarrow> string" where
  "reply_text r = (case r of RText (Some t) \<Rightarrow> t | _ \<Rightarrow> [])"

definition js_number :: "jsval \<Rightarrow> int option" where
  "js_number v = (case v of JNum n \<Rightarrow> Some n | _ \<Rightarrow> None)"

definition js_text :: "jsval \<Rightarrow> string option" where
  "js_text v = (case v of JStr s \<Rightarrow> Some s | _ \<Rightarrow> None)"

definition getFileSizeBytes :: "string \<Rightarrow> ('s, int) prog" where
  "getFileSizeBytes uri =
     bind (ask (StatFile uri)) (\<lambda>r. let info = reply_value r in
     if \<not> truthy (jget info ''exists'') then Raise (JsErr ''File does not exist at provided URI.'')
     else (case js_number (jget info ''size'') of
         None \<Rightarrow> Raise bad_size
       | Some n \<Rightarrow> if n \<le> 0 then Raise bad_size else Return n))"

definition bytes_text :: "8 word list \<Rightarrow> string" where
  "bytes_text bs = map (\<lambda>b. char_of (unat b)) bs"

definition text_bytes :: "string \<Rightarrow> 8 word list" where
  "text_bytes s = map (\<lambda>c. word_of_nat (of_char c)) s"

definition computeEvidenceDigestHex :: "string \<Rightarrow> ('s, string) prog" where
  "computeEvidenceDigestHex uri =
     bind (ask (ReadFile uri)) (\<lambda>base64.
     case base64ToUint8Array (reply_text base64) of
       Inl e \<Rightarrow> Raise e
     | Inr bytes \<Rightarrow>
         bind (ask (DigestFile (bytes_text bytes))) (\<lambda>digest.
         Return (to_lower (arrayBufferToHex (text_bytes (reply_text digest))))))"

section \<open>The client's policy\<close>

definition picked_mime :: "string \<Rightarrow> picked_file \<Rightarrow> string option" where
  "picked_mime rawUri inp =
     (let named = (case pk_mimeType inp of
            Some m \<Rightarrow> Some m
          | None \<Rightarrow> if or_default (pk_name inp) [] \<noteq> [] then guessMimeTypeFromName (the (pk_name inp)) else None)
      in if or_default named [] \<noteq> [] then named
         else (case mime_by_ending (to_lower rawUri) of Some m \<Rightarrow> Some m | None \<Rightarrow> named))"

definition evidence_name :: "device \<Rightarrow> string option \<Rightarrow> string \<Rightarrow> string" where
  "evidence_name dv name ext =
     (let baseName = (if or_default name [] \<noteq> [] \<and> trim (the name) \<noteq> [] then sanitizeFilename (dv_named_at dv) (the name)
                      else ''evidence-'' @ int_string (dv_named_at dv) @ ''.'' @ ext)
      in if ends_with (to_lower baseName) (''.'' @ ext) then baseName else drop_extension baseName @ ''.'' @ ext)"

definition picked_size :: "string \<Rightarrow> int option \<Rightarrow> ('s, int) prog" where
  "picked_size rawUri given = (case given of
       Some n \<Rightarrow> if n > 0 then Return n else getFileSizeBytes rawUri
     | None \<Rightarrow> getFileSizeBytes rawUri)"

definition upload_source :: "device \<Rightarrow> string \<Rightarrow> string \<Rightarrow> ('s, string) prog" where
  "upload_source dv rawUri finalName =
     (if starts_with rawUri ''file://'' then Return rawUri
      else (let dest = dv_cacheDirectory dv @ ''evidence-'' @ int_string (dv_copied_at dv) @ ''-'' @ finalName in
            bind (ask (CopyFile rawUri dest)) (\<lambda>_. Return dest)))"

definition normalizeEvidenceFile :: "device \<Rightarrow> picked_file \<Rightarrow> ('s, evidence_file) prog" where
  "normalizeEvidenceFile dv inp =
     (let rawUri = ensureFileUri (pk_uri inp); mimeType = or_default (picked_mime rawUri inp) [] in
      if mimeType = [] \<or> mimeType \<notin> set ALLOWED_MIME_TYPES then Raise unsupported_type
      else
        (let finalName = evidence_name dv (pk_name inp) (inferExtensionFromMime mimeType) in
         bind (picked_size rawUri (pk_size inp)) (\<lambda>n.
         if n > MAX_FILE_BYTES then Raise too_large
         else
           bind (upload_source dv rawUri finalName) (\<lambda>uploadUri.
           Return \<lparr>ef_uri = uploadUri, ef_name = finalName, ef_mimeType = mimeType, ef_size = n\<rparr>))))"

section \<open>Picking\<close>

definition first_asset :: "jsval \<Rightarrow> jsval" where
  "first_asset picked = (case jget picked ''assets'' of JArr (x # xs) \<Rightarrow> x | _ \<Rightarrow> JUndef)"

definition pickDocumentEvidence :: "device \<Rightarrow> ('s, evidence_file option) prog" where
  "pickDocumentEvidence dv =
     bind (ask (PickFile ''document'')) (\<lambda>r. let picked = reply_value r; asset = first_asset picked in
     if truthy (jget picked ''canceled'') then Return None
     else if \<not> truthy (jget asset ''uri'') then Raise (JsErr ''Document picker returned no file.'')
     else
       bind (normalizeEvidenceFile dv \<lparr>pk_uri = the_str (jget asset ''uri''), pk_name = js_text (jget asset ''name''),
               pk_mimeType = (case js_text (jget asset ''mimeType'') of
                   Some m \<Rightarrow> Some m
                 | None \<Rightarrow> if or_default (js_text (jget asset ''name'')) [] \<noteq> []
                           then guessMimeTypeFromName (the_str (jget asset ''name'')) else None),
               pk_size = js_number (jget asset ''size'')\<rparr>) (\<lambda>f. Return (Some f)))"

text \<open>
  A photo without an address is announced, then read all the same: an empty text goes on, a missing
  one fails at its first method. A normalised file of another type than the two is announced as well.
\<close>

definition normalize_photo :: "device \<Rightarrow> jsval \<Rightarrow> ('s, evidence_file option) prog" where
  "normalize_photo dv asset =
     seq (do_if (\<not> truthy (jget asset ''uri'')) (emit (Alert ''Image picker returned no image.'' [])))
    (if \<not> is_str (jget asset ''uri'') then Raise TypeErr
     else
       bind (normalizeEvidenceFile dv \<lparr>pk_uri = the_str (jget asset ''uri''), pk_name = js_text (jget asset ''fileName''),
               pk_mimeType = js_text (jget asset ''mimeType''), pk_size = js_number (jget asset ''fileSize'')\<rparr>) (\<lambda>f.
       seq (do_if (ef_mimeType f \<noteq> ''image/jpeg'' \<and> ef_mimeType f \<noteq> ''image/png'')
              (emit (Alert ''Unsupported photo type. Use JPG or PNG.'' [])))
           (Return (Some f))))"

definition pickPhotoEvidence :: "device \<Rightarrow> ('s, evidence_file option) prog" where
  "pickPhotoEvidence dv =
     bind (ask AskPermission) (\<lambda>p.
     if \<not> truthy (jget (reply_value p) ''granted'')
     then seq (emit (Alert ''Photos Permission Required''
            ''Enable Photos access:\<newline>Settings -> Privacy & Security -> Photos -> Allow this app.'')) (Return None)
     else
       bind (ask (PickFile ''photo'')) (\<lambda>r. let res = reply_value r; asset = first_asset res in
       if truthy (jget res ''canceled'') then Return None
       else if nullish asset then Raise TypeErr
       else
         (let mime = coalesce (js_text (jget asset ''mimeType'')) ''image/jpeg'' in
          if str_includes mime ''heic'' \<or> str_includes mime ''heif''
          then seq (emit (Alert ''Unsupported Format''
                 ''HEIC / Live Photos are not supported yet.\<newline>Please choose a regular photo (JPG or PNG).'')) (Return None)
          else normalize_photo dv asset)))"

section \<open>Uploading\<close>

definition CASE_ID :: string where
  "CASE_ID = ''EVT-10324''"

definition CHECK_ID :: string where
  "CHECK_ID = ''employment.company_and_dates''"

definition no_base :: exn where
  "no_base = JsErr ''Missing EXPO_PUBLIC_EVT_API_BASE_URL (device cannot reach 127.0.0.1).''"

definition init_request :: "string \<Rightarrow> evidence_file \<Rightarrow> request" where
  "init_request base f = \<lparr>rq_url = base @ ''/v1/cases/'' @ encodeURIComponent CASE_ID @ ''/checks/''
        @ encodeURIComponent CHECK_ID @ ''/evidence:init'', rq_method = ''POST'', rq_headers = json_headers,
     rq_credentials = [], rq_body = JObj [(''caseId'', JStr CASE_ID), (''checkId'', JStr CHECK_ID),
        (''files'', JArr [JObj [(''name'', JStr (ef_name f)), (''mimeType'', JStr (ef_mimeType f)),
                             (''size'', JNum (ef_size f))]])]\<rparr>"

text \<open>The headers of the answer, each value as text, in the order of the answer.\<close>

definition header_list :: "jsval \<Rightarrow> (string \<times> string) list" where
  "header_list v = (case v of JObj ps \<Rightarrow> map (\<lambda>p. (fst p, js_string (snd p))) ps | _ \<Rightarrow> [])"

definition put_file :: "jsval \<Rightarrow> evidence_file \<Rightarrow> ('s, jsval) prog" where
  "put_file upload f =
     bind (ask (PutFile (js_string (jget upload ''url'')) (ef_uri f) (header_list (jget upload ''headers'')))) (\<lambda>r.
     case r of
       RResp putRes \<Rightarrow>
         if rs_status putRes \<noteq> 200 \<and> rs_status putRes \<noteq> 204
         then Raise (JsErr (''PUT failed ('' @ int_string (rs_status putRes) @ ''). Body: '' @ rs_text putRes))
         else Return (jget upload ''storageKey'')
     | _ \<Rightarrow> Raise TypeErr)"

definition uploadViaInitAndPut :: "device \<Rightarrow> evidence_file \<Rightarrow> ('x, jsval) handler" where
  "uploadViaInitAndPut dv f =
     (if dv_base dv = [] then Raise no_base
      else if ef_mimeType f \<notin> set ALLOWED_MIME_TYPES then Raise unsupported_type
      else if ef_size f \<le> 0 then Raise bad_size
      else if ef_size f > MAX_FILE_BYTES then Raise too_large
      else
        bind (api_fetch (init_request (dv_base dv) f)) (\<lambda>initRes.
        if \<not> rs_ok initRes
        then Raise (JsErr (''Init failed ('' @ int_string (rs_status initRes) @ ''): '' @ rs_text initRes))
        else
          bind (res_json initRes) (\<lambda>initJson.
          bind (prop_of initJson ''uploads'') (\<lambda>uploads.
          let upload = first_item uploads in
          if \<not> truthy (jget upload ''url'') \<or> \<not> truthy (jget upload ''headers'') \<or> \<not> truthy (jget upload ''storageKey'')
          then Raise (JsErr ''Init response missing upload url/headers/storageKey.'')
          else put_file upload f))))"

section \<open>The screen's handlers\<close>

record hr_review = auth +
  uploadState :: upload_state
  evidenceDigests :: "string list"

type_synonym ('x, 'a) hr_handler = "('x hr_review_scheme, 'a) prog"

definition setUploadState :: "upload_state \<Rightarrow> ('x, unit) hr_handler" where
  "setUploadState u = modify (\<lambda>s. s\<lparr>uploadState := u\<rparr>)"

definition document_error :: "string \<Rightarrow> string" where
  "document_error msg =
     (if str_includes msg ''Network request failed'' then ''Cannot reach server. Check Wi-Fi/LAN URL.''
      else if str_includes (to_lower msg) ''timed out''
      then ''Request timed out. Check server reachability or try again.''
      else msg)"

definition photo_error :: "string \<Rightarrow> string" where
  "photo_error msg = (if str_includes msg ''Photo access denied'' then msg else document_error msg)"

definition attach :: "device \<Rightarrow> string list \<Rightarrow> evidence_file \<Rightarrow> ('x, unit) hr_handler" where
  "attach dv digests f =
     seq (setUploadState Initing)
    (bind (computeEvidenceDigestHex (ef_uri f)) (\<lambda>digestHex.
     if digestHex \<in> set digests
     then seq (setUploadState Idle)
            (emit (Alert ''Already attached''
               ''This file is already attached as evidence. No additional upload needed.''))
     else
       bind (uploadViaInitAndPut dv f) (\<lambda>storageKey.
       seq (modify (\<lambda>s. s\<lparr>evidenceDigests := evidenceDigests s @ [digestHex]\<rparr>))
           (setUploadState (UploadDone storageKey)))))"

text \<open>The two handlers differ in the picker and in the text of an error; \<open>digests\<close> is what the last render saw.\<close>

definition pick_and_upload :: "device \<Rightarrow> ('x hr_review_scheme, evidence_file option) prog \<Rightarrow> (string \<Rightarrow> string) \<Rightarrow>
    ('x, unit) hr_handler" where
  "pick_and_upload dv pick friendly =
     bind (gets evidenceDigests) (\<lambda>digests.
     try_catch
       (if dv_base dv = [] then setUploadState (UploadError (exn_message no_base))
        else
          seq (setUploadState Picking)
         (bind pick (\<lambda>evidence. case evidence of
            None \<Rightarrow> setUploadState Idle
          | Some f \<Rightarrow> attach dv digests f)))
       (\<lambda>e. setUploadState (UploadError (friendly (exn_message e)))))"

definition pickAndUploadDocument :: "device \<Rightarrow> ('x, unit) hr_handler" where
  "pickAndUploadDocument dv = pick_and_upload dv (pickDocumentEvidence dv) document_error"

definition pickAndUploadPhoto :: "device \<Rightarrow> ('x, unit) hr_handler" where
  "pickAndUploadPhoto dv = pick_and_upload dv (pickPhotoEvidence dv) photo_error"

definition canUpload :: "upload_state \<Rightarrow> bool" where
  "canUpload u = (u \<noteq> Picking \<and> u \<noteq> Initing \<and> u \<noteq> Uploading)"

text \<open>What the user takes in the sheet that offers the two sources; the browser has no sheet.\<close>

datatype upload_choice = FromPhotos | FromFiles | NoSource

definition handleUploadEvidencePress :: "device \<Rightarrow> upload_choice \<Rightarrow> ('x, unit) hr_handler" where
  "handleUploadEvidencePress dv choice =
     bind (gets (\<lambda>s. s)) (\<lambda>s.
     if dv_base dv = [] then setUploadState (UploadError (exn_message no_base))
     else if \<not> canUpload (uploadState s)
     then emit (Alert ''Upload in progress'' ''Please wait for the current upload step to finish.'')
     else if on_web s then pickAndUploadDocument dv
     else (case choice of
         FromPhotos \<Rightarrow> pickAndUploadPhoto dv | FromFiles \<Rightarrow> pickAndUploadDocument dv | NoSource \<Rightarrow> skip))"

section \<open>What the screen shows of an upload\<close>

definition displayFileNameFromKey :: "string \<Rightarrow> string" where
  "displayFileNameFromKey key = last (split_on CHR ''/'' key)"

definition shortKey :: "string \<Rightarrow> string" where
  "shortKey key = (if length key \<le> 22 + 10 + 3 then key
     else take 22 key @ ''...'' @ drop (length key - 10) key)"

definition upload_progress :: "upload_state \<Rightarrow> element list" where
  "upload_progress u = (case u of
       Idle \<Rightarrow> []
     | Picking \<Rightarrow> [Spinner, Caption ''Opening picker...'']
     | Initing \<Rightarrow> [Spinner, Caption ''Creating upload session...'']
     | Uploading \<Rightarrow> [Spinner, Caption ''Uploading to storage...'']
     | UploadDone key \<Rightarrow> [Caption ''Upload complete'', Caption (displayFileNameFromKey (js_string key)),
         Caption (shortKey (js_string key))]
     | UploadError message \<Rightarrow> [Notice ''Upload failed'', Notice message])"

end
