(* ===== verification/EvidenceSafety.thy ===== *)
theory EvidenceSafety
  imports Evidence
begin

text \<open>
  Properties of attaching evidence: what passes the client's policy, how every attempt ends, and that
  a file already attached is not uploaded again.
\<close>

section \<open>The policy\<close>

lemma collapse_set: "c \<in> set (collapse P r i s) \<Longrightarrow> c \<in> set r \<or> (c \<in> set s \<and> \<not> P c)"
  by (induction P r i s rule: collapse.induct) (auto split: if_splits)

definition path_char :: "char \<Rightarrow> bool" where
  "path_char c = (c = CHR ''/'' \<or> c = CHR 0x5C)"

lemma digit_char_plain: "k < (10 :: nat) \<Longrightarrow> \<not> path_char (char_of (48 + k))"
proof -
  have "\<forall>k \<in> set [0..<10 :: nat]. \<not> path_char (char_of (48 + k))" by code_simp
  then show "k < 10 \<Longrightarrow> ?thesis" by simp
qed

lemma nat_digits_plain: "c \<in> set (nat_digits n) \<Longrightarrow> \<not> path_char c"
proof (induction n rule: nat_digits.induct)
  case (1 n)
  then show ?case
    by (cases "n < 10") (use digit_char_plain in \<open>auto simp: nat_digits.simps [of n]\<close>)
qed

lemma int_string_plain: "c \<in> set (int_string i) \<Longrightarrow> \<not> path_char c"
  by (auto simp: int_string_def path_char_def [of "CHR ''-''"] split: if_splits dest: nat_digits_plain)

lemma sanitized_plain: "c \<in> set (sanitizeFilename now_ms name) \<Longrightarrow> \<not> path_char c"
  by (auto simp: sanitizeFilename_def Let_def path_char_def dest!: collapse_set int_string_plain split: if_splits)

lemma drop_extension_set: "set (drop_extension s) \<subseteq> set s"
  by (auto simp: drop_extension_def Let_def dest: in_set_takeD)

lemma lower_ext: "to_lower ''.pdf'' = ''.pdf''" "to_lower ''.jpg'' = ''.jpg''" "to_lower ''.png'' = ''.png''"
  by code_simp+

lemma to_lower_append: "to_lower (a @ b) = to_lower a @ to_lower b"
  by (simp add: to_lower_def)

definition extensions :: "string list" where
  "extensions = [''pdf'', ''jpg'', ''png'']"

lemma inferred_extension: "inferExtensionFromMime m \<in> set extensions"
  by (simp add: inferExtensionFromMime_def extensions_def)

lemma name_ending: "ext \<in> set extensions \<Longrightarrow> ends_with (to_lower (evidence_name dv name ext)) (''.'' @ ext)"
proof -
  assume "ext \<in> set extensions"
  then have "to_lower (''.'' @ ext) = ''.'' @ ext" using lower_ext by (auto simp: extensions_def)
  then have "ends_with (to_lower (x @ ''.'' @ ext)) (''.'' @ ext)" for x
    by (metis to_lower_append ends_with_append)
  then show ?thesis by (auto simp: evidence_name_def Let_def)
qed

lemma name_plain: "ext \<in> set extensions \<Longrightarrow> c \<in> set (evidence_name dv name ext) \<Longrightarrow> \<not> path_char c"
proof -
  have fixed: "\<forall>x \<in> set (''evidence-'' @ ''.'' @ ''pdf'' @ ''jpg'' @ ''png''). \<not> path_char x" by code_simp
  assume ext: "ext \<in> set extensions" and c: "c \<in> set (evidence_name dv name ext)"
  then have "c \<in> set (sanitizeFilename (dv_named_at dv) (the name)) \<or> c \<in> set (int_string (dv_named_at dv))
      \<or> c \<in> set (''evidence-'' @ ''.'' @ ext)"
    using drop_extension_set by (fastforce simp: evidence_name_def Let_def split: if_splits)
  moreover have "set (''evidence-'' @ ''.'' @ ext) \<subseteq> set (''evidence-'' @ ''.'' @ ''pdf'' @ ''jpg'' @ ''png'')"
    using ext by (auto simp: extensions_def)
  ultimately show "\<not> path_char c" using fixed sanitized_plain int_string_plain by blast
qed

section \<open>Running a normalisation\<close>

lemma wp_ask [wp_rules]:
  "wp w (ask ev) Q E s t = (case w t ev of RFail e \<Rightarrow> E e s (t @ [ev]) | r \<Rightarrow> Q r s (t @ [ev]))"
  by (simp add: ask_def wp_rules split: reply.split)

definition within_policy :: "device \<Rightarrow> picked_file \<Rightarrow> evidence_file \<Rightarrow> bool" where
  "within_policy dv inp f = (ef_mimeType f \<in> set ALLOWED_MIME_TYPES \<and> 0 < ef_size f \<and> ef_size f \<le> MAX_FILE_BYTES
     \<and> ends_with (to_lower (ef_name f)) (''.'' @ inferExtensionFromMime (ef_mimeType f))
     \<and> \<not> list_ex path_char (ef_name f)
     \<and> (if starts_with (pk_uri inp) ''file://'' then ef_uri f = pk_uri inp
        else ef_uri f = dv_cacheDirectory dv @ ''evidence-'' @ int_string (dv_copied_at dv) @ ''-'' @ ef_name f))"

lemma wp_picked_size: "(\<And>n t'. 0 < n \<Longrightarrow> Q n s t') \<Longrightarrow> (\<And>e t'. E e s t') \<Longrightarrow> wp w (picked_size uri given) Q E s t"
  unfolding picked_size_def getFileSizeBytes_def
  by (auto simp: wp_rules Let_def split: option.split reply.split)

lemma wp_upload_source:
  "(\<And>t'. Q (if starts_with uri ''file://'' then uri
       else dv_cacheDirectory dv @ ''evidence-'' @ int_string (dv_copied_at dv) @ ''-'' @ name) s t') \<Longrightarrow>
   (\<And>e t'. E e s t') \<Longrightarrow> wp w (upload_source dv uri name) Q E s t"
  by (auto simp: upload_source_def wp_rules Let_def split: reply.split)

lemma wp_normalize:
  assumes Q: "\<And>f t'. within_policy dv inp f \<Longrightarrow> Q f s t'" and E: "\<And>e t'. E e s t'"
  shows "wp w (normalizeEvidenceFile dv inp) Q E s t"
proof -
  define uri mime where "uri = pk_uri inp" and "mime = or_default (picked_mime uri inp) []"
  define name where "name = evidence_name dv (pk_name inp) (inferExtensionFromMime mime)"
  have policy: "within_policy dv inp \<lparr>ef_uri = (if starts_with uri ''file://'' then uri
       else dv_cacheDirectory dv @ ''evidence-'' @ int_string (dv_copied_at dv) @ ''-'' @ name),
       ef_name = name, ef_mimeType = mime, ef_size = n\<rparr>"
    if "mime \<in> set ALLOWED_MIME_TYPES" "0 < n" "n \<le> MAX_FILE_BYTES" for n
    using that name_ending [OF inferred_extension] name_plain [OF inferred_extension]
    by (auto simp: within_policy_def uri_def name_def list_ex_iff)
  have copied: "wp w (bind (upload_source dv uri name) (\<lambda>u. Return \<lparr>ef_uri = u, ef_name = name, ef_mimeType = mime, ef_size = n\<rparr>)) Q E s t'"
    if "mime \<in> set ALLOWED_MIME_TYPES" "0 < n" "n \<le> MAX_FILE_BYTES" for n t'
    unfolding wp_bind by (rule wp_upload_source) (unfold wp_prims, rule Q [OF policy [OF that]], rule E)
  have "wp w (picked_size uri (pk_size inp)) (\<lambda>n. wp w (if n > MAX_FILE_BYTES then Raise too_large
         else bind (upload_source dv uri name) (\<lambda>u. Return \<lparr>ef_uri = u, ef_name = name, ef_mimeType = mime, ef_size = n\<rparr>)) Q E) E s t"
    if "mime \<in> set ALLOWED_MIME_TYPES"
    by (rule wp_picked_size) (simp_all add: wp_if wp_prims E copied that)
  then show ?thesis
    unfolding normalizeEvidenceFile_def Let_def ensureFileUri_def if_cancel uri_def [symmetric]
      mime_def [symmetric] name_def [symmetric]
    by (simp add: wp_if wp_bind [of w "picked_size uri (pk_size inp)"] wp_prims E)
qed

text \<open>
  C35. Only files within the client's policy are prepared for upload. Whatever the picker and the file
  system answer, a normalised file has an allowed type, a positive size of at most five million bytes
  (read from the disk when the picker gives none), a name that ends in the extension of its type and
  has no path separator, and the picked address, or that of its copy in the cache directory when the
  picked one is no file address.
\<close>

theorem normalized_within_policy:
  assumes "run w (normalizeEvidenceFile dv inp) s t = (Inr f, s', t')"
  shows "ef_mimeType f \<in> set ALLOWED_MIME_TYPES \<and> 0 < ef_size f \<and> ef_size f \<le> MAX_FILE_BYTES
     \<and> ends_with (to_lower (ef_name f)) (''.'' @ inferExtensionFromMime (ef_mimeType f))
     \<and> \<not> list_ex path_char (ef_name f)
     \<and> (if starts_with (pk_uri inp) ''file://'' then ef_uri f = pk_uri inp
        else ef_uri f = dv_cacheDirectory dv @ ''evidence-'' @ int_string (dv_copied_at dv) @ ''-'' @ ef_name f)"
proof -
  have "wp w (normalizeEvidenceFile dv inp) (\<lambda>f _ _. within_policy dv inp f) (\<lambda>_ _ _. True) s t"
    by (rule wp_normalize) simp_all
  with assms have "within_policy dv inp f" by (simp add: wp_def)
  then show ?thesis unfolding within_policy_def .
qed

section \<open>How an attempt ends\<close>

lemma hr_of_more: "auth.more s' = auth.more (s :: 'x hr_review_scheme) \<Longrightarrow>
    uploadState s' = uploadState s \<and> evidenceDigests s' = evidenceDigests s"
  by (cases s; cases s') simp

lemma keeps_reply [keeps_rules]:
  "(\<And>x. keeps (p x)) \<Longrightarrow> keeps q \<Longrightarrow> keeps (case r of RResp x \<Rightarrow> p x | _ \<Rightarrow> q)"
  by (simp split: reply.split)

lemma keeps_sum [keeps_rules]:
  "(\<And>e. keeps (p e)) \<Longrightarrow> (\<And>a. keeps (q a)) \<Longrightarrow> keeps (case x of Inl e \<Rightarrow> p e | Inr a \<Rightarrow> q a)"
  by (cases x) simp_all

lemma keeps_ask_reply [keeps_rules]: "keeps (ask ev)"
  unfolding ask_def by (rule keeps_rules) (simp add: keeps_rules split: reply.split)

lemma keeps_evidence [keeps_rules]:
  "keeps (getFileSizeBytes uri)" "keeps (computeEvidenceDigestHex uri)" "keeps (put_file u f)"
  "keeps (upload_source dv uri name)"
  unfolding getFileSizeBytes_def computeEvidenceDigestHex_def put_file_def upload_source_def
  by (intro keeps_rules)+

lemma keeps_normalize [keeps_rules]: "keeps (normalizeEvidenceFile dv inp)"
  unfolding normalizeEvidenceFile_def picked_size_def by (intro keeps_rules)

lemma keeps_pickers [keeps_rules]: "keeps (pickDocumentEvidence dv)" "keeps (pickPhotoEvidence dv)"
  unfolding pickDocumentEvidence_def pickPhotoEvidence_def normalize_photo_def by (intro keeps_rules)+

lemma off_screen_upload [leaves_rules]: "off_screen (uploadViaInitAndPut dv f)"
  unfolding uploadViaInitAndPut_def getFileSizeBytes_def computeEvidenceDigestHex_def put_file_def upload_source_def ask_def
  by (auto intro!: leaves_rules split: reply.split)

text \<open>Either one new digest is recorded and the upload is done, or none is and the state is at rest.\<close>

definition attempt_ended :: "'x hr_review_scheme \<Rightarrow> 'x hr_review_scheme \<Rightarrow> bool" where
  "attempt_ended s s' \<longleftrightarrow>
     (\<exists>d key. d \<notin> set (evidenceDigests s) \<and> evidenceDigests s' = evidenceDigests s @ [d] \<and> uploadState s' = UploadDone key)
     \<or> (evidenceDigests s' = evidenceDigests s \<and> (uploadState s' = Idle \<or> (\<exists>m. uploadState s' = UploadError m)))"

lemma wp_setUploadState [wp_rules]: "wp w (setUploadState u) Q E s t = Q () (s\<lparr>uploadState := u\<rparr>) t"
  by (simp add: setUploadState_def wp_rules)

lemma wp_attach:
  "evidenceDigests s = evidenceDigests s0 \<Longrightarrow>
   wp w (attach dv (evidenceDigests s0) f) (\<lambda>_ s' _. attempt_ended s0 s') (\<lambda>_ s' _. evidenceDigests s' = evidenceDigests s0) s t"
  unfolding attach_def wp_seq wp_setUploadState wp_bind
  by (rule wp_keeps [OF keeps_evidence(2)];
      auto simp: wp_rules attempt_ended_def intro!: wp_leaves [OF off_screen_upload] dest!: hr_of_more)

lemma wp_pick_and_upload:
  assumes "keeps pick"
  shows "wp w (pick_and_upload dv pick friendly) (\<lambda>_ s' _. attempt_ended s s') (\<lambda>_ _ _. False) s t"
proof -
  have error: "attempt_ended s (s'\<lparr>uploadState := UploadError m\<rparr>)" if "evidenceDigests s' = evidenceDigests s" for s' m
    using that by (simp add: attempt_ended_def)
  have rest: "attempt_ended s (s\<lparr>uploadState := Idle\<rparr>)" "attempt_ended s (s\<lparr>uploadState := Picking, uploadState := Idle\<rparr>)"
    by (simp_all add: attempt_ended_def)
  have one: "wp w (attach dv (evidenceDigests s) f) (\<lambda>_ s' _. attempt_ended s s')
      (\<lambda>e. wp w (setUploadState (UploadError (friendly (exn_message e)))) (\<lambda>_ s' _. attempt_ended s s') (\<lambda>_ _ _. False))
      (s\<lparr>uploadState := Picking\<rparr>) t'" for f t'
    by (rule wp_mono [OF wp_attach]) (simp_all add: error wp_rules)
  show ?thesis
    unfolding pick_and_upload_def
    by (simp add: wp_rules error) (intro impI wp_keeps [OF assms]; simp add: error wp_option wp_setUploadState rest one split: option.split)
qed

text \<open>
  C36. Every attempt to attach a file settles. Whatever the picker, the disk, the hash and the servers
  answer, the handler returns without an exception and the screen is at rest: either the upload is
  done and exactly one digest, new to the session, has been recorded, or no digest has and the state
  is idle or shows an error.
\<close>

theorem upload_attempt_ends:
  "(\<exists>s' t'. run w (pickAndUploadDocument dv) s t = (Inr (), s', t') \<and> attempt_ended s s' \<and> canUpload (uploadState s'))
   \<and> (\<exists>s' t'. run w (pickAndUploadPhoto dv) s t = (Inr (), s', t') \<and> attempt_ended s s' \<and> canUpload (uploadState s'))"
proof -
  have rest: "canUpload (uploadState s')" if "attempt_ended s s'" for s'
    using that by (auto simp: attempt_ended_def canUpload_def)
  have "wp w (pickAndUploadDocument dv) (\<lambda>_ s' _. attempt_ended s s') (\<lambda>_ _ _. False) s t"
    unfolding pickAndUploadDocument_def by (rule wp_pick_and_upload) (rule keeps_pickers)
  moreover have "wp w (pickAndUploadPhoto dv) (\<lambda>_ s' _. attempt_ended s s') (\<lambda>_ _ _. False) s t"
    unfolding pickAndUploadPhoto_def by (rule wp_pick_and_upload) (rule keeps_pickers)
  ultimately show ?thesis using rest by (auto simp: wp_def split: prod.splits sum.splits)
qed

section \<open>A file already attached\<close>

lemma unat_byte: "unat (b :: 8 word) mod 256 = unat b"
proof -
  have "unat b < 256" using unsigned_less [of b] by simp
  then show ?thesis by simp
qed

text \<open>
  A file whose content is already attached is not uploaded again: when the disk yields its bytes
  and their digest is among those of the session, the file is read and hashed, a notice is shown, and
  no request is sent, whatever name, type and size the file has.
\<close>

theorem attached_file_not_sent:
  assumes "w t (ReadFile (ef_uri f)) = RText (Some (base64_encode bytes))"
    and "w (t @ [ReadFile (ef_uri f)]) (DigestFile (bytes_text bytes)) = RText (Some (bytes_text digest))"
    and "to_lower (arrayBufferToHex digest) \<in> set digests"
  shows "run w (attach dv digests f) s t = (Inr (), s\<lparr>uploadState := Idle\<rparr>,
     t @ [ReadFile (ef_uri f), DigestFile (bytes_text bytes), Alert ''Already attached''
       ''This file is already attached as evidence. No additional upload needed.''])"
proof -
  have "text_bytes (bytes_text digest) = digest"
    by (induction digest) (auto simp: text_bytes_def bytes_text_def unat_byte)
  then show ?thesis using assms
    by (simp add: attach_def computeEvidenceDigestHex_def ask_def run_rules setUploadState_def reply_text_def
        decodes_encoding Let_def)
qed

definition phone :: device where
  "phone = \<lparr>dv_base = ''https://api.cvera.app'', dv_cacheDirectory = ''file:///c/'', dv_named_at = 1, dv_copied_at = 2\<rparr>"

definition scan :: picked_file where
  "scan = \<lparr>pk_uri = ''content://7'', pk_name = Some ''pay/slip.jpeg'', pk_mimeType = Some ''image/jpeg'', pk_size = None\<rparr>"

definition three_bytes :: "8 word list" where
  "three_bytes = [77, 97, 110]"

text \<open>A device on which every file is the same three bytes, with a digest of two.\<close>

definition small_disk :: world where
  "small_disk t e = (case e of
       StatFile uri \<Rightarrow> RVal (JObj [(''exists'', JBool True), (''size'', JNum 3)])
     | ReadFile uri \<Rightarrow> RText (Some (base64_encode three_bytes))
     | DigestFile b \<Rightarrow> RText (Some (bytes_text [171, 1]))
     | _ \<Rightarrow> RDone)"

definition hr_start :: hr_review where
  "hr_start = auth.extend (initial_auth False) \<lparr>uploadState = Idle, evidenceDigests = [''ab01'']\<rparr>"

lemma normalized_within_policy_witness:
  "\<exists>f s' t'. run small_disk (normalizeEvidenceFile phone scan) hr_start [] = (Inr f, s', t') \<and> 0 < ef_size f
     \<and> ef_name f = ''pay_slip.jpg''"
proof -
  have run: "run small_disk (normalizeEvidenceFile phone scan) hr_start [] = (Inr \<lparr>ef_uri = ''file:///c/evidence-2-pay_slip.jpg'',
      ef_name = ''pay_slip.jpg'', ef_mimeType = ''image/jpeg'', ef_size = 3\<rparr>, hr_start,
      [StatFile ''content://7'', CopyFile ''content://7'' ''file:///c/evidence-2-pay_slip.jpg''])"
    by code_simp
  show ?thesis using normalized_within_policy [OF run] run by auto
qed

lemma attached_file_not_sent_witness:
  "run small_disk (attach phone [''ab01''] \<lparr>ef_uri = ''file:///a.png'', ef_name = ''a.png'', ef_mimeType = ''image/png'',
      ef_size = 3\<rparr>) hr_start [] = (Inr (), hr_start,
     [ReadFile ''file:///a.png'', DigestFile ''Man'', Alert ''Already attached''
       ''This file is already attached as evidence. No additional upload needed.''])"
proof -
  define f where "f = \<lparr>ef_uri = ''file:///a.png'', ef_name = ''a.png'', ef_mimeType = ''image/png'', ef_size = 3\<rparr>"
  have "bytes_text three_bytes = ''Man''" "to_lower (arrayBufferToHex [171, 1]) \<in> set [''ab01'']" by code_simp+
  then have "run small_disk (attach phone [''ab01''] f) hr_start [] = (Inr (), hr_start\<lparr>uploadState := Idle\<rparr>,
     [] @ [ReadFile (ef_uri f), DigestFile (bytes_text three_bytes), Alert ''Already attached''
       ''This file is already attached as evidence. No additional upload needed.''])"
    by (intro attached_file_not_sent) (simp_all add: small_disk_def)
  moreover have "hr_start\<lparr>uploadState := Idle\<rparr> = hr_start" by (simp add: hr_start_def auth.defs)
  ultimately show ?thesis using \<open>bytes_text three_bytes = ''Man''\<close> by (simp add: f_def)
qed

end
