(* ===== verification/HrReview.thy ===== *)
theory HrReview
  imports Evidence
begin

text \<open>
  The HR review screen (\<open>screens/HRReviewScreen.SettingsStyle.tsx\<close>), second half: the queue of requests,
  the selected request, the decision on it, and what the screen shows. The state extends that of
  \<open>Evidence\<close>. A list of requests, when the server sends one, is an array.
\<close>

section \<open>Data\<close>

datatype employer_response = FullMatch | PartialMatch | RejectedNoRecord | RejectedPolicy

fun response_string :: "employer_response \<Rightarrow> string" where
  "response_string FullMatch = ''FULL_MATCH''"
| "response_string PartialMatch = ''PARTIAL_MATCH''"
| "response_string RejectedNoRecord = ''REJECTED_NO_RECORD''"
| "response_string RejectedPolicy = ''REJECTED_POLICY''"

record display_claim =
  dc_employer :: string
  dc_job_title :: string
  dc_start :: string
  dc_end :: "string option"

definition toDisplayClaim :: "jsval \<Rightarrow> display_claim" where
  "toDisplayClaim snap = \<lparr>dc_employer = coalesce (js_text (jget snap ''employer'')) [],
     dc_job_title = coalesce (js_text (jget snap ''job_title'')) [],
     dc_start = coalesce (js_text (jget snap ''start_mm_yyyy'')) [],
     dc_end = js_text (jget snap ''end_mm_yyyy'')\<rparr>"

datatype case_status = CasePending | CaseAttested | CaseRejected

definition statusToCaseStatus :: "jsval \<Rightarrow> case_status" where
  "statusToCaseStatus backendStatus =
     (if backendStatus = JStr ''ATTESTED'' then CaseAttested
      else if backendStatus = JStr ''REJECTED'' then CaseRejected else CasePending)"

definition rejectionReasonLabel :: "jsval \<Rightarrow> string option" where
  "rejectionReasonLabel r =
     (if r = JStr ''REJECTED_NO_RECORD'' then Some ''No record found''
      else if r = JStr ''REJECTED_POLICY'' then Some ''Policy restriction'' else None)"

record hr_screen = hr_review +
  hrLoading :: bool
  queue :: "jsval list"
  selected :: jsval
  inflightRef :: bool
  seqRef :: nat
  selectedIdRef :: jsval
  hrRefreshing :: bool
  attesting :: "employer_response option"

type_synonym 'a hr_prog = "(hr_screen, 'a) prog"

definition setHrLoading :: "bool \<Rightarrow> unit hr_prog" where
  "setHrLoading b = modify (\<lambda>s. s\<lparr>hrLoading := b\<rparr>)"

definition setSelected :: "jsval \<Rightarrow> unit hr_prog" where
  "setSelected v = modify (\<lambda>s. s\<lparr>selected := v\<rparr>)"

definition setSelectedId :: "jsval \<Rightarrow> unit hr_prog" where
  "setSelectedId v = modify (\<lambda>s. s\<lparr>selectedIdRef := v\<rparr>)"

definition employerId :: string where
  "employerId = ''emp_demo_001''"

section \<open>The queue\<close>

definition no_api_base :: exn where
  "no_api_base = JsErr ''Missing EXPO_PUBLIC_EVT_API_BASE_URL''"

definition no_access_token :: exn where
  "no_access_token = JsErr ''Missing access token (sign in again)''"

definition bearer_get :: "string \<Rightarrow> jsval \<Rightarrow> request" where
  "bearer_get url token = \<lparr>rq_url = url, rq_method = ''GET'',
     rq_headers = [(''Accept'', ''application/json''), (''Authorization'', bearer token)],
     rq_credentials = [], rq_body = JUndef\<rparr>"

definition queue_url :: "string \<Rightarrow> string" where
  "queue_url base = base @ ''/v1/employer/requests?employer_id='' @ encodeURIComponent employerId"

definition detail_url :: "string \<Rightarrow> jsval \<Rightarrow> string" where
  "detail_url base requestId = base @ ''/v1/employer/requests/'' @ encodeURIComponent (js_string requestId)
     @ ''?employer_id='' @ encodeURIComponent employerId"

text \<open>The callbacks see the token of the render that made them.\<close>

definition fetchDetail :: "string \<Rightarrow> jsval \<Rightarrow> jsval \<Rightarrow> jsval hr_prog" where
  "fetchDetail base token requestId =
     (if base = [] then Raise no_api_base
      else if \<not> truthy token then Raise no_access_token
      else
        bind (api_fetch (bearer_get (detail_url base requestId) token)) (\<lambda>res.
        if \<not> rs_ok res
        then Raise (JsErr (''Detail failed ('' @ int_string (rs_status res) @ ''): '' @ rs_text res))
        else parsed_or_null res))"

definition select_detail :: "jsval \<Rightarrow> unit hr_prog" where
  "select_detail d = seq (setSelected d) (bind (prop_of d ''request_id'') setSelectedId)"

text \<open>\<open>items.some((x) => x.request_id === id)\<close>\<close>

fun has_request :: "jsval \<Rightarrow> jsval list \<Rightarrow> exn + bool" where
  "has_request i [] = Inr False"
| "has_request i (x # xs) = (if nullish x then Inl TypeErr
     else if strict_eq (jget x ''request_id'') i then Inr True else has_request i xs)"

definition first_id :: "jsval list \<Rightarrow> jsval" where
  "first_id items = js_coalesce (jget (first_item (JArr items)) ''request_id'') JNull"

definition deselect :: "unit hr_prog" where
  "deselect = seq (setSelected JNull) (setSelectedId JNull)"

definition adopt_selection :: "string \<Rightarrow> jsval \<Rightarrow> nat \<Rightarrow> jsval list \<Rightarrow> unit hr_prog" where
  "adopt_selection base token mySeq items =
     bind (gets selectedIdRef) (\<lambda>old.
     let preferredId = js_coalesce old (first_id items) in
     if \<not> truthy preferredId then deselect
     else (case has_request preferredId items of
         Inl e \<Rightarrow> Raise e
       | Inr there \<Rightarrow>
           (let nextId = (if there then preferredId else first_id items) in
            if \<not> truthy nextId then deselect
            else
              bind (fetchDetail base token nextId) (\<lambda>detail.
              bind (gets seqRef) (\<lambda>current.
              if mySeq \<noteq> current then skip else select_detail detail)))))"

definition load_queue :: "string \<Rightarrow> jsval \<Rightarrow> nat \<Rightarrow> unit hr_prog" where
  "load_queue base token mySeq =
     bind (api_fetch (bearer_get (queue_url base) token)) (\<lambda>qRes.
     if \<not> rs_ok qRes
     then Raise (JsErr (''Queue failed ('' @ int_string (rs_status qRes) @ ''): '' @ rs_text qRes))
     else
       bind (parsed_or_null qRes) (\<lambda>qJson.
       bind (gets seqRef) (\<lambda>current.
       if mySeq \<noteq> current then skip
       else
         (let items = the_arr (js_coalesce (jget qJson ''items'') (JArr [])) in
          seq (modify (\<lambda>s. s\<lparr>queue := items\<rparr>)) (adopt_selection base token mySeq items)))))"

definition refreshQueueAndSelection :: "string \<Rightarrow> jsval \<Rightarrow> unit hr_prog" where
  "refreshQueueAndSelection base token =
     bind (gets inflightRef) (\<lambda>inflight.
     if base = [] then Raise no_api_base
     else if \<not> truthy token then Raise no_access_token
     else if inflight then skip
     else
       seq (modify (\<lambda>s. s\<lparr>inflightRef := True\<rparr>))
      (seq (modify (\<lambda>s. s\<lparr>seqRef := Suc (seqRef s)\<rparr>))
      (bind (gets seqRef) (\<lambda>mySeq.
       seq (setHrLoading True)
           (try_finally (load_queue base token mySeq)
             (seq (modify (\<lambda>s. s\<lparr>inflightRef := False\<rparr>)) (setHrLoading False)))))))"

definition onPullRefresh :: "string \<Rightarrow> unit hr_prog" where
  "onPullRefresh base =
     bind (gets accessToken) (\<lambda>token.
     seq (modify (\<lambda>s. s\<lparr>hrRefreshing := True\<rparr>))
         (try_finally (refreshQueueAndSelection base token) (modify (\<lambda>s. s\<lparr>hrRefreshing := False\<rparr>))))"

text \<open>
  The focus effect and its cleanup. The effect runs again whenever the callback changes, that is
  whenever the token does: cleanup first, then the effect.
\<close>

definition hr_blur :: "unit hr_prog" where
  "hr_blur = modify (\<lambda>s. s\<lparr>seqRef := Suc (seqRef s)\<rparr>)"

definition hr_focus :: "string \<Rightarrow> unit hr_prog" where
  "hr_focus base = bind (gets accessToken) (refreshQueueAndSelection base)"

definition hr_refocus :: "string \<Rightarrow> unit hr_prog" where
  "hr_refocus base = seq hr_blur (hr_focus base)"

text \<open>The number of the entry chosen in the sheet, whose first entry is the cancel button.\<close>

definition choose_request :: "string \<Rightarrow> jsval \<Rightarrow> jsval list \<Rightarrow> nat \<Rightarrow> unit hr_prog" where
  "choose_request base token rows idx =
     (if idx = 0 \<or> length rows < idx then skip
      else
        seq (setHrLoading True)
            (try_finally
              (bind (prop_of (rows ! (idx - 1)) ''request_id'') (\<lambda>i.
               bind (fetchDetail base token i) select_detail))
              (setHrLoading False)))"

definition handleChooseRequest :: "string \<Rightarrow> nat \<Rightarrow> unit hr_prog" where
  "handleChooseRequest base idx =
     bind (gets (\<lambda>s. s)) (\<lambda>s.
     if queue s = [] then alert ''No requests'' ''There are no requests waiting for review.''
     else if hrLoading s then alert ''Still loading'' ''Requests are still loading. Try again in a moment.''
     else choose_request base (accessToken s) (queue s) idx)"

section \<open>The decision\<close>

definition attest_request :: "string \<Rightarrow> jsval \<Rightarrow> jsval \<Rightarrow> employer_response \<Rightarrow> request" where
  "attest_request base token requestId r = \<lparr>rq_url = base @ ''/v1/employer/requests/''
        @ encodeURIComponent (js_string requestId) @ ''/attest'', rq_method = ''POST'',
     rq_headers = [(''Accept'', ''application/json''), (''Content-Type'', ''application/json''),
        (''Authorization'', bearer token)], rq_credentials = [],
     rq_body = JObj [(''employer_id'', JStr employerId), (''response_type'', JStr (response_string r)),
        (''response_body'', JObj [])]\<rparr>"

definition send_decision :: "string \<Rightarrow> jsval \<Rightarrow> jsval \<Rightarrow> employer_response \<Rightarrow> unit hr_prog" where
  "send_decision base token requestId r =
     bind (api_fetch (attest_request base token requestId r)) (\<lambda>res.
     if \<not> rs_ok res then alert ''Attest failed'' (refusal_text res)
     else
       bind (parsed_or_null res) (\<lambda>j.
       seq (alert ''Attested'' (''Status: '' @ js_string (js_coalesce (jget j ''status'') (JStr ''ATTESTED''))))
      (seq (setSelectedId requestId)
           (refreshQueueAndSelection base token))))"

definition decide :: "string \<Rightarrow> hr_screen \<Rightarrow> employer_response \<Rightarrow> unit hr_prog" where
  "decide base s r =
     (if \<not> truthy (selected s) then alert ''No request selected.'' []
      else if base = [] then alert ''Config error'' ''Missing API base URL.''
      else if \<not> truthy (accessToken s) then alert ''Auth error'' ''Missing access token.''
      else if queue s = [] then alert ''No requests waiting for review.'' []
      else
        seq (modify (\<lambda>s. s\<lparr>attesting := Some r\<rparr>))
            (send_decision base (accessToken s) (jget (selected s) ''request_id'') r))"

definition attest :: "string \<Rightarrow> employer_response \<Rightarrow> unit hr_prog" where
  "attest base r =
     bind (gets (\<lambda>s. s)) (\<lambda>s.
     if attesting s \<noteq> None
     then alert ''Decision in progress'' ''Please wait for the current decision to finish.''
     else
       try_finally
         (try_catch (decide base s r) (\<lambda>e. alert ''Attest failed'' (exn_message e)))
         (modify (\<lambda>s. s\<lparr>attesting := None\<rparr>)))"

text \<open>The reason chosen in the sheet, none for its cancel button.\<close>

definition handleReject :: "string \<Rightarrow> employer_response option \<Rightarrow> unit hr_prog" where
  "handleReject base choice =
     bind (gets selected) (\<lambda>sel.
     if \<not> truthy sel then alert ''No request selected'' []
     else (case choice of None \<Rightarrow> skip | Some r \<Rightarrow> attest base r))"

definition approve :: "string \<Rightarrow> unit hr_prog" where
  "approve base = attest base FullMatch"

section \<open>What the screen shows\<close>

text \<open>\<open>to_local\<close> writes a date for the reader (\<open>None\<close>: it is no date).\<close>

definition formatRelativeOrDate :: "(string \<Rightarrow> string option) \<Rightarrow> string \<Rightarrow> string" where
  "formatRelativeOrDate to_local stamp = coalesce (to_local stamp) []"

definition submittedLabel :: "(string \<Rightarrow> string option) \<Rightarrow> jsval \<Rightarrow> string" where
  "submittedLabel to_local sel = (let u = jget sel ''updated_at'' in
     if truthy u then formatRelativeOrDate to_local (js_string u) else [])"

definition hr_status :: "jsval \<Rightarrow> case_status" where
  "hr_status sel = (if truthy sel then statusToCaseStatus (jget sel ''status'') else CasePending)"

definition rejectLabel :: "jsval \<Rightarrow> string option" where
  "rejectLabel sel = (if \<not> truthy sel then None
     else if jget sel ''status'' \<noteq> JStr ''REJECTED'' then None
     else rejectionReasonLabel (jget sel ''employer_response_type''))"

definition isEmpty :: "hr_screen \<Rightarrow> bool" where
  "isEmpty s = (\<not> hrLoading s \<and> queue s = [])"

definition SectionHeader :: "string \<Rightarrow> element list" where
  "SectionHeader title = [Caption (to_upper title)]"

fun case_status_string :: "case_status \<Rightarrow> string" where
  "case_status_string CasePending = ''PENDING''"
| "case_status_string CaseAttested = ''ATTESTED''"
| "case_status_string CaseRejected = ''REJECTED''"

definition StatusRow :: "case_status \<Rightarrow> string option \<Rightarrow> element list" where
  "StatusRow st label = [Caption ''Status'', Caption (case_status_string st)]
     @ show_if (st = CaseRejected \<and> or_default label [] \<noteq> []) [Caption (or_default label [])]"

definition DisclosureRow :: "string \<Rightarrow> string list \<Rightarrow> bool \<Rightarrow> element list" where
  "DisclosureRow title body opened =
     [Button ((if opened then ''Collapse '' else ''Expand '') @ title) True] @ show_if opened (map Caption body)"

definition disabled_reason :: "hr_screen \<Rightarrow> string option" where
  "disabled_reason s = (if attesting s \<noteq> None then Some ''Decision in progress''
     else if \<not> truthy (selected s) then Some ''No request selected''
     else if isEmpty s then Some ''No requests waiting for review'' else None)"

definition decision_button :: "string \<Rightarrow> string \<Rightarrow> bool \<Rightarrow> bool \<Rightarrow> element list" where
  "decision_button label busy_label busy disabled = [Button (if busy then busy_label else label) (\<not> disabled)]
     @ show_if busy [Spinner]"

definition DecisionBar :: "hr_screen \<Rightarrow> element list" where
  "DecisionBar s =
     (let disabled = (attesting s \<noteq> None \<or> \<not> truthy (selected s) \<or> isEmpty s) in
      decision_button ''Reject'' ''Rejecting...''
        (attesting s = Some RejectedNoRecord \<or> attesting s = Some RejectedPolicy) disabled
      @ decision_button ''Approve'' ''Approving...''
        (attesting s = Some FullMatch \<or> attesting s = Some PartialMatch) disabled
      @ show_if disabled (notice_of (disabled_reason s)))"

definition queue_view :: "hr_screen \<Rightarrow> element list" where
  "queue_view s = SectionHeader ''Queue'' @ [Caption ''Pending requests'',
      Caption (if hrLoading s then ''Loading...'' else int_string (int (length (queue s))) @ '' request(s)''),
      Button ''Choose'' True]
     @ show_if (truthy (jget (selected s) ''request_id''))
         [Caption (''Selected: '' @ js_string (jget (selected s) ''request_id''))]"

definition case_view :: "(string \<Rightarrow> string option) \<Rightarrow> hr_screen \<Rightarrow> element list" where
  "case_view to_local s = (let sel = selected s; label = submittedLabel to_local sel in
     SectionHeader ''Case'' @ [Caption ''Request ID'', Caption (js_string (js_coalesce (jget sel ''request_id'') (JStr ''-'')))]
     @ show_if (label \<noteq> []) [Caption (''Updated: '' @ label)]
     @ [Caption ''Employee'', Caption ''Jane Doe'', Caption ''Worker ID - CEI-48219'']
     @ StatusRow (hr_status sel) (rejectLabel sel))"

definition claim_view :: "hr_screen \<Rightarrow> element list" where
  "claim_view s = (let c = toDisplayClaim (js_coalesce (jget (selected s) ''claim_snapshot'') (JObj [])) in
     SectionHeader ''Claim''
     @ [Caption ''Employer'', Caption (or_default (Some (dc_employer c)) ''Employer will show here''),
        Caption ''Role'', Caption (or_default (Some (dc_job_title c)) ''Job title will show here''),
        Caption (or_default (Some (dc_start c)) ''From'' @ '' - '' @ coalesce (dc_end c) ''Present'')])"

definition details_view :: "bool \<Rightarrow> bool \<Rightarrow> element list" where
  "details_view details_open checks_open = SectionHeader ''Details''
     @ DisclosureRow ''Request details''
         [''Requester: Mortgage / Loan'', ''Purpose: Employment verification'', ''Consent: On file''] details_open
     @ DisclosureRow ''Verification checks'' [''Tenure matches HRIS'', ''Title matches HRIS''] checks_open"

definition evidence_view :: "hr_screen \<Rightarrow> element list" where
  "evidence_view s = SectionHeader ''Evidence''
     @ [Caption ''Upload evidence'', Caption ''Upload file or photo (max 5MB)'', Button ''Upload evidence'' True]
     @ upload_progress (uploadState s)"

definition HRReviewScreen :: "(string \<Rightarrow> string option) \<Rightarrow> bool \<Rightarrow> bool \<Rightarrow> hr_screen \<Rightarrow> element list" where
  "HRReviewScreen to_local details_open checks_open s =
     [Button ''Sign out'' True] @ queue_view s
     @ (if isEmpty s
        then [Caption ''No requests waiting for review'', Caption ''New submissions will appear here automatically.'']
        else case_view to_local s @ claim_view s @ details_view details_open checks_open @ evidence_view s
          @ [Caption ''I consent to Cvera processing uploaded evidence solely for the purpose of verifying employment claims.''])
     @ DecisionBar s"

definition initial_hr :: "auth \<Rightarrow> hr_screen" where
  "initial_hr a = hr_review.extend (auth.extend a \<lparr>uploadState = Idle, evidenceDigests = []\<rparr>)
     \<lparr>hrLoading = True, queue = [], selected = JNull, inflightRef = False, seqRef = 0, selectedIdRef = JNull,
      hrRefreshing = False, attesting = None\<rparr>"

end
