(* ===== verification/HrSafety.thy ===== *)
theory HrSafety
  imports HrReview SingleFlight
begin

text \<open>
  Properties of the HR review screen: its queue is loaded by one handler at a time, a decision always
  ends, and what a renewed token does to a load under way.
\<close>

section \<open>A token renewed while the queue loads\<close>

definition hr_signed_in :: hr_screen where
  "hr_signed_in = initial_hr ((initial_auth False)\<lparr>status := StAuthenticated, accessToken := JStr ''a0''\<rparr>)"

definition queue_answer :: response where
  "queue_answer = \<lparr>rs_status = 200, rs_text = ''json'',
     rs_json = Some (JObj [(''items'', JArr [JObj [(''request_id'', JStr ''r1'')]])])\<rparr>"

definition expired_answer :: response where
  "expired_answer = \<lparr>rs_status = 401, rs_text = [], rs_json = None\<rparr>"

text \<open>
  The schedule: the screen gets the focus and asks for the queue with a token that has expired; the
  interceptor renews it, which changes the callback, so the effect is cleaned up and run again; then
  the retried request is answered.
\<close>

definition load_with_old_token :: "string \<Rightarrow> (hr_screen, unit) move list" where
  "load_with_old_token base =
    [Start (hr_focus base), Resume 0 (RResp expired_answer), Resume 0 (RText (Some ''r0'')),
     Resume 0 (RResp token_response), Resume 0 RDone, Start (hr_refocus base), Resume 0 (RResp queue_answer)]"

fun returned :: "('s, 'a) prog \<Rightarrow> bool" where
  "returned (Return a) = True"
| "returned _ = False"

text \<open>
  A token renewed while the queue loads loses the queue. The server has answered the retried
  request with a request to review, both handlers have returned, nothing is loading any more and the
  new token is in place, but the answer has been dropped as outdated and the run of the effect that
  was to replace it has been skipped because a load was under way: the screen says that no request is
  waiting.
\<close>

lemma queue_lost_on_renewal:
  "let pl = pool_exec (load_with_old_token API_BASE_URL) \<lparr>tasks = [], shared = hr_signed_in, history = []\<rparr>;
       s = shared pl
   in accessToken s = JStr ''a1'' \<and> list_all returned (tasks pl) \<and> \<not> hrLoading s \<and> \<not> inflightRef s
     \<and> (case last (history pl) of Fetch r \<Rightarrow> rq_url r = queue_url API_BASE_URL | _ \<Rightarrow> False)
     \<and> queue s = [] \<and> selected s = JNull
     \<and> list_ex (\<lambda>e. e = Caption ''No requests waiting for review'') (HRReviewScreen (\<lambda>_. None) False False s)"
  by code_simp

section \<open>One load at a time\<close>

text \<open>
  The cell \<open>inflightRef\<close> is a lock, and the request for the queue its guarded event. The session's own
  handlers, which run inside those of the screen, know nothing of either.
\<close>

definition queue_event :: "string \<Rightarrow> event \<Rightarrow> bool" where
  "queue_event base e = (case e of Fetch rq \<Rightarrow> rq_url rq = queue_url base | _ \<Rightarrow> False)"

lemma more_inflight: "auth.more s = auth.more s' \<Longrightarrow> inflightRef s = inflightRef (s' :: hr_screen)"
  by (cases s; cases s') simp

lemma queue_url_other: "queue_url base \<noteq> API_BASE_URL @ ''/auth/refresh''" if "base = API_BASE_URL"
  using that by (simp add: queue_url_def)

interpretation queue_lock: screen_lock "inflightRef :: hr_screen \<Rightarrow> bool" "queue_event API_BASE_URL"
proof unfold_locales
  show "inflightRef s = inflightRef s'" if "auth.more s = auth.more s'" for s s' :: hr_screen
    using that by (rule more_inflight)
  show "\<exists>rq. e = Fetch rq \<and> rq_url rq \<noteq> API_BASE_URL @ ''/auth/refresh''" if "queue_event API_BASE_URL e" for e
    using that queue_url_other by (auto simp: queue_event_def split: event.splits)
qed (simp add: queue_event_def)

abbreviation orderly :: "bool \<Rightarrow> 'a hr_prog \<Rightarrow> bool" where
  "orderly \<equiv> calm inflightRef (queue_event API_BASE_URL)"

lemma queue_event_simps [simp]:
  "queue_event base (Fetch rq) = (rq_url rq = queue_url base)" "\<not> queue_event base (PickFile k)"
  "\<not> queue_event base AskPermission" "\<not> queue_event base (StatFile u)" "\<not> queue_event base (CopyFile u v)"
  "\<not> queue_event base (ReadFile u)" "\<not> queue_event base (DigestFile b)" "\<not> queue_event base (PutFile u v h)"
  by (simp_all add: queue_event_def)

lemma orderly_setters [calm_rules]:
  "orderly own (setHrLoading b)" "orderly own (setSelected v)" "orderly own (setSelectedId v)" "orderly own hr_blur"
  "orderly own (modify (\<lambda>s. s\<lparr>queue := items\<rparr>))" "orderly own (modify (\<lambda>s. s\<lparr>hrRefreshing := b\<rparr>))"
  "orderly own (modify (\<lambda>s. s\<lparr>attesting := a\<rparr>))" "orderly own (setUploadState u)"
  "orderly own (modify (\<lambda>s. s\<lparr>evidenceDigests := evidenceDigests s @ [d]\<rparr>))"
  "orderly own (modify (\<lambda>s. s\<lparr>seqRef := Suc (seqRef s)\<rparr>))"
  by (simp_all add: setHrLoading_def setSelected_def setSelectedId_def hr_blur_def setUploadState_def, (rule calm_rules; simp)+)

lemma orderly_answers [calm_rules]: "orderly own (parsed_or_null res)" "orderly own (alert a b)"
  unfolding parsed_or_null_def alert_def by (intro calm_rules)+

lemma orderly_detail [calm_rules]: "orderly own (fetchDetail base token i)" if "base = API_BASE_URL"
  unfolding fetchDetail_def
  by (intro calm_rules queue_lock.calm_api_fetch) (simp add: that bearer_get_def detail_url_def queue_url_def)

lemma orderly_selection [calm_rules]:
  "orderly own (select_detail d)" "orderly own deselect"
  "orderly own (adopt_selection API_BASE_URL token n items)"
  unfolding select_detail_def deselect_def adopt_selection_def by (intro calm_rules orderly_detail refl)+

lemma orderly_load: "orderly True (load_queue API_BASE_URL token n)"
  unfolding load_queue_def by (intro calm_rules queue_lock.calm_api_fetch) simp_all

lemma orderly_refresh [calm_rules]: "orderly False (refreshQueueAndSelection API_BASE_URL token)"
proof (rule calmI)
  fix s :: hr_screen
  let ?ends = "\<lambda>_ b s'. b = False \<and> (False \<longrightarrow> inflightRef s')"
  have load: "prot inflightRef (queue_event API_BASE_URL) (load_queue API_BASE_URL token n)
     (\<lambda>a. prot inflightRef (queue_event API_BASE_URL) (seq (modify (\<lambda>s. s\<lparr>inflightRef := False\<rparr>)) (setHrLoading False)) (\<lambda>_. Q a) E)
     (\<lambda>e. prot inflightRef (queue_event API_BASE_URL) (seq (modify (\<lambda>s. s\<lparr>inflightRef := False\<rparr>)) (setHrLoading False)) (\<lambda>_. E e) E)
     True s'" if "inflightRef s'" "\<And>a s'. Q a False s'" "\<And>e s'. E e False s'" for Q E s' n
    by (rule calmD [OF orderly_load]) (simp_all add: that prot_seq modify_def setHrLoading_def)
  show "prot inflightRef (queue_event API_BASE_URL) (refreshQueueAndSelection API_BASE_URL token) ?ends ?ends False s"
    by (simp add: refreshQueueAndSelection_def prot_bind prot_seq prot_try_finally gets_def modify_def setHrLoading_def
        skip_def API_BASE_URL_def load [unfolded API_BASE_URL_def modify_def setHrLoading_def])
qed

lemma orderly_pull [calm_rules]: "orderly False (hr_focus API_BASE_URL)" "orderly False (hr_refocus API_BASE_URL)"
  "orderly False (onPullRefresh API_BASE_URL)"
  unfolding hr_focus_def hr_refocus_def onPullRefresh_def by (intro calm_rules orderly_refresh)+

lemma orderly_choose [calm_rules]: "orderly False (handleChooseRequest API_BASE_URL idx)"
  unfolding handleChooseRequest_def choose_request_def by (intro calm_rules refl)

lemma attest_is_no_queue: "rq_url (attest_request base token i r) \<noteq> queue_url base"
  by (simp add: attest_request_def queue_url_def)

lemma orderly_attest [calm_rules]: "orderly False (attest API_BASE_URL r)"
  unfolding attest_def decide_def send_decision_def
  by (intro calm_rules queue_lock.calm_api_fetch) (simp add: attest_is_no_queue)

lemma orderly_decisions [calm_rules]: "orderly False (handleReject API_BASE_URL choice)" "orderly False (approve API_BASE_URL)"
  unfolding handleReject_def approve_def by (intro calm_rules)+

lemma orderly_reply [calm_rules]:
  "(\<And>x. orderly own (p x)) \<Longrightarrow> orderly own q \<Longrightarrow> orderly own (case r of RResp x \<Rightarrow> p x | _ \<Rightarrow> q)"
  by (simp split: reply.split)

lemma orderly_ask [calm_rules]: "\<not> queue_event API_BASE_URL ev \<Longrightarrow> orderly own (ask ev)"
  unfolding ask_def by (intro calm_rules) (auto intro: calm_rules split: reply.split)

lemma orderly_evidence [calm_rules]:
  "orderly own (getFileSizeBytes u)" "orderly own (computeEvidenceDigestHex u)" "orderly own (put_file v f)"
  "orderly own (upload_source dv u name)"
  unfolding getFileSizeBytes_def computeEvidenceDigestHex_def put_file_def upload_source_def
  by (intro calm_rules; simp)+

lemma orderly_normalize [calm_rules]: "orderly own (normalizeEvidenceFile dv inp)"
  unfolding normalizeEvidenceFile_def picked_size_def by (intro calm_rules)

lemma orderly_pickers [calm_rules]: "orderly own (pickDocumentEvidence dv)" "orderly own (pickPhotoEvidence dv)"
  unfolding pickDocumentEvidence_def pickPhotoEvidence_def normalize_photo_def by (intro calm_rules; simp)+

lemma orderly_upload [calm_rules]: "orderly own (uploadViaInitAndPut dv f)" if "dv_base dv = API_BASE_URL"
  unfolding uploadViaInitAndPut_def
  by (intro calm_rules queue_lock.calm_api_fetch) (simp add: that init_request_def queue_url_def)

lemma orderly_attach [calm_rules]:
  "orderly False (handleUploadEvidencePress dv choice)" if "dv_base dv = API_BASE_URL"
proof -
  have one: "orderly False (attach dv digests f)" for digests f
    unfolding attach_def by (intro calm_rules that)
  have pick: "orderly False (case choice of FromPhotos \<Rightarrow> p | FromFiles \<Rightarrow> q | NoSource \<Rightarrow> r)"
    if "orderly False p" "orderly False q" "orderly False r" for p q r :: "unit hr_prog"
    using that by (cases choice) simp_all
  show ?thesis
    unfolding handleUploadEvidencePress_def pickAndUploadDocument_def pickAndUploadPhoto_def pick_and_upload_def
    by (intro calm_rules one pick)
qed

text \<open>The handlers the screen starts.\<close>

inductive hr_task :: "unit hr_prog \<Rightarrow> bool" where
  "hr_task (hr_focus API_BASE_URL)"
| "hr_task hr_blur"
| "hr_task (hr_refocus API_BASE_URL)"
| "hr_task (onPullRefresh API_BASE_URL)"
| "hr_task (handleChooseRequest API_BASE_URL idx)"
| "hr_task (attest API_BASE_URL r)"
| "hr_task (handleReject API_BASE_URL choice)"
| "dv_base dv = API_BASE_URL \<Longrightarrow> hr_task (handleUploadEvidencePress dv source)"

interpretation one_load: flight_lock "inflightRef :: hr_screen \<Rightarrow> bool" "queue_event API_BASE_URL" hr_task
proof unfold_locales
  show "orderly False p" if "hr_task p" for p
    using that by cases (intro calm_rules | assumption | simp)+
qed

text \<open>
  However the handlers of the HR screen interleave, with each other and with any answers, at most
  one of them is waiting for the queue, and while one is, \<open>inflightRef\<close> is set.
\<close>

lemma queue_single_flight:
  assumes "pool_reach hr_task (initial_hr a) pl"
    and "i < length (tasks pl)" "j < length (tasks pl)"
    and "awaits (queue_event API_BASE_URL) (tasks pl ! i)" "awaits (queue_event API_BASE_URL) (tasks pl ! j)"
  shows "i = j \<and> inflightRef (shared pl)"
  using one_load.mutual_exclusion [OF assms(1) _ assms(2-5)] by (simp add: initial_hr_def hr_review.defs)

definition two_loads :: "(hr_screen, unit) pool" where
  "two_loads = pool_exec [Start (hr_focus API_BASE_URL), Start (onPullRefresh API_BASE_URL)]
     \<lparr>tasks = [], shared = hr_signed_in, history = []\<rparr>"

lemma queue_single_flight_witness:
  "length (tasks two_loads) = 2 \<and> awaits (queue_event API_BASE_URL) (tasks two_loads ! 0)
     \<and> inflightRef (shared two_loads) \<and> \<not> awaits (queue_event API_BASE_URL) (tasks two_loads ! 1)"
proof -
  have reach: "pool_reach hr_task hr_signed_in two_loads"
    unfolding two_loads_def by (rule pool_exec_reach [OF pool_init]) (auto intro: hr_task.intros)
  have len: "length (tasks two_loads) = 2" and first: "awaits (queue_event API_BASE_URL) (tasks two_loads ! 0)"
    by code_simp+
  have range: "0 < length (tasks two_loads)" "1 < length (tasks two_loads)" using len by simp_all
  note one = queue_single_flight [OF reach [unfolded hr_signed_in_def]]
  show ?thesis using len first one [OF range(1) range(1) first first] one [OF range first] by auto
qed

section \<open>A decision ends\<close>

text \<open>
  A decision always ends. Whatever the servers answer, the handler returns without an exception and
  no decision is left in progress, so that the buttons are not locked for ever; and while one is in
  progress another one only shows a notice.
\<close>

lemma decision_settles:
  "(\<exists>s' t'. run w (attest base r) (s\<lparr>attesting := None\<rparr>) t = (Inr (), s', t') \<and> attesting s' = None)
   \<and> run w (attest base r) (s\<lparr>attesting := Some r'\<rparr>) t = (Inr (), s\<lparr>attesting := Some r'\<rparr>,
        t @ [Alert ''Decision in progress'' ''Please wait for the current decision to finish.''])"
proof (intro conjI)
  have "wp w (attest base r) (\<lambda>_ s' _. attesting s' = None) (\<lambda>_ _ _. False) (s\<lparr>attesting := None\<rparr>) t"
    unfolding attest_def wp_bind wp_gets wp_if wp_try_finally wp_try_catch
    by (simp add: alert_def wp_rules) (rule wp_total; simp add: wp_rules)
  then show "\<exists>s' t'. run w (attest base r) (s\<lparr>attesting := None\<rparr>) t = (Inr (), s', t') \<and> attesting s' = None"
    by (auto simp: wp_def split: prod.splits sum.splits)
qed (simp add: attest_def alert_def run_rules)

text \<open>
  After an accepted decision the queue is loaded again, and a failure of that load is caught where the
  failure of the decision is: the user is told both.
\<close>

lemma accepted_decision_reported_failed:
  "let pl = pool_exec [Start (attest ''b'' FullMatch), Resume 0 (RResp \<lparr>rs_status = 200, rs_text = [], rs_json = None\<rparr>),
         Resume 0 (RFail (JsErr ''Network request failed''))]
       \<lparr>tasks = [], shared = hr_signed_in\<lparr>queue := [JObj [(''request_id'', JStr ''r1'')]],
           selected := JObj [(''request_id'', JStr ''r1'')]\<rparr>, history = []\<rparr>
   in filter (\<lambda>e. case e of Alert a b \<Rightarrow> True | _ \<Rightarrow> False) (history pl)
     = [Alert ''Attested'' ''Status: ATTESTED'', Alert ''Attest failed'' ''Network request failed'']"
  by code_simp

end
