(* ===== verification/Requestor.thy ===== *)
theory Requestor
  imports Screens
begin

text \<open>
  The requestor's screens: the list of requests (\<open>src/api/requestor.ts\<close>, \<open>screens/RequestorHomeScreen.tsx\<close>),
  a new request (\<open>screens/RequestorNewRequestScreen.tsx\<close>) and a request's page
  (\<open>screens/RequestorRequestDetailScreen.tsx\<close>), over the types of \<open>src/navigation/requestorTypes.ts\<close>. The
  status the server sends is used unchecked and is a value; each screen's state extends the session's.
\<close>

section \<open>Data\<close>

record claim_draft =
  cl_employer :: string
  cl_job_title :: string
  cl_start :: string
  cl_end :: "string option"

record request_row =
  rr_request_id :: jsval
  rr_claim :: claim_draft
  rr_status :: jsval
  rr_created_at :: jsval
  rr_updated_at :: jsval

definition claim_js :: "claim_draft \<Rightarrow> jsval" where
  "claim_js c = JObj [(''employer'', JStr (cl_employer c)), (''job_title'', JStr (cl_job_title c)),
     (''start_mm_yyyy'', JStr (cl_start c)),
     (''end_mm_yyyy'', case cl_end c of None \<Rightarrow> JNull | Some e \<Rightarrow> JStr e)]"

definition row_js :: "request_row \<Rightarrow> jsval" where
  "row_js r = JObj [(''request_id'', rr_request_id r), (''claim'', claim_js (rr_claim r)), (''status'', rr_status r),
     (''created_at'', rr_created_at r), (''updated_at'', rr_updated_at r)]"

text \<open>\<open>isRecord(v) && typeof v.k === "string" ? v.k : d\<close>\<close>

definition text_field :: "jsval \<Rightarrow> string \<Rightarrow> string \<Rightarrow> string" where
  "text_field snap k d = (if is_record snap \<and> is_str (jget snap k) then the_str (jget snap k) else d)"

definition claimFromSnapshot :: "jsval \<Rightarrow> claim_draft" where
  "claimFromSnapshot snap = \<lparr>cl_employer = text_field snap ''employer'' ''Unknown employer'',
     cl_job_title = text_field snap ''job_title'' ''Unknown title'',
     cl_start = text_field snap ''start_mm_yyyy'' ''??/????'',
     cl_end = (if is_record snap \<and> is_str (jget snap ''end_mm_yyyy'') then Some (the_str (jget snap ''end_mm_yyyy'')) else None)\<rparr>"

section \<open>The list\<close>

definition requestor_get :: "string \<Rightarrow> jsval \<Rightarrow> request" where
  "requestor_get base token = \<lparr>rq_url = strip_slash base @ ''/v1/requests'', rq_method = ''GET'',
     rq_headers = [(''Accept'', ''application/json''), (''Authorization'', bearer token)],
     rq_credentials = [], rq_body = JUndef\<rparr>"

definition list_refusal :: "response \<Rightarrow> jsval \<Rightarrow> string" where
  "list_refusal res json =
     (let err = text_field json ''error'' [] in
      if err \<noteq> [] then err
      else if rs_text res \<noteq> [] then rs_text res else ''HTTP '' @ int_string (rs_status res))"

definition fetchRequestorRequests :: "string \<Rightarrow> jsval \<Rightarrow> ('x, jsval list) handler" where
  "fetchRequestorRequests base token =
     bind (api_fetch (requestor_get base token)) (\<lambda>res.
     let json = (if rs_text res = [] then JNull else coalesce (rs_json res) JNull) in
     if \<not> rs_ok res then Raise (JsErr (list_refusal res json))
     else if \<not> is_record json \<or> \<not> is_arr (jget json ''items'') then Raise (JsErr ''invalid_list_response_shape'')
     else Return (the_arr (jget json ''items'')))"

record requestor_home = auth +
  rhLoading :: bool
  rhError :: "string option"
  rhItems :: "request_row list"

type_synonym 'a home_prog = "(requestor_home, 'a) prog"

definition row_of :: "jsval \<Rightarrow> exn + request_row" where
  "row_of r = (if nullish r then Inl TypeErr
     else Inr \<lparr>rr_request_id = jget r ''request_id'', rr_claim = claimFromSnapshot (jget r ''claim_snapshot''),
        rr_status = jget r ''status'', rr_created_at = jget r ''created_at'', rr_updated_at = jget r ''updated_at''\<rparr>)"

fun rows_of :: "jsval list \<Rightarrow> exn + request_row list" where
  "rows_of [] = Inr []"
| "rows_of (r # rs) = (case row_of r of
       Inl e \<Rightarrow> Inl e
     | Inr x \<Rightarrow> (case rows_of rs of Inl e \<Rightarrow> Inl e | Inr xs \<Rightarrow> Inr (x # xs)))"

definition signed_in_with_token :: "'x auth_scheme \<Rightarrow> bool" where
  "signed_in_with_token s = (status s = StAuthenticated \<and> truthy (accessToken s))"

definition home_load :: "string \<Rightarrow> unit home_prog" where
  "home_load base =
     bind (gets (\<lambda>s. s)) (\<lambda>s.
     if \<not> signed_in_with_token s then skip
     else
       seq (modify (\<lambda>s. s\<lparr>rhLoading := True, rhError := None\<rparr>))
           (try_finally
             (try_catch
               (bind (fetchRequestorRequests base (accessToken s)) (\<lambda>items.
                case rows_of items of
                  Inl e \<Rightarrow> Raise e
                | Inr rows \<Rightarrow> modify (\<lambda>s. s\<lparr>rhItems := rows\<rparr>)))
               (\<lambda>e. modify (\<lambda>s. s\<lparr>rhError := Some (exn_message e), rhItems := []\<rparr>)))
             (modify (\<lambda>s. s\<lparr>rhLoading := False\<rparr>))))"

definition home_effect :: "string \<Rightarrow> unit home_prog" where
  "home_effect base =
     bind (gets signed_in_with_token) (\<lambda>signed.
     if \<not> signed then modify (\<lambda>s. s\<lparr>rhLoading := False, rhError := None\<rparr>) else home_load base)"

definition open_request :: "request_row \<Rightarrow> unit home_prog" where
  "open_request r = emit (Navigate ''RequestorRequestDetail''
     (JObj [(''request_id'', rr_request_id r), (''snapshot'', row_js r)]))"

definition new_request :: "unit home_prog" where
  "new_request = emit (Navigate ''RequestorNewRequest'' JUndef)"

definition row_view :: "request_row \<Rightarrow> element list" where
  "row_view r = (let c = rr_claim r in
     [Button (cl_employer c) True,
      Caption (cl_job_title c @ '' * '' @ cl_start c @ '' - '' @ coalesce (cl_end c) ''Present''),
      Caption (''Status: '' @ js_string (rr_status r))])"

definition RequestorHomeScreen :: "requestor_home \<Rightarrow> element list" where
  "RequestorHomeScreen s =
     [Caption (js_string (js_coalesce (jget (user s) ''email'') (JStr ''Signed in''))), Button ''Sign out'' True,
      Button ''Start a new request'' True, Button ''Refresh'' True, Caption ''REQUESTS'']
     @ (if rhLoading s then [Spinner, Caption ''Loading...'']
        else if or_default (rhError s) [] \<noteq> [] then [Notice (or_default (rhError s) [])]
        else if rhItems s = [] then [Caption ''No requests yet.'']
        else concat (map row_view (rhItems s)))"

section \<open>A new request\<close>

record new_request_form = auth +
  nrEmployerId :: string
  nrEmployerName :: string
  nrJobTitle :: string
  nrStart :: string
  nrEnd :: string
  nrSubmitting :: bool

definition claimSnapshot :: "new_request_form \<Rightarrow> claim_draft" where
  "claimSnapshot s = \<lparr>cl_employer = nrEmployerName s, cl_job_title = nrJobTitle s, cl_start = nrStart s,
     cl_end = (if trim (nrEnd s) \<noteq> [] then Some (nrEnd s) else None)\<rparr>"

definition create_request :: "string \<Rightarrow> jsval \<Rightarrow> string \<Rightarrow> claim_draft \<Rightarrow> request" where
  "create_request base token employer_id c = \<lparr>rq_url = strip_slash base @ ''/v1/requests'', rq_method = ''POST'',
     rq_headers = [(''Accept'', ''application/json''), (''Content-Type'', ''application/json''),
        (''Authorization'', bearer token)], rq_credentials = [],
     rq_body = JObj [(''employer_id'', JStr employer_id), (''claim_snapshot'', claim_js c)]\<rparr>"

text \<open>\<open>stamp\<close> is the time at which the answer is handled.\<close>

definition open_created :: "string \<Rightarrow> claim_draft \<Rightarrow> jsval \<Rightarrow> ('s, unit) prog" where
  "open_created stamp c out =
     bind (prop_of out ''request_id'') (\<lambda>i.
     emit (Navigate ''RequestorRequestDetail'' (JObj [(''request_id'', i),
       (''snapshot'', row_js \<lparr>rr_request_id = i, rr_claim = c,
          rr_status = js_coalesce (jget out ''status'') (JStr ''DRAFT''),
          rr_created_at = JStr stamp, rr_updated_at = JStr stamp\<rparr>)])))"

definition send_creation :: "string \<Rightarrow> string \<Rightarrow> new_request_form \<Rightarrow> (new_request_form, unit) prog" where
  "send_creation base stamp s =
     bind (api_fetch (create_request base (accessToken s) (trim (nrEmployerId s)) (claimSnapshot s))) (\<lambda>res.
     bind (parsed_or_null res) (\<lambda>json.
     if \<not> rs_ok res
     then alert ''Create failed'' (js_string (js_coalesce (jget json ''error'')
        (JStr (if rs_text res \<noteq> [] then rs_text res else ''HTTP '' @ int_string (rs_status res)))))
     else open_created stamp (claimSnapshot s) json))"

text \<open>The text of a thrown error, as \<open>String(e)\<close> writes it.\<close>

definition exn_string :: "exn \<Rightarrow> string" where
  "exn_string e = (case e of TypeErr \<Rightarrow> ''TypeError'' | SyntaxErr \<Rightarrow> ''SyntaxError'' | AbortErr \<Rightarrow> ''AbortError: Aborted''
     | _ \<Rightarrow> ''Error: '' @ exn_message e)"

definition onCreate :: "string \<Rightarrow> string \<Rightarrow> (new_request_form, unit) prog" where
  "onCreate base stamp =
     bind (gets (\<lambda>s. s)) (\<lambda>s.
     if base = [] then alert ''Config error'' ''EXPO_PUBLIC_EVT_API_BASE_URL is empty.''
     else if \<not> truthy (accessToken s) then alert ''Not signed in'' ''Missing access token. Please sign in again.''
     else if trim (nrEmployerId s) = [] then alert ''Missing employer'' ''employer_id is required.''
     else
       try_finally
         (try_catch
           (seq (modify (\<lambda>s. s\<lparr>nrSubmitting := True\<rparr>)) (send_creation base stamp s))
           (\<lambda>e. alert ''Create failed'' (exn_string e)))
         (modify (\<lambda>s. s\<lparr>nrSubmitting := False\<rparr>)))"

definition RequestorNewRequestScreen :: "new_request_form \<Rightarrow> element list" where
  "RequestorNewRequestScreen s =
     [Caption (''Signed in as '' @ js_string (js_coalesce (jget (user s) ''email'') (JStr ''user''))),
      Caption ''EMPLOYER ID (REQUIRED)'', Field ''emp_demo_001'' (nrEmployerId s) True,
      Caption ''CLAIM SNAPSHOT'', Field ''Employer name'' (nrEmployerName s) True, Field ''Job title'' (nrJobTitle s) True,
      Field ''Start (MM/YYYY)'' (nrStart s) True, Field ''End (MM/YYYY) or blank'' (nrEnd s) True,
      Caption ''Review your claim, then create when ready.'', Button ''Cancel'' (\<not> nrSubmitting s),
      Button (if nrSubmitting s then ''Creating...'' else ''Create draft'') (\<not> nrSubmitting s)]"

definition initial_form :: "auth \<Rightarrow> new_request_form" where
  "initial_form a = auth.extend a \<lparr>nrEmployerId = ''emp_demo_001'', nrEmployerName = ''ACME Electric (AEI)'',
     nrJobTitle = ''Senior Project Manager'', nrStart = ''08/2023'', nrEnd = ''05/2025'', nrSubmitting = False\<rparr>"

end
