(* ===== verification/RequestorDetail.thy ===== *)
theory RequestorDetail
  imports Requestor
begin

text \<open>
  A request's page (\<open>screens/RequestorRequestDetailScreen.tsx\<close>): saving the draft, submitting and
  cancelling it, and what of it can be changed in which status.
\<close>

section \<open>The page and its handlers\<close>

record request_page = auth +
  rdRequestId :: string
  rdSnapshot :: "request_row option"
  rdClaim :: claim_draft
  rdVersion :: int
  rdStatus :: jsval
  rdBusy :: bool
  rdInfoOpen :: bool

type_synonym 'a page_prog = "(request_page, 'a) prog"

definition empty_claim :: claim_draft where
  "empty_claim = \<lparr>cl_employer = [], cl_job_title = [], cl_start = [], cl_end = None\<rparr>"

text \<open>The page as it is opened: from the snapshot, and at version 1 whatever the request's version is.\<close>

definition open_page :: "auth \<Rightarrow> string \<Rightarrow> request_row option \<Rightarrow> request_page" where
  "open_page a i snap = auth.extend a \<lparr>rdRequestId = i, rdSnapshot = snap,
     rdClaim = (case snap of None \<Rightarrow> empty_claim | Some r \<Rightarrow> rr_claim r), rdVersion = 1,
     rdStatus = (case snap of None \<Rightarrow> JStr ''DRAFT'' | Some r \<Rightarrow> js_coalesce (rr_status r) (JStr ''DRAFT'')),
     rdBusy = False, rdInfoOpen = False\<rparr>"

definition canEdit :: "request_page \<Rightarrow> bool" where
  "canEdit s = (rdStatus s = JStr ''DRAFT'')"

definition setBusy :: "bool \<Rightarrow> unit page_prog" where
  "setBusy b = modify (\<lambda>s. s\<lparr>rdBusy := b\<rparr>)"

definition setRequestStatus :: "jsval \<Rightarrow> unit page_prog" where
  "setRequestStatus v = modify (\<lambda>s. s\<lparr>rdStatus := v\<rparr>)"

definition page_request :: "string \<Rightarrow> string \<Rightarrow> jsval \<Rightarrow> request_page \<Rightarrow> string \<Rightarrow> request" where
  "page_request apiUrl verb body s suffix = \<lparr>rq_url = apiUrl @ ''/v1/requests/'' @ rdRequestId s @ suffix, rq_method = verb,
     rq_headers = (''Accept'', ''application/json'') # (if body = JUndef then [] else [(''Content-Type'', ''application/json'')])
        @ [(''Authorization'', bearer (accessToken s))], rq_credentials = [], rq_body = body\<rparr>"

text \<open>What the three handlers share: the two checks, and the busy mark around the work.\<close>

definition page_action :: "string \<Rightarrow> (request_page \<Rightarrow> unit page_prog) \<Rightarrow> unit page_prog" where
  "page_action apiUrl work =
     bind (gets (\<lambda>s. s)) (\<lambda>s.
     if apiUrl = [] then alert ''Config error'' ''EXPO_PUBLIC_EVT_API_BASE_URL is empty.''
     else if \<not> truthy (accessToken s) then alert ''Auth error'' ''Missing access token. Sign in again.''
     else try_finally (seq (setBusy True) (work s)) (setBusy False))"

definition patch_request :: "string \<Rightarrow> request_page \<Rightarrow> request" where
  "patch_request apiUrl s = page_request apiUrl ''PATCH''
     (JObj [(''expected_version'', JNum (rdVersion s)), (''claim_snapshot'', claim_js (rdClaim s))]) s []"

definition patchDraft :: "string \<Rightarrow> unit page_prog" where
  "patchDraft apiUrl = page_action apiUrl (\<lambda>s.
     bind (api_fetch (patch_request apiUrl s)) (\<lambda>res.
     if rs_status res = 204
     then seq (modify (\<lambda>s. s\<lparr>rdVersion := rdVersion s + 1\<rparr>)) (alert ''Saved'' ''Changes saved.'')
     else alert ''Update failed'' (refusal_text res)))"

definition shown_status :: "jsval \<Rightarrow> string" where
  "shown_status v = (if v = JStr ''ATTESTED'' then ''Verified'' else js_string v)"

definition submit :: "string \<Rightarrow> unit page_prog" where
  "submit apiUrl = page_action apiUrl (\<lambda>s.
     bind (api_fetch (page_request apiUrl ''POST'' JUndef s ''/submit'')) (\<lambda>res.
     if \<not> rs_ok res then alert ''Submit failed'' (refusal_text res)
     else
       bind (parsed_or_null res) (\<lambda>j.
       let newStatus = js_coalesce (jget j ''status'') (JStr ''SUBMITTED'') in
       seq (setRequestStatus newStatus) (alert ''Submitted'' (''Status: '' @ shown_status newStatus)))))"

definition cancel :: "string \<Rightarrow> unit page_prog" where
  "cancel apiUrl = page_action apiUrl (\<lambda>s.
     bind (api_fetch (page_request apiUrl ''POST'' JUndef s ''/cancel'')) (\<lambda>res.
     if rs_status res = 204
     then seq (setRequestStatus (JStr ''REJECTED'')) (alert ''Cancelled'' ''Request cancelled.'')
     else alert ''Cancel failed'' (refusal_text res)))"

text \<open>Typing into the fields; an end date of blanks means that the employment is current.\<close>

datatype claim_edit = EditEmployer string | EditTitle string | EditStart string | EditEnd string

fun edit_claim :: "claim_edit \<Rightarrow> claim_draft \<Rightarrow> claim_draft" where
  "edit_claim (EditEmployer v) c = c\<lparr>cl_employer := v\<rparr>"
| "edit_claim (EditTitle v) c = c\<lparr>cl_job_title := v\<rparr>"
| "edit_claim (EditStart v) c = c\<lparr>cl_start := v\<rparr>"
| "edit_claim (EditEnd v) c = c\<lparr>cl_end := (if trim v \<noteq> [] then Some v else None)\<rparr>"

definition type_claim :: "claim_edit \<Rightarrow> unit page_prog" where
  "type_claim e = modify (\<lambda>s. s\<lparr>rdClaim := edit_claim e (rdClaim s)\<rparr>)"

definition show_info :: "bool \<Rightarrow> unit page_prog" where
  "show_info b = modify (\<lambda>s. s\<lparr>rdInfoOpen := b\<rparr>)"

section \<open>What the page shows\<close>

definition info_view :: "request_page \<Rightarrow> element list" where
  "info_view s = [Caption ''Request information'', Caption ''Request ID'', Caption (rdRequestId s),
     Caption ''Status'', Caption (shown_status (rdStatus s)),
     Caption ''Expected version'', Caption (int_string (rdVersion s)),
     Caption ''Created'', Caption (js_string (js_coalesce (case rdSnapshot s of None \<Rightarrow> JUndef | Some r \<Rightarrow> rr_created_at r) (JStr ''Unavailable''))),
     Caption ''Updated'', Caption (js_string (js_coalesce (case rdSnapshot s of None \<Rightarrow> JUndef | Some r \<Rightarrow> rr_updated_at r) (JStr ''Unavailable''))),
     Button ''Close'' True]"

definition claim_fields :: "request_page \<Rightarrow> element list" where
  "claim_fields s = (let e = (canEdit s \<and> \<not> rdBusy s); c = rdClaim s in
     [Field ''Employer (e.g., Cupertino Electric)'' (cl_employer c) e,
      Field ''Job title (e.g., Senior Project Manager)'' (cl_job_title c) e,
      Field ''Start (MM/YYYY)'' (cl_start c) e,
      Field ''End (MM/YYYY) - leave blank if current'' (coalesce (cl_end c) []) e])"

definition page_footer :: "request_page \<Rightarrow> element list" where
  "page_footer s =
     show_if (canEdit s) [Button (if rdBusy s then ''Working...'' else ''Save changes'') (\<not> rdBusy s)]
     @ [Caption (if canEdit s then ''Review your claim, then submit when ready.''
                 else ''This claim can't be edited after submission.''),
        Button (if canEdit s then ''Cancel'' else ''Can't cancel'') (canEdit s \<and> \<not> rdBusy s),
        Button (if canEdit s then ''Submit request'' else ''Submitted'') (canEdit s \<and> \<not> rdBusy s)]"

definition RequestorRequestDetailScreen :: "request_page \<Rightarrow> element list" where
  "RequestorRequestDetailScreen s =
     show_if (rdInfoOpen s) (info_view s)
     @ [Caption ''Request ID'', Button ''Request information'' True, Caption ''Status'',
        Caption (shown_status (rdStatus s)), Caption ''Claims'']
     @ claim_fields s @ page_footer s"

section \<open>How the handlers end\<close>

lemma page_more: "auth.more s' = auth.more (s :: request_page) \<Longrightarrow> rdRequestId s' = rdRequestId s \<and> rdClaim s' = rdClaim s
    \<and> rdVersion s' = rdVersion s \<and> rdStatus s' = rdStatus s \<and> rdSnapshot s' = rdSnapshot s \<and> rdInfoOpen s' = rdInfoOpen s"
  by (cases s; cases s') simp

text \<open>
  The page in the abstract: version, status and claim, and what an action of the user makes of them,
  given the server's answer to it. \<open>None\<close> stands for no answer: nothing was sent, or the request failed.
\<close>

datatype page_op = Save | Submit | Cancel | Type claim_edit

fun page_handler :: "string \<Rightarrow> page_op \<Rightarrow> unit page_prog" where
  "page_handler apiUrl Save = patchDraft apiUrl"
| "page_handler apiUrl Submit = submit apiUrl"
| "page_handler apiUrl Cancel = cancel apiUrl"
| "page_handler apiUrl (Type e) = type_claim e"

definition page_abs :: "request_page \<Rightarrow> int \<times> jsval \<times> claim_draft" where
  "page_abs s = (rdVersion s, rdStatus s, rdClaim s)"

text \<open>The status a submission is answered with; \<open>None\<close> if the answer is no JSON.\<close>

definition submit_status :: "response \<Rightarrow> jsval option" where
  "submit_status res = (if rs_text res = [] then Some (JStr ''SUBMITTED'')
     else map_option (\<lambda>j. js_coalesce (jget j ''status'') (JStr ''SUBMITTED'')) (rs_json res))"

fun page_step :: "page_op \<Rightarrow> response option \<Rightarrow> int \<times> jsval \<times> claim_draft \<Rightarrow> int \<times> jsval \<times> claim_draft" where
  "page_step (Type e) ans (v, st, c) = (v, st, edit_claim e c)"
| "page_step Save (Some res) (v, st, c) = (if rs_status res = 204 then v + 1 else v, st, c)"
| "page_step Submit (Some res) (v, st, c) = (v, if rs_ok res then coalesce (submit_status res) st else st, c)"
| "page_step Cancel (Some res) (v, st, c) = (v, if rs_status res = 204 then JStr ''REJECTED'' else st, c)"
| "page_step op None a = a"

text \<open>What the user is told of it.\<close>

fun page_title :: "page_op \<Rightarrow> response option \<Rightarrow> string option" where
  "page_title Save (Some res) = Some (if rs_status res = 204 then ''Saved'' else ''Update failed'')"
| "page_title Submit (Some res) = (if \<not> rs_ok res then Some ''Submit failed''
     else map_option (\<lambda>_. ''Submitted'') (submit_status res))"
| "page_title Cancel (Some res) = Some (if rs_status res = 204 then ''Cancelled'' else ''Cancel failed'')"
| "page_title op ans = None"

text \<open>The request an action sends, and the answer that comes back to it through the interceptor.\<close>

fun page_call :: "string \<Rightarrow> page_op \<Rightarrow> request_page \<Rightarrow> request option" where
  "page_call apiUrl Save s = Some (patch_request apiUrl s)"
| "page_call apiUrl Submit s = Some (page_request apiUrl ''POST'' JUndef s ''/submit'')"
| "page_call apiUrl Cancel s = Some (page_request apiUrl ''POST'' JUndef s ''/cancel'')"
| "page_call apiUrl (Type e) s = None"

definition page_answer :: "world \<Rightarrow> string \<Rightarrow> page_op \<Rightarrow> request_page \<Rightarrow> response option" where
  "page_answer w apiUrl op s =
     (if apiUrl = [] \<or> \<not> truthy (accessToken s) then None
      else Option.bind (page_call apiUrl op s) (\<lambda>rq.
             case run w (api_fetch rq) (s\<lparr>rdBusy := True\<rparr>) [] of (Inl e, _) \<Rightarrow> None | (Inr res, _) \<Rightarrow> Some res))"

text \<open>A handler that ends as the answer demands.\<close>

definition answered_by :: "page_op \<Rightarrow> response option \<Rightarrow> request_page \<Rightarrow> request_page \<Rightarrow> trace \<Rightarrow> bool" where
  "answered_by op ans s s' t' = (page_abs s' = page_step op ans (page_abs s)
     \<and> (\<forall>title. page_title op ans = Some title \<longrightarrow> (\<exists>m. t' \<noteq> [] \<and> last t' = Alert title m)))"

lemma page_abs_busy [simp]: "page_abs (s\<lparr>rdBusy := b\<rparr>) = page_abs s"
  by (simp add: page_abs_def)

lemma page_abs_more: "auth.more s' = auth.more (s\<lparr>rdBusy := b\<rparr>) \<Longrightarrow> page_abs s' = page_abs s"
  using page_more [of s' "s\<lparr>rdBusy := b\<rparr>"] by (simp add: page_abs_def)

lemma answered_busy: "answered_by op ans s (s'\<lparr>rdBusy := b\<rparr>) t' = answered_by op ans s s' t'"
  by (simp add: answered_by_def)

lemma unanswered: "page_abs s' = page_abs s \<Longrightarrow> page_call url op s = Some rq \<Longrightarrow> answered_by op None s s' t'"
  by (cases op; cases "page_abs s") (simp_all add: answered_by_def)

lemma wp_setBusy: "wp w (setBusy b) Q E = (\<lambda>s t. Q () (s\<lparr>rdBusy := b\<rparr>) t)"
  by (intro ext) (simp add: setBusy_def wp_rules)

text \<open>What the three handlers share: the checks before the request, and the busy mark around it.\<close>

lemma wp_page_action:
  assumes start: "work s = bind (api_fetch rq) k" and call: "page_call url op s = Some rq"
    and answer: "\<And>res s' t'. page_abs s' = page_abs s \<Longrightarrow>
      wp w (k res) (\<lambda>_ s'' t''. answered_by op (Some res) s s'' t'') (\<lambda>_ s'' t''. answered_by op (Some res) s s'' t'') s' t'"
    and idle: "\<not> rdBusy s"
  shows "wp w (page_action url work) (\<lambda>_ s' t'. answered_by op (page_answer w url op s) s s' t' \<and> \<not> rdBusy s')
     (\<lambda>_ s' t'. answered_by op (page_answer w url op s) s s' t' \<and> \<not> rdBusy s') s []"
proof (cases "url = [] \<or> \<not> truthy (accessToken s)")
  case True
  then have "page_answer w url op s = None" by (auto simp: page_answer_def)
  with True idle unanswered [OF refl call] show ?thesis
    by (auto simp: page_action_def alert_def wp_rules)
next
  case False
  obtain r s1 t1 where run: "run w (api_fetch rq) (s\<lparr>rdBusy := True\<rparr>) [] = (r, s1, t1)" by (metis prod_cases3)
  have same: "page_abs s1 = page_abs s" using leavesD [OF off_screen_api_fetch run] by (rule page_abs_more)
  let ?a = "page_answer w url op s"
  let ?fin = "\<lambda>_ s' t'. wp w (setBusy False) (\<lambda>_ s' t'. answered_by op ?a s s' t' \<and> \<not> rdBusy s')
      (\<lambda>_ s' t'. answered_by op ?a s s' t' \<and> \<not> rdBusy s') s' t'"
  have fin: "?fin x s' t'" if "answered_by op ?a s s' t'" for x s' t'
    using that by (simp add: wp_setBusy answered_busy)
  have "wp w (work s) ?fin ?fin (s\<lparr>rdBusy := True\<rparr>) []"
  proof (cases r)
    case (Inl e)
    then have "?a = None" using False run call by (simp add: page_answer_def)
    then have "?fin e s1 t1" using unanswered [OF same call] by (intro fin) simp
    then show ?thesis using run [unfolded Inl] unfolding start wp_bind by (simp only: wp_def [of w "api_fetch rq"] prod.case sum.case)
  next
    case (Inr res)
    then have "?a = Some res" using False run call by (simp add: page_answer_def)
    then have "wp w (k res) ?fin ?fin s1 t1" using fin by (intro wp_mono [OF answer [OF same, of res t1]]) simp_all
    then show ?thesis using run [unfolded Inr] unfolding start wp_bind by (simp only: wp_def [of w "api_fetch rq"] prod.case sum.case)
  qed
  then show ?thesis
    using False by (simp add: page_action_def wp_bind wp_gets wp_if wp_try_finally wp_seq wp_setBusy)
qed

text \<open>
  C34. What an action on a request's page does is decided by the server's answer to it. On a page that
  is not busy: a save counts the version up by one exactly when its PATCH is answered 204, a
  submission takes the status from a successful answer (SUBMITTED if it names none), a cancellation
  shows REJECTED exactly when it is answered 204; otherwise, also when nothing was sent, no answer
  came or the answer could not be read, version, status and claim stay as they are. None of the three
  touches the claim, and typing touches nothing else. The last message tells which of the two it
  was. However the handler ends, the page is not busy; and in a status other than DRAFT no field and
  none of the buttons for these actions reacts.
\<close>

theorem request_page_refines:
  assumes "\<not> rdBusy s"
  shows "page_abs (state_of w (page_handler apiUrl op) s) = page_step op (page_answer w apiUrl op s) (page_abs s)
     \<and> (\<forall>title. page_title op (page_answer w apiUrl op s) = Some title \<longrightarrow>
          (\<exists>m. last (trace_of w (page_handler apiUrl op) s) = Alert title m))
     \<and> \<not> rdBusy (state_of w (page_handler apiUrl op) s)
     \<and> (\<not> canEdit s \<longrightarrow> (\<forall>x \<in> set (claim_fields s @ page_footer s). \<not> reacts x))"
proof -
  let ?a = "page_answer w apiUrl op s"
  note parts = wp_rules alert_def answered_by_def page_abs_def
  have "wp w (page_handler apiUrl op) (\<lambda>_ s' t'. answered_by op ?a s s' t' \<and> \<not> rdBusy s')
      (\<lambda>_ s' t'. answered_by op ?a s s' t' \<and> \<not> rdBusy s') s []"
  proof (cases op)
    case Save
    show ?thesis unfolding Save page_handler.simps patchDraft_def
      by (rule wp_page_action, rule refl, rule page_call.simps(1)) (auto simp: parts assms)
  next
    case Submit
    show ?thesis unfolding Submit page_handler.simps submit_def
      by (rule wp_page_action, rule refl, rule page_call.simps(2))
        (auto simp: parts assms parsed_or_null_def setRequestStatus_def submit_status_def Let_def js_coalesce_def
          nullish_def coalesce_def split: option.split)
  next
    case Cancel
    show ?thesis unfolding Cancel page_handler.simps cancel_def
      by (rule wp_page_action, rule refl, rule page_call.simps(3)) (auto simp: parts setRequestStatus_def assms)
  next
    case (Type e)
    then show ?thesis using assms by (simp add: type_claim_def parts)
  qed
  then have "answered_by op ?a s (state_of w (page_handler apiUrl op) s) (trace_of w (page_handler apiUrl op) s)
      \<and> \<not> rdBusy (state_of w (page_handler apiUrl op) s)"
    by (auto simp: wp_def state_of_def trace_of_def split: prod.splits sum.splits)
  moreover have "\<forall>x \<in> set (claim_fields s @ page_footer s). \<not> reacts x" if "\<not> canEdit s"
    using that by (auto simp: claim_fields_def page_footer_def Let_def show_if_def)
  ultimately show ?thesis by (auto simp: answered_by_def)
qed

definition draft_row :: request_row where
  "draft_row = \<lparr>rr_request_id = JStr ''r1'', rr_claim = \<lparr>cl_employer = ''ACME'', cl_job_title = ''Clerk'', cl_start = ''01/2020'',
     cl_end = None\<rparr>, rr_status = JStr ''DRAFT'', rr_created_at = JStr ''t'', rr_updated_at = JStr ''t''\<rparr>"

definition draft_page :: request_page where
  "draft_page = open_page ((initial_auth False)\<lparr>status := StAuthenticated, accessToken := JStr ''a0''\<rparr>) ''r1'' (Some draft_row)"

text \<open>A server that accepts every request without a body to show.\<close>

definition accepting :: world where
  "accepting t e = (case e of Fetch r \<Rightarrow> RResp \<lparr>rs_status = 204, rs_text = [], rs_json = None\<rparr> | _ \<Rightarrow> RDone)"

definition silent_server :: world where
  "silent_server t e = (case e of Fetch r \<Rightarrow> RFail TypeErr | _ \<Rightarrow> RDone)"

lemma request_page_refines_witness:
  "page_abs (state_of accepting (patchDraft ''b'') draft_page) = (2, JStr ''DRAFT'', rr_claim draft_row)
   \<and> (\<exists>m. last (trace_of accepting (patchDraft ''b'') draft_page) = Alert ''Saved'' m)
   \<and> page_abs (state_of silent_server (cancel ''b'') draft_page) = (1, JStr ''DRAFT'', rr_claim draft_row)"
proof -
  have "\<not> rdBusy draft_page" by code_simp
  note refines = request_page_refines [OF this]
  have "page_answer accepting ''b'' Save draft_page = Some \<lparr>rs_status = 204, rs_text = [], rs_json = None\<rparr>"
    "page_answer silent_server ''b'' Cancel draft_page = None" "page_abs draft_page = (1, JStr ''DRAFT'', rr_claim draft_row)"
    by code_simp+
  then show ?thesis using refines [of accepting "''b''" Save] refines [of silent_server "''b''" Cancel] by simp
qed

section \<open>Edits, versions and statuses that are lost\<close>

text \<open>
  Submitting sends no claim: what has been typed and not saved is not submitted, although the page goes
  on showing it, now locked.
\<close>

lemma edits_lost_on_submit:
  "let (r, s', t') = run accepting (seq (type_claim (EditTitle ''CEO'')) (submit ''b'')) draft_page []
   in cl_job_title (rdClaim s') = ''CEO'' \<and> rdStatus s' = JStr ''SUBMITTED'' \<and> \<not> canEdit s'
     \<and> list_all (\<lambda>e. case e of Fetch rq \<Rightarrow> rq_body rq = JUndef | _ \<Rightarrow> True) t'"
  by code_simp

text \<open>
  The version is counted on the page only: a page opened again expects version 1, whatever has been
  saved before.
\<close>

lemma reopened_page_expects_one:
  "jget (rq_body (patch_request apiUrl (open_page a i snap))) ''expected_version'' = JNum 1"
  by (simp add: patch_request_def page_request_def open_page_def auth.defs)

text \<open>A request cancelled by its owner is shown as rejected.\<close>

lemma cancelled_shown_rejected:
  "rdStatus (state_of accepting (cancel ''b'') draft_page) = JStr ''REJECTED''"
  by code_simp

text \<open>The claim the list shows is the one that was sent.\<close>

lemma claim_roundtrip: "claimFromSnapshot (claim_js c) = c"
  by (cases c) (auto simp: claimFromSnapshot_def claim_js_def text_field_def split: option.split)

end
