(* ===== verification/TrustRoundtrip.thy ===== *)
theory TrustRoundtrip
  imports TrustEndpoints PublishSafety
begin

text \<open>
  The publisher and the consumer of the trust artifacts together: \<open>scripts/publish.ts\<close> writes the
  store, \<open>pkg/verification/trust-endpoints.ts\<close> reads it through the content network in front, whose
  copies may be as old as the \<open>Cache-Control\<close> of the object allows.
\<close>

section \<open>The content network\<close>

text \<open>
  The \<open>max-age\<close> of a \<open>Cache-Control\<close> value, in seconds (RFC 9111). The values the publisher writes
  have the same number in \<open>s-maxage\<close>, where they have one.
\<close>

definition decimal :: "string \<Rightarrow> nat" where
  "decimal ds = foldl (\<lambda>n d. 10 * n + (of_char d - 48)) 0 ds"

fun max_age :: "string \<Rightarrow> nat" where
  "max_age [] = 0"
| "max_age (c # cs) =
     (if take 8 (c # cs) = ''max-age='' then decimal (takeWhile (\<lambda>d. d \<in> set ''0123456789'') (drop 8 (c # cs)))
      else max_age cs)"

lemma published_lifetimes:
  "max_age immutable_cache = 31536000" "max_age stable_cache = 60" "max_age ''max-age=30, s-maxage=30'' = 30"
  by (simp_all add: immutable_cache_def stable_cache_def decimal_def)

text \<open>
  An object that everyone may read is served under its key; \<open>parse\<close> is \<open>JSON.parse\<close> (\<open>None\<close>: it throws).
  An answer may be given again for as long as the object's \<open>max-age\<close>, an answer without the object
  (absent, or not public) for \<open>miss\<close> seconds.
\<close>

definition public_object :: "stored \<Rightarrow> bool" where
  "public_object ob = (ob_acl ob = ''public-read'')"

definition served :: "(string \<Rightarrow> jsval option) \<Rightarrow> stored option \<Rightarrow> response" where
  "served parse x = (case x of
       None \<Rightarrow> \<lparr>rs_status = 404, rs_text = [], rs_json = None\<rparr>
     | Some ob \<Rightarrow> if public_object ob then \<lparr>rs_status = 200, rs_text = ob_body ob, rs_json = parse (ob_body ob)\<rparr>
                 else \<lparr>rs_status = 403, rs_text = [], rs_json = None\<rparr>)"

definition lifetime :: "nat \<Rightarrow> stored option \<Rightarrow> nat" where
  "lifetime miss x = (case x of None \<Rightarrow> miss | Some ob \<Rightarrow> if public_object ob then max_age (ob_cache ob) else miss)"

text \<open>
  The network in front of a store that changes: \<open>past \<tau>\<close> is what the store held at second \<open>\<tau>\<close>, \<open>second\<close>
  the second of a request. Every answer is one the store would have given at some earlier
  second, not longer ago than that answer may be kept.
\<close>

definition serves ::
    "(string \<Rightarrow> jsval option) \<Rightarrow> string \<Rightarrow> (nat \<Rightarrow> string \<Rightarrow> stored option) \<Rightarrow> (trace \<Rightarrow> nat) \<Rightarrow> nat \<Rightarrow> world \<Rightarrow> bool" where
  "serves parse base past second miss v = (\<forall>t key. \<exists>\<tau> \<le> second t. second t - \<tau> \<le> lifetime miss (past \<tau> key)
     \<and> v t (Fetch (get_request (base @ ''/'' @ key))) = RResp (served parse (past \<tau> key)))"

text \<open>
  The store after a publication of the commit that was complete at second \<open>T\<close> and left \<open>b\<close>: nothing is
  published after it; before it, nothing under the stable keys and the pointer could be kept
  longer than \<open>wait\<close>, and the keys of the commit held no other object than the published one.
\<close>

definition published_at ::
    "nat \<Rightarrow> (string \<Rightarrow> stored option) \<Rightarrow> string \<Rightarrow> nat \<Rightarrow> nat \<Rightarrow> (nat \<Rightarrow> string \<Rightarrow> stored option) \<Rightarrow> bool" where
  "published_at T b prefix miss wait past = (miss \<le> wait \<and> (\<forall>\<tau> \<ge> T. past \<tau> = b)
     \<and> (\<forall>\<tau> < T. \<forall>key \<in> insert latest_key (set trust_paths). lifetime miss (past \<tau> key) \<le> wait)
     \<and> (\<forall>\<tau> < T. \<forall>p \<in> set trust_paths. past \<tau> (pinned_key prefix p) \<in> {None, b (pinned_key prefix p)}))"

text \<open>Once \<open>wait\<close> seconds have passed, the answers are those of the published store.\<close>

definition up_to_date :: "(string \<Rightarrow> jsval option) \<Rightarrow> string \<Rightarrow> (string \<Rightarrow> stored option) \<Rightarrow> world \<Rightarrow> string \<Rightarrow> bool" where
  "up_to_date parse base b v key = (\<forall>t. v t (Fetch (get_request (base @ ''/'' @ key))) = RResp (served parse (b key)))"

lemma caches_expire:
  assumes "serves parse base past second miss v" "published_at T b prefix miss wait past" "\<And>t. T + wait \<le> second t"
    and "key \<in> insert latest_key (set trust_paths) \<or> key \<in> pinned_key prefix ` set trust_paths"
  shows "up_to_date parse base b v key"
  unfolding up_to_date_def
proof
  fix t
  obtain \<tau> where \<tau>: "\<tau> \<le> second t" "second t - \<tau> \<le> lifetime miss (past \<tau> key)"
    and answer: "v t (Fetch (get_request (base @ ''/'' @ key))) = RResp (served parse (past \<tau> key))"
    using assms(1) unfolding serves_def by blast
  have "past \<tau> key = b key"
  proof (cases "T \<le> \<tau>")
    case False
    then have "wait < second t - \<tau>" using assms(3) [of t] by linarith
    then have long: "wait < lifetime miss (past \<tau> key)" using \<tau>(2) by linarith
    then have "key \<notin> insert latest_key (set trust_paths)"
      using assms(2) False unfolding published_at_def by (meson not_le)
    then obtain p where p: "p \<in> set trust_paths" "key = pinned_key prefix p" using assms(4) by blast
    have "past \<tau> key \<noteq> None" using long assms(2) unfolding lifetime_def published_at_def by (metis not_le option.simps(4))
    moreover have "past \<tau> key \<in> {None, b key}" using assms(2) False p unfolding published_at_def by simp
    ultimately show ?thesis by (metis empty_iff insert_iff)
  qed (use assms(2) in \<open>simp add: published_at_def\<close>)
  with answer show "v t (Fetch (get_request (base @ ''/'' @ key))) = RResp (served parse (b key))" by simp
qed

text \<open>A consumer that uses the default paths.\<close>

definition default_paths :: "string \<Rightarrow> trust_cfg" where
  "default_paths base = \<lparr>base_url = base, jwks_path = ''/trust/jwks.json'', status_path = ''/trust/statuslist.json'',
     policy_path = ''/trust/policy.json'', latest_pointer = ''/attestation-engine/latest.json''\<rparr>"

lemma served_outcome:
  "up_to_date parse base b v key \<Longrightarrow> b key = Some ob \<Longrightarrow> public_object ob \<Longrightarrow> parse (ob_body ob) = Some d \<Longrightarrow>
     fetch_outcome v t (base @ ''/'' @ key) = Inr d"
  by (simp add: up_to_date_def served_def fetch_outcome_def rs_ok_def)

lemma artifacts_at:
  assumes "up_to_date parse (strip_slashes base) (bucket h') v (pre @ p)" "parse (the (F p)) = Some (doc p)"
    and "holds_at F (\<lambda>p. pre @ p) cache trust_paths h'" "p \<in> set trust_paths"
  shows "fetch_outcome v t (joinUrl base (''/'' @ pre @ p)) = Inr (doc p)"
  using assms unfolding joinUrl_slash
  by (intro served_outcome [of parse _ "bucket h'" v]) (auto simp: holds_at_def artifact_def public_object_def)

lemma run_three:
  assumes "\<And>t. fetch_outcome w t u = Inr a" "\<And>t. fetch_outcome w t v = Inr b" "\<And>t. fetch_outcome w t x = Inr d"
  shows "run w (promise_all3 order (fetchJson u) (fetchJson v) (fetchJson x)) s t =
     (Inr [a, b, d], s, t @ [Fetch (get_request u), Fetch (get_request v), Fetch (get_request x)])"
proof -
  have "first_failure is [Inr a, Inr b, Inr d] = None" for "is" :: "nat list"
    by (auto simp: first_failure_None nth_Cons split: nat.split)
  with assms show ?thesis by (simp add: run_promise_fetches Let_def)
qed

lemma run_artifacts:
  assumes "run w (getTrustUrls mode) n [] = (Inr u, n, t1)" "tu_mode u \<noteq> LocalMode"
    and "\<And>t. fetch_outcome w t (jwksUrl u) = Inr a" "\<And>t. fetch_outcome w t (statusUrl u) = Inr b"
      "\<And>t. fetch_outcome w t (policyUrl u) = Inr d"
  shows "fst (run w (fetchTrustArtifacts order (Some mode)) n []) =
    Inr \<lparr>ar_source = tu_mode u, ar_jwks = a, ar_statuslist = b, ar_policy = d\<rparr>"
  using assms(1,2) by (simp add: fetchTrustArtifacts_def run_bind run_three [OF assms(3-5)])

section \<open>Reading back what was published\<close>

lemma prefix_trimmed: "sha \<noteq> [] \<Longrightarrow> \<not> js_ws (last sha) \<Longrightarrow> trim (pub_prefix sha) = pub_prefix sha"
  unfolding pub_prefix_def by (rule trim_id) (simp_all add: js_ws_def)

definition latest_document :: "string \<Rightarrow> jsval" where
  "latest_document sha = JObj [(''sha'', JStr sha), (''prefix'', JStr (pub_prefix sha))]"

text \<open>
  C5. What is published is what is verified against. Take a publication that exits with status 0, and
  a consumer with the default paths at the address of the content network, which serves public
  objects and may answer from copies as old as their \<open>max-age\<close>. Once the copies of earlier
  publications have expired (\<open>wait\<close> seconds, 60 for what the publisher stores), and while nothing
  else is published, the consumer reads back exactly the three documents that were on the
  publisher's disk, both in stable and in pinned mode; in pinned mode it does so under the prefix of
  the published commit. \<open>parse\<close> is \<open>JSON.parse\<close>, of which only the documents that are read are
  assumed to parse.
\<close>

theorem published_artifacts_read_back:
  assumes publish: "globs_literally glob" "pub_commit h = Some sha" "run w (publish glob) h t = (Inr 0, h', t')"
    and commit: "sha \<noteq> []" "\<not> js_ws (last sha)"
    and consumer: "cfg_file n c" "typed_cfg (env n) c = default_paths base" "base \<noteq> []" "env n ''TRUST_MODE'' \<noteq> Some ''local''"
    and network: "serves parse (strip_slashes base) past second miss v"
    and expired: "published_at T (bucket h') (pub_prefix sha) miss wait past" "\<And>u. T + wait \<le> second u"
    and json: "parse (latest_body sha (pub_prefix sha)) = Some (latest_document sha)"
      "\<And>p. p \<in> set trust_paths \<Longrightarrow> parse (the (p_files h p)) = Some (doc p)"
  shows "fst (run v (fetchTrustArtifacts order (Some mode)) n []) =
    Inr \<lparr>ar_source = (if mode = Pinned then PinnedMode else StableMode), ar_jwks = doc ''trust/jwks.json'',
         ar_statuslist = doc ''trust/statuslist.json'', ar_policy = doc ''trust/policy.json''\<rparr>"
proof -
  let ?prefix = "pub_prefix sha"
  have stored: "after_pointer (p_files h) sha ?prefix trust_paths h'"
    using publish_main [OF publish(1,2), of w t] publish(3) by (simp add: wp_def)
  have cfg: "run v loadTrustConfig n u = (Inr (default_paths base), n, u)" for u
    using wp_loadTrustConfig [OF consumer(1)] consumer(2) by (intro run_of_wp) simp
  have fresh: "up_to_date parse (strip_slashes base) (bucket h') v key"
    if "key \<in> insert latest_key (set trust_paths) \<or> key \<in> pinned_key ?prefix ` set trust_paths" for key
    using caches_expire [OF network expired that] .
  have pinned: "fetch_outcome v u (joinUrl base (''/'' @ (?prefix @ ''/'') @ p)) = Inr (doc p)" if "p \<in> set trust_paths" for u p
    using stored that
    by (intro artifacts_at [where F = "p_files h" and cache = immutable_cache and parse = parse and h' = h'] fresh)
      (simp_all add: after_pointer_def holds_at_def pinned_key_def json(2))
  have stable: "fetch_outcome v u (joinUrl base (''/'' @ [] @ p)) = Inr (doc p)" if "p \<in> set trust_paths" for u p
    using stored that
    by (intro artifacts_at [where F = "p_files h" and cache = stable_cache and parse = parse and h' = h'] fresh)
      (simp_all add: after_pointer_def holds_at_def json(2))
  have pointer: "fetch_outcome v u (strip_slashes base @ ''/'' @ latest_key) = Inr (latest_document sha)" for u
  proof -
    obtain ob where ob: "bucket h' latest_key = Some ob" "ob_body ob = latest_body sha ?prefix" "public_object ob"
      using stored by (auto simp: after_pointer_def public_object_def)
    have "parse (ob_body ob) = Some (latest_document sha)" unfolding ob(2) by (rule json(1))
    with ob(1,3) fresh show ?thesis by (intro served_outcome [of parse _ "bucket h'" v]) simp_all
  qed
  have urls: "\<exists>t1. run v (getTrustUrls mode) n [] = (Inr (if mode = Pinned then pinned_urls (default_paths base) ?prefix
      else stable_urls (default_paths base)), n, t1)"
    using consumer(3,4) pointer prefix_trimmed [OF commit]
    by (cases mode) (auto simp: getTrustUrls_def run_rules cfg Let_def default_paths_def latest_prefix_def
        latest_document_def nullish_def joinUrl_slash [of _ "''attestation-engine/latest.json''", simplified] latest_key_def
        pub_prefix_def)
  show ?thesis
  proof (cases mode)
    case Stable
    with urls obtain t1 where "run v (getTrustUrls mode) n [] = (Inr (stable_urls (default_paths base)), n, t1)" by auto
    from run_artifacts [OF this] stable Stable show ?thesis
      by (simp add: stable_urls_def default_paths_def trust_paths_def)
  next
    case Pinned
    with urls obtain t1 where "run v (getTrustUrls mode) n [] = (Inr (pinned_urls (default_paths base) ?prefix), n, t1)" by auto
    from run_artifacts [OF this] pinned Pinned show ?thesis
      by (simp add: pinned_urls_def default_paths_def trust_paths_def)
  qed
qed

definition sample_parse :: "string \<Rightarrow> jsval option" where
  "sample_parse s = (if s = latest_body ''c0ffee'' (pub_prefix ''c0ffee'') then Some (latest_document ''c0ffee'')
     else Some (JStr s))"

text \<open>
  A store that held an older policy under the stable key until the publication at second 100, and a
  network that at second 160 answers for the stable keys from copies taken at second 130.
\<close>

definition older_store :: "string \<Rightarrow> stored option" where
  "older_store = [''trust/policy.json'' \<mapsto> \<lparr>ob_body = ''O'', ob_type = ''application/json'', ob_cache = stable_cache,
     ob_acl = ''public-read''\<rparr>]"

definition store_history :: "nat \<Rightarrow> string \<Rightarrow> stored option" where
  "store_history \<tau> = (if \<tau> < 100 then older_store else bucket after_run)"

definition cached_answer :: "string \<Rightarrow> response" where
  "cached_answer key = served sample_parse (store_history (if key \<in> set trust_paths then 130 else 160) key)"

definition cdn :: world where
  "cdn t e = (case e of Fetch rq \<Rightarrow> RResp (cached_answer (drop (length ''https://cdn.example/'') (rq_url rq))) | _ \<Rightarrow> RDone)"

lemma after_run_store:
  "after_pointer trust_disk ''c0ffee'' (pub_prefix ''c0ffee'') trust_paths after_run"
proof -
  obtain t' where "run willing_store (publish disk_glob) (ci_host trust_disk) [] = (Inr 0, after_run, t')"
    by (rule ci_succeeds)
  then show ?thesis
    using publish_main [OF disk_glob_literal ci_commit, of willing_store "[]"] by (simp add: wp_def ci_host_def)
qed

lemma cdn_serves: "serves sample_parse ''https://cdn.example'' store_history (\<lambda>_. 160) 30 cdn"
  unfolding serves_def
proof (intro allI)
  fix t key
  let ?\<tau> = "if key \<in> set trust_paths then 130 else (160 :: nat)"
  have "lifetime 30 (bucket after_run key) = 60" if "key \<in> set trust_paths"
    using after_run_store that published_lifetimes
    by (simp add: after_pointer_def holds_at_def artifact_def lifetime_def public_object_def)
  then have "160 - ?\<tau> \<le> lifetime 30 (store_history ?\<tau> key)" by (simp add: store_history_def)
  moreover have "cdn t (Fetch (get_request (''https://cdn.example'' @ ''/'' @ key))) = RResp (served sample_parse (store_history ?\<tau> key))"
    by (simp add: cdn_def get_request_def cached_answer_def)
  ultimately show "\<exists>\<tau> \<le> 160. 160 - \<tau> \<le> lifetime 30 (store_history \<tau> key)
      \<and> cdn t (Fetch (get_request (''https://cdn.example'' @ ''/'' @ key))) = RResp (served sample_parse (store_history \<tau> key))"
    by (intro exI [of _ ?\<tau>] conjI) simp_all
qed

lemma cdn_expired: "published_at 100 (bucket after_run) (pub_prefix ''c0ffee'') 30 60 store_history"
proof -
  have "older_store (pinned_key (pub_prefix ''c0ffee'') p) = None" for p
    by (simp add: older_store_def pinned_key_def pub_prefix_def)
  moreover have "lifetime 30 (older_store key) \<le> 60" for key
    using published_lifetimes by (simp add: older_store_def lifetime_def)
  ultimately show ?thesis by (simp add: published_at_def store_history_def)
qed

lemma published_artifacts_read_back_witness:
  "fst (run cdn (fetchTrustArtifacts [] (Some Pinned)) (sample_host cfg_files) []) =
     Inr \<lparr>ar_source = PinnedMode, ar_jwks = JStr (the (trust_disk ''trust/jwks.json'')),
       ar_statuslist = JStr (the (trust_disk ''trust/statuslist.json'')), ar_policy = JStr (the (trust_disk ''trust/policy.json''))\<rparr>"
proof -
  obtain t' where run: "run willing_store (publish disk_glob) (ci_host trust_disk) [] = (Inr 0, after_run, t')"
    by (rule ci_succeeds)
  have "strip_slashes ''https://cdn.example/'' = ''https://cdn.example''" by code_simp
  with cdn_serves have net: "serves sample_parse (strip_slashes ''https://cdn.example/'') store_history (\<lambda>_. 160) 30 cdn"
    by simp
  have cfg: "typed_cfg (env (sample_host cfg_files)) shipped_cfg = default_paths ''https://cdn.example/''"
    by (simp add: sample_cfg default_paths_def)
  have other: "sample_parse (the (trust_disk p)) = Some (JStr (the (trust_disk p)))" if "p \<in> set trust_paths" for p
  proof -
    have "list_all (\<lambda>p. the (trust_disk p) \<noteq> latest_body ''c0ffee'' (pub_prefix ''c0ffee'')) trust_paths" by code_simp
    with that show ?thesis by (simp add: sample_parse_def list_all_iff)
  qed
  show ?thesis
    using published_artifacts_read_back [OF disk_glob_literal ci_commit run _ _ sample_cfg(1) cfg _ _ net cdn_expired, of "\<lambda>p. JStr (the (trust_disk p))" "[]" Pinned]
    by (simp add: sample_cfg(2) js_ws_def sample_parse_def other [unfolded sample_parse_def] ci_host_def)
qed

end
