(* ===== verification/SignIn.thy ===== *)
theory SignIn
  imports AppShell Recovery
begin

text \<open>
  The forms that start a session: \<open>screens/LoginScreen.tsx\<close>, \<open>screens/RegisterScreen.tsx\<close>, and the
  button that ends one, \<open>components/auth/LogoutButton.tsx\<close>. A form's own state lives only while the
  shell shows the navigator it is in: a state setter of a form that has been taken off the screen
  does nothing, and the form shown next starts empty (\<open>commit_login\<close>, \<open>commit_register\<close>).
\<close>

section \<open>The sign-in form\<close>

record login_form = auth +
  lgMounted :: bool
  lgEmail :: string
  lgPassword :: string
  lgSubmitting :: bool
  lgError :: "string option"

definition login_state :: "(login_form \<Rightarrow> login_form) \<Rightarrow> (login_form, unit) prog" where
  "login_state f = modify (\<lambda>s. if lgMounted s then f s else s)"

definition setLoginError :: "string option \<Rightarrow> (login_form, unit) prog" where
  "setLoginError v = login_state (\<lambda>s. s\<lparr>lgError := v\<rparr>)"

definition setSubmitting :: "bool \<Rightarrow> (login_form, unit) prog" where
  "setSubmitting b = login_state (\<lambda>s. s\<lparr>lgSubmitting := b\<rparr>)"

fun sign_in_error :: "exn \<Rightarrow> string" where
  "sign_in_error (AuthErr code m d) = m"
| "sign_in_error e = (if exn_message e \<noteq> [] then exn_message e else ''Sign-in failed. Please try again.'')"

definition onSubmit :: "(login_form, unit) prog" where
  "onSubmit =
     bind (gets (\<lambda>s. s)) (\<lambda>s.
     let trimmedEmail = trim (lgEmail s) in
     seq (setLoginError None)
    (if trimmedEmail = [] \<or> lgPassword s = []
     then setLoginError (Some ''Please enter both email and password.'')
     else if status s = StAuthenticated then skip
     else
       seq (setSubmitting True)
           (try_finally
              (try_catch (login (to_lower trimmedEmail) (lgPassword s))
                 (\<lambda>e. setLoginError (Some (sign_in_error e))))
              (setSubmitting False))))"

definition LoginScreen :: "login_form \<Rightarrow> element list" where
  "LoginScreen s =
     [Caption ''Sign in'', Caption ''Access trusted, portable claims.'', Caption ''Claims. Verified.'']
     @ notice_of (lgError s)
     @ [Field ''Work email'' (lgEmail s) (\<not> lgSubmitting s), Field ''Password'' (lgPassword s) (\<not> lgSubmitting s)]
     @ busy_button (lgSubmitting s) ''Sign in''
     @ [Button ''Forgot your password?'' True, Caption ''New here? '', Button ''Create an account'' True]"

definition initial_login :: "auth \<Rightarrow> login_form" where
  "initial_login a = auth.extend a \<lparr>lgMounted = True, lgEmail = [], lgPassword = [], lgSubmitting = False, lgError = None\<rparr>"

definition commit_login :: "login_form \<Rightarrow> login_form" where
  "commit_login s = (if session_view s = ShowAuthNavigator then s
     else s\<lparr>lgMounted := False, lgEmail := [], lgPassword := [], lgSubmitting := False, lgError := None\<rparr>)"

section \<open>The registration form\<close>

datatype register_notice = GoodNews string | BadNews string

datatype register_field = FullName | WorkEmail | NewPassword

record register_form = auth +
  rgMounted :: bool
  rgFullName :: string
  rgEmail :: string
  rgPassword :: string
  rgNotice :: "register_notice option"
  rgSubmitting :: bool

definition register_state :: "(register_form \<Rightarrow> register_form) \<Rightarrow> (register_form, unit) prog" where
  "register_state f = modify (\<lambda>s. if rgMounted s then f s else s)"

definition setRegisterNotice :: "register_notice option \<Rightarrow> (register_form, unit) prog" where
  "setRegisterNotice v = register_state (\<lambda>s. s\<lparr>rgNotice := v\<rparr>)"

definition setIsSubmitting :: "bool \<Rightarrow> (register_form, unit) prog" where
  "setIsSubmitting b = register_state (\<lambda>s. s\<lparr>rgSubmitting := b\<rparr>)"

fun set_register_field :: "register_field \<Rightarrow> string \<Rightarrow> register_form \<Rightarrow> register_form" where
  "set_register_field FullName v s = s\<lparr>rgFullName := v\<rparr>"
| "set_register_field WorkEmail v s = s\<lparr>rgEmail := v\<rparr>"
| "set_register_field NewPassword v s = s\<lparr>rgPassword := v\<rparr>"

definition handleChange :: "register_field \<Rightarrow> string \<Rightarrow> (register_form, unit) prog" where
  "handleChange fld value =
     bind (gets rgNotice) (\<lambda>notice.
     seq (register_state (set_register_field fld value))
         (do_if (notice \<noteq> None) (setRegisterNotice None)))"

definition after_register :: "register_result \<Rightarrow> (register_form, unit) prog" where
  "after_register result = (case result of
       VerificationRequired verificationUrl flow \<Rightarrow>
         seq (register_state (\<lambda>s. s\<lparr>rgPassword := []\<rparr>))
        (bind is_web (\<lambda>web.
         if web then emit (AssignLocation (js_string verificationUrl))
         else emit (ResetTo ''Verify'' (JObj [(''flow'', JStr flow)]))))
     | LoginRequired \<Rightarrow> setRegisterNotice (Some (GoodNews ''Account created. Please sign in with your new account.''))
     | RegAuthenticated \<Rightarrow> skip)"

fun registration_error :: "exn \<Rightarrow> string" where
  "registration_error (FormErr m) = m"
| "registration_error e =
     (if str_includes (to_lower (exn_message e)) ''already in use''
      then ''This email is already in use. Try signing in instead.''
      else ''We could not create your account. Please check your details and try again.'')"

definition handleSubmit :: "(jsval \<Rightarrow> exn + string option) \<Rightarrow> (register_form, unit) prog" where
  "handleSubmit url_flow =
     bind (gets (\<lambda>s. s)) (\<lambda>s.
     let fullName = trim (rgFullName s); email = to_lower (trim (rgEmail s)); password = rgPassword s in
     if email = [] \<or> \<not> isValidEmail email
     then setRegisterNotice (Some (BadNews ''Please check your email address and try again.''))
     else if password = [] then setRegisterNotice (Some (BadNews ''Please enter a password.''))
     else
       seq (setRegisterNotice None)
      (seq (setIsSubmitting True)
           (try_finally
              (try_catch
                 (bind (register url_flow \<lparr>ri_email = email, ri_password = password, ri_full_name = Some fullName\<rparr>)
                    after_register)
                 (\<lambda>e. setRegisterNotice (Some (BadNews (registration_error e)))))
              (setIsSubmitting False))))"

fun register_notice_text :: "register_notice \<Rightarrow> string" where
  "register_notice_text (GoodNews m) = m"
| "register_notice_text (BadNews m) = m"

definition RegisterScreen :: "register_form \<Rightarrow> element list" where
  "RegisterScreen s = (let e = (\<not> rgSubmitting s) in
     [Caption ''Create account'', Caption ''Access trusted, portable claims.'', Caption ''Claims. Verified.'']
     @ (case rgNotice s of None \<Rightarrow> [] | Some n \<Rightarrow> [Notice (register_notice_text n)])
     @ [Field ''Full name (optional)'' (rgFullName s) e, Field ''Work email'' (rgEmail s) e,
        Field ''Password'' (rgPassword s) e,
        Caption ''Your password policy is enforced by your organization's security standards.'']
     @ busy_button (rgSubmitting s) ''Create account''
     @ [Caption ''Already have an account? '', Button ''Sign in'' True])"

definition initial_register :: "auth \<Rightarrow> register_form" where
  "initial_register a = auth.extend a \<lparr>rgMounted = True, rgFullName = [], rgEmail = [], rgPassword = [],
     rgNotice = None, rgSubmitting = False\<rparr>"

definition commit_register :: "register_form \<Rightarrow> register_form" where
  "commit_register s = (if session_view s = ShowAuthNavigator then s
     else s\<lparr>rgMounted := False, rgFullName := [], rgEmail := [], rgPassword := [], rgNotice := None, rgSubmitting := False\<rparr>)"

section \<open>Signing out, and the expired session\<close>

record logout_button = auth +
  lbError :: "string option"

definition setLogoutError :: "string option \<Rightarrow> (logout_button, unit) prog" where
  "setLogoutError v = modify (\<lambda>s. s\<lparr>lbError := v\<rparr>)"

definition handlePress :: "(logout_button, unit) prog" where
  "handlePress =
     bind (gets isLoggingOut) (\<lambda>busy.
     if busy then skip
     else
       seq (setLogoutError None)
           (try_catch logout (\<lambda>_. setLogoutError (Some ''Unable to log out. Please try again.''))))"

definition LogoutButton :: "logout_button \<Rightarrow> element list" where
  "LogoutButton s =
     Button (if isLoggingOut s then ''Logging out...'' else ''Log out'') (\<not> isLoggingOut s) # notice_of (lbError s)"

definition HomeScreen :: "'x auth_scheme \<Rightarrow> element list" where
  "HomeScreen s =
     [Caption ''Welcome'', Caption (js_string (js_coalesce (jget (user s) ''email'') (JStr ''Signed in user''))),
      Button ''Go to HR Review'' True, Button ''Recruiter demo'' True, Button ''Sign out'' True]"

definition SessionExpiredScreen :: "element list" where
  "SessionExpiredScreen =
     [Caption ''Session expired'', Caption ''For your security, you need to sign in again to continue.'',
      Button ''Log back in now'' True]"

end
