(* ===== verification/SignInSafety.thy ===== *)
theory SignInSafety
  imports SignIn RecoverySafety
begin

text \<open>
  What the sign-in and registration forms show of an attempt, on the page the shell renders while
  the attempt waits.
\<close>

section \<open>A form that the shell takes off the screen\<close>

text \<open>The first request of an attempt: it does not go through the interceptor.\<close>

definition flow_request :: "bool \<Rightarrow> string \<Rightarrow> request" where
  "flow_request web kind = bare_request ''GET''
     (KRATOS_BASE_URL @ ''/self-service/'' @ kind @ (if web then ''/browser'' else ''/api'')) (credentials_of web)"

lemma create_flow_fetch: "create_flow web kind = fetch (flow_request web kind)"
  unfolding create_flow_def flow_request_def by (rule interceptor_passes(2))
    (simp add: bare_request_def shouldHandleUrl_def KRATOS_BASE_URL_def API_BASE_URL_def)

text \<open>
  \<open>stays c G p\<close>: on a page rendered by \<open>c\<close>, a screen that satisfies \<open>G\<close> when \<open>p\<close> starts satisfies
  it when \<open>p\<close> ends.
\<close>

definition stays :: "('s \<Rightarrow> 's) \<Rightarrow> ('s \<Rightarrow> bool) \<Rightarrow> ('s, 'a) prog \<Rightarrow> bool" where
  "stays c G p = (\<forall>w s t. G s \<longrightarrow> G (fst (snd (run_in w c p s t))))"

lemma staysD: "stays c G p \<Longrightarrow> G s \<Longrightarrow> run_in w c p s t = (r, s', t') \<Longrightarrow> G s'"
  unfolding stays_def by (metis fst_conv snd_conv)

text \<open>
  The interface between a form and the shell: while the shell shows its spinner the form is gone,
  once it is gone rendering changes nothing of it, and the session's part of the state is not
  the form's.
\<close>

locale volatile_form =
  fixes gone :: "'x auth_scheme \<Rightarrow> bool" and c :: "'x auth_scheme \<Rightarrow> 'x auth_scheme"
  assumes unmounts: "session_view s = ShellElements [Spinner] \<Longrightarrow> gone (c s)"
    and stays_gone: "gone s \<Longrightarrow> auth.more (c s) = auth.more s"
    and only_form: "auth.more s = auth.more s' \<Longrightarrow> gone s \<Longrightarrow> gone s'"
begin

lemma session_stays: "off_screen p \<Longrightarrow> stays c gone p"
  unfolding stays_def
proof (intro allI impI)
  fix w s t
  assume p: "off_screen p" and g: "gone s"
  obtain r s' t' where rn: "run_in w c p s t = (r, s', t')" by (metis prod.collapse)
  have "auth.more s' = auth.more s"
    by (rule leaves_inD [OF p _ rn]) (metis g stays_gone only_form)
  with g rn show "gone (fst (snd (run_in w c p s t)))" by simp (metis only_form)
qed

text \<open>
  Whatever follows the first request of a sign-in or a registration finds the form gone: the
  session has been marked as being checked, and the shell shows its spinner.
\<close>

lemma first_request_unmounts:
  assumes "run_in w c (bind is_web (\<lambda>web. bind (create_flow web kind) (k web))) s t = (r, s', t')"
    and "status s = StChecking" "\<And>web x. off_screen (k web x)"
  shows "gone s'"
proof -
  have g: "gone (c s)" using assms(2) by (intro unmounts) (simp add: session_view_def)
  show ?thesis
    using assms(1) g staysD [OF session_stays [OF assms(3)]]
    by (auto simp: run_in_rules create_flow_fetch is_web_def split: reply.splits)
qed

end

section \<open>The sign-in form\<close>

definition login_gone :: "login_form \<Rightarrow> bool" where
  "login_gone s = (\<not> lgMounted s \<and> lgEmail s = [] \<and> lgPassword s = [] \<and> \<not> lgSubmitting s \<and> lgError s = None)"

lemma login_form_more: "auth.more s = auth.more (s' :: login_form) \<Longrightarrow> lgMounted s' = lgMounted s \<and> lgEmail s' = lgEmail s
    \<and> lgPassword s' = lgPassword s \<and> lgSubmitting s' = lgSubmitting s \<and> lgError s' = lgError s"
  by (cases s; cases s') simp

lemma commit_login_gone: "login_gone s \<Longrightarrow> commit_login s = s"
  by (cases s) (simp add: commit_login_def login_gone_def)

interpretation sign_in: volatile_form login_gone commit_login
proof
  show "session_view s = ShellElements [Spinner] \<Longrightarrow> login_gone (commit_login s)" for s
    by (simp add: commit_login_def login_gone_def)
  show "login_gone s \<Longrightarrow> auth.more (commit_login s) = auth.more s" for s
    by (simp add: commit_login_gone)
  show "auth.more s = auth.more s' \<Longrightarrow> login_gone s \<Longrightarrow> login_gone s'" for s s'
    by (auto simp: login_gone_def dest: login_form_more)
qed

lemma login_shape:
  "\<exists>k. login email password = seq (setStatus StChecking) (bind is_web (\<lambda>web. bind (create_flow web ''login'') (k web)))
     \<and> (\<forall>web x. off_screen (k web x))"
  unfolding login_def native_login_result_def start_login_failed_def extractLoginErrorMessage_def
  by (rule exI, rule conjI, rule refl) (intro allI leaves_rules)

lemma login_unmounts:
  assumes "run_in w commit_login (login email password) s t = (r, s', t')"
  shows "login_gone s'"
proof -
  obtain k :: "bool \<Rightarrow> response \<Rightarrow> (login_form, unit) prog"
    where k: "login email password = seq (setStatus StChecking) (bind is_web (\<lambda>web. bind (create_flow web ''login'') (k web)))"
    "\<And>web x. off_screen (k web x)" using login_shape by blast
  have "run_in w commit_login (bind is_web (\<lambda>web. bind (create_flow web ''login'') (k web))) (s\<lparr>status := StChecking\<rparr>) t = (r, s', t')"
    using assms by (simp add: k(1) run_in_rules setStatus_def split: prod.splits sum.splits)
  then show ?thesis by (rule sign_in.first_request_unmounts) (simp_all add: k(2))
qed

lemma login_gone_ignores: "login_gone s \<Longrightarrow> run_in w c (login_state f) s t = (Inr (), s, t)"
  by (simp add: login_state_def login_gone_def run_in_rules)

text \<open>
  The message of a failed sign-in is never seen. Whatever server and network do, when a
  completed form is submitted and the page is rendered while the attempt waits, the handler returns
  without an exception and the form that is left is the empty one of a first visit, with no message.
\<close>

lemma sign_in_message_lost:
  assumes "trim (lgEmail s) \<noteq> []" "lgPassword s \<noteq> []" "status s \<noteq> StAuthenticated"
  shows "\<exists>s' t'. run_in w commit_login onSubmit s t = (Inr (), s', t') \<and> LoginScreen s' = LoginScreen (initial_login a)"
proof -
  define s1 where "s1 = (if lgMounted s then s\<lparr>lgError := None, lgSubmitting := True\<rparr> else s)"
  obtain r s' t' where l: "run_in w commit_login (login (to_lower (trim (lgEmail s))) (lgPassword s)) s1 t = (r, s', t')"
    by (metis prod.collapse)
  have g: "login_gone s'" by (rule login_unmounts [OF l])
  have "run_in w commit_login onSubmit s t = (Inr (), s', t')"
    using assms l login_gone_ignores [OF g]
    by (cases r) (auto simp: onSubmit_def setLoginError_def setSubmitting_def run_in_rules login_state_def s1_def Let_def
        split: if_splits)
  with g show ?thesis
    by (auto simp: LoginScreen_def login_gone_def initial_login_def auth.defs)
qed

definition filled_login :: login_form where
  "filled_login = (initial_login (initial_auth True))\<lparr>status := StUnauthenticated, lgEmail := ''a@b.c'', lgPassword := ''secret''\<rparr>"

lemma sign_in_message_lost_witness:
  "\<exists>s' t'. run_in silent_world commit_login onSubmit filled_login [] = (Inr (), s', t')
     \<and> LoginScreen s' = LoginScreen (initial_login (initial_auth True))"
  by (rule sign_in_message_lost) code_simp+

text \<open>
  A sign-in whose first request gets no answer locks the app: the session stays in the state of
  being checked, so that the shell goes on showing its spinner and nothing else.
\<close>

theorem lost_sign_in_locks_app:
  assumes "trim (lgEmail s) \<noteq> []" "lgPassword s \<noteq> []" "status s \<noteq> StAuthenticated"
    and lost: "w t (Fetch (flow_request (on_web s) ''login'')) = RFail e"
  shows "\<exists>s' t'. run_in w commit_login onSubmit s t = (Inr (), s', t') \<and> session_view s' = ShellElements [Spinner]"
  using assms
  by (simp add: onSubmit_def setLoginError_def setSubmitting_def run_in_rules login_state_def Let_def login_def native_login_result_def
      setStatus_def is_web_def create_flow_fetch session_view_def commit_login_def)

lemma lost_sign_in_locks_app_witness:
  "\<exists>s' t'. run_in silent_world commit_login onSubmit filled_login [] = (Inr (), s', t')
     \<and> session_view s' = ShellElements [Spinner]"
  by (rule lost_sign_in_locks_app [where e = "JsErr ''offline''"]; code_simp)

section \<open>The registration form\<close>

definition register_gone :: "register_form \<Rightarrow> bool" where
  "register_gone s = (\<not> rgMounted s \<and> rgFullName s = [] \<and> rgEmail s = [] \<and> rgPassword s = []
     \<and> rgNotice s = None \<and> \<not> rgSubmitting s)"

lemma register_form_more: "auth.more s = auth.more (s' :: register_form) \<Longrightarrow> rgMounted s' = rgMounted s
    \<and> rgFullName s' = rgFullName s \<and> rgEmail s' = rgEmail s \<and> rgPassword s' = rgPassword s
    \<and> rgNotice s' = rgNotice s \<and> rgSubmitting s' = rgSubmitting s"
  by (cases s; cases s') simp

lemma commit_register_gone: "register_gone s \<Longrightarrow> commit_register s = s"
  by (cases s) (simp add: commit_register_def register_gone_def)

interpretation registration: volatile_form register_gone commit_register
proof
  show "session_view s = ShellElements [Spinner] \<Longrightarrow> register_gone (commit_register s)" for s
    by (simp add: commit_register_def register_gone_def)
  show "register_gone s \<Longrightarrow> auth.more (commit_register s) = auth.more s" for s
    by (simp add: commit_register_gone)
  show "auth.more s = auth.more s' \<Longrightarrow> register_gone s \<Longrightarrow> register_gone s'" for s s'
    by (auto simp: register_gone_def dest: register_form_more)
qed

lemma register_shape:
  "\<exists>k. register_body url_flow email password = bind is_web (\<lambda>web. bind (create_flow web ''registration'') (k web))
     \<and> (\<forall>web x. off_screen (k web x))"
  unfolding register_body_def native_register_result_def register_web_result_def extractRegistrationErrorMessage_def
  by (rule exI, rule conjI, rule refl) (intro allI leaves_rules)

lemma register_unmounts:
  assumes "run_in w commit_register (register url_flow inp) s t = (r, s', t')"
  shows "register_gone s'"
proof -
  let ?body = "register_body url_flow (to_lower (trim (ri_email inp))) (ri_password inp) :: (register_form, register_result) prog"
  obtain k :: "bool \<Rightarrow> response \<Rightarrow> (register_form, register_result) prog"
    where k: "?body = bind is_web (\<lambda>web. bind (create_flow web ''registration'') (k web))"
    "\<And>web x. off_screen (k web x)" using register_shape by blast
  obtain r1 s1 t1 where b: "run_in w commit_register ?body (s\<lparr>status := StChecking\<rparr>) t = (r1, s1, t1)"
    by (metis prod.collapse)
  then have g: "register_gone s1"
    unfolding k(1) by (rule registration.first_request_unmounts) (simp_all add: k(2))
  then have "register_gone (s1\<lparr>status := StUnauthenticated\<rparr>)" by (simp add: register_gone_def)
  with g show ?thesis
    using assms b by (auto simp: register_def Let_def run_in_rules setStatus_def split: sum.splits)
qed

lemma register_gone_ignores: "register_gone s \<Longrightarrow> run_in w c (register_state f) s t = (Inr (), s, t)"
  by (simp add: register_state_def register_gone_def run_in_rules)

text \<open>The outcome of a registration is not seen either: neither a refusal nor the success.\<close>

lemma register_notice_lost:
  assumes "to_lower (trim (rgEmail s)) \<noteq> []" "isValidEmail (to_lower (trim (rgEmail s)))" "rgPassword s \<noteq> []"
    and rn: "run_in w commit_register (handleSubmit url_flow) s t = (r, s', t')"
  shows "r = Inr () \<and> RegisterScreen s' = RegisterScreen (initial_register a)"
proof -
  let ?inp = "\<lparr>ri_email = to_lower (trim (rgEmail s)), ri_password = rgPassword s, ri_full_name = Some (trim (rgFullName s))\<rparr>"
  define s1 where "s1 = (if rgMounted s then s\<lparr>rgNotice := None, rgSubmitting := True\<rparr> else s)"
  obtain r1 s2 t2 where l: "run_in w commit_register (register url_flow ?inp) s1 t = (r1, s2, t2)"
    by (metis prod.collapse)
  have g: "register_gone s2" by (rule register_unmounts [OF l])
  have "r = Inr () \<and> s' = s2"
    using assms l register_gone_ignores [OF g]
    by (cases r1) (auto simp: handleSubmit_def setRegisterNotice_def setIsSubmitting_def run_in_rules register_state_def
        s1_def Let_def after_register_def is_web_def split: if_splits register_result.splits)
  with g show ?thesis
    by (auto simp: RegisterScreen_def register_gone_def initial_register_def auth.defs)
qed

section \<open>The sign-out button\<close>

text \<open>A press never raises; the message appears exactly when the sign-out does.\<close>

lemma logout_button_message:
  assumes "\<not> isLoggingOut s" and out: "run w logout (s\<lparr>lbError := None\<rparr>) t = (r, s', t')"
  shows "\<exists>s''. run w handlePress s t = (Inr (), s'', t')
     \<and> lbError s'' = (if isl r then Some ''Unable to log out. Please try again.'' else None)"
proof -
  have "auth.more s' = auth.more (s\<lparr>lbError := None\<rparr>)" by (rule leavesD [OF off_screen_logout out])
  then have "lbError s' = None" by (cases s; cases s') simp
  then show ?thesis
    using assms by (cases r) (auto simp: handlePress_def setLogoutError_def run_rules)
qed

end
