(* ===== verification/VerifyEmail.thy ===== *)
theory VerifyEmail
  imports RecoverySafety
begin

text \<open>
  The screen that verifies an e-mail address (\<open>screens/VerifyScreen.tsx\<close>): it loads a Kratos
  verification flow, asks for the code that was mailed and submits it.
\<close>

datatype verification_phase = VLoading | VEnteringCode | VSubmitting | VSuccess | VInvalid

record verify_page = auth +
  vpState :: verification_phase
  vpFlow :: jsval
  vpCode :: string
  vpNotice :: "string option"
  vpCancelled :: bool

type_synonym 'a verify_prog = "(verify_page, 'a) prog"

definition setVerifyState :: "verification_phase \<Rightarrow> unit verify_prog" where
  "setVerifyState v = modify (\<lambda>s. s\<lparr>vpState := v\<rparr>)"

definition setVerifyFlow :: "jsval \<Rightarrow> unit verify_prog" where
  "setVerifyFlow v = modify (\<lambda>s. s\<lparr>vpFlow := v\<rparr>)"

definition setVerifyNotice :: "string option \<Rightarrow> unit verify_prog" where
  "setVerifyNotice v = modify (\<lambda>s. s\<lparr>vpNotice := v\<rparr>)"

section \<open>Finding and loading the flow\<close>

text \<open>The flow named by the route, else, in a browser, by the parameter \<open>query\<close> of the address.\<close>

definition verify_flow_id :: "bool \<Rightarrow> string option \<Rightarrow> string option \<Rightarrow> string option" where
  "verify_flow_id web query routeFlow =
     (if trim (or_default routeFlow []) \<noteq> [] then routeFlow
      else if \<not> web then None
      else if trim (or_default query []) \<noteq> [] then query else None)"

definition verify_csrf :: "jsval \<Rightarrow> ('s, jsval) prog" where
  "verify_csrf flow =
     bind (flow_nodes flow) (\<lambda>nodes.
     if nullish nodes then Raise TypeErr
     else bind (node_value nodes ''csrf_token'') (\<lambda>v. Return (js_coalesce v JNull)))"

definition verify_flow_request :: "string \<Rightarrow> request" where
  "verify_flow_request flowId = bare_request ''GET''
     (KRATOS_BASE_URL @ ''/self-service/verification/flows?id='' @ encodeURIComponent flowId) ''include''"

definition loadFlow :: "string \<Rightarrow> unit verify_prog" where
  "loadFlow flowId =
     try_catch
       (bind (api_fetch (verify_flow_request flowId)) (\<lambda>res.
        if \<not> rs_ok res then setVerifyState VInvalid
        else
          bind (res_json res) (\<lambda>json.
          bind (gets vpCancelled) (\<lambda>cancelled.
          if cancelled then skip
          else seq (setVerifyFlow json) (setVerifyState VEnteringCode)))))
       (\<lambda>_. bind (gets vpCancelled) (\<lambda>cancelled. do_if (\<not> cancelled) (setVerifyState VInvalid)))"

definition verify_mount :: "string option \<Rightarrow> unit verify_prog" where
  "verify_mount flowId =
     bind is_web (\<lambda>web.
     if or_default flowId [] = [] \<or> \<not> web then setVerifyState VInvalid
     else loadFlow (or_default flowId []))"

text \<open>The clean-up of the effect.\<close>

definition verify_unmount :: "unit verify_prog" where
  "verify_unmount = modify (\<lambda>s. s\<lparr>vpCancelled := True\<rparr>)"

section \<open>Submitting the code\<close>

definition code_request :: "jsval \<Rightarrow> jsval \<Rightarrow> string \<Rightarrow> request" where
  "code_request flow csrfToken code =
     (let ui = jget flow ''ui'' in
      \<lparr>rq_url = js_string (jget ui ''action''),
       rq_method = js_string (js_coalesce (jget ui ''method'') (JStr ''POST'')),
       rq_headers = form_headers @ [(''X-CSRF-Token'', js_string csrfToken)],
       rq_credentials = ''include'',
       rq_body = JObj [(''method'', JStr ''code''), (''code'', JStr code), (''csrf_token'', csrfToken)]\<rparr>)"

definition post_code :: "jsval \<Rightarrow> jsval \<Rightarrow> string \<Rightarrow> unit verify_prog" where
  "post_code flow csrfToken trimmedCode =
     seq (setVerifyNotice None)
    (seq (setVerifyState VSubmitting)
    (try_catch
       (bind (api_fetch (code_request flow csrfToken trimmedCode)) (\<lambda>res.
        if rs_ok res then setVerifyState VSuccess
        else
          seq (setVerifyState VEnteringCode)
              (setVerifyNotice (Some ''That verification code did not work. Please check it and try again.''))))
       (\<lambda>_. seq (setVerifyState VEnteringCode)
                (setVerifyNotice (Some ''Verification failed. Please try again.'')))))"

definition submitCode :: "unit verify_prog" where
  "submitCode =
     bind (gets (\<lambda>s. s)) (\<lambda>s.
     if \<not> truthy (vpFlow s) then skip
     else if trim (vpCode s) = [] then setVerifyNotice (Some ''Enter the verification code from your email.'')
     else
       bind (verify_csrf (vpFlow s)) (\<lambda>csrfToken.
       if \<not> truthy csrfToken
       then setVerifyNotice (Some ''Unable to verify this session. Please restart verification.'')
       else post_code (vpFlow s) csrfToken (trim (vpCode s))))"

section \<open>What the screen shows\<close>

definition code_form :: "verify_page \<Rightarrow> element list" where
  "code_form s = (let busy = (vpState s = VSubmitting) in
     [Caption ''Enter the verification code from your Cvera email.'']
     @ notice_of (vpNotice s)
     @ [Field ''Verification code'' (vpCode s) (\<not> busy),
        Button (if busy then ''Verifying...'' else ''Verify email'') (\<not> busy)])"

definition VerifyScreen :: "verify_page \<Rightarrow> element list" where
  "VerifyScreen s = (let st = vpState s in
     Caption ''Email verification''
     # show_if (st = VLoading) [Spinner, Caption ''Loading your verification flow...'']
     @ show_if (st = VEnteringCode \<or> st = VSubmitting) (code_form s)
     @ show_if (st = VSuccess) [Caption ''Email verified'',
         Caption ''Your email address has been verified. You can now sign in.'']
     @ show_if (st = VInvalid) [Caption ''This verification session is no longer valid'',
         Caption ''The verification flow may have expired or already been used. Please return to sign in and start again.'']
     @ show_if (st = VSuccess \<or> st = VInvalid) [Button ''Return to sign in'' True])"

definition initial_verify :: "auth \<Rightarrow> verify_page" where
  "initial_verify a = auth.extend a \<lparr>vpState = VLoading, vpFlow = JNull, vpCode = [], vpNotice = None,
     vpCancelled = False\<rparr>"

section \<open>How the screen behaves\<close>

lemma wp_verify_setters:
  "wp w (setVerifyState v) Q E s t = Q () (s\<lparr>vpState := v\<rparr>) t"
  "wp w (setVerifyFlow j) Q E s t = Q () (s\<lparr>vpFlow := j\<rparr>) t"
  "wp w (setVerifyNotice n) Q E s t = Q () (s\<lparr>vpNotice := n\<rparr>) t"
  by (simp_all add: setVerifyState_def setVerifyFlow_def setVerifyNotice_def wp_rules)

lemma verify_more: "auth.more s' = auth.more (s :: verify_page) \<Longrightarrow> vpState s' = vpState s \<and> vpFlow s' = vpFlow s
    \<and> vpCode s' = vpCode s \<and> vpNotice s' = vpNotice s \<and> vpCancelled s' = vpCancelled s"
  by (cases s; cases s') simp

text \<open>After the code has been sent: verified, or back at the form with a reason.\<close>

definition code_answered :: "verify_page \<Rightarrow> bool" where
  "code_answered s = (vpState s = VSuccess \<or> vpState s = VEnteringCode \<and> vpNotice s \<noteq> None)"

lemma post_code_answered: "wp w (post_code flow csrf code) (\<lambda>_ s' _. code_answered s') (\<lambda>_ _ _. False) s t"
  unfolding post_code_def wp_seq wp_verify_setters wp_try_catch wp_bind
  by (rule wp_leaves [OF off_screen_api_fetch]) (simp_all add: wp_verify_setters wp_seq code_answered_def)

text \<open>
  Submitting the code never leaves the screen waiting: whatever server and network do, from the
  form the handler ends with the address verified or with the form open again and a reason shown.
  An exception is possible only before anything has been sent or changed.
\<close>

theorem verify_code_settles:
  assumes "vpState s = VEnteringCode" "truthy (vpFlow s)"
  shows "\<exists>r s' t'. run w submitCode s t = (r, s', t') \<and> (if isl r then s' = s \<and> t' = t else code_answered s')"
proof -
  have quiet: "wp w (verify_csrf j) Q E u t" if "\<And>v. Q v u t" "\<And>e. E e u t" for Q E j and u :: verify_page
    using that by (intro wp_silent)
      (auto intro!: keeps_rules only_rules simp: verify_csrf_def flow_nodes_def node_value_def split: sum.split)
  have "wp w submitCode (\<lambda>_ s' _. code_answered s') (\<lambda>_ s' t'. s' = s \<and> t' = t) s t"
    unfolding submitCode_def wp_bind wp_gets
    using assms by (auto simp: wp_rules wp_verify_setters code_answered_def
        intro!: quiet wp_mono [OF post_code_answered])
  then show ?thesis by (auto simp: wp_def isl_def split: prod.splits sum.splits)
qed

definition entering_verification :: verify_page where
  "entering_verification = (initial_verify (initial_auth True))\<lparr>vpState := VEnteringCode, vpCode := ''123456'',
     vpFlow := recovery_flow_js sample_flow\<rparr>"

lemma verify_code_settles_witness:
  "\<exists>r s' t'. run silent_world submitCode entering_verification [] = (r, s', t')
     \<and> (if isl r then s' = entering_verification \<and> t' = [] else code_answered s')"
  by (rule verify_code_settles) code_simp+

end
