(* ===== verification/PasswordSettings.thy ===== *)
theory PasswordSettings
  imports RecoverySafety
begin

text \<open>
  The screen that sets a new password (\<open>screens/SettingsScreen.tsx\<close>): it loads a Kratos settings
  flow, submits the password, and after a success counts down to the sign-in page.
\<close>

record settings_page = auth +
  stFlow :: jsval
  stPassword :: string
  stConfirm :: string
  stUpdated :: bool
  stCountdown :: int
  stError :: "string option"
  stLoading :: bool
  stSubmitting :: bool
  stTimer :: bool
  stFlowId :: "string option"

type_synonym 'a settings_prog = "(settings_page, 'a) prog"

definition REDIRECT_SECONDS :: int where
  "REDIRECT_SECONDS = 8"

definition setSettingsError :: "string option \<Rightarrow> unit settings_prog" where
  "setSettingsError v = modify (\<lambda>s. s\<lparr>stError := v\<rparr>)"

definition setSettingsLoading :: "bool \<Rightarrow> unit settings_prog" where
  "setSettingsLoading b = modify (\<lambda>s. s\<lparr>stLoading := b\<rparr>)"

definition setSettingsSubmitting :: "bool \<Rightarrow> unit settings_prog" where
  "setSettingsSubmitting b = modify (\<lambda>s. s\<lparr>stSubmitting := b\<rparr>)"

definition setCountdownSeconds :: "int \<Rightarrow> unit settings_prog" where
  "setCountdownSeconds n = modify (\<lambda>s. s\<lparr>stCountdown := n\<rparr>)"

section \<open>Reading a settings flow\<close>

definition settings_csrf :: "jsval \<Rightarrow> ('s, string option) prog" where
  "settings_csrf flow =
     bind (flow_nodes flow) (\<lambda>nodes.
     if nullish nodes then Raise TypeErr
     else
       bind (node_value nodes ''csrf_token'') (\<lambda>value.
       Return (if is_str value \<and> the_str value \<noteq> [] then Some (the_str value) else None)))"

fun some_password_node :: "jsval list \<Rightarrow> exn + bool" where
  "some_password_node [] = Inr False"
| "some_password_node (n # ns) =
     (if nullish n then Inl TypeErr
      else if jget n ''group'' = JStr ''password'' \<and> jget (jget n ''attributes'') ''name'' = JStr ''method''
           \<and> jget (jget n ''attributes'') ''value'' = JStr ''password'' then Inr True
      else some_password_node ns)"

definition hasPasswordMethod :: "jsval \<Rightarrow> ('s, bool) prog" where
  "hasPasswordMethod flow =
     bind (flow_nodes flow) (\<lambda>nodes.
     if is_arr nodes
     then (case some_password_node (the_arr nodes) of Inl e \<Rightarrow> Raise e | Inr b \<Rightarrow> Return b)
     else Raise TypeErr)"

text \<open>\<open>messages.find((message) => Boolean(message.text))?.text\<close>\<close>

fun first_text :: "jsval list \<Rightarrow> exn + jsval" where
  "first_text [] = Inr JUndef"
| "first_text (m # ms) =
     (if nullish m then Inl TypeErr
      else if truthy (jget m ''text'') then Inr (jget m ''text'') else first_text ms)"

definition extractSettingsErrorMessage :: "jsval \<Rightarrow> ('s, string) prog" where
  "extractSettingsErrorMessage data =
     (let msgs = jget (jget data ''ui'') ''messages''; default = ''Password could not be updated. Please try again.'' in
      if nullish msgs then Return default
      else if \<not> is_arr msgs then Raise TypeErr
      else (case first_text (the_arr msgs) of
              Inl e \<Rightarrow> Raise e
            | Inr v \<Rightarrow> Return (if nullish v then default else js_string v)))"

section \<open>Loading the flow\<close>

definition settings_flow_request :: "string \<Rightarrow> request" where
  "settings_flow_request flowId = bare_request ''GET''
     (KRATOS_BASE_URL @ ''/self-service/settings/flows?id='' @ encodeURIComponent flowId) ''include''"

text \<open>The log line reads the document before the check and throws on a malformed one.\<close>

definition accept_settings_flow :: "jsval \<Rightarrow> unit settings_prog" where
  "accept_settings_flow data =
     bind (prop_of data ''ui'') (\<lambda>ui.
     seq (prop_of ui ''action'')
    (bind (hasPasswordMethod data) (\<lambda>hasPassword.
     seq (settings_csrf data)
    (if \<not> hasPassword then setSettingsError (Some ''Password reset is not available for this settings flow.'')
     else modify (\<lambda>s. s\<lparr>stFlow := data\<rparr>)))))"

definition loadSettingsFlow :: "unit settings_prog" where
  "loadSettingsFlow =
     bind (gets stFlowId) (\<lambda>flowId.
     if or_default flowId [] = []
     then setSettingsError (Some ''Settings flow is missing. Please restart password recovery.'')
     else
       seq (setSettingsLoading True)
      (seq (setSettingsError None)
           (try_finally
              (try_catch
                 (bind (api_fetch (settings_flow_request (or_default flowId []))) (\<lambda>response.
                  if \<not> rs_ok response
                  then setSettingsError (Some ''This password reset session expired. Please restart recovery.'')
                  else bind (res_json response) accept_settings_flow))
                 (\<lambda>e. setSettingsError (Some (exn_message e))))
              (setSettingsLoading False))))"

definition settings_mount :: "unit settings_prog" where
  "settings_mount =
     bind is_web (\<lambda>web.
     if \<not> web then setSettingsError (Some ''Password reset settings are currently available on web only.'')
     else loadSettingsFlow)"

section \<open>The new password\<close>

definition password_request :: "jsval \<Rightarrow> string \<Rightarrow> string \<Rightarrow> request" where
  "password_request flow password csrfToken =
     recovery_post (jget (jget flow ''ui'') ''action'') ''include''
       [(''method'', JStr ''password''), (''password'', JStr password), (''csrf_token'', JStr csrfToken)]"

definition password_answer :: "response \<Rightarrow> unit settings_prog" where
  "password_answer response =
     (let data = json_or_null response in
      if \<not> rs_ok response then bind (extractSettingsErrorMessage data) (\<lambda>m. setSettingsError (Some m))
      else
        seq (modify (\<lambda>s. s\<lparr>stPassword := [], stConfirm := []\<rparr>))
       (seq (setCountdownSeconds REDIRECT_SECONDS)
            (modify (\<lambda>s. s\<lparr>stUpdated := True\<rparr>))))"

definition post_password :: "request \<Rightarrow> unit settings_prog" where
  "post_password rq =
     try_catch (bind (api_fetch rq) password_answer) (\<lambda>e. setSettingsError (Some (exn_message e)))"

definition submitPassword :: "unit settings_prog" where
  "submitPassword =
     bind (gets (\<lambda>s. s)) (\<lambda>s.
     if stUpdated s then skip
     else
       seq (setSettingsError None)
      (if \<not> truthy (stFlow s)
       then setSettingsError (Some ''Settings flow is missing. Please restart password recovery.'')
       else if stPassword s = [] \<or> length (stPassword s) < 8
       then setSettingsError (Some ''Please enter a password with at least 8 characters.'')
       else if stPassword s \<noteq> stConfirm s then setSettingsError (Some ''Passwords do not match.'')
       else
         bind (settings_csrf (stFlow s)) (\<lambda>csrfToken.
         if or_default csrfToken [] = []
         then setSettingsError (Some ''Security token is missing. Please restart password recovery.'')
         else
           seq (setSettingsSubmitting True)
               (try_finally
                  (post_password (password_request (stFlow s) (stPassword s) (or_default csrfToken [])))
                  (setSettingsSubmitting False)))))"

section \<open>The countdown\<close>

definition clearCountdownTimer :: "unit settings_prog" where
  "clearCountdownTimer = modify (\<lambda>s. s\<lparr>stTimer := False\<rparr>)"

definition redirectToLogin :: "unit settings_prog" where
  "redirectToLogin =
     seq clearCountdownTimer
    (bind is_web (\<lambda>web.
     if web then emit (AssignLocation ''/login'') else emit (Navigate ''Login'' JUndef)))"

text \<open>The effect that starts the timer, and one second of it.\<close>

definition start_countdown :: "unit settings_prog" where
  "start_countdown =
     bind (gets (\<lambda>s. s)) (\<lambda>s.
     if \<not> stUpdated s \<or> stTimer s then skip else modify (\<lambda>s. s\<lparr>stTimer := True\<rparr>))"

definition countdown_tick :: "unit settings_prog" where
  "countdown_tick =
     bind (gets (\<lambda>s. s)) (\<lambda>s.
     if \<not> stTimer s then skip
     else if stCountdown s \<le> 1 then seq redirectToLogin (setCountdownSeconds 0)
     else setCountdownSeconds (stCountdown s - 1))"

primrec countdown_ticks :: "nat \<Rightarrow> unit settings_prog" where
  "countdown_ticks 0 = skip"
| "countdown_ticks (Suc n) = seq (countdown_ticks n) countdown_tick"

section \<open>What the screen shows\<close>

definition updated_view :: "settings_page \<Rightarrow> element list" where
  "updated_view s = show_if (stUpdated s)
     [Caption ''Password updated successfully.'', Caption ''You can now sign in with your new password.'',
      Caption (''Redirecting to sign in after '' @ int_string (stCountdown s) @ '' seconds...''),
      Caption ''Don't want to wait? Use the link below.'']"

definition password_form :: "settings_page \<Rightarrow> element list" where
  "password_form s = (let disabled = (stLoading s \<or> stSubmitting s \<or> stUpdated s) in
     show_if (truthy (stFlow s))
       ([Field ''New password'' (stPassword s) (\<not> disabled), Field ''Confirm new password'' (stConfirm s) (\<not> disabled),
         Button ''Update password'' (\<not> disabled)] @ show_if (stSubmitting s) [Spinner]))"

definition SettingsScreen :: "settings_page \<Rightarrow> element list" where
  "SettingsScreen s =
     [Caption ''Set new password'', Caption ''Enter a new password to complete account recovery.'']
     @ notice_of (stError s) @ updated_view s
     @ show_if (stLoading s) [Spinner, Caption ''Loading password reset...'']
     @ password_form s
     @ [Button (if stUpdated s then ''Sign in now'' else ''Back to sign in'') True]"

definition initial_settings :: "auth \<Rightarrow> string option \<Rightarrow> settings_page" where
  "initial_settings a fid = auth.extend a \<lparr>stFlow = JNull, stPassword = [], stConfirm = [], stUpdated = False,
     stCountdown = REDIRECT_SECONDS, stError = None, stLoading = False, stSubmitting = False, stTimer = False,
     stFlowId = fid\<rparr>"

end
