(* ===== verification/PasswordSafety.thy ===== *)
theory PasswordSafety
  imports PasswordSettings
begin

text \<open>
  What the password screen sends and when it leaves: nothing goes out but a confirmed password, the
  screen always comes to rest, and a success leads to the sign-in page after eight seconds.
\<close>

section \<open>Submitting the password\<close>

lemma wp_settings_setters:
  "wp w (setSettingsError e) Q E s t = Q () (s\<lparr>stError := e\<rparr>) t"
  "wp w (setSettingsLoading b) Q E s t = Q () (s\<lparr>stLoading := b\<rparr>) t"
  "wp w (setSettingsSubmitting b) Q E s t = Q () (s\<lparr>stSubmitting := b\<rparr>) t"
  "wp w (setCountdownSeconds n) Q E s t = Q () (s\<lparr>stCountdown := n\<rparr>) t"
  by (simp_all add: setSettingsError_def setSettingsLoading_def setSettingsSubmitting_def
      setCountdownSeconds_def wp_rules)

lemma settings_more: "auth.more s' = auth.more (s :: settings_page) \<Longrightarrow> stFlow s' = stFlow s \<and> stPassword s' = stPassword s
    \<and> stConfirm s' = stConfirm s \<and> stUpdated s' = stUpdated s \<and> stCountdown s' = stCountdown s \<and> stError s' = stError s
    \<and> stLoading s' = stLoading s \<and> stSubmitting s' = stSubmitting s \<and> stTimer s' = stTimer s"
  by (cases s; cases s') simp

text \<open>The first event of an intercepted request is the request itself, up to its headers.\<close>

lemma api_fetch_first:
  assumes "run w (api_fetch rq) s t = (r, s', t')"
  shows "\<exists>rq' rest. t' = t @ Fetch rq' # rest \<and> rq_body rq' = rq_body rq \<and> rq_url rq' = rq_url rq"
proof (cases "rq_url rq = [] \<or> \<not> shouldHandleUrl (rq_url rq) \<or> isAuthEndpoint (rq_url rq)")
  case True
  then have "run w (api_fetch rq) s t = run w (fetch rq) s t" by (simp add: api_fetch_def)
  with assms show ?thesis by (auto simp: run_fetch)
next
  case False
  let ?rq = "authorized (accessToken s) rq"
  have same: "rq_body ?rq = rq_body rq" "rq_url ?rq = rq_url rq" by (simp_all add: authorized_def)
  obtain p where "run w (api_fetch rq) s t = run w p s (t @ [Fetch ?rq])"
    using False by (auto simp: api_fetch_def gets_def fetch_def)
  then obtain rest where "t' = (t @ [Fetch ?rq]) @ rest"
    using run_trace_extends [of w p s "t @ [Fetch ?rq]"] assms by (metis fst_conv snd_conv)
  with same show ?thesis by auto
qed

text \<open>What an attempt that fails leaves as it was.\<close>

definition form_kept :: "settings_page \<Rightarrow> settings_page \<Rightarrow> bool" where
  "form_kept s s' \<longleftrightarrow> stPassword s' = stPassword s \<and> stConfirm s' = stConfirm s \<and> stFlow s' = stFlow s
     \<and> stUpdated s' = stUpdated s \<and> stCountdown s' = stCountdown s"

lemma keeps_settings [keeps_rules]:
  "keeps (settings_csrf j)" "keeps (hasPasswordMethod j)" "keeps (extractSettingsErrorMessage j)"
  unfolding settings_csrf_def hasPasswordMethod_def extractSettingsErrorMessage_def flow_nodes_def
  by (auto intro!: keeps_rules simp: Let_def split: sum.split)

lemma silent_settings: "emits_only P (extractSettingsErrorMessage j)"
  unfolding extractSettingsErrorMessage_def
  by (auto intro!: only_rules simp: Let_def split: sum.split)

text \<open>The token in the fields of a flow; reading it depends on nothing else.\<close>

definition flow_token :: "jsval \<Rightarrow> exn + string option" where
  "flow_token flow = fst (run (\<lambda>_ _. RDone) (settings_csrf flow) () [])"

lemma run_csrf: "run w (settings_csrf flow) s t = (flow_token flow, s, t)"
  by (simp add: flow_token_def settings_csrf_def flow_nodes_def node_value_def run_rules
      split: sum.split)

text \<open>Sending the form: what becomes of it is decided by what comes back.\<close>

definition after_answer :: "exn + response \<Rightarrow> settings_page \<Rightarrow> settings_page \<Rightarrow> bool" where
  "after_answer res s1 s2 = (case res of
       Inl e \<Rightarrow> s2 = s1\<lparr>stError := Some (exn_message e)\<rparr>
     | Inr x \<Rightarrow> if rs_ok x then s2 = s1\<lparr>stPassword := [], stConfirm := [], stCountdown := REDIRECT_SECONDS, stUpdated := True\<rparr>
               else \<exists>m. s2 = s1\<lparr>stError := Some m\<rparr>)"

lemma run_post_password:
  assumes fetched: "run w (api_fetch rq) s t = (res, s1, t1)"
  obtains s2 where "run w (post_password rq) s t = (Inr (), s2, t1)" "after_answer res s1 s2"
proof (cases res)
  case (Inl e)
  then have "run w (post_password rq) s t = (Inr (), s1\<lparr>stError := Some (exn_message e)\<rparr>, t1)"
    using fetched by (simp add: post_password_def run_try_catch run_bind setSettingsError_def run_rules)
  then show thesis using that Inl by (simp add: after_answer_def)
next
  case (Inr x)
  have answered: "run w (post_password rq) s t =
      run w (try_catch (password_answer x) (\<lambda>e. setSettingsError (Some (exn_message e)))) s1 t1"
    using fetched Inr by (simp add: post_password_def run_try_catch run_bind)
  obtain c where c: "run w (extractSettingsErrorMessage (json_or_null x)) s1 t1 = (c, s1, t1)"
    by (rule run_silent [OF keeps_settings(3) silent_settings])
  have "run w (post_password rq) s t = (Inr (), (if rs_ok x
      then s1\<lparr>stPassword := [], stConfirm := [], stCountdown := REDIRECT_SECONDS, stUpdated := True\<rparr>
      else s1\<lparr>stError := Some (case c of Inl e \<Rightarrow> exn_message e | Inr m \<Rightarrow> m)\<rparr>), t1)"
    unfolding answered using c
    by (cases c) (simp_all add: password_answer_def Let_def run_rules setSettingsError_def setCountdownSeconds_def)
  then show thesis using that Inr by (auto simp: after_answer_def split: if_splits)
qed

text \<open>
  C38. Submitting the new password, from a screen that is not submitting. The form is sent exactly when
  there is a flow with a token and the password has at least eight characters and equals its
  confirmation. Then one form goes out, that password with that token, and nothing happens beyond what
  the interceptor does with it; the handler returns normally, and if the answer is a success the
  password counts as updated, both fields are emptied and the countdown is set, while on any other
  answer, and when none comes, the form stays as it was and a message is shown (for a lost request
  that of the exception). Otherwise nothing is sent and the form stays as it was, with a message, or
  the flow is so malformed that the handler throws. In each case the screen is not submitting after it.
\<close>

theorem password_submission:
  assumes idle: "\<not> stUpdated s" "\<not> stSubmitting s" and rn: "run w submitPassword s t = (r, s', t')"
  shows "\<not> stSubmitting s' \<and>
    (if truthy (stFlow s) \<and> 8 \<le> length (stPassword s) \<and> stPassword s = stConfirm s
        \<and> (\<exists>token. token \<noteq> [] \<and> flow_token (stFlow s) = Inr (Some token))
     then \<exists>token rq rest res s1. token \<noteq> [] \<and> flow_token (stFlow s) = Inr (Some token)
        \<and> run w (api_fetch (password_request (stFlow s) (stPassword s) token)) (s\<lparr>stError := None, stSubmitting := True\<rparr>) t
            = (res, s1, t')
        \<and> t' = t @ Fetch rq # rest \<and> rq_body rq = rq_body (password_request (stFlow s) (stPassword s) token)
        \<and> r = Inr ()
        \<and> (case res of
             Inr x \<Rightarrow>
               if rs_ok x then stUpdated s' \<and> stPassword s' = [] \<and> stConfirm s' = [] \<and> stCountdown s' = REDIRECT_SECONDS
               else form_kept s s' \<and> stError s' \<noteq> None
           | Inl e \<Rightarrow> form_kept s s' \<and> stError s' = Some (exn_message e))
     else t' = t \<and> form_kept s s' \<and> (isl r \<or> stError s' \<noteq> None))"
proof -
  define s0 where "s0 = s\<lparr>stError := None\<rparr>"
  define c where "c = flow_token (stFlow s)"
  have c: "run w (settings_csrf (stFlow s)) s0 t = (c, s0, t)" by (simp add: run_csrf c_def)
  define token where "token = (case c of Inl e \<Rightarrow> [] | Inr k \<Rightarrow> or_default k [])"
  have named: "token \<noteq> [] \<Longrightarrow> c = Inr (Some token)" "c = Inr (Some k) \<Longrightarrow> k \<noteq> [] \<Longrightarrow> token = k" for k
    by (auto simp: token_def or_default_def split: sum.splits option.splits list.splits if_splits)
  note code = submitPassword_def setSettingsError_def setSettingsSubmitting_def run_rules Let_def
  show ?thesis
  proof (cases "truthy (stFlow s) \<and> 8 \<le> length (stPassword s) \<and> stPassword s = stConfirm s \<and> token \<noteq> []")
    case False
    then have "\<not> stSubmitting s' \<and> t' = t \<and> form_kept s s' \<and> (isl r \<or> stError s' \<noteq> None)"
      using idle rn c
      by (auto simp: code s0_def token_def form_kept_def split: if_splits sum.splits)
    moreover have "\<not> (truthy (stFlow s) \<and> 8 \<le> length (stPassword s) \<and> stPassword s = stConfirm s
        \<and> (\<exists>token. token \<noteq> [] \<and> c = Inr (Some token)))"
      using False named(2) by auto
    ultimately show ?thesis unfolding c_def [symmetric] by (simp only: if_False) simp
  next
    case True
    let ?rq = "password_request (stFlow s) (stPassword s) token"
    obtain res s1 t1 where p: "run w (api_fetch ?rq) (s0\<lparr>stSubmitting := True\<rparr>) t = (res, s1, t1)"
      by (metis prod_cases3)
    obtain s2 where s2: "run w (post_password ?rq) (s0\<lparr>stSubmitting := True\<rparr>) t = (Inr (), s2, t1)" "after_answer res s1 s2"
      using run_post_password [OF p] by blast
    obtain rq rest where sent: "t1 = t @ Fetch rq # rest" "rq_body rq = rq_body ?rq"
      using api_fetch_first [OF p] by blast
    have e: "r = Inr ()" "s' = s2\<lparr>stSubmitting := False\<rparr>" "t' = t1"
      using True idle rn c s2(1) by (auto simp: code s0_def token_def split: if_splits sum.splits)
    have "form_kept s (s1\<lparr>stError := m, stSubmitting := False\<rparr>)" for m
      using settings_more [OF leavesD [OF off_screen_api_fetch p]] by (simp add: form_kept_def s0_def)
    then have "case res of Inr x \<Rightarrow>
               if rs_ok x then stUpdated s' \<and> stPassword s' = [] \<and> stConfirm s' = [] \<and> stCountdown s' = REDIRECT_SECONDS
               else form_kept s s' \<and> stError s' \<noteq> None
           | Inl e \<Rightarrow> form_kept s s' \<and> stError s' = Some (exn_message e)"
      using s2(2) e(2) by (auto simp: after_answer_def split: sum.splits if_splits)
    moreover have "flow_token (stFlow s) = Inr (Some token)" using True named(1) c_def by simp
    moreover have "\<not> stSubmitting s'" using e(2) by simp
    ultimately show ?thesis using True p sent e(1,3) unfolding s0_def by auto
  qed
qed

definition confirmed_password :: settings_page where
  "confirmed_password = (initial_settings (initial_auth True) (Some ''f1''))\<lparr>stPassword := ''correct horse'',
     stConfirm := ''correct horse'', stFlow := recovery_flow_js sample_flow\<rparr>"

lemma password_submission_witness:
  "case run silent_world submitPassword confirmed_password [] of (r, s', t') \<Rightarrow>
     \<not> stSubmitting s' \<and> t' \<noteq> [] \<and> form_kept confirmed_password s' \<and> stError s' = Some ''offline''"
proof -
  obtain r s' t' where rn: "run silent_world submitPassword confirmed_password [] = (r, s', t')"
    by (metis prod.collapse)
  have idle: "\<not> stUpdated confirmed_password" "\<not> stSubmitting confirmed_password" by code_simp+
  have "case run silent_world submitPassword confirmed_password [] of (a, b, c) \<Rightarrow> c \<noteq> [] \<and> stError b = Some ''offline'' \<and> \<not> stUpdated b" by code_simp
  with rn have "t' \<noteq> []" "stError s' = Some ''offline''" "\<not> stUpdated s'" by simp_all
  with rn password_submission [OF idle rn] show ?thesis by (auto split: if_splits sum.splits)
qed

section \<open>The countdown\<close>

lemma run_tick:
  "run w countdown_tick s t =
     (if \<not> stTimer s then (Inr (), s, t)
      else if stCountdown s \<le> 1
      then (Inr (), s\<lparr>stTimer := False, stCountdown := 0\<rparr>, t @ [if on_web s then AssignLocation ''/login'' else Navigate ''Login'' JUndef])
      else (Inr (), s\<lparr>stCountdown := stCountdown s - 1\<rparr>, t))"
  by (simp add: countdown_tick_def redirectToLogin_def clearCountdownTimer_def setCountdownSeconds_def is_web_def run_rules)

lemma run_ticks:
  assumes "stTimer s" "stCountdown s = REDIRECT_SECONDS"
  shows "run w (countdown_ticks n) s t =
    (if n < 8 then (Inr (), s\<lparr>stCountdown := 8 - int n\<rparr>, t)
     else (Inr (), s\<lparr>stTimer := False, stCountdown := 0\<rparr>, t @ [if on_web s then AssignLocation ''/login'' else Navigate ''Login'' JUndef]))"
proof (induction n)
  case 0
  then show ?case using assms by (cases s) (simp add: run_rules REDIRECT_SECONDS_def)
next
  case (Suc n)
  then show ?case using assms by (auto simp: run_rules run_tick)
qed

text \<open>
  C39. The countdown ends. Once the password has been updated, the page stays for seven seconds,
  showing the seconds left; the eighth takes it to the sign-in page, exactly once, however many
  seconds pass; the timer is then off.
\<close>

theorem countdown_redirects:
  assumes "stUpdated s" "\<not> stTimer s" "stCountdown s = REDIRECT_SECONDS"
  shows "run w (seq start_countdown (countdown_ticks n)) s t =
    (if n < 8 then (Inr (), s\<lparr>stTimer := True, stCountdown := 8 - int n\<rparr>, t)
     else (Inr (), s\<lparr>stCountdown := 0\<rparr>, t @ [if on_web s then AssignLocation ''/login'' else Navigate ''Login'' JUndef]))"
proof -
  have off: "s\<lparr>stTimer := False, stCountdown := 0\<rparr> = s\<lparr>stCountdown := 0\<rparr>"
    using assms(2) by (cases s) simp
  show ?thesis
    using assms run_ticks [of "s\<lparr>stTimer := True\<rparr>" w n t]
    by (simp add: run_rules start_countdown_def off)
qed

definition updated_page :: settings_page where
  "updated_page = (initial_settings (initial_auth True) (Some ''f1''))\<lparr>stUpdated := True\<rparr>"

lemma countdown_redirects_witness:
  "run silent_world (seq start_countdown (countdown_ticks 20)) updated_page [] =
     (Inr (), updated_page\<lparr>stCountdown := 0\<rparr>, [AssignLocation ''/login''])"
proof -
  have "stUpdated updated_page" "\<not> stTimer updated_page" "stCountdown updated_page = REDIRECT_SECONDS"
    "on_web updated_page" by code_simp+
  then show ?thesis using countdown_redirects [of updated_page silent_world 20 "[]"] by simp
qed

end
