(* ===== verification/Navigation.thy ===== *)
theory Navigation
  imports SignIn PasswordSettings VerifyEmail RecruiterScreen Requestor
begin

text \<open>
  The navigators (\<open>src/navigation/AuthNavigator.tsx\<close>, \<open>MainAppNavigator.tsx\<close>, \<open>RecruiterNavigator.tsx\<close>,
  \<open>RequestorNavigator.tsx\<close>), the addresses of \<open>App.tsx\<close>, and the pages a user of each role can
  get to. What \<open>navigate\<close> does to the stack of pages is the navigation library's business and a
  parameter here.
\<close>

section \<open>Before the sign-in\<close>

datatype auth_page = LoginPage | RegisterPage | RecoveryPage | VerifyPage | AuthErrorPage | SettingsPage

definition auth_screens :: "(string \<times> auth_page) list" where
  "auth_screens = [(''Login'', LoginPage), (''Register'', RegisterPage), (''ForgotPassword'', RecoveryPage),
     (''Verify'', VerifyPage), (''AuthError'', AuthErrorPage), (''Settings'', SettingsPage)]"

definition getInitialAuthRouteName :: "bool \<Rightarrow> string \<Rightarrow> string" where
  "getInitialAuthRouteName web pathname =
     (if \<not> web then ''Login''
      else if pathname = ''/recovery'' then ''ForgotPassword''
      else if pathname = ''/verify'' then ''Verify''
      else if pathname = ''/settings'' then ''Settings''
      else if pathname = ''/error'' then ''AuthError''
      else ''Login'')"

definition linking_screens :: "(string \<times> string) list" where
  "linking_screens = [(''Login'', ''login''), (''Register'', ''register''), (''ForgotPassword'', ''recovery''),
     (''Verify'', ''verify''), (''AuthError'', ''error'')]"

text \<open>The routes the controls and handlers of each page ask for.\<close>

fun auth_links :: "auth_page \<Rightarrow> string list" where
  "auth_links LoginPage = [''ForgotPassword'', ''Register'']"
| "auth_links RegisterPage = [''Login'', ''Verify'']"
| "auth_links RecoveryPage = [''Login'']"
| "auth_links VerifyPage = [''Login'']"
| "auth_links AuthErrorPage = [''ForgotPassword'', ''Login'']"
| "auth_links SettingsPage = [''Login'']"

definition AuthErrorScreen :: "element list" where
  "AuthErrorScreen = [Caption ''Authentication link expired'',
     Caption ''We could not continue this authentication flow'',
     Caption ''For your security, this link may have expired or can no longer be used. Please start again.'',
     Button ''Try again'' True, Button ''Return to sign in'' True]"

section \<open>The app\<close>

datatype app_page =
    HomePage
  | HRReviewPage
  | CandidatesPage
  | CandidateDetailPage
  | FiltersPage
  | ReqHomePage
  | ReqNewPage
  | ReqDetailPage

text \<open>A nested navigator opens at its initial route.\<close>

definition recruiter_screens :: "(string \<times> app_page) list" where
  "recruiter_screens = [(''RecruiterCandidates'', CandidatesPage), (''CandidateDetail'', CandidateDetailPage),
     (''RecruiterFilters'', FiltersPage)]"

definition requestor_screens :: "(string \<times> app_page) list" where
  "requestor_screens = [(''RequestorHome'', ReqHomePage), (''RequestorNewRequest'', ReqNewPage),
     (''RequestorRequestDetail'', ReqDetailPage)]"

definition main_screens :: "(string \<times> app_page) list" where
  "main_screens = [(''Home'', HomePage), (''HRReview'', HRReviewPage), (''Recruiter'', CandidatesPage),
     (''ReqHome'', ReqHomePage)]"

fun initial_page :: "app_route \<Rightarrow> app_page" where
  "initial_page RtRecruiter = CandidatesPage"
| "initial_page RtHRReview = HRReviewPage"
| "initial_page RtReqHome = ReqHomePage"
| "initial_page RtHome = HomePage"

fun navigator_of :: "app_page \<Rightarrow> (string \<times> app_page) list" where
  "navigator_of HomePage = main_screens"
| "navigator_of HRReviewPage = main_screens"
| "navigator_of CandidatesPage = recruiter_screens"
| "navigator_of CandidateDetailPage = recruiter_screens"
| "navigator_of FiltersPage = recruiter_screens"
| "navigator_of ReqHomePage = requestor_screens"
| "navigator_of ReqNewPage = requestor_screens"
| "navigator_of ReqDetailPage = requestor_screens"

text \<open>A route is looked up in the page's own navigator and then in the one around it.\<close>

definition resolve :: "app_page \<Rightarrow> string \<Rightarrow> app_page option" where
  "resolve p n = (case map_of (navigator_of p) n of Some q \<Rightarrow> Some q | None \<Rightarrow> map_of main_screens n)"

text \<open>
  The back button in the header of the candidate list, and the controls of the home page.
\<close>

definition BackToAppButton :: "bool \<Rightarrow> bool \<Rightarrow> ('s, unit) prog" where
  "BackToAppButton has_parent can_go_back =
     (if \<not> has_parent then do_if can_go_back (emit (Navigate ''back'' JUndef))
      else emit (Navigate ''HRReview'' JUndef))"

definition go_to_hr_review :: "('s, unit) prog" where
  "go_to_hr_review = emit (Navigate ''HRReview'' JUndef)"

definition recruiter_demo :: "('s, unit) prog" where
  "recruiter_demo = emit (Navigate ''Recruiter'' JUndef)"

fun page_links :: "app_page \<Rightarrow> string list" where
  "page_links HomePage = [''HRReview'', ''Recruiter'']"
| "page_links HRReviewPage = []"
| "page_links CandidatesPage = [''CandidateDetail'', ''RecruiterFilters'', ''HRReview'']"
| "page_links CandidateDetailPage = []"
| "page_links FiltersPage = []"
| "page_links ReqHomePage = [''RequestorNewRequest'', ''RequestorRequestDetail'']"
| "page_links ReqNewPage = [''RequestorRequestDetail'']"
| "page_links ReqDetailPage = []"

text \<open>The stack of pages, the current one first: following a link, and going back.\<close>

inductive nav_step :: "(app_page \<Rightarrow> app_page list \<Rightarrow> app_page list) \<Rightarrow> app_page list \<Rightarrow> app_page list \<Rightarrow> bool"
  for navigate :: "app_page \<Rightarrow> app_page list \<Rightarrow> app_page list" where
  follow: "n \<in> set (page_links p) \<Longrightarrow> resolve p n = Some q \<Longrightarrow> nav_step navigate (p # st) (navigate q (p # st))"
| go_back: "st \<noteq> [] \<Longrightarrow> nav_step navigate (p # st) st"

definition opens :: "(app_page \<Rightarrow> app_page list \<Rightarrow> app_page list) \<Rightarrow> jsval \<Rightarrow> app_page \<Rightarrow> bool" where
  "opens navigate role p = (\<exists>st. (nav_step navigate)\<^sup>*\<^sup>* [initial_page (routeForRole role)] (p # st))"

section \<open>The handlers ask for the routes listed\<close>

definition asks_for :: "string list \<Rightarrow> event \<Rightarrow> bool" where
  "asks_for ns e = (case e of Navigate n p \<Rightarrow> n \<in> set (''back'' # ns) | ResetTo n p \<Rightarrow> n \<in> set ns | _ \<Rightarrow> True)"

lemma asks_for_simps [simp]:
  "asks_for ns (Fetch rq)" "asks_for ns (StoreGet k)" "asks_for ns (StorePut k v)" "asks_for ns (StoreDel k)"
  "asks_for ns (JoinRefresh i)" "asks_for ns (Alert a b)" "asks_for ns (AssignLocation u)"
  "asks_for ns (Navigate n p) = (n = ''back'' \<or> n \<in> set ns)" "asks_for ns (ResetTo n p) = (n \<in> set ns)"
  by (auto simp: asks_for_def)

end
