(* ===== verification/NavigationSafety.thy ===== *)
theory NavigationSafety
  imports Navigation
begin

text \<open>
  Which pages a role can get to, and that every navigation a handler asks for is one that its page
  lists and its navigator knows.
\<close>

section \<open>The handlers\<close>

lemma only_api_fetch [only_rules]: "emits_only (asks_for ns) (api_fetch rq)"
proof -
  have session: "emits_only (asks_for ns) refresh" "emits_only (asks_for ns) (markSessionExpired x)" for x
    by (rule emits_only_mono [OF only_refresh] emits_only_mono [OF only_mark]; auto elim!: session_event.elims)+
  show ?thesis unfolding api_fetch_def
    by (intro only_rules session) (auto intro!: only_rules split: refresh_result.split)
qed

lemma session_asks: "emits_only session_event p \<Longrightarrow> emits_only (asks_for ns) p"
  by (erule emits_only_mono) (auto elim!: session_event.elims)

lemma only_tokens [only_rules]:
  "emits_only (asks_for ns) (storeRefreshToken v)" "emits_only (asks_for ns) (adopt_tokens v)"
  unfolding adopt_tokens_def by (intro only_rules session_asks)+

lemma only_forms [only_rules]:
  "emits_only (asks_for ns) (create_flow web kind)" "emits_only (asks_for ns) (submit_form web ui csrf b)"
  "emits_only (asks_for ns) (exchangeSessionToken v)" "emits_only P (csrf_of web ui)" "emits_only P (opt_slice v)"
  "emits_only P (ui_message m d v)"
  unfolding create_flow_def submit_form_def exchangeSessionToken_def csrf_of_def node_value_def opt_slice_def ui_message_def
  by (auto intro!: only_rules split: sum.split)

lemma only_register [only_rules]: "emits_only (asks_for ns) (register url_flow inp)"
  unfolding register_def register_body_def native_register_result_def register_web_result_def extractRegistrationErrorMessage_def
  by (intro only_rules)

lemma only_register_setters [only_rules]:
  "emits_only P (register_state f)" "emits_only P (setRegisterNotice v)" "emits_only P (setIsSubmitting b)"
  unfolding register_state_def setRegisterNotice_def setIsSubmitting_def by (intro only_rules)+

lemma only_handleSubmit: "emits_only (asks_for (auth_links RegisterPage)) (handleSubmit url_flow)"
  unfolding handleSubmit_def after_register_def
  by (intro only_rules) (auto intro!: only_rules split: register_result.split)

lemma only_onCreate: "emits_only (asks_for (page_links ReqNewPage)) (onCreate base stamp)"
  unfolding onCreate_def send_creation_def open_created_def alert_def parsed_or_null_def
  by (intro only_rules; simp)

text \<open>
  C40. Navigation is well typed. Every route that the controls and handlers of a page ask for is a
  route of the page's navigator or of the one around it, and the handlers ask for no other, besides
  going back.
\<close>

theorem navigation_well_typed:
  "list_all (\<lambda>n. resolve p n \<noteq> None) (page_links p)
   \<and> list_all (\<lambda>n. map_of auth_screens n \<noteq> None) (getInitialAuthRouteName web path # auth_links a)
   \<and> emits_only (asks_for (page_links HomePage)) (go_to_hr_review :: ('x auth_scheme, unit) prog)
   \<and> emits_only (asks_for (page_links HomePage)) (recruiter_demo :: ('x auth_scheme, unit) prog)
   \<and> emits_only (asks_for (page_links CandidatesPage)) (BackToAppButton parent can_go :: (candidates, unit) prog)
   \<and> emits_only (asks_for (page_links CandidatesPage)) (onPressRow row)
   \<and> emits_only (asks_for (page_links CandidatesPage)) openFilters
   \<and> emits_only (asks_for (page_links FiltersPage)) filters_done
   \<and> emits_only (asks_for (page_links ReqHomePage)) (open_request rr)
   \<and> emits_only (asks_for (page_links ReqHomePage)) new_request
   \<and> emits_only (asks_for (page_links ReqNewPage)) (onCreate base stamp)
   \<and> emits_only (asks_for (auth_links RegisterPage)) (handleSubmit url_flow)
   \<and> emits_only (asks_for (auth_links SettingsPage)) redirectToLogin"
proof (intro conjI only_handleSubmit only_onCreate)
  show "list_all (\<lambda>n. resolve p n \<noteq> None) (page_links p)"
    by (cases p) (simp_all add: resolve_def main_screens_def recruiter_screens_def requestor_screens_def)
  show "list_all (\<lambda>n. map_of auth_screens n \<noteq> None) (getInitialAuthRouteName web path # auth_links a)"
    by (cases a) (simp_all add: auth_screens_def getInitialAuthRouteName_def)
  show "emits_only (asks_for (page_links CandidatesPage)) openFilters"
    "emits_only (asks_for (page_links FiltersPage)) filters_done"
    unfolding openFilters_def filters_done_def on_store_def by (intro only_rules; simp)+
  show "emits_only (asks_for (auth_links SettingsPage)) redirectToLogin"
    unfolding redirectToLogin_def clearCountdownTimer_def by (intro only_rules; simp)
qed (simp_all add: go_to_hr_review_def recruiter_demo_def BackToAppButton_def onPressRow_def open_request_def
      new_request_def emit_def do_if_def)

section \<open>The pages of a role\<close>

fun role_pages :: "app_route \<Rightarrow> app_page set" where
  "role_pages RtRecruiter = {CandidatesPage, CandidateDetailPage, FiltersPage, HRReviewPage}"
| "role_pages RtHRReview = {HRReviewPage}"
| "role_pages RtReqHome = {ReqHomePage, ReqNewPage, ReqDetailPage}"
| "role_pages RtHome = {HomePage, HRReviewPage, CandidatesPage, CandidateDetailPage, FiltersPage}"

lemmas screen_tables = resolve_def main_screens_def recruiter_screens_def requestor_screens_def

lemma role_pages_closed:
  "p \<in> role_pages r \<Longrightarrow> n \<in> set (page_links p) \<Longrightarrow> resolve p n = Some q \<Longrightarrow> q \<in> role_pages r"
  by (cases r; cases p) (auto simp: screen_tables)

text \<open>What the library documents of \<open>navigate\<close>: the page asked for is on top, and no other page is added.\<close>

definition puts_on_top :: "(app_page \<Rightarrow> app_page list \<Rightarrow> app_page list) \<Rightarrow> bool" where
  "puts_on_top navigate = (\<forall>q st. \<exists>rest. navigate q st = q # rest \<and> set rest \<subseteq> set st)"

lemma nav_stays:
  assumes "puts_on_top navigate" "(nav_step navigate)\<^sup>*\<^sup>* [initial_page r] st"
  shows "set st \<subseteq> role_pages r"
  using assms(2)
proof induction
  case base
  show ?case by (cases r) auto
next
  case (step st st')
  from step.hyps(2) show ?case
  proof (cases rule: nav_step.cases)
    case (follow n p q st1)
    have "q \<in> role_pages r"
      using follow step.IH role_pages_closed by auto
    moreover obtain rest where "navigate q (p # st1) = q # rest" "set rest \<subseteq> set (p # st1)"
      using assms(1) unfolding puts_on_top_def by blast
    ultimately show ?thesis using follow step.IH by auto
  qed (use step.IH in auto)
qed

lemma nav_follow:
  assumes "puts_on_top navigate" "opens navigate role p" "n \<in> set (page_links p)" "resolve p n = Some q"
  shows "opens navigate role q"
proof -
  obtain st where st: "(nav_step navigate)\<^sup>*\<^sup>* [initial_page (routeForRole role)] (p # st)"
    using assms(2) by (auto simp: opens_def)
  obtain rest where "navigate q (p # st) = q # rest" using assms(1) unfolding puts_on_top_def by blast
  then have "nav_step navigate (p # st) (q # rest)" using nav_step.follow [OF assms(3,4), of navigate st] by simp
  with st show ?thesis unfolding opens_def by (meson rtranclp.rtrancl_into_rtrancl)
qed

text \<open>
  C33. The pages of a role. Whatever links are followed and however often the user goes back, a
  user gets exactly to these pages: a recruiter and a Cvera user to the candidate pages and, by the
  back button of the list, to the HR review; a reviewer only to the HR review; a requestor only to
  the three request pages; anyone else from the home page to the HR review and the candidate pages.
\<close>

theorem pages_by_role:
  assumes "puts_on_top navigate"
  shows "opens navigate role p \<longleftrightarrow> p \<in> role_pages (routeForRole role)"
proof
  assume "opens navigate role p"
  then show "p \<in> role_pages (routeForRole role)"
    using nav_stays [OF assms] by (fastforce simp: opens_def)
next
  let ?o = "opens navigate role"
  have start: "?o (initial_page (routeForRole role))" by (auto simp: opens_def)
  have home: "?o HomePage \<Longrightarrow> ?o HRReviewPage" "?o HomePage \<Longrightarrow> ?o CandidatesPage"
    by (rule nav_follow [OF assms, of _ HomePage "''HRReview''"] nav_follow [OF assms, of _ HomePage "''Recruiter''"];
        simp add: screen_tables)+
  have list: "?o CandidatesPage \<Longrightarrow> ?o HRReviewPage" "?o CandidatesPage \<Longrightarrow> ?o CandidateDetailPage"
    "?o CandidatesPage \<Longrightarrow> ?o FiltersPage"
    by (rule nav_follow [OF assms, of _ CandidatesPage "''HRReview''"]
        nav_follow [OF assms, of _ CandidatesPage "''CandidateDetail''"]
        nav_follow [OF assms, of _ CandidatesPage "''RecruiterFilters''"]; simp add: screen_tables)+
  have requests: "?o ReqHomePage \<Longrightarrow> ?o ReqNewPage" "?o ReqHomePage \<Longrightarrow> ?o ReqDetailPage"
    by (rule nav_follow [OF assms, of _ ReqHomePage "''RequestorNewRequest''"]
        nav_follow [OF assms, of _ ReqHomePage "''RequestorRequestDetail''"]; simp add: screen_tables)+
  assume "p \<in> role_pages (routeForRole role)"
  then show "?o p" using start home list requests by (cases "routeForRole role") auto
qed

text \<open>A navigation that pushes the page, unless it is the current one.\<close>

definition push_page :: "app_page \<Rightarrow> app_page list \<Rightarrow> app_page list" where
  "push_page q st = (if st \<noteq> [] \<and> hd st = q then st else q # st)"

lemma pages_by_role_witness:
  "puts_on_top push_page \<and> opens push_page (JStr ''recruiter'') HRReviewPage
     \<and> \<not> opens push_page (JStr ''requestor'') HRReviewPage"
proof -
  have top: "puts_on_top push_page"
    unfolding puts_on_top_def push_page_def by (auto simp: neq_Nil_conv)
  have "routeForRole (JStr ''recruiter'') = RtRecruiter" "routeForRole (JStr ''requestor'') = RtReqHome" by code_simp+
  with top show ?thesis using pages_by_role [OF top] by simp
qed

end
