(* ===== verification/DevTools.thy ===== *)
theory DevTools
  imports Gate Publish Screens
begin

text \<open>
  Tools around the program: the build of the e-mail templates
  (\<open>apps/evt-api-go/email/scripts/build.mjs\<close>), the harness that prints the outcomes of the golden
  vectors (\<open>pkg/verification/outcomeHarness.ts\<close>), and the component that shows a crashed screen
  (\<open>components/ErrorBoundary.tsx\<close>).
\<close>

section \<open>Building the e-mail templates\<close>

text \<open>A template directory, its entries in the order the file system lists them.\<close>

datatype entry = TemplateFile string string | TemplateDir string "entry list"

fun walk_entry :: "string \<Rightarrow> entry \<Rightarrow> (string \<times> string) list" where
  "walk_entry dir (TemplateFile name content) = [(dir @ name, content)]"
| "walk_entry dir (TemplateDir name entries) = concat (map (walk_entry (dir @ name @ ''/'')) entries)"

definition walk :: "entry list \<Rightarrow> (string \<times> string) list" where
  "walk entries = concat (map (walk_entry []) entries)"

record email_build =
  eb_dist :: "string \<Rightarrow> string option"
  eb_out :: "string list"

text \<open>The name without its extension; a name that begins with its only dot has none.\<close>

definition gotmpl_path :: "string \<Rightarrow> string" where
  "gotmpl_path rel = (if basename rel = ''.mjml'' then rel else take (length rel - 5) rel) @ ''.gotmpl''"

definition write_dist :: "string \<Rightarrow> string \<Rightarrow> string \<Rightarrow> (email_build, unit) prog" where
  "write_dist path content line =
     modify (\<lambda>h. h\<lparr>eb_dist := (eb_dist h)(path \<mapsto> content), eb_out := eb_out h @ [line]\<rparr>)"

text \<open>\<open>mjml rel source\<close> is the third-party compiler, which throws on a template it does not accept.\<close>

definition build_file :: "(string \<Rightarrow> string \<Rightarrow> exn + string) \<Rightarrow> string \<times> string \<Rightarrow> (email_build, unit) prog" where
  "build_file mjml f = (case f of (rel, content) \<Rightarrow>
     if ends_with rel ''.mjml'' then
       (case mjml rel content of
          Inl e \<Rightarrow> Raise e
        | Inr html \<Rightarrow> write_dist (gotmpl_path rel) html (''compiled '' @ rel @ '' -> dist/'' @ gotmpl_path rel))
     else if ends_with rel ''.gotmpl'' then write_dist rel content (''copied '' @ rel @ '' -> dist/'' @ rel)
     else skip)"

definition build_emails :: "(string \<Rightarrow> string \<Rightarrow> exn + string) \<Rightarrow> entry list \<Rightarrow> (email_build, unit) prog" where
  "build_emails mjml entries =
     seq (modify (\<lambda>h. h\<lparr>eb_dist := \<lambda>_. None\<rparr>))
         (for_each (build_file mjml) (walk entries))"

text \<open>What the build makes of one file, and what it writes up to the first refused template.\<close>

definition output_of :: "(string \<Rightarrow> string \<Rightarrow> exn + string) \<Rightarrow> string \<times> string \<Rightarrow> exn + (string \<times> string) option" where
  "output_of mjml f = (case f of (rel, content) \<Rightarrow>
     if ends_with rel ''.mjml''
     then (case mjml rel content of Inl e \<Rightarrow> Inl e | Inr html \<Rightarrow> Inr (Some (gotmpl_path rel, html)))
     else Inr (if ends_with rel ''.gotmpl'' then Some (rel, content) else None))"

fun build_outputs :: "(string \<Rightarrow> string \<Rightarrow> exn + string) \<Rightarrow> (string \<times> string) list \<Rightarrow> exn option \<times> (string \<times> string) list" where
  "build_outputs mjml [] = (None, [])"
| "build_outputs mjml (f # fs) = (case output_of mjml f of
       Inl e \<Rightarrow> (Some e, [])
     | Inr None \<Rightarrow> build_outputs mjml fs
     | Inr (Some x) \<Rightarrow> (fst (build_outputs mjml fs), x # snd (build_outputs mjml fs)))"

lemma run_build_file:
  "run w (build_file mjml f) h t = (case output_of mjml f of
       Inl e \<Rightarrow> (Inl e, h, t)
     | Inr None \<Rightarrow> (Inr (), h, t)
     | Inr (Some x) \<Rightarrow> run w (write_dist (fst x) (snd x)
         ((if ends_with (fst f) ''.mjml'' then ''compiled '' else ''copied '') @ fst f @ '' -> dist/'' @ fst x)) h t)"
  by (cases f) (auto simp: build_file_def output_of_def run_rules split: sum.split)

lemma build_each:
  assumes "run w (for_each (build_file mjml) fs) h t = (r, h', t')"
  shows "r = (case fst (build_outputs mjml fs) of None \<Rightarrow> Inr () | Some e \<Rightarrow> Inl e)
     \<and> eb_dist h' = eb_dist h ++ map_of (rev (snd (build_outputs mjml fs)))"
  using assms
proof (induction fs arbitrary: h t)
  case Nil
  then show ?case by (auto simp: run_rules)
next
  case (Cons f fs)
  show ?case
  proof (cases "output_of mjml f")
    case (Inl e)
    with Cons.prems show ?thesis by (simp add: run_seq run_build_file)
  next
    case (Inr x)
    show ?thesis
    proof (cases x)
      case None
      with Inr Cons show ?thesis by (simp add: run_seq run_build_file)
    next
      case (Some y)
      with Inr Cons.prems have "\<exists>l. run w (for_each (build_file mjml) fs)
          (h\<lparr>eb_dist := (eb_dist h)(fst y \<mapsto> snd y), eb_out := l\<rparr>) t = (r, h', t')"
        by (auto simp: run_seq run_build_file write_dist_def run_rules)
      then obtain l where "run w (for_each (build_file mjml) fs)
          (h\<lparr>eb_dist := (eb_dist h)(fst y \<mapsto> snd y), eb_out := l\<rparr>) t = (r, h', t')" ..
      from Cons.IH [OF this] Inr Some show ?thesis
        by (simp add: map_add_def fun_eq_iff split: option.split)
    qed
  qed
qed

text \<open>
  The build is a function of the templates: whatever the output directory held before, it then
  holds exactly what the templates give, the later of two outputs with one name winning.
\<close>

lemma build_emails_outputs:
  assumes "run w (build_emails mjml entries) h t = (r, h', t')"
  shows "r = (case fst (build_outputs mjml (walk entries)) of None \<Rightarrow> Inr () | Some e \<Rightarrow> Inl e)
     \<and> eb_dist h' = map_of (rev (snd (build_outputs mjml (walk entries))))"
proof -
  have "run w (for_each (build_file mjml) (walk entries)) (h\<lparr>eb_dist := \<lambda>_. None\<rparr>) t = (r, h', t')"
    using assms by (simp add: build_emails_def run_rules)
  from build_each [OF this] show ?thesis by (simp add: map_add_def)
qed

section \<open>The outcome harness\<close>

record harness =
  hs_files :: "string \<Rightarrow> string option"
  hs_out :: "string list"
  hs_exitCode :: "int option"

definition golden_vectors :: "(string \<times> string) list" where
  "golden_vectors = [(''golden-valid'', ''out/golden-valid.jws''),
     (''golden-invalid-signature'', ''out/golden-invalid-signature.tampered.jws''),
     (''golden-revoked'', ''out/golden-revoked.jws'')]"

definition harness_print :: "string \<Rightarrow> (harness, unit) prog" where
  "harness_print l = modify (\<lambda>h. h\<lparr>hs_out := hs_out h @ [l]\<rparr>)"

definition loadJws :: "string \<Rightarrow> (harness, string) prog" where
  "loadJws p = bind (gets (\<lambda>h. hs_files h p)) (\<lambda>f. case f of
     None \<Rightarrow> Raise (JsErr ''ENOENT'') | Some raw \<Rightarrow> Return (trim raw))"

definition print_outcome :: "string \<Rightarrow> string \<times> string \<Rightarrow> (harness, unit) prog" where
  "print_outcome base v = (case v of (name, relPath) \<Rightarrow>
     bind (loadJws relPath) (\<lambda>jws.
     bind (verifyOutcomeFromJws base jws) (\<lambda>out.
     seq (harness_print (''\<newline>=== '' @ name @ '' ('' @ relPath @ '') ===''))
         (harness_print (json_pretty 0 out)))))"

definition runVerificationOutcomeHarness :: "string \<Rightarrow> string \<Rightarrow> (harness, unit) prog" where
  "runVerificationOutcomeHarness cwd base =
     seq (harness_print ''[outcomeHarness] starting'')
    (seq (harness_print (''[outcomeHarness] cwd: '' @ cwd))
    (seq (for_each (print_outcome base) golden_vectors)
         (harness_print ''\<newline>[outcomeHarness] done'')))"

definition outcome_harness :: "string \<Rightarrow> string \<Rightarrow> (harness, unit) prog" where
  "outcome_harness cwd base =
     try_catch (runVerificationOutcomeHarness cwd base)
       (\<lambda>e. seq (harness_print (''[outcomeHarness] error: '' @ exn_message e))
                (modify (\<lambda>h. h\<lparr>hs_exitCode := Some 1\<rparr>)))"

section \<open>The error boundary\<close>

record boundary =
  hasError :: bool
  caught :: "exn option"
  componentStack :: "string option"

definition boundary_start :: boundary where
  "boundary_start = \<lparr>hasError = False, caught = None, componentStack = None\<rparr>"

text \<open>React replaces the fields of the derived state and keeps the others.\<close>

definition getDerivedStateFromError :: "exn \<Rightarrow> boundary \<Rightarrow> boundary" where
  "getDerivedStateFromError e s = s\<lparr>hasError := True, caught := Some e\<rparr>"

definition componentDidCatch :: "string option \<Rightarrow> boundary \<Rightarrow> boundary" where
  "componentDidCatch info s = s\<lparr>componentStack := info\<rparr>"

definition boundary_reset :: "boundary \<Rightarrow> boundary" where
  "boundary_reset s = s\<lparr>hasError := False, caught := None, componentStack := None\<rparr>"

text \<open>\<open>stack_of\<close> is the stack text of an error, which the engine provides.\<close>

definition ErrorBoundary :: "(exn \<Rightarrow> string) \<Rightarrow> string option \<Rightarrow> element list \<Rightarrow> boundary \<Rightarrow> element list" where
  "ErrorBoundary stack_of title children s =
     (if \<not> hasError s then children
      else
        [Caption (coalesce title ''Screen crashed''),
         Caption ''The UI threw a runtime error. This prevents a black screen and shows the crash details so you can keep working.'',
         Button ''Try again'' True, Caption ''Error'',
         Caption (case caught s of None \<Rightarrow> ''Unknown error''
           | Some e \<Rightarrow> if stack_of e \<noteq> [] then stack_of e
                       else if exn_message e \<noteq> [] then exn_message e else ''Unknown error'')]
        @ (if or_default (componentStack s) [] \<noteq> []
           then [Caption ''Component stack'', Caption (or_default (componentStack s) [])] else []))"

text \<open>After a crash, \<open>Try again\<close> shows the children again and forgets the crash.\<close>

lemma boundary_recovers:
  "ErrorBoundary stack_of title children
     (boundary_reset (componentDidCatch info (getDerivedStateFromError e s))) = children
   \<and> boundary_reset (componentDidCatch info (getDerivedStateFromError e s)) = boundary_start"
  by (cases s) (simp add: ErrorBoundary_def boundary_reset_def componentDidCatch_def getDerivedStateFromError_def
      boundary_start_def)

end
