(* ===== verification/Authority.thy ===== *)
theory Authority
  imports Prelude
begin

text \<open>
  Issuer authority on the server (\<open>internal/authority\<close>): the lifecycle of an authorization
  (\<open>state_machine.go\<close>), the append-only journal of its events (\<open>registry.go\<close>), the projection of a
  journal into time-bounded grants (\<open>projection.go\<close>) and the evaluation of grants at an instant
  (\<open>evaluator.go\<close>). Go's string types stay strings, so a value no constant names is one too; an
  error, of which each function has one, is \<open>None\<close>.
\<close>

section \<open>Instants\<close>

text \<open>A \<open>time.Time\<close>: nanoseconds since the zero time, and whether its location is UTC.\<close>

datatype instant = Instant (ns: int) (is_utc: bool)

definition zero_time :: instant where
  "zero_time = Instant 0 True"

definition IsZero :: "instant \<Rightarrow> bool" where
  "IsZero t = (ns t = 0)"

definition Before :: "instant \<Rightarrow> instant \<Rightarrow> bool" where
  "Before t u = (ns t < ns u)"

definition After :: "instant \<Rightarrow> instant \<Rightarrow> bool" where
  "After t u = (ns t > ns u)"

definition canonicalAuthorityTimestamp :: "instant \<Rightarrow> bool" where
  "canonicalAuthorityTimestamp t = (\<not> IsZero t \<and> is_utc t \<and> (ns t mod 1000000000) mod 1000 = 0)"

section \<open>The lifecycle\<close>

record transition_result =
  tr_state :: string
  tr_applied :: bool
  tr_reason :: string

definition nextAuthorizationState :: "string \<Rightarrow> string \<Rightarrow> string \<times> bool" where
  "nextAuthorizationState cur ev =
     (if cur = ''REQUESTED'' then (if ev = ''SUBMIT'' then (''PENDING'', True) else (cur, False))
      else if cur = ''PENDING'' then
        (if ev = ''APPROVE'' then (''APPROVED'', True)
         else if ev = ''REJECT'' then (''REJECTED'', True) else (cur, False))
      else if cur = ''APPROVED'' then (if ev = ''ACTIVATE'' then (''ACTIVE'', True) else (cur, False))
      else if cur = ''ACTIVE'' then
        (if ev = ''SUSPEND'' then (''SUSPENDED'', True)
         else if ev = ''EXPIRE'' then (''EXPIRED'', True)
         else if ev = ''REVOKE'' then (''REVOKED'', True) else (cur, False))
      else if cur = ''SUSPENDED'' then
        (if ev = ''REINSTATE'' then (''ACTIVE'', True)
         else if ev = ''EXPIRE'' then (''EXPIRED'', True)
         else if ev = ''REVOKE'' then (''REVOKED'', True) else (cur, False))
      else (cur, False))"

definition Transition :: "string \<Rightarrow> string \<Rightarrow> bool \<Rightarrow> transition_result" where
  "Transition cur ev satisfied =
     (case nextAuthorizationState cur ev of (nxt, permitted) \<Rightarrow>
        if \<not> permitted then \<lparr>tr_state = cur, tr_applied = False, tr_reason = ''INVALID_TRANSITION''\<rparr>
        else if \<not> satisfied then \<lparr>tr_state = cur, tr_applied = False, tr_reason = ''CONDITIONS_NOT_SATISFIED''\<rparr>
        else \<lparr>tr_state = nxt, tr_applied = True, tr_reason = ''TRANSITION_APPLIED''\<rparr>)"

section \<open>The journal\<close>

record journal_event =
  je_id :: string
  je_authorization :: string
  je_type :: string
  je_effective :: instant
  je_recorded :: instant
  je_actor :: string
  je_evidence :: string
  je_satisfied :: bool
  je_corrects :: string
  je_reason :: string
  je_field :: string

type_synonym journal = "journal_event list"

definition step_event :: "string \<Rightarrow> journal_event \<Rightarrow> transition_result" where
  "step_event st e = Transition st (je_type e) (je_satisfied e)"

text \<open>The state known at a recorded-time cutoff; corrections are passed over.\<close>

fun reconstruct_from :: "string \<Rightarrow> instant \<Rightarrow> journal \<Rightarrow> string \<Rightarrow> string option" where
  "reconstruct_from i cutoff [] st = Some st"
| "reconstruct_from i cutoff (e # es) st =
     (if je_authorization e \<noteq> i \<or> After (je_recorded e) cutoff \<or> je_corrects e \<noteq> [] then reconstruct_from i cutoff es st
      else if \<not> tr_applied (step_event st e) then None
      else reconstruct_from i cutoff es (tr_state (step_event st e)))"

definition Reconstruct :: "journal \<Rightarrow> string \<Rightarrow> instant \<Rightarrow> string option" where
  "Reconstruct j i cutoff =
     (if i = [] \<or> \<not> canonicalAuthorityTimestamp cutoff then None
      else reconstruct_from i cutoff j ''REQUESTED'')"

definition event_complete :: "journal_event \<Rightarrow> bool" where
  "event_complete e = (je_id e \<noteq> [] \<and> je_authorization e \<noteq> [] \<and> je_actor e \<noteq> [] \<and> je_evidence e \<noteq> []
     \<and> canonicalAuthorityTimestamp (je_effective e) \<and> canonicalAuthorityTimestamp (je_recorded e))"

definition Append :: "journal \<Rightarrow> journal_event \<Rightarrow> journal option" where
  "Append j e =
     (if \<not> event_complete e then None
      else if j \<noteq> [] \<and> Before (je_recorded e) (je_recorded (last j)) then None
      else if list_ex (\<lambda>x. je_id x = je_id e) j then None
      else if je_corrects e \<noteq> [] then
        (if je_reason e = [] \<or> je_field e = [] then None
         else if \<not> list_ex (\<lambda>x. je_id x = je_corrects e \<and> je_authorization x = je_authorization e) j then None
         else Some (j @ [e]))
      else
        (case Reconstruct j (je_authorization e) (je_recorded e) of
          None \<Rightarrow> None
        | Some st \<Rightarrow> if tr_applied (step_event st e) then Some (j @ [e]) else None))"

text \<open>
  The derived view: the events of the authorization recorded up to the cutoff, with the effective
  times their corrections give them. \<open>positions\<close> and \<open>corrected\<close> are the two Go maps.
\<close>

fun derive_events :: "string \<Rightarrow> instant \<Rightarrow> journal \<Rightarrow> journal \<Rightarrow> (string \<rightharpoonup> nat) \<Rightarrow> string list \<Rightarrow> journal option" where
  "derive_events i cutoff [] eff positions corrected = Some eff"
| "derive_events i cutoff (e # es) eff positions corrected =
     (if After (je_recorded e) cutoff then Some eff
      else if je_authorization e \<noteq> i then derive_events i cutoff es eff positions corrected
      else if je_corrects e = [] then
        derive_events i cutoff es (eff @ [e]) (positions(je_id e \<mapsto> length eff)) corrected
      else if je_field e \<noteq> ''EffectiveAt'' then None
      else
        (case positions (je_corrects e) of
          None \<Rightarrow> None
        | Some p \<Rightarrow>
            if je_corrects e \<in> set corrected then None
            else if \<not> canonicalAuthorityTimestamp (je_effective e) then None
            else derive_events i cutoff es (eff[p := (eff ! p)\<lparr>je_effective := je_effective e\<rparr>])
                   positions (je_corrects e # corrected)))"

text \<open>The order of the derived view: no step back in time, and an interval opened is not empty.\<close>

definition opens_interval :: "string \<Rightarrow> bool" where
  "opens_interval ty = (ty = ''ACTIVATE'' \<or> ty = ''SUSPEND'' \<or> ty = ''REINSTATE'' \<or> ty = ''REVOKE'')"

definition follows :: "journal_event option \<Rightarrow> journal_event \<Rightarrow> bool" where
  "follows prev e = (case prev of None \<Rightarrow> True | Some p \<Rightarrow>
     \<not> Before (je_effective e) (je_effective p)
     \<and> (opens_interval (je_type p) \<longrightarrow> After (je_effective e) (je_effective p)))"

fun history_ok :: "journal_event option \<Rightarrow> string \<Rightarrow> journal \<Rightarrow> bool" where
  "history_ok prev st [] = True"
| "history_ok prev st (e # es) =
     (follows prev e \<and> tr_applied (step_event st e) \<and> history_ok (Some e) (tr_state (step_event st e)) es)"

definition EffectiveEvents :: "journal \<Rightarrow> string \<Rightarrow> instant \<Rightarrow> journal option" where
  "EffectiveEvents j i cutoff =
     (if i = [] \<or> \<not> canonicalAuthorityTimestamp cutoff then None
      else case derive_events i cutoff j [] Map.empty [] of
        None \<Rightarrow> None
      | Some eff \<Rightarrow> if history_ok None ''REQUESTED'' eff then Some eff else None)"

section \<open>Grants\<close>

record authority_grant =
  ag_id :: string
  ag_issuer :: string
  ag_claim_type :: string
  ag_subject :: string
  ag_from :: instant
  ag_until :: "instant option"
  ag_state :: string

record adjudication =
  ad_id :: string
  ad_authorization :: string
  ad_issuer :: string
  ad_subject :: string
  ad_claim_type :: string
  ad_outcome :: string
  ad_maker :: string
  ad_basis :: string
  ad_evidence :: string
  ad_decided :: instant
  ad_recorded :: instant

record authorization_record =
  ar_id :: string
  ar_issuer :: string
  ar_subject :: string
  ar_claim_type :: string
  ar_adjudication :: "adjudication option"

text \<open>A half-open interval becomes an inclusive one: its end is a microsecond earlier.\<close>

definition microsecond_before :: "instant \<Rightarrow> instant" where
  "microsecond_before t = Instant (ns t - 1000) (is_utc t)"

definition projectGrantInterval :: "instant \<Rightarrow> instant option \<Rightarrow> (instant \<times> instant option) option" where
  "projectGrantInterval start till =
     (if \<not> canonicalAuthorityTimestamp start then None
      else case till of
        None \<Rightarrow> Some (start, None)
      | Some t \<Rightarrow>
          if \<not> canonicalAuthorityTimestamp t \<or> \<not> After t start then None
          else Some (start, Some (microsecond_before t)))"

definition adjudicated :: "authorization_record \<Rightarrow> adjudication \<Rightarrow> instant \<Rightarrow> bool" where
  "adjudicated r a through = (ad_id a \<noteq> [] \<and> ad_authorization a = ar_id r \<and> ad_issuer a = ar_issuer r
     \<and> ad_subject a = ar_subject r \<and> ad_claim_type a = ar_claim_type r \<and> ad_outcome a = ''APPROVED''
     \<and> ad_maker a \<noteq> [] \<and> ad_basis a \<noteq> [] \<and> ad_evidence a \<noteq> []
     \<and> canonicalAuthorityTimestamp (ad_decided a) \<and> canonicalAuthorityTimestamp (ad_recorded a)
     \<and> \<not> After (ad_decided a) (ad_recorded a) \<and> \<not> After (ad_recorded a) through)"

definition record_complete :: "authorization_record \<Rightarrow> instant \<Rightarrow> bool" where
  "record_complete r through = (ar_id r \<noteq> [] \<and> ar_issuer r \<noteq> [] \<and> ar_subject r \<noteq> [] \<and> ar_claim_type r \<noteq> []
     \<and> canonicalAuthorityTimestamp through)"

text \<open>The local variables of the projection; \<open>pj_from\<close> is the zero time while no interval is open.\<close>

record projection =
  pj_approved :: bool
  pj_from :: instant
  pj_grant_id :: string
  pj_state :: string
  pj_lifecycle :: string
  pj_grants :: "authority_grant list"

definition projection_start :: projection where
  "projection_start = \<lparr>pj_approved = False, pj_from = zero_time, pj_grant_id = [], pj_state = [],
     pj_lifecycle = ''REQUESTED'', pj_grants = []\<rparr>"

definition openInterval :: "authorization_record \<Rightarrow> journal_event \<Rightarrow> string \<Rightarrow> projection \<Rightarrow> projection option" where
  "openInterval r e st p =
     (if \<not> IsZero (pj_from p) then None
      else Some (p\<lparr>pj_from := je_effective e, pj_grant_id := ar_id r @ '':'' @ je_id e, pj_state := st\<rparr>))"

definition grant_of :: "authorization_record \<Rightarrow> projection \<Rightarrow> instant \<Rightarrow> instant option \<Rightarrow> authority_grant" where
  "grant_of r p from till = \<lparr>ag_id = pj_grant_id p, ag_issuer = ar_issuer r, ag_claim_type = ar_claim_type r,
     ag_subject = ar_subject r, ag_from = from, ag_until = till, ag_state = pj_state p\<rparr>"

definition closeInterval :: "authorization_record \<Rightarrow> instant \<Rightarrow> projection \<Rightarrow> projection option" where
  "closeInterval r till p =
     (if IsZero (pj_from p) then None
      else case projectGrantInterval (pj_from p) (Some till) of
        None \<Rightarrow> None
      | Some (from, until) \<Rightarrow>
          Some (p\<lparr>pj_grants := pj_grants p @ [grant_of r p from until], pj_from := zero_time, pj_grant_id := []\<rparr>))"

definition swap_interval :: "authorization_record \<Rightarrow> journal_event \<Rightarrow> string \<Rightarrow> projection \<Rightarrow> projection option" where
  "swap_interval r e st p = Option.bind (closeInterval r (je_effective e) p) (openInterval r e st)"

definition project_event :: "authorization_record \<Rightarrow> adjudication \<Rightarrow> journal_event \<Rightarrow> projection \<Rightarrow> projection option" where
  "project_event r a e p0 =
     (if \<not> tr_applied (step_event (pj_lifecycle p0) e) then None
      else let p = p0\<lparr>pj_lifecycle := tr_state (step_event (pj_lifecycle p0) e)\<rparr> in
        if je_type e = ''APPROVE'' then
          (if je_evidence e \<noteq> ad_evidence a \<or> je_actor e \<noteq> ad_maker a \<or> After (ad_recorded a) (je_recorded e) then None
           else Some (p\<lparr>pj_approved := True\<rparr>))
        else if je_type e = ''ACTIVATE'' then
          (if \<not> pj_approved p then None else openInterval r e ''active'' p)
        else if je_type e = ''SUSPEND'' then
          (if pj_state p \<noteq> ''active'' then None else swap_interval r e ''inactive'' p)
        else if je_type e = ''REINSTATE'' then
          (if pj_state p \<noteq> ''inactive'' then None else swap_interval r e ''active'' p)
        else if je_type e = ''EXPIRE'' then
          (if IsZero (pj_from p) then Some p else closeInterval r (je_effective e) p)
        else if je_type e = ''REVOKE'' then
          Option.bind (if IsZero (pj_from p) then Some p else closeInterval r (je_effective e) p) (openInterval r e ''inactive'')
        else Some p)"

fun project_events :: "authorization_record \<Rightarrow> adjudication \<Rightarrow> journal \<Rightarrow> projection \<Rightarrow> projection option" where
  "project_events r a [] p = Some p"
| "project_events r a (e # es) p = Option.bind (project_event r a e p) (project_events r a es)"

definition project_final :: "authorization_record \<Rightarrow> projection \<Rightarrow> authority_grant list option" where
  "project_final r p =
     (let z = IsZero (pj_from p); l = pj_lifecycle p in
      if \<not> pj_approved p then None
      else if l = ''ACTIVE'' \<and> (z \<or> pj_state p \<noteq> ''active'') then None
      else if l = ''REVOKED'' \<and> (z \<or> pj_state p \<noteq> ''inactive'') then None
      else if l = ''SUSPENDED'' \<and> (z \<or> pj_state p \<noteq> ''inactive'') then None
      else if l \<noteq> ''ACTIVE'' \<and> l \<noteq> ''SUSPENDED'' \<and> l \<noteq> ''REVOKED'' \<and> \<not> z then None
      else if \<not> z then Some (pj_grants p @ [grant_of r p (pj_from p) None])
      else Some (pj_grants p))"

text \<open>The journal is a Go pointer, \<open>None\<close> for nil.\<close>

definition ProjectAuthorityGrants :: "authorization_record \<Rightarrow> journal option \<Rightarrow> instant \<Rightarrow> authority_grant list option" where
  "ProjectAuthorityGrants r jp through =
     (case jp of None \<Rightarrow> None | Some j \<Rightarrow>
        if \<not> record_complete r through then None
        else case ar_adjudication r of
          None \<Rightarrow> None
        | Some a \<Rightarrow>
            if \<not> adjudicated r a through then None
            else case EffectiveEvents j (ar_id r) through of
              None \<Rightarrow> None
            | Some evs \<Rightarrow> Option.bind (project_events r a evs projection_start) (project_final r))"

section \<open>Evaluating grants\<close>

text \<open>What the evaluation reads of the normalised credential evidence.\<close>

record claim_scope =
  cs_issuer :: string
  cs_claim_type :: string
  cs_employer :: string

record authority_evaluation =
  ae_decision :: string
  ae_grant :: string
  ae_reason :: string

definition matchesAuthorityScope :: "claim_scope \<Rightarrow> authority_grant \<Rightarrow> bool" where
  "matchesAuthorityScope c g = (ag_issuer g = cs_issuer c \<and> ag_claim_type g = cs_claim_type c \<and> ag_subject g = cs_employer c)"

definition grantCurrent :: "authority_grant \<Rightarrow> instant \<Rightarrow> bool" where
  "grantCurrent g t =
     (if Before t (ag_from g) then False
      else case ag_until g of None \<Rightarrow> True | Some u \<Rightarrow> \<not> After t u)"

text \<open>The loop: the first current inactive grant and whether one matched out of its time are kept.\<close>

fun evaluate_loop :: "claim_scope \<Rightarrow> instant \<Rightarrow> authority_grant list \<Rightarrow> authority_grant option \<Rightarrow> bool \<Rightarrow> authority_evaluation" where
  "evaluate_loop c t [] inactive stale =
     (case inactive of
       Some g \<Rightarrow> \<lparr>ae_decision = ''UNAUTHORIZED'', ae_grant = ag_id g, ae_reason = ''MATCHING_INACTIVE_GRANT''\<rparr>
     | None \<Rightarrow>
         if stale then \<lparr>ae_decision = ''REVIEW'', ae_grant = [], ae_reason = ''NO_CURRENT_GRANT''\<rparr>
         else \<lparr>ae_decision = ''REVIEW'', ae_grant = [], ae_reason = ''NO_APPLICABLE_GRANT''\<rparr>)"
| "evaluate_loop c t (g # gs) inactive stale =
     (if \<not> matchesAuthorityScope c g then evaluate_loop c t gs inactive stale
      else if \<not> grantCurrent g t then evaluate_loop c t gs inactive True
      else if ag_state g = ''active''
      then \<lparr>ae_decision = ''AUTHORIZED'', ae_grant = ag_id g, ae_reason = ''MATCHING_ACTIVE_GRANT''\<rparr>
      else if ag_state g = ''inactive''
      then evaluate_loop c t gs (case inactive of None \<Rightarrow> Some g | Some h \<Rightarrow> Some h) stale
      else evaluate_loop c t gs inactive stale)"

definition evaluate_authority :: "claim_scope \<Rightarrow> authority_grant list \<Rightarrow> instant \<Rightarrow> authority_evaluation" where
  "evaluate_authority c gs t = evaluate_loop c t gs None False"

section \<open>The snapshot\<close>

record snapshot =
  sn_complete :: bool
  sn_through :: instant
  sn_entries :: "(authorization_record \<times> journal) list"

text \<open>\<open>NewSnapshotAuthorityResolver\<close>: every entry projected, or no resolver at all.\<close>

fun project_entries :: "instant \<Rightarrow> (authorization_record \<times> journal) list \<Rightarrow> string list \<Rightarrow> authority_grant list \<Rightarrow> authority_grant list option" where
  "project_entries through [] seen gs = Some gs"
| "project_entries through ((r, j) # rest) seen gs =
     (if ar_id r = [] \<or> ar_id r \<in> set seen then None
      else if list_ex (\<lambda>e. je_authorization e \<noteq> ar_id r \<or> \<not> canonicalAuthorityTimestamp (je_recorded e)
                         \<or> After (je_recorded e) through) j then None
      else case ProjectAuthorityGrants r (Some j) through of
        None \<Rightarrow> None
      | Some projected \<Rightarrow> project_entries through rest (ar_id r # seen) (gs @ projected))"

definition NewSnapshotAuthorityResolver :: "snapshot \<Rightarrow> authority_grant list option" where
  "NewSnapshotAuthorityResolver sn =
     (if \<not> sn_complete sn \<or> \<not> canonicalAuthorityTimestamp (sn_through sn) then None
      else if sn_entries sn = [] then Some []
      else project_entries (sn_through sn) (sn_entries sn) [] [])"

text \<open>The resolver is nil, or holds its grants; a cancelled request fails before anything else.\<close>

definition ResolveAuthorityGrants :: "authority_grant list option \<Rightarrow> bool \<Rightarrow> string \<Rightarrow> string \<Rightarrow> authority_grant list option" where
  "ResolveAuthorityGrants resolver cancelled issuer claim_type =
     (if cancelled then None
      else case resolver of
        None \<Rightarrow> None
      | Some gs \<Rightarrow> Some (filter (\<lambda>g. ag_issuer g = issuer \<and> ag_claim_type g = claim_type) gs))"

end
