(* ===== verification/Decision.thy ===== *)
theory Decision
  imports Authority Gate
begin

text \<open>
  Deciding on a credential, on the server: the evidence a credential profile reports
  (\<open>internal/credential/evidence.go\<close>, the fields this code reads), the verifier policy over it
  (\<open>internal/verification\<close>) and the outcome the client is sent
  (\<open>internal/httpapi/verification_outcome.go\<close>). The profile that checks an SD-JWT VC is a parameter.
\<close>

section \<open>Go strings and JSON\<close>

definition go_space :: "char \<Rightarrow> bool" where
  "go_space c = (let n = of_char c :: nat in (9 \<le> n \<and> n \<le> 13) \<or> n = 32 \<or> n = 133 \<or> n = 160)"

definition TrimSpace :: "string \<Rightarrow> string" where
  "TrimSpace s = stripR go_space (dropWhile go_space s)"

text \<open>
  Decoding into a struct of one string field, unknown fields refused: names match regardless of
  case, \<open>null\<close> leaves the field as it is, and the last of several values stays.
\<close>

fun decode_field :: "string \<Rightarrow> (string \<times> jsval) list \<Rightarrow> string \<Rightarrow> string option" where
  "decode_field k [] cur = Some cur"
| "decode_field k ((n, v) # rest) cur =
     (if to_lower n \<noteq> to_lower k then None
      else case v of JStr x \<Rightarrow> decode_field k rest x | JNull \<Rightarrow> decode_field k rest cur | _ \<Rightarrow> None)"

definition decode_verify_request :: "jsval \<Rightarrow> string option" where
  "decode_verify_request body = (case body of
      JObj ps \<Rightarrow> decode_field ''jwsCompact'' ps [] | JNull \<Rightarrow> Some [] | _ \<Rightarrow> None)"

section \<open>Evidence\<close>

record evidence =
  ev_claim_type :: string
  ev_employer :: string
  ev_issuer :: string
  ev_key :: string
  ev_signature :: string
  ev_validity :: string
  ev_status :: string
  ev_subject :: string
  ev_errors :: "(string \<times> string) list"

definition scope_of :: "evidence \<Rightarrow> claim_scope" where
  "scope_of ev = \<lparr>cs_issuer = ev_issuer ev, cs_claim_type = ev_claim_type ev, cs_employer = ev_employer ev\<rparr>"

section \<open>The verifier policy\<close>

record tally =
  tl_reasons :: "string list"
  tl_negative :: bool
  tl_indeterminate :: bool

definition classifyEvidence :: "string \<Rightarrow> string \<Rightarrow> string \<Rightarrow> string \<Rightarrow> tally \<Rightarrow> tally" where
  "classifyEvidence res invalidReason unknownReason unrecognizedReason acc =
     (if res = ''valid'' then acc
      else if res = ''invalid'' then acc\<lparr>tl_reasons := tl_reasons acc @ [invalidReason], tl_negative := True\<rparr>
      else if res = ''unknown'' then acc\<lparr>tl_reasons := tl_reasons acc @ [unknownReason], tl_indeterminate := True\<rparr>
      else acc\<lparr>tl_reasons := tl_reasons acc @ [unrecognizedReason], tl_indeterminate := True\<rparr>)"

definition classify_authority :: "string \<Rightarrow> tally \<Rightarrow> tally" where
  "classify_authority d acc =
     (if d = ''AUTHORIZED'' then acc
      else if d = ''UNAUTHORIZED'' then acc\<lparr>tl_reasons := tl_reasons acc @ [''ISSUER_UNAUTHORIZED''], tl_negative := True\<rparr>
      else if d = ''REVIEW'' then acc\<lparr>tl_reasons := tl_reasons acc @ [''AUTHORITY_REVIEW''], tl_indeterminate := True\<rparr>
      else acc\<lparr>tl_reasons := tl_reasons acc @ [''AUTHORITY_UNRECOGNIZED''], tl_indeterminate := True\<rparr>)"

record verification_evaluation =
  ve_decision :: string
  ve_policy :: string
  ve_reasons :: "string list"

definition Evaluate :: "evidence \<Rightarrow> authority_evaluation \<Rightarrow> string \<Rightarrow> verification_evaluation" where
  "Evaluate ev au policy =
     (let tl0 = \<lparr>tl_reasons = [], tl_negative = False, tl_indeterminate = False\<rparr>;
          tl1 = classifyEvidence (ev_signature ev) ''SIGNATURE_INVALID'' ''SIGNATURE_UNKNOWN'' ''SIGNATURE_UNRECOGNIZED'' tl0;
          tl2 = classifyEvidence (ev_validity ev) ''VALIDITY_INVALID'' ''VALIDITY_UNKNOWN'' ''VALIDITY_UNRECOGNIZED'' tl1;
          tl3 = classifyEvidence (ev_status ev) ''STATUS_INVALID'' ''STATUS_UNKNOWN'' ''STATUS_UNRECOGNIZED'' tl2;
          tl4 = classifyEvidence (ev_subject ev) ''SUBJECT_BINDING_INVALID'' ''SUBJECT_BINDING_UNKNOWN''
                  ''SUBJECT_BINDING_UNRECOGNIZED'' tl3;
          acc = classify_authority (ae_decision au) tl4
      in \<lparr>ve_decision = (if tl_negative acc then ''REJECTED'' else if tl_indeterminate acc then ''REVIEW'' else ''VERIFIED''),
          ve_policy = policy, ve_reasons = tl_reasons acc\<rparr>)"

text \<open>The service: a resolution that fails is no authority either way.\<close>

definition service_evaluate ::
    "(string \<Rightarrow> string \<Rightarrow> authority_grant list option) \<Rightarrow> evidence \<Rightarrow> string \<Rightarrow> instant \<Rightarrow>
     authority_evaluation \<times> verification_evaluation" where
  "service_evaluate resolve ev policy at =
     (let au = (case resolve (ev_issuer ev) (ev_claim_type ev) of
         None \<Rightarrow> \<lparr>ae_decision = ''REVIEW'', ae_grant = [], ae_reason = ''AUTHORITY_RESOLUTION_FAILED''\<rparr>
       | Some gs \<Rightarrow> evaluate_authority (scope_of ev) gs at)
      in (au, Evaluate ev au policy))"

section \<open>The outcome sent to the client\<close>

record server_outcome =
  so_signature :: string
  so_trust :: string
  so_why :: "(string \<times> string) option"
  so_window :: string
  so_revocation :: string

definition newVerificationOutcome :: "string \<Rightarrow> string \<Rightarrow> string \<Rightarrow> string \<Rightarrow> string \<Rightarrow> string \<Rightarrow> server_outcome" where
  "newVerificationOutcome signature trust code summary window revocation = \<lparr>so_signature = signature, so_trust = trust,
     so_why = (if code \<noteq> [] \<or> summary \<noteq> [] then Some (summary, code) else None),
     so_window = window, so_revocation = revocation\<rparr>"

definition server_outcome_js :: "server_outcome \<Rightarrow> jsval" where
  "server_outcome_js out = JObj
     ([(''signature'', JStr (so_signature out)), (''trust'', JStr (so_trust out))]
      @ (case so_why out of None \<Rightarrow> [] | Some (summary, code) \<Rightarrow>
           [(''why'', JObj [(''summary'', JStr summary), (''code'', JStr code)])])
      @ [(''checks'', JObj [(''validity_window'', JStr (so_window out)), (''revocation'', JStr (so_revocation out))])])"

definition mapSignatureEvidence :: "string \<Rightarrow> string" where
  "mapSignatureEvidence res = (if res = ''valid'' then ''verified'' else if res = ''invalid'' then ''invalid'' else ''unknown'')"

definition mapValidityEvidence :: "string \<Rightarrow> string" where
  "mapValidityEvidence res = (if res = ''valid'' then ''valid_now'' else if res = ''invalid'' then ''not_valid_now'' else ''unknown'')"

definition mapStatusEvidence :: "string \<Rightarrow> string" where
  "mapStatusEvidence res = (if res = ''valid'' then ''not_revoked'' else if res = ''invalid'' then ''revoked'' else ''unknown'')"

definition evidenceOutcomeReason :: "evidence \<Rightarrow> string \<times> string" where
  "evidenceOutcomeReason ev =
     (case ev_errors ev of
        (c, m) # rest \<Rightarrow>
          (let code = TrimSpace c; summary = TrimSpace m in
           (if code = [] then ''CREDENTIAL_EVIDENCE_INVALID'' else code,
            if summary = [] then ''Credential evidence could not be validated.'' else summary))
      | [] \<Rightarrow>
          if ev_signature ev = ''invalid'' then (''BAD_SIGNATURE'', ''Credential signature is invalid.'')
          else if ev_key ev = ''invalid''
          then (''KEY_RESOLUTION_FAILED'', ''Issuer verification key could not be validated.'')
          else if ev_validity ev = ''invalid''
          then (''NOT_VALID_NOW'', ''Credential is outside its valid time window.'')
          else if ev_status ev = ''invalid''
          then (''CREDENTIAL_STATUS_INVALID'', ''Credential status indicates that it is not currently valid.'')
          else if ev_signature ev = ''valid'' \<and> ev_key ev = ''valid''
          then (''EVIDENCE_VERIFIED_TRUST_NOT_EVALUATED'',
                ''Credential evidence is cryptographically verified; issuer authority and verifier trust policy have not yet been evaluated.'')
          else (''EVIDENCE_INCOMPLETE'', ''Credential evidence could not be fully evaluated.''))"

definition mapEvidenceToVerificationOutcome :: "evidence \<Rightarrow> server_outcome" where
  "mapEvidenceToVerificationOutcome ev =
     (case evidenceOutcomeReason ev of (code, summary) \<Rightarrow>
        newVerificationOutcome (mapSignatureEvidence (ev_signature ev)) ''unknown'' code summary
          (mapValidityEvidence (ev_validity ev)) (mapStatusEvidence (ev_status ev)))"

definition looksLikeSDJWTVC :: "string \<Rightarrow> bool" where
  "looksLikeSDJWTVC raw = (CHR ''~'' \<in> set raw)"

text \<open>\<open>profile raw\<close> is what the SD-JWT VC profile answers, \<open>None\<close> for an operational error.\<close>

definition verifySDJWTVCOutcome :: "(string \<Rightarrow> evidence option) \<Rightarrow> string \<Rightarrow> server_outcome" where
  "verifySDJWTVCOutcome profile raw =
     (case profile raw of
        None \<Rightarrow> newVerificationOutcome ''unknown'' ''unknown'' ''SERVER_VERIFICATION_ERROR''
                  ''Credential verification could not be completed.'' ''unknown'' ''unknown''
      | Some ev \<Rightarrow> mapEvidenceToVerificationOutcome ev)"

definition verifyCredentialOutcome :: "(string \<Rightarrow> evidence option) \<Rightarrow> string \<Rightarrow> server_outcome" where
  "verifyCredentialOutcome profile raw =
     (if looksLikeSDJWTVC raw then verifySDJWTVCOutcome profile raw
      else newVerificationOutcome ''unknown'' ''unknown'' ''LEGACY_VERIFIER_NOT_CONFIGURED''
             ''Legacy JWS compatibility verification is not configured on this API boundary.'' ''unknown'' ''unknown'')"

text \<open>A JSON answer; the text of the body is not read by the clients of these endpoints.\<close>

definition json_answer :: "int \<Rightarrow> jsval \<Rightarrow> response" where
  "json_answer status v = \<lparr>rs_status = status, rs_text = json_text v, rs_json = Some v\<rparr>"

definition writeErr :: "int \<Rightarrow> string \<Rightarrow> response" where
  "writeErr status code = json_answer status (JObj [(''error'', JStr code)])"

text \<open>\<open>too_large\<close>: the body exceeds the limit of a megabyte, at which the decoder fails.\<close>

definition HandleVerificationOutcome :: "(string \<Rightarrow> evidence option) \<Rightarrow> bool \<Rightarrow> request \<Rightarrow> response" where
  "HandleVerificationOutcome profile too_large rq =
     (if rq_method rq \<noteq> ''POST''
      then \<lparr>rs_status = 405, rs_text = ''method not allowed'' @ [CHR 0x0A], rs_json = None\<rparr>
      else if too_large then writeErr 400 ''invalid_json''
      else case decode_verify_request (rq_body rq) of
        None \<Rightarrow> writeErr 400 ''invalid_json''
      | Some field \<Rightarrow>
          let raw = TrimSpace field in
          if raw = [] then writeErr 400 ''missing_jws_compact''
          else json_answer 200 (server_outcome_js (verifyCredentialOutcome profile raw)))"

end
