(* ===== verification/AuthoritySafety.thy ===== *)
theory AuthoritySafety
  imports Authority
begin

text \<open>
  Properties of issuer authority: what the journal admits can be replayed, and the grants projected
  from a journal decide at every instant as the lifecycle that was in force at that instant.
\<close>

section \<open>The lifecycle\<close>

text \<open>The transitions as a relation.\<close>

inductive lifecycle_step :: "string \<Rightarrow> string \<Rightarrow> string \<Rightarrow> bool" where
  submit: "lifecycle_step ''REQUESTED'' ''SUBMIT'' ''PENDING''"
| approve: "lifecycle_step ''PENDING'' ''APPROVE'' ''APPROVED''"
| reject: "lifecycle_step ''PENDING'' ''REJECT'' ''REJECTED''"
| activate: "lifecycle_step ''APPROVED'' ''ACTIVATE'' ''ACTIVE''"
| suspend: "lifecycle_step ''ACTIVE'' ''SUSPEND'' ''SUSPENDED''"
| expire: "lifecycle_step ''ACTIVE'' ''EXPIRE'' ''EXPIRED''"
| revoke: "lifecycle_step ''ACTIVE'' ''REVOKE'' ''REVOKED''"
| reinstate: "lifecycle_step ''SUSPENDED'' ''REINSTATE'' ''ACTIVE''"
| expire_suspended: "lifecycle_step ''SUSPENDED'' ''EXPIRE'' ''EXPIRED''"
| revoke_suspended: "lifecycle_step ''SUSPENDED'' ''REVOKE'' ''REVOKED''"

lemma next_iff_step: "nextAuthorizationState st ev = (st', True) \<longleftrightarrow> lifecycle_step st ev st'"
proof
  show "nextAuthorizationState st ev = (st', True) \<Longrightarrow> lifecycle_step st ev st'"
    by (simp add: nextAuthorizationState_def split: if_splits) (auto intro: lifecycle_step.intros)
next
  show "lifecycle_step st ev st' \<Longrightarrow> nextAuthorizationState st ev = (st', True)"
    by (erule lifecycle_step.cases) (simp_all add: nextAuthorizationState_def)
qed

lemma not_permitted: "nextAuthorizationState st ev = (st', False) \<Longrightarrow> st' = st"
  by (auto simp: nextAuthorizationState_def split: if_splits)

lemma Transition_applied:
  "tr_applied (Transition st ev b) \<longleftrightarrow> b \<and> lifecycle_step st ev (tr_state (Transition st ev b))"
  by (cases "nextAuthorizationState st ev")
    (auto simp: Transition_def next_iff_step dest: not_permitted split: if_splits
      simp flip: next_iff_step)

lemma step_applied: "tr_applied (step_event st e) \<longleftrightarrow> je_satisfied e \<and> lifecycle_step st (je_type e) (tr_state (step_event st e))"
  by (simp add: step_event_def Transition_applied)

section \<open>Evaluating grants\<close>

definition grants_say :: "claim_scope \<Rightarrow> instant \<Rightarrow> authority_grant list \<Rightarrow> string \<Rightarrow> bool" where
  "grants_say c t gs st = (\<exists>g \<in> set gs. matchesAuthorityScope c g \<and> grantCurrent g t \<and> ag_state g = st)"

lemma grants_say_simps [simp]:
  "\<not> grants_say c t [] st"
  "grants_say c t (g # gs) st \<longleftrightarrow> (matchesAuthorityScope c g \<and> grantCurrent g t \<and> ag_state g = st) \<or> grants_say c t gs st"
  "grants_say c t (gs @ hs) st \<longleftrightarrow> grants_say c t gs st \<or> grants_say c t hs st"
  by (auto simp: grants_say_def)

lemma evaluate_loop_decision:
  "ae_decision (evaluate_loop c t gs ina stale) =
     (if grants_say c t gs ''active'' then ''AUTHORIZED''
      else if ina \<noteq> None \<or> grants_say c t gs ''inactive'' then ''UNAUTHORIZED'' else ''REVIEW'')"
  by (induction gs arbitrary: ina stale) (auto split: option.splits)

lemma evaluate_authority_decision:
  "ae_decision (evaluate_authority c gs t) =
     (if grants_say c t gs ''active'' then ''AUTHORIZED''
      else if grants_say c t gs ''inactive'' then ''UNAUTHORIZED'' else ''REVIEW'')"
  by (simp add: evaluate_authority_def evaluate_loop_decision)

section \<open>The journal\<close>

inductive appended :: "journal \<Rightarrow> bool" where
  empty: "appended []"
| event: "appended j \<Longrightarrow> Append j e = Some j' \<Longrightarrow> appended j'"

lemma Append_shape:
  assumes "Append j e = Some j'"
  shows "j' = j @ [e]" "event_complete e" "j \<noteq> [] \<longrightarrow> \<not> Before (je_recorded e) (je_recorded (last j))"
    "je_id e \<notin> je_id ` set j"
    "je_corrects e = [] \<longrightarrow> (\<exists>st. Reconstruct j (je_authorization e) (je_recorded e) = Some st \<and> tr_applied (step_event st e))"
  using assms by (auto simp: Append_def list_ex_iff split: if_splits option.splits)

lemma appended_complete: "appended j \<Longrightarrow> list_all event_complete j"
proof (induction rule: appended.induct)
  case (event j e j')
  then show ?case using Append_shape(1,2) [OF event.hyps(2)] by simp
qed simp

lemma appended_sorted: "appended j \<Longrightarrow> sorted (map (\<lambda>e. ns (je_recorded e)) j)"
proof (induction rule: appended.induct)
  case (event j e j')
  have "\<forall>x \<in> set j. ns (je_recorded x) \<le> ns (je_recorded e)"
  proof (cases j rule: rev_cases)
    case (snoc j0 l)
    then show ?thesis using event.IH Append_shape(3) [OF event.hyps(2)]
      by (fastforce simp: sorted_append Before_def)
  qed simp
  then show ?case using event.IH Append_shape(1) [OF event.hyps(2)] by (auto simp: sorted_append)
qed simp

lemma reconstruct_from_append:
  "reconstruct_from i c (xs @ ys) st = Option.bind (reconstruct_from i c xs st) (reconstruct_from i c ys)"
  by (induction xs arbitrary: st) auto

text \<open>A cutoff before an event leaves it out, one after the last recording leaves nothing out.\<close>

lemma reconstruct_cutoff:
  "\<forall>x \<in> set xs. ns (je_recorded x) \<le> ns c \<and> ns (je_recorded x) \<le> ns c' \<Longrightarrow>
   reconstruct_from i c xs st = reconstruct_from i c' xs st"
  by (induction xs arbitrary: st) (auto simp: After_def)

lemma appended_replays: "appended j \<Longrightarrow> reconstruct_from i c j ''REQUESTED'' \<noteq> None"
proof (induction rule: appended.induct)
  case (event j e j')
  note shape = Append_shape [OF event.hyps(2)]
  obtain st where st: "reconstruct_from i c j ''REQUESTED'' = Some st" using event.IH by blast
  have sorted: "\<forall>x \<in> set j. ns (je_recorded x) \<le> ns (je_recorded e)"
    using appended_sorted [OF appended.event [OF event.hyps]] shape(1) by (auto simp: sorted_append)
  show ?case
  proof (cases "je_authorization e = i \<and> \<not> After (je_recorded e) c \<and> je_corrects e = []")
    case True
    with shape(5) obtain st' where st': "reconstruct_from i (je_recorded e) j ''REQUESTED'' = Some st'" "tr_applied (step_event st' e)"
      by (auto simp: Reconstruct_def split: if_splits)
    have "reconstruct_from i c j ''REQUESTED'' = reconstruct_from i (je_recorded e) j ''REQUESTED''"
      by (rule reconstruct_cutoff) (use sorted True in \<open>auto simp: After_def\<close>)
    with st' True shape(1) show ?thesis by (simp add: reconstruct_from_append)
  qed (use st shape(1) in \<open>auto simp: reconstruct_from_append\<close>)
qed simp

text \<open>The derived view of a journal built by appending holds canonical times only, in their order.\<close>

lemma derive_canonical:
  "derive_events i c j eff pos cor = Some evs \<Longrightarrow> list_all event_complete j \<Longrightarrow>
   list_all (\<lambda>e. canonicalAuthorityTimestamp (je_effective e)) eff \<Longrightarrow>
   list_all (\<lambda>e. canonicalAuthorityTimestamp (je_effective e)) evs"
proof (induction j arbitrary: eff pos cor)
  case (Cons e j)
  then have canon: "canonicalAuthorityTimestamp (je_effective e)" by (simp add: event_complete_def)
  have upd: "list_all (\<lambda>e. canonicalAuthorityTimestamp (je_effective e)) (eff[p := (eff ! p)\<lparr>je_effective := je_effective e\<rparr>])" for p
    using Cons.prems(3) canon by (auto simp: list_all_iff dest!: set_update_subset_insert [THEN subsetD])
  show ?case
    using Cons.prems canon upd by (auto split: if_splits option.splits intro: Cons.IH)
qed simp

lemma effective_canonical:
  "appended j \<Longrightarrow> EffectiveEvents j i c = Some evs \<Longrightarrow> list_all (\<lambda>e. canonicalAuthorityTimestamp (je_effective e)) evs"
  by (auto simp: EffectiveEvents_def split: if_splits option.splits dest: derive_canonical [OF _ appended_complete])

section \<open>The history of an authorization\<close>

definition lifecycle_after :: "journal \<Rightarrow> string" where
  "lifecycle_after evs = fold (\<lambda>e st. tr_state (step_event st e)) evs ''REQUESTED''"

text \<open>The state in force at an instant: that after the events effective by then.\<close>

definition state_at :: "journal \<Rightarrow> instant \<Rightarrow> string" where
  "state_at evs t = lifecycle_after (filter (\<lambda>e. \<not> After (je_effective e) t) evs)"

definition grant_state :: "string \<Rightarrow> string option" where
  "grant_state st = (if st = ''ACTIVE'' then Some ''active''
     else if st = ''SUSPENDED'' \<or> st = ''REVOKED'' then Some ''inactive'' else None)"

definition decision_of :: "string \<Rightarrow> string" where
  "decision_of st = (case grant_state st of None \<Rightarrow> ''REVIEW''
     | Some g \<Rightarrow> if g = ''active'' then ''AUTHORIZED'' else ''UNAUTHORIZED'')"

lemma lifecycle_after_snoc [simp]: "lifecycle_after (evs @ [e]) = tr_state (step_event (lifecycle_after evs) e)"
  by (simp add: lifecycle_after_def)

text \<open>The last event of a history is the latest, so what is in force before it ignores it.\<close>

definition in_order :: "journal \<Rightarrow> bool" where
  "in_order evs = sorted (map (\<lambda>e. ns (je_effective e)) evs)"

lemma history_ok_sorted:
  "history_ok prev st evs \<Longrightarrow> in_order evs \<and> (\<forall>p. prev = Some p \<longrightarrow> (\<forall>e \<in> set evs. ns (je_effective p) \<le> ns (je_effective e)))"
proof (induction evs arbitrary: prev st)
  case (Cons e evs)
  then have ok: "follows prev e" "history_ok (Some e) (tr_state (step_event st e)) evs" by auto
  from Cons.IH [OF ok(2)] have "in_order evs" "\<forall>x \<in> set evs. ns (je_effective e) \<le> ns (je_effective x)" by auto
  moreover have "prev = Some p \<Longrightarrow> ns (je_effective p) \<le> ns (je_effective e)" for p
    using ok(1) by (auto simp: follows_def Before_def)
  ultimately show ?case by (fastforce simp: in_order_def)
qed (simp add: in_order_def)

lemma state_at_snoc:
  assumes "in_order (evs @ [e])"
  shows "state_at (evs @ [e]) t = (if After (je_effective e) t then state_at evs t else lifecycle_after (evs @ [e]))"
proof -
  have "\<not> After (je_effective e) t \<Longrightarrow> filter (\<lambda>e. \<not> After (je_effective e) t) evs = evs"
    using assms by (fastforce simp: in_order_def sorted_append After_def intro!: filter_True)
  then show ?thesis by (simp add: state_at_def)
qed

lemma state_at_last:
  assumes "in_order evs" "evs \<noteq> []" "\<not> Before t (je_effective (last evs))"
  shows "state_at evs t = lifecycle_after evs"
proof -
  from assms(2) obtain es e where "evs = es @ [e]" by (cases evs rule: rev_cases) auto
  with assms show ?thesis by (auto simp: state_at_snoc Before_def After_def)
qed

section \<open>The projection\<close>

definition canonical_events :: "journal \<Rightarrow> bool" where
  "canonical_events evs = list_all (\<lambda>e. canonicalAuthorityTimestamp (je_effective e)) evs"

text \<open>An interval is open exactly in the states that have a grant, since the last event.\<close>

definition open_ok :: "journal \<Rightarrow> projection \<Rightarrow> bool" where
  "open_ok evs p = (case grant_state (pj_lifecycle p) of
      None \<Rightarrow> IsZero (pj_from p)
    | Some g \<Rightarrow> evs \<noteq> [] \<and> pj_from p = je_effective (last evs) \<and> pj_state p = g \<and> \<not> IsZero (pj_from p))"

definition closed_grant :: "authorization_record \<Rightarrow> string \<Rightarrow> instant \<Rightarrow> instant \<Rightarrow> string \<Rightarrow> authority_grant" where
  "closed_grant r i from till g = \<lparr>ag_id = i, ag_issuer = ar_issuer r, ag_claim_type = ar_claim_type r,
     ag_subject = ar_subject r, ag_from = from, ag_until = Some (microsecond_before till), ag_state = g\<rparr>"

lemma closeInterval_Some:
  assumes "closeInterval r till p = Some p'"
  shows "p' = p\<lparr>pj_grants := pj_grants p @ [closed_grant r (pj_grant_id p) (pj_from p) till (pj_state p)],
           pj_from := zero_time, pj_grant_id := []\<rparr>" "After till (pj_from p)"
  using assms by (auto simp: closeInterval_def projectGrantInterval_def grant_of_def closed_grant_def
      split: if_splits option.splits)

lemma canonical_not_zero: "canonicalAuthorityTimestamp t \<Longrightarrow> \<not> IsZero t"
  by (simp add: canonicalAuthorityTimestamp_def)

lemma IsZero_zero_time [simp]: "IsZero zero_time"
  by (simp add: IsZero_def zero_time_def)

lemma project_event_shape:
  assumes "project_event r a e p = Some p'" "open_ok evs p" "canonicalAuthorityTimestamp (je_effective e)"
  shows "pj_lifecycle p' = tr_state (step_event (pj_lifecycle p) e)" "open_ok (evs @ [e]) p'"
    "pj_grants p' = pj_grants p @ (case grant_state (pj_lifecycle p) of None \<Rightarrow> []
        | Some g \<Rightarrow> [closed_grant r (pj_grant_id p) (pj_from p) (je_effective e) g])"
proof -
  let ?st = "tr_state (step_event (pj_lifecycle p) e)"
  from assms(1) have "lifecycle_step (pj_lifecycle p) (je_type e) ?st"
    by (auto simp: project_event_def step_applied split: if_splits)
  then have "pj_lifecycle p' = ?st \<and> open_ok (evs @ [e]) p' \<and>
    pj_grants p' = pj_grants p @ (case grant_state (pj_lifecycle p) of None \<Rightarrow> []
        | Some g \<Rightarrow> [closed_grant r (pj_grant_id p) (pj_from p) (je_effective e) g])"
    by (rule lifecycle_step.cases)
      (use assms in \<open>auto simp: project_event_def open_ok_def grant_state_def Let_def openInterval_def swap_interval_def
          canonical_not_zero bind_eq_Some_conv split: if_splits dest!: closeInterval_Some(1)\<close>)
  then show "pj_lifecycle p' = ?st" "open_ok (evs @ [e]) p'"
    "pj_grants p' = pj_grants p @ (case grant_state (pj_lifecycle p) of None \<Rightarrow> []
        | Some g \<Rightarrow> [closed_grant r (pj_grant_id p) (pj_from p) (je_effective e) g])" by auto
qed

text \<open>
  The closed grants speak for the time before the last event, and say there what the state in force
  says; between a microsecond's ticks they may be silent.
\<close>

definition same_scope :: "claim_scope \<Rightarrow> authorization_record \<Rightarrow> bool" where
  "same_scope c r = (cs_issuer c = ar_issuer r \<and> cs_claim_type c = ar_claim_type r \<and> cs_employer c = ar_subject r)"

definition in_force_before :: "journal \<Rightarrow> instant \<Rightarrow> string \<Rightarrow> bool" where
  "in_force_before evs t g = (evs \<noteq> [] \<and> Before t (je_effective (last evs)) \<and> grant_state (state_at evs t) = Some g)"

definition whole_tick :: "instant \<Rightarrow> bool" where
  "whole_tick t = (ns t mod 1000 = 0)"

definition covers :: "claim_scope \<Rightarrow> journal \<Rightarrow> projection \<Rightarrow> bool" where
  "covers c evs p = (\<forall>t g. (grants_say c t (pj_grants p) g \<longrightarrow> in_force_before evs t g)
     \<and> (whole_tick t \<and> in_force_before evs t g \<longrightarrow> grants_say c t (pj_grants p) g))"

lemma canonical_tick: "canonicalAuthorityTimestamp t \<Longrightarrow> whole_tick t"
  by (simp add: canonicalAuthorityTimestamp_def whole_tick_def mod_mod_cancel)

lemma tick_before: "whole_tick t \<Longrightarrow> whole_tick u \<Longrightarrow> Before t u \<Longrightarrow> ns t \<le> ns u - 1000"
  by (auto simp: whole_tick_def Before_def mod_eq_0_iff_dvd elim!: dvdE)

lemma closed_grant_says:
  assumes "same_scope c r"
  shows "grants_say c t [closed_grant r i from till g] g' \<longleftrightarrow> g' = g \<and> ns from \<le> ns t \<and> ns t \<le> ns till - 1000"
  using assms by (auto simp: closed_grant_def matchesAuthorityScope_def same_scope_def grantCurrent_def
      Before_def After_def microsecond_before_def)

text \<open>What an event adds: the time from the event before it up to its own.\<close>

lemma in_force_snoc:
  assumes "in_order (evs @ [e])"
  shows "in_force_before (evs @ [e]) t g \<longleftrightarrow> in_force_before evs t g \<or>
     (Before t (je_effective e) \<and> (evs \<noteq> [] \<longrightarrow> \<not> Before t (je_effective (last evs))) \<and> grant_state (lifecycle_after evs) = Some g)"
proof -
  have ord: "in_order evs" and le: "evs \<noteq> [] \<Longrightarrow> ns (je_effective (last evs)) \<le> ns (je_effective e)"
    using assms by (auto simp: in_order_def sorted_append)
  have nil: "grant_state (lifecycle_after []) = None" by (simp add: lifecycle_after_def grant_state_def)
  show ?thesis
  proof (cases "evs \<noteq> [] \<and> Before t (je_effective (last evs))")
    case True
    with le have "Before t (je_effective e)" by (auto simp: Before_def)
    with True show ?thesis by (auto simp: in_force_before_def state_at_snoc [OF assms] Before_def After_def)
  next
    case False
    then have "Before t (je_effective e) \<Longrightarrow> state_at (evs @ [e]) t = lifecycle_after evs"
      using state_at_last [OF ord, of t] by (cases "evs = []") (auto simp: state_at_snoc [OF assms] Before_def After_def state_at_def)
    with False show ?thesis by (auto simp: in_force_before_def nil)
  qed
qed

lemma covers_step:
  assumes inv: "covers c evs p" "open_ok evs p" "pj_lifecycle p = lifecycle_after evs"
    and step: "project_event r a e p = Some p'"
    and ord: "in_order (evs @ [e])" and canon: "canonicalAuthorityTimestamp (je_effective e)" and c: "same_scope c r"
  shows "covers c (evs @ [e]) p'"
proof -
  note shape = project_event_shape [OF step inv(2) canon]
  let ?new = "\<lambda>t g. Before t (je_effective e) \<and> (evs \<noteq> [] \<longrightarrow> \<not> Before t (je_effective (last evs)))
      \<and> grant_state (lifecycle_after evs) = Some g"
  have "(grants_say c t (pj_grants p') g \<longrightarrow> in_force_before evs t g \<or> ?new t g)
      \<and> (whole_tick t \<and> (in_force_before evs t g \<or> ?new t g) \<longrightarrow> grants_say c t (pj_grants p') g)" for t g
  proof (cases "grant_state (lifecycle_after evs)")
    case None
    with inv(1,3) shape(3) show ?thesis by (auto simp: covers_def)
  next
    case (Some h)
    with inv(2,3) have opened: "evs \<noteq> []" "pj_from p = je_effective (last evs)" by (auto simp: open_ok_def)
    have say: "grants_say c t (pj_grants p') g \<longleftrightarrow> grants_say c t (pj_grants p) g \<or>
        (g = h \<and> \<not> Before t (je_effective (last evs)) \<and> ns t \<le> ns (je_effective e) - 1000)"
      using Some inv(3) shape(3) opened closed_grant_says [OF c] by (auto simp: Before_def)
    show ?thesis
      using inv(1) Some opened tick_before [OF _ canonical_tick [OF canon], of t]
      unfolding say covers_def by (auto simp: Before_def)
  qed
  then show ?thesis unfolding covers_def in_force_snoc [OF ord] by blast
qed

lemma covers_events:
  "project_events r a es p = Some p' \<Longrightarrow> covers c evs p \<Longrightarrow> open_ok evs p \<Longrightarrow> pj_lifecycle p = lifecycle_after evs \<Longrightarrow>
   in_order (evs @ es) \<Longrightarrow> canonical_events es \<Longrightarrow> same_scope c r \<Longrightarrow>
   covers c (evs @ es) p' \<and> open_ok (evs @ es) p' \<and> pj_lifecycle p' = lifecycle_after (evs @ es)"
proof (induction es arbitrary: evs p)
  case (Cons e es)
  from Cons.prems(1) obtain q where q: "project_event r a e p = Some q" "project_events r a es q = Some p'"
    by (auto simp: bind_eq_Some_conv)
  from Cons.prems(5) have ord: "in_order (evs @ [e])" "in_order ((evs @ [e]) @ es)"
    by (auto simp: in_order_def sorted_append)
  from Cons.prems(6) have canon: "canonicalAuthorityTimestamp (je_effective e)" "canonical_events es"
    by (auto simp: canonical_events_def)
  note shape = project_event_shape [OF q(1) Cons.prems(3) canon(1)]
  have "covers c (evs @ [e]) q" by (rule covers_step [OF Cons.prems(2-4) q(1) ord(1) canon(1) Cons.prems(7)])
  from Cons.IH [OF q(2) this shape(2) _ ord(2) canon(2) Cons.prems(7)] shape(1) Cons.prems(4) show ?case by simp
qed simp

lemma projected_grants_say:
  assumes "covers c evs p" "open_ok evs p" "pj_lifecycle p = lifecycle_after evs" "in_order evs"
    and "project_final r p = Some gs" "same_scope c r"
  shows "grants_say c t gs g \<Longrightarrow> grant_state (state_at evs t) = Some g"
    "whole_tick t \<Longrightarrow> grant_state (state_at evs t) = Some g \<Longrightarrow> grants_say c t gs g"
proof -
  have gs: "gs = pj_grants p @ (if IsZero (pj_from p) then [] else [grant_of r p (pj_from p) None])"
    using assms(5) by (auto simp: project_final_def Let_def split: if_splits)
  have last: "grants_say c t [grant_of r p (pj_from p) None] g \<longleftrightarrow> g = pj_state p \<and> \<not> Before t (pj_from p)"
    using assms(6) by (auto simp: grant_of_def matchesAuthorityScope_def same_scope_def grantCurrent_def)
  have covered: "whole_tick t \<Longrightarrow> in_force_before evs t g \<Longrightarrow> grants_say c t (pj_grants p) g"
    and before: "grants_say c t (pj_grants p) g \<Longrightarrow> in_force_before evs t g"
    using assms(1) unfolding covers_def by blast+
  have late: "evs = [] \<or> \<not> Before t (je_effective (last evs)) \<Longrightarrow> state_at evs t = lifecycle_after evs"
    using state_at_last [OF assms(4), of t] by (cases "evs = []") (auto simp: state_at_def)
  have opened: "\<not> IsZero (pj_from p) \<Longrightarrow> evs \<noteq> [] \<and> pj_from p = je_effective (last evs) \<and> grant_state (lifecycle_after evs) = Some (pj_state p)"
    and shut: "IsZero (pj_from p) \<Longrightarrow> grant_state (lifecycle_after evs) = None"
    using assms(2,3) by (auto simp: open_ok_def split: option.splits)
  show "grants_say c t gs g \<Longrightarrow> grant_state (state_at evs t) = Some g"
    using before opened last late by (auto simp: gs in_force_before_def split: if_splits)
  assume tick: "whole_tick t" and g: "grant_state (state_at evs t) = Some g"
  show "grants_say c t gs g"
  proof (cases "evs = [] \<or> \<not> Before t (je_effective (last evs))")
    case True
    with g late have lc: "grant_state (lifecycle_after evs) = Some g" by simp
    with shut have nz: "\<not> IsZero (pj_from p)" by auto
    with opened lc True last have "grants_say c t [grant_of r p (pj_from p) None] g" by auto
    with nz show ?thesis by (simp add: gs)
  next
    case False
    with g tick covered show ?thesis by (simp add: gs in_force_before_def)
  qed
qed

lemma projection_invariant:
  assumes "appended j" "EffectiveEvents j i c' = Some evs" "project_events r a evs projection_start = Some p" "same_scope c r"
  shows "covers c evs p" "open_ok evs p" "pj_lifecycle p = lifecycle_after evs" "in_order evs"
proof -
  have ord: "in_order evs" using assms(2) history_ok_sorted by (auto simp: EffectiveEvents_def split: if_splits option.splits)
  have canon: "canonical_events evs" using effective_canonical [OF assms(1,2)] by (simp add: canonical_events_def)
  have start: "covers c [] projection_start" "open_ok [] projection_start" "pj_lifecycle projection_start = lifecycle_after []"
    by (simp_all add: covers_def in_force_before_def projection_start_def open_ok_def grant_state_def lifecycle_after_def)
  from covers_events [OF assms(3) start _ canon assms(4)] ord
  show "covers c evs p" "open_ok evs p" "pj_lifecycle p = lifecycle_after evs" "in_order evs" by simp_all
qed

text \<open>
  C19. The grants projected from a journal decide at every instant that is a whole microsecond as the
  lifecycle state in force at that instant: AUTHORIZED while active, UNAUTHORIZED while suspended and
  after a revocation, REVIEW at any other time. At an instant between two microseconds they say that or
  REVIEW, and nothing else: within the microsecond before a change they are silent (lemma
  \<open>review_before_boundary\<close>).
\<close>

theorem projected_grants_follow_history:
  assumes "appended j" "ProjectAuthorityGrants r (Some j) through = Some gs"
    and "EffectiveEvents j (ar_id r) through = Some evs" "same_scope c r"
  shows "(whole_tick t \<longrightarrow> ae_decision (evaluate_authority c gs t) = decision_of (state_at evs t))
     \<and> ae_decision (evaluate_authority c gs t) \<in> {decision_of (state_at evs t), ''REVIEW''}"
proof -
  from assms(2,3) obtain a p where p: "project_events r a evs projection_start = Some p" "project_final r p = Some gs"
    by (auto simp: ProjectAuthorityGrants_def bind_eq_Some_conv split: if_splits option.splits)
  note inv = projection_invariant [OF assms(1,3) p(1) assms(4)]
  note say = projected_grants_say [OF inv p(2) assms(4), of t]
  have only: "grant_state (state_at evs t) = Some g \<Longrightarrow> g = ''active'' \<or> g = ''inactive''" for g
    by (auto simp: grant_state_def split: if_splits)
  show ?thesis
    using say(1) say(2) [of "''active''"] say(2) [of "''inactive''"] only
    by (cases "grant_state (state_at evs t)") (auto simp: evaluate_authority_decision decision_of_def)
qed

text \<open>An authorization submitted, approved, activated and suspended, the suspension then dated a tick later.\<close>

definition demo_event :: "string \<Rightarrow> string \<Rightarrow> int \<Rightarrow> int \<Rightarrow> string \<Rightarrow> journal_event" where
  "demo_event i ty eff rec corrects = \<lparr>je_id = i, je_authorization = ''a1'', je_type = ty,
     je_effective = Instant eff True, je_recorded = Instant rec True, je_actor = ''ann'', je_evidence = ''ev'',
     je_satisfied = True, je_corrects = corrects, je_reason = corrects, je_field = ''EffectiveAt''\<rparr>"

definition demo_journal :: journal where
  "demo_journal = [demo_event ''1'' ''SUBMIT'' 1000 1000 [], demo_event ''2'' ''APPROVE'' 2000 2000 [],
     demo_event ''3'' ''ACTIVATE'' 3000 3000 [], demo_event ''4'' ''SUSPEND'' 6000 6000 [],
     demo_event ''5'' [] 7000 8000 ''4'']"

definition demo_record :: authorization_record where
  "demo_record = \<lparr>ar_id = ''a1'', ar_issuer = ''iss'', ar_subject = ''acme'', ar_claim_type = ''employment'',
     ar_adjudication = Some \<lparr>ad_id = ''d1'', ad_authorization = ''a1'', ad_issuer = ''iss'', ad_subject = ''acme'',
       ad_claim_type = ''employment'', ad_outcome = ''APPROVED'', ad_maker = ''ann'', ad_basis = ''contract'',
       ad_evidence = ''ev'', ad_decided = Instant 1000 True, ad_recorded = Instant 2000 True\<rparr>\<rparr>"

definition demo_scope :: claim_scope where
  "demo_scope = \<lparr>cs_issuer = ''iss'', cs_claim_type = ''employment'', cs_employer = ''acme''\<rparr>"

definition demo_events :: journal where
  "demo_events = [demo_event ''1'' ''SUBMIT'' 1000 1000 [], demo_event ''2'' ''APPROVE'' 2000 2000 [],
     demo_event ''3'' ''ACTIVATE'' 3000 3000 [], demo_event ''4'' ''SUSPEND'' 7000 6000 []]"

lemma demo_appended: "appended demo_journal"
proof -
  have steps: "Append (take 0 demo_journal) (demo_journal ! 0) = Some (take 1 demo_journal)"
    "Append (take 1 demo_journal) (demo_journal ! 1) = Some (take 2 demo_journal)"
    "Append (take 2 demo_journal) (demo_journal ! 2) = Some (take 3 demo_journal)"
    "Append (take 3 demo_journal) (demo_journal ! 3) = Some (take 4 demo_journal)"
    "Append (take 4 demo_journal) (demo_journal ! 4) = Some demo_journal" by code_simp+
  have "appended (take 0 demo_journal)" by (simp add: appended.empty)
  from appended.event [OF appended.event [OF appended.event [OF appended.event [OF appended.event
    [OF this steps(1)] steps(2)] steps(3)] steps(4)] steps(5)]
  show ?thesis .
qed

lemma demo_effective: "EffectiveEvents demo_journal (ar_id demo_record) (Instant 9000 True) = Some demo_events"
  by code_simp

theorem projected_grants_follow_history_witness:
  "\<exists>gs. ProjectAuthorityGrants demo_record (Some demo_journal) (Instant 9000 True) = Some gs
     \<and> ae_decision (evaluate_authority demo_scope gs (Instant 2000 True)) = ''REVIEW''
     \<and> ae_decision (evaluate_authority demo_scope gs (Instant 6000 True)) = ''AUTHORIZED''
     \<and> ae_decision (evaluate_authority demo_scope gs (Instant 8000 True)) = ''UNAUTHORIZED''"
proof -
  have "ProjectAuthorityGrants demo_record (Some demo_journal) (Instant 9000 True) \<noteq> None" by code_simp
  then obtain gs where gs: "ProjectAuthorityGrants demo_record (Some demo_journal) (Instant 9000 True) = Some gs" by blast
  have scope: "same_scope demo_scope demo_record" by code_simp
  have at: "decision_of (state_at demo_events (Instant 2000 True)) = ''REVIEW''"
    "decision_of (state_at demo_events (Instant 6000 True)) = ''AUTHORIZED''"
    "decision_of (state_at demo_events (Instant 8000 True)) = ''UNAUTHORIZED''" by code_simp+
  note follow = projected_grants_follow_history [OF demo_appended gs demo_effective scope]
  show ?thesis
    using gs at follow [of "Instant 2000 True"] follow [of "Instant 6000 True"] follow [of "Instant 8000 True"]
    by (auto simp: whole_tick_def)
qed

text \<open>
  A grant ends a microsecond before the event that closes it: in between the authorization is active
  and the grants are silent.
\<close>

lemma review_before_boundary:
  "map_option (\<lambda>gs. ae_decision (evaluate_authority demo_scope gs (Instant 6500 True)))
       (ProjectAuthorityGrants demo_record (Some demo_journal) (Instant 9000 True)) = Some ''REVIEW''
   \<and> decision_of (state_at demo_events (Instant 6500 True)) = ''AUTHORIZED''"
  by code_simp

end
