(* ===== verification/DecisionSafety.thy ===== *)
theory DecisionSafety
  imports Decision AuthoritySafety
begin

text \<open>
  Properties of the server's decision: what VERIFIED, REVIEW and REJECTED mean, from the journals of
  a registry snapshot up to the decision; and what the client's gate makes of the outcomes the
  server really sends.
\<close>

section \<open>The policy\<close>

text \<open>A value that is not \<open>valid\<close> contributes one reason, named after its dimension.\<close>

definition finding_of :: "string \<times> string \<Rightarrow> string option" where
  "finding_of d = (case d of (name, res) \<Rightarrow>
     if res = ''valid'' then None
     else Some (name @ (if res = ''invalid'' then ''_INVALID'' else if res = ''unknown'' then ''_UNKNOWN'' else ''_UNRECOGNIZED'')))"

definition dimensions :: "evidence \<Rightarrow> (string \<times> string) list" where
  "dimensions ev = [(''SIGNATURE'', ev_signature ev), (''VALIDITY'', ev_validity ev), (''STATUS'', ev_status ev),
     (''SUBJECT_BINDING'', ev_subject ev)]"

definition authority_finding :: "string \<Rightarrow> string option" where
  "authority_finding d = (if d = ''AUTHORIZED'' then None
     else Some (if d = ''UNAUTHORIZED'' then ''ISSUER_UNAUTHORIZED''
                else if d = ''REVIEW'' then ''AUTHORITY_REVIEW'' else ''AUTHORITY_UNRECOGNIZED''))"

definition fully_positive :: "evidence \<Rightarrow> bool" where
  "fully_positive ev = (\<forall>d \<in> set (dimensions ev). snd d = ''valid'')"

definition some_negative :: "evidence \<Rightarrow> bool" where
  "some_negative ev = (\<exists>d \<in> set (dimensions ev). snd d = ''invalid'')"

lemma classify_tally:
  "classifyEvidence res i u x acc = acc\<lparr>
     tl_reasons := tl_reasons acc @ (if res = ''valid'' then [] else [if res = ''invalid'' then i else if res = ''unknown'' then u else x]),
     tl_negative := (tl_negative acc \<or> res = ''invalid''),
     tl_indeterminate := (tl_indeterminate acc \<or> (res \<noteq> ''valid'' \<and> res \<noteq> ''invalid''))\<rparr>"
  by (simp add: classifyEvidence_def)

lemma classify_authority_tally:
  "classify_authority d acc = acc\<lparr>
     tl_reasons := tl_reasons acc @ (case authority_finding d of None \<Rightarrow> [] | Some x \<Rightarrow> [x]),
     tl_negative := (tl_negative acc \<or> d = ''UNAUTHORIZED''),
     tl_indeterminate := (tl_indeterminate acc \<or> (d \<noteq> ''AUTHORIZED'' \<and> d \<noteq> ''UNAUTHORIZED''))\<rparr>"
  by (simp add: classify_authority_def authority_finding_def)

lemma decision_of_evidence_core:
  "ve_decision (Evaluate ev au policy) =
     (if fully_positive ev \<and> ae_decision au = ''AUTHORIZED'' then ''VERIFIED''
      else if some_negative ev \<or> ae_decision au = ''UNAUTHORIZED'' then ''REJECTED'' else ''REVIEW'')"
  by (simp add: Evaluate_def Let_def classify_tally classify_authority_tally dimensions_def fully_positive_def some_negative_def)

text \<open>
  The verifier policy: VERIFIED exactly when every dimension is positive, REJECTED exactly when
  some dimension is negative, whatever else is unknown, and REVIEW otherwise; the reasons are the
  findings of the five dimensions in their fixed order, and there is none exactly for VERIFIED.
\<close>

lemma decision_of_evidence:
  "ve_decision (Evaluate ev au policy) =
     (if fully_positive ev \<and> ae_decision au = ''AUTHORIZED'' then ''VERIFIED''
      else if some_negative ev \<or> ae_decision au = ''UNAUTHORIZED'' then ''REJECTED'' else ''REVIEW'')
   \<and> ve_reasons (Evaluate ev au policy) =
       List.map_filter finding_of (dimensions ev) @ List.map_filter authority_finding [ae_decision au]
   \<and> (ve_reasons (Evaluate ev au policy) = [] \<longleftrightarrow> ve_decision (Evaluate ev au policy) = ''VERIFIED'')"
proof -
  have reasons: "ve_reasons (Evaluate ev au policy) =
      List.map_filter finding_of (dimensions ev) @ List.map_filter authority_finding [ae_decision au]"
    by (simp add: Evaluate_def Let_def classify_tally classify_authority_tally dimensions_def finding_of_def
        map_filter_simps split: option.split)
  have none: "ve_reasons (Evaluate ev au policy) = [] \<longleftrightarrow> fully_positive ev \<and> ae_decision au = ''AUTHORIZED''"
    unfolding reasons by (auto simp: dimensions_def finding_of_def authority_finding_def fully_positive_def map_filter_simps)
  from decision_of_evidence_core [of ev au policy] reasons none show ?thesis by simp
qed

section \<open>From the journals to the decision\<close>

text \<open>Every grant projected from a record is about the record's issuer, claim type and subject.\<close>

definition about :: "authorization_record \<Rightarrow> authority_grant \<Rightarrow> bool" where
  "about r g = (ag_issuer g = ar_issuer r \<and> ag_claim_type g = ar_claim_type r \<and> ag_subject g = ar_subject r)"

lemma about_project_event:
  "project_event r a e p = Some p' \<Longrightarrow> list_all (about r) (pj_grants p) \<Longrightarrow> list_all (about r) (pj_grants p')"
  by (auto simp: project_event_def Let_def openInterval_def swap_interval_def bind_eq_Some_conv about_def closed_grant_def
      split: if_splits dest!: closeInterval_Some(1))

lemma about_project_events:
  "project_events r a es p = Some p' \<Longrightarrow> list_all (about r) (pj_grants p) \<Longrightarrow> list_all (about r) (pj_grants p')"
  by (induction es arbitrary: p) (auto simp: bind_eq_Some_conv intro: about_project_event)

lemma about_projected: "ProjectAuthorityGrants r (Some j) through = Some gs \<Longrightarrow> list_all (about r) gs"
  by (auto simp: ProjectAuthorityGrants_def bind_eq_Some_conv project_final_def Let_def grant_of_def about_def projection_start_def
      split: if_splits option.splits dest!: about_project_events)

lemma other_scope_silent:
  "list_all (about r) gs \<Longrightarrow> \<not> same_scope c r \<Longrightarrow> \<not> grants_say c t gs st"
  by (auto simp: grants_say_def list_all_iff about_def same_scope_def matchesAuthorityScope_def)

text \<open>What a snapshot says of a claim at an instant: the state of some authorization in its scope.\<close>

definition in_force :: "snapshot \<Rightarrow> claim_scope \<Rightarrow> instant \<Rightarrow> string \<Rightarrow> bool" where
  "in_force sn c t st = (\<exists>(r, j) \<in> set (sn_entries sn). same_scope c r
     \<and> (\<exists>evs. EffectiveEvents j (ar_id r) (sn_through sn) = Some evs \<and> state_at evs t = st))"

definition grants_of :: "instant \<Rightarrow> authorization_record \<times> journal \<Rightarrow> authority_grant list option" where
  "grants_of through x = (case x of (r, j) \<Rightarrow> ProjectAuthorityGrants r (Some j) through)"

lemma project_entries_concat:
  "project_entries through es seen gs = Some hs \<Longrightarrow>
   \<exists>gss. map (grants_of through) es = map Some gss \<and> hs = gs @ concat gss"
proof (induction es arbitrary: seen gs)
  case (Cons x es)
  obtain r j where x: "x = (r, j)" by fastforce
  from Cons.prems obtain ps where ps: "ProjectAuthorityGrants r (Some j) through = Some ps"
    and rest: "project_entries through es (ar_id r # seen) (gs @ ps) = Some hs"
    by (auto simp: x split: if_splits option.splits)
  from Cons.IH [OF rest] obtain gss where "map (grants_of through) es = map Some gss" "hs = gs @ ps @ concat gss" by auto
  moreover have "grants_of through x = Some ps" using ps by (simp add: x grants_of_def)
  ultimately show ?case by (intro exI [of _ "ps # gss"]) simp
qed simp

lemma snapshot_grants:
  assumes "NewSnapshotAuthorityResolver sn = Some gs"
  shows "\<exists>gss. grants_of (sn_through sn) ` set (sn_entries sn) = Some ` set gss \<and> gs = concat gss"
proof (cases "sn_entries sn = []")
  case False
  with assms have "project_entries (sn_through sn) (sn_entries sn) [] [] = Some gs"
    by (simp add: NewSnapshotAuthorityResolver_def split: if_splits)
  from project_entries_concat [OF this] obtain gss where
    gss: "map (grants_of (sn_through sn)) (sn_entries sn) = map Some gss" "gs = concat gss" by auto
  have "grants_of (sn_through sn) ` set (sn_entries sn) = Some ` set gss"
    using gss(1) by (metis list.set_map)
  with gss(2) show ?thesis by blast
next
  case True
  with assms show ?thesis by (intro exI [of _ "[]"]) (simp add: NewSnapshotAuthorityResolver_def split: if_splits)
qed

lemma snapshot_entry:
  assumes "NewSnapshotAuthorityResolver sn = Some gs" "x \<in> set (sn_entries sn)"
  obtains ps where "grants_of (sn_through sn) x = Some ps"
  using snapshot_grants [OF assms(1)] assms(2) by (metis (no_types, lifting) image_iff)

lemma snapshot_grants_say:
  assumes "NewSnapshotAuthorityResolver sn = Some gs"
  shows "grants_say c t gs st \<longleftrightarrow>
    (\<exists>x \<in> set (sn_entries sn). \<exists>ps. grants_of (sn_through sn) x = Some ps \<and> grants_say c t ps st)"
proof -
  obtain gss where gss: "grants_of (sn_through sn) ` set (sn_entries sn) = Some ` set gss" "gs = concat gss"
    using snapshot_grants [OF assms] by blast
  have "(\<exists>x \<in> set (sn_entries sn). \<exists>ps. grants_of (sn_through sn) x = Some ps \<and> grants_say c t ps st)
      \<longleftrightarrow> (\<exists>ps \<in> set gss. grants_say c t ps st)"
    using gss(1) by (metis (no_types, lifting) image_iff option.inject)
  then show ?thesis by (auto simp: gss(2) grants_say_def)
qed

lemma entry_grants_say:
  assumes "appended j" "ProjectAuthorityGrants r (Some j) through = Some ps"
  shows "grants_say c t ps g \<Longrightarrow> same_scope c r \<and> (\<exists>evs. EffectiveEvents j (ar_id r) through = Some evs \<and> grant_state (state_at evs t) = Some g)"
    and "whole_tick t \<Longrightarrow> same_scope c r \<Longrightarrow> EffectiveEvents j (ar_id r) through = Some evs \<Longrightarrow>
      grant_state (state_at evs t) = Some g \<Longrightarrow> grants_say c t ps g"
proof -
  from assms(2) obtain a evs0 p where evs0: "EffectiveEvents j (ar_id r) through = Some evs0"
    and p: "project_events r a evs0 projection_start = Some p" "project_final r p = Some ps"
    by (auto simp: ProjectAuthorityGrants_def bind_eq_Some_conv split: if_splits option.splits)
  have say: "same_scope c r \<Longrightarrow> grants_say c t ps g \<Longrightarrow> grant_state (state_at evs0 t) = Some g"
    "same_scope c r \<Longrightarrow> whole_tick t \<Longrightarrow> grant_state (state_at evs0 t) = Some g \<Longrightarrow> grants_say c t ps g"
    using projected_grants_say [OF projection_invariant [OF assms(1) evs0 p(1)] p(2)] by blast+
  show "grants_say c t ps g \<Longrightarrow> same_scope c r \<and> (\<exists>evs. EffectiveEvents j (ar_id r) through = Some evs \<and> grant_state (state_at evs t) = Some g)"
    using say(1) evs0 other_scope_silent [OF about_projected [OF assms(2)]] by blast
  show "whole_tick t \<Longrightarrow> same_scope c r \<Longrightarrow> EffectiveEvents j (ar_id r) through = Some evs \<Longrightarrow>
      grant_state (state_at evs t) = Some g \<Longrightarrow> grants_say c t ps g"
    using say(2) evs0 by auto
qed

lemma grant_state_iff:
  "grant_state st = Some ''active'' \<longleftrightarrow> st = ''ACTIVE''" "grant_state st = Some ''inactive'' \<longleftrightarrow> st = ''SUSPENDED'' \<or> st = ''REVOKED''"
  by (simp_all add: grant_state_def)

lemma snapshot_says:
  assumes "NewSnapshotAuthorityResolver sn = Some gs" "\<forall>(r, j) \<in> set (sn_entries sn). appended j"
  shows "grants_say c t gs g \<Longrightarrow> \<exists>st. in_force sn c t st \<and> grant_state st = Some g"
    and "whole_tick t \<Longrightarrow> in_force sn c t st \<Longrightarrow> grant_state st = Some g \<Longrightarrow> grants_say c t gs g"
proof -
  show "grants_say c t gs g \<Longrightarrow> \<exists>st. in_force sn c t st \<and> grant_state st = Some g"
    unfolding snapshot_grants_say [OF assms(1)] in_force_def
    using assms(2) by (fastforce simp: grants_of_def dest: entry_grants_say(1))
  assume tick: "whole_tick t" and "in_force sn c t st" and g: "grant_state st = Some g"
  then obtain r j evs where x: "(r, j) \<in> set (sn_entries sn)" "same_scope c r"
    "EffectiveEvents j (ar_id r) (sn_through sn) = Some evs" "state_at evs t = st" by (auto simp: in_force_def)
  obtain ps where ps: "grants_of (sn_through sn) (r, j) = Some ps" by (rule snapshot_entry [OF assms(1) x(1)])
  then have "grants_say c t ps g"
    using entry_grants_say(2) [OF _ _ tick x(2,3)] assms(2) x g by (auto simp: grants_of_def)
  with ps x(1) show "grants_say c t gs g" unfolding snapshot_grants_say [OF assms(1)] by blast
qed

lemma snapshot_says_iff:
  assumes "NewSnapshotAuthorityResolver sn = Some gs" "\<forall>(r, j) \<in> set (sn_entries sn). appended j" "whole_tick t"
  shows "grants_say c t gs ''active'' \<longleftrightarrow> in_force sn c t ''ACTIVE''"
    "grants_say c t gs ''inactive'' \<longleftrightarrow> in_force sn c t ''SUSPENDED'' \<or> in_force sn c t ''REVOKED''"
proof -
  note says = snapshot_says(1) [OF assms(1,2)] and said = snapshot_says(2) [OF assms(1,2,3)]
  show "grants_say c t gs ''active'' \<longleftrightarrow> in_force sn c t ''ACTIVE''"
    using says [of c t "''active''"] said [of c "''ACTIVE''" "''active''"] by (auto simp: grant_state_iff)
  show "grants_say c t gs ''inactive'' \<longleftrightarrow> in_force sn c t ''SUSPENDED'' \<or> in_force sn c t ''REVOKED''"
    using says [of c t "''inactive''"] said [of c "''SUSPENDED''" "''inactive''"] said [of c "''REVOKED''" "''inactive''"]
    by (auto simp: grant_state_iff)
qed

lemma resolved_say:
  "grants_say (scope_of ev) t (filter (\<lambda>g. ag_issuer g = ev_issuer ev \<and> ag_claim_type g = ev_claim_type ev) gs) st
     \<longleftrightarrow> grants_say (scope_of ev) t gs st"
  by (auto simp: grants_say_def matchesAuthorityScope_def scope_of_def)

abbreviation server_decision :: "authority_grant list \<Rightarrow> evidence \<Rightarrow> string \<Rightarrow> instant \<Rightarrow> string" where
  "server_decision gs ev policy t \<equiv> ve_decision (snd (service_evaluate (ResolveAuthorityGrants (Some gs) False) ev policy t))"

lemma server_decision_says:
  "server_decision gs ev policy t =
     (if fully_positive ev \<and> grants_say (scope_of ev) t gs ''active'' then ''VERIFIED''
      else if some_negative ev \<or> (\<not> grants_say (scope_of ev) t gs ''active'' \<and> grants_say (scope_of ev) t gs ''inactive'')
      then ''REJECTED'' else ''REVIEW'')"
  by (simp add: service_evaluate_def Let_def ResolveAuthorityGrants_def decision_of_evidence_core evaluate_authority_decision resolved_say)

text \<open>
  C10. From the journals of a registry snapshot to the decision. At a whole microsecond a credential is
  VERIFIED exactly when all its evidence is positive and an authorization of its issuer, for its claim
  type and employer, is active at that instant; REJECTED when some evidence is negative or, with
  none active, one is suspended or revoked; REVIEW otherwise. Between two microseconds VERIFIED
  still means that such an authorization is active.
\<close>

theorem verified_by_snapshot:
  assumes "NewSnapshotAuthorityResolver sn = Some gs" "\<forall>(r, j) \<in> set (sn_entries sn). appended j"
  shows "(whole_tick t \<longrightarrow> server_decision gs ev policy t =
       (if fully_positive ev \<and> in_force sn (scope_of ev) t ''ACTIVE'' then ''VERIFIED''
        else if some_negative ev \<or> (\<not> in_force sn (scope_of ev) t ''ACTIVE''
            \<and> (in_force sn (scope_of ev) t ''SUSPENDED'' \<or> in_force sn (scope_of ev) t ''REVOKED''))
        then ''REJECTED'' else ''REVIEW''))
     \<and> (server_decision gs ev policy t = ''VERIFIED'' \<longrightarrow> fully_positive ev \<and> in_force sn (scope_of ev) t ''ACTIVE'')"
  using snapshot_says_iff [OF assms, of t "scope_of ev"] snapshot_says(1) [OF assms, of "scope_of ev" t "''active''"]
  unfolding server_decision_says by (auto simp: grant_state_iff)

definition demo_snapshot :: snapshot where
  "demo_snapshot = \<lparr>sn_complete = True, sn_through = Instant 9000 True, sn_entries = [(demo_record, demo_journal)]\<rparr>"

definition demo_evidence :: evidence where
  "demo_evidence = \<lparr>ev_claim_type = ''employment'', ev_employer = ''acme'', ev_issuer = ''iss'', ev_key = ''valid'',
     ev_signature = ''valid'', ev_validity = ''valid'', ev_status = ''valid'', ev_subject = ''valid'', ev_errors = []\<rparr>"

theorem verified_by_snapshot_witness:
  "\<exists>gs. NewSnapshotAuthorityResolver demo_snapshot = Some gs
     \<and> server_decision gs demo_evidence ''p'' (Instant 6000 True) = ''VERIFIED''
     \<and> server_decision gs demo_evidence ''p'' (Instant 8000 True) = ''REJECTED''"
proof -
  have "NewSnapshotAuthorityResolver demo_snapshot \<noteq> None" by code_simp
  then obtain gs where gs: "NewSnapshotAuthorityResolver demo_snapshot = Some gs" by blast
  have built: "\<forall>(r, j) \<in> set (sn_entries demo_snapshot). appended j"
    by (simp add: demo_snapshot_def demo_appended)
  have scope: "same_scope (scope_of demo_evidence) demo_record" by code_simp
  have force: "in_force demo_snapshot (scope_of demo_evidence) t st \<longleftrightarrow> state_at demo_events t = st" for t st
    using scope demo_effective by (simp add: in_force_def demo_snapshot_def)
  have at: "state_at demo_events (Instant 6000 True) = ''ACTIVE''" "state_at demo_events (Instant 8000 True) = ''SUSPENDED''"
    by code_simp+
  have ev: "fully_positive demo_evidence" "\<not> some_negative demo_evidence"
    by (simp_all add: fully_positive_def some_negative_def dimensions_def demo_evidence_def)
  note decided = verified_by_snapshot [OF gs built, of _ demo_evidence "''p''"]
  show ?thesis
    using gs decided [of "Instant 6000 True"] decided [of "Instant 8000 True"] by (simp add: force at ev whole_tick_def)
qed

section \<open>The outcome at the client's gate\<close>

text \<open>The client's gate over what the server derives from evidence: every state of it is a lock.\<close>

definition evidence_lock :: "evidence \<Rightarrow> gate_state" where
  "evidence_lock ev =
     (if ev_signature ev = ''invalid'' then LOCK_BAD_SIGNATURE
      else if ev_signature ev \<noteq> ''valid'' then LOCK_UNKNOWN
      else if ev_status ev = ''invalid'' then LOCK_REVOKED
      else if ev_validity ev = ''invalid'' then LOCK_NOT_VALID_NOW
      else LOCK_UNKNOWN)"

lemma server_outcome_get [simp]:
  "jget (server_outcome_js out) ''signature'' = JStr (so_signature out)"
  "jget (server_outcome_js out) ''trust'' = JStr (so_trust out)"
  "jget (jget (server_outcome_js out) ''checks'') ''revocation'' = JStr (so_revocation out)"
  "jget (jget (server_outcome_js out) ''checks'') ''validity_window'' = JStr (so_window out)"
  "truthy (server_outcome_js out)"
  "\<not> nullish (server_outcome_js out)"
  by (auto simp: server_outcome_js_def nullish_def split: option.split)

lemma gate_of_unknown_trust:
  "so_trust out = ''unknown'' \<Longrightarrow> gateStateFromOutcome (server_outcome_js out) = Inr
     (if so_signature out = ''invalid'' then LOCK_BAD_SIGNATURE
      else if so_signature out = ''unknown'' then LOCK_UNKNOWN
      else if so_revocation out = ''revoked'' then LOCK_REVOKED
      else if so_window out = ''not_valid_now'' then LOCK_NOT_VALID_NOW else LOCK_UNKNOWN)"
  by (simp add: gateStateFromOutcome_def Let_def nullish_or_def nullish_def)

lemma outcome_of_evidence [simp]:
  "so_signature (mapEvidenceToVerificationOutcome ev) = mapSignatureEvidence (ev_signature ev)"
  "so_trust (mapEvidenceToVerificationOutcome ev) = ''unknown''"
  "so_window (mapEvidenceToVerificationOutcome ev) = mapValidityEvidence (ev_validity ev)"
  "so_revocation (mapEvidenceToVerificationOutcome ev) = mapStatusEvidence (ev_status ev)"
  by (simp_all add: mapEvidenceToVerificationOutcome_def newVerificationOutcome_def split: prod.split)

lemma gate_of_evidence:
  "gateStateFromOutcome (server_outcome_js (mapEvidenceToVerificationOutcome ev)) = Inr (evidence_lock ev)"
  by (simp add: gate_of_unknown_trust evidence_lock_def mapSignatureEvidence_def mapValidityEvidence_def mapStatusEvidence_def)

definition credential_lock :: "(string \<Rightarrow> evidence option) \<Rightarrow> string \<Rightarrow> gate_state" where
  "credential_lock profile raw = (if looksLikeSDJWTVC raw then
     (case profile raw of None \<Rightarrow> LOCK_UNKNOWN | Some ev \<Rightarrow> evidence_lock ev) else LOCK_UNKNOWN)"

lemma gate_of_credential:
  "gateStateFromOutcome (server_outcome_js (verifyCredentialOutcome profile raw)) = Inr (credential_lock profile raw)"
proof -
  have plain: "gateStateFromOutcome (server_outcome_js (newVerificationOutcome ''unknown'' ''unknown'' c m ''unknown'' ''unknown'')) = Inr LOCK_UNKNOWN" for c m
    by (subst gate_of_unknown_trust) (simp_all add: newVerificationOutcome_def)
  show ?thesis
    by (simp add: verifyCredentialOutcome_def verifySDJWTVCOutcome_def credential_lock_def plain gate_of_evidence split: option.split)
qed

text \<open>The endpoint behind the authentication of \<open>internal/auth/gin.go\<close>, which may refuse the token.\<close>

definition outcome_endpoint :: "(request \<Rightarrow> string option) \<Rightarrow> (string \<Rightarrow> evidence option) \<Rightarrow> bool \<Rightarrow> request \<Rightarrow> response" where
  "outcome_endpoint refused profile too_large rq = (case refused rq of
      Some code \<Rightarrow> writeErr 401 code | None \<Rightarrow> HandleVerificationOutcome profile too_large rq)"

lemma unknown_outcome_locked: "gateStateFromOutcome (unknown_outcome m c) = Inr LOCK_UNKNOWN"
  by (simp add: unknown_outcome_def gateStateFromOutcome_def)

lemma endpoint_answer:
  "outcome_endpoint refused profile too_large (outcome_request base jws) = r \<Longrightarrow>
   (\<not> rs_ok r \<or> rs_json r = Some (server_outcome_js (verifyCredentialOutcome profile (TrimSpace jws))))"
  by (auto simp: outcome_endpoint_def HandleVerificationOutcome_def outcome_request_def decode_verify_request_def
      writeErr_def json_answer_def rs_ok_def Let_def split: option.splits)

text \<open>
  C13. Client and server together: whatever the credential, the profile's verdict on it, the token and
  the network, an outcome the client gets is a lock of its gate, that of the evidence or, when the
  server did not come to an answer, LOCK_UNKNOWN. No outcome this server sends opens the gate.
\<close>

theorem server_outcome_keeps_gate_locked:
  assumes "\<forall>t. w t (Fetch (outcome_request base jws)) \<in> insert (RResp (outcome_endpoint refused profile too_large (outcome_request base jws))) (range RFail)"
    and "run w (verifyOutcomeFromJws base jws) s t = (Inr out, s', t')"
  shows "gateStateFromOutcome out \<in> {Inr LOCK_UNKNOWN, Inr (credential_lock profile (TrimSpace jws))}
    \<and> credential_lock profile (TrimSpace jws) \<noteq> ALLOW \<and> s' = s"
proof -
  have lock: "credential_lock profile (TrimSpace jws) \<noteq> ALLOW"
    by (simp add: credential_lock_def evidence_lock_def split: option.split)
  let ?r = "outcome_endpoint refused profile too_large (outcome_request base jws)"
  have "wp w (verifyOutcomeFromJws base jws) (\<lambda>out s' _. s' = s
      \<and> gateStateFromOutcome out \<in> {Inr LOCK_UNKNOWN, Inr (credential_lock profile (TrimSpace jws))}) (\<lambda>_ _ _. True) s t"
    using assms(1) [THEN spec, of t] endpoint_answer [of refused profile too_large base jws ?r, OF refl]
    by (auto simp: verifyOutcomeFromJws_def verifyOutcomeOnServer_def fetch_def wp_rules unknown_outcome_locked
        gate_of_credential prop_of_def res_json_def)
  with assms(2) lock show ?thesis by (simp add: wp_def)
qed

theorem server_outcome_keeps_gate_locked_witness:
  "\<exists>out s' t'. run (\<lambda>_ _. RResp (outcome_endpoint (\<lambda>_. None) (\<lambda>_. Some demo_evidence) False (outcome_request ''https://api'' ''a~b'')))
     (verifyOutcomeFromJws ''https://api'' ''a~b'') () [] = (Inr out, s', t')
     \<and> jget out ''signature'' = JStr ''verified'' \<and> gateStateFromOutcome out = Inr LOCK_UNKNOWN"
proof -
  let ?r = "outcome_endpoint (\<lambda>_. None) (\<lambda>_. Some demo_evidence) False (outcome_request ''https://api'' ''a~b'')"
  let ?w = "\<lambda>_ _. RResp ?r"
  let ?out = "server_outcome_js (mapEvidenceToVerificationOutcome demo_evidence)"
  have r: "rs_json ?r = Some ?out" "rs_ok ?r" by code_simp+
  have run: "run ?w (verifyOutcomeFromJws ''https://api'' ''a~b'') () []
      = (Inr ?out, (), [Fetch (outcome_request ''https://api'' ''a~b'')])"
    using r by (simp add: verifyOutcomeFromJws_def verifyOutcomeOnServer_def fetch_def run_bind seq_def res_json_def prop_of_def)
  have "gateStateFromOutcome ?out \<in> {Inr LOCK_UNKNOWN, Inr (credential_lock (\<lambda>_. Some demo_evidence) (TrimSpace ''a~b''))}"
    using server_outcome_keeps_gate_locked [OF _ run, of "\<lambda>_. None" "\<lambda>_. Some demo_evidence" False] by simp
  moreover have "credential_lock (\<lambda>_. Some demo_evidence) (TrimSpace ''a~b'') = LOCK_UNKNOWN" by code_simp
  moreover have "jget ?out ''signature'' = JStr ''verified''" by code_simp
  ultimately show ?thesis using run by auto
qed

end
