(* ===== verification/RequestStore.thy ===== *)
theory RequestStore
  imports Decision
begin

text \<open>
  The server's store of employment requests: the tables \<open>internal/evt/repo.go\<close> reads and writes, the
  statements of its operations, and \<open>WithTx\<close> of \<open>internal/db/db.go\<close> around them. A table is the list
  of its rows and an \<open>UPDATE ... WHERE\<close> maps over it. What PostgreSQL knows and the repository does
  not say is the record \<open>pg\<close>; the columns that only hold the time of a transition are left out.
\<close>

section \<open>Tables\<close>

record evt_request =
  er_id :: string
  er_candidate :: string
  er_employer :: string
  er_status :: string
  er_claim :: jsval
  er_created :: int
  er_updated :: int
  er_version :: int
  er_response_type :: "string option"
  er_response :: "jsval option"
  er_jws :: "string option"
  er_trust_result :: "string option"
  er_token :: "string option"

record evt_event =
  ee_request :: string
  ee_role :: string
  ee_person :: "string option"
  ee_type :: string
  ee_from :: "string option"
  ee_to :: string

record consumption =
  co_request :: string
  co_recruiter :: string
  co_agent :: string
  co_ip :: string

record assignment =
  as_id :: string
  as_principal :: string
  as_employer :: string
  as_revoked :: bool

text \<open>
  \<open>evt_config\<close> maps an employer to its dispatch mode, \<open>domain_users\<close> a user to status and role, and
  \<open>trusted_issuers\<close> holds a recruiter, an issuer and the trust level between them.
\<close>

record store =
  evt_requests :: "evt_request list"
  evt_events :: "evt_event list"
  evt_config :: "(string \<times> string) list"
  consumptions :: "consumption list"
  domain_users :: "(string \<times> string \<times> string) list"
  assignments :: "assignment list"
  trusted_issuers :: "(string \<times> string \<times> string) list"

text \<open>
  What is read off PostgreSQL and Go's libraries: the canonical form of a text that is a UUID, the
  labels of the trust results, what the table's update trigger makes of \<open>updated_at\<close>, what the
  insertion takes as the current time, and the texts of times.
\<close>

record pg =
  pg_uuid :: "string \<Rightarrow> string option"
  pg_trust_label :: "string \<Rightarrow> bool"
  pg_stamp :: "evt_request \<Rightarrow> int"
  pg_time :: int
  pg_format :: "int \<Rightarrow> string"

section \<open>Transactions\<close>

datatype db_error = ErrNotFound | ErrConflict | ErrOther

type_synonym 'a tx = "store \<Rightarrow> (db_error + 'a) \<times> store"

definition tx_return :: "'a \<Rightarrow> 'a tx" where
  "tx_return a = (\<lambda>st. (Inr a, st))"

definition tx_fail :: "db_error \<Rightarrow> 'a tx" where
  "tx_fail e = (\<lambda>st. (Inl e, st))"

definition tx_bind :: "'a tx \<Rightarrow> ('a \<Rightarrow> 'b tx) \<Rightarrow> 'b tx" where
  "tx_bind p f = (\<lambda>st. case p st of (Inl e, st') \<Rightarrow> (Inl e, st') | (Inr a, st') \<Rightarrow> f a st')"

definition tx_read :: "(store \<Rightarrow> 'a) \<Rightarrow> 'a tx" where
  "tx_read f = (\<lambda>st. (Inr (f st), st))"

definition tx_write :: "(store \<Rightarrow> store) \<Rightarrow> unit tx" where
  "tx_write f = (\<lambda>st. (Inr (), f st))"

definition tx_some :: "db_error \<Rightarrow> 'a option \<Rightarrow> 'a tx" where
  "tx_some e x = (case x of None \<Rightarrow> tx_fail e | Some a \<Rightarrow> tx_return a)"

definition tx_guard :: "db_error \<Rightarrow> bool \<Rightarrow> unit tx" where
  "tx_guard e b = (if b then tx_return () else tx_fail e)"

text \<open>
  A transaction commits what a function that succeeded has written, and nothing else. A statement the
  database fails to carry out, an ignored one too, makes the commit fail: with \<open>fault\<close> one of them
  or the commit itself did.
\<close>

definition WithTx :: "bool \<Rightarrow> 'a tx \<Rightarrow> 'a tx" where
  "WithTx fault f = (\<lambda>st. if fault then (Inl ErrOther, st)
     else case f st of (Inl e, st') \<Rightarrow> (Inl e, st) | (Inr a, st') \<Rightarrow> (Inr a, st'))"

section \<open>Statements\<close>

definition select_request :: "(evt_request \<Rightarrow> bool) \<Rightarrow> evt_request option tx" where
  "select_request P = tx_read (\<lambda>st. find P (evt_requests st))"

definition update_requests :: "pg \<Rightarrow> (evt_request \<Rightarrow> bool) \<Rightarrow> (evt_request \<Rightarrow> evt_request) \<Rightarrow> unit tx" where
  "update_requests d P f = tx_write (\<lambda>st. st\<lparr>evt_requests :=
     map (\<lambda>r. if P r then (let r' = (f r)\<lparr>er_version := er_version r + 1\<rparr> in r'\<lparr>er_updated := pg_stamp d r'\<rparr>) else r)
       (evt_requests st)\<rparr>)"

definition insertEvent :: "string \<Rightarrow> string \<Rightarrow> string option \<Rightarrow> string \<Rightarrow> string option \<Rightarrow> string \<Rightarrow> unit tx" where
  "insertEvent i role person ty fro too = tx_write (\<lambda>st. st\<lparr>evt_events := evt_events st @
     [\<lparr>ee_request = i, ee_role = role, ee_person = person, ee_type = ty, ee_from = fro, ee_to = too\<rparr>]\<rparr>)"

text \<open>A text compared with a UUID column: the cast fails unless it is one.\<close>

definition uuid :: "pg \<Rightarrow> string \<Rightarrow> string tx" where
  "uuid d s = tx_some ErrOther (pg_uuid d s)"

definition ensureEmployerConfig :: "string \<Rightarrow> unit tx" where
  "ensureEmployerConfig employer = tx_write (\<lambda>st. if employer \<in> fst ` set (evt_config st) then st
     else st\<lparr>evt_config := evt_config st @ [(employer, ''AUTO'')]\<rparr>)"

section \<open>The candidate's operations\<close>

text \<open>
  \<open>new_id\<close> is the identifier the insertion generates. A missing snapshot reaches the database as the
  empty text, which is no JSON, so the default of \<open>COALESCE\<close> never applies.
\<close>

definition CandidateCreateDraft :: "pg \<Rightarrow> string \<Rightarrow> string \<Rightarrow> string \<Rightarrow> jsval option \<Rightarrow> string tx" where
  "CandidateCreateDraft d new_id person employer claim =
     tx_bind (ensureEmployerConfig employer) (\<lambda>_.
     tx_bind (uuid d person) (\<lambda>p.
     tx_bind (tx_some ErrOther claim) (\<lambda>c.
     tx_bind (select_request (\<lambda>r. er_id r = new_id)) (\<lambda>dup.
     tx_bind (tx_guard ErrOther (dup = None)) (\<lambda>_.
     tx_bind (tx_write (\<lambda>st. st\<lparr>evt_requests := evt_requests st @ [\<lparr>er_id = new_id, er_candidate = p, er_employer = employer,
        er_status = ''DRAFT'', er_claim = c, er_created = pg_time d, er_updated = pg_time d, er_version = 1,
        er_response_type = None, er_response = None, er_jws = None, er_trust_result = None, er_token = None\<rparr>]\<rparr>)) (\<lambda>_.
     tx_bind (insertEvent new_id ''candidate'' (Some person) ''DRAFT_CREATED'' None ''DRAFT'') (\<lambda>_.
     tx_return new_id)))))))"

definition CandidateUpdateDraft :: "pg \<Rightarrow> string \<Rightarrow> string \<Rightarrow> int \<Rightarrow> jsval \<Rightarrow> unit tx" where
  "CandidateUpdateDraft d requestID person expected claim =
     tx_bind (uuid d requestID) (\<lambda>i.
     tx_bind (uuid d person) (\<lambda>p.
     let P = (\<lambda>r. er_id r = i \<and> er_candidate r = p \<and> er_status r = ''DRAFT'' \<and> er_version r = expected) in
     tx_bind (select_request P) (\<lambda>hit.
     tx_bind (tx_guard ErrConflict (hit \<noteq> None)) (\<lambda>_.
     tx_bind (update_requests d P (\<lambda>r. r\<lparr>er_claim := claim\<rparr>)) (\<lambda>_.
     insertEvent i ''candidate'' (Some person) ''DRAFT_UPDATED'' (Some ''DRAFT'') ''DRAFT'')))))"

text \<open>\<open>own\<close> reads the candidate's own request, locked for the transaction.\<close>

definition own_request :: "pg \<Rightarrow> string \<Rightarrow> string \<Rightarrow> evt_request tx" where
  "own_request d requestID person =
     tx_bind (uuid d requestID) (\<lambda>i.
     tx_bind (uuid d person) (\<lambda>p.
     tx_bind (select_request (\<lambda>r. er_id r = i \<and> er_candidate r = p)) (tx_some ErrNotFound)))"

definition set_status :: "pg \<Rightarrow> string \<Rightarrow> string \<Rightarrow> unit tx" where
  "set_status d i st' = update_requests d (\<lambda>r. er_id r = i) (\<lambda>r. r\<lparr>er_status := st'\<rparr>)"

definition CandidateSubmit :: "pg \<Rightarrow> string \<Rightarrow> string \<Rightarrow> string tx" where
  "CandidateSubmit d requestID person =
     tx_bind (own_request d requestID person) (\<lambda>r.
     tx_bind (tx_guard ErrConflict (er_status r = ''DRAFT'')) (\<lambda>_.
     tx_bind (set_status d (er_id r) ''SUBMITTED'') (\<lambda>_.
     tx_bind (insertEvent (er_id r) ''candidate'' (Some person) ''REQUEST_SUBMITTED'' (Some ''DRAFT'') ''SUBMITTED'') (\<lambda>_.
     tx_bind (tx_read (\<lambda>st. map_of (evt_config st) (er_employer r))) (\<lambda>mode.
     tx_bind (tx_some ErrOther mode) (\<lambda>dispatchMode.
     if dispatchMode = ''AUTO'' then
       tx_bind (update_requests d (\<lambda>x. er_id x = er_id r \<and> er_status x = ''SUBMITTED'')
                 (\<lambda>x. x\<lparr>er_status := ''ATTESTATION_PENDING''\<rparr>)) (\<lambda>_.
       tx_bind (insertEvent (er_id r) ''cvera'' None ''ATTESTATION_DISPATCHED'' (Some ''SUBMITTED'') ''ATTESTATION_PENDING'') (\<lambda>_.
       tx_return ''ATTESTATION_PENDING''))
     else
       tx_bind (insertEvent (er_id r) ''cvera'' None ''DISPATCH_GUARD_BLOCKED'' (Some ''SUBMITTED'') ''SUBMITTED'') (\<lambda>_.
       tx_return ''SUBMITTED'')))))))"

definition CandidateCancel :: "pg \<Rightarrow> string \<Rightarrow> string \<Rightarrow> unit tx" where
  "CandidateCancel d requestID person =
     tx_bind (own_request d requestID person) (\<lambda>r.
     tx_bind (tx_guard ErrConflict (er_status r = ''DRAFT'' \<or> er_status r = ''SUBMITTED'')) (\<lambda>_.
     tx_bind (set_status d (er_id r) ''CANCELED'') (\<lambda>_.
     insertEvent (er_id r) ''candidate'' (Some person) ''REQUEST_CANCELED'' (Some (er_status r)) ''CANCELED'')))"

text \<open>\<open>ORDER BY updated_at DESC LIMIT n\<close>; rows of one time keep the table's order here.\<close>

definition latest_first :: "nat \<Rightarrow> evt_request list \<Rightarrow> evt_request list" where
  "latest_first n rs = take n (sort_key (\<lambda>r. - er_updated r) rs)"

definition page_limit :: "int \<Rightarrow> int \<Rightarrow> int \<Rightarrow> nat" where
  "page_limit maximum dflt n = nat (if n \<le> 0 \<or> n > maximum then dflt else n)"

definition CandidateList :: "pg \<Rightarrow> string \<Rightarrow> int \<Rightarrow> evt_request list tx" where
  "CandidateList d person limit =
     tx_bind (uuid d person) (\<lambda>p.
     tx_read (\<lambda>st. latest_first (page_limit 200 100 limit) (filter (\<lambda>r. er_candidate r = p) (evt_requests st))))"

definition CandidateGet :: "pg \<Rightarrow> string \<Rightarrow> string \<Rightarrow> evt_request tx" where
  "CandidateGet d requestID person = own_request d requestID person"

section \<open>The employer's operations\<close>

text \<open>
  \<open>employeraccess.Authorize\<close>: the reviewer is a UUID of Go's library, and
  \<open>check_employer_hr_assignment\<close> of \<open>migrations/000014_employer_hr_assignments.sql\<close> finds an active HR
  reviewer with an assignment that is not revoked.
\<close>

definition check_employer_hr_assignment :: "string \<Rightarrow> string \<Rightarrow> store \<Rightarrow> bool" where
  "check_employer_hr_assignment reviewer employer st =
     (case map_of (domain_users st) reviewer of
        None \<Rightarrow> False
      | Some (status, role) \<Rightarrow> status = ''active'' \<and> role = ''hr_reviewer''
          \<and> list_ex (\<lambda>a. as_principal a = reviewer \<and> as_employer a = employer \<and> \<not> as_revoked a) (assignments st))"

definition Authorize :: "pg \<Rightarrow> string \<Rightarrow> string \<Rightarrow> unit tx" where
  "Authorize d reviewer employer =
     tx_bind (tx_some ErrNotFound (pg_uuid d reviewer)) (\<lambda>p.
     tx_bind (tx_read (check_employer_hr_assignment p employer)) (tx_guard ErrNotFound))"

record attestation_claims =
  ac_request :: string
  ac_employer :: string
  ac_person :: string
  ac_response_type :: string
  ac_response_body :: jsval
  ac_issued_at :: int

record attest_result =
  at_status :: string
  at_present :: bool
  at_kid :: string

text \<open>\<open>signer\<close> is the configured key's signature with its \<open>kid\<close>, or the failure to sign.\<close>

type_synonym attestation_signer = "attestation_claims \<Rightarrow> (string \<times> string) option"

definition decided_status :: "string \<Rightarrow> string" where
  "decided_status responseType =
     (if responseType = ''REJECTED_NO_RECORD'' \<or> responseType = ''REJECTED_POLICY'' then ''REJECTED'' else ''ATTESTED'')"

definition EmployerAttestServerSigned ::
    "pg \<Rightarrow> attestation_signer option \<Rightarrow> int \<Rightarrow> string \<Rightarrow> string \<Rightarrow> string \<Rightarrow> string \<Rightarrow> jsval \<Rightarrow> attest_result tx" where
  "EmployerAttestServerSigned d signer at requestID employer person responseType body =
     tx_bind (Authorize d person employer) (\<lambda>_.
     tx_bind (uuid d requestID) (\<lambda>i.
     tx_bind (select_request (\<lambda>r. er_id r = i \<and> er_employer r = employer)) (\<lambda>hit.
     tx_bind (tx_some ErrNotFound hit) (\<lambda>r.
     tx_bind (tx_guard ErrConflict (er_status r = ''ATTESTATION_PENDING'')) (\<lambda>_.
     let toStatus = decided_status responseType in
     tx_bind
       (if toStatus = ''ATTESTED'' then
          tx_bind (tx_guard ErrConflict (responseType = ''FULL_MATCH'' \<or> responseType = ''PARTIAL_MATCH'')) (\<lambda>_.
          tx_bind (tx_some ErrOther signer) (\<lambda>sign.
          tx_bind (tx_some ErrOther (sign \<lparr>ac_request = requestID, ac_employer = employer, ac_person = person,
              ac_response_type = responseType, ac_response_body = body, ac_issued_at = at\<rparr>)) (\<lambda>(jws, kid).
          tx_bind (update_requests d (\<lambda>x. er_id x = i) (\<lambda>x. x\<lparr>er_status := ''ATTESTED'',
              er_response_type := Some responseType, er_response := Some body, er_jws := Some jws\<rparr>)) (\<lambda>_.
          tx_return \<lparr>at_status = toStatus, at_present = True, at_kid = kid\<rparr>))))
        else
          tx_bind (update_requests d (\<lambda>x. er_id x = i) (\<lambda>x. x\<lparr>er_status := ''REJECTED'',
              er_response_type := Some responseType, er_response := Some body\<rparr>)) (\<lambda>_.
          tx_return \<lparr>at_status = toStatus, at_present = False, at_kid = []\<rparr>)) (\<lambda>out.
     tx_bind (insertEvent i ''employer_hr'' (Some person) ''HR_ATTESTED'' (Some (er_status r)) toStatus) (\<lambda>_.
     tx_return out)))))))"

definition EmployerList :: "pg \<Rightarrow> string \<Rightarrow> string \<Rightarrow> int \<Rightarrow> evt_request list tx" where
  "EmployerList d employer reviewer limit =
     tx_bind (Authorize d reviewer employer) (\<lambda>_.
     tx_read (\<lambda>st. latest_first (page_limit 200 100 limit)
       (filter (\<lambda>r. er_employer r = employer \<and> er_status r = ''ATTESTATION_PENDING'') (evt_requests st))))"

definition EmployerGet :: "pg \<Rightarrow> string \<Rightarrow> string \<Rightarrow> string \<Rightarrow> evt_request tx" where
  "EmployerGet d requestID employer reviewer =
     tx_bind (Authorize d reviewer employer) (\<lambda>_.
     tx_bind (uuid d requestID) (\<lambda>i.
     tx_bind (select_request (\<lambda>r. er_id r = i \<and> er_employer r = employer)) (tx_some ErrNotFound)))"

section \<open>The trust engine's and the recruiter's operations\<close>

definition any_request :: "pg \<Rightarrow> string \<Rightarrow> evt_request tx" where
  "any_request d requestID = tx_bind (uuid d requestID) (\<lambda>i. tx_bind (select_request (\<lambda>r. er_id r = i)) (tx_some ErrNotFound))"

definition InternalVerify :: "pg \<Rightarrow> string \<Rightarrow> string \<Rightarrow> string \<Rightarrow> unit tx" where
  "InternalVerify d requestID trustResult evtToken =
     tx_bind (any_request d requestID) (\<lambda>r.
     tx_bind (tx_guard ErrConflict (er_status r = ''ATTESTED'')) (\<lambda>_.
     let toStatus = (if trustResult = ''UNVERIFIED'' then ''UNVERIFIED'' else ''VERIFIED'') in
     tx_bind (tx_guard ErrOther (pg_trust_label d trustResult)) (\<lambda>_.
     tx_bind (update_requests d (\<lambda>x. er_id x = er_id r) (\<lambda>x. x\<lparr>er_status := toStatus,
        er_trust_result := Some trustResult, er_token := Some evtToken\<rparr>)) (\<lambda>_.
     insertEvent (er_id r) ''cvera'' None ''TRUST_EVALUATED'' (Some (er_status r)) toStatus))))"

definition InternalClose :: "pg \<Rightarrow> string \<Rightarrow> unit tx" where
  "InternalClose d requestID =
     tx_bind (any_request d requestID) (\<lambda>r.
     tx_bind (tx_guard ErrConflict (er_status r = ''CONSUMED'')) (\<lambda>_.
     tx_bind (set_status d (er_id r) ''CLOSED'') (\<lambda>_.
     insertEvent (er_id r) ''cvera'' None ''REQUEST_CLOSED'' (Some (er_status r)) ''CLOSED'')))"

definition RecruiterConsume :: "pg \<Rightarrow> string \<Rightarrow> string \<Rightarrow> string \<Rightarrow> string \<Rightarrow> unit tx" where
  "RecruiterConsume d requestID person agent ip =
     tx_bind (any_request d requestID) (\<lambda>r.
     tx_bind (tx_guard ErrConflict (er_status r = ''VERIFIED'' \<or> er_status r = ''UNVERIFIED'' \<or> er_status r = ''CONSUMED'')) (\<lambda>_.
     tx_bind (tx_write (\<lambda>st. st\<lparr>consumptions := consumptions st @
        [\<lparr>co_request = er_id r, co_recruiter = person, co_agent = agent, co_ip = ip\<rparr>]\<rparr>)) (\<lambda>_.
     if er_status r \<noteq> ''CONSUMED'' then
       tx_bind (set_status d (er_id r) ''CONSUMED'') (\<lambda>_.
       insertEvent (er_id r) ''recruiter'' (Some person) ''TOKEN_CONSUMED'' (Some (er_status r)) ''CONSUMED'')
     else tx_return ())))"

end
