(* ===== verification/RecruiterCursor.thy ===== *)
theory RecruiterCursor
  imports RequestStore
begin

text \<open>
  The text of a cursor of the candidate list (\<open>internal/evt/handlers_recruiter_list.go\<close>): JSON in base64
  with the alphabet for addresses and without padding. Reading JSON and the text of a time are parts of
  Go's library that the model takes as parameters; base64 and the decoding of the document into the
  struct are written out.
\<close>

section \<open>Decoding a document into a struct\<close>

text \<open>
  The members of a body; a name is compared without case, a later one replaces an earlier one, \<open>null\<close>
  leaves the value as it is, and a value of another type is an error. A member that is undefined is
  not written into the body.
\<close>

definition body_members :: "jsval \<Rightarrow> (string \<times> jsval) list option" where
  "body_members body = (case body of JObj ps \<Rightarrow> Some (filter (\<lambda>p. snd p \<noteq> JUndef) ps) | JNull \<Rightarrow> Some [] | _ \<Rightarrow> None)"

fun string_member :: "string \<Rightarrow> (string \<times> jsval) list \<Rightarrow> string \<Rightarrow> string option" where
  "string_member k [] cur = Some cur"
| "string_member k ((n, v) # rest) cur =
     (if to_lower n \<noteq> to_lower k then string_member k rest cur
      else case v of JStr x \<Rightarrow> string_member k rest x | JNull \<Rightarrow> string_member k rest cur | _ \<Rightarrow> None)"

section \<open>\<open>base64.RawURLEncoding\<close>\<close>

definition url_alphabet :: string where
  "url_alphabet = ''ABCDEFGHIJKLMNOPQRSTUVWXYZabcdefghijklmnopqrstuvwxyz0123456789-_''"

fun sextets :: "string \<Rightarrow> nat list" where
  "sextets [] = []"
| "sextets [a] = [of_char a div 4, of_char a mod 4 * 16]"
| "sextets [a, b] = [of_char a div 4, of_char a mod 4 * 16 + of_char b div 16, of_char b mod 16 * 4]"
| "sextets (a # b # c # rest) = [of_char a div 4, of_char a mod 4 * 16 + of_char b div 16,
     of_char b mod 16 * 4 + of_char c div 64, of_char c mod 64] @ sextets rest"

definition raw_url_encode :: "string \<Rightarrow> string" where
  "raw_url_encode s = map ((!) url_alphabet) (sextets s)"

definition url_value :: "char \<Rightarrow> nat option" where
  "url_value c = (let i = length (takeWhile (\<lambda>x. x \<noteq> c) url_alphabet) in if i < 64 then Some i else None)"

text \<open>A last group of one character is an error; the bits beyond the last whole byte are not looked at.\<close>

fun octets :: "nat list \<Rightarrow> string option" where
  "octets [] = Some []"
| "octets [a] = None"
| "octets [a, b] = Some [char_of (a * 4 + b div 16)]"
| "octets [a, b, c] = Some [char_of (a * 4 + b div 16), char_of (b mod 16 * 16 + c div 4)]"
| "octets (a # b # c # d # rest) = map_option ((@) [char_of (a * 4 + b div 16), char_of (b mod 16 * 16 + c div 4),
     char_of (c mod 4 * 64 + d)]) (octets rest)"

text \<open>Line breaks are skipped.\<close>

definition raw_url_decode :: "string \<Rightarrow> string option" where
  "raw_url_decode s = Option.bind (those (map url_value (filter (\<lambda>c. c \<noteq> CHR 0x0A \<and> c \<noteq> CHR 0x0D) s))) octets"

lemma high_bits: "(n :: nat) < 256 \<Longrightarrow> n div 4 < 64 \<and> n div 16 < 16 \<and> n div 64 < 4"
  by (simp add: less_mult_imp_div_less)

lemma byte_high_bits: "of_char a div 4 < (64 :: nat)" "of_char a div 16 < (16 :: nat)" "of_char a div 64 < (4 :: nat)"
  using high_bits [of "of_char a"] by simp_all

lemma sextet_bounds: "y < 16 \<Longrightarrow> x mod 4 * 16 + y < (64 :: nat)" "y < 4 \<Longrightarrow> x mod 16 * 4 + y < (64 :: nat)"
  using mod_less_divisor [of 4 x] mod_less_divisor [of 16 x] by linarith+

lemmas sextet_sizes = byte_high_bits sextet_bounds sextet_bounds(1) [of 0, simplified] sextet_bounds(2) [of 0, simplified]

lemma sextets_small: "n \<in> set (sextets s) \<Longrightarrow> n < 64"
proof (induction s rule: sextets.induct)
  case (4 a b c rest)
  then have "n \<in> {of_char a div 4, of_char a mod 4 * 16 + of_char b div 16, of_char b mod 16 * 4 + of_char c div 64, of_char c mod 64}
      \<or> n \<in> set (sextets rest)" by simp
  with 4 show ?case by (elim disjE) (auto simp only: insert_iff empty_iff sextet_sizes mod_less_divisor zero_less_numeral)
qed (auto simp only: sextets.simps list.set insert_iff empty_iff sextet_sizes)

text \<open>The first, the second and the third byte of a group, from the sextets it was cut into.\<close>

lemma byte_joined:
  fixes a b c :: char
  shows "char_of (of_char a div 4 * 4 + of_char a mod 4 * 16 div 16 :: nat) = a"
    and "char_of (of_char a div 4 * 4 + (of_char a mod 4 * 16 + of_char b div 16) div 16 :: nat) = a"
    and "char_of ((of_char a mod 4 * 16 + of_char b div 16) mod 16 * 16 + of_char b mod 16 * 4 div 4 :: nat) = b"
    and "char_of ((of_char a mod 4 * 16 + of_char b div 16) mod 16 * 16 + (of_char b mod 16 * 4 + of_char c div 64) div 4 :: nat) = b"
    and "char_of ((of_char b mod 16 * 4 + of_char c div 64) mod 4 * 64 + of_char c mod 64 :: nat) = c"
proof -
  note small = byte_high_bits [of b] byte_high_bits [of c]
  have parts: "(of_char a mod 4 * 16 + of_char b div 16) div 16 = (of_char a mod 4 :: nat)"
    "(of_char a mod 4 * 16 + of_char b div 16) mod 16 = (of_char b div 16 :: nat)"
    "(of_char b mod 16 * 4 + of_char c div 64) div 4 = (of_char b mod 16 :: nat)"
    "(of_char b mod 16 * 4 + of_char c div 64) mod 4 = (of_char c div 64 :: nat)"
    using small by simp_all
  have whole: "of_char x div n * n + of_char x mod n = (of_char x :: nat)" for x n by simp
  show "char_of (of_char a div 4 * 4 + of_char a mod 4 * 16 div 16 :: nat) = a" by simp
  show "char_of (of_char a div 4 * 4 + (of_char a mod 4 * 16 + of_char b div 16) div 16 :: nat) = a"
    by (simp only: parts whole char_of_char)
  show "char_of ((of_char a mod 4 * 16 + of_char b div 16) mod 16 * 16 + of_char b mod 16 * 4 div 4 :: nat) = b"
    by (simp only: parts) simp
  show "char_of ((of_char a mod 4 * 16 + of_char b div 16) mod 16 * 16 + (of_char b mod 16 * 4 + of_char c div 64) div 4 :: nat) = b"
    by (simp only: parts whole char_of_char)
  show "char_of ((of_char b mod 16 * 4 + of_char c div 64) mod 4 * 64 + of_char c mod 64 :: nat) = c"
    by (simp only: parts whole char_of_char)
qed

lemma octets_sextets: "octets (sextets s) = Some s"
  by (induction s rule: sextets.induct) (simp_all only: sextets.simps octets.simps append.simps byte_joined option.map)

lemma alphabet_value: "n < 64 \<Longrightarrow> url_value (url_alphabet ! n) = Some n \<and> url_alphabet ! n \<noteq> CHR 0x0A \<and> url_alphabet ! n \<noteq> CHR 0x0D"
proof -
  have "list_all (\<lambda>n. url_value (url_alphabet ! n) = Some n \<and> url_alphabet ! n \<noteq> CHR 0x0A \<and> url_alphabet ! n \<noteq> CHR 0x0D) [0..<64]"
    by code_simp
  then show "n < 64 \<Longrightarrow> ?thesis" by (simp add: list_all_iff)
qed

lemma raw_url_roundtrip: "raw_url_decode (raw_url_encode s) = Some s"
proof -
  have "those (map url_value (filter (\<lambda>c. c \<noteq> CHR 0x0A \<and> c \<noteq> CHR 0x0D) (map ((!) url_alphabet) ns))) = Some ns"
    if "\<And>n. n \<in> set ns \<Longrightarrow> n < 64" for ns
    using that by (induction ns) (simp_all add: alphabet_value)
  from this [of "sextets s"] sextets_small show ?thesis
    by (simp add: raw_url_decode_def raw_url_encode_def octets_sextets)
qed

section \<open>Cursors\<close>

type_synonym cursor = "int \<times> string"

text \<open>
  The parameters: the text of a time and its reader (RFC 3339), the zero time, the reader of JSON. The
  identifiers are UUIDs, in which the encoder has nothing to escape.
\<close>

record cursor_codec =
  cc_time :: "int \<Rightarrow> string"
  cc_instant :: "string \<Rightarrow> int option"
  cc_zero :: int
  cc_parse :: "string \<Rightarrow> jsval option"

fun time_member :: "cursor_codec \<Rightarrow> string \<Rightarrow> (string \<times> jsval) list \<Rightarrow> int \<Rightarrow> int option" where
  "time_member cc k [] cur = Some cur"
| "time_member cc k ((n, v) # rest) cur =
     (if to_lower n \<noteq> to_lower k then time_member cc k rest cur
      else case v of
        JStr x \<Rightarrow> (case cc_instant cc x of None \<Rightarrow> None | Some t \<Rightarrow> time_member cc k rest t)
      | JNull \<Rightarrow> time_member cc k rest cur
      | _ \<Rightarrow> None)"

definition recruiterCursor :: "cursor_codec \<Rightarrow> cursor \<Rightarrow> jsval" where
  "recruiterCursor cc c = JObj [(''updated_at'', JStr (cc_time cc (fst c))), (''request_id'', JStr (snd c))]"

definition encodeCursor :: "cursor_codec \<Rightarrow> cursor \<Rightarrow> string" where
  "encodeCursor cc c = raw_url_encode (json_text (recruiterCursor cc c))"

definition decodeCursor :: "cursor_codec \<Rightarrow> string \<Rightarrow> cursor option" where
  "decodeCursor cc s =
     Option.bind (raw_url_decode s) (\<lambda>b.
     Option.bind (cc_parse cc b) (\<lambda>v.
     Option.bind (body_members v) (\<lambda>ps.
     Option.bind (time_member cc ''updated_at'' ps (cc_zero cc)) (\<lambda>t.
     map_option (Pair t) (string_member ''request_id'' ps [])))))"

text \<open>A cursor whose time and document the library reads back is read back.\<close>

definition cursor_reads :: "cursor_codec \<Rightarrow> cursor \<Rightarrow> bool" where
  "cursor_reads cc c = (cc_instant cc (cc_time cc (fst c)) = Some (fst c)
     \<and> cc_parse cc (json_text (recruiterCursor cc c)) = Some (recruiterCursor cc c))"

lemma cursor_roundtrip: "cursor_reads cc c \<Longrightarrow> decodeCursor cc (encodeCursor cc c) = Some c"
proof -
  have "to_lower ''updated_at'' \<noteq> to_lower ''request_id''" by code_simp
  then show "cursor_reads cc c \<Longrightarrow> ?thesis"
    by (cases c) (simp add: cursor_reads_def decodeCursor_def encodeCursor_def raw_url_roundtrip recruiterCursor_def body_members_def)
qed

end
