(* ===== verification/RecruiterApi.thy ===== *)
theory RecruiterApi
  imports RecruiterCursor RecruiterTypes
begin

text \<open>
  The recruiter's candidate list on the server (\<open>internal/evt/handlers_recruiter_list.go\<close> and
  \<open>RecruiterCandidateList\<close> of \<open>internal/evt/repo.go\<close>): reading the query's parameters, the SQL query
  over the request store, and the rows it is answered with.
\<close>

section \<open>Reading the parameters\<close>

type_synonym query_values = "(string \<times> string) list"

text \<open>\<open>c.Query\<close>, \<open>c.DefaultQuery\<close>, \<open>c.QueryArray\<close>\<close>

definition query_array :: "query_values \<Rightarrow> string \<Rightarrow> string list" where
  "query_array qs k = map snd (filter (\<lambda>p. fst p = k) qs)"

definition query_default :: "query_values \<Rightarrow> string \<Rightarrow> string \<Rightarrow> string" where
  "query_default qs k dflt = (case query_array qs k of [] \<Rightarrow> dflt | v # vs \<Rightarrow> v)"

fun keep_first :: "'a list \<Rightarrow> 'a list \<Rightarrow> 'a list" where
  "keep_first seen [] = []"
| "keep_first seen (x # xs) = (if x \<in> set seen then keep_first seen xs else x # keep_first (x # seen) xs)"

definition parseCSVOrRepeated :: "query_values \<Rightarrow> string \<Rightarrow> string list" where
  "parseCSVOrRepeated qs k =
     keep_first [] (filter (\<lambda>p. p \<noteq> []) (map TrimSpace (concat (map (split_on CHR '','') (query_array qs k)))))"

text \<open>\<open>strconv.Atoi\<close>: an optional sign and decimal digits, within 64 bits.\<close>

definition digit_value :: "char \<Rightarrow> int option" where
  "digit_value c = (let n = of_char c :: int in if 48 \<le> n \<and> n \<le> 57 then Some (n - 48) else None)"

fun digits_value :: "string \<Rightarrow> int \<Rightarrow> int option" where
  "digits_value [] acc = Some acc"
| "digits_value (c # cs) acc = (case digit_value c of None \<Rightarrow> None | Some v \<Rightarrow> digits_value cs (10 * acc + v))"

definition Atoi :: "string \<Rightarrow> int option" where
  "Atoi s =
     (let neg = (s \<noteq> [] \<and> hd s = CHR ''-'');
          ds = (if s \<noteq> [] \<and> (hd s = CHR ''-'' \<or> hd s = CHR ''+'') then tl s else s)
      in if ds = [] then None
         else case digits_value ds 0 of None \<Rightarrow> None
            | Some v \<Rightarrow> (let i = (if neg then - v else v) in if - (2 ^ 63) \<le> i \<and> i < 2 ^ 63 then Some i else None))"

record list_args =
  la_search :: string
  la_mode :: string
  la_signatures :: "string list"
  la_companies :: "string list"
  la_limit :: int
  la_cursor :: "cursor option"

definition signature_values :: "string list" where
  "signature_values = [''verified'', ''invalid'', ''unknown'']"

definition read_signatures :: "query_values \<Rightarrow> string list" where
  "read_signatures qs = (let raw = parseCSVOrRepeated qs ''signature_status'' in if raw = [] then signature_values else raw)"

definition read_limit :: "query_values \<Rightarrow> int option" where
  "read_limit qs = (let ls = TrimSpace (query_default qs ''limit'' []) in
     if ls = [] then Some 25
     else case Atoi ls of None \<Rightarrow> None | Some n \<Rightarrow> if n < 1 \<or> n > 100 then None else Some n)"

definition read_cursor :: "cursor_codec \<Rightarrow> query_values \<Rightarrow> cursor option option" where
  "read_cursor cc qs = (let cs = TrimSpace (query_default qs ''cursor'' []) in
     if cs = [] then Some None else map_option Some (decodeCursor cc cs))"

text \<open>The parameters, or the error code the list answers with.\<close>

definition read_list_args :: "cursor_codec \<Rightarrow> query_values \<Rightarrow> string + list_args" where
  "read_list_args cc qs =
     (let mode = TrimSpace (query_default qs ''trust_mode'' ''any'');
          sigs = read_signatures qs in
      if mode \<notin> {''any'', ''trusted_only'', ''include_untrusted''} then Inl ''invalid_trust_mode''
      else if TrimSpace (query_default qs ''sort'' ''most_recent'') \<noteq> ''most_recent'' then Inl ''invalid_sort''
      else if \<not> list_all (\<lambda>s. s \<in> set signature_values) sigs then Inl ''invalid_signature_status''
      else case read_limit qs of
        None \<Rightarrow> Inl ''invalid_limit''
      | Some limit \<Rightarrow>
          (case read_cursor cc qs of
             None \<Rightarrow> Inl ''invalid_cursor''
           | Some cur \<Rightarrow> Inr \<lparr>la_search = TrimSpace (query_default qs ''search'' []), la_mode = mode, la_signatures = sigs,
               la_companies = parseCSVOrRepeated qs ''company_ids'', la_limit = limit, la_cursor = cur\<rparr>))"

section \<open>The query\<close>

record base_row =
  br_request :: evt_request
  br_signature :: string
  br_trust :: string
  br_state :: string

definition listed_statuses :: "string list" where
  "listed_statuses = [''DRAFT'', ''SUBMITTED'', ''ATTESTATION_PENDING'', ''ATTESTED'', ''VERIFIED'', ''UNVERIFIED'',
     ''REJECTED'', ''CONSUMED'', ''CLOSED'']"

text \<open>\<open>btrim\<close> removes blanks only.\<close>

definition signature_status :: "evt_request \<Rightarrow> string" where
  "signature_status r = (case er_jws r of None \<Rightarrow> ''unknown''
     | Some s \<Rightarrow> if list_all (\<lambda>c. c = CHR '' '') s then ''unknown'' else ''verified'')"

definition trust_status :: "string option \<Rightarrow> string" where
  "trust_status level = (if level = Some ''trusted'' then ''trusted''
     else if level = Some ''untrusted'' then ''untrusted'' else ''unknown'')"

definition verification_status :: "evt_request \<Rightarrow> string" where
  "verification_status r =
     (let s = er_status r in
      if s = ''VERIFIED'' then ''verified''
      else if s = ''UNVERIFIED'' \<or> s = ''REJECTED'' then ''unverified''
      else if s = ''DRAFT'' \<or> s = ''SUBMITTED'' \<or> s = ''ATTESTATION_PENDING'' \<or> s = ''ATTESTED'' then ''pending''
      else if (s = ''CONSUMED'' \<or> s = ''CLOSED'') \<and>
          (er_trust_result r = Some ''VERIFIED'' \<or> er_trust_result r = Some ''VERIFIED_WITH_FLAGS'') then ''verified''
      else if (s = ''CONSUMED'' \<or> s = ''CLOSED'') \<and> er_trust_result r = Some ''UNVERIFIED'' then ''unverified''
      else ''unknown'')"

text \<open>\<open>LEFT JOIN recruiter_trusted_issuers\<close>: a row for every level given, one without if there is none.\<close>

definition levels_for :: "string \<Rightarrow> store \<Rightarrow> evt_request \<Rightarrow> string option list" where
  "levels_for recruiter st r =
     (let ls = map (\<lambda>t. Some (snd (snd t))) (filter (\<lambda>t. fst t = recruiter \<and> fst (snd t) = er_employer r) (trusted_issuers st))
      in if ls = [] then [None] else ls)"

definition base_rows :: "string \<Rightarrow> store \<Rightarrow> base_row list" where
  "base_rows recruiter st = concat (map (\<lambda>r. map (\<lambda>level. \<lparr>br_request = r, br_signature = signature_status r,
        br_trust = trust_status level, br_state = verification_status r\<rparr>) (levels_for recruiter st r))
     (filter (\<lambda>r. er_status r \<in> set listed_statuses) (evt_requests st)))"

text \<open>\<open>ORDER BY updated_at DESC, request_id DESC\<close>; the order of the identifiers is that of their texts.\<close>

definition row_cursor :: "base_row \<Rightarrow> cursor" where
  "row_cursor b = (er_updated (br_request b), er_id (br_request b))"

definition cursor_lt :: "cursor \<Rightarrow> cursor \<Rightarrow> bool" where
  "cursor_lt a b = (fst a < fst b \<or> (fst a = fst b \<and> str_lt (snd a) (snd b)))"

fun insert_row :: "base_row \<Rightarrow> base_row list \<Rightarrow> base_row list" where
  "insert_row b [] = [b]"
| "insert_row b (x # xs) = (if cursor_lt (row_cursor b) (row_cursor x) then x # insert_row b xs else b # x # xs)"

definition order_rows :: "base_row list \<Rightarrow> base_row list" where
  "order_rows bs = foldr insert_row bs []"

text \<open>\<open>rn = 1\<close>: each candidate's first row in that order.\<close>

fun pick_first :: "string list \<Rightarrow> base_row list \<Rightarrow> base_row list" where
  "pick_first seen [] = []"
| "pick_first seen (b # bs) = (let c = er_candidate (br_request b) in
     if c \<in> set seen then pick_first seen bs else b # pick_first (c # seen) bs)"

text \<open>\<open>ILIKE\<close>, the search text unescaped: \<open>%\<close> stands for any text, \<open>_\<close> for any character.\<close>

fun ilike :: "string \<Rightarrow> string \<Rightarrow> bool" where
  "ilike [] s = (s = [])"
| "ilike (c # p) s =
     (if c = CHR ''%'' then list_ex (\<lambda>k. ilike p (drop k s)) [0..<Suc (length s)]
      else if c = CHR ''_'' then s \<noteq> [] \<and> ilike p (tl s)
      else if c = CHR 0x5C then (case p of [] \<Rightarrow> False | e # q \<Rightarrow> s \<noteq> [] \<and> hd s = e \<and> ilike q (tl s))
      else s \<noteq> [] \<and> hd s = c \<and> ilike p (tl s))"

definition json_path_text :: "jsval \<Rightarrow> string \<Rightarrow> string \<Rightarrow> string" where
  "json_path_text v a b = (case jget (jget v a) b of JStr s \<Rightarrow> s | JUndef \<Rightarrow> [] | JNull \<Rightarrow> [] | x \<Rightarrow> json_text x)"

definition search_texts :: "evt_request \<Rightarrow> string list" where
  "search_texts r = [json_path_text (er_claim r) ''subject'' ''full_name'', json_path_text (er_claim r) ''subject'' ''employee_id'',
     json_path_text (er_claim r) ''primary_employment'' ''issuer_name'', json_path_text (er_claim r) ''primary_employment'' ''title'',
     er_employer r]"

definition row_wanted :: "list_args \<Rightarrow> base_row \<Rightarrow> bool" where
  "row_wanted q b = (br_signature b \<in> set (la_signatures q)
     \<and> (la_companies q \<noteq> [] \<longrightarrow> er_employer (br_request b) \<in> set (la_companies q))
     \<and> (la_mode q = ''trusted_only'' \<longrightarrow> br_trust b = ''trusted'')
     \<and> (la_mode q = ''include_untrusted'' \<longrightarrow> br_trust b = ''trusted'' \<or> br_trust b = ''untrusted'')
     \<and> (la_search q \<noteq> [] \<longrightarrow> list_ex (\<lambda>s. ilike (to_lower (''%'' @ la_search q @ ''%'')) (to_lower s)) (search_texts (br_request b))))"

definition before_cursor :: "cursor option \<Rightarrow> base_row \<Rightarrow> bool" where
  "before_cursor cur b = (case cur of None \<Rightarrow> True | Some c \<Rightarrow> cursor_lt (row_cursor b) c)"

definition picked_rows :: "string \<Rightarrow> list_args \<Rightarrow> store \<Rightarrow> base_row list" where
  "picked_rows recruiter q st = filter (row_wanted q) (pick_first [] (order_rows (base_rows recruiter st)))"

section \<open>The answer\<close>

definition json_text_field :: "jsval \<Rightarrow> string \<Rightarrow> string \<Rightarrow> string option" where
  "json_text_field v a b = (case jget (jget v a) b of JStr s \<Rightarrow> Some s | _ \<Rightarrow> None)"

definition not_blank :: "string option \<Rightarrow> string option" where
  "not_blank x = (case x of None \<Rightarrow> None | Some s \<Rightarrow> if TrimSpace s = [] then None else Some s)"

definition wire_value :: "('a \<Rightarrow> string) \<Rightarrow> 'a list \<Rightarrow> string \<Rightarrow> 'a option" where
  "wire_value f xs s = find (\<lambda>x. f x = s) xs"

definition all_results :: "trust_result list" where
  "all_results = [ResVerified, ResVerifiedWithFlags, ResUnverified]"

definition all_statuses :: "request_status list" where
  "all_statuses = [Draft, Submitted, AttestationPending, Attested, Verified, Unverified, Rejected, Consumed, Closed]"

definition CandidateRowSnapshot :: "pg \<Rightarrow> base_row \<Rightarrow> candidate_row" where
  "CandidateRowSnapshot d b =
     (let r = br_request b; snap = er_claim r in
      \<lparr>candidate_id = er_candidate r,
       subject = \<lparr>full_name = coalesce (json_text_field snap ''subject'' ''full_name'') [],
         employee_id = not_blank (json_text_field snap ''subject'' ''employee_id'')\<rparr>,
       primary_employment = \<lparr>
         issuer_name = coalesce (not_blank (json_text_field snap ''primary_employment'' ''issuer_name'')) (er_employer r),
         emp_title = coalesce (json_text_field snap ''primary_employment'' ''title'') [],
         start_date = coalesce (json_text_field snap ''primary_employment'' ''start_date'') [],
         end_date = not_blank (json_text_field snap ''primary_employment'' ''end_date'')\<rparr>,
       primary_evt_id = er_id r,
       row_badges = \<lparr>badge_signature = coalesce (wire_value sig_string [SigVerified, SigInvalid] (br_signature b)) SigUnknown,
         badge_trust = coalesce (wire_value trust_string [Trusted, Untrusted] (to_lower (TrimSpace (br_trust b)))) TrustUnknown\<rparr>,
       row_verification = Some \<lparr>
         vs_state = coalesce (wire_value vstate_string [VVerified, VUnverified, VPending] (br_state b)) VUnknown,
         vs_trust_result = Option.bind (er_trust_result r) (\<lambda>s. wire_value trust_result_string all_results (TrimSpace s)),
         vs_request_status = wire_value request_status_string all_statuses (TrimSpace (er_status r))\<rparr>,
       row_updated_at = pg_format d (er_updated r)\<rparr>)"

text \<open>One row more than the limit is read, to know whether there is a next page.\<close>

definition RecruiterCandidateList ::
    "pg \<Rightarrow> cursor_codec \<Rightarrow> string \<Rightarrow> list_args \<Rightarrow> (candidate_row list \<times> string option) tx" where
  "RecruiterCandidateList d cc recruiter q = tx_read (\<lambda>st.
     let limit = page_limit 100 25 (la_limit q);
         rows = take (limit + 1) (filter (before_cursor (la_cursor q)) (picked_rows recruiter q st)) in
     (map (CandidateRowSnapshot d) (take limit rows),
      if length rows > limit then Some (encodeCursor cc (row_cursor (rows ! (limit - 1)))) else None))"

end
