(* ===== verification/RequestApi.thy ===== *)
theory RequestApi
  imports RecruiterApi QueryString
begin

text \<open>
  The HTTP interface of the request module (\<open>internal/evt/routes.go\<close> and its handlers, behind
  \<open>internal/auth/gin.go\<close>): who may call what, how a body is read, and what each outcome of the
  transaction is answered with.
\<close>

section \<open>Access\<close>

text \<open>The claims of an access token; \<open>None\<close> of the token parser is a token it does not accept.\<close>

record access_claims =
  ax_sub :: string
  ax_roles :: "string list"
  ax_typ :: string

type_synonym token_parser = "string \<Rightarrow> access_claims option"

definition request_header :: "string \<Rightarrow> request \<Rightarrow> string" where
  "request_header k rq = (case find (\<lambda>h. to_lower (fst h) = to_lower k) (rq_headers rq) of None \<Rightarrow> [] | Some h \<Rightarrow> snd h)"

definition HasRole :: "access_claims \<Rightarrow> string \<Rightarrow> bool" where
  "HasRole c role = list_ex (\<lambda>r. r = role) (ax_roles c)"

text \<open>The claims, or the code of the refusal. \<open>SplitN(h, " ", 2)\<close> cuts at the first blank.\<close>

definition GinRequireAuth :: "token_parser \<Rightarrow> request \<Rightarrow> string + access_claims" where
  "GinRequireAuth parse rq =
     (let h = TrimSpace (request_header ''Authorization'' rq);
          scheme = takeWhile (\<lambda>c. c \<noteq> CHR '' '') h;
          rest = dropWhile (\<lambda>c. c \<noteq> CHR '' '') h in
      if h = [] then Inl ''missing_authorization''
      else if rest = [] \<or> to_lower scheme \<noteq> ''bearer'' then Inl ''invalid_authorization''
      else
        let raw = TrimSpace (tl rest) in
        if raw = [] then Inl ''missing_token''
        else case parse raw of
          None \<Rightarrow> Inl ''invalid_access_token''
        | Some claims \<Rightarrow>
            if ax_typ claims \<noteq> [] \<and> ax_typ claims \<noteq> ''access'' then Inl ''wrong_token_type''
            else if TrimSpace (ax_sub claims) = [] then Inl ''missing_sub''
            else Inr claims)"

text \<open>
  \<open>withCORS\<close> of \<open>internal/httpapi/middleware.go\<close>: the headers a page of another origin may send, and what
  a browser makes of them. A request with a header that is neither one of these nor safe for every
  origin is preceded by a question the answer of which forbids it; the request is not sent.
\<close>

definition cors_origins :: "string list" where
  "cors_origins = [''http://localhost:8081'', ''http://localhost:19006'', ''https://cvera.app'', ''https://www.cvera.app'',
     ''https://cvera-iiw-mvp-expo-app--mvp.expo.app'', ''https://mvp.cvera.app'']"

definition cors_headers :: "string \<Rightarrow> string list" where
  "cors_headers origin = (if origin \<in> set cors_origins then [''content-type'', ''authorization''] else [])"

definition preflight_passes :: "string \<Rightarrow> request \<Rightarrow> bool" where
  "preflight_passes origin rq = list_all (\<lambda>h. to_lower (fst h) \<in> set (cors_headers origin)
     \<or> to_lower (fst h) \<in> {''accept'', ''accept-language'', ''content-language''}) (rq_headers rq)"

section \<open>Reading bodies\<close>

text \<open>Numbers of a struct, decoded as its strings are (\<open>RecruiterCursor\<close>).\<close>

fun int_member :: "string \<Rightarrow> (string \<times> jsval) list \<Rightarrow> int \<Rightarrow> int option" where
  "int_member k [] cur = Some cur"
| "int_member k ((n, v) # rest) cur =
     (if to_lower n \<noteq> to_lower k then int_member k rest cur
      else case v of
        JNum x \<Rightarrow> if - (2 ^ 63) \<le> x \<and> x < 2 ^ 63 then int_member k rest x else None
      | JNull \<Rightarrow> int_member k rest cur
      | _ \<Rightarrow> None)"

text \<open>A raw message takes any value, \<open>null\<close> too.\<close>

fun raw_member :: "string \<Rightarrow> (string \<times> jsval) list \<Rightarrow> jsval option \<Rightarrow> jsval option" where
  "raw_member k [] cur = cur"
| "raw_member k ((n, v) # rest) cur = raw_member k rest (if to_lower n \<noteq> to_lower k then cur else Some v)"

text \<open>Where the error is ignored, the members that could be read have been.\<close>

fun lenient_member :: "string \<Rightarrow> (string \<times> jsval) list \<Rightarrow> string \<Rightarrow> string" where
  "lenient_member k [] cur = cur"
| "lenient_member k ((n, v) # rest) cur =
     lenient_member k rest (if to_lower n \<noteq> to_lower k then cur else case v of JStr x \<Rightarrow> x | _ \<Rightarrow> cur)"

definition CreateDraftReq :: "jsval \<Rightarrow> (string \<times> jsval option) option" where
  "CreateDraftReq body =
     Option.bind (body_members body) (\<lambda>ps.
     Option.bind (string_member ''employer_id'' ps []) (\<lambda>employer.
     if employer = [] then None else Some (employer, raw_member ''claim_snapshot'' ps None)))"

definition PatchDraftReq :: "jsval \<Rightarrow> (int \<times> jsval) option" where
  "PatchDraftReq body =
     Option.bind (body_members body) (\<lambda>ps.
     Option.bind (int_member ''expected_version'' ps 0) (\<lambda>expected.
     Option.bind (raw_member ''claim_snapshot'' ps None) (\<lambda>claim.
     if expected < 1 then None else Some (expected, claim))))"

text \<open>An empty response body is normalised to the empty object.\<close>

definition AttestReq :: "jsval \<Rightarrow> (string \<times> string \<times> jsval) option" where
  "AttestReq body =
     Option.bind (body_members body) (\<lambda>ps.
     Option.bind (string_member ''employer_id'' ps []) (\<lambda>employer.
     Option.bind (string_member ''response_type'' ps []) (\<lambda>ty.
     if employer = [] \<or> ty = [] \<or> TrimSpace employer = [] \<or> TrimSpace ty = [] then None
     else Some (TrimSpace employer, TrimSpace ty, coalesce (raw_member ''response_body'' ps None) (JObj [])))))"

definition lenient_members :: "jsval \<Rightarrow> (string \<times> jsval) list" where
  "lenient_members body = coalesce (body_members body) []"

section \<open>Answers\<close>

definition no_content :: response where
  "no_content = \<lparr>rs_status = 204, rs_text = [], rs_json = None\<rparr>"

definition request_list_js :: "pg \<Rightarrow> evt_request \<Rightarrow> jsval" where
  "request_list_js d r = JObj [(''request_id'', JStr (er_id r)), (''status'', JStr (er_status r)),
     (''claim_snapshot'', er_claim r), (''created_at'', JStr (pg_format d (er_created r))),
     (''updated_at'', JStr (pg_format d (er_updated r)))]"

definition request_js :: "pg \<Rightarrow> evt_request \<Rightarrow> (string \<times> jsval) list" where
  "request_js d r = [(''request_id'', JStr (er_id r)), (''status'', JStr (er_status r)),
     (''claim_snapshot'', er_claim r), (''created_at'', JStr (pg_format d (er_created r))),
     (''updated_at'', JStr (pg_format d (er_updated r))), (''version'', JNum (er_version r))]"

definition hr_request_js :: "pg \<Rightarrow> evt_request \<Rightarrow> jsval" where
  "hr_request_js d r = JObj (request_js d r @ (case er_response_type r of None \<Rightarrow> [] | Some t \<Rightarrow> [(''employer_response_type'', JStr t)]))"

definition status_js :: "string \<Rightarrow> jsval" where
  "status_js s = JObj [(''status'', JStr s)]"

definition attest_js :: "attest_result \<Rightarrow> jsval" where
  "attest_js out = JObj [(''status'', JStr (at_status out)),
     (''attestation'', JObj ((''present'', JBool (at_present out)) # (if at_kid out = [] then [] else [(''kid'', JStr (at_kid out))])))]"

definition opt_member :: "string \<Rightarrow> string option \<Rightarrow> (string \<times> jsval) list" where
  "opt_member k x = (case x of None \<Rightarrow> [] | Some v \<Rightarrow> [(k, JStr v)])"

definition verification_js :: "verification_summary \<Rightarrow> jsval" where
  "verification_js v = JObj ((''state'', JStr (vstate_string (vs_state v)))
     # opt_member ''trust_result'' (map_option trust_result_string (vs_trust_result v))
     @ opt_member ''request_status'' (map_option request_status_string (vs_request_status v)))"

definition candidate_js :: "candidate_row \<Rightarrow> jsval" where
  "candidate_js c = JObj ([(''candidate_id'', JStr (candidate_id c)),
     (''subject'', JObj ((''full_name'', JStr (full_name (subject c))) # opt_member ''employee_id'' (employee_id (subject c)))),
     (''primary_employment'', JObj [(''issuer_name'', JStr (issuer_name (primary_employment c))),
        (''title'', JStr (emp_title (primary_employment c))), (''start_date'', JStr (start_date (primary_employment c))),
        (''end_date'', case end_date (primary_employment c) of None \<Rightarrow> JNull | Some s \<Rightarrow> JStr s)]),
     (''primary_evt'', JObj [(''evt_id'', JStr (primary_evt_id c))]),
     (''badges'', JObj [(''signature'', JStr (sig_string (badge_signature (row_badges c)))),
        (''trust'', JStr (trust_string (badge_trust (row_badges c))))])]
     @ (case row_verification c of None \<Rightarrow> [] | Some v \<Rightarrow> [(''verification'', verification_js v)])
     @ [(''updated_at'', JStr (row_updated_at c))])"

text \<open>What the handlers make of an error of the transaction: \<open>failed\<close> is the code of the others.\<close>

definition db_refusal :: "string \<Rightarrow> db_error \<Rightarrow> response" where
  "db_refusal failed e = (case e of ErrNotFound \<Rightarrow> writeErr 404 ''not_found''
     | ErrConflict \<Rightarrow> writeErr 409 ''conflict_or_invalid_state'' | ErrOther \<Rightarrow> writeErr 500 failed)"

definition read_refusal :: "string \<Rightarrow> db_error \<Rightarrow> response" where
  "read_refusal failed e = (if e = ErrNotFound then writeErr 404 ''not_found'' else writeErr 500 failed)"

definition answered :: "(db_error \<Rightarrow> response) \<Rightarrow> ('a \<Rightarrow> response) \<Rightarrow> (db_error + 'a) \<times> store \<Rightarrow> response \<times> store" where
  "answered bad good out = (case out of (Inl e, st) \<Rightarrow> (bad e, st) | (Inr a, st) \<Rightarrow> (good a, st))"

section \<open>The handlers\<close>

text \<open>
  What one call depends on beside the request: the configured parts, whether a statement of its
  transaction fails, the identifier an insertion would generate, and the time of a signature.
\<close>

record api =
  ap_pg :: pg
  ap_signer :: "attestation_signer option"
  ap_codec :: cursor_codec
  ap_parse :: token_parser
  ap_profile :: "string \<Rightarrow> evidence option"

record occasion =
  oc_fault :: bool
  oc_id :: string
  oc_time :: int

type_synonym 'r api_handler = "api \<Rightarrow> occasion \<Rightarrow> access_claims \<Rightarrow> 'r"

definition handle_list :: "(store \<Rightarrow> response \<times> store) api_handler" where
  "handle_list ap oc cl st = answered (\<lambda>_. writeErr 500 ''list_failed'')
     (\<lambda>rows. json_answer 200 (JObj [(''items'', JArr (map (request_list_js (ap_pg ap)) rows))]))
     (WithTx (oc_fault oc) (CandidateList (ap_pg ap) (ax_sub cl) 100) st)"

definition handle_get :: "(string \<Rightarrow> store \<Rightarrow> response \<times> store) api_handler" where
  "handle_get ap oc cl i st = answered (db_refusal ''get_failed'') (\<lambda>r. json_answer 200 (JObj (request_js (ap_pg ap) r)))
     (WithTx (oc_fault oc) (CandidateGet (ap_pg ap) i (ax_sub cl)) st)"

definition handle_create :: "(jsval \<Rightarrow> store \<Rightarrow> response \<times> store) api_handler" where
  "handle_create ap oc cl body st = (case CreateDraftReq body of
       None \<Rightarrow> (writeErr 400 ''invalid_body'', st)
     | Some (employer, claim) \<Rightarrow>
         answered (\<lambda>_. writeErr 500 ''create_failed'')
           (\<lambda>i. json_answer 201 (JObj [(''request_id'', JStr i), (''status'', JStr ''DRAFT'')]))
           (WithTx (oc_fault oc) (CandidateCreateDraft (ap_pg ap) (oc_id oc) (ax_sub cl) employer claim) st))"

definition handle_patch :: "(string \<Rightarrow> jsval \<Rightarrow> store \<Rightarrow> response \<times> store) api_handler" where
  "handle_patch ap oc cl i body st = (case PatchDraftReq body of
       None \<Rightarrow> (writeErr 400 ''invalid_body'', st)
     | Some (expected, claim) \<Rightarrow>
         answered (db_refusal ''update_failed'') (\<lambda>_. no_content)
           (WithTx (oc_fault oc) (CandidateUpdateDraft (ap_pg ap) i (ax_sub cl) expected claim) st))"

definition handle_submit :: "(string \<Rightarrow> store \<Rightarrow> response \<times> store) api_handler" where
  "handle_submit ap oc cl i st = answered (db_refusal ''submit_failed'') (\<lambda>s. json_answer 200 (status_js s))
     (WithTx (oc_fault oc) (CandidateSubmit (ap_pg ap) i (ax_sub cl)) st)"

definition handle_cancel :: "(string \<Rightarrow> store \<Rightarrow> response \<times> store) api_handler" where
  "handle_cancel ap oc cl i st = answered (db_refusal ''cancel_failed'') (\<lambda>_. no_content)
     (WithTx (oc_fault oc) (CandidateCancel (ap_pg ap) i (ax_sub cl)) st)"

definition handle_attest :: "(string \<Rightarrow> jsval \<Rightarrow> store \<Rightarrow> response \<times> store) api_handler" where
  "handle_attest ap oc cl i body st = (case AttestReq body of
       None \<Rightarrow> (writeErr 400 ''invalid_body'', st)
     | Some (employer, ty, resp) \<Rightarrow>
         answered (db_refusal ''attest_failed'') (\<lambda>out. json_answer 200 (attest_js out))
           (WithTx (oc_fault oc) (EmployerAttestServerSigned (ap_pg ap) (ap_signer ap) (oc_time oc) i employer (ax_sub cl) ty resp) st))"

definition handle_queue :: "(query_values \<Rightarrow> store \<Rightarrow> response \<times> store) api_handler" where
  "handle_queue ap oc cl qs st =
     (let employer = TrimSpace (query_default qs ''employer_id'' []) in
      if employer = [] then (writeErr 400 ''missing_employer_id'', st)
      else answered (read_refusal ''list_failed'')
        (\<lambda>rows. json_answer 200 (JObj [(''items'', JArr (map (request_list_js (ap_pg ap)) rows))]))
        (WithTx (oc_fault oc) (EmployerList (ap_pg ap) employer (ax_sub cl) 100) st))"

definition handle_review :: "(string \<Rightarrow> query_values \<Rightarrow> store \<Rightarrow> response \<times> store) api_handler" where
  "handle_review ap oc cl i qs st =
     (let employer = TrimSpace (query_default qs ''employer_id'' []) in
      if employer = [] then (writeErr 400 ''missing_employer_id'', st)
      else answered (read_refusal ''get_failed'') (\<lambda>r. json_answer 200 (hr_request_js (ap_pg ap) r))
        (WithTx (oc_fault oc) (EmployerGet (ap_pg ap) i employer (ax_sub cl)) st))"

definition handle_verify :: "(string \<Rightarrow> jsval \<Rightarrow> store \<Rightarrow> response \<times> store) api_handler" where
  "handle_verify ap oc cl i body st =
     (let ps = lenient_members body; trust = lenient_member ''trust_result'' ps [] in
      answered (db_refusal ''verify_failed'')
        (\<lambda>_. json_answer 200 (status_js (if trust = ''UNVERIFIED'' then ''UNVERIFIED'' else ''VERIFIED'')))
        (WithTx (oc_fault oc) (InternalVerify (ap_pg ap) i trust (lenient_member ''evt_token_jws'' ps [])) st))"

definition handle_close :: "(string \<Rightarrow> store \<Rightarrow> response \<times> store) api_handler" where
  "handle_close ap oc cl i st = answered (db_refusal ''close_failed'') (\<lambda>_. json_answer 200 (status_js ''CLOSED''))
     (WithTx (oc_fault oc) (InternalClose (ap_pg ap) i) st)"

definition handle_consume :: "(string \<Rightarrow> jsval \<Rightarrow> store \<Rightarrow> response \<times> store) api_handler" where
  "handle_consume ap oc cl i body st =
     (let ps = lenient_members body in
      answered (db_refusal ''consume_failed'') (\<lambda>_. json_answer 200 (status_js ''CONSUMED''))
        (WithTx (oc_fault oc) (RecruiterConsume (ap_pg ap) i (ax_sub cl) (lenient_member ''consumer_ref'' ps [])
           (case raw_member ''context'' ps None of None \<Rightarrow> [] | Some v \<Rightarrow> json_text v)) st))"

definition handle_candidates :: "(query_values \<Rightarrow> store \<Rightarrow> response \<times> store) api_handler" where
  "handle_candidates ap oc cl qs st = (case read_list_args (ap_codec ap) qs of
       Inl code \<Rightarrow> (writeErr 400 code, st)
     | Inr q \<Rightarrow>
         answered (\<lambda>_. writeErr 500 ''list_failed'')
           (\<lambda>(items, nxt). json_answer 200 (JObj ((''items'', JArr (map candidate_js items)) # opt_member ''next_cursor'' nxt)))
           (WithTx (oc_fault oc) (RecruiterCandidateList (ap_pg ap) (ap_codec ap) (ax_sub cl) q) st))"

definition RecruiterCompanyOptions :: "string list tx" where
  "RecruiterCompanyOptions = tx_read (\<lambda>st. str_sort (remdups (map er_employer (filter (\<lambda>r. er_employer r \<noteq> [] \<and>
     er_status r \<in> {''VERIFIED'', ''UNVERIFIED'', ''CONSUMED'', ''CLOSED'', ''ATTESTED'', ''REJECTED''}) (evt_requests st)))))"

definition handle_options :: "(store \<Rightarrow> response \<times> store) api_handler" where
  "handle_options ap oc cl st = answered (\<lambda>_. writeErr 500 ''options_failed'')
     (\<lambda>cs. json_answer 200 (JObj
        [(''companies'', JArr (map (\<lambda>c. JObj [(''company_id'', JStr c), (''name'', JStr c)]) cs)),
         (''signature_status_options'', JArr (map JStr signature_values)),
         (''trust_mode_options'', JArr (map JStr [''any'', ''trusted_only'', ''include_untrusted'']))]))
     (WithTx (oc_fault oc) RecruiterCompanyOptions st)"

section \<open>The routes\<close>

datatype api_route = RList | RGet string | RCreate | RPatch string | RSubmit string | RCancel string
  | HrQueue | HrReview string | HrAttest string | InVerify string | InClose string | TkConsume string
  | RcCandidates | RcOptions | OutcomeRoute

text \<open>A parameter of a path is a segment that is not empty.\<close>

definition Register :: "string \<Rightarrow> string list \<Rightarrow> api_route option" where
  "Register verb path =
     (case path of
       [a] \<Rightarrow> if a \<noteq> ''requests'' then None
         else if verb = ''GET'' then Some RList else if verb = ''POST'' then Some RCreate else None
     | [a, b] \<Rightarrow>
         if a = ''requests'' \<and> b \<noteq> [] then
           (if verb = ''GET'' then Some (RGet b) else if verb = ''PATCH'' then Some (RPatch b) else None)
         else if a = ''employer'' \<and> b = ''requests'' \<and> verb = ''GET'' then Some HrQueue
         else if a = ''recruiter'' \<and> b = ''candidates'' \<and> verb = ''GET'' then Some RcCandidates
         else if a = ''verification'' \<and> b = ''outcome'' \<and> verb = ''POST'' then Some OutcomeRoute
         else None
     | [a, b, c] \<Rightarrow>
         if a = ''requests'' \<and> b \<noteq> [] \<and> verb = ''POST'' then
           (if c = ''submit'' then Some (RSubmit b) else if c = ''cancel'' then Some (RCancel b) else None)
         else if a = ''employer'' \<and> b = ''requests'' \<and> c \<noteq> [] \<and> verb = ''GET'' then Some (HrReview c)
         else if a = ''tokens'' \<and> b \<noteq> [] \<and> c = ''consume'' \<and> verb = ''POST'' then Some (TkConsume b)
         else if a = ''recruiter'' \<and> b = ''filters'' \<and> c = ''options'' \<and> verb = ''GET'' then Some RcOptions
         else None
     | [a, b, c, e] \<Rightarrow>
         if a = ''employer'' \<and> b = ''requests'' \<and> c \<noteq> [] \<and> e = ''attest'' \<and> verb = ''POST'' then Some (HrAttest c)
         else if a = ''internal'' \<and> b = ''requests'' \<and> c \<noteq> [] \<and> verb = ''POST'' then
           (if e = ''verify'' then Some (InVerify c) else if e = ''close'' then Some (InClose c) else None)
         else None
     | _ \<Rightarrow> None)"

text \<open>\<open>GinRequireRole\<close> of the group a route is in; the outcome endpoint asks for no role.\<close>

fun role_of :: "api_route \<Rightarrow> string option" where
  "role_of RList = Some ''requestor''"
| "role_of (RGet i) = Some ''requestor''"
| "role_of RCreate = Some ''requestor''"
| "role_of (RPatch i) = Some ''requestor''"
| "role_of (RSubmit i) = Some ''requestor''"
| "role_of (RCancel i) = Some ''requestor''"
| "role_of HrQueue = Some ''hr_reviewer''"
| "role_of (HrReview i) = Some ''hr_reviewer''"
| "role_of (HrAttest i) = Some ''hr_reviewer''"
| "role_of (InVerify i) = Some ''cvera''"
| "role_of (InClose i) = Some ''cvera''"
| "role_of (TkConsume i) = Some ''recruiter''"
| "role_of RcCandidates = Some ''recruiter''"
| "role_of RcOptions = Some ''recruiter''"
| "role_of OutcomeRoute = None"

fun handle :: "api \<Rightarrow> occasion \<Rightarrow> access_claims \<Rightarrow> api_route \<Rightarrow> query_values \<Rightarrow> request \<Rightarrow> store \<Rightarrow> response \<times> store" where
  "handle ap oc cl RList qs rq st = handle_list ap oc cl st"
| "handle ap oc cl (RGet i) qs rq st = handle_get ap oc cl i st"
| "handle ap oc cl RCreate qs rq st = handle_create ap oc cl (rq_body rq) st"
| "handle ap oc cl (RPatch i) qs rq st = handle_patch ap oc cl i (rq_body rq) st"
| "handle ap oc cl (RSubmit i) qs rq st = handle_submit ap oc cl i st"
| "handle ap oc cl (RCancel i) qs rq st = handle_cancel ap oc cl i st"
| "handle ap oc cl HrQueue qs rq st = handle_queue ap oc cl qs st"
| "handle ap oc cl (HrReview i) qs rq st = handle_review ap oc cl i qs st"
| "handle ap oc cl (HrAttest i) qs rq st = handle_attest ap oc cl i (rq_body rq) st"
| "handle ap oc cl (InVerify i) qs rq st = handle_verify ap oc cl i (rq_body rq) st"
| "handle ap oc cl (InClose i) qs rq st = handle_close ap oc cl i st"
| "handle ap oc cl (TkConsume i) qs rq st = handle_consume ap oc cl i (rq_body rq) st"
| "handle ap oc cl RcCandidates qs rq st = handle_candidates ap oc cl qs st"
| "handle ap oc cl RcOptions qs rq st = handle_options ap oc cl st"
| "handle ap oc cl OutcomeRoute qs rq st = (HandleVerificationOutcome (ap_profile ap) False rq, st)"

definition not_found :: response where
  "not_found = \<lparr>rs_status = 404, rs_text = ''404 page not found'', rs_json = None\<rparr>"

text \<open>
  A call of the module, its path below \<open>/v1\<close> and its query already taken apart: the token first, on
  an unknown path too, then the route and its role, which group and handler check alike.
\<close>

definition serve :: "api \<Rightarrow> occasion \<Rightarrow> string list \<Rightarrow> query_values \<Rightarrow> request \<Rightarrow> store \<Rightarrow> response \<times> store" where
  "serve ap oc path qs rq st = (case GinRequireAuth (ap_parse ap) rq of
       Inl code \<Rightarrow> (writeErr 401 code, st)
     | Inr cl \<Rightarrow>
         (case Register (rq_method rq) path of
            None \<Rightarrow> (not_found, st)
          | Some route \<Rightarrow>
              (case role_of route of
                 Some role \<Rightarrow> if HasRole cl role then handle ap oc cl route qs rq st else (writeErr 403 ''forbidden'', st)
               | None \<Rightarrow> handle ap oc cl route qs rq st)))"

text \<open>The parts of an address below the base the server is deployed at.\<close>

definition path_unescape :: "string \<Rightarrow> string" where
  "path_unescape s = join_with ''+'' (map form_decode (split_on CHR ''+'' s))"

definition below_v1 :: "string \<Rightarrow> string \<Rightarrow> string option" where
  "below_v1 base url = (if starts_with url (base @ ''/v1/'') then Some (drop (length base + 4) url) else None)"

definition url_path :: "string \<Rightarrow> string list" where
  "url_path rest = map path_unescape (split_on CHR ''/'' (takeWhile (\<lambda>c. c \<noteq> CHR ''?'') rest))"

definition url_query :: "string \<Rightarrow> query_values" where
  "url_query rest = (let qs = tl (dropWhile (\<lambda>c. c \<noteq> CHR ''?'') rest) in if qs = [] then [] else read_query_string qs)"

definition serve_url :: "api \<Rightarrow> occasion \<Rightarrow> string \<Rightarrow> request \<Rightarrow> store \<Rightarrow> response \<times> store" where
  "serve_url ap oc base rq st = (case below_v1 base (rq_url rq) of
       None \<Rightarrow> (not_found, st)
     | Some rest \<Rightarrow> serve ap oc (url_path rest) (url_query rest) rq st)"

end
