(* ===== verification/RequestSafety.thy ===== *)
theory RequestSafety
  imports RequestStore
begin

text \<open>
  Properties of the server's request store. Every transaction is a sequence of steps of an abstract
  lifecycle (\<open>life_step\<close>): a request is created, moves along an edge with an event that records it,
  or is noted. The invariants are proved on those steps.
\<close>

section \<open>The abstract lifecycle\<close>

inductive edge :: "string option \<Rightarrow> string \<Rightarrow> bool" where
  "edge None ''DRAFT''"
| "edge (Some ''DRAFT'') ''DRAFT''"
| "edge (Some ''DRAFT'') ''SUBMITTED''"
| "edge (Some ''SUBMITTED'') ''SUBMITTED''"
| "edge (Some ''SUBMITTED'') ''ATTESTATION_PENDING''"
| "edge (Some ''DRAFT'') ''CANCELED''"
| "edge (Some ''SUBMITTED'') ''CANCELED''"
| "edge (Some ''ATTESTATION_PENDING'') ''ATTESTED''"
| "edge (Some ''ATTESTATION_PENDING'') ''REJECTED''"
| "edge (Some ''ATTESTED'') ''VERIFIED''"
| "edge (Some ''ATTESTED'') ''UNVERIFIED''"
| "edge (Some ''VERIFIED'') ''CONSUMED''"
| "edge (Some ''UNVERIFIED'') ''CONSUMED''"
| "edge (Some ''CONSUMED'') ''CLOSED''"

definition attested_statuses :: "string set" where
  "attested_statuses = {''ATTESTED'', ''VERIFIED'', ''UNVERIFIED'', ''CONSUMED'', ''CLOSED''}"

definition evaluated_statuses :: "string set" where
  "evaluated_statuses = {''VERIFIED'', ''UNVERIFIED'', ''CONSUMED'', ''CLOSED''}"

definition open_statuses :: "string set" where
  "open_statuses = {''DRAFT'', ''SUBMITTED'', ''ATTESTATION_PENDING'', ''CANCELED''}"

text \<open>What the columns of a row hold in each status.\<close>

definition row_ok :: "evt_request \<Rightarrow> bool" where
  "row_ok r = (1 \<le> er_version r
     \<and> er_status r \<in> attested_statuses \<union> open_statuses \<union> {''REJECTED''}
     \<and> (er_jws r \<noteq> None \<longleftrightarrow> er_status r \<in> attested_statuses)
     \<and> (er_status r \<in> attested_statuses \<longrightarrow> er_response_type r \<in> {Some ''FULL_MATCH'', Some ''PARTIAL_MATCH''})
     \<and> (er_status r = ''REJECTED'' \<longrightarrow> er_response_type r \<in> {Some ''REJECTED_NO_RECORD'', Some ''REJECTED_POLICY''})
     \<and> (er_status r \<in> open_statuses \<longrightarrow> er_response_type r = None)
     \<and> (er_trust_result r \<noteq> None \<longleftrightarrow> er_status r \<in> evaluated_statuses)
     \<and> (er_status r = ''UNVERIFIED'' \<longrightarrow> er_trust_result r = Some ''UNVERIFIED'')
     \<and> (er_status r = ''VERIFIED'' \<longrightarrow> er_trust_result r \<noteq> Some ''UNVERIFIED''))"

definition same_request :: "evt_request \<Rightarrow> evt_request \<Rightarrow> bool" where
  "same_request r r' = (er_id r' = er_id r \<and> er_candidate r' = er_candidate r \<and> er_employer r' = er_employer r
     \<and> er_created r' = er_created r)"

text \<open>A row's move, and the event that tells of it.\<close>

definition moves :: "evt_request \<Rightarrow> evt_request \<Rightarrow> evt_event \<Rightarrow> bool" where
  "moves r r' e = (same_request r r' \<and> er_version r' = er_version r + 1 \<and> edge (Some (er_status r)) (er_status r')
     \<and> (row_ok r \<longrightarrow> row_ok r') \<and> (er_claim r' \<noteq> er_claim r \<longrightarrow> er_status r = ''DRAFT'')
     \<and> ee_request e = er_id r \<and> ee_from e = Some (er_status r) \<and> ee_to e = er_status r')"

inductive life_step :: "store \<Rightarrow> store \<Rightarrow> bool" where
  idle: "evt_requests st' = evt_requests st \<Longrightarrow> evt_events st' = evt_events st \<Longrightarrow> life_step st st'"
| create: "er_id r \<notin> er_id ` set (evt_requests st) \<Longrightarrow> row_ok r \<Longrightarrow> er_status r = ''DRAFT'' \<Longrightarrow> er_version r = 1 \<Longrightarrow>
    ee_request e = er_id r \<Longrightarrow> ee_from e = None \<Longrightarrow> ee_to e = ''DRAFT'' \<Longrightarrow>
    evt_requests st' = evt_requests st @ [r] \<Longrightarrow> evt_events st' = evt_events st @ [e] \<Longrightarrow> life_step st st'"
| move: "r \<in> set (evt_requests st) \<Longrightarrow> moves r (f r) e \<Longrightarrow>
    evt_requests st' = map (\<lambda>x. if er_id x = er_id r then f x else x) (evt_requests st) \<Longrightarrow>
    evt_events st' = evt_events st @ [e] \<Longrightarrow> life_step st st'"
| remark: "r \<in> set (evt_requests st) \<Longrightarrow> ee_request e = er_id r \<Longrightarrow> er_status r = ''SUBMITTED'' \<Longrightarrow>
    ee_from e = Some ''SUBMITTED'' \<Longrightarrow> ee_to e = ''SUBMITTED'' \<Longrightarrow>
    evt_requests st' = evt_requests st \<Longrightarrow> evt_events st' = evt_events st @ [e] \<Longrightarrow> life_step st st'"

section \<open>The invariant\<close>

text \<open>A request's events as a walk through the lifecycle, to the status they end in.\<close>

fun walk :: "string option \<Rightarrow> evt_event list \<Rightarrow> string option option" where
  "walk cur [] = Some cur"
| "walk cur (e # es) = (if ee_from e = cur \<and> edge cur (ee_to e) then walk (Some (ee_to e)) es else None)"

definition events_of :: "store \<Rightarrow> string \<Rightarrow> evt_event list" where
  "events_of st i = filter (\<lambda>e. ee_request e = i) (evt_events st)"

definition store_ok :: "store \<Rightarrow> bool" where
  "store_ok st = (distinct (map er_id (evt_requests st))
     \<and> (\<forall>r \<in> set (evt_requests st). row_ok r \<and> walk None (events_of st (er_id r)) = Some (Some (er_status r)))
     \<and> (\<forall>e \<in> set (evt_events st). ee_request e \<in> er_id ` set (evt_requests st)))"

lemma walk_snoc: "walk cur (es @ [e]) = (case walk cur es of None \<Rightarrow> None
    | Some c \<Rightarrow> if ee_from e = c \<and> edge c (ee_to e) then Some (Some (ee_to e)) else None)"
  by (induction es arbitrary: cur) auto

lemma events_of_snoc:
  "evt_events st' = evt_events st @ [e] \<Longrightarrow> events_of st' i = events_of st i @ (if ee_request e = i then [e] else [])"
  by (simp add: events_of_def)

lemma same_id: "distinct (map er_id rs) \<Longrightarrow> r \<in> set rs \<Longrightarrow> x \<in> set rs \<Longrightarrow> er_id x = er_id r \<Longrightarrow> x = r"
  by (metis (no_types, lifting) distinct_map inj_onD)

lemma moved_ids:
  "(\<And>x. x \<in> set rs \<Longrightarrow> er_id x = i \<Longrightarrow> er_id (f x) = i) \<Longrightarrow>
   map er_id (map (\<lambda>x. if er_id x = i then f x else x) rs) = map er_id rs"
  by (induction rs) auto

lemma life_step_ok:
  assumes "life_step st st'" "store_ok st"
  shows "store_ok st'"
  using assms(1)
proof cases
  case idle
  with assms(2) show ?thesis by (simp add: store_ok_def events_of_def)
next
  case (create r e)
  have "\<forall>e \<in> set (evt_events st). ee_request e \<in> er_id ` set (evt_requests st)"
    using assms(2) by (simp add: store_ok_def)
  with create(1) have fresh: "events_of st (er_id r) = []"
    unfolding events_of_def filter_empty_conv by metis
  show ?thesis using assms(2) create fresh
    by (auto simp: store_ok_def events_of_snoc [OF create(9)] edge.intros)
next
  case (move r f e)
  have dist: "distinct (map er_id (evt_requests st))" using assms(2) by (simp add: store_ok_def)
  have keep: "x \<in> set (evt_requests st) \<Longrightarrow> er_id x = er_id r \<Longrightarrow> er_id (f x) = er_id r" for x
    using same_id [OF dist move(1)] move(2) by (auto simp: moves_def same_request_def)
  have ids: "map er_id (evt_requests st') = map er_id (evt_requests st)"
    unfolding move(3) by (rule moved_ids) (rule keep)
  have ids': "er_id ` set (evt_requests st') = er_id ` set (evt_requests st)"
    using ids by (metis list.set_map)
  have row: "row_ok x' \<and> walk None (events_of st' (er_id x')) = Some (Some (er_status x'))"
    if "x' \<in> set (evt_requests st')" for x'
  proof -
    from that obtain x where x: "x \<in> set (evt_requests st)" "x' = (if er_id x = er_id r then f x else x)"
      unfolding move(3) by auto
    from assms(2) x(1) have old: "row_ok x" "walk None (events_of st (er_id x)) = Some (Some (er_status x))"
      by (auto simp: store_ok_def)
    show ?thesis
    proof (cases "er_id x = er_id r")
      case True
      then have "x = r" by (rule same_id [OF dist move(1) x(1)])
      with x(2) old move(2) show ?thesis
        by (auto simp: moves_def same_request_def events_of_snoc [OF move(4)] walk_snoc)
    next
      case False
      with x(2) old move(2) show ?thesis by (simp add: moves_def events_of_snoc [OF move(4)])
    qed
  qed
  show ?thesis using assms(2) row move(1,2) by (auto simp: store_ok_def ids ids' move(4) moves_def)
next
  case (remark r e)
  have dist: "distinct (map er_id (evt_requests st))" using assms(2) by (simp add: store_ok_def)
  have "walk None (events_of st' (er_id x)) = Some (Some (er_status x))" if x: "x \<in> set (evt_requests st)" for x
    using assms(2) x same_id [OF dist remark(1) x] remark by (cases "er_id x = er_id r")
      (auto simp: store_ok_def events_of_snoc [OF remark(7)] walk_snoc edge.intros)
  with assms(2) remark show ?thesis by (auto simp: store_ok_def)
qed

section \<open>Every transaction is a sequence of such steps\<close>

lemmas tx_defs = tx_return_def tx_fail_def tx_bind_def tx_read_def tx_write_def tx_some_def tx_guard_def
  select_request_def update_requests_def insertEvent_def uuid_def own_request_def set_status_def any_request_def Authorize_def

definition lives :: "'a tx \<Rightarrow> bool" where
  "lives f = (\<forall>st a st'. f st = (Inr a, st') \<longrightarrow> distinct (map er_id (evt_requests st)) \<longrightarrow> life_step\<^sup>*\<^sup>* st st')"

lemma livesI: "(\<And>st a st'. f st = (Inr a, st') \<Longrightarrow> distinct (map er_id (evt_requests st)) \<Longrightarrow> life_step\<^sup>*\<^sup>* st st') \<Longrightarrow> lives f"
  by (simp add: lives_def)

lemma find_row: "find P rs = Some r \<Longrightarrow> r \<in> set rs \<and> P r"
  by (auto simp: find_Some_iff)

lemma lives_create: "lives (CandidateCreateDraft d i person employer claim)"
proof (rule livesI)
  fix st a st' assume run: "CandidateCreateDraft d i person employer claim st = (Inr a, st')"
  let ?st = "snd (ensureEmployerConfig employer st)"
  have same: "evt_requests ?st = evt_requests st" "evt_events ?st = evt_events st"
    by (simp_all add: ensureEmployerConfig_def tx_write_def)
  from run obtain p c where st': "find (\<lambda>r. er_id r = i) (evt_requests st) = None"
    "evt_requests st' = evt_requests st @ [\<lparr>er_id = i, er_candidate = p, er_employer = employer,
        er_status = ''DRAFT'', er_claim = c, er_created = pg_time d, er_updated = pg_time d, er_version = 1,
        er_response_type = None, er_response = None, er_jws = None, er_trust_result = None, er_token = None\<rparr>]"
    "evt_events st' = evt_events st @ [\<lparr>ee_request = i, ee_role = ''candidate'', ee_person = Some person,
        ee_type = ''DRAFT_CREATED'', ee_from = None, ee_to = ''DRAFT''\<rparr>]"
    using same by (auto simp: CandidateCreateDraft_def tx_defs ensureEmployerConfig_def split: option.splits if_splits)
  have "life_step st st'"
    by (rule life_step.create [OF _ _ _ _ _ _ _ st'(2,3)])
      (use st'(1) in \<open>auto simp: find_None_iff row_ok_def open_statuses_def attested_statuses_def evaluated_statuses_def\<close>)
  then show "life_step\<^sup>*\<^sup>* st st'" by blast
qed

definition bump :: "pg \<Rightarrow> (evt_request \<Rightarrow> evt_request) \<Rightarrow> evt_request \<Rightarrow> evt_request" where
  "bump d f r = (let r' = (f r)\<lparr>er_version := er_version r + 1\<rparr> in r'\<lparr>er_updated := pg_stamp d r'\<rparr>)"

lemma bump_simps [simp]:
  "er_id (bump d f r) = er_id (f r)" "er_candidate (bump d f r) = er_candidate (f r)"
  "er_employer (bump d f r) = er_employer (f r)" "er_status (bump d f r) = er_status (f r)"
  "er_claim (bump d f r) = er_claim (f r)" "er_created (bump d f r) = er_created (f r)"
  "er_version (bump d f r) = er_version r + 1" "er_response_type (bump d f r) = er_response_type (f r)"
  "er_jws (bump d f r) = er_jws (f r)" "er_trust_result (bump d f r) = er_trust_result (f r)"
  by (simp_all add: bump_def Let_def)

lemma update_is_bump:
  "update_requests d P f st = (Inr (), st\<lparr>evt_requests := map (\<lambda>r. if P r then bump d f r else r) (evt_requests st)\<rparr>)"
  by (simp add: update_requests_def tx_write_def bump_def)

lemmas tx_eval = tx_bind_def uuid_def tx_some_def tx_fail_def tx_return_def select_request_def tx_read_def tx_guard_def
  update_is_bump insertEvent_def tx_write_def own_request_def set_status_def any_request_def Authorize_def

text \<open>An update of the one row read, followed by its event.\<close>

lemma move_step:
  assumes "distinct (map er_id (evt_requests st))" "r \<in> set (evt_requests st)" "moves r (bump d f r) e"
    and "\<And>x. x \<in> set (evt_requests st) \<Longrightarrow> P x \<longleftrightarrow> er_id x = er_id r"
    and "evt_requests st' = map (\<lambda>x. if P x then bump d f x else x) (evt_requests st)"
    and "evt_events st' = evt_events st @ [e]"
  shows "life_step st st'"
  by (rule life_step.move [where f = "bump d f" and r = r and e = e]) (use assms in auto)

lemmas row_ok_defs = row_ok_def open_statuses_def attested_statuses_def evaluated_statuses_def

lemmas moves_defs = moves_def same_request_def edge.simps row_ok_defs

lemma lives_update: "lives (CandidateUpdateDraft d requestID person expected claim)"
proof (rule livesI)
  fix st a st'
  assume run: "CandidateUpdateDraft d requestID person expected claim st = (Inr a, st')"
    and dist: "distinct (map er_id (evt_requests st))"
  from run obtain i p r where
    r: "find (\<lambda>r. er_id r = i \<and> er_candidate r = p \<and> er_status r = ''DRAFT'' \<and> er_version r = expected) (evt_requests st) = Some r"
    and st': "evt_requests st' = map (\<lambda>x. if er_id x = i \<and> er_candidate x = p \<and> er_status x = ''DRAFT'' \<and> er_version x = expected
        then bump d (\<lambda>r. r\<lparr>er_claim := claim\<rparr>) x else x) (evt_requests st)"
    "evt_events st' = evt_events st @ [\<lparr>ee_request = i, ee_role = ''candidate'', ee_person = Some person,
        ee_type = ''DRAFT_UPDATED'', ee_from = Some ''DRAFT'', ee_to = ''DRAFT''\<rparr>]"
    by (auto simp: CandidateUpdateDraft_def tx_eval Let_def split: option.splits if_splits)
  note hit = find_row [OF r]
  have "life_step st st'"
    by (rule move_step [OF dist _ _ _ st', of r])
      (use hit same_id [OF dist] in \<open>auto simp: moves_defs\<close>)
  then show "life_step\<^sup>*\<^sup>* st st'" by blast
qed

text \<open>An operation that moves one row with one event.\<close>

lemma one_move:
  assumes "distinct (map er_id (evt_requests st))" "find P (evt_requests st) = Some r"
    and "moves r (bump d f r) e" "evt_events st' = evt_events st @ [e]"
    and "evt_requests st' = map (\<lambda>x. if er_id x = er_id r then bump d f x else x) (evt_requests st)"
  shows "life_step\<^sup>*\<^sup>* st st'"
proof -
  have "r \<in> set (evt_requests st)" using assms(2) by (simp add: find_row)
  from move_step [OF assms(1) this assms(3) _ assms(5,4)] show ?thesis by blast
qed

lemma lives_cancel: "lives (CandidateCancel d requestID person)"
proof (rule livesI)
  fix st a st'
  assume run: "CandidateCancel d requestID person st = (Inr a, st')" and dist: "distinct (map er_id (evt_requests st))"
  from run obtain i p r where r: "find (\<lambda>r. er_id r = i \<and> er_candidate r = p) (evt_requests st) = Some r"
    "er_status r = ''DRAFT'' \<or> er_status r = ''SUBMITTED''"
    and st': "evt_requests st' = map (\<lambda>x. if er_id x = er_id r then bump d (\<lambda>r. r\<lparr>er_status := ''CANCELED''\<rparr>) x else x) (evt_requests st)"
    "evt_events st' = evt_events st @ [\<lparr>ee_request = er_id r, ee_role = ''candidate'', ee_person = Some person,
        ee_type = ''REQUEST_CANCELED'', ee_from = Some (er_status r), ee_to = ''CANCELED''\<rparr>]"
    by (auto simp: CandidateCancel_def tx_eval Let_def split: option.splits if_splits)
  show "life_step\<^sup>*\<^sup>* st st'"
    by (rule one_move [OF dist r(1) _ st'(2,1)]) (use r(2) in \<open>elim disjE; simp add: moves_defs\<close>)
qed

lemma lives_close: "lives (InternalClose d requestID)"
proof (rule livesI)
  fix st a st'
  assume run: "InternalClose d requestID st = (Inr a, st')" and dist: "distinct (map er_id (evt_requests st))"
  from run obtain i r where r: "find (\<lambda>r. er_id r = i) (evt_requests st) = Some r" "er_status r = ''CONSUMED''"
    and st': "evt_requests st' = map (\<lambda>x. if er_id x = er_id r then bump d (\<lambda>r. r\<lparr>er_status := ''CLOSED''\<rparr>) x else x) (evt_requests st)"
    "evt_events st' = evt_events st @ [\<lparr>ee_request = er_id r, ee_role = ''cvera'', ee_person = None,
        ee_type = ''REQUEST_CLOSED'', ee_from = Some ''CONSUMED'', ee_to = ''CLOSED''\<rparr>]"
    by (auto simp: InternalClose_def tx_eval Let_def split: option.splits if_splits)
  show "life_step\<^sup>*\<^sup>* st st'"
    by (rule one_move [OF dist r(1) _ st'(2,1)]) (use r(2) in \<open>simp add: moves_defs\<close>)
qed

lemma lives_verify: "lives (InternalVerify d requestID trust token)"
proof (rule livesI)
  fix st a st'
  assume run: "InternalVerify d requestID trust token st = (Inr a, st')" and dist: "distinct (map er_id (evt_requests st))"
  let ?to = "if trust = ''UNVERIFIED'' then ''UNVERIFIED'' else ''VERIFIED''"
  from run obtain i r where r: "find (\<lambda>r. er_id r = i) (evt_requests st) = Some r" "er_status r = ''ATTESTED''"
    and st': "evt_requests st' = map (\<lambda>x. if er_id x = er_id r then bump d (\<lambda>r. r\<lparr>er_status := ?to, er_trust_result := Some trust,
        er_token := Some token\<rparr>) x else x) (evt_requests st)"
    "evt_events st' = evt_events st @ [\<lparr>ee_request = er_id r, ee_role = ''cvera'', ee_person = None,
        ee_type = ''TRUST_EVALUATED'', ee_from = Some ''ATTESTED'', ee_to = ?to\<rparr>]"
    by (auto simp: InternalVerify_def tx_eval Let_def split: option.splits if_splits)
  show "life_step\<^sup>*\<^sup>* st st'"
    by (rule one_move [OF dist r(1) _ st'(2,1)]) (use r(2) in \<open>simp add: moves_defs\<close>)
qed

lemma lives_consume: "lives (RecruiterConsume d requestID person agent ip)"
proof (rule livesI)
  fix st a st'
  assume run: "RecruiterConsume d requestID person agent ip st = (Inr a, st')" and dist: "distinct (map er_id (evt_requests st))"
  show "life_step\<^sup>*\<^sup>* st st'"
  proof (cases "evt_events st' = evt_events st")
    case True
    with run have "life_step st st'"
      by (intro life_step.idle) (auto simp: RecruiterConsume_def tx_eval Let_def split: option.splits if_splits)
    then show ?thesis by blast
  next
    case False
    with run obtain i r where r: "find (\<lambda>r. er_id r = i) (evt_requests st) = Some r"
      "er_status r = ''VERIFIED'' \<or> er_status r = ''UNVERIFIED''"
      and st': "evt_requests st' = map (\<lambda>x. if er_id x = er_id r then bump d (\<lambda>r. r\<lparr>er_status := ''CONSUMED''\<rparr>) x else x) (evt_requests st)"
      "evt_events st' = evt_events st @ [\<lparr>ee_request = er_id r, ee_role = ''recruiter'', ee_person = Some person,
          ee_type = ''TOKEN_CONSUMED'', ee_from = Some (er_status r), ee_to = ''CONSUMED''\<rparr>]"
      by (auto simp: RecruiterConsume_def tx_eval Let_def split: option.splits if_splits)
    show ?thesis
      by (rule one_move [OF dist r(1) _ st'(2,1)]) (use r(2) in \<open>elim disjE; simp add: moves_defs\<close>)
  qed
qed

lemma authorized_state:
  "Authorize d person employer st = (Inr u, st1) \<Longrightarrow> st1 = st"
  by (auto simp: Authorize_def tx_eval split: option.splits if_splits)

lemma lives_attest: "lives (EmployerAttestServerSigned d signer at requestID employer person ty body)"
proof (rule livesI)
  fix st a st'
  assume run: "EmployerAttestServerSigned d signer at requestID employer person ty body st = (Inr a, st')"
    and dist: "distinct (map er_id (evt_requests st))"
  obtain u st1 where "Authorize d person employer st = (Inr u, st1)"
    using run by (auto simp: EmployerAttestServerSigned_def tx_bind_def split: prod.splits sum.splits)
  then have auth: "Authorize d person employer st = (Inr u, st)" using authorized_state by blast
  let ?ev = "\<lambda>i too. \<lparr>ee_request = i, ee_role = ''employer_hr'', ee_person = Some person, ee_type = ''HR_ATTESTED'',
      ee_from = Some ''ATTESTATION_PENDING'', ee_to = too\<rparr>"
  show "life_step\<^sup>*\<^sup>* st st'"
  proof (cases "decided_status ty = ''ATTESTED''")
    case True
    with run auth obtain i r jws where r: "find (\<lambda>r. er_id r = i \<and> er_employer r = employer) (evt_requests st) = Some r"
        "er_status r = ''ATTESTATION_PENDING''" "ty = ''FULL_MATCH'' \<or> ty = ''PARTIAL_MATCH''"
      and st': "evt_requests st' = map (\<lambda>x. if er_id x = i then bump d (\<lambda>r. r\<lparr>er_status := ''ATTESTED'',
          er_response_type := Some ty, er_response := Some body, er_jws := Some jws\<rparr>) x else x) (evt_requests st)"
        "evt_events st' = evt_events st @ [?ev i ''ATTESTED'']"
      by (simp add: EmployerAttestServerSigned_def tx_bind_def [of "Authorize d person employer"])
        (auto simp: tx_eval Let_def simp del: map_eq_conv split: option.splits if_splits prod.splits)
    have i: "i = er_id r" using find_row [OF r(1)] by simp
    show ?thesis
      by (rule one_move [OF dist r(1) _ st'(2) [unfolded i] st'(1) [unfolded i]])
        (use r(2,3) in \<open>elim disjE; simp add: moves_defs\<close>)
  next
    case False
    then have ty: "ty = ''REJECTED_NO_RECORD'' \<or> ty = ''REJECTED_POLICY''" "decided_status ty = ''REJECTED''"
      by (auto simp: decided_status_def split: if_splits)
    with run auth obtain i r where r: "find (\<lambda>r. er_id r = i \<and> er_employer r = employer) (evt_requests st) = Some r"
        "er_status r = ''ATTESTATION_PENDING''"
      and st': "evt_requests st' = map (\<lambda>x. if er_id x = i then bump d (\<lambda>r. r\<lparr>er_status := ''REJECTED'',
          er_response_type := Some ty, er_response := Some body\<rparr>) x else x) (evt_requests st)"
        "evt_events st' = evt_events st @ [?ev i ''REJECTED'']"
      by (simp add: EmployerAttestServerSigned_def tx_bind_def [of "Authorize d person employer"])
        (auto simp: tx_eval Let_def simp del: map_eq_conv split: option.splits if_splits prod.splits)
    have i: "i = er_id r" using find_row [OF r(1)] by simp
    show ?thesis
      by (rule one_move [OF dist r(1) _ st'(2) [unfolded i] st'(1) [unfolded i]])
        (use r(2) ty(1) in \<open>elim disjE; simp add: moves_defs\<close>)
  qed
qed

text \<open>Submitting: the row moves to SUBMITTED, and from there on in AUTO mode, or is noted.\<close>

definition submitted :: "pg \<Rightarrow> string \<Rightarrow> evt_request \<Rightarrow> store \<Rightarrow> store" where
  "submitted d person r st = st\<lparr>evt_requests := map (\<lambda>x. if er_id x = er_id r then bump d (\<lambda>r. r\<lparr>er_status := ''SUBMITTED''\<rparr>) x else x) (evt_requests st),
     evt_events := evt_events st @ [\<lparr>ee_request = er_id r, ee_role = ''candidate'', ee_person = Some person,
        ee_type = ''REQUEST_SUBMITTED'', ee_from = Some ''DRAFT'', ee_to = ''SUBMITTED''\<rparr>]\<rparr>"

lemma own_request_read:
  assumes "own_request d requestID person st = (Inr r, st1)"
  shows "st1 = st \<and> (\<exists>i p. pg_uuid d requestID = Some i \<and> pg_uuid d person = Some p
    \<and> find (\<lambda>r. er_id r = i \<and> er_candidate r = p) (evt_requests st) = Some r)"
proof -
  obtain i where i: "pg_uuid d requestID = Some i"
    using assms by (cases "pg_uuid d requestID") (simp_all add: tx_eval)
  obtain p where p: "pg_uuid d person = Some p"
    using assms i by (cases "pg_uuid d person") (simp_all add: tx_eval)
  show ?thesis
    using assms i p by (cases "find (\<lambda>r. er_id r = i \<and> er_candidate r = p) (evt_requests st)") (simp_all add: tx_eval)
qed

lemma submit_cases:
  assumes "CandidateSubmit d requestID person st = (Inr a, st')"
  obtains i p r mode e where "find (\<lambda>r. er_id r = i \<and> er_candidate r = p) (evt_requests st) = Some r" "er_status r = ''DRAFT''"
    "evt_events st' = evt_events (submitted d person r st) @ [e]" "ee_request e = er_id r" "ee_from e = Some ''SUBMITTED''"
    "map_of (evt_config st) (er_employer r) = Some mode"
    "mode = ''AUTO'' \<and> a = ''ATTESTATION_PENDING'' \<and> ee_to e = ''ATTESTATION_PENDING'' \<and> evt_requests st' =
       map (\<lambda>x. if er_id x = er_id r \<and> er_status x = ''SUBMITTED'' then bump d (\<lambda>x. x\<lparr>er_status := ''ATTESTATION_PENDING''\<rparr>) x else x)
         (evt_requests (submitted d person r st))
     \<or> mode \<noteq> ''AUTO'' \<and> a = ''SUBMITTED'' \<and> ee_to e = ''SUBMITTED'' \<and> evt_requests st' = evt_requests (submitted d person r st)"
proof -
  from assms obtain r st1 where own1: "own_request d requestID person st = (Inr r, st1)"
    by (auto simp: CandidateSubmit_def tx_bind_def [of "own_request d requestID person"] split: prod.splits sum.splits)
  from own_request_read [OF own1] obtain i p where st1: "st1 = st"
    and find: "find (\<lambda>r. er_id r = i \<and> er_candidate r = p) (evt_requests st) = Some r" by blast
  note start = CandidateSubmit_def tx_bind_def [of "own_request d requestID person"] own1 st1
  note small = tx_bind_def tx_guard_def tx_return_def tx_fail_def set_status_def update_is_bump insertEvent_def tx_write_def tx_read_def
  have draft: "er_status r = ''DRAFT''"
  proof (rule ccontr)
    assume "er_status r \<noteq> ''DRAFT''"
    with assms show False by (simp add: start) (simp add: small)
  qed
  obtain mode where mode: "map_of (evt_config st) (er_employer r) = Some mode"
  proof (cases "map_of (evt_config st) (er_employer r)")
    case None
    with assms draft have False by (simp add: start) (simp add: small tx_some_def)
    then show ?thesis ..
  qed
  note r = find draft
  from own1 st1 have "own_request d requestID person st = (Inr r, st)" by simp
  then have step: "CandidateSubmit d requestID person st =
      (if mode = ''AUTO'' then
         tx_bind (update_requests d (\<lambda>x. er_id x = er_id r \<and> er_status x = ''SUBMITTED'') (\<lambda>x. x\<lparr>er_status := ''ATTESTATION_PENDING''\<rparr>)) (\<lambda>_.
         tx_bind (insertEvent (er_id r) ''cvera'' None ''ATTESTATION_DISPATCHED'' (Some ''SUBMITTED'') ''ATTESTATION_PENDING'') (\<lambda>_.
         tx_return ''ATTESTATION_PENDING''))
       else tx_bind (insertEvent (er_id r) ''cvera'' None ''DISPATCH_GUARD_BLOCKED'' (Some ''SUBMITTED'') ''SUBMITTED'') (\<lambda>_.
         tx_return ''SUBMITTED'')) (submitted d person r st)"
    using r(2) mode by (simp add: CandidateSubmit_def tx_bind_def [of "own_request d requestID person"])
      (simp add: tx_bind_def tx_guard_def tx_return_def set_status_def update_is_bump insertEvent_def tx_write_def tx_read_def
        tx_some_def submitted_def)
  show thesis
  proof (cases "mode = ''AUTO''")
    case True
    with assms step show ?thesis
      by (intro that [OF r _ _ _ mode, of "\<lparr>ee_request = er_id r, ee_role = ''cvera'', ee_person = None,
          ee_type = ''ATTESTATION_DISPATCHED'', ee_from = Some ''SUBMITTED'', ee_to = ''ATTESTATION_PENDING''\<rparr>"])
        (auto simp: tx_bind_def update_is_bump insertEvent_def tx_write_def tx_return_def)
  next
    case False
    with assms step show ?thesis
      by (intro that [OF r _ _ _ mode, of "\<lparr>ee_request = er_id r, ee_role = ''cvera'', ee_person = None,
          ee_type = ''DISPATCH_GUARD_BLOCKED'', ee_from = Some ''SUBMITTED'', ee_to = ''SUBMITTED''\<rparr>"])
        (auto simp: tx_bind_def insertEvent_def tx_write_def tx_return_def)
  qed
qed

lemma lives_submit: "lives (CandidateSubmit d requestID person)"
proof (rule livesI)
  fix st a st' assume run: "CandidateSubmit d requestID person st = (Inr a, st')" and dist: "distinct (map er_id (evt_requests st))"
  from run show "life_step\<^sup>*\<^sup>* st st'"
  proof (rule submit_cases)
    fix i p r mode e
    assume r: "find (\<lambda>r. er_id r = i \<and> er_candidate r = p) (evt_requests st) = Some r" "er_status r = ''DRAFT''"
      and ev: "evt_events st' = evt_events (submitted d person r st) @ [e]" "ee_request e = er_id r" "ee_from e = Some ''SUBMITTED''"
      and how: "mode = ''AUTO'' \<and> a = ''ATTESTATION_PENDING'' \<and> ee_to e = ''ATTESTATION_PENDING'' \<and> evt_requests st' =
         map (\<lambda>x. if er_id x = er_id r \<and> er_status x = ''SUBMITTED'' then bump d (\<lambda>x. x\<lparr>er_status := ''ATTESTATION_PENDING''\<rparr>) x else x)
           (evt_requests (submitted d person r st))
       \<or> mode \<noteq> ''AUTO'' \<and> a = ''SUBMITTED'' \<and> ee_to e = ''SUBMITTED'' \<and> evt_requests st' = evt_requests (submitted d person r st)"
    let ?s = "submitted d person r st" and ?r = "bump d (\<lambda>r. r\<lparr>er_status := ''SUBMITTED''\<rparr>) r"
    have first: "life_step\<^sup>*\<^sup>* st ?s"
      by (rule one_move [OF dist r(1), where d = d and f = "\<lambda>r. r\<lparr>er_status := ''SUBMITTED''\<rparr>"])
        (use r(2) in \<open>simp_all add: submitted_def moves_defs\<close>)
    have dist': "distinct (map er_id (evt_requests ?s))"
      using dist by (simp add: submitted_def moved_ids del: map_map)
    have inr: "?r \<in> set (evt_requests ?s)"
      using find_row [OF r(1)] by (force simp: submitted_def)
    have only: "x \<in> set (evt_requests ?s) \<Longrightarrow> er_id x = er_id r \<and> er_status x = ''SUBMITTED'' \<longleftrightarrow> er_id x = er_id ?r" for x
      by (auto simp: submitted_def)
    have "life_step ?s st'"
    proof (cases "mode = ''AUTO''")
      case True
      with how ev show ?thesis
        by (intro move_step [OF dist' inr _ only, where d = d and f = "\<lambda>x. x\<lparr>er_status := ''ATTESTATION_PENDING''\<rparr>" and e = e])
          (simp_all add: moves_defs)
    next
      case False
      with how ev show ?thesis by (intro life_step.remark [OF inr]) simp_all
    qed
    with first show ?thesis by (rule rtranclp.rtrancl_into_rtrancl)
  qed
qed

section \<open>The server's transactions\<close>

text \<open>
  A step of the server is one transaction of the request module, whoever calls it with whatever
  arguments, or a change of the tables it only reads: users, assignments and dispatch modes.
\<close>

inductive request_op :: "pg \<Rightarrow> unit tx \<Rightarrow> bool" where
  "request_op d (tx_bind (CandidateCreateDraft d i person employer claim) (\<lambda>_. tx_return ()))"
| "request_op d (CandidateUpdateDraft d i person expected snap)"
| "request_op d (tx_bind (CandidateSubmit d i person) (\<lambda>_. tx_return ()))"
| "request_op d (CandidateCancel d i person)"
| "request_op d (tx_bind (EmployerAttestServerSigned d signer at i employer person ty body) (\<lambda>_. tx_return ()))"
| "request_op d (InternalVerify d i trust token)"
| "request_op d (InternalClose d i)"
| "request_op d (RecruiterConsume d i person agent ip)"

inductive server_step :: "pg \<Rightarrow> store \<Rightarrow> store \<Rightarrow> bool" where
  transaction: "request_op d f \<Longrightarrow> server_step d st (snd (WithTx fault f st))"
| operator: "evt_requests st' = evt_requests st \<Longrightarrow> evt_events st' = evt_events st \<Longrightarrow> server_step d st st'"

definition empty_store :: "store \<Rightarrow> bool" where
  "empty_store st = (evt_requests st = [] \<and> evt_events st = [])"

lemma lives_unit: "lives f \<Longrightarrow> lives (tx_bind f (\<lambda>_. tx_return ()))"
  by (force simp: lives_def tx_bind_def tx_return_def split: prod.splits sum.splits)

lemma lives_op: "request_op d f \<Longrightarrow> lives f"
  by (induction rule: request_op.induct)
    (simp_all add: lives_unit lives_create lives_update lives_submit lives_cancel lives_attest lives_verify lives_close lives_consume)

lemma step_lives:
  assumes "server_step d st st'" "distinct (map er_id (evt_requests st))"
  shows "life_step\<^sup>*\<^sup>* st st'"
  using assms(1)
proof cases
  case (transaction f fault)
  show ?thesis
  proof (cases "f st")
    case (Pair r st1)
    with transaction lives_op [OF transaction(2)] assms(2) show ?thesis
      by (cases r) (auto simp: WithTx_def lives_def)
  qed
next
  case operator
  then show ?thesis by (blast intro: life_step.idle)
qed

lemma life_steps_ok: "life_step\<^sup>*\<^sup>* st st' \<Longrightarrow> store_ok st \<Longrightarrow> store_ok st'"
  by (induction rule: rtranclp_induct) (auto intro: life_step_ok)

lemma reachable_ok:
  assumes "(server_step d)\<^sup>*\<^sup>* st0 st" "empty_store st0"
  shows "store_ok st"
  using assms(1)
proof (induction rule: rtranclp_induct)
  case base
  with assms(2) show ?case by (simp add: store_ok_def empty_store_def)
next
  case (step st st')
  then show ?case by (meson life_steps_ok step_lives store_ok_def)
qed

text \<open>
  C11. In every state the server's transactions lead to, every request's events are a walk through the
  lifecycle from its creation to its present status, and its columns fit that status: exactly the
  requests from ATTESTED on carry a signed attestation, with a matching response, exactly those
  from the trust evaluation on carry its result, and a rejected one carries a reason and no
  attestation.
\<close>

theorem request_lifecycle:
  assumes "(server_step d)\<^sup>*\<^sup>* st0 st" "empty_store st0" "r \<in> set (evt_requests st)"
  shows "row_ok r \<and> walk None (events_of st (er_id r)) = Some (Some (er_status r))"
  using reachable_ok [OF assms(1,2)] assms(3) by (simp add: store_ok_def)

section \<open>Versions\<close>

definition final_statuses :: "string set" where
  "final_statuses = {''REJECTED'', ''CANCELED'', ''CLOSED''}"

definition later_version :: "evt_request \<Rightarrow> evt_request \<Rightarrow> bool" where
  "later_version r r' = (same_request r r' \<and> er_version r \<le> er_version r' \<and> (er_version r' = er_version r \<longrightarrow> r' = r)
     \<and> (er_status r \<in> final_statuses \<longrightarrow> r' = r))"

lemma later_version_refl: "later_version r r"
  by (simp add: later_version_def same_request_def)

lemma later_version_trans: "later_version r r' \<Longrightarrow> later_version r' r'' \<Longrightarrow> later_version r r''"
  by (auto simp: later_version_def same_request_def)

lemma moves_later: "moves r r' e \<Longrightarrow> later_version r r'"
  by (auto simp: moves_def later_version_def final_statuses_def edge.simps)

lemma life_step_later:
  assumes "life_step st st'" "distinct (map er_id (evt_requests st))" "r \<in> set (evt_requests st)"
  shows "\<exists>r' \<in> set (evt_requests st'). later_version r r'"
  using assms(1)
proof cases
  case (move x f e)
  then show ?thesis
  proof (cases "er_id r = er_id x")
    case True
    then have "r = x" by (rule same_id [OF assms(2) move(1) assms(3)])
    with move assms(3) have "f r \<in> set (evt_requests st')" "later_version r (f r)" by (auto dest: moves_later)
    then show ?thesis by blast
  next
    case False
    with move(3) assms(3) have "r \<in> set (evt_requests st')" by auto
    then show ?thesis using later_version_refl by blast
  qed
qed (use assms(3) later_version_refl in auto)

lemma server_steps_later:
  assumes "(server_step d)\<^sup>*\<^sup>* st st'" "store_ok st" "r \<in> set (evt_requests st)"
  shows "store_ok st' \<and> (\<exists>r' \<in> set (evt_requests st'). later_version r r')"
proof -
  have life: "life_step\<^sup>*\<^sup>* a b \<Longrightarrow> store_ok a \<Longrightarrow> x \<in> set (evt_requests a) \<Longrightarrow>
      store_ok b \<and> (\<exists>y \<in> set (evt_requests b). later_version x y)" for a b x
  proof (induction rule: rtranclp_induct)
    case (step b c)
    then obtain y where y: "y \<in> set (evt_requests b)" "later_version x y" by blast
    from step have ok: "store_ok b" by simp
    then have "distinct (map er_id (evt_requests b))" by (simp add: store_ok_def)
    from life_step_later [OF step(2) this y(1)] y(2) life_step_ok [OF step(2) ok] show ?case
      using later_version_trans by blast
  qed (use later_version_refl in blast)
  from assms(1) show ?thesis
  proof (induction rule: rtranclp_induct)
    case base
    with assms show ?case using later_version_refl by blast
  next
    case (step b c)
    then obtain y where y: "y \<in> set (evt_requests b)" "later_version r y" and ok: "store_ok b" by blast
    from life [OF step_lives [OF step(2)] ok y(1)] ok y(2) show ?case
      using later_version_trans by (auto simp: store_ok_def)
  qed
qed

text \<open>When a save is accepted: on the caller's own draft, at the version it expects.\<close>

lemma update_accepted:
  "WithTx fault (CandidateUpdateDraft d q p v c) st = (Inr (), st') \<Longrightarrow>
   \<exists>i u r. pg_uuid d q = Some i \<and> pg_uuid d p = Some u \<and> r \<in> set (evt_requests st) \<and> er_id r = i \<and> er_candidate r = u
     \<and> er_status r = ''DRAFT'' \<and> er_version r = v
     \<and> evt_requests st' = map (\<lambda>x. if er_id x = i \<and> er_candidate x = u \<and> er_status x = ''DRAFT'' \<and> er_version x = v
          then bump d (\<lambda>r. r\<lparr>er_claim := c\<rparr>) x else x) (evt_requests st)"
  by (auto simp: WithTx_def CandidateUpdateDraft_def tx_eval Let_def simp del: map_eq_conv
      split: if_splits option.splits dest!: find_row)

text \<open>
  C14. Of two saves of a request that expect the same version at most one is accepted, whoever makes
  them and whatever the server does in between; and the claim of the first is replaced by nothing
  that has not seen a later version.
\<close>

theorem no_lost_update:
  assumes "(server_step d)\<^sup>*\<^sup>* st0 st" "empty_store st0"
    and "WithTx fault (CandidateUpdateDraft d q p v c) st = (Inr (), st1)"
    and "(server_step d)\<^sup>*\<^sup>* st1 st2"
  shows "fst (WithTx fault' (CandidateUpdateDraft d q p' v c') st2) \<noteq> Inr ()
     \<and> (\<exists>i r1 r2. pg_uuid d q = Some i \<and> r1 \<in> set (evt_requests st1) \<and> er_id r1 = i \<and> er_claim r1 = c \<and> er_version r1 = v + 1
          \<and> r2 \<in> set (evt_requests st2) \<and> later_version r1 r2)"
proof -
  from update_accepted [OF assms(3)] obtain i u r where i: "pg_uuid d q = Some i" and r: "r \<in> set (evt_requests st)" "er_id r = i"
    "er_candidate r = u" "er_status r = ''DRAFT''" "er_version r = v"
    and st1: "evt_requests st1 = map (\<lambda>x. if er_id x = i \<and> er_candidate x = u \<and> er_status x = ''DRAFT'' \<and> er_version x = v
          then bump d (\<lambda>r. r\<lparr>er_claim := c\<rparr>) x else x) (evt_requests st)" by blast
  let ?r = "bump d (\<lambda>r. r\<lparr>er_claim := c\<rparr>) r"
  have in1: "?r \<in> set (evt_requests st1)" using r unfolding st1 by force
  have "st1 = snd (WithTx fault (CandidateUpdateDraft d q p v c) st)" using assms(3) by simp
  then have "server_step d st st1" by (auto intro: server_step.transaction request_op.intros)
  then have ok1: "store_ok st1"
    using reachable_ok [OF rtranclp.rtrancl_into_rtrancl [OF assms(1)] assms(2)] by blast
  from server_steps_later [OF assms(4) ok1 in1] obtain r2 where ok2: "store_ok st2"
    and r2: "r2 \<in> set (evt_requests st2)" "later_version ?r r2" by blast
  then have newer: "er_id r2 = i" "v < er_version r2" using r by (auto simp: later_version_def same_request_def)
  have "fst (WithTx fault' (CandidateUpdateDraft d q p' v c') st2) \<noteq> Inr ()"
  proof
    assume "fst (WithTx fault' (CandidateUpdateDraft d q p' v c') st2) = Inr ()"
    then obtain st3 where "WithTx fault' (CandidateUpdateDraft d q p' v c') st2 = (Inr (), st3)" by (metis prod.collapse)
    from update_accepted [OF this] obtain x where "x \<in> set (evt_requests st2)" "er_id x = i" "er_version x = v" using i by auto
    moreover from ok2 have "distinct (map er_id (evt_requests st2))" by (simp add: store_ok_def)
    ultimately show False using same_id [of "evt_requests st2" r2 x] r2(1) newer by simp
  qed
  moreover have "er_id ?r = i" "er_claim ?r = c" "er_version ?r = v + 1" using r by simp_all
  ultimately show ?thesis using i in1 r2 by blast
qed

section \<open>A request from its draft to its attestation\<close>

definition demo_pg :: pg where
  "demo_pg = \<lparr>pg_uuid = Some, pg_trust_label = (\<lambda>s. s = ''VERIFIED'' \<or> s = ''UNVERIFIED''), pg_stamp = er_version,
     pg_time = 0, pg_format = int_string\<rparr>"

definition demo_signer :: attestation_signer where
  "demo_signer c = Some (''h.p.s'', ''kid1'')"

definition demo_start :: store where
  "demo_start = \<lparr>evt_requests = [], evt_events = [], evt_config = [], consumptions = [],
     domain_users = [(''hr'', ''active'', ''hr_reviewer'')], assignments = [\<lparr>as_id = ''g0'', as_principal = ''hr'', as_employer = ''acme'', as_revoked = False\<rparr>], trusted_issuers = []\<rparr>"

definition demo_ops :: "unit tx list" where
  "demo_ops =
    [tx_bind (CandidateCreateDraft demo_pg ''r1'' ''ann'' ''acme'' (Some JNull)) (\<lambda>_. tx_return ()),
     CandidateUpdateDraft demo_pg ''r1'' ''ann'' 1 (JStr ''claim''),
     tx_bind (CandidateSubmit demo_pg ''r1'' ''ann'') (\<lambda>_. tx_return ()),
     tx_bind (EmployerAttestServerSigned demo_pg (Some demo_signer) 7 ''r1'' ''acme'' ''hr'' ''FULL_MATCH'' JNull) (\<lambda>_. tx_return ())]"

definition after_ops :: "unit tx list \<Rightarrow> store \<Rightarrow> store" where
  "after_ops fs st = fold (\<lambda>f s. snd (WithTx False f s)) fs st"

lemma demo_ops_steps: "\<forall>f \<in> set fs. request_op d f \<Longrightarrow> (server_step d)\<^sup>*\<^sup>* st (after_ops fs st)"
proof (induction fs arbitrary: st)
  case (Cons f fs)
  then have "server_step d st (snd (WithTx False f st))" by (intro server_step.transaction) simp
  with Cons show ?case by (simp add: after_ops_def converse_rtranclp_into_rtranclp)
qed (simp add: after_ops_def)

lemma demo_reachable: "(server_step demo_pg)\<^sup>*\<^sup>* demo_start (after_ops (take n demo_ops) demo_start)"
proof (rule demo_ops_steps)
  have "\<forall>f \<in> set demo_ops. request_op demo_pg f" by (simp add: demo_ops_def request_op.intros)
  then show "\<forall>f \<in> set (take n demo_ops). request_op demo_pg f" by (blast dest: in_set_takeD)
qed

theorem request_lifecycle_witness:
  "\<exists>r \<in> set (evt_requests (after_ops demo_ops demo_start)). er_status r = ''ATTESTED'' \<and> er_version r = 5 \<and> row_ok r
     \<and> walk None (events_of (after_ops demo_ops demo_start) (er_id r)) = Some (Some ''ATTESTED'')"
proof -
  let ?st = "after_ops demo_ops demo_start"
  have "\<exists>r \<in> set (evt_requests ?st). er_status r = ''ATTESTED'' \<and> er_version r = 5" by code_simp
  then obtain r where r: "r \<in> set (evt_requests ?st)" "er_status r = ''ATTESTED''" "er_version r = 5" by blast
  have "(server_step demo_pg)\<^sup>*\<^sup>* demo_start ?st" using demo_reachable [of "length demo_ops"] by simp
  moreover have "empty_store demo_start" by code_simp
  ultimately show ?thesis using request_lifecycle [of demo_pg demo_start ?st r] r by auto
qed

theorem no_lost_update_witness:
  "\<exists>st1. WithTx False (CandidateUpdateDraft demo_pg ''r1'' ''ann'' 1 (JStr ''claim'')) (after_ops (take 1 demo_ops) demo_start) = (Inr (), st1)
     \<and> fst (WithTx False (CandidateUpdateDraft demo_pg ''r1'' ''ann'' 1 (JStr ''other'')) st1) \<noteq> Inr ()"
proof -
  let ?st = "after_ops (take 1 demo_ops) demo_start"
  have "fst (WithTx False (CandidateUpdateDraft demo_pg ''r1'' ''ann'' 1 (JStr ''claim'')) ?st) = Inr ()" by code_simp
  then obtain st1 where st1: "WithTx False (CandidateUpdateDraft demo_pg ''r1'' ''ann'' 1 (JStr ''claim'')) ?st = (Inr (), st1)"
    by (metis prod.collapse)
  have "empty_store demo_start" by code_simp
  from no_lost_update [OF demo_reachable this st1, of st1 False "''ann''" "JStr ''other''"] st1 show ?thesis by blast
qed

end
