(* ===== verification/RequestApiSafety.thy ===== *)
theory RequestApiSafety
  imports RequestApi RequestSafety RequestorDetail RecruiterScreen AuthSafety
begin

text \<open>
  Properties of the request module's interface: who can change what, and what becomes of the client's
  requests at the server.
\<close>

section \<open>Every call is a step of the server\<close>

lemma WithTx_error: "WithTx fault f st = (Inl e, st') \<Longrightarrow> st' = st"
  by (auto simp: WithTx_def split: if_splits prod.splits sum.splits)

lemma WithTx_ok: "WithTx fault f st = (Inr a, st') \<Longrightarrow> f st = (Inr a, st')"
  by (auto simp: WithTx_def split: if_splits prod.splits sum.splits)

lemma answered_state: "snd (answered bad good out) = snd out"
  by (auto simp: answered_def split: prod.splits sum.splits)

lemma answered_ok:
  "rs_status (fst (answered bad good out)) = n \<Longrightarrow> (\<And>e. rs_status (bad e) \<noteq> n) \<Longrightarrow>
   \<exists>a. fst out = Inr a"
  by (auto simp: answered_def split: prod.splits sum.splits)

text \<open>Reading leaves the store alone.\<close>

definition reads :: "'a tx \<Rightarrow> bool" where
  "reads f = (\<forall>st. snd (f st) = st)"

lemma reads_WithTx: "reads f \<Longrightarrow> snd (WithTx fault f st) = st"
  by (auto simp: reads_def WithTx_def split: prod.splits sum.splits) (metis snd_conv)

lemma reads_prims: "reads (tx_return a)" "reads (tx_fail e)" "reads (tx_read g)" "reads (tx_some e x)" "reads (tx_guard e b)"
  by (simp_all add: reads_def tx_return_def tx_fail_def tx_read_def tx_some_def tx_guard_def split: option.split)

lemma reads_bind: "reads f \<Longrightarrow> (\<And>a. reads (g a)) \<Longrightarrow> reads (tx_bind f g)"
  by (auto simp: reads_def tx_bind_def split: prod.splits sum.splits) (metis snd_conv)+

lemmas reads_rules = reads_prims reads_bind

lemma reads_statements: "reads (uuid d s)" "reads (select_request P)" "reads (own_request d q p)" "reads (Authorize d p e)"
  by (simp_all add: uuid_def select_request_def own_request_def Authorize_def reads_rules)

lemma reads_queries: "reads (CandidateList d p n)" "reads (CandidateGet d q p)" "reads (EmployerList d e p n)"
  "reads (EmployerGet d q e p)" "reads (RecruiterCandidateList d cc p q')" "reads RecruiterCompanyOptions"
  by (simp_all add: CandidateList_def CandidateGet_def EmployerList_def EmployerGet_def RecruiterCandidateList_def
      RecruiterCompanyOptions_def reads_statements reads_rules)

text \<open>A transaction run for its result is the same step as one run for its effect.\<close>

lemma unit_step: "snd (WithTx fault f st) = snd (WithTx fault (tx_bind f (\<lambda>_. tx_return ())) st)"
  by (auto simp: WithTx_def tx_bind_def tx_return_def split: prod.splits sum.splits)

lemma op_step: "request_op d f \<Longrightarrow> server_step d st (snd (WithTx fault f st))"
  by (rule server_step.transaction)

lemma op_step_unit: "request_op d (tx_bind f (\<lambda>_. tx_return ())) \<Longrightarrow> server_step d st (snd (WithTx fault f st))"
  unfolding unit_step [of fault f] by (rule server_step.transaction)

lemma same_step: "server_step d st st"
  by (rule server_step.operator) simp_all

lemmas handle_defs = handle_list_def handle_get_def handle_create_def handle_patch_def handle_submit_def handle_cancel_def
  handle_attest_def handle_queue_def handle_review_def handle_verify_def handle_close_def handle_consume_def
  handle_candidates_def handle_options_def

lemma handle_step: "server_step (ap_pg ap) st (snd (handle ap oc cl route qs rq st))"
  by (cases route)
    (auto simp: handle_defs answered_state Let_def same_step reads_WithTx reads_queries split: option.split sum.split
      intro: op_step op_step_unit request_op.intros)

lemma serve_step: "server_step (ap_pg ap) st (snd (serve ap oc path qs rq st))"
  by (auto simp: serve_def same_step handle_step split: sum.split option.split)

lemma serve_url_step: "server_step (ap_pg ap) st (snd (serve_url ap oc base rq st))"
  by (auto simp: serve_url_def same_step serve_step split: option.split)

section \<open>Who can change a request\<close>

lemma stays_unless: "r \<in> set rs \<Longrightarrow> r \<notin> set (map (\<lambda>x. if P x then g x else x) rs) \<Longrightarrow> P r"
  by force

text \<open>A change of the rows with one identifier is a change of the row that was looked up by it.\<close>

lemma touched_hit:
  assumes "distinct (map er_id (evt_requests st))" "find P (evt_requests st) = Some r0" "er_id r0 = i"
    and "r \<in> set (evt_requests st)" "r \<notin> set (map (\<lambda>x. if er_id x = i then g x else x) (evt_requests st))"
  shows "r = r0 \<and> P r"
proof -
  have "er_id r = er_id r0" using stays_unless [OF assms(4,5)] assms(3) by simp
  then have "r = r0" using same_id [OF assms(1) _ assms(4)] find_row [OF assms(2)] by blast
  with find_row [OF assms(2)] show ?thesis by simp
qed

definition touched :: "store \<Rightarrow> store \<Rightarrow> evt_request \<Rightarrow> bool" where
  "touched st st' r = (distinct (map er_id (evt_requests st)) \<and> r \<in> set (evt_requests st) \<and> r \<notin> set (evt_requests st'))"

lemma touched_row:
  assumes "touched st st' r" "find P (evt_requests st) = Some r0" "er_id r0 = i"
    and "evt_requests st' = map (\<lambda>x. if er_id x = i then g x else x) (evt_requests st)"
  shows "r = r0 \<and> P r"
  using touched_hit [OF _ assms(2,3)] assms(1,4) by (auto simp: touched_def)

lemma create_touches: "touched st st' r \<Longrightarrow> CandidateCreateDraft d i p e c st \<noteq> (Inr a, st')"
  by (auto simp: touched_def CandidateCreateDraft_def tx_eval ensureEmployerConfig_def split: option.splits if_splits)

lemma update_touches:
  "touched st st' r \<Longrightarrow> CandidateUpdateDraft d q p v c st = (Inr (), st') \<Longrightarrow>
   pg_uuid d p = Some (er_candidate r) \<and> er_status r = ''DRAFT''"
  by (auto simp: touched_def CandidateUpdateDraft_def tx_eval Let_def split: option.splits if_splits dest: stays_unless)

lemma cancel_touches:
  assumes "touched st st' r" "CandidateCancel d q p st = (Inr (), st')"
  shows "pg_uuid d p = Some (er_candidate r) \<and> (er_status r = ''DRAFT'' \<or> er_status r = ''SUBMITTED'')"
proof -
  from assms(2) obtain r0 st1 where own: "own_request d q p st = (Inr r0, st1)"
    by (auto simp: CandidateCancel_def tx_bind_def [of "own_request d q p"] split: prod.splits sum.splits)
  from own_request_read [OF own] obtain i u where st1: "st1 = st" and u: "pg_uuid d p = Some u"
    and hit: "find (\<lambda>r. er_id r = i \<and> er_candidate r = u) (evt_requests st) = Some r0" by blast
  from assms(2) have early: "er_status r0 = ''DRAFT'' \<or> er_status r0 = ''SUBMITTED''"
    and st': "evt_requests st' = map (\<lambda>x. if er_id x = er_id r0 then bump d (\<lambda>r. r\<lparr>er_status := ''CANCELED''\<rparr>) x else x) (evt_requests st)"
    by (auto simp: CandidateCancel_def tx_bind_def own st1 tx_guard_def tx_fail_def tx_return_def set_status_def update_is_bump
        insertEvent_def tx_write_def split: if_splits)
  from touched_row [OF assms(1) hit refl st'] early u show ?thesis by auto
qed

lemma submit_touches:
  assumes "touched st st' r" "CandidateSubmit d q p st = (Inr a, st')"
  shows "pg_uuid d p = Some (er_candidate r) \<and> er_status r = ''DRAFT''"
proof -
  from assms(2) obtain r1 st1 where own: "own_request d q p st = (Inr r1, st1)"
    by (auto simp: CandidateSubmit_def tx_bind_def [of "own_request d q p"] split: prod.splits sum.splits)
  from own_request_read [OF own] obtain i u where st1: "st1 = st" and u: "pg_uuid d p = Some u"
    and hit: "find (\<lambda>r. er_id r = i \<and> er_candidate r = u) (evt_requests st) = Some r1" by blast
  from assms(2) have draft: "er_status r1 = ''DRAFT''"
    by (cases "er_status r1 = ''DRAFT''") (simp_all add: CandidateSubmit_def tx_bind_def own st1 tx_guard_def tx_fail_def)
  have kept: "x \<in> set (evt_requests st')" if "x \<in> set (evt_requests st)" "er_id x \<noteq> er_id r1" for x
    using assms(2) that
    by (auto simp: CandidateSubmit_def tx_bind_def own st1 tx_guard_def tx_fail_def tx_return_def tx_read_def tx_some_def
        set_status_def update_is_bump insertEvent_def tx_write_def split: if_splits option.splits)
  from assms(1) kept have "er_id r = er_id r1" by (auto simp: touched_def)
  then have "r = r1" using same_id [of "evt_requests st" r1 r] assms(1) find_row [OF hit] by (simp add: touched_def)
  with find_row [OF hit] u draft show ?thesis by simp
qed

lemma any_request_read:
  "any_request d q st = (Inr r, st1) \<Longrightarrow> st1 = st \<and> (\<exists>i. find (\<lambda>r. er_id r = i) (evt_requests st) = Some r)"
  by (auto simp: any_request_def tx_eval split: option.splits)

lemma close_touches:
  assumes "touched st st' r" "InternalClose d q st = (Inr (), st')"
  shows "er_status r = ''CONSUMED''"
proof -
  from assms(2) obtain r0 st1 where any: "any_request d q st = (Inr r0, st1)"
    by (auto simp: InternalClose_def tx_bind_def [of "any_request d q"] split: prod.splits sum.splits)
  from any_request_read [OF any] obtain i where st1: "st1 = st"
    and hit: "find (\<lambda>r. er_id r = i) (evt_requests st) = Some r0" by blast
  from assms(2) have early: "er_status r0 = ''CONSUMED''"
    and st': "evt_requests st' = map (\<lambda>x. if er_id x = er_id r0 then bump d (\<lambda>r. r\<lparr>er_status := ''CLOSED''\<rparr>) x else x) (evt_requests st)"
    by (auto simp: InternalClose_def tx_bind_def any st1 tx_guard_def tx_fail_def tx_return_def set_status_def update_is_bump
        insertEvent_def tx_write_def split: if_splits)
  from touched_row [OF assms(1) hit refl st'] early show ?thesis by simp
qed

lemma verify_touches:
  assumes "touched st st' r" "InternalVerify d q trust tok st = (Inr (), st')"
  shows "er_status r = ''ATTESTED''"
proof -
  from assms(2) obtain r0 st1 where any: "any_request d q st = (Inr r0, st1)"
    by (auto simp: InternalVerify_def tx_bind_def [of "any_request d q"] split: prod.splits sum.splits)
  from any_request_read [OF any] obtain i where st1: "st1 = st"
    and hit: "find (\<lambda>r. er_id r = i) (evt_requests st) = Some r0" by blast
  from assms(2) have early: "er_status r0 = ''ATTESTED''"
    and st': "evt_requests st' = map (\<lambda>x. if er_id x = er_id r0 then bump d (\<lambda>x. x\<lparr>er_status := if trust = ''UNVERIFIED'' then ''UNVERIFIED''
        else ''VERIFIED'', er_trust_result := Some trust, er_token := Some tok\<rparr>) x else x) (evt_requests st)"
    by (auto simp: InternalVerify_def tx_bind_def any st1 tx_guard_def tx_fail_def tx_return_def update_is_bump Let_def
        insertEvent_def tx_write_def split: if_splits)
  from touched_row [OF assms(1) hit refl st'] early show ?thesis by simp
qed

lemma consume_touches:
  assumes "touched st st' r" "RecruiterConsume d q p ua ip st = (Inr (), st')"
  shows "er_status r = ''VERIFIED'' \<or> er_status r = ''UNVERIFIED''"
proof -
  from assms(2) obtain r0 st1 where any: "any_request d q st = (Inr r0, st1)"
    by (auto simp: RecruiterConsume_def tx_bind_def [of "any_request d q"] split: prod.splits sum.splits)
  from any_request_read [OF any] obtain i where st1: "st1 = st"
    and hit: "find (\<lambda>r. er_id r = i) (evt_requests st) = Some r0" by blast
  note run = RecruiterConsume_def tx_bind_def any st1 tx_guard_def tx_fail_def tx_return_def set_status_def update_is_bump
    insertEvent_def tx_write_def
  have "er_status r0 \<noteq> ''CONSUMED''"
  proof
    assume "er_status r0 = ''CONSUMED''"
    with assms(2) have "evt_requests st' = evt_requests st" by (auto simp: run)
    with assms(1) show False by (simp add: touched_def)
  qed
  with assms(2) have early: "er_status r0 = ''VERIFIED'' \<or> er_status r0 = ''UNVERIFIED''"
    and st': "evt_requests st' = map (\<lambda>x. if er_id x = er_id r0 then bump d (\<lambda>r. r\<lparr>er_status := ''CONSUMED''\<rparr>) x else x) (evt_requests st)"
    by (auto simp: run split: if_splits)
  from touched_row [OF assms(1) hit refl st'] early show ?thesis by simp
qed

lemma attest_touches:
  assumes "touched st st' r" "EmployerAttestServerSigned d signer at q e p ty body st = (Inr a, st')"
  shows "er_status r = ''ATTESTATION_PENDING'' \<and> er_employer r = e
    \<and> (\<exists>u. pg_uuid d p = Some u \<and> check_employer_hr_assignment u e st)"
proof -
  obtain x st1 where "Authorize d p e st = (Inr x, st1)"
    using assms(2) by (auto simp: EmployerAttestServerSigned_def tx_bind_def [of "Authorize d p e"] split: prod.splits sum.splits)
  moreover from this have "st1 = st" by (rule authorized_state)
  ultimately have auth: "Authorize d p e st = (Inr (), st)" by simp
  then have u: "\<exists>u. pg_uuid d p = Some u \<and> check_employer_hr_assignment u e st"
    by (auto simp: Authorize_def tx_eval split: option.splits if_splits)
  obtain i where i: "pg_uuid d q = Some i"
    using assms(2) auth by (cases "pg_uuid d q") (simp_all add: EmployerAttestServerSigned_def tx_bind_def uuid_def tx_some_def tx_fail_def)
  have st0: "uuid d q st = (Inr i, st)" by (simp add: uuid_def tx_some_def tx_return_def i)
  obtain r0 where hit: "find (\<lambda>r. er_id r = i \<and> er_employer r = e) (evt_requests st) = Some r0"
    using assms(2) auth st0 by (cases "find (\<lambda>r. er_id r = i \<and> er_employer r = e) (evt_requests st)")
      (simp_all add: EmployerAttestServerSigned_def tx_bind_def select_request_def tx_read_def tx_some_def tx_fail_def)
  have pending: "er_status r0 = ''ATTESTATION_PENDING''"
    using assms(2) auth st0 hit by (cases "er_status r0 = ''ATTESTATION_PENDING''")
      (simp_all add: EmployerAttestServerSigned_def tx_bind_def select_request_def tx_read_def tx_some_def tx_return_def tx_guard_def tx_fail_def)
  have kept: "x \<in> set (evt_requests st')" if "x \<in> set (evt_requests st)" "er_id x \<noteq> i" for x
    using assms(2) that auth st0 hit pending
    by (auto simp: EmployerAttestServerSigned_def tx_bind_def select_request_def tx_read_def tx_some_def tx_return_def tx_guard_def
        tx_fail_def update_is_bump insertEvent_def tx_write_def Let_def split: if_splits option.splits prod.splits)
  from assms(1) kept find_row [OF hit] have "er_id r = er_id r0" by (auto simp: touched_def)
  then have "r = r0" using same_id [of "evt_requests st" r0 r] assms(1) find_row [OF hit] by (simp add: touched_def)
  with find_row [OF hit] u pending show ?thesis by simp
qed

text \<open>Who may change a request in its present status.\<close>

definition may_change :: "pg \<Rightarrow> access_claims \<Rightarrow> store \<Rightarrow> evt_request \<Rightarrow> bool" where
  "may_change d cl st r =
     ((HasRole cl ''requestor'' \<and> pg_uuid d (ax_sub cl) = Some (er_candidate r)
         \<and> (er_status r = ''DRAFT'' \<or> er_status r = ''SUBMITTED''))
    \<or> (HasRole cl ''hr_reviewer'' \<and> er_status r = ''ATTESTATION_PENDING''
         \<and> (\<exists>u. pg_uuid d (ax_sub cl) = Some u \<and> check_employer_hr_assignment u (er_employer r) st))
    \<or> (HasRole cl ''cvera'' \<and> (er_status r = ''ATTESTED'' \<or> er_status r = ''CONSUMED''))
    \<or> (HasRole cl ''recruiter'' \<and> (er_status r = ''VERIFIED'' \<or> er_status r = ''UNVERIFIED'')))"

lemma touching_commit:
  assumes "touched st (snd (WithTx fault f st)) r"
  shows "\<exists>a. f st = (Inr a, snd (WithTx fault f st))"
proof (cases "WithTx fault f st")
  case (Pair out st')
  with assms show ?thesis
    by (cases out) (auto simp: touched_def dest: WithTx_error WithTx_ok)
qed

lemma touching_answer:
  "touched st (snd (answered bad good (WithTx fault f st))) r \<Longrightarrow> \<exists>a st'. f st = (Inr a, st') \<and> touched st st' r"
  using touching_commit [of st fault f r] by (auto simp: answered_state)

lemma untouched: "\<not> touched st st r"
  by (simp add: touched_def)

lemma reads_untouched: "reads f \<Longrightarrow> \<not> touched st (snd (answered bad good (WithTx fault f st))) r"
  by (simp add: answered_state reads_WithTx untouched)

text \<open>What each writing route asks of the row it changes, its role aside.\<close>

definition route_ok :: "pg \<Rightarrow> access_claims \<Rightarrow> store \<Rightarrow> evt_request \<Rightarrow> api_route \<Rightarrow> bool" where
  "route_ok d cl st r route = (case route of
       RPatch i \<Rightarrow> pg_uuid d (ax_sub cl) = Some (er_candidate r) \<and> er_status r = ''DRAFT''
     | RSubmit i \<Rightarrow> pg_uuid d (ax_sub cl) = Some (er_candidate r) \<and> er_status r = ''DRAFT''
     | RCancel i \<Rightarrow> pg_uuid d (ax_sub cl) = Some (er_candidate r) \<and> (er_status r = ''DRAFT'' \<or> er_status r = ''SUBMITTED'')
     | HrAttest i \<Rightarrow> er_status r = ''ATTESTATION_PENDING''
         \<and> (\<exists>u. pg_uuid d (ax_sub cl) = Some u \<and> check_employer_hr_assignment u (er_employer r) st)
     | InVerify i \<Rightarrow> er_status r = ''ATTESTED''
     | InClose i \<Rightarrow> er_status r = ''CONSUMED''
     | TkConsume i \<Rightarrow> er_status r = ''VERIFIED'' \<or> er_status r = ''UNVERIFIED''
     | _ \<Rightarrow> False)"

fun reading :: "api_route \<Rightarrow> bool" where
  "reading RCreate = False"
| "reading (RPatch i) = False"
| "reading (RSubmit i) = False"
| "reading (RCancel i) = False"
| "reading (HrAttest i) = False"
| "reading (InVerify i) = False"
| "reading (InClose i) = False"
| "reading (TkConsume i) = False"
| "reading route = True"

lemma route_reads: "reading route \<Longrightarrow> \<not> touched st (snd (handle ap oc cl route qs rq st)) r"
  by (cases route) (auto simp: handle_list_def handle_get_def handle_queue_def handle_review_def handle_candidates_def handle_options_def
      Let_def untouched reads_untouched reads_queries split: sum.splits if_splits)

lemma own_touches:
  "touched st (snd (handle_patch ap oc cl i body st)) r \<Longrightarrow> route_ok (ap_pg ap) cl st r (RPatch i)"
  "touched st (snd (handle_submit ap oc cl i st)) r \<Longrightarrow> route_ok (ap_pg ap) cl st r (RSubmit i)"
  "touched st (snd (handle_cancel ap oc cl i st)) r \<Longrightarrow> route_ok (ap_pg ap) cl st r (RCancel i)"
  "\<not> touched st (snd (handle_create ap oc cl body st)) r"
proof -
  show "touched st (snd (handle_patch ap oc cl i body st)) r \<Longrightarrow> route_ok (ap_pg ap) cl st r (RPatch i)"
    by (cases "PatchDraftReq body") (auto simp: handle_patch_def untouched route_ok_def dest!: touching_answer dest: update_touches)
  show "\<not> touched st (snd (handle_create ap oc cl body st)) r"
    by (cases "CreateDraftReq body") (auto simp: handle_create_def untouched create_touches dest!: touching_answer)
qed (auto simp: handle_submit_def handle_cancel_def route_ok_def dest!: touching_answer dest: submit_touches cancel_touches)

lemma other_touches:
  "touched st (snd (handle_attest ap oc cl i body st)) r \<Longrightarrow> route_ok (ap_pg ap) cl st r (HrAttest i)"
  "touched st (snd (handle_verify ap oc cl i body st)) r \<Longrightarrow> route_ok (ap_pg ap) cl st r (InVerify i)"
  "touched st (snd (handle_close ap oc cl i st)) r \<Longrightarrow> route_ok (ap_pg ap) cl st r (InClose i)"
  "touched st (snd (handle_consume ap oc cl i body st)) r \<Longrightarrow> route_ok (ap_pg ap) cl st r (TkConsume i)"
proof -
  show "touched st (snd (handle_attest ap oc cl i body st)) r \<Longrightarrow> route_ok (ap_pg ap) cl st r (HrAttest i)"
    by (cases "AttestReq body") (auto simp: handle_attest_def untouched route_ok_def dest!: touching_answer attest_touches)
qed (auto simp: handle_verify_def handle_close_def handle_consume_def Let_def route_ok_def
    dest!: touching_answer dest: verify_touches close_touches consume_touches)

lemma route_touches: "touched st (snd (handle ap oc cl route qs rq st)) r \<Longrightarrow> route_ok (ap_pg ap) cl st r route"
  using route_reads [of route st ap oc cl qs rq r] by (cases route) (simp_all add: own_touches other_touches)

lemma route_may_change:
  "route_ok d cl st r route \<Longrightarrow> (\<And>role. role_of route = Some role \<Longrightarrow> HasRole cl role) \<Longrightarrow> may_change d cl st r"
  by (cases route) (auto simp: route_ok_def may_change_def)

text \<open>
  C12. A call changes a request only if its token is accepted and its caller may: the candidate the
  request belongs to, while it is a draft or submitted; an active reviewer with an assignment to its
  employer that is not revoked, while it is pending; the trust engine, once it is attested or
  consumed; a recruiter, once it has been evaluated. Any other call, whatever it is answered, leaves
  every request as it is.
\<close>

theorem request_changed_by_allowed:
  assumes "(server_step (ap_pg ap))\<^sup>*\<^sup>* st0 st" "empty_store st0"
    and "r \<in> set (evt_requests st)" "r \<notin> set (evt_requests (snd (serve ap oc path qs rq st)))"
  shows "\<exists>cl. GinRequireAuth (ap_parse ap) rq = Inr cl \<and> may_change (ap_pg ap) cl st r"
proof -
  have touched: "touched st (snd (serve ap oc path qs rq st)) r"
    using reachable_ok [OF assms(1,2)] assms(3,4) by (simp add: touched_def store_ok_def)
  then obtain cl where cl: "GinRequireAuth (ap_parse ap) rq = Inr cl"
    by (cases "GinRequireAuth (ap_parse ap) rq") (auto simp: serve_def untouched)
  with touched obtain route where route: "Register (rq_method rq) path = Some route"
    by (cases "Register (rq_method rq) path") (auto simp: serve_def untouched)
  have role: "HasRole cl role" if "role_of route = Some role" for role
    using touched cl route that by (cases "HasRole cl role") (auto simp: serve_def untouched)
  have "touched st (snd (handle ap oc cl route qs rq st)) r"
    using touched cl route role by (cases "role_of route") (auto simp: serve_def)
  from route_may_change [OF route_touches [OF this] role] cl show ?thesis by blast
qed

section \<open>A draft that was saved cannot be saved from a page opened again\<close>

lemma below_base: "below_v1 base (base @ ''/v1/'' @ rest) = Some rest"
  by (simp add: below_v1_def starts_with_def)

text \<open>The characters that an address does not give another meaning.\<close>

definition plain_id :: "string \<Rightarrow> bool" where
  "plain_id i = (i \<noteq> [] \<and> list_all (\<lambda>c. c \<notin> {CHR ''/'', CHR ''?'', CHR ''%'', CHR ''+''}) i)"

lemma form_decode_plain: "list_all (\<lambda>c. c \<noteq> CHR ''%'' \<and> c \<noteq> CHR ''+'') s \<Longrightarrow> form_decode s = s"
proof (induction s)
  case (Cons c s)
  then show ?case by (simp add: form_decode.simps [of "c # s"])
qed (simp add: form_decode.simps)

lemma unescape_plain: "list_all (\<lambda>c. c \<noteq> CHR ''%'' \<and> c \<noteq> CHR ''+'') s \<Longrightarrow> path_unescape s = s"
proof -
  assume s: "list_all (\<lambda>c. c \<noteq> CHR ''%'' \<and> c \<noteq> CHR ''+'') s"
  then have "CHR ''+'' \<notin> set s" by (auto simp: list_all_iff)
  with s show ?thesis by (simp add: path_unescape_def split_on_fresh form_decode_plain)
qed

lemma request_path:
  assumes "plain_id i"
  shows "url_path (''requests/'' @ i) = [''requests'', i]"
proof -
  have taken: "takeWhile (\<lambda>c. c \<noteq> CHR ''?'') (''requests/'' @ i) = ''requests'' @ CHR ''/'' # i"
    using assms by (auto simp: plain_id_def list_all_iff takeWhile_eq_all_conv)
  have parts: "split_on CHR ''/'' (''requests'' @ CHR ''/'' # i) = ''requests'' # split_on CHR ''/'' i"
    by (rule split_on_first) simp
  have one: "split_on CHR ''/'' i = [i]"
    by (rule split_on_fresh) (use assms in \<open>auto simp: plain_id_def list_all_iff\<close>)
  have "path_unescape ''requests'' = ''requests''" by (rule unescape_plain) simp
  moreover have "path_unescape i = i" by (rule unescape_plain) (use assms in \<open>simp add: plain_id_def list_all_iff\<close>)
  ultimately show ?thesis unfolding url_path_def taken parts one by simp
qed

lemma url_path_query: "plain_id i \<Longrightarrow> below_v1 base (base @ ''/v1/requests/'' @ i) = Some (''requests/'' @ i)"
  using below_base [of base "''requests/'' @ i"] by simp

lemma serve_request_url:
  "plain_id i \<Longrightarrow> rq_url rq = base @ ''/v1/requests/'' @ i \<Longrightarrow>
   serve_url ap oc base rq st = serve ap oc [''requests'', i] (url_query (''requests/'' @ i)) rq st"
  unfolding serve_url_def by (simp only: url_path_query request_path option.case)

definition patch_body :: "int \<Rightarrow> claim_draft \<Rightarrow> jsval" where
  "patch_body v c = JObj [(''expected_version'', JNum v), (''claim_snapshot'', claim_js c)]"

lemma patch_body_read: "PatchDraftReq (patch_body 1 c) = Some (1, claim_js c)"
proof -
  have "to_lower ''claim_snapshot'' \<noteq> to_lower ''expected_version''" by code_simp
  then show ?thesis by (simp add: PatchDraftReq_def patch_body_def body_members_def claim_js_def)
qed

lemma stale_save_refused:
  assumes reach: "(server_step (ap_pg ap))\<^sup>*\<^sup>* st0 st" "empty_store st0" "(server_step (ap_pg ap))\<^sup>*\<^sup>* st st'"
    and r: "r \<in> set (evt_requests st)" "pg_uuid (ap_pg ap) i = Some (er_id r)" "2 \<le> er_version r"
    and rq: "plain_id i" "rq_url rq = base @ ''/v1/requests/'' @ i" "rq_method rq = ''PATCH''" "rq_body rq = patch_body 1 c"
  shows "rs_status (fst (serve_url ap oc base rq st')) \<noteq> 204"
proof -
  from server_steps_later [OF reach(3) reachable_ok [OF reach(1,2)] r(1)] obtain r' where ok: "store_ok st'"
    and r': "r' \<in> set (evt_requests st')" "later_version r r'" by blast
  have newer: "er_id r' = er_id r" "2 \<le> er_version r'" using r' r(3) by (auto simp: later_version_def same_request_def)
  have fails: "fst (WithTx fault (CandidateUpdateDraft (ap_pg ap) i p 1 (claim_js c)) st') \<noteq> Inr ()" for fault p
  proof
    assume "fst (WithTx fault (CandidateUpdateDraft (ap_pg ap) i p 1 (claim_js c)) st') = Inr ()"
    then obtain st'' where "WithTx fault (CandidateUpdateDraft (ap_pg ap) i p 1 (claim_js c)) st' = (Inr (), st'')" by (metis prod.collapse)
    from update_accepted [OF this] obtain x where "x \<in> set (evt_requests st')" "er_id x = er_id r" "er_version x = 1" using r(2) by auto
    moreover have "distinct (map er_id (evt_requests st'))" using ok by (simp add: store_ok_def)
    ultimately show False using same_id [of "evt_requests st'" r' x] r'(1) newer by simp
  qed
  have "rs_status (fst (handle_patch ap oc cl i (rq_body rq) st')) \<noteq> 204" for cl
    using fails [of "oc_fault oc" "ax_sub cl"]
    by (auto simp: handle_patch_def rq(4) patch_body_read answered_def db_refusal_def writeErr_def json_answer_def
        split: prod.splits sum.splits db_error.split)
  moreover have "Register ''PATCH'' [''requests'', i] = Some (RPatch i)" using rq(1) by (simp add: Register_def plain_id_def)
  ultimately show ?thesis
    unfolding serve_request_url [OF rq(1,2)] using rq(3) by (auto simp: serve_def writeErr_def json_answer_def split: sum.split)
qed

text \<open>What every answer of a world to the requests of one shape has, the interceptor hands on.\<close>

lemma wp_api_fetch_answers:
  assumes "\<And>rq' t x. rq_url rq' = rq_url rq \<Longrightarrow> rq_method rq' = rq_method rq \<Longrightarrow> rq_body rq' = rq_body rq \<Longrightarrow>
    w t (Fetch rq') = RResp x \<Longrightarrow> P x"
  shows "wp w (api_fetch rq) (\<lambda>x _ _. P x) (\<lambda>_ _ _. True) s t"
proof -
  have same: "rq_url (authorized k rq) = rq_url rq" "rq_method (authorized k rq) = rq_method rq" "rq_body (authorized k rq) = rq_body rq"
    "rq_url (retry_request k rq) = rq_url rq" "rq_method (retry_request k rq) = rq_method rq" "rq_body (retry_request k rq) = rq_body rq" for k
    by (simp_all add: authorized_def retry_request_def)
  have fetch: "wp w (fetch rq') (\<lambda>x _ _. P x) (\<lambda>_ _ _. True) s t"
    if "rq_url rq' = rq_url rq" "rq_method rq' = rq_method rq" "rq_body rq' = rq_body rq" for rq' and s :: "'a auth_scheme" and t
    using assms that by (auto simp: wp_fetch split: reply.split)
  have retry: "wp w (case z of RefreshFail \<Rightarrow> Return x | RefreshOk k \<Rightarrow> fetch (retry_request k rq)) (\<lambda>x _ _. P x) (\<lambda>_ _ _. True) s t"
    if "P x" for x z and s :: "'a auth_scheme" and t
    by (cases z) (use that in \<open>simp_all add: wp_prims fetch same\<close>)
  have renewed: "wp w (bind refresh (\<lambda>z. case z of RefreshFail \<Rightarrow> Return x | RefreshOk k \<Rightarrow> fetch (retry_request k rq)))
      (\<lambda>x _ _. P x) (\<lambda>_ _ _. True) s t" if "P x" for x and s :: "'a auth_scheme" and t
    unfolding wp_bind by (rule wp_total) (simp_all add: retry that)
  have mark: "wp w (seq (markSessionExpired why) (Return x)) (\<lambda>x _ _. P x) (\<lambda>_ _ _. True) s t"
    if "P x" for why x and s :: "'a auth_scheme" and t
    unfolding wp_seq by (rule wp_total) (simp_all add: wp_prims that)
  show ?thesis
  proof (cases "rq_url rq = [] \<or> \<not> shouldHandleUrl (rq_url rq) \<or> isAuthEndpoint (rq_url rq)")
    case True
    then show ?thesis by (simp add: api_fetch_def Let_def fetch)
  next
    case False
    have "wp w (fetch (authorized (accessToken s) rq)) (\<lambda>x s t. wp w
        (if rs_status x \<noteq> 401 \<and> rs_status x \<noteq> 403 then Return x
         else if get_header ''x-auth-retry'' (rq_headers rq) = Some ''1'' then
           seq (if rs_status x = 401 then markSessionExpired ApiUnauthorized else markSessionExpired ApiForbidden) (Return x)
         else bind refresh (\<lambda>z. case z of RefreshFail \<Rightarrow> Return x | RefreshOk k \<Rightarrow> fetch (retry_request k rq)))
        (\<lambda>x _ _. P x) (\<lambda>_ _ _. True) s t) (\<lambda>_ _ _. True) s t"
      by (rule wp_mono [OF fetch]) (simp_all add: same wp_prims renewed mark)
    with False show ?thesis by (simp add: api_fetch_def Let_def wp_bind wp_gets)
  qed
qed

text \<open>A page at version 1 stays there unless a save is answered 204.\<close>

lemma unsaved_page:
  assumes "rdVersion s = 1" and refused: "\<And>rq t x. rq_url rq = rq_url (patch_request base s) \<Longrightarrow> rq_method rq = ''PATCH'' \<Longrightarrow>
      rq_body rq = patch_body 1 (rdClaim s) \<Longrightarrow> w t (Fetch rq) = RResp x \<Longrightarrow> rs_status x \<noteq> 204"
  shows "wp w (patchDraft base) (\<lambda>_ s' _. rdVersion s' = 1) (\<lambda>_ s' _. rdVersion s' = 1) s t"
proof -
  let ?s = "s\<lparr>rdBusy := True\<rparr>"
  let ?Q = "\<lambda>_ s' (_ :: trace). rdVersion s' = 1"
  have rq: "rq_method (patch_request base s) = ''PATCH''" "rq_body (patch_request base s) = patch_body 1 (rdClaim s)"
    using assms(1) by (simp_all add: patch_request_def page_request_def patch_body_def)
  have fetched: "wp w (api_fetch (patch_request base s)) (\<lambda>x s' _. rs_status x \<noteq> 204 \<and> rdVersion s' = 1) (\<lambda>_ s' _. rdVersion s' = 1) ?s t"
  proof (rule wp_mono [OF wp_conj])
    show "wp w (api_fetch (patch_request base s)) (\<lambda>x _ _. rs_status x \<noteq> 204) (\<lambda>_ _ _. True) ?s t"
      by (rule wp_api_fetch_answers) (simp add: rq refused)
    show "wp w (api_fetch (patch_request base s)) ?Q ?Q ?s t"
      by (rule wp_leaves [OF off_screen_api_fetch]) (use assms(1) page_more [of _ ?s] in simp_all)
  qed simp_all
  have "wp w (bind (api_fetch (patch_request base s)) (\<lambda>res.
     if rs_status res = 204
     then seq (modify (\<lambda>s. s\<lparr>rdVersion := rdVersion s + 1\<rparr>)) (alert ''Saved'' ''Changes saved.'')
     else alert ''Update failed'' (refusal_text res))) ?Q ?Q ?s t"
    unfolding wp_bind by (rule wp_mono [OF fetched]) (simp_all add: alert_def wp_rules)
  then have "wp w (bind (api_fetch (patch_request base s)) (\<lambda>res.
     if rs_status res = 204
     then seq (modify (\<lambda>s. s\<lparr>rdVersion := rdVersion s + 1\<rparr>)) (alert ''Saved'' ''Changes saved.'')
     else alert ''Update failed'' (refusal_text res)))
     (\<lambda>_ s' t'. wp w (setBusy False) ?Q ?Q s' t') (\<lambda>_ s' t'. wp w (setBusy False) ?Q ?Q s' t') ?s t"
    by (rule wp_mono) (simp_all add: wp_setBusy)
  then show ?thesis
    using assms(1) by (simp add: patchDraft_def page_action_def alert_def wp_rules wp_setBusy)
qed

text \<open>
  C16. Client and server together: a page opened for a draft expects version 1. Once the draft has
  been saved, in an earlier visit to its page, no save from a page opened for it again is accepted,
  whatever is typed into it and whatever the server does in between; the page keeps saying that the
  update failed.
\<close>

theorem reopened_draft_never_saved:
  assumes "(server_step (ap_pg ap))\<^sup>*\<^sup>* st0 st" "empty_store st0"
    and "r \<in> set (evt_requests st)" "pg_uuid (ap_pg ap) i = Some (er_id r)" "2 \<le> er_version r" "plain_id i"
    and world: "\<And>t rq x. rq_url rq = base @ ''/v1/requests/'' @ i \<Longrightarrow> w t (Fetch rq) = RResp x \<Longrightarrow>
      \<exists>oc st'. (server_step (ap_pg ap))\<^sup>*\<^sup>* st st' \<and> x = fst (serve_url ap oc base rq st')"
    and "run w (patchDraft base) ((open_page a i snap)\<lparr>rdClaim := c\<rparr>) t = (res, s', t')"
  shows "rdVersion s' = 1 \<and> (\<forall>oc st' rq. (server_step (ap_pg ap))\<^sup>*\<^sup>* st st' \<and> rq_url rq = base @ ''/v1/requests/'' @ i
    \<and> rq_method rq = ''PATCH'' \<and> rq_body rq = rq_body (patch_request base ((open_page a i snap)\<lparr>rdClaim := c\<rparr>)) \<longrightarrow>
    rs_status (fst (serve_url ap oc base rq st')) \<noteq> 204)"
proof -
  let ?s = "(open_page a i snap)\<lparr>rdClaim := c\<rparr>"
  have page: "rdVersion ?s = 1" "rdClaim ?s = c" "rq_url (patch_request base ?s) = base @ ''/v1/requests/'' @ i"
    "rq_body (patch_request base ?s) = patch_body 1 c"
    by (simp_all add: open_page_def patch_request_def page_request_def patch_body_def auth.defs)
  note refused = stale_save_refused [OF assms(1,2) _ assms(3-6)]
  have "wp w (patchDraft base) (\<lambda>_ s' _. rdVersion s' = 1) (\<lambda>_ s' _. rdVersion s' = 1) ?s t"
    by (rule unsaved_page [OF page(1)]) (use world refused page in fastforce)
  with assms(8) have "rdVersion s' = 1" by (auto simp: wp_def split: sum.splits)
  then show ?thesis using refused page(4) by auto
qed

definition demo_api :: api where
  "demo_api = \<lparr>ap_pg = demo_pg, ap_signer = Some demo_signer, ap_codec = \<lparr>cc_time = (\<lambda>_. []), cc_instant = (\<lambda>_. None), cc_zero = 0, cc_parse = (\<lambda>_. None)\<rparr>,
     ap_parse = (\<lambda>t. if t = ''a0'' then Some \<lparr>ax_sub = ''ann'', ax_roles = [''requestor''], ax_typ = ''access''\<rparr> else None),
     ap_profile = (\<lambda>_. None)\<rparr>"

definition quiet :: occasion where
  "quiet = \<lparr>oc_fault = False, oc_id = ''r9'', oc_time = 0\<rparr>"

definition demo_claim :: claim_draft where
  "demo_claim = \<lparr>cl_employer = ''ACME'', cl_job_title = ''Clerk'', cl_start = ''01/2020'', cl_end = None\<rparr>"

definition demo_page :: request_page where
  "demo_page = (open_page ((initial_auth False)\<lparr>status := StAuthenticated, accessToken := JStr ''a0''\<rparr>) ''r1'' None)\<lparr>rdClaim := demo_claim\<rparr>"

definition drafted :: store where
  "drafted = after_ops (take 1 demo_ops) demo_start"

definition saved_once :: store where
  "saved_once = after_ops (take 2 demo_ops) demo_start"

definition api_world :: "store \<Rightarrow> world" where
  "api_world st t e = (case e of Fetch rq \<Rightarrow> RResp (fst (serve_url demo_api quiet ''b'' rq st)) | _ \<Rightarrow> RDone)"

lemma demo_empty_store: "empty_store demo_start"
  by code_simp

lemma demo_api_pg: "ap_pg demo_api = demo_pg"
  by (simp add: demo_api_def)

theorem request_changed_by_allowed_witness:
  "\<exists>r \<in> set (evt_requests drafted). r \<notin> set (evt_requests (snd (serve demo_api quiet [''requests'', ''r1''] [] (patch_request ''b'' demo_page) drafted)))
     \<and> (\<exists>cl. GinRequireAuth (ap_parse demo_api) (patch_request ''b'' demo_page) = Inr cl \<and> may_change demo_pg cl drafted r)"
proof -
  have "\<exists>r \<in> set (evt_requests drafted). r \<notin> set (evt_requests (snd (serve demo_api quiet [''requests'', ''r1''] [] (patch_request ''b'' demo_page) drafted)))"
    by code_simp
  then obtain r where r: "r \<in> set (evt_requests drafted)"
    "r \<notin> set (evt_requests (snd (serve demo_api quiet [''requests'', ''r1''] [] (patch_request ''b'' demo_page) drafted)))" by blast
  have "(server_step (ap_pg demo_api))\<^sup>*\<^sup>* demo_start drafted"
    unfolding drafted_def demo_api_pg by (rule demo_reachable)
  from request_changed_by_allowed [OF this demo_empty_store r] r show ?thesis unfolding demo_api_pg by blast
qed

theorem reopened_draft_never_saved_witness:
  "\<exists>res s' t'. run (api_world saved_once) (patchDraft ''b'') demo_page [] = (res, s', t') \<and> rdVersion s' = 1
     \<and> rs_status (fst (serve_url demo_api quiet ''b'' (patch_request ''b'' demo_page) saved_once)) = 409"
proof -
  obtain res s' t' where run: "run (api_world saved_once) (patchDraft ''b'') demo_page [] = (res, s', t')" by (metis prod_cases3)
  have "\<exists>r \<in> set (evt_requests saved_once). er_id r = ''r1'' \<and> er_version r = 2" by code_simp
  then obtain r where r: "r \<in> set (evt_requests saved_once)" "er_id r = ''r1''" "er_version r = 2" by blast
  have steps: "(server_step (ap_pg demo_api))\<^sup>*\<^sup>* demo_start saved_once"
    unfolding saved_once_def demo_api_pg by (rule demo_reachable)
  have id: "pg_uuid (ap_pg demo_api) ''r1'' = Some (er_id r)" "2 \<le> er_version r" "plain_id ''r1''"
    using r by (simp_all add: demo_api_def demo_pg_def plain_id_def)
  have "rdVersion s' = 1"
    by (rule reopened_draft_never_saved [OF steps demo_empty_store r(1) id _ run [unfolded demo_page_def], THEN conjunct1])
      (auto simp: api_world_def)
  moreover have "rs_status (fst (serve_url demo_api quiet ''b'' (patch_request ''b'' demo_page) saved_once)) = 409" by code_simp
  ultimately show ?thesis using run by blast
qed

end
