(* ===== verification/RecruiterApiSafety.thy ===== *)
theory RecruiterApiSafety
  imports RecruiterApi RequestSafety Gate "HOL-Library.Sublist"
begin

text \<open>
  Properties of the candidate list: the order of its rows, one per candidate, what following its
  cursors reads, and what the client's detail screen makes of a row.
\<close>

section \<open>Order\<close>

lemma cursor_lt_irrefl: "\<not> cursor_lt a a"
  by (simp add: cursor_lt_def str_lt_irrefl)

lemma cursor_lt_trans: "cursor_lt a b \<Longrightarrow> cursor_lt b c \<Longrightarrow> cursor_lt a c"
  by (auto simp: cursor_lt_def intro: str_lt_trans)

lemma cursor_lt_total: "a \<noteq> b \<Longrightarrow> cursor_lt a b \<or> cursor_lt b a"
  using str_lt_total by (cases a; cases b) (auto simp: cursor_lt_def)

definition not_before :: "base_row \<Rightarrow> base_row \<Rightarrow> bool" where
  "not_before x y = (\<not> cursor_lt (row_cursor x) (row_cursor y))"

lemma not_before_trans: "not_before x y \<Longrightarrow> not_before y z \<Longrightarrow> not_before x z"
  unfolding not_before_def by (metis cursor_lt_total cursor_lt_trans)

lemma set_insert_row: "set (insert_row b xs) = insert b (set xs)"
  by (induction xs) auto

lemma cursor_lt_asym: "cursor_lt a b \<Longrightarrow> \<not> cursor_lt b a"
  using cursor_lt_trans cursor_lt_irrefl by blast

lemma sorted_insert_row: "sorted_wrt not_before xs \<Longrightarrow> sorted_wrt not_before (insert_row b xs)"
proof (induction xs)
  case (Cons x xs)
  then have x: "\<forall>y \<in> set xs. not_before x y" and IH: "sorted_wrt not_before (insert_row b xs)" by simp_all
  show ?case
  proof (cases "cursor_lt (row_cursor b) (row_cursor x)")
    case True
    then have "not_before x b" unfolding not_before_def by (rule cursor_lt_asym)
    with True x IH show ?thesis by (simp add: set_insert_row)
  next
    case False
    then have "not_before b x" by (simp add: not_before_def)
    then have "\<forall>y \<in> set xs. not_before b y" using x not_before_trans by blast
    with False \<open>not_before b x\<close> Cons.prems show ?thesis by simp
  qed
qed simp

lemma order_rows_spec: "set (order_rows bs) = set bs \<and> sorted_wrt not_before (order_rows bs)"
  by (induction bs) (auto simp: order_rows_def set_insert_row intro: sorted_insert_row)

lemma pick_first_set: "set (pick_first seen bs) \<subseteq> set bs"
proof (induction bs arbitrary: seen)
  case (Cons b bs)
  then show ?case by (auto simp: Let_def dest: subsetD)
qed simp

lemma pick_first_sorted: "sorted_wrt P bs \<Longrightarrow> sorted_wrt P (pick_first seen bs)"
proof (induction bs arbitrary: seen)
  case (Cons b bs)
  then have "\<forall>x \<in> set (pick_first s bs). P b x" for s using pick_first_set [of s bs] by auto
  with Cons show ?case by (simp add: Let_def)
qed simp

lemma pick_first_unseen: "b \<in> set (pick_first seen bs) \<Longrightarrow> er_candidate (br_request b) \<notin> set seen"
proof (induction bs arbitrary: seen)
  case (Cons x bs)
  from Cons.prems Cons.IH [of seen] Cons.IH [of "er_candidate (br_request x) # seen"] show ?case
    by (auto simp: Let_def split: if_splits)
qed simp

lemma pick_first_distinct: "distinct (map (\<lambda>b. er_candidate (br_request b)) (pick_first seen bs))"
proof (induction bs arbitrary: seen)
  case (Cons x bs)
  have "er_candidate (br_request x) \<notin> (\<lambda>b. er_candidate (br_request b)) ` set (pick_first (er_candidate (br_request x) # seen) bs)"
    using pick_first_unseen [of _ "er_candidate (br_request x) # seen" bs] by fastforce
  with Cons show ?case by (simp add: Let_def)
qed simp

section \<open>The rows of the list\<close>

lemma picked_row:
  assumes "b \<in> set (picked_rows recruiter q st)"
  shows "br_request b \<in> set (evt_requests st) \<and> er_status (br_request b) \<in> set listed_statuses
     \<and> br_signature b = signature_status (br_request b) \<and> br_state b = verification_status (br_request b) \<and> row_wanted q b"
proof -
  from assms have "b \<in> set (base_rows recruiter st)" "row_wanted q b"
    using pick_first_set order_rows_spec by (fastforce simp: picked_rows_def)+
  then show ?thesis by (auto simp: base_rows_def)
qed

lemma picked_candidates: "distinct (map (\<lambda>b. er_candidate (br_request b)) (picked_rows recruiter q st))"
  unfolding picked_rows_def by (rule distinct_map_filter [OF pick_first_distinct])

lemma distinct_sorted: "distinct (map f xs) \<Longrightarrow> sorted_wrt (\<lambda>x y. f x \<noteq> f y) xs"
  by (induction xs) auto

lemma sorted_wrt_both: "sorted_wrt P xs \<Longrightarrow> sorted_wrt Q xs \<Longrightarrow> (\<And>x y. P x y \<Longrightarrow> Q x y \<Longrightarrow> R x y) \<Longrightarrow> sorted_wrt R xs"
  by (induction xs) auto

text \<open>One row per candidate and one request per identifier: the cursors descend strictly.\<close>

definition above :: "base_row \<Rightarrow> base_row \<Rightarrow> bool" where
  "above x y = cursor_lt (row_cursor y) (row_cursor x)"

lemma picked_descending:
  assumes "distinct (map er_id (evt_requests st))"
  shows "sorted_wrt above (picked_rows recruiter q st)"
proof -
  let ?rows = "picked_rows recruiter q st"
  have "sorted_wrt not_before ?rows"
    unfolding picked_rows_def using order_rows_spec by (blast intro: sorted_wrt_filter pick_first_sorted)
  moreover have "sorted_wrt (\<lambda>x y. row_cursor x \<noteq> row_cursor y) ?rows"
  proof -
    have "sorted_wrt (\<lambda>x y. er_candidate (br_request x) \<noteq> er_candidate (br_request y)) ?rows"
      by (rule distinct_sorted [OF picked_candidates])
    then show ?thesis
    proof (rule sorted_wrt_mono_rel [rotated])
      fix x y assume "x \<in> set ?rows" "y \<in> set ?rows" "er_candidate (br_request x) \<noteq> er_candidate (br_request y)"
      then show "row_cursor x \<noteq> row_cursor y"
        using picked_row same_id [OF assms, of "br_request x" "br_request y"] by (auto simp: row_cursor_def)
    qed
  qed
  ultimately show ?thesis
    by (rule sorted_wrt_both) (unfold above_def not_before_def, blast dest: cursor_lt_total)
qed

section \<open>Following the cursors\<close>

text \<open>Page after page, each with the cursor of the page before it, until there is none.\<close>

fun read_pages :: "nat \<Rightarrow> pg \<Rightarrow> cursor_codec \<Rightarrow> string \<Rightarrow> list_args \<Rightarrow> store \<Rightarrow> candidate_row list option" where
  "read_pages 0 d cc recruiter q st = None"
| "read_pages (Suc n) d cc recruiter q st =
     (case RecruiterCandidateList d cc recruiter q st of
        (Inl e, st') \<Rightarrow> None
      | (Inr (items, next_cursor), st') \<Rightarrow>
          (case next_cursor of
             None \<Rightarrow> Some items
           | Some text \<Rightarrow>
               (case decodeCursor cc text of
                  None \<Rightarrow> None
                | Some c \<Rightarrow> map_option ((@) items) (read_pages n d cc recruiter (q\<lparr>la_cursor := Some c\<rparr>) st'))))"

lemma below_cursor:
  "sorted_wrt above (as @ x # bs) \<Longrightarrow> filter (before_cursor (Some (row_cursor x))) (as @ x # bs) = bs"
  by (auto simp: sorted_wrt_append above_def before_cursor_def cursor_lt_irrefl cursor_lt_asym intro!: filter_True)

lemma wanted_cursor: "row_wanted (q\<lparr>la_cursor := c\<rparr>) = row_wanted q"
  by (simp add: fun_eq_iff row_wanted_def)

lemma picked_cursor: "picked_rows recruiter (q\<lparr>la_cursor := c\<rparr>) st = picked_rows recruiter q st"
  by (simp add: picked_rows_def wanted_cursor)

lemma read_pages_rest:
  assumes "sorted_wrt above (picked_rows recruiter q st)" "\<And>b. b \<in> set (picked_rows recruiter q st) \<Longrightarrow> cursor_reads cc (row_cursor b)"
    and "1 \<le> la_limit q" "la_limit q \<le> 100"
  shows "filter (before_cursor cur) (picked_rows recruiter q st) = rest \<Longrightarrow> suffix rest (picked_rows recruiter q st) \<Longrightarrow>
    length rest < n \<Longrightarrow> read_pages n d cc recruiter (q\<lparr>la_cursor := cur\<rparr>) st = Some (map (CandidateRowSnapshot d) rest)"
proof (induction n arbitrary: cur rest)
  case (Suc n)
  let ?k = "nat (la_limit q)"
  have k: "1 \<le> ?k" "page_limit 100 25 (la_limit q) = ?k" using assms(3,4) by (simp_all add: page_limit_def)
  have list: "RecruiterCandidateList d cc recruiter (q\<lparr>la_cursor := cur\<rparr>) st =
      (Inr (map (CandidateRowSnapshot d) (take ?k rest),
        if ?k < length rest then Some (encodeCursor cc (row_cursor (rest ! (?k - 1)))) else None), st)"
    using Suc.prems(1) k by (auto simp: RecruiterCandidateList_def tx_read_def Let_def picked_cursor min_def)
  show ?case
  proof (cases "?k < length rest")
    case False
    then show ?thesis by (simp add: list)
  next
    case True
    let ?x = "rest ! (?k - 1)"
    from Suc.prems(2) obtain before where all: "picked_rows recruiter q st = before @ rest" by (auto simp: suffix_def)
    have "rest = take (?k - 1) rest @ ?x # drop ?k rest"
      using True k(1) by (metis Suc_diff_1 id_take_nth_drop less_imp_diff_less less_le_trans zero_less_one)
    with all have parts: "picked_rows recruiter q st = (before @ take (?k - 1) rest) @ ?x # drop ?k rest"
      by (metis append.assoc)
    have "filter (before_cursor (Some (row_cursor ?x))) (picked_rows recruiter q st) = drop ?k rest"
      unfolding parts by (rule below_cursor) (use assms(1) in \<open>simp only: parts\<close>)
    moreover have "suffix (drop ?k rest) (picked_rows recruiter q st)"
      using Suc.prems(2) suffix_drop suffix_order.trans by blast
    moreover have "length (drop ?k rest) < n" using Suc.prems(3) True k(1) by simp
    ultimately have "read_pages n d cc recruiter (q\<lparr>la_cursor := Some (row_cursor ?x)\<rparr>) st = Some (map (CandidateRowSnapshot d) (drop ?k rest))"
      by (rule Suc.IH)
    moreover have "decodeCursor cc (encodeCursor cc (row_cursor ?x)) = Some (row_cursor ?x)"
      by (rule cursor_roundtrip, rule assms(2)) (simp add: parts)
    ultimately show ?thesis using True by (simp add: list flip: map_append)
  qed
qed simp

lemma pick_first_newest:
  "sorted_wrt not_before bs \<Longrightarrow> b \<in> set (pick_first seen bs) \<Longrightarrow> x \<in> set bs \<Longrightarrow>
   er_candidate (br_request x) = er_candidate (br_request b) \<Longrightarrow> not_before b x"
proof (induction bs arbitrary: seen)
  case (Cons y bs)
  show ?case
  proof (cases "b = y")
    case True
    with Cons.prems(1,3) show ?thesis by (auto simp: not_before_def cursor_lt_irrefl)
  next
    case False
    then obtain seen' where b: "b \<in> set (pick_first seen' bs)"
      "er_candidate (br_request y) \<in> set seen'"
      using Cons.prems(2) by (auto simp: Let_def split: if_splits)
    then have "er_candidate (br_request y) \<noteq> er_candidate (br_request b)" using pick_first_unseen by metis
    with Cons.prems(3,4) have "x \<in> set bs" by auto
    with Cons b(1) show ?thesis by simp
  qed
qed simp

lemma listed_has_row:
  assumes "r \<in> set (evt_requests st)" "er_status r \<in> set listed_statuses"
  shows "\<exists>x \<in> set (base_rows recruiter st). br_request x = r"
proof -
  have "levels_for recruiter st r \<noteq> []" by (simp add: levels_for_def Let_def)
  then obtain l where "l \<in> set (levels_for recruiter st r)" by (meson list.set_sel(1))
  with assms show ?thesis unfolding base_rows_def by force
qed

text \<open>The row of a candidate is that of the latest request among the listed ones.\<close>

lemma picked_latest:
  assumes b: "b \<in> set (picked_rows recruiter q st)" and r: "r \<in> set (evt_requests st)"
    and same: "er_candidate r = er_candidate (br_request b) \<and> er_status r \<in> set listed_statuses"
  shows "\<not> cursor_lt (row_cursor b) (er_updated r, er_id r)"
proof -
  obtain x where x: "x \<in> set (base_rows recruiter st)" "br_request x = r" using listed_has_row r same by blast
  have "not_before b x"
    by (rule pick_first_newest [of "order_rows (base_rows recruiter st)"])
      (use b x same order_rows_spec in \<open>auto simp: picked_rows_def\<close>)
  with x show ?thesis by (simp add: not_before_def row_cursor_def)
qed

text \<open>
  C21. Following the cursors of the candidate list reads, whatever the page size, exactly the rows of
  the whole list in its order: each candidate once, with the latest of the candidate's requests that
  are not cancelled. (No request changes while the pages are read; the library reads back the time and
  the JSON document of each row's cursor.)
\<close>

theorem candidate_pages_complete:
  assumes "(server_step d)\<^sup>*\<^sup>* st0 st" "empty_store st0"
    and "\<And>b. b \<in> set (picked_rows recruiter q st) \<Longrightarrow> cursor_reads cc (row_cursor b)"
    and "1 \<le> la_limit q" "la_limit q \<le> 100"
  shows "read_pages (Suc (length (picked_rows recruiter q st))) d cc recruiter (q\<lparr>la_cursor := None\<rparr>) st
       = Some (map (CandidateRowSnapshot d) (picked_rows recruiter q st))
     \<and> distinct (map candidate_id (map (CandidateRowSnapshot d) (picked_rows recruiter q st)))
     \<and> (\<forall>b \<in> set (picked_rows recruiter q st). \<forall>r \<in> set (evt_requests st).
          er_candidate r = er_candidate (br_request b) \<and> er_status r \<in> set listed_statuses \<longrightarrow>
          \<not> cursor_lt (row_cursor b) (er_updated r, er_id r))"
proof (intro conjI ballI impI)
  have "distinct (map er_id (evt_requests st))" using reachable_ok [OF assms(1,2)] by (simp add: store_ok_def)
  note desc = picked_descending [OF this, of recruiter q]
  show "read_pages (Suc (length (picked_rows recruiter q st))) d cc recruiter (q\<lparr>la_cursor := None\<rparr>) st
       = Some (map (CandidateRowSnapshot d) (picked_rows recruiter q st))"
    by (rule read_pages_rest [OF desc assms(3-5)]) (simp_all add: before_cursor_def)
  have "map candidate_id (map (CandidateRowSnapshot d) (picked_rows recruiter q st))
      = map (\<lambda>b. er_candidate (br_request b)) (picked_rows recruiter q st)"
    by (simp add: CandidateRowSnapshot_def Let_def)
  then show "distinct (map candidate_id (map (CandidateRowSnapshot d) (picked_rows recruiter q st)))"
    using picked_candidates by metis
next
  fix b r assume b: "b \<in> set (picked_rows recruiter q st)" and r: "r \<in> set (evt_requests st)"
    and same: "er_candidate r = er_candidate (br_request b) \<and> er_status r \<in> set listed_statuses"
  then show "\<not> cursor_lt (row_cursor b) (er_updated r, er_id r)" by (rule picked_latest)
qed

section \<open>A row at the client's gate\<close>

definition decided_statuses :: "string set" where
  "decided_statuses = {''VERIFIED'', ''UNVERIFIED'', ''REJECTED'', ''CONSUMED'', ''CLOSED''}"

definition trust_results :: "string set" where
  "trust_results = {''VERIFIED'', ''VERIFIED_WITH_FLAGS'', ''UNVERIFIED''}"

text \<open>What the list's query makes of a request's status.\<close>

definition usable_status :: "evt_request \<Rightarrow> bool" where
  "usable_status r = (verification_status r \<in> {''verified'', ''unverified''})"

lemma usable_statusI:
  assumes "row_ok r" "\<forall>s. er_trust_result r = Some s \<longrightarrow> s \<in> trust_results"
    and "er_status r \<in> set listed_statuses"
  shows "usable_status r \<longleftrightarrow> er_status r \<in> decided_statuses"
proof -
  have final: "\<exists>s \<in> trust_results. er_trust_result r = Some s" if "er_status r = ''CONSUMED'' \<or> er_status r = ''CLOSED''"
  proof -
    from that assms(1) have "er_trust_result r \<noteq> None" by (elim disjE) (simp_all add: row_ok_def evaluated_statuses_def)
    with assms(2) show ?thesis by blast
  qed
  show ?thesis
  proof (cases "er_status r = ''CONSUMED'' \<or> er_status r = ''CLOSED''")
    case True
    with final [OF True] show ?thesis
      by (elim disjE bexE) (simp_all add: usable_status_def verification_status_def decided_statuses_def trust_results_def Let_def, blast+)
  next
    case False
    with assms(3) show ?thesis
      by (simp add: listed_statuses_def, elim disjE)
        (simp_all add: usable_status_def verification_status_def decided_statuses_def Let_def)
  qed
qed

lemma row_state: "row_verification (CandidateRowSnapshot d b) = Some v \<Longrightarrow> br_state b = verification_status (br_request b) \<Longrightarrow>
    vs_state v \<in> {VVerified, VUnverified} \<longleftrightarrow> usable_status (br_request b)"
  by (cases "br_state b = ''verified''"; cases "br_state b = ''unverified''"; cases "br_state b = ''pending''")
    (auto simp: CandidateRowSnapshot_def Let_def wire_value_def usable_status_def coalesce_def eq_commute [of _ "br_state b"])

text \<open>
  C20. Opening a row of the list on the detail screen shows its record exactly when the request of the
  row has been decided: it is verified, found unverified, rejected, consumed or closed. That request is
  the candidate's latest of those that are not cancelled: no other is newer, by the time of the last
  change and then the identifier. (The trust evaluation has recorded one of its three results. The
  lifecycle document, section 10, lets recruiters see neither rejected requests nor drafts.)
\<close>

theorem listed_row_opens_iff_decided:
  assumes "(server_step d)\<^sup>*\<^sup>* st0 st" "empty_store st0"
    and "\<And>r s. r \<in> set (evt_requests st) \<Longrightarrow> er_trust_result r = Some s \<Longrightarrow> s \<in> trust_results"
    and "b \<in> set (picked_rows recruiter q st)" "dp_snapshot ps = Some (CandidateRowSnapshot d b)"
  shows "(\<not> is_lock (CandidateDetailScreen ps) \<longleftrightarrow> er_status (br_request b) \<in> decided_statuses)
     \<and> br_request b \<in> set (evt_requests st) \<and> er_status (br_request b) \<in> set listed_statuses
     \<and> (\<forall>r \<in> set (evt_requests st). er_candidate r = er_candidate (br_request b) \<and> er_status r \<in> set listed_statuses \<longrightarrow>
          \<not> cursor_lt (er_updated (br_request b), er_id (br_request b)) (er_updated r, er_id r))"
proof -
  have ok: "row_ok (br_request b)" using reachable_ok [OF assms(1,2)] picked_row [OF assms(4)] by (simp add: store_ok_def)
  obtain v where v: "row_verification (CandidateRowSnapshot d b) = Some v" by (simp add: CandidateRowSnapshot_def Let_def)
  have "\<not> is_lock (CandidateDetailScreen ps) \<longleftrightarrow> vs_state v \<in> {VVerified, VUnverified}"
    using assms(5) v by (simp add: detail_screen.locked_iff has_usable_state_def)
  also have "\<dots> \<longleftrightarrow> usable_status (br_request b)" using row_state [OF v] picked_row [OF assms(4)] by blast
  also have "\<dots> \<longleftrightarrow> er_status (br_request b) \<in> decided_statuses"
    using usable_statusI [OF ok] assms(3) picked_row [OF assms(4)] by blast
  finally show ?thesis
    using picked_row [OF assms(4)] picked_latest [OF assms(4), unfolded row_cursor_def] by blast
qed

section \<open>A list of two candidates\<close>

definition demo_list :: list_args where
  "demo_list = \<lparr>la_search = [], la_mode = ''any'', la_signatures = signature_values, la_companies = [], la_limit = 1, la_cursor = None\<rparr>"

definition demo_list_ops :: "unit tx list" where
  "demo_list_ops = demo_ops @ [InternalVerify demo_pg ''r1'' ''VERIFIED'' ''t'',
     tx_bind (CandidateCreateDraft demo_pg ''r2'' ''bob'' ''acme'' (Some JNull)) (\<lambda>_. tx_return ())]"

definition demo_rows :: "base_row list" where
  "demo_rows = picked_rows ''rec'' demo_list (after_ops demo_list_ops demo_start)"

text \<open>A library that writes times in unary and reads the documents of these rows.\<close>

definition demo_time :: "int \<Rightarrow> string" where
  "demo_time t = (if t < 0 then CHR ''-'' else CHR ''+'') # replicate (nat \<bar>t\<bar>) CHR ''1''"

definition demo_codec :: cursor_codec where
  "demo_codec = \<lparr>cc_time = demo_time, cc_instant = (\<lambda>s. Some (if hd s = CHR ''-'' then - int (length (tl s)) else int (length (tl s)))),
     cc_zero = 0,
     cc_parse = (\<lambda>t. find (\<lambda>v. json_text v = t) (map (\<lambda>b.
       JObj [(''updated_at'', JStr (demo_time (er_updated (br_request b)))), (''request_id'', JStr (er_id (br_request b)))]) demo_rows))\<rparr>"

lemma demo_codec_reads: "b \<in> set (picked_rows ''rec'' demo_list (after_ops demo_list_ops demo_start)) \<Longrightarrow> cursor_reads demo_codec (row_cursor b)"
proof -
  have "list_all (\<lambda>b. cursor_reads demo_codec (row_cursor b)) demo_rows" by code_simp
  then show "b \<in> set (picked_rows ''rec'' demo_list (after_ops demo_list_ops demo_start)) \<Longrightarrow> ?thesis"
    by (simp add: list_all_iff demo_rows_def)
qed

lemma demo_list_reached: "(server_step demo_pg)\<^sup>*\<^sup>* demo_start (after_ops demo_list_ops demo_start)"
  by (rule demo_ops_steps) (simp add: demo_list_ops_def demo_ops_def request_op.intros)

lemma demo_empty: "empty_store demo_start"
  by code_simp

theorem candidate_pages_complete_witness:
  "map (\<lambda>b. er_candidate (br_request b)) demo_rows = [''ann'', ''bob'']
   \<and> read_pages 3 demo_pg demo_codec ''rec'' demo_list (after_ops demo_list_ops demo_start)
     = Some (map (CandidateRowSnapshot demo_pg) demo_rows)"
proof -
  have rows: "map (\<lambda>b. er_candidate (br_request b)) demo_rows = [''ann'', ''bob'']" by code_simp
  then have n: "length demo_rows = 2" by (metis length_map length_Cons list.size(3) One_nat_def Suc_1)
  have same: "demo_list\<lparr>la_cursor := None\<rparr> = demo_list" "1 \<le> la_limit demo_list" "la_limit demo_list \<le> 100"
    by (simp_all add: demo_list_def)
  from candidate_pages_complete [OF demo_list_reached demo_empty demo_codec_reads same(2,3), of "''rec''"]
  have "read_pages (Suc (length demo_rows)) demo_pg demo_codec ''rec'' demo_list (after_ops demo_list_ops demo_start)
     = Some (map (CandidateRowSnapshot demo_pg) demo_rows)"
    unfolding same(1) demo_rows_def [symmetric] by blast
  with rows n show ?thesis by (simp only: eval_nat_numeral)
qed

theorem listed_row_opens_iff_decided_witness:
  "\<not> is_lock (CandidateDetailScreen \<lparr>dp_candidate_id = ''ann'', dp_subject = \<lparr>full_name = ''Ann'', employee_id = None\<rparr>,
     dp_primary_evt_id = ''r1'', dp_list_context = None, dp_snapshot = Some (CandidateRowSnapshot demo_pg (hd demo_rows))\<rparr>)"
proof -
  let ?st = "after_ops demo_list_ops demo_start"
  have "\<forall>r \<in> set (evt_requests ?st). er_trust_result r = None \<or> er_trust_result r = Some ''VERIFIED''"
    "er_status (br_request (hd demo_rows)) = ''VERIFIED''" "demo_rows \<noteq> []" by code_simp+
  then have "\<And>r s. r \<in> set (evt_requests ?st) \<Longrightarrow> er_trust_result r = Some s \<Longrightarrow> s \<in> trust_results"
    and "hd demo_rows \<in> set (picked_rows ''rec'' demo_list ?st)" "er_status (br_request (hd demo_rows)) \<in> decided_statuses"
    by (auto simp: trust_results_def decided_statuses_def simp flip: demo_rows_def)
  then show ?thesis
    using listed_row_opens_iff_decided [OF demo_list_reached demo_empty, THEN conjunct1] by fastforce
qed

end
