(* ===== verification/ClientServer.thy ===== *)
theory ClientServer
  imports RequestApiSafety RecruiterApiSafety
begin

text \<open>
  The client and the server together: what the server reads in the client's requests, and what the
  client makes of its answers.
\<close>

section \<open>The list's query\<close>

lemma keep_first_distinct: "distinct xs \<Longrightarrow> set seen \<inter> set xs = {} \<Longrightarrow> keep_first seen xs = xs"
  by (induction xs arbitrary: seen) auto

text \<open>A value that is one entry of a list the server takes apart at commas.\<close>

definition one_entry :: "string \<Rightarrow> bool" where
  "one_entry s = (s \<noteq> [] \<and> CHR '','' \<notin> set s \<and> TrimSpace s = s)"

lemma entries_read:
  assumes "query_array qs k = xs" "list_all one_entry xs" "distinct xs"
  shows "parseCSVOrRepeated qs k = xs"
proof -
  have "concat (map (split_on CHR '','') xs) = xs"
    using assms(2) by (induction xs) (simp_all add: one_entry_def split_on_fresh)
  moreover have "map TrimSpace xs = xs" "filter (\<lambda>p. p \<noteq> []) xs = xs"
    using assms(2) by (induction xs) (simp_all add: one_entry_def)
  ultimately show ?thesis using assms(1,3) by (simp add: parseCSVOrRepeated_def keep_first_distinct)
qed

lemma wire_entries: "list_all one_entry [''verified'', ''invalid'', ''unknown'', ''any'', ''trusted_only'', ''include_untrusted'',
    ''most_recent'', ''name_az'', ''trust_first'']"
  by code_simp

lemma sig_entry: "one_entry (sig_string x)"
  using wire_entries by (cases x) simp_all

lemma union_entries: "one_entry (trust_mode_string m)" "one_entry (sort_string x)"
  using wire_entries by (cases m; simp_all) (use wire_entries in \<open>cases x; simp_all\<close>)

lemma entry_trimmed: "one_entry s \<Longrightarrow> TrimSpace s = s"
  by (simp add: one_entry_def)

lemma mode_known: "trust_mode_string m \<in> {''any'', ''trusted_only'', ''include_untrusted''}"
  by (cases m) simp_all

lemma sort_known: "sort_string x = ''most_recent'' \<longleftrightarrow> x = MostRecent"
  by (cases x) simp_all

lemma limits_read: "list_all (\<lambda>n. TrimSpace (int_string n) = int_string n \<and> int_string n \<noteq> [] \<and> Atoi (int_string n) = Some n) [1..100]"
  by code_simp

lemma limit_read: "1 \<le> n \<Longrightarrow> n \<le> 100 \<Longrightarrow> TrimSpace (int_string n) = int_string n \<and> int_string n \<noteq> [] \<and> Atoi (int_string n) = Some n"
  using limits_read by (simp add: list_all_iff)

lemma pairs_of:
  "query_array (query_pairs q) ''trust_mode'' = [trust_mode_string (q_trust_mode q)]"
  "query_array (query_pairs q) ''sort'' = [sort_string (coalesce (q_sort q) MostRecent)]"
  "query_array (query_pairs q) ''limit'' = [int_string (coalesce (Option.bind (q_page q) pg_limit) 25)]"
  "query_array (query_pairs q) ''signature_status'' = map sig_string (uniq (q_signature_status q))"
  "query_array (query_pairs q) ''company_ids'' = uniq (q_company_ids q)"
  "query_default (query_pairs q) ''search'' [] = trim (q_search q)"
  "query_default (query_pairs q) ''cursor'' [] = or_default (Option.bind (q_page q) pg_cursor) []"
  by (simp_all add: query_default_def query_array_def query_pairs_def Let_def filter_map comp_def)

text \<open>
  C18. The server reads the client's query string as the client means it: the search text, the trust
  mode, the signature badges (all of them if none is chosen), the companies and the limit. But of the
  three orders the filter sheet offers it takes one, and answers the query with any other by the error
  invalid_sort. (The limit is one the server allows, and no company contains a comma.)
\<close>

theorem list_query_understood:
  assumes "1 \<le> n" "n \<le> 100" "n = coalesce (Option.bind (q_page q) pg_limit) 25"
    and "\<And>c. c \<in> set (q_company_ids q) \<Longrightarrow> one_entry c"
  shows "read_list_args cc (read_query_string (encodeQueryParams q)) =
     (if coalesce (q_sort q) MostRecent \<noteq> MostRecent then Inl ''invalid_sort''
      else case read_cursor cc (query_pairs q) of
        None \<Rightarrow> Inl ''invalid_cursor''
      | Some cur \<Rightarrow> Inr \<lparr>la_search = TrimSpace (trim (q_search q)), la_mode = trust_mode_string (q_trust_mode q),
          la_signatures = (if q_signature_status q = [] then signature_values else map sig_string (uniq (q_signature_status q))),
          la_companies = uniq (q_company_ids q), la_limit = n, la_cursor = cur\<rparr>)"
proof -
  let ?ps = "query_pairs q"
  have mode: "TrimSpace (query_default ?ps ''trust_mode'' ''any'') = trust_mode_string (q_trust_mode q)"
    by (simp add: query_default_def pairs_of entry_trimmed union_entries)
  have sort: "TrimSpace (query_default ?ps ''sort'' ''most_recent'') = sort_string (coalesce (q_sort q) MostRecent)"
    by (simp add: query_default_def pairs_of entry_trimmed union_entries)
  have limit: "read_limit ?ps = Some n"
    using limit_read [OF assms(1,2)] assms(1,2) by (simp add: read_limit_def query_default_def pairs_of flip: assms(3))
  have sigs: "parseCSVOrRepeated ?ps ''signature_status'' = map sig_string (uniq (q_signature_status q))"
    by (rule entries_read [OF pairs_of(4)])
      (auto simp: list_all_iff sig_entry distinct_map uniq_remdups inj_on_def sig_string_inj)
  have companies: "parseCSVOrRepeated ?ps ''company_ids'' = uniq (q_company_ids q)"
    by (rule entries_read [OF pairs_of(5)]) (auto simp: list_all_iff assms(4) uniq_remdups)
  have known: "list_all (\<lambda>s. s \<in> set signature_values) (read_signatures ?ps)"
  proof -
    have "sig_string x \<in> set signature_values" for x by (cases x) (simp_all add: signature_values_def)
    then show ?thesis by (auto simp: read_signatures_def sigs Let_def list_all_iff)
  qed
  have none: "uniq xs = [] \<longleftrightarrow> xs = []" for xs :: "'a list" by (cases xs) simp_all
  have chosen: "read_signatures ?ps = (if q_signature_status q = [] then signature_values else map sig_string (uniq (q_signature_status q)))"
    by (simp add: read_signatures_def sigs Let_def none)
  show ?thesis
    unfolding query_string_read read_list_args_def Let_def mode sort limit companies
    using mode_known known by (auto simp: chosen sort_known pairs_of split: option.split)
qed

theorem list_query_understood_witness:
  "read_list_args demo_codec (read_query_string (encodeQueryParams (DEFAULT_RECRUITER_QUERY\<lparr>q_search := '' Ann '', q_company_ids := [''acme'', ''acme'']\<rparr>)))
     = Inr \<lparr>la_search = ''Ann'', la_mode = trust_mode_string (q_trust_mode DEFAULT_RECRUITER_QUERY),
         la_signatures = (if q_signature_status DEFAULT_RECRUITER_QUERY = [] then signature_values
            else map sig_string (uniq (q_signature_status DEFAULT_RECRUITER_QUERY))),
         la_companies = [''acme''], la_limit = 25, la_cursor = None\<rparr>
   \<and> read_list_args demo_codec (read_query_string (encodeQueryParams (DEFAULT_RECRUITER_QUERY\<lparr>q_sort := Some NameAz\<rparr>))) = Inl ''invalid_sort''"
proof -
  let ?q = "DEFAULT_RECRUITER_QUERY\<lparr>q_search := '' Ann '', q_company_ids := [''acme'', ''acme'']\<rparr>"
  let ?z = "DEFAULT_RECRUITER_QUERY\<lparr>q_sort := Some NameAz\<rparr>"
  have acme: "one_entry ''acme''" by code_simp
  have q: "coalesce (Option.bind (q_page ?q) pg_limit) 25 = 25" "coalesce (q_sort ?q) MostRecent = MostRecent"
    "read_cursor demo_codec (query_pairs ?q) = Some None" "TrimSpace (trim (q_search ?q)) = ''Ann''" by code_simp+
  have z: "coalesce (Option.bind (q_page ?z) pg_limit) 25 = 25" "q_company_ids ?z = []" by code_simp+
  show ?thesis
    using list_query_understood [of 25 ?q demo_codec] list_query_understood [of 25 ?z demo_codec] q z acme by simp
qed

section \<open>The retry of the interceptor in a browser\<close>

lemma retry_header: "(''x-auth-retry'', ''1'') \<in> set (rq_headers (retry_request k rq))"
  by (simp add: retry_request_def set_header_def) code_simp

lemma retry_stopped: "\<not> preflight_passes origin (retry_request k rq)"
proof -
  have "to_lower ''x-auth-retry'' = ''x-auth-retry''" by code_simp
  then have "\<not> (to_lower ''x-auth-retry'' \<in> set (cors_headers origin)
     \<or> to_lower ''x-auth-retry'' \<in> {''accept'', ''accept-language'', ''content-language''})"
    by (simp add: cors_headers_def)
  with retry_header [of k rq] show ?thesis unfolding preflight_passes_def list_all_iff by (metis fst_conv)
qed

text \<open>
  C17. Client and server together, in a browser: the interceptor marks its retry with a header that the
  server's answer to the browser's question does not allow, so the retry is not sent. Whatever the
  renewal of the session achieved, the caller of a request that was answered 401 or 403 gets that
  answer or an exception, never the answer to a retry.
\<close>

theorem web_retry_never_delivered:
  assumes "shouldHandleUrl (rq_url rq)" "\<not> isAuthEndpoint (rq_url rq)"
    and "w t (Fetch (authorized (accessToken s) rq)) = RResp x" "rs_status x = 401 \<or> rs_status x = 403"
    and browser: "\<And>t rq. shouldHandleUrl (rq_url rq) \<Longrightarrow> \<not> preflight_passes origin rq \<Longrightarrow> \<exists>e. w t (Fetch rq) = RFail e"
    and run: "run w (api_fetch rq) s t = (r, s', t')"
  shows "r = Inr x \<or> (\<exists>e. r = Inl e)"
proof -
  let ?Q = "\<lambda>y _ _. y = x"
  have ne: "rq_url rq \<noteq> []" using assms(1) by (auto simp: shouldHandleUrl_def API_BASE_URL_def)
  have url: "rq_url (retry_request k rq) = rq_url rq" for k by (simp add: retry_request_def)
  have retry: "wp w (fetch (retry_request k rq)) ?Q (\<lambda>_ _ _. True) s t" for k and s :: "'a auth_scheme" and t
    using browser [of "retry_request k rq" t] retry_stopped assms(1) by (auto simp: wp_fetch url)
  have renewed: "wp w (bind refresh (\<lambda>z. case z of RefreshFail \<Rightarrow> Return x | RefreshOk k \<Rightarrow> fetch (retry_request k rq)))
      ?Q (\<lambda>_ _ _. True) s t" for s :: "'a auth_scheme" and t
    unfolding wp_bind by (rule wp_total) (auto simp: retry wp_prims split: refresh_result.split)
  have mark: "wp w (seq (markSessionExpired why) (Return x)) ?Q (\<lambda>_ _ _. True) s t" for why and s :: "'a auth_scheme" and t
    unfolding wp_seq by (rule wp_total) (simp_all add: wp_prims)
  have "wp w (api_fetch rq) ?Q (\<lambda>_ _ _. True) s t"
    using assms(1-4) ne by (auto simp: api_fetch_def Let_def wp_bind [of _ "gets _"] wp_bind [of _ "fetch _"] wp_gets wp_fetch renewed mark)
  with run show ?thesis by (auto simp: wp_def split: sum.splits)
qed

text \<open>A browser in which the session can be renewed, but whose old token has expired.\<close>

definition web_world :: world where
  "web_world t e = (case e of
       Fetch rq \<Rightarrow> if \<not> preflight_passes ''https://mvp.cvera.app'' rq then RFail TypeErr
         else if rq_url rq = API_BASE_URL @ ''/auth/refresh'' then RResp token_response
         else RResp \<lparr>rs_status = 401, rs_text = [], rs_json = None\<rparr>
     | StoreGet k \<Rightarrow> RText (Some ''r0'') | _ \<Rightarrow> RDone)"

theorem web_retry_never_delivered_witness:
  "\<exists>e s' t'. run web_world (api_fetch (requestor_get API_BASE_URL (JStr ''a0''))) (initial_auth True) [] = (Inl e, s', t')
     \<and> accessToken s' = JStr ''a1'' \<and> status s' = StAuthenticated"
proof -
  let ?rq = "requestor_get API_BASE_URL (JStr ''a0'')"
  let ?x = "\<lparr>rs_status = 401, rs_text = [], rs_json = None\<rparr>"
  obtain r s' t' where run: "run web_world (api_fetch ?rq) (initial_auth True) [] = (r, s', t')" by (metis prod_cases3)
  have handled: "shouldHandleUrl (rq_url ?rq)" "\<not> isAuthEndpoint (rq_url ?rq)" by code_simp+
  have first: "web_world [] (Fetch (authorized (accessToken (initial_auth True)) ?rq)) = RResp ?x" by code_simp
  have "accessToken (fst (snd (run web_world (api_fetch ?rq) (initial_auth True) []))) = JStr ''a1''
      \<and> status (fst (snd (run web_world (api_fetch ?rq) (initial_auth True) []))) = StAuthenticated
      \<and> fst (run web_world (api_fetch ?rq) (initial_auth True) []) \<noteq> Inr ?x" by code_simp
  with run web_retry_never_delivered [OF handled first _ _ run, of "''https://mvp.cvera.app''"] show ?thesis
    by (auto simp: web_world_def)
qed

section \<open>A request from its form to the list\<close>

lemma created_row:
  assumes "CreateDraftReq body = Some (employer, Some claim)" "pg_uuid (ap_pg ap) (ax_sub cl) = Some p" "\<not> oc_fault oc"
    and "oc_id oc \<notin> er_id ` set (evt_requests st)"
  shows "\<exists>st'. handle_create ap oc cl body st
      = (json_answer 201 (JObj [(''request_id'', JStr (oc_id oc)), (''status'', JStr ''DRAFT'')]), st')
    \<and> evt_requests st' = evt_requests st @ [\<lparr>er_id = oc_id oc, er_candidate = p, er_employer = employer,
        er_status = ''DRAFT'', er_claim = claim, er_created = pg_time (ap_pg ap), er_updated = pg_time (ap_pg ap), er_version = 1,
        er_response_type = None, er_response = None, er_jws = None, er_trust_result = None, er_token = None\<rparr>]"
proof -
  have "find (\<lambda>r. er_id r = oc_id oc) (evt_requests st) = None"
    using assms(4) unfolding find_None_iff by (metis imageI)
  with assms(1-3) show ?thesis
    by (auto simp: handle_create_def answered_def WithTx_def CandidateCreateDraft_def tx_eval ensureEmployerConfig_def)
qed

lemma create_body_read:
  "employer \<noteq> [] \<Longrightarrow> CreateDraftReq (rq_body (create_request base token employer c)) = Some (employer, Some (claim_js c))"
proof -
  have "to_lower ''claim_snapshot'' \<noteq> to_lower ''employer_id''" by code_simp
  then show "employer \<noteq> [] \<Longrightarrow> ?thesis" by (simp add: CreateDraftReq_def create_request_def body_members_def claim_js_def)
qed

lemma requests_url: "serve_url ap oc base (rq\<lparr>rq_url := base @ ''/v1/requests''\<rparr>) st = serve ap oc [''requests''] [] (rq\<lparr>rq_url := base @ ''/v1/requests''\<rparr>) st"
proof -
  have "url_path ''requests'' = [''requests'']" "url_query ''requests'' = []" by code_simp+
  then show ?thesis using below_base [of base "''requests''"] unfolding serve_url_def by simp
qed

lemma requests_served:
  "rq_url rq = base @ ''/v1/requests'' \<Longrightarrow> serve_url ap oc base rq st = serve ap oc [''requests''] [] rq st"
  using requests_url [of ap oc base rq st] by (metis request.surjective request.update_convs(1) request.select_convs(1))

text \<open>The header the two requests of the client carry is the same, and so is what the server makes of it.\<close>

lemma same_caller:
  "GinRequireAuth parse (requestor_get base token) = GinRequireAuth parse (create_request base token employer c)"
proof -
  have "to_lower ''accept'' \<noteq> to_lower ''authorization''" "to_lower ''Accept'' = to_lower ''accept''"
    "to_lower ''Content-Type'' \<noteq> to_lower ''Authorization''" "to_lower ''Accept'' \<noteq> to_lower ''Authorization''" by code_simp+
  then have "request_header ''Authorization'' (requestor_get base token) = request_header ''Authorization'' (create_request base token employer c)"
    by (simp add: request_header_def requestor_get_def create_request_def)
  then show ?thesis by (simp add: GinRequireAuth_def)
qed

text \<open>
  C15. Client and server together: a request created from the form is in the list the client loads
  next, once, as a draft, with exactly the claim that was typed. (The token is accepted and the
  caller a requestor, the database carries the two transactions out, and the candidate has fewer
  than a hundred requests.)
\<close>

theorem created_request_listed:
  assumes caller: "GinRequireAuth (ap_parse ap) (create_request base token employer c) = Inr cl" "HasRole cl ''requestor''"
      "pg_uuid (ap_pg ap) (ax_sub cl) = Some p"
    and "employer \<noteq> []" "strip_slash base = base" "\<not> oc_fault oc" "\<not> oc_fault oc'"
    and fresh: "oc_id oc \<notin> er_id ` set (evt_requests st)"
    and few: "length (filter (\<lambda>r. er_candidate r = p) (evt_requests st)) < 100"
    and created: "serve_url ap oc base (create_request base token employer c) st = (resp, st')"
    and listed: "serve_url ap oc' base (requestor_get base token) st' = (resp', st'')"
  shows "rs_status resp = 201 \<and> rs_status resp' = 200
     \<and> (\<exists>vs. rs_json resp' = Some (JObj [(''items'', JArr vs)])
          \<and> map row_of (filter (\<lambda>v. jget v ''request_id'' = JStr (oc_id oc)) vs) =
            [Inr \<lparr>rr_request_id = JStr (oc_id oc), rr_claim = c, rr_status = JStr ''DRAFT'',
              rr_created_at = JStr (pg_format (ap_pg ap) (pg_time (ap_pg ap))),
              rr_updated_at = JStr (pg_format (ap_pg ap) (pg_time (ap_pg ap)))\<rparr>])"
proof -
  let ?new = "\<lparr>er_id = oc_id oc, er_candidate = p, er_employer = employer, er_status = ''DRAFT'', er_claim = claim_js c,
      er_created = pg_time (ap_pg ap), er_updated = pg_time (ap_pg ap), er_version = 1, er_response_type = None,
      er_response = None, er_jws = None, er_trust_result = None, er_token = None\<rparr>"
  have urls: "rq_url (create_request base token employer c) = base @ ''/v1/requests''" "rq_url (requestor_get base token) = base @ ''/v1/requests''"
    using assms(5) by (simp_all add: create_request_def requestor_get_def)
  have routes: "Register ''POST'' [''requests''] = Some RCreate" "Register ''GET'' [''requests''] = Some RList" by code_simp+
  have "handle_create ap oc cl (rq_body (create_request base token employer c)) st = (resp, st')"
    using created caller(1,2) routes unfolding requests_served [OF urls(1)] by (simp add: serve_def create_request_def)
  with created_row [OF create_body_read [OF assms(4), of base token c] caller(3) assms(6) fresh]
  have st': "evt_requests st' = evt_requests st @ [?new]" and ok: "rs_status resp = 201" by (simp_all add: json_answer_def)
  let ?rows = "latest_first 100 (filter (\<lambda>r. er_candidate r = p) (evt_requests st'))"
  have "handle_list ap oc' cl st' = (resp', st'')"
    using listed caller(1,2) routes same_caller [of "ap_parse ap" base token employer c] unfolding requests_served [OF urls(2)]
    by (simp add: serve_def requestor_get_def)
  then have resp': "resp' = json_answer 200 (JObj [(''items'', JArr (map (request_list_js (ap_pg ap)) ?rows))])"
    using caller(3) assms(7) by (auto simp: handle_list_def answered_def WithTx_def CandidateList_def tx_eval page_limit_def)
  have all: "?rows = sort_key (\<lambda>r. - er_updated r) (filter (\<lambda>r. er_candidate r = p) (evt_requests st'))"
    using few by (simp add: latest_first_def st')
  have "filter (\<lambda>r. er_id r = oc_id oc) ?rows = [?new]"
  proof -
    have none: "filter (\<lambda>r. er_candidate r = p \<and> er_id r = oc_id oc) (evt_requests st) = []"
      using fresh by (force simp: filter_empty_conv)
    show ?thesis unfolding all by (simp add: filter_sort st' none)
  qed
  then have "map row_of (filter (\<lambda>v. jget v ''request_id'' = JStr (oc_id oc)) (map (request_list_js (ap_pg ap)) ?rows))
      = [row_of (request_list_js (ap_pg ap) ?new)]"
    by (simp add: filter_map comp_def request_list_js_def)
  moreover have "row_of (request_list_js (ap_pg ap) ?new) = Inr \<lparr>rr_request_id = JStr (oc_id oc), rr_claim = c,
      rr_status = JStr ''DRAFT'', rr_created_at = JStr (pg_format (ap_pg ap) (pg_time (ap_pg ap))),
      rr_updated_at = JStr (pg_format (ap_pg ap) (pg_time (ap_pg ap)))\<rparr>"
    by (simp add: row_of_def request_list_js_def claim_roundtrip nullish_def)
  ultimately show ?thesis using ok by (simp add: resp' json_answer_def)
qed

theorem created_request_listed_witness:
  "\<exists>st vs r. st = snd (serve_url demo_api quiet ''b'' (create_request ''b'' (JStr ''a0'') ''acme'' demo_claim) drafted)
     \<and> rs_json (fst (serve_url demo_api quiet ''b'' (requestor_get ''b'' (JStr ''a0'')) st)) = Some (JObj [(''items'', JArr vs)])
     \<and> map row_of (filter (\<lambda>v. jget v ''request_id'' = JStr ''r9'') vs) = [Inr r]
     \<and> rr_claim r = demo_claim \<and> rr_status r = JStr ''DRAFT''"
proof -
  let ?create = "create_request ''b'' (JStr ''a0'') ''acme'' demo_claim"
  obtain resp st where created: "serve_url demo_api quiet ''b'' ?create drafted = (resp, st)" by (metis surj_pair)
  obtain resp' st' where listed: "serve_url demo_api quiet ''b'' (requestor_get ''b'' (JStr ''a0'')) st = (resp', st')" by (metis surj_pair)
  have caller: "GinRequireAuth (ap_parse demo_api) ?create = Inr \<lparr>ax_sub = ''ann'', ax_roles = [''requestor''], ax_typ = ''access''\<rparr>"
    "HasRole \<lparr>ax_sub = ''ann'', ax_roles = [''requestor''], ax_typ = ''access''\<rparr> ''requestor''"
    "pg_uuid (ap_pg demo_api) (ax_sub \<lparr>ax_sub = ''ann'', ax_roles = [''requestor''], ax_typ = ''access''\<rparr>) = Some ''ann''"
    "''acme'' \<noteq> []" "strip_slash ''b'' = ''b''" "\<not> oc_fault quiet" by code_simp+
  have "list_all (\<lambda>r. er_id r \<noteq> ''r9'') (evt_requests drafted)" and i: "oc_id quiet = ''r9''" by code_simp+
  then have fresh: "oc_id quiet \<notin> er_id ` set (evt_requests drafted)" by (auto simp: list_all_iff)
  have few: "length (filter (\<lambda>r. er_candidate r = ''ann'') (evt_requests drafted)) < 100" by code_simp
  from created_request_listed [OF caller(1-6) caller(6) fresh few created listed] created listed i
  show ?thesis by auto
qed

end
