(* ===== verification/ServerSessions.thy ===== *)
theory ServerSessions
  imports RequestApi
begin

text \<open>
  The sessions of the server (\<open>internal/httpapi/auth_handlers.go\<close>, \<open>refresh.go\<close>, \<open>logout.go\<close>): a session
  of Kratos is exchanged for an access token and a refresh token, a refresh token is rotated on every
  use, and using one again, a logout, or an account that is not active ends the whole session.
\<close>

section \<open>State\<close>

text \<open>
  The rows as far as the code reads them. Their tables are not declared in the repository; a row
  refused by a constraint of theirs is a statement that fails.
\<close>

record account =
  ac_id :: string
  ac_identity :: string
  ac_email :: "string option"
  ac_name :: "string option"
  ac_role :: string
  ac_status :: string

record auth_session =
  ss_id :: string
  ss_user :: string
  ss_device :: string
  ss_revoked :: "string option"

record refresh_token =
  rt_id :: string
  rt_session :: string
  rt_user :: string
  rt_hash :: string
  rt_current :: bool
  rt_expires :: int
  rt_revoked :: "string option"

record session_db =
  db_accounts :: "account list"
  db_sessions :: "auth_session list"
  db_tokens :: "refresh_token list"

text \<open>
  The configured parts: the keyed hash (\<open>None\<close>: no key), the signature of access tokens, the address
  of Kratos and its answers, and the instant a time column gives back for one written to it (its
  table is not declared in the repository; PostgreSQL keeps microseconds). And what a call happens upon: the time, what its random choices would
  be, and the statement that fails, if one does.
\<close>

record auth_server =
  sv_hash :: "string \<Rightarrow> string option"
  sv_mint :: "string \<Rightarrow> string \<Rightarrow> string list \<Rightarrow> string option"
  sv_kratos :: string
  sv_ask :: "request \<Rightarrow> reply"
  sv_column :: "int \<Rightarrow> int"

datatype db_fault = NoFault | FaultBegin | FaultToken | FaultUser | FaultWrite | FaultCommit

record chance =
  ch_now :: int
  ch_raw :: "string option"
  ch_token :: string
  ch_session :: string
  ch_user :: string
  ch_fault :: db_fault

definition ParseRole :: "string \<Rightarrow> string option" where
  "ParseRole s = (let v = to_lower (TrimSpace s) in
     if v \<in> {''requestor'', ''hr_reviewer'', ''recruiter'', ''cvera''} then Some v else None)"

text \<open>Thirty days, in the unit of \<open>ch_now\<close> and of Go's \<open>time.Time\<close>, a nanosecond.\<close>

definition REFRESH_TTL :: int where
  "REFRESH_TTL = 30 * 24 * 60 * 60 * 1000000000"

section \<open>Statements\<close>

text \<open>The session of a token by its hash; the subquery fails if several rows have the hash.\<close>

definition lookup_token :: "string \<Rightarrow> session_db \<Rightarrow> unit + refresh_token option" where
  "lookup_token h db = (case filter (\<lambda>t. rt_hash t = h) (db_tokens db) of
     [] \<Rightarrow> Inr None | [t] \<Rightarrow> Inr (Some t) | _ \<Rightarrow> Inl ())"

definition lookup_session :: "string \<Rightarrow> session_db \<Rightarrow> auth_session option" where
  "lookup_session i db = find (\<lambda>s. ss_id s = i) (db_sessions db)"

definition revoke_token :: "string \<Rightarrow> string \<Rightarrow> refresh_token \<Rightarrow> refresh_token" where
  "revoke_token reason i t = (if rt_session t = i \<and> rt_revoked t = None then t\<lparr>rt_revoked := Some reason, rt_current := False\<rparr> else t)"

definition revoke_session :: "string \<Rightarrow> string \<Rightarrow> auth_session \<Rightarrow> auth_session" where
  "revoke_session reason i s = (if ss_id s = i \<and> ss_revoked s = None then s\<lparr>ss_revoked := Some reason\<rparr> else s)"

definition revoke_family :: "string \<Rightarrow> string \<Rightarrow> session_db \<Rightarrow> session_db" where
  "revoke_family reason i db = db\<lparr>db_tokens := map (revoke_token reason i) (db_tokens db),
     db_sessions := map (revoke_session reason i) (db_sessions db)\<rparr>"

definition replace_token :: "string \<Rightarrow> refresh_token \<Rightarrow> refresh_token" where
  "replace_token i t = (if rt_id t = i then t\<lparr>rt_current := False\<rparr> else t)"

definition rotate_row :: "auth_server \<Rightarrow> chance \<Rightarrow> string \<Rightarrow> refresh_token \<Rightarrow> session_db \<Rightarrow> session_db" where
  "rotate_row sv ch h t db = db\<lparr>db_tokens := map (replace_token (rt_id t)) (db_tokens db) @
     [\<lparr>rt_id = ch_token ch, rt_session = rt_session t, rt_user = rt_user t, rt_hash = h, rt_current = True,
       rt_expires = sv_column sv (ch_now ch + REFRESH_TTL), rt_revoked = None\<rparr>]\<rparr>"

text \<open>A row with \<open>NULL\<close> for a text cannot be read.\<close>

definition load_user :: "string \<Rightarrow> session_db \<Rightarrow> (string \<times> string \<times> string \<times> string) option" where
  "load_user i db = Option.bind (find (\<lambda>a. ac_id a = i) (db_accounts db)) (\<lambda>a.
     Option.bind (ac_email a) (\<lambda>email. Option.bind (ac_name a) (\<lambda>name. Some (email, name, ac_role a, ac_status a))))"

section \<open>Answers\<close>

definition nonempty_member :: "string \<Rightarrow> string \<Rightarrow> (string \<times> jsval) list" where
  "nonempty_member k x = (if x = [] then [] else [(k, JStr x)])"

definition exchange_user :: "string \<Rightarrow> string \<Rightarrow> string \<Rightarrow> string \<Rightarrow> jsval" where
  "exchange_user i email name role = JObj ((''id'', JStr i) # nonempty_member ''email'' email @ nonempty_member ''name'' name
     @ [(''role'', JStr role)])"

definition AuthExchangeResponse :: "string \<Rightarrow> string \<Rightarrow> jsval \<Rightarrow> jsval" where
  "AuthExchangeResponse access raw user = JObj [(''access_token'', JStr access), (''refresh_token'', JStr raw), (''user'', user)]"

definition ok_answer :: response where
  "ok_answer = json_answer 200 (JObj [(''ok'', JStr ''true'')])"

section \<open>Refresh\<close>

definition AuthRefreshRequest :: "jsval \<Rightarrow> string option" where
  "AuthRefreshRequest body = Option.bind (body_members body) (\<lambda>ps.
     Option.bind (string_member ''refresh_token'' ps []) (\<lambda>token.
     Option.bind (string_member ''device_id'' ps []) (\<lambda>_. Some (TrimSpace token))))"

text \<open>The rotation, for a token that is current and whose user may go on.\<close>

definition rotate_token :: "auth_server \<Rightarrow> chance \<Rightarrow> refresh_token \<Rightarrow> string \<Rightarrow> string \<Rightarrow> string \<Rightarrow> session_db \<Rightarrow> response \<times> session_db" where
  "rotate_token sv ch t email name role db =
     (if ch_fault ch = FaultWrite then (writeErr 500 ''server_error'', db)
      else case ch_raw ch of
        None \<Rightarrow> (writeErr 500 ''server_error'', db)
      | Some raw \<Rightarrow>
          (case sv_hash sv raw of
             None \<Rightarrow> (writeErr 500 ''server_error'', db)
           | Some h \<Rightarrow>
               (case sv_mint sv (rt_user t) email [role] of
                  None \<Rightarrow> (writeErr 500 ''token_mint_failed'', db)
                | Some access \<Rightarrow>
                    if ch_fault ch = FaultCommit then (writeErr 500 ''server_error'', db)
                    else (json_answer 200 (AuthExchangeResponse access raw (exchange_user (rt_user t) email name role)), rotate_row sv ch h t db))))"

text \<open>
  The token found and its session not revoked. The answer to a token used again does not depend on
  the commit, nor does the one to a user who is not active on any statement.
\<close>

definition refresh_locked :: "auth_server \<Rightarrow> chance \<Rightarrow> refresh_token \<Rightarrow> session_db \<Rightarrow> response \<times> session_db" where
  "refresh_locked sv ch t db =
     (if rt_revoked t \<noteq> None \<or> ch_now ch > rt_expires t then (writeErr 401 ''refresh_token_expired_or_revoked'', db)
      else if \<not> rt_current t then
        (if ch_fault ch = FaultWrite then (writeErr 500 ''server_error'', db)
         else (writeErr 401 ''refresh_token_reused'',
               if ch_fault ch = FaultCommit then db else revoke_family ''reuse_detected'' (rt_session t) db))
      else case (if ch_fault ch = FaultUser then None else load_user (rt_user t) db) of
        None \<Rightarrow> (writeErr 500 ''server_error'', db)
      | Some (email, name, role, st) \<Rightarrow>
          if st \<noteq> ''active'' then
            (writeErr 403 ''account_inactive'',
             if ch_fault ch = FaultWrite \<or> ch_fault ch = FaultCommit then db else revoke_family ''user_inactive'' (rt_session t) db)
          else case ParseRole role of
            None \<Rightarrow> (writeErr 401 ''invalid_role'', db)
          | Some r \<Rightarrow> rotate_token sv ch t email name r db)"

definition HandleAuthRefresh :: "auth_server \<Rightarrow> chance \<Rightarrow> request \<Rightarrow> session_db \<Rightarrow> response \<times> session_db" where
  "HandleAuthRefresh sv ch rq db = (case AuthRefreshRequest (rq_body rq) of
       None \<Rightarrow> (writeErr 400 ''invalid_json'', db)
     | Some token \<Rightarrow>
         if token = [] then (writeErr 400 ''missing_refresh_token'', db)
         else case sv_hash sv token of
           None \<Rightarrow> (writeErr 500 ''server_error'', db)
         | Some h \<Rightarrow>
             if ch_fault ch = FaultBegin then (writeErr 500 ''server_error'', db)
             else case lookup_token h db of
               Inl u \<Rightarrow> (writeErr 500 ''server_error'', db)
             | Inr None \<Rightarrow> (writeErr 401 ''invalid_refresh_token'', db)
             | Inr (Some t) \<Rightarrow>
                 (case lookup_session (rt_session t) db of
                    None \<Rightarrow> (writeErr 401 ''invalid_refresh_token'', db)
                  | Some s \<Rightarrow>
                      if ss_revoked s \<noteq> None then (writeErr 401 ''invalid_refresh_token'', db)
                      else if ch_fault ch = FaultToken then (writeErr 500 ''server_error'', db)
                      else refresh_locked sv ch t db))"

section \<open>Logout\<close>

definition AuthLogoutRequest :: "jsval \<Rightarrow> string option" where
  "AuthLogoutRequest body = Option.bind (body_members body) (\<lambda>ps. map_option TrimSpace (string_member ''refresh_token'' ps []))"

definition HandleAuthLogout :: "auth_server \<Rightarrow> chance \<Rightarrow> request \<Rightarrow> session_db \<Rightarrow> response \<times> session_db" where
  "HandleAuthLogout sv ch rq db = (case AuthLogoutRequest (rq_body rq) of
       None \<Rightarrow> (writeErr 400 ''invalid_json'', db)
     | Some token \<Rightarrow>
         if token = [] then (writeErr 400 ''missing_refresh_token'', db)
         else case sv_hash sv token of
           None \<Rightarrow> (writeErr 500 ''server_error'', db)
         | Some h \<Rightarrow>
             if ch_fault ch = FaultBegin then (writeErr 500 ''server_error'', db)
             else case lookup_token h db of
               Inl u \<Rightarrow> (writeErr 500 ''server_error'', db)
             | Inr None \<Rightarrow> (ok_answer, db)
             | Inr (Some t) \<Rightarrow>
                 (case lookup_session (rt_session t) db of
                    None \<Rightarrow> (ok_answer, db)
                  | Some s \<Rightarrow>
                      if ch_fault ch = FaultWrite \<or> ch_fault ch = FaultCommit then (writeErr 500 ''server_error'', db)
                      else (ok_answer, revoke_family ''logout'' (ss_id s) db)))"

section \<open>Exchange\<close>

datatype whoami_error = WhoamiNon200 | WhoamiUnreachable

record whoami =
  wi_id :: string
  wi_traits :: "(string \<times> jsval) list"
  wi_active :: bool

text \<open>The struct Kratos' answer is decoded into: an object within an object, a map, a flag.\<close>

fun map_member :: "string \<Rightarrow> (string \<times> jsval) list \<Rightarrow> (string \<times> jsval) list \<Rightarrow> (string \<times> jsval) list option" where
  "map_member k [] cur = Some cur"
| "map_member k ((n, v) # rest) cur =
     (if to_lower n \<noteq> to_lower k then map_member k rest cur
      else case v of JObj ps \<Rightarrow> map_member k rest (cur @ filter (\<lambda>p. snd p \<noteq> JUndef) ps) | JNull \<Rightarrow> map_member k rest [] | _ \<Rightarrow> None)"

fun bool_member :: "string \<Rightarrow> (string \<times> jsval) list \<Rightarrow> bool \<Rightarrow> bool option" where
  "bool_member k [] cur = Some cur"
| "bool_member k ((n, v) # rest) cur =
     (if to_lower n \<noteq> to_lower k then bool_member k rest cur
      else case v of JBool b \<Rightarrow> bool_member k rest b | JNull \<Rightarrow> bool_member k rest cur | _ \<Rightarrow> None)"

fun identity_member :: "(string \<times> jsval) list \<Rightarrow> string \<times> (string \<times> jsval) list \<Rightarrow> (string \<times> (string \<times> jsval) list) option" where
  "identity_member [] cur = Some cur"
| "identity_member ((n, v) # rest) cur =
     (if to_lower n \<noteq> ''identity'' then identity_member rest cur
      else if v = JNull then identity_member rest cur
      else case v of
        JObj ps \<Rightarrow> Option.bind (string_member ''id'' ps (fst cur)) (\<lambda>i.
                   Option.bind (map_member ''traits'' ps (snd cur)) (\<lambda>traits. identity_member rest (i, traits)))
      | _ \<Rightarrow> None)"

definition decode_whoami :: "jsval \<Rightarrow> whoami option" where
  "decode_whoami v = Option.bind (body_members v) (\<lambda>ps.
     Option.bind (identity_member ps ([], [])) (\<lambda>(i, traits).
     Option.bind (bool_member ''active'' ps False) (\<lambda>active.
     Some \<lparr>wi_id = i, wi_traits = traits, wi_active = active\<rparr>)))"

text \<open>Asking Kratos whose session it is, by the token of a device or the cookies of a browser.\<close>

definition kratos_base :: "auth_server \<Rightarrow> string" where
  "kratos_base sv = rev (dropWhile (\<lambda>c. c = CHR ''/'') (rev (TrimSpace (sv_kratos sv))))"

definition whoami_request :: "string \<Rightarrow> (string \<times> string) list \<Rightarrow> request" where
  "whoami_request base headers = \<lparr>rq_url = base @ ''/sessions/whoami'', rq_method = ''GET'', rq_headers = headers,
     rq_credentials = [], rq_body = JUndef\<rparr>"

definition whoami_answer :: "reply \<Rightarrow> whoami_error + whoami" where
  "whoami_answer r = (case r of
       RResp x \<Rightarrow> if rs_status x \<noteq> 200 then Inl WhoamiNon200
         else (case Option.bind (rs_json x) decode_whoami of None \<Rightarrow> Inl WhoamiUnreachable | Some who \<Rightarrow> Inr who)
     | _ \<Rightarrow> Inl WhoamiUnreachable)"

definition kratosWhoami :: "auth_server \<Rightarrow> string \<Rightarrow> whoami_error + whoami" where
  "kratosWhoami sv token = (if kratos_base sv = [] then Inl WhoamiUnreachable
     else whoami_answer (sv_ask sv (whoami_request (kratos_base sv) [(''X-Session-Token'', token), (''Accept'', ''application/json'')])))"

definition kratosWhoamiWithCookie :: "auth_server \<Rightarrow> string \<Rightarrow> whoami_error + whoami" where
  "kratosWhoamiWithCookie sv cookies = (if kratos_base sv = [] \<or> TrimSpace cookies = [] then Inl WhoamiUnreachable
     else whoami_answer (sv_ask sv (whoami_request (kratos_base sv) [(''Accept'', ''application/json''), (''Cookie'', TrimSpace cookies)])))"

definition pickStringTrait :: "(string \<times> jsval) list \<Rightarrow> string \<Rightarrow> string" where
  "pickStringTrait traits k = (case map_of (rev traits) k of Some (JStr s) \<Rightarrow> TrimSpace s | _ \<Rightarrow> [])"

datatype issue_error = AccountInactive | IssueFailed

text \<open>The account of an identity: inserted, or its e-mail and name brought up to date.\<close>

definition upsert_account :: "string \<Rightarrow> string \<Rightarrow> string \<Rightarrow> string \<Rightarrow> session_db \<Rightarrow> account \<times> session_db" where
  "upsert_account new_id kid email name db =
     (case find (\<lambda>a. ac_identity a = kid) (db_accounts db) of
        None \<Rightarrow>
          let a = \<lparr>ac_id = new_id, ac_identity = kid, ac_email = Some email, ac_name = Some name,
                   ac_role = ''requestor'', ac_status = ''active''\<rparr>
          in (a, db\<lparr>db_accounts := db_accounts db @ [a]\<rparr>)
      | Some a \<Rightarrow>
          (a\<lparr>ac_email := Some email, ac_name := Some name\<rparr>,
           db\<lparr>db_accounts := map (\<lambda>b. if ac_identity b = kid then b\<lparr>ac_email := Some email, ac_name := Some name\<rparr> else b) (db_accounts db)\<rparr>))"

definition start_session :: "auth_server \<Rightarrow> chance \<Rightarrow> string \<Rightarrow> string \<Rightarrow> string \<Rightarrow> session_db \<Rightarrow> session_db" where
  "start_session sv ch user device h db = db\<lparr>
     db_sessions := db_sessions db @ [\<lparr>ss_id = ch_session ch, ss_user = user, ss_device = device, ss_revoked = None\<rparr>],
     db_tokens := db_tokens db @ [\<lparr>rt_id = ch_token ch, rt_session = ch_session ch, rt_user = user, rt_hash = h,
       rt_current = True, rt_expires = sv_column sv (ch_now ch + REFRESH_TTL), rt_revoked = None\<rparr>]\<rparr>"

text \<open>The access token is signed after the commit: if that fails, the session is there all the same.\<close>

definition issueAuthExchangeResponseForKratosIdentity ::
  "auth_server \<Rightarrow> chance \<Rightarrow> string \<Rightarrow> string \<Rightarrow> string \<Rightarrow> string \<Rightarrow> session_db \<Rightarrow> (issue_error + jsval) \<times> session_db" where
  "issueAuthExchangeResponseForKratosIdentity sv ch kid email0 name0 device db =
     (let email = TrimSpace (to_lower email0); name = TrimSpace name0 in
      if TrimSpace kid = [] \<or> ch_fault ch = FaultBegin \<or> ch_fault ch = FaultUser then (Inl IssueFailed, db)
      else
        let (a, db1) = upsert_account (ch_user ch) (TrimSpace kid) email name db in
        if ac_status a \<noteq> ''active'' then (Inl AccountInactive, db)
        else case ParseRole (ac_role a) of
          None \<Rightarrow> (Inl IssueFailed, db)
        | Some role \<Rightarrow>
            (case Option.bind (ch_raw ch) (\<lambda>raw. map_option (Pair raw) (sv_hash sv raw)) of
               None \<Rightarrow> (Inl IssueFailed, db)
             | Some (raw, h) \<Rightarrow>
                 if ch_fault ch = FaultWrite \<or> ch_fault ch = FaultCommit then (Inl IssueFailed, db)
                 else
                   (case sv_mint sv (ac_id a) email [role] of
                      None \<Rightarrow> (Inl IssueFailed, start_session sv ch (ac_id a) (TrimSpace device) h db1)
                    | Some access \<Rightarrow> (Inr (AuthExchangeResponse access raw (exchange_user (ac_id a) email name role)),
                                      start_session sv ch (ac_id a) (TrimSpace device) h db1))))"

text \<open>What both exchanges do with Kratos' answer.\<close>

definition exchange_identity :: "auth_server \<Rightarrow> chance \<Rightarrow> whoami_error + whoami \<Rightarrow> string \<Rightarrow> session_db \<Rightarrow> response \<times> session_db" where
  "exchange_identity sv ch answer device db = (case answer of
       Inl WhoamiNon200 \<Rightarrow> (writeErr 401 ''invalid_kratos_session'', db)
     | Inl WhoamiUnreachable \<Rightarrow> (writeErr 502 ''kratos_unreachable'', db)
     | Inr who \<Rightarrow>
         if \<not> wi_active who \<or> TrimSpace (wi_id who) = [] then (writeErr 401 ''invalid_kratos_session'', db)
         else case issueAuthExchangeResponseForKratosIdentity sv ch (wi_id who) (pickStringTrait (wi_traits who) ''email'')
                     (pickStringTrait (wi_traits who) ''name'') device db of
           (Inl AccountInactive, db') \<Rightarrow> (writeErr 403 ''account_inactive'', db')
         | (Inl IssueFailed, db') \<Rightarrow> (writeErr 500 ''server_error'', db')
         | (Inr pair, db') \<Rightarrow> (json_answer 200 pair, db'))"

definition AuthExchangeRequest :: "jsval \<Rightarrow> (string \<times> string) option" where
  "AuthExchangeRequest body = Option.bind (body_members body) (\<lambda>ps.
     Option.bind (string_member ''kratos_session_token'' ps []) (\<lambda>token.
     map_option (Pair (TrimSpace token)) (string_member ''device_id'' ps [])))"

definition HandleAuthExchange :: "auth_server \<Rightarrow> chance \<Rightarrow> request \<Rightarrow> session_db \<Rightarrow> response \<times> session_db" where
  "HandleAuthExchange sv ch rq db =
     (if rq_method rq \<noteq> ''POST'' then (writeErr 405 ''method_not_allowed'', db)
      else case AuthExchangeRequest (rq_body rq) of
        None \<Rightarrow> (writeErr 400 ''invalid_json'', db)
      | Some (token, device) \<Rightarrow>
          if token = [] then (writeErr 400 ''missing_kratos_session_token'', db)
          else exchange_identity sv ch (kratosWhoami sv token) device db)"

definition HandleAuthWebExchange :: "auth_server \<Rightarrow> chance \<Rightarrow> request \<Rightarrow> session_db \<Rightarrow> response \<times> session_db" where
  "HandleAuthWebExchange sv ch rq db =
     (if rq_method rq \<noteq> ''POST'' then (writeErr 405 ''method_not_allowed'', db)
      else
        let cookies = TrimSpace (request_header ''Cookie'' rq) in
        if cookies = [] then (writeErr 401 ''missing_kratos_cookie'', db)
        else exchange_identity sv ch (kratosWhoamiWithCookie sv cookies) ''web'' db)"

section \<open>Steps of the server\<close>

text \<open>
  A call of one of the four handlers, or a change of the accounts by an operator. The random
  identifiers and the hash of the random token are those of no row.
\<close>

definition fresh_chance :: "auth_server \<Rightarrow> chance \<Rightarrow> session_db \<Rightarrow> bool" where
  "fresh_chance sv ch db \<longleftrightarrow> ch_session ch \<notin> ss_id ` set (db_sessions db) \<and> ch_session ch \<notin> rt_session ` set (db_tokens db)
     \<and> ch_token ch \<notin> rt_id ` set (db_tokens db) \<and> Option.bind (ch_raw ch) (sv_hash sv) \<notin> (Some \<circ> rt_hash) ` set (db_tokens db)"

inductive auth_step :: "auth_server \<Rightarrow> session_db \<Rightarrow> session_db \<Rightarrow> bool" for sv where
  refreshed: "fresh_chance sv ch db \<Longrightarrow> auth_step sv db (snd (HandleAuthRefresh sv ch rq db))"
| logged_out: "auth_step sv db (snd (HandleAuthLogout sv ch rq db))"
| exchanged: "fresh_chance sv ch db \<Longrightarrow> auth_step sv db (snd (HandleAuthExchange sv ch rq db))"
| web_exchanged: "fresh_chance sv ch db \<Longrightarrow> auth_step sv db (snd (HandleAuthWebExchange sv ch rq db))"
| administered: "auth_step sv db (db\<lparr>db_accounts := accounts\<rparr>)"

end
