(* ===== verification/ServerSessionsSafety.thy ===== *)
theory ServerSessionsSafety
  imports ServerSessions AuthSafety
begin

text \<open>
  What the server's sessions guarantee: a session that is not revoked has one current refresh token,
  a token renews the session once, and a session that was ended stays ended.
\<close>

section \<open>What the handlers do to the rows\<close>

lemma found_token: "lookup_token h db = Inr (Some t) \<Longrightarrow> t \<in> set (db_tokens db) \<and> rt_hash t = h"
proof -
  assume "lookup_token h db = Inr (Some t)"
  then have "filter (\<lambda>t. rt_hash t = h) (db_tokens db) = [t]" by (simp add: lookup_token_def split: list.splits)
  then have "t \<in> set (filter (\<lambda>t. rt_hash t = h) (db_tokens db))" by simp
  then show ?thesis by simp
qed

lemma refresh_effect:
  "snd (HandleAuthRefresh sv ch rq db) = db
   \<or> (\<exists>reason i. snd (HandleAuthRefresh sv ch rq db) = revoke_family reason i db)
   \<or> (\<exists>h t s. t \<in> set (db_tokens db) \<and> rt_current t \<and> lookup_session (rt_session t) db = Some s \<and> ss_revoked s = None
        \<and> Option.bind (ch_raw ch) (sv_hash sv) = Some h \<and> snd (HandleAuthRefresh sv ch rq db) = rotate_row sv ch h t db)"
proof -
  have locked: "snd (refresh_locked sv ch t db) = db \<or> (\<exists>reason i. snd (refresh_locked sv ch t db) = revoke_family reason i db)
     \<or> (rt_current t \<and> (\<exists>h. Option.bind (ch_raw ch) (sv_hash sv) = Some h \<and> snd (refresh_locked sv ch t db) = rotate_row sv ch h t db))" for t
    by (auto simp: refresh_locked_def rotate_token_def split: option.split)
  show ?thesis
    using locked found_token by (simp add: HandleAuthRefresh_def split: option.split sum.split) blast
qed

lemma logout_effect:
  "snd (HandleAuthLogout sv ch rq db) = db \<or> (\<exists>reason i. snd (HandleAuthLogout sv ch rq db) = revoke_family reason i db)"
  by (auto simp: HandleAuthLogout_def split: option.split sum.split)

lemma upsert_rows:
  "upsert_account i kid email name db = (a, db') \<Longrightarrow> db_tokens db' = db_tokens db \<and> db_sessions db' = db_sessions db"
  by (auto simp: upsert_account_def Let_def split: option.splits)

definition started :: "auth_server \<Rightarrow> chance \<Rightarrow> session_db \<Rightarrow> session_db \<Rightarrow> bool" where
  "started sv ch db db' \<longleftrightarrow> (db_tokens db' = db_tokens db \<and> db_sessions db' = db_sessions db)
     \<or> (\<exists>u d h. Option.bind (ch_raw ch) (sv_hash sv) = Some h \<and> db_tokens db' = db_tokens (start_session sv ch u d h db)
          \<and> db_sessions db' = db_sessions (start_session sv ch u d h db))"

lemma issue_started: "started sv ch db (snd (issueAuthExchangeResponseForKratosIdentity sv ch kid email name device db))"
proof -
  obtain a db1 where up: "upsert_account (ch_user ch) (TrimSpace kid) (TrimSpace (to_lower email)) (TrimSpace name) db = (a, db1)"
    by (metis surj_pair)
  note rows = upsert_rows [OF up]
  show ?thesis
  proof (cases "Option.bind (ch_raw ch) (\<lambda>raw. map_option (Pair raw) (sv_hash sv raw))")
    case None
    then show ?thesis
      by (simp add: issueAuthExchangeResponseForKratosIdentity_def Let_def up started_def split: option.split)
  next
    case (Some p)
    then obtain raw h where "ch_raw ch = Some raw" "sv_hash sv raw = Some h" "p = (raw, h)"
      by (auto simp: Option.bind_eq_Some_conv)
    with rows show ?thesis
      by (auto simp: issueAuthExchangeResponseForKratosIdentity_def Let_def up started_def start_session_def split: option.split)
  qed
qed

lemma identity_started: "started sv ch db (snd (exchange_identity sv ch asked device db))"
proof (cases asked)
  case (Inr who)
  have "snd (exchange_identity sv ch asked device db) = db \<or> snd (exchange_identity sv ch asked device db) =
      snd (issueAuthExchangeResponseForKratosIdentity sv ch (wi_id who) (pickStringTrait (wi_traits who) ''email'')
        (pickStringTrait (wi_traits who) ''name'') device db)"
    by (auto simp: exchange_identity_def Inr split: prod.split sum.split issue_error.split)
  then show ?thesis using issue_started by (metis started_def)
qed (auto simp: exchange_identity_def started_def split: whoami_error.split)

lemma exchange_effect:
  "started sv ch db (snd (HandleAuthExchange sv ch rq db))" "started sv ch db (snd (HandleAuthWebExchange sv ch rq db))"
proof -
  have stays: "started sv ch db db" by (simp add: started_def)
  show "started sv ch db (snd (HandleAuthExchange sv ch rq db))"
    by (auto simp: HandleAuthExchange_def identity_started stays split: option.split)
  show "started sv ch db (snd (HandleAuthWebExchange sv ch rq db))"
    by (auto simp: HandleAuthWebExchange_def Let_def identity_started stays)
qed

section \<open>One current token per session\<close>

definition current_tokens :: "string \<Rightarrow> session_db \<Rightarrow> refresh_token list" where
  "current_tokens i db = filter (\<lambda>t. rt_session t = i \<and> rt_current t) (db_tokens db)"

definition sessions_ok :: "session_db \<Rightarrow> bool" where
  "sessions_ok db \<longleftrightarrow> distinct (map rt_hash (db_tokens db)) \<and> distinct (map rt_id (db_tokens db)) \<and> distinct (map ss_id (db_sessions db))
     \<and> (\<forall>t \<in> set (db_tokens db). \<exists>s \<in> set (db_sessions db). ss_id s = rt_session t \<and> (rt_revoked t = None \<longleftrightarrow> ss_revoked s = None))
     \<and> (\<forall>s \<in> set (db_sessions db). length (current_tokens (ss_id s) db) = (if ss_revoked s = None then 1 else 0))"

lemma sessions_okD:
  assumes "sessions_ok db"
  shows "distinct (map rt_hash (db_tokens db))" "distinct (map rt_id (db_tokens db))" "distinct (map ss_id (db_sessions db))"
    and "t \<in> set (db_tokens db) \<Longrightarrow> \<exists>s \<in> set (db_sessions db). ss_id s = rt_session t \<and> (rt_revoked t = None \<longleftrightarrow> ss_revoked s = None)"
    and "s \<in> set (db_sessions db) \<Longrightarrow> length (current_tokens (ss_id s) db) = (if ss_revoked s = None then 1 else 0)"
  using assms by (auto simp: sessions_ok_def)

lemma same_rows_ok: "db_tokens db' = db_tokens db \<Longrightarrow> db_sessions db' = db_sessions db \<Longrightarrow> sessions_ok db' = sessions_ok db"
  by (simp add: sessions_ok_def current_tokens_def)

lemma current_unrevoked: "sessions_ok db \<Longrightarrow> t \<in> set (db_tokens db) \<Longrightarrow> rt_current t \<Longrightarrow> rt_revoked t = None"
proof (rule ccontr)
  assume ok: "sessions_ok db" and t: "t \<in> set (db_tokens db)" "rt_current t" and "rt_revoked t \<noteq> None"
  then obtain s where s: "s \<in> set (db_sessions db)" "ss_id s = rt_session t" "ss_revoked s \<noteq> None"
    using sessions_okD(4) [OF ok t(1)] by auto
  then have "current_tokens (rt_session t) db = []" using sessions_okD(5) [OF ok s(1)] by auto
  with t show False by (auto simp: current_tokens_def filter_empty_conv)
qed

text \<open>A change of the rows one by one that only makes tokens of one session less.\<close>

lemma revoke_token_simps [simp]:
  "rt_hash (revoke_token r i t) = rt_hash t" "rt_id (revoke_token r i t) = rt_id t" "rt_session (revoke_token r i t) = rt_session t"
  "ss_id (revoke_session r i s) = ss_id s"
  "rt_hash (replace_token j t) = rt_hash t" "rt_id (replace_token j t) = rt_id t" "rt_session (replace_token j t) = rt_session t"
  "rt_revoked (replace_token j t) = rt_revoked t"
  by (simp_all add: revoke_token_def revoke_session_def replace_token_def)

lemma family_tokens:
  assumes "sessions_ok db"
  shows "current_tokens j (revoke_family reason i db) = (if j = i then [] else current_tokens j db)"
proof (cases "j = i")
  case True
  have "\<not> rt_current (revoke_token reason i t)" if "t \<in> set (db_tokens db)" "rt_session t = i" for t
    using current_unrevoked [OF assms that(1)] that(2) by (auto simp: revoke_token_def)
  with True show ?thesis by (auto simp: current_tokens_def revoke_family_def filter_empty_conv)
next
  case False
  then have "revoke_token reason i t = t" if "rt_session t = j" for t using that by (simp add: revoke_token_def)
  then have "map (revoke_token reason i) (filter (\<lambda>t. rt_session t = j \<and> rt_current t) ts) = filter (\<lambda>t. rt_session t = j \<and> rt_current t) ts
    \<and> filter (\<lambda>t. rt_session t = j \<and> rt_current t) (map (revoke_token reason i) ts) = filter (\<lambda>t. rt_session t = j \<and> rt_current t) ts" for ts
    by (induction ts) auto
  with False show ?thesis by (simp add: current_tokens_def revoke_family_def)
qed

lemma family_ok: "sessions_ok db \<Longrightarrow> sessions_ok (revoke_family reason i db)"
proof -
  assume ok: "sessions_ok db"
  let ?db = "revoke_family reason i db"
  have ids: "map rt_hash (db_tokens ?db) = map rt_hash (db_tokens db)" "map rt_id (db_tokens ?db) = map rt_id (db_tokens db)"
    "map ss_id (db_sessions ?db) = map ss_id (db_sessions db)" by (simp_all add: revoke_family_def comp_def)
  have "\<exists>s \<in> set (db_sessions ?db). ss_id s = rt_session t \<and> (rt_revoked t = None \<longleftrightarrow> ss_revoked s = None)" if t: "t \<in> set (db_tokens ?db)" for t
  proof -
    from t obtain u where u: "u \<in> set (db_tokens db)" "t = revoke_token reason i u" unfolding revoke_family_def by simp blast
    from sessions_okD(4) [OF ok u(1)] obtain s where s: "s \<in> set (db_sessions db)" "ss_id s = rt_session u"
      "rt_revoked u = None \<longleftrightarrow> ss_revoked s = None" by metis
    then have "revoke_session reason i s \<in> set (db_sessions ?db)" by (simp add: revoke_family_def)
    moreover have "rt_revoked t = None \<longleftrightarrow> ss_revoked (revoke_session reason i s) = None"
      using s u by (auto simp: revoke_token_def revoke_session_def)
    ultimately show ?thesis using s(2) u(2) by (intro bexI [of _ "revoke_session reason i s"]) simp_all
  qed
  moreover have "length (current_tokens (ss_id s) ?db) = (if ss_revoked s = None then 1 else 0)" if s: "s \<in> set (db_sessions ?db)" for s
  proof -
    from s obtain u where u: "u \<in> set (db_sessions db)" "s = revoke_session reason i u" unfolding revoke_family_def by simp blast
    with sessions_okD(5) [OF ok u(1)] show ?thesis by (auto simp: family_tokens [OF ok] revoke_session_def)
  qed
  ultimately show ?thesis using ok by (simp add: sessions_ok_def ids)
qed

lemma sole_current:
  assumes "length (current_tokens (rt_session t) db) = 1" "t \<in> set (db_tokens db)" "rt_current t"
  shows "current_tokens (rt_session t) db = [t]"
proof -
  have "t \<in> set (current_tokens (rt_session t) db)" using assms(2,3) by (simp add: current_tokens_def)
  with assms(1) show ?thesis by (cases "current_tokens (rt_session t) db") auto
qed

lemma rotated_tokens:
  assumes ok: "sessions_ok db" and t: "t \<in> set (db_tokens db)" "rt_current t"
  shows "filter (\<lambda>u. rt_session u = j \<and> rt_current u) (map (replace_token (rt_id t)) (db_tokens db))
     = (if j = rt_session t then [] else current_tokens j db)"
proof -
  have same: "u = t" if "u \<in> set (db_tokens db)" "rt_id u = rt_id t" for u
    using that t(1) sessions_okD(2) [OF ok] by (auto simp: distinct_map dest: inj_onD)
  have "length (current_tokens (rt_session t) db) = 1"
  proof -
    obtain s where s: "s \<in> set (db_sessions db)" "ss_id s = rt_session t" "ss_revoked s = None"
      using sessions_okD(4) [OF ok t(1)] current_unrevoked [OF ok t] by auto
    with sessions_okD(5) [OF ok s(1)] show ?thesis by simp
  qed
  then have sole: "current_tokens (rt_session t) db = [t]" using t by (rule sole_current)
  show ?thesis
  proof (cases "j = rt_session t")
    case True
    have "\<not> rt_current (replace_token (rt_id t) u)" if "u \<in> set (db_tokens db)" "rt_session u = rt_session t" for u
    proof (cases "rt_current u")
      case True
      then have "u \<in> set (current_tokens (rt_session t) db)" using that by (simp add: current_tokens_def)
      with sole show ?thesis by (simp add: replace_token_def)
    qed (simp add: replace_token_def)
    with True show ?thesis by (auto simp: filter_empty_conv)
  next
    case False
    have "replace_token (rt_id t) u = u" if "u \<in> set (db_tokens db)" "rt_session u = j" for u
      using same [OF that(1)] that(2) False by (auto simp: replace_token_def)
    then have "filter (\<lambda>u. rt_session u = j \<and> rt_current u) (map (replace_token (rt_id t)) ts) = filter (\<lambda>u. rt_session u = j \<and> rt_current u) ts"
      if "set ts \<subseteq> set (db_tokens db)" for ts
      using that by (induction ts) auto
    with False show ?thesis by (simp add: current_tokens_def)
  qed
qed

lemma rotate_ok:
  assumes ok: "sessions_ok db" and t: "t \<in> set (db_tokens db)" "rt_current t"
    and fresh: "fresh_chance sv ch db" "Option.bind (ch_raw ch) (sv_hash sv) = Some h"
  shows "sessions_ok (rotate_row sv ch h t db)"
proof -
  let ?db = "rotate_row sv ch h t db"
  have new: "h \<notin> rt_hash ` set (db_tokens db)" "ch_token ch \<notin> rt_id ` set (db_tokens db)"
    using fresh by (auto simp: fresh_chance_def)
  have rows: "db_sessions ?db = db_sessions db"
    "map rt_hash (db_tokens ?db) = map rt_hash (db_tokens db) @ [h]" "map rt_id (db_tokens ?db) = map rt_id (db_tokens db) @ [ch_token ch]"
    by (simp_all add: rotate_row_def comp_def)
  have owner: "\<exists>s \<in> set (db_sessions db). ss_id s = rt_session u \<and> (rt_revoked u = None \<longleftrightarrow> ss_revoked s = None)"
    if "u \<in> set (db_tokens ?db)" for u
  proof -
    from that obtain v where v: "v \<in> set (db_tokens db)" "rt_session u = rt_session v" "rt_revoked u = rt_revoked v"
      using t current_unrevoked [OF ok t] unfolding rotate_row_def by auto
    from sessions_okD(4) [OF ok v(1)] v(2,3) show ?thesis by simp
  qed
  have one: "length (current_tokens (ss_id s) ?db) = (if ss_revoked s = None then 1 else 0)" if s: "s \<in> set (db_sessions db)" for s
  proof -
    have len: "current_tokens j ?db = (if j = rt_session t then [] else current_tokens j db)
        @ (if j = rt_session t then [last (db_tokens ?db)] else [])" for j
      using rotated_tokens [OF ok t] by (simp add: current_tokens_def rotate_row_def)
    from sessions_okD(4) [OF ok t(1)] obtain s' where s': "s' \<in> set (db_sessions db)" "ss_id s' = rt_session t" "ss_revoked s' = None"
      using current_unrevoked [OF ok t] by auto
    have "s = s'" if "ss_id s = rt_session t"
      using that s s' sessions_okD(3) [OF ok] by (metis distinct_map inj_onD)
    with s'(3) sessions_okD(5) [OF ok s] show ?thesis by (auto simp: len)
  qed
  show ?thesis
    unfolding sessions_ok_def rows using sessions_okD(1-3) [OF ok] new owner one by auto
qed

lemma start_ok:
  assumes ok: "sessions_ok db" and fresh: "fresh_chance sv ch db" "Option.bind (ch_raw ch) (sv_hash sv) = Some h"
  shows "sessions_ok (start_session sv ch u d h db)"
proof -
  let ?db = "start_session sv ch u d h db"
  have new: "h \<notin> rt_hash ` set (db_tokens db)" "ch_token ch \<notin> rt_id ` set (db_tokens db)"
    "ch_session ch \<notin> rt_session ` set (db_tokens db)" "ch_session ch \<notin> ss_id ` set (db_sessions db)"
    using fresh by (auto simp: fresh_chance_def)
  have owner: "\<exists>s \<in> set (db_sessions ?db). ss_id s = rt_session t \<and> (rt_revoked t = None \<longleftrightarrow> ss_revoked s = None)"
    if "t \<in> set (db_tokens ?db)" for t
  proof (cases "t \<in> set (db_tokens db)")
    case True
    from sessions_okD(4) [OF ok this] show ?thesis unfolding start_session_def by auto
  qed (use that in \<open>simp add: start_session_def\<close>)
  have "current_tokens (ch_session ch) db = []" using new(3) by (force simp: current_tokens_def filter_empty_conv)
  moreover have "current_tokens j ?db = current_tokens j db @ (if j = ch_session ch then [last (db_tokens ?db)] else [])" for j
    by (simp add: current_tokens_def start_session_def)
  moreover have "ss_id s \<noteq> ch_session ch" if "s \<in> set (db_sessions db)" for s using that new(4) by (metis imageI)
  moreover have "s \<in> set (db_sessions db) \<or> (ss_id s = ch_session ch \<and> ss_revoked s = None)" if "s \<in> set (db_sessions ?db)" for s
    using that by (auto simp: start_session_def)
  ultimately have one: "length (current_tokens (ss_id s) ?db) = (if ss_revoked s = None then 1 else 0)" if "s \<in> set (db_sessions ?db)" for s
    using that sessions_okD(5) [OF ok, of s] by fastforce
  show ?thesis
    unfolding sessions_ok_def using sessions_okD(1-3) [OF ok] new owner one by (simp add: start_session_def)
qed

lemma started_ok: "sessions_ok db \<Longrightarrow> fresh_chance sv ch db \<Longrightarrow> started sv ch db db' \<Longrightarrow> sessions_ok db'"
  unfolding started_def by (metis same_rows_ok start_ok)

lemma auth_step_ok: "auth_step sv db db' \<Longrightarrow> sessions_ok db \<Longrightarrow> sessions_ok db'"
proof (induction rule: auth_step.induct)
  case (refreshed ch db rq)
  then show ?case using refresh_effect [of sv ch rq db] by (metis family_ok rotate_ok)
next
  case (logged_out db ch rq)
  then show ?case using logout_effect [of sv ch rq db] by (metis family_ok)
next
  case (administered db accounts)
  then show ?case by (simp add: same_rows_ok [of "db\<lparr>db_accounts := accounts\<rparr>" db])
qed (metis exchange_effect started_ok)+

definition no_sessions :: "session_db \<Rightarrow> bool" where
  "no_sessions db \<longleftrightarrow> db_sessions db = [] \<and> db_tokens db = []"

lemma auth_steps_ok: "(auth_step sv)\<^sup>*\<^sup>* db db' \<Longrightarrow> sessions_ok db \<Longrightarrow> sessions_ok db'"
  by (induction rule: rtranclp_induct) (auto intro: auth_step_ok)

lemma reachable_sessions_ok: "(auth_step sv)\<^sup>*\<^sup>* db db' \<Longrightarrow> no_sessions db \<Longrightarrow> sessions_ok db'"
  by (erule auth_steps_ok) (simp add: no_sessions_def sessions_ok_def)

section \<open>A session that was ended stays ended\<close>

text \<open>What may happen to a row of a token: it only ever loses.\<close>

definition aged :: "refresh_token \<Rightarrow> refresh_token \<Rightarrow> bool" where
  "aged t u \<longleftrightarrow> rt_hash u = rt_hash t \<and> rt_session u = rt_session t \<and> (rt_current u \<longrightarrow> rt_current t) \<and> (rt_revoked t \<noteq> None \<longrightarrow> rt_revoked u \<noteq> None)"

lemma aged_refl [simp]: "aged t t"
  by (simp add: aged_def)

lemma aged_trans: "aged t u \<Longrightarrow> aged u v \<Longrightarrow> aged t v"
  by (simp add: aged_def)

definition kept :: "session_db \<Rightarrow> session_db \<Rightarrow> bool" where
  "kept db db' \<longleftrightarrow> (\<forall>t \<in> set (db_tokens db). \<exists>u \<in> set (db_tokens db'). aged t u)"

lemma kept_refl [simp]: "kept db db"
  unfolding kept_def by (metis aged_refl)

lemma kept_trans: "kept db db1 \<Longrightarrow> kept db1 db2 \<Longrightarrow> kept db db2"
  unfolding kept_def by (metis aged_trans)

lemma kept_writes: "kept db (revoke_family reason i db)" "kept db (rotate_row sv ch h t db)" "db_tokens db' = db_tokens db \<Longrightarrow> kept db db'"
  "db_tokens db' = db_tokens (start_session sv ch u d h db) \<Longrightarrow> kept db db'"
proof -
  have "aged t (revoke_token reason i t)" "aged t (replace_token j t)" for t j
    by (simp_all add: aged_def revoke_token_def replace_token_def)
  then show "kept db (revoke_family reason i db)" "kept db (rotate_row sv ch h t db)"
    unfolding kept_def revoke_family_def rotate_row_def by auto
  show "db_tokens db' = db_tokens db \<Longrightarrow> kept db db'" unfolding kept_def by (metis aged_refl)
  show "db_tokens db' = db_tokens (start_session sv ch u d h db) \<Longrightarrow> kept db db'"
    unfolding kept_def start_session_def by (auto intro: bexI [of _ t for t] aged_refl)
qed

lemma auth_step_kept: "auth_step sv db db' \<Longrightarrow> kept db db'"
proof (induction rule: auth_step.induct)
  case (refreshed ch db rq)
  show ?case using refresh_effect [of sv ch rq db] by (metis kept_refl kept_writes(1,2))
next
  case (logged_out db ch rq)
  show ?case using logout_effect [of sv ch rq db] by (metis kept_refl kept_writes(1))
next
  case (administered db accounts)
  show ?case by (rule kept_writes) simp
next
  case (exchanged ch db rq)
  show ?case using exchange_effect(1) [of sv ch db rq] unfolding started_def by (metis kept_writes(3,4))
next
  case (web_exchanged ch db rq)
  show ?case using exchange_effect(2) [of sv ch db rq] unfolding started_def by (metis kept_writes(3,4))
qed

lemma auth_steps_kept: "(auth_step sv)\<^sup>*\<^sup>* db db' \<Longrightarrow> kept db db'"
  by (induction rule: rtranclp_induct) (auto intro: kept_trans auth_step_kept)

text \<open>What a renewal takes: a row that is the only one of its hash, current and not revoked.\<close>

lemma renewal_needs:
  assumes "rs_status (fst (HandleAuthRefresh sv ch rq db)) = 200" "AuthRefreshRequest (rq_body rq) = Some token"
    and "sv_hash sv token = Some (rt_hash u)" "u \<in> set (db_tokens db)"
  shows "rt_current u \<and> rt_revoked u = None"
proof -
  from assms(1-3) obtain t where t: "lookup_token (rt_hash u) db = Inr (Some t)" "rt_current t" "rt_revoked t = None"
    by (auto simp: HandleAuthRefresh_def refresh_locked_def writeErr_def json_answer_def split: if_splits option.splits sum.splits)
  then have "filter (\<lambda>t. rt_hash t = rt_hash u) (db_tokens db) = [t]" by (simp add: lookup_token_def split: list.splits)
  moreover have "u \<in> set (filter (\<lambda>t. rt_hash t = rt_hash u) (db_tokens db))" using assms(4) by simp
  ultimately show ?thesis using t by simp
qed

lemma ended_family:
  assumes ok: "sessions_ok db" and t: "t \<in> set (db_tokens db)" "rt_revoked t \<noteq> None"
    and u: "u \<in> set (db_tokens db)" "rt_session u = rt_session t"
  shows "rt_revoked u \<noteq> None"
proof -
  obtain s where s: "s \<in> set (db_sessions db)" "ss_id s = rt_session t" "ss_revoked s \<noteq> None"
    using sessions_okD(4) [OF ok t(1)] t(2) by metis
  obtain s' where s': "s' \<in> set (db_sessions db)" "ss_id s' = rt_session u" "rt_revoked u = None \<longleftrightarrow> ss_revoked s' = None"
    using sessions_okD(4) [OF ok u(1)] by metis
  have "s = s'" using s s' u(2) sessions_okD(3) [OF ok] by (metis distinct_map inj_onD)
  with s s' show ?thesis by simp
qed

lemma ended_never_renewed:
  assumes ok: "sessions_ok db" and t: "t \<in> set (db_tokens db)" "rt_revoked t \<noteq> None"
    and steps: "(auth_step sv)\<^sup>*\<^sup>* db db'"
    and u: "u \<in> set (db_tokens db')" "rt_session u = rt_session t"
    and rq: "AuthRefreshRequest (rq_body rq) = Some token" "sv_hash sv token = Some (rt_hash u)"
  shows "rs_status (fst (HandleAuthRefresh sv ch rq db')) \<noteq> 200"
proof -
  from auth_steps_kept [OF steps] t obtain t' where t': "t' \<in> set (db_tokens db')" "aged t t'" by (auto simp: kept_def)
  with t(2) u(2) have "rt_revoked t' \<noteq> None" "rt_session u = rt_session t'" by (simp_all add: aged_def)
  then have "rt_revoked u \<noteq> None" by (rule ended_family [OF auth_steps_ok [OF steps ok] t'(1) _ u(1)])
  then show ?thesis using renewal_needs [OF _ rq u(1)] by metis
qed

lemma token_found:
  assumes "sessions_ok db" "t \<in> set (db_tokens db)"
  shows "lookup_token (rt_hash t) db = Inr (Some t)" "\<exists>s. lookup_session (rt_session t) db = Some s \<and> ss_id s = rt_session t
    \<and> (rt_revoked t = None \<longleftrightarrow> ss_revoked s = None)"
proof -
  have "filter (\<lambda>u. rt_hash u = rt_hash t) ts = [t]" if "distinct (map rt_hash ts)" "t \<in> set ts" for ts
    using that by (induction ts) (auto simp: filter_empty_conv image_iff)
  with sessions_okD(1) [OF assms(1)] assms(2) show "lookup_token (rt_hash t) db = Inr (Some t)" by (simp add: lookup_token_def)
  obtain s where s: "s \<in> set (db_sessions db)" "ss_id s = rt_session t" "rt_revoked t = None \<longleftrightarrow> ss_revoked s = None"
    using sessions_okD(4) [OF assms] by metis
  have "find (\<lambda>x. ss_id x = ss_id s) ss = Some s" if "distinct (map ss_id ss)" "s \<in> set ss" for ss
    using that by (induction ss) (auto simp: image_iff)
  with sessions_okD(3) [OF assms(1)] s show "\<exists>s. lookup_session (rt_session t) db = Some s \<and> ss_id s = rt_session t
    \<and> (rt_revoked t = None \<longleftrightarrow> ss_revoked s = None)" by (auto simp: lookup_session_def)
qed

lemma revoked_row: "t \<in> set (db_tokens db) \<Longrightarrow> \<exists>u \<in> set (db_tokens (revoke_family reason (rt_session t) db)). rt_session u = rt_session t \<and> rt_revoked u \<noteq> None"
  by (intro bexI [of _ "revoke_token reason (rt_session t) t"]) (auto simp: revoke_family_def revoke_token_def)

section \<open>The properties\<close>

text \<open>
  C22. In every state the server's session handlers lead to, whatever fails in between, a session that
  is not revoked has exactly one current refresh token, a revoked one has none, and the tokens of a
  session are revoked exactly when it is.
\<close>

theorem one_token_per_session:
  assumes "(auth_step sv)\<^sup>*\<^sup>* db0 db" "no_sessions db0" "s \<in> set (db_sessions db)"
  shows "length (current_tokens (ss_id s) db) = (if ss_revoked s = None then 1 else 0)
     \<and> (\<forall>t \<in> set (db_tokens db). rt_session t = ss_id s \<longrightarrow> (rt_revoked t = None \<longleftrightarrow> ss_revoked s = None))"
proof -
  note ok = reachable_sessions_ok [OF assms(1,2)]
  have "rt_revoked t = None \<longleftrightarrow> ss_revoked s = None" if t: "t \<in> set (db_tokens db)" "rt_session t = ss_id s" for t
  proof -
    obtain s' where s': "s' \<in> set (db_sessions db)" "ss_id s' = rt_session t" "rt_revoked t = None \<longleftrightarrow> ss_revoked s' = None"
      using sessions_okD(4) [OF ok t(1)] by metis
    have "s = s'" using s'(1,2) t(2) assms(3) sessions_okD(3) [OF ok] by (metis distinct_map inj_onD)
    with s'(3) show ?thesis by simp
  qed
  with sessions_okD(5) [OF ok assms(3)] show ?thesis by simp
qed

text \<open>
  C26. When nothing fails, a refresh is granted exactly for a token that is the current one of its
  session, whose time is not past, of a user whose account is active and has one of the four roles.
  The time is compared in nanoseconds as the code does, \<open>now.After(expires_at)\<close>: the very instant of
  the expiry still counts as valid, where the contract (\<open>auth-contract.md\<close>, 278 and 580) asks for
  \<open>expires_at > now()\<close>; lemma \<open>granted_at_expiry\<close> is that instant.
\<close>

theorem refresh_granted_iff:
  assumes reach: "(auth_step sv)\<^sup>*\<^sup>* db0 db" "no_sessions db0"
    and rq: "AuthRefreshRequest (rq_body rq) = Some token" "token \<noteq> []" "sv_hash sv token = Some h"
    and calm: "ch_fault ch = NoFault" "ch_raw ch = Some raw" "sv_hash sv raw = Some h'" "\<And>i email r. sv_mint sv i email [r] \<noteq> None"
  shows "rs_status (fst (HandleAuthRefresh sv ch rq db)) = 200 \<longleftrightarrow>
    (\<exists>t \<in> set (db_tokens db). rt_hash t = h \<and> rt_current t \<and> ch_now ch \<le> rt_expires t
       \<and> (\<exists>email name role. load_user (rt_user t) db = Some (email, name, role, ''active'') \<and> ParseRole role \<noteq> None))"
proof -
  note ok = reachable_sessions_ok [OF reach]
  have minted: "(sv_mint sv i email [r] = None) = False" for i email r using calm(4) by simp
  show ?thesis
  proof (cases "\<exists>t \<in> set (db_tokens db). rt_hash t = h")
    case True
    then obtain t where t: "t \<in> set (db_tokens db)" "rt_hash t = h" by blast
    have only: "u = t" if "u \<in> set (db_tokens db)" "rt_hash u = h" for u
      using that t sessions_okD(1) [OF ok] by (metis distinct_map inj_onD)
    obtain s where s: "lookup_session (rt_session t) db = Some s" "rt_revoked t = None \<longleftrightarrow> ss_revoked s = None"
      using token_found(2) [OF ok t(1)] by metis
    have "rs_status (fst (HandleAuthRefresh sv ch rq db)) = 200 \<longleftrightarrow> rt_current t \<and> ch_now ch \<le> rt_expires t
       \<and> (\<exists>email name role. load_user (rt_user t) db = Some (email, name, role, ''active'') \<and> ParseRole role \<noteq> None)"
    proof (cases "rt_revoked t = None")
      case True
      then show ?thesis
        using s token_found(1) [OF ok t(1)] t(2) rq calm(1-3)
        by (auto simp: minted HandleAuthRefresh_def refresh_locked_def rotate_token_def writeErr_def json_answer_def split: option.split)
    next
      case False
      then have "\<not> rt_current t" using current_unrevoked [OF ok t(1)] by auto
      with False s token_found(1) [OF ok t(1)] t(2) rq calm(1) show ?thesis
        by (auto simp: HandleAuthRefresh_def writeErr_def json_answer_def)
    qed
    with t only show ?thesis by metis
  next
    case False
    then have "lookup_token h db = Inr None" by (auto simp: lookup_token_def filter_empty_conv split: list.split)
    with False rq calm(1) show ?thesis by (auto simp: HandleAuthRefresh_def writeErr_def json_answer_def)
  qed
qed

text \<open>
  C23. A refresh token renews a session once. Presented again it is never granted, whatever fails and
  whether it has expired or not. Presented again before it has expired, and provided that no statement
  and not the commit of the server fails, it is answered 401 and ends the session: from then on no
  token of that session is ever renewed, neither the one it was exchanged for nor any later one. (Where
  the commit fails, the answer is the same and the session goes on: lemma \<open>reuse_commit_lost\<close>.)
\<close>

theorem reuse_ends_session:
  assumes reach: "(auth_step sv)\<^sup>*\<^sup>* db0 db" "no_sessions db0"
    and t: "t \<in> set (db_tokens db)" "\<not> rt_current t"
    and rq: "AuthRefreshRequest (rq_body rq) = Some token" "token \<noteq> []" "sv_hash sv token = Some (rt_hash t)"
  shows "rs_status (fst (HandleAuthRefresh sv ch rq db)) \<noteq> 200
    \<and> (ch_fault ch = NoFault \<and> ch_now ch \<le> rt_expires t \<longrightarrow>
        rs_status (fst (HandleAuthRefresh sv ch rq db)) = 401
        \<and> (\<forall>db' u ch' rq' token'. (auth_step sv)\<^sup>*\<^sup>* (snd (HandleAuthRefresh sv ch rq db)) db' \<longrightarrow>
             u \<in> set (db_tokens db') \<longrightarrow> rt_session u = rt_session t \<longrightarrow>
             AuthRefreshRequest (rq_body rq') = Some token' \<longrightarrow> sv_hash sv token' = Some (rt_hash u) \<longrightarrow>
             rs_status (fst (HandleAuthRefresh sv ch' rq' db')) \<noteq> 200))"
proof -
  note ok = reachable_sessions_ok [OF reach]
  let ?db = "snd (HandleAuthRefresh sv ch rq db)"
  obtain s where s: "lookup_session (rt_session t) db = Some s" "rt_revoked t = None \<longleftrightarrow> ss_revoked s = None"
    using token_found(2) [OF ok t(1)] by metis
  have refused: "rs_status (fst (HandleAuthRefresh sv ch rq db)) \<noteq> 200"
    using s token_found(1) [OF ok t(1)] t(2) rq
    by (auto simp: HandleAuthRefresh_def refresh_locked_def writeErr_def json_answer_def)
  have calm: "rs_status (fst (HandleAuthRefresh sv ch rq db)) = 401
     \<and> ?db = (if rt_revoked t = None then revoke_family ''reuse_detected'' (rt_session t) db else db)"
    if "ch_fault ch = NoFault" "ch_now ch \<le> rt_expires t"
    using s token_found(1) [OF ok t(1)] t(2) rq that
    by (auto simp: HandleAuthRefresh_def refresh_locked_def writeErr_def json_answer_def)
  have ended: "rs_status (fst (HandleAuthRefresh sv ch' rq' db')) \<noteq> 200"
    if "ch_fault ch = NoFault" "ch_now ch \<le> rt_expires t" and later: "(auth_step sv)\<^sup>*\<^sup>* ?db db'"
      and u: "u \<in> set (db_tokens db')" "rt_session u = rt_session t"
      and rq': "AuthRefreshRequest (rq_body rq') = Some token'" "sv_hash sv token' = Some (rt_hash u)"
    for db' u ch' rq' token'
  proof -
    note now = calm [OF that(1,2)]
    then obtain v where v: "v \<in> set (db_tokens ?db)" "rt_session v = rt_session t" "rt_revoked v \<noteq> None"
      using revoked_row [OF t(1), of "''reuse_detected''"] t(1) by (cases "rt_revoked t = None") auto
    have "sessions_ok ?db" using now ok family_ok [OF ok] by simp
    then show ?thesis using ended_never_renewed [OF _ v(1,3) later u(1) _ rq'] u(2) v(2) by metis
  qed
  show ?thesis using refused calm ended by blast
qed

text \<open>
  The error of that commit is logged and nothing else: the answer says that the reuse was detected, and
  the rows are as before, so the session and its current token go on.
\<close>

lemma reuse_commit_lost:
  assumes "lookup_token h db = Inr (Some t)" "lookup_session (rt_session t) db = Some s" "ss_revoked s = None"
    and "rt_revoked t = None" "ch_now ch \<le> rt_expires t" "\<not> rt_current t"
    and "AuthRefreshRequest (rq_body rq) = Some token" "token \<noteq> []" "sv_hash sv token = Some h" "ch_fault ch = FaultCommit"
  shows "HandleAuthRefresh sv ch rq db = (writeErr 401 ''refresh_token_reused'', db)"
  using assms by (simp add: HandleAuthRefresh_def refresh_locked_def)

text \<open>A token is not expired at the instant of its expiry.\<close>

lemma granted_at_expiry:
  assumes "rt_revoked t = None" "rt_expires t = ch_now ch" "rt_current t" "load_user (rt_user t) db = Some (email, name, role, ''active'')"
    and "ParseRole role = Some r" "ch_fault ch = NoFault"
  shows "refresh_locked sv ch t db = rotate_token sv ch t email name r db"
  using assms by (simp add: refresh_locked_def)

text \<open>
  C24. A logout that is answered 200 ends the session of the token it names: from then on no token of
  that session is ever renewed, whatever was renewed before the logout was carried out.
\<close>

theorem logout_ends_session:
  assumes reach: "(auth_step sv)\<^sup>*\<^sup>* db0 db" "no_sessions db0"
    and t: "t \<in> set (db_tokens db)"
    and rq: "AuthLogoutRequest (rq_body rq) = Some token" "token \<noteq> []" "sv_hash sv token = Some (rt_hash t)"
    and out: "rs_status (fst (HandleAuthLogout sv ch rq db)) = 200"
    and later: "(auth_step sv)\<^sup>*\<^sup>* (snd (HandleAuthLogout sv ch rq db)) db'"
    and u: "u \<in> set (db_tokens db')" "rt_session u = rt_session t"
    and rq': "AuthRefreshRequest (rq_body rq') = Some token'" "sv_hash sv token' = Some (rt_hash u)"
  shows "rs_status (fst (HandleAuthRefresh sv ch' rq' db')) \<noteq> 200"
proof -
  note ok = reachable_sessions_ok [OF reach]
  obtain s where s: "lookup_session (rt_session t) db = Some s" "ss_id s = rt_session t"
    using token_found(2) [OF ok t] by metis
  have db: "snd (HandleAuthLogout sv ch rq db) = revoke_family ''logout'' (rt_session t) db"
    using out s token_found(1) [OF ok t] rq
    by (auto simp: HandleAuthLogout_def writeErr_def json_answer_def split: if_splits)
  obtain v where v: "v \<in> set (db_tokens (revoke_family ''logout'' (rt_session t) db))" "rt_session v = rt_session t" "rt_revoked v \<noteq> None"
    using revoked_row [OF t] by blast
  show ?thesis using ended_never_renewed [OF family_ok [OF ok] v(1,3) later [unfolded db] u(1) _ rq'] u(2) v(2) by simp
qed

section \<open>The client's session and the server's\<close>

definition holds :: "auth_server \<Rightarrow> string \<Rightarrow> string \<Rightarrow> session_db \<Rightarrow> bool" where
  "holds sv token u db \<longleftrightarrow> (\<exists>t \<in> set (db_tokens db). sv_hash sv token = Some (rt_hash t) \<and> rt_current t \<and> rt_user t = u)"

lemma granted_answer:
  assumes "rs_status (fst (HandleAuthRefresh sv ch rq db)) = 200"
  obtains access raw u email name role where
    "fst (HandleAuthRefresh sv ch rq db) = json_answer 200 (AuthExchangeResponse access raw (exchange_user u email name role))"
    "holds sv raw u (snd (HandleAuthRefresh sv ch rq db))" "\<exists>r. load_user u db = Some (email, name, r, ''active'')"
proof -
  from assms obtain t where t: "HandleAuthRefresh sv ch rq db = refresh_locked sv ch t db" "rs_status (fst (refresh_locked sv ch t db)) = 200"
    by (auto simp: HandleAuthRefresh_def writeErr_def json_answer_def split: if_splits option.splits sum.splits)
  then obtain email name role r where u: "load_user (rt_user t) db = Some (email, name, role, ''active'')"
    "refresh_locked sv ch t db = rotate_token sv ch t email name r db"
    by (auto simp: refresh_locked_def writeErr_def json_answer_def split: if_splits option.splits)
  with t(2) obtain access raw h where a: "sv_hash sv raw = Some h"
    "refresh_locked sv ch t db = (json_answer 200 (AuthExchangeResponse access raw (exchange_user (rt_user t) email name r)), rotate_row sv ch h t db)"
    by (auto simp: rotate_token_def writeErr_def json_answer_def split: if_splits option.splits)
  have "holds sv raw (rt_user t) (rotate_row sv ch h t db)" using a(1) by (simp add: holds_def rotate_row_def)
  with that t(1) u(1) a(2) show ?thesis by simp
qed

lemma refresh_status: "rs_status (fst (HandleAuthRefresh sv ch rq db)) \<in> {200, 400, 401, 403, 500}"
  by (auto simp: HandleAuthRefresh_def refresh_locked_def rotate_token_def writeErr_def json_answer_def split: option.split sum.split)

lemma refresh_request_read: "TrimSpace token = token \<Longrightarrow> AuthRefreshRequest (rq_body (refresh_request token)) = Some token"
proof -
  have "to_lower ''refresh_token'' \<noteq> to_lower ''device_id''" by code_simp
  then show "TrimSpace token = token \<Longrightarrow> ?thesis"
    by (simp add: AuthRefreshRequest_def refresh_request_def post_json_def body_members_def)
qed

lemma answer_read:
  "email \<noteq> [] \<Longrightarrow> AuthExchangeResponse access raw (exchange_user u email name role) = tokens_js \<lparr>tp_access_token = access,
     tp_refresh_token = raw, tp_expires_in = None, tp_user = \<lparr>us_id = u, us_email = email,
       us_name = (if name = [] then None else Some name), us_role = Some role\<rparr>\<rparr>"
  by (simp add: AuthExchangeResponse_def exchange_user_def nonempty_member_def tokens_js_def user_js_def field_def)

text \<open>
  C25. Client and server together: a renewal of the session leaves both in step. If the server grants
  it, the client is signed in as the user the server renewed, and the last thing it has put into its
  key store is the token that is now current on the server; if not, the client has signed out and
  deleted its token. (The answer arrives, the key store works, every account has an e-mail address.)
\<close>

theorem renewal_in_step:
  assumes store: "key_store_works w" "refreshInFlight s = None" "w t (StoreGet REFRESH_TOKEN_KEY) = RText (Some token)" "token \<noteq> []"
    and answered: "w (t @ [StoreGet REFRESH_TOKEN_KEY]) (Fetch (refresh_request token))
        = RResp (fst (HandleAuthRefresh sv ch (refresh_request token) db))"
    and named: "\<And>i email name role st. load_user i db = Some (email, name, role, st) \<Longrightarrow> email \<noteq> []"
    and run: "run w refresh s t = (r, s', t')"
  shows "if rs_status (fst (HandleAuthRefresh sv ch (refresh_request token) db)) = 200
     then status s' = StAuthenticated \<and> (\<exists>raw u. last t' = StorePut REFRESH_TOKEN_KEY raw \<and> jget (user s') ''id'' = JStr u
            \<and> holds sv raw u (snd (HandleAuthRefresh sv ch (refresh_request token) db)))
     else r = Inr RefreshFail \<and> status s' \<noteq> StAuthenticated \<and> accessToken s' = JNull \<and> last t' = StoreDel REFRESH_TOKEN_KEY"
proof -
  let ?x = "fst (HandleAuthRefresh sv ch (refresh_request token) db)"
  have ans: "Answer ?x = answer w (t @ [StoreGet REFRESH_TOKEN_KEY]) (refresh_request (the (Some token)))"
    using answered by (simp add: answer_def)
  have sent: "or_default (Some token) [] \<noteq> []" using store(4) by (cases token) (simp_all add: or_default_def)
  note outcomes = refresh_outcomes [OF store(1,2) store(3) refl refl ans, unfolded run]
  show ?thesis
  proof (cases "rs_status ?x = 200")
    case True
    then obtain access raw u email name role where a: "?x = json_answer 200 (AuthExchangeResponse access raw (exchange_user u email name role))"
      "holds sv raw u (snd (HandleAuthRefresh sv ch (refresh_request token) db))" "\<exists>r. load_user u db = Some (email, name, r, ''active'')"
      by (rule granted_answer)
    then have "email \<noteq> []" using named by blast
    let ?p = "\<lparr>tp_access_token = access, tp_refresh_token = raw, tp_expires_in = None, tp_user = \<lparr>us_id = u, us_email = email,
       us_name = (if name = [] then None else Some name), us_role = Some role\<rparr>\<rparr>"
    have "rs_ok ?x \<and> rs_json ?x = Some (tokens_js ?p)"
      by (simp add: a(1) answer_read [OF \<open>email \<noteq> []\<close>] rs_ok_def json_answer_def)
    with outcomes [of ?p] sent have "s' = flown (renewed ?p s)" "last t' = StorePut REFRESH_TOKEN_KEY raw" by auto
    with True a(2) show ?thesis by (auto simp: flown_def renewed_def user_js_def)
  next
    case False
    then have "\<not> rs_ok ?x" using refresh_status [of sv ch "refresh_request token" db] by (auto simp: rs_ok_def)
    with outcomes sent have "r = Inr RefreshFail \<and> (s' = flown (dropped s) \<or> s' = flown (expired RefreshUnauthorized s)) \<and> last t' = StoreDel REFRESH_TOKEN_KEY"
      by (cases "rs_status ?x = 401") auto
    with False show ?thesis by (auto simp: flown_def dropped_def expired_def)
  qed
qed

section \<open>A session from its start to its end\<close>

definition demo_server :: auth_server where
  "demo_server = \<lparr>sv_hash = (\<lambda>x. Some (rev x)), sv_mint = (\<lambda>u email roles. Some (CHR ''a'' # u)), sv_kratos = ''k/'',
     sv_ask = (\<lambda>rq. if rq_url rq = ''k/sessions/whoami'' then RResp (json_answer 200
         (JObj [(''identity'', JObj [(''id'', JStr ''kim''), (''traits'', JObj [(''email'', JStr ''Kim@x'')])]), (''active'', JBool True)]))
       else RFail TypeErr), sv_column = (\<lambda>n. n div 1000 * 1000)\<rparr>"

definition demo_chance :: "string \<Rightarrow> chance" where
  "demo_chance raw = \<lparr>ch_now = 0, ch_raw = Some raw, ch_token = CHR ''t'' # raw, ch_session = CHR ''s'' # raw, ch_user = ''u1'', ch_fault = NoFault\<rparr>"

definition no_rows :: session_db where
  "no_rows = \<lparr>db_accounts = [], db_sessions = [], db_tokens = []\<rparr>"

definition exchanged_once :: session_db where
  "exchanged_once = snd (HandleAuthExchange demo_server (demo_chance ''r1'')
     (post_json ''x'' (JObj [(''kratos_session_token'', JStr ''k1'')])) no_rows)"

definition renewed_once :: session_db where
  "renewed_once = snd (HandleAuthRefresh demo_server (demo_chance ''r2'') (refresh_request ''r1'') exchanged_once)"

lemma demo_sessions:
  "(auth_step demo_server)\<^sup>*\<^sup>* no_rows exchanged_once" "(auth_step demo_server)\<^sup>*\<^sup>* no_rows renewed_once" "no_sessions no_rows"
proof -
  have fresh: "fresh_chance demo_server (demo_chance ''r1'') no_rows" "fresh_chance demo_server (demo_chance ''r2'') exchanged_once" by code_simp+
  show one: "(auth_step demo_server)\<^sup>*\<^sup>* no_rows exchanged_once"
    unfolding exchanged_once_def by (intro r_into_rtranclp auth_step.exchanged fresh(1))
  show "(auth_step demo_server)\<^sup>*\<^sup>* no_rows renewed_once"
    unfolding renewed_once_def by (rule rtranclp.rtrancl_into_rtrancl [OF one auth_step.refreshed [OF fresh(2)]])
  show "no_sessions no_rows" by code_simp
qed

theorem one_token_per_session_witness:
  "\<exists>s \<in> set (db_sessions renewed_once). ss_revoked s = None \<and> length (db_tokens renewed_once) = 2 \<and> length (current_tokens (ss_id s) renewed_once) = 1"
proof -
  have "\<exists>s \<in> set (db_sessions renewed_once). ss_revoked s = None" "length (db_tokens renewed_once) = 2" by code_simp+
  then show ?thesis using one_token_per_session [OF demo_sessions(2,3)] by fastforce
qed

theorem refresh_granted_iff_witness:
  "rs_status (fst (HandleAuthRefresh demo_server (demo_chance ''r2'') (refresh_request ''r1'') exchanged_once)) = 200
   \<and> rs_status (fst (HandleAuthRefresh demo_server (demo_chance ''r3'') (refresh_request ''r1'') renewed_once)) \<noteq> 200"
proof -
  have rq: "AuthRefreshRequest (rq_body (refresh_request ''r1'')) = Some ''r1''" "''r1'' \<noteq> []" "sv_hash demo_server ''r1'' = Some ''1r''" by code_simp+
  have calm: "ch_fault (demo_chance r) = NoFault" "ch_raw (demo_chance r) = Some r" "sv_hash demo_server r = Some (rev r)"
    "sv_mint demo_server i email [role] \<noteq> None" for r i email role by (simp_all add: demo_chance_def demo_server_def)
  have "\<exists>t \<in> set (db_tokens exchanged_once). rt_hash t = ''1r'' \<and> rt_current t \<and> ch_now (demo_chance ''r2'') \<le> rt_expires t
     \<and> load_user (rt_user t) exchanged_once = Some (''kim@x'', [], ''requestor'', ''active'') \<and> ParseRole ''requestor'' \<noteq> None" by code_simp
  then have "\<exists>t \<in> set (db_tokens exchanged_once). rt_hash t = ''1r'' \<and> rt_current t \<and> ch_now (demo_chance ''r2'') \<le> rt_expires t
     \<and> (\<exists>email name role. load_user (rt_user t) exchanged_once = Some (email, name, role, ''active'') \<and> ParseRole role \<noteq> None)" by blast
  moreover have "\<not> (\<exists>t \<in> set (db_tokens renewed_once). rt_hash t = ''1r'' \<and> rt_current t)" by code_simp
  ultimately show ?thesis
    using refresh_granted_iff [OF demo_sessions(1,3) rq calm(1-4)] refresh_granted_iff [OF demo_sessions(2,3) rq calm(1-4)] by blast
qed

theorem reuse_ends_session_witness:
  "rs_status (fst (HandleAuthRefresh demo_server (demo_chance ''r3'') (refresh_request ''r1'') renewed_once)) = 401
   \<and> rs_status (fst (HandleAuthRefresh demo_server (demo_chance ''r4'') (refresh_request ''r2'')
       (snd (HandleAuthRefresh demo_server (demo_chance ''r3'') (refresh_request ''r1'') renewed_once)))) \<noteq> 200"
proof -
  let ?db = "snd (HandleAuthRefresh demo_server (demo_chance ''r3'') (refresh_request ''r1'') renewed_once)"
  have "\<exists>t \<in> set (db_tokens renewed_once). rt_hash t = ''1r'' \<and> \<not> rt_current t \<and> ch_now (demo_chance ''r3'') \<le> rt_expires t \<and> rt_session t = ''sr1''"
    "\<exists>u \<in> set (db_tokens ?db). rt_hash u = ''2r'' \<and> rt_session u = ''sr1''" by code_simp+
  then obtain t u where t: "t \<in> set (db_tokens renewed_once)" "\<not> rt_current t" "ch_now (demo_chance ''r3'') \<le> rt_expires t"
      "rt_hash t = ''1r''" "rt_session t = ''sr1''"
    and u: "u \<in> set (db_tokens ?db)" "rt_session u = ''sr1''" "rt_hash u = ''2r''" by blast
  have rq: "AuthRefreshRequest (rq_body (refresh_request ''r1'')) = Some ''r1''" "''r1'' \<noteq> []" "sv_hash demo_server ''r1'' = Some ''1r''"
    "AuthRefreshRequest (rq_body (refresh_request ''r2'')) = Some ''r2''" "sv_hash demo_server ''r2'' = Some ''2r''"
    "ch_fault (demo_chance ''r3'') = NoFault" by code_simp+
  have "sv_hash demo_server ''r1'' = Some (rt_hash t)" using rq(3) t(4) by simp
  note reused = reuse_ends_session [OF demo_sessions(2,3) t(1,2) rq(1,2) this, THEN conjunct2, THEN mp, OF conjI [OF rq(6) t(3)]]
  show ?thesis
    using reused [THEN conjunct1] reused [THEN conjunct2, rule_format, OF rtranclp.rtrancl_refl u(1) _ rq(4), of "demo_chance ''r4''"]
    by (simp add: rq t u)
qed

theorem logout_ends_session_witness:
  "rs_status (fst (HandleAuthRefresh demo_server (demo_chance ''r4'') (refresh_request ''r2'')
       (snd (HandleAuthLogout demo_server (demo_chance ''r3'') (refresh_request ''r1'') renewed_once)))) \<noteq> 200"
proof -
  let ?db = "snd (HandleAuthLogout demo_server (demo_chance ''r3'') (refresh_request ''r1'') renewed_once)"
  have "\<exists>t \<in> set (db_tokens renewed_once). rt_hash t = ''1r'' \<and> rt_session t = ''sr1''"
    "\<exists>u \<in> set (db_tokens ?db). rt_hash u = ''2r'' \<and> rt_session u = ''sr1''" by code_simp+
  then obtain t u where t: "t \<in> set (db_tokens renewed_once)" "rt_hash t = ''1r''" "rt_session t = ''sr1''"
    and u: "u \<in> set (db_tokens ?db)" "rt_session u = ''sr1''" "rt_hash u = ''2r''" by blast
  have rq: "AuthLogoutRequest (rq_body (refresh_request ''r1'')) = Some ''r1''" "''r1'' \<noteq> []" "sv_hash demo_server ''r1'' = Some ''1r''"
    "AuthRefreshRequest (rq_body (refresh_request ''r2'')) = Some ''r2''" "sv_hash demo_server ''r2'' = Some ''2r''"
    "rs_status (fst (HandleAuthLogout demo_server (demo_chance ''r3'') (refresh_request ''r1'') renewed_once)) = 200" by code_simp+
  show ?thesis
    by (rule logout_ends_session [OF demo_sessions(2,3) t(1) rq(1,2) _ rq(6) rtranclp.rtrancl_refl u(1) _ rq(4)]) (simp_all add: rq t u)
qed

definition renewal_world :: world where
  "renewal_world t e = (case e of
       Fetch rq \<Rightarrow> RResp (fst (HandleAuthRefresh demo_server (demo_chance ''r2'') rq exchanged_once))
     | StoreGet k \<Rightarrow> RText (Some ''r1'') | _ \<Rightarrow> RDone)"

theorem renewal_in_step_witness:
  "\<exists>r s' t' raw. run renewal_world refresh (initial_auth False) [] = (r, s', t') \<and> status s' = StAuthenticated
     \<and> last t' = StorePut REFRESH_TOKEN_KEY raw \<and> holds demo_server raw ''u1'' renewed_once"
proof -
  obtain r s' t' where run: "run renewal_world refresh (initial_auth False) [] = (r, s', t')" by (metis prod_cases3)
  have store: "key_store_works renewal_world" "refreshInFlight (initial_auth False) = None"
    "renewal_world [] (StoreGet REFRESH_TOKEN_KEY) = RText (Some ''r1'')" "''r1'' \<noteq> []"
    by (simp_all add: key_store_works_def renewal_world_def initial_auth_def)
  have users: "list_all (\<lambda>a. ac_email a \<noteq> Some [] \<and> ac_id a = ''u1'') (db_accounts exchanged_once)" by code_simp
  have named: "email \<noteq> [] \<and> i = ''u1''" if "load_user i exchanged_once = Some (email, name, role, st)" for i email name role st
    using that users by (auto simp: load_user_def Option.bind_eq_Some_conv list_all_iff find_Some_iff)
  have "list_all (\<lambda>t. rt_user t = ''u1'') (db_tokens renewed_once)" by code_simp
  then have u1: "holds demo_server raw u renewed_once \<Longrightarrow> holds demo_server raw ''u1'' renewed_once" for raw u
    by (auto simp: holds_def list_all_iff)
  have "rs_status (fst (HandleAuthRefresh demo_server (demo_chance ''r2'') (refresh_request ''r1'') exchanged_once)) = 200" by code_simp
  with renewal_in_step [OF store _ _ run, of demo_server "demo_chance ''r2''" exchanged_once, folded renewed_once_def] named run
  show ?thesis by (auto simp: renewal_world_def intro: u1)
qed

end
