(* ===== verification/EmployerAccess.thy ===== *)
theory EmployerAccess
  imports RequestApiSafety
begin

text \<open>
  The operator's tool for the assignments of reviewers (\<open>internal/employeraccess/assignments.go\<close>,
  \<open>cmd/hr-assignment/main.go\<close>): granting, revoking, and what a revocation means for the calls of the
  reviewer.
\<close>

section \<open>Granting and revoking\<close>

definition lockReviewer :: "pg \<Rightarrow> string \<Rightarrow> unit tx" where
  "lockReviewer d person =
     tx_bind (tx_some ErrNotFound (pg_uuid d person)) (\<lambda>p.
     tx_bind (tx_read (\<lambda>st. map_of (domain_users st) p)) (\<lambda>u.
     tx_bind (tx_some ErrNotFound u) (\<lambda>(status, role).
     tx_guard ErrNotFound (status = ''active'' \<and> role = ''hr_reviewer''))))"

text \<open>The insertion is refused by the unique index over assignments that are not revoked.\<close>

definition Grant :: "pg \<Rightarrow> string \<Rightarrow> string \<Rightarrow> string \<Rightarrow> string \<Rightarrow> string \<Rightarrow> string tx" where
  "Grant d new_id person employer actor basis =
     tx_bind (tx_guard ErrOther (TrimSpace actor \<noteq> [] \<and> TrimSpace basis \<noteq> [] \<and> TrimSpace employer \<noteq> [])) (\<lambda>_.
     tx_bind (lockReviewer d person) (\<lambda>_.
     tx_bind (tx_read (\<lambda>st. list_ex (\<lambda>c. fst c = employer) (evt_config st))) (\<lambda>known.
     tx_bind (tx_guard ErrNotFound known) (\<lambda>_.
     tx_bind (uuid d person) (\<lambda>p.
     tx_bind (tx_read (\<lambda>st. list_ex (\<lambda>a. as_id a = new_id \<or> (as_principal a = p \<and> as_employer a = employer \<and> \<not> as_revoked a)) (assignments st))) (\<lambda>taken.
     tx_bind (tx_guard ErrOther (\<not> taken)) (\<lambda>_.
     tx_bind (tx_write (\<lambda>st. st\<lparr>assignments := assignments st @
        [\<lparr>as_id = new_id, as_principal = p, as_employer = employer, as_revoked = False\<rparr>]\<rparr>)) (\<lambda>_.
     tx_return new_id))))))))"

definition Revoke :: "pg \<Rightarrow> string \<Rightarrow> string \<Rightarrow> string \<Rightarrow> unit tx" where
  "Revoke d i actor reason =
     tx_bind (tx_guard ErrOther (TrimSpace actor \<noteq> [] \<and> TrimSpace reason \<noteq> [])) (\<lambda>_.
     tx_bind (tx_read (\<lambda>st. find (\<lambda>a. as_id a = i) (assignments st))) (\<lambda>hit.
     tx_bind (tx_some ErrNotFound hit) (\<lambda>a.
     tx_bind (tx_read (\<lambda>st. map_of (domain_users st) (as_principal a))) (\<lambda>u.
     tx_bind (tx_guard ErrOther (u \<noteq> None)) (\<lambda>_.
     tx_bind (tx_read (\<lambda>st. list_ex (\<lambda>b. as_id b = i \<and> \<not> as_revoked b) (assignments st))) (\<lambda>live.
     tx_bind (tx_write (\<lambda>st. st\<lparr>assignments := map (\<lambda>b. if as_id b = i then b\<lparr>as_revoked := True\<rparr> else b) (assignments st)\<rparr>)) (\<lambda>_.
     tx_guard ErrConflict live)))))))"

text \<open>The command: its flags, those it was not given being empty, and whether it committed.\<close>

record hr_flags =
  fl_action :: string
  fl_principal :: string
  fl_employer :: string
  fl_assignment :: string
  fl_actor :: string
  fl_basis :: string
  fl_reason :: string
  fl_rest :: "string list"

definition committed :: "(db_error + 'a) \<times> store \<Rightarrow> bool \<times> store" where
  "committed out = (case out of (Inl e, st) \<Rightarrow> (False, st) | (Inr a, st) \<Rightarrow> (True, st))"

definition hr_assignment :: "pg \<Rightarrow> string \<Rightarrow> bool \<Rightarrow> string \<Rightarrow> hr_flags \<Rightarrow> store \<Rightarrow> bool \<times> store" where
  "hr_assignment d dsn fault new_id fl st =
     (if fl_rest fl \<noteq> [] \<or> fl_actor fl = [] then (False, st)
      else if fl_action fl = ''grant'' then
        (if pg_uuid d (fl_principal fl) = None \<or> fl_employer fl = [] \<or> fl_basis fl = [] \<or> fl_assignment fl \<noteq> [] \<or> fl_reason fl \<noteq> []
            \<or> dsn = [] then (False, st)
         else committed (WithTx fault (Grant d new_id (fl_principal fl) (fl_employer fl) (fl_actor fl) (fl_basis fl)) st))
      else if fl_action fl = ''revoke'' then
        (case pg_uuid d (fl_assignment fl) of
           None \<Rightarrow> (False, st)
         | Some i \<Rightarrow>
             if fl_reason fl = [] \<or> fl_principal fl \<noteq> [] \<or> fl_employer fl \<noteq> [] \<or> fl_basis fl \<noteq> [] \<or> dsn = [] then (False, st)
             else committed (WithTx fault (Revoke d i (fl_actor fl) (fl_reason fl)) st))
      else (False, st))"

section \<open>One assignment that is not revoked for a reviewer and an employer\<close>

text \<open>A run of the tool, or anything that leaves the assignments alone, as the module's transactions do.\<close>

inductive access_step :: "pg \<Rightarrow> store \<Rightarrow> store \<Rightarrow> bool" for d where
  tool: "access_step d st (snd (hr_assignment d dsn fault new_id fl st))"
| other: "assignments st' = assignments st \<Longrightarrow> access_step d st st'"

lemma module_keeps_assignments: "request_op d f \<Longrightarrow> assignments (snd (WithTx fault f st)) = assignments st"
  by (induction rule: request_op.induct)
    (auto simp: WithTx_def CandidateCreateDraft_def CandidateUpdateDraft_def CandidateSubmit_def CandidateCancel_def
      EmployerAttestServerSigned_def InternalVerify_def InternalClose_def RecruiterConsume_def ensureEmployerConfig_def
      tx_eval Let_def bump_def split: option.splits sum.splits prod.splits if_splits)

definition live_pairs :: "store \<Rightarrow> (string \<times> string) list" where
  "live_pairs st = map (\<lambda>a. (as_principal a, as_employer a)) (filter (\<lambda>a. \<not> as_revoked a) (assignments st))"

definition assignments_ok :: "store \<Rightarrow> bool" where
  "assignments_ok st \<longleftrightarrow> distinct (map as_id (assignments st)) \<and> distinct (live_pairs st)"

definition revoke_id :: "string \<Rightarrow> assignment \<Rightarrow> assignment" where
  "revoke_id i b = (if as_id b = i then b\<lparr>as_revoked := True\<rparr> else b)"

lemma revoke_id_id [simp]: "as_id (revoke_id i b) = as_id b"
  by (simp add: revoke_id_def)

text \<open>What a run of the tool does to the assignments.\<close>

lemma grant_effect:
  "Grant d n person e actor basis st = (Inr x, st') \<Longrightarrow> \<exists>p. assignments st' = assignments st @ [\<lparr>as_id = n, as_principal = p, as_employer = e, as_revoked = False\<rparr>]
     \<and> n \<notin> as_id ` set (assignments st) \<and> (p, e) \<notin> set (live_pairs st)"
proof -
  assume run: "Grant d n person e actor basis st = (Inr x, st')"
  then obtain p where p: "pg_uuid d person = Some p" by (cases "pg_uuid d person") (simp_all add: Grant_def lockReviewer_def tx_eval split: if_splits)
  with run obtain status role where u: "map_of (domain_users st) p = Some (status, role)"
    by (cases "map_of (domain_users st) p") (auto simp: Grant_def lockReviewer_def tx_eval split: if_splits)
  have "\<not> list_ex (\<lambda>a. as_id a = n \<or> (as_principal a = p \<and> as_employer a = e \<and> \<not> as_revoked a)) (assignments st)
      \<and> st' = st\<lparr>assignments := assignments st @ [\<lparr>as_id = n, as_principal = p, as_employer = e, as_revoked = False\<rparr>]\<rparr>"
    using run p u by (auto simp: Grant_def lockReviewer_def tx_eval split: if_splits)
  then show ?thesis by (intro exI [of _ p]) (auto simp: list_ex_iff live_pairs_def)
qed

lemma revoke_effect:
  "Revoke d i actor reason st = (Inr x, st') \<Longrightarrow> assignments st' = map (revoke_id i) (assignments st) \<and> domain_users st' = domain_users st"
  by (auto simp: Revoke_def tx_eval revoke_id_def [abs_def] split: option.splits if_splits prod.splits sum.splits)

lemma committed_state: "snd (committed (WithTx fault f st)) = (if fault then st else case f st of (Inl e, st') \<Rightarrow> st | (Inr x, st') \<Rightarrow> st')"
  by (auto simp: committed_def WithTx_def split: prod.split sum.split)

lemma tool_effect:
  "assignments (snd (hr_assignment d dsn fault n fl st)) = assignments st
   \<or> (\<exists>p e. assignments (snd (hr_assignment d dsn fault n fl st)) = assignments st @ [\<lparr>as_id = n, as_principal = p, as_employer = e, as_revoked = False\<rparr>]
        \<and> n \<notin> as_id ` set (assignments st) \<and> (p, e) \<notin> set (live_pairs st))
   \<or> (\<exists>i. assignments (snd (hr_assignment d dsn fault n fl st)) = map (revoke_id i) (assignments st))"
proof -
  have grant: "assignments (snd (committed (WithTx fault (Grant d n pr e ac ba) st))) = assignments st
     \<or> (\<exists>p x. assignments (snd (committed (WithTx fault (Grant d n pr e ac ba) st))) = assignments st @ [\<lparr>as_id = n, as_principal = p, as_employer = x, as_revoked = False\<rparr>]
        \<and> n \<notin> as_id ` set (assignments st) \<and> (p, x) \<notin> set (live_pairs st))" for pr e ac ba
  proof (cases "Grant d n pr e ac ba st")
    case (Pair out st')
    then show ?thesis using grant_effect [of d n pr e ac ba st] unfolding committed_state by (cases out) (simp_all, blast)
  qed
  have revoke: "assignments (snd (committed (WithTx fault (Revoke d i ac re) st))) = assignments st
     \<or> assignments (snd (committed (WithTx fault (Revoke d i ac re) st))) = map (revoke_id i) (assignments st)" for i ac re
  proof (cases "Revoke d i ac re st")
    case (Pair out st')
    then show ?thesis using revoke_effect [of d i ac re st] unfolding committed_state by (cases out) simp_all
  qed
  show ?thesis
    unfolding hr_assignment_def using grant revoke by (simp split: option.split) blast
qed

lemma access_step_ok: "access_step d st st' \<Longrightarrow> assignments_ok st \<Longrightarrow> assignments_ok st'"
proof (induction rule: access_step.induct)
  case (tool st dsn fault n fl)
  let ?st = "snd (hr_assignment d dsn fault n fl st)"
  let ?pair = "\<lambda>a. (as_principal a, as_employer a)"
  note ids = tool[unfolded assignments_ok_def, THEN conjunct1] and pairs = tool[unfolded assignments_ok_def, THEN conjunct2]
  consider "assignments ?st = assignments st"
    | p e where "assignments ?st = assignments st @ [\<lparr>as_id = n, as_principal = p, as_employer = e, as_revoked = False\<rparr>]"
        "n \<notin> as_id ` set (assignments st)" "(p, e) \<notin> set (live_pairs st)"
    | i where "assignments ?st = map (revoke_id i) (assignments st)"
    using tool_effect [of d dsn fault n fl st] by blast
  then show ?case
  proof cases
    case 1
    with ids pairs show ?thesis by (simp add: assignments_ok_def live_pairs_def)
  next
    case (2 p e)
    with ids pairs show ?thesis by (simp add: assignments_ok_def live_pairs_def)
  next
    case (3 i)
    have "distinct (map ?pair (filter (\<lambda>a. \<not> as_revoked a) (map (revoke_id i) xs)))
        \<and> set (map ?pair (filter (\<lambda>a. \<not> as_revoked a) (map (revoke_id i) xs))) \<subseteq> set (map ?pair (filter (\<lambda>a. \<not> as_revoked a) xs))"
      if "distinct (map ?pair (filter (\<lambda>a. \<not> as_revoked a) xs))" for xs
      using that by (induction xs) (auto simp: revoke_id_def)
    with 3 ids pairs show ?thesis by (simp add: assignments_ok_def live_pairs_def comp_def)
  qed
qed (simp add: assignments_ok_def live_pairs_def)

lemma access_steps_ok: "(access_step d)\<^sup>*\<^sup>* st0 st \<Longrightarrow> assignments st0 = [] \<Longrightarrow> assignments_ok st"
proof (induction rule: rtranclp_induct)
  case base
  then show ?case by (simp add: assignments_ok_def live_pairs_def)
next
  case (step st st')
  then show ?case using access_step_ok by blast
qed

lemma revoke_committed:
  assumes "hr_assignment d dsn fault n fl st = (True, st1)" "fl_action fl = ''revoke''" "pg_uuid d (fl_assignment fl) = Some i"
  shows "assignments st1 = map (revoke_id i) (assignments st) \<and> domain_users st1 = domain_users st"
  using assms revoke_effect [of d i "fl_actor fl" "fl_reason fl" st]
  by (auto simp: hr_assignment_def committed_def WithTx_def split: if_splits option.splits prod.splits sum.splits)

lemma unassigned_refused:
  assumes "pg_uuid d person = Some p" "\<not> check_employer_hr_assignment p employer st"
  shows "EmployerAttestServerSigned d signer at i employer person ty body st = (Inl ErrNotFound, st)"
    "EmployerList d employer person limit st = (Inl ErrNotFound, st)" "EmployerGet d i employer person st = (Inl ErrNotFound, st)"
  using assms by (simp_all add: EmployerAttestServerSigned_def EmployerList_def EmployerGet_def tx_eval)

text \<open>
  C31. A revoked assignment is worth nothing. In a store whose assignments were all made by the operator's
  tool (other rows may change in any way), once the tool has committed the revocation of a reviewer's
  assignment, every call of the reviewer for that employer (attesting, listing, reading) is answered
  like an unknown request and changes nothing, in any later state in which the tool has not granted
  that reviewer that employer anew, whatever else has changed.
\<close>

theorem revoked_reviewer_refused:
  assumes reach: "(access_step d)\<^sup>*\<^sup>* st0 st" "assignments st0 = []"
    and a: "a \<in> set (assignments st)" "\<not> as_revoked a"
    and revoked: "hr_assignment d dsn fault n fl st = (True, st1)" "fl_action fl = ''revoke''" "pg_uuid d (fl_assignment fl) = Some (as_id a)"
    and later: "\<And>b. b \<in> set (assignments st') \<Longrightarrow> \<not> as_revoked b \<Longrightarrow> as_principal b = as_principal a \<Longrightarrow>
        as_employer b = as_employer a \<Longrightarrow> b \<in> set (assignments st1)"
    and caller: "pg_uuid d person = Some (as_principal a)"
  shows "EmployerAttestServerSigned d signer at i (as_employer a) person ty body st' = (Inl ErrNotFound, st')
    \<and> EmployerList d (as_employer a) person limit st' = (Inl ErrNotFound, st') \<and> EmployerGet d i (as_employer a) person st' = (Inl ErrNotFound, st')"
proof -
  note ok = access_steps_ok [OF reach]
  have only: "b = a" if "b \<in> set (assignments st)" "\<not> as_revoked b" "as_principal b = as_principal a" "as_employer b = as_employer a" for b
  proof -
    have "distinct (map (\<lambda>a. (as_principal a, as_employer a)) (filter (\<lambda>a. \<not> as_revoked a) (assignments st)))"
      using ok by (simp add: assignments_ok_def live_pairs_def)
    then have "inj_on (\<lambda>a. (as_principal a, as_employer a)) (set (filter (\<lambda>a. \<not> as_revoked a) (assignments st)))"
      by (rule distinct_map [THEN iffD1, THEN conjunct2])
    then show ?thesis by (rule inj_onD) (use that a in simp_all)
  qed
  have "\<not> (as_principal b = as_principal a \<and> as_employer b = as_employer a \<and> \<not> as_revoked b)" if b: "b \<in> set (assignments st')" for b
  proof
    assume *: "as_principal b = as_principal a \<and> as_employer b = as_employer a \<and> \<not> as_revoked b"
    from later [OF b] * revoke_committed [OF revoked] obtain c where c: "c \<in> set (assignments st)" "b = revoke_id (as_id a) c" by auto
    with * have "c = a" using only [of c] by (auto simp: revoke_id_def split: if_splits)
    with c * show False by (simp add: revoke_id_def)
  qed
  then have "\<not> check_employer_hr_assignment (as_principal a) (as_employer a) st'"
    by (auto simp: check_employer_hr_assignment_def list_ex_iff split: option.splits)
  from unassigned_refused [OF caller this] show ?thesis by simp
qed

definition demo_grant :: hr_flags where
  "demo_grant = \<lparr>fl_action = ''grant'', fl_principal = ''hr'', fl_employer = ''acme'', fl_assignment = [], fl_actor = ''op'',
     fl_basis = ''b1'', fl_reason = [], fl_rest = []\<rparr>"

definition demo_revoke :: hr_flags where
  "demo_revoke = \<lparr>fl_action = ''revoke'', fl_principal = [], fl_employer = [], fl_assignment = ''g1'', fl_actor = ''op'',
     fl_basis = [], fl_reason = ''left'', fl_rest = []\<rparr>"

definition ungranted :: store where
  "ungranted = demo_start\<lparr>assignments := [], evt_config := [(''acme'', ''AUTO'')]\<rparr>"

definition granted :: store where
  "granted = snd (hr_assignment demo_pg ''dsn'' False ''g1'' demo_grant ungranted)"

theorem revoked_reviewer_refused_witness:
  "fst (EmployerList demo_pg ''acme'' ''hr'' 100 granted) \<noteq> Inl ErrNotFound
   \<and> fst (EmployerList demo_pg ''acme'' ''hr'' 100 (snd (hr_assignment demo_pg ''dsn'' False ''g2'' demo_revoke granted))) = Inl ErrNotFound"
proof -
  let ?st = "snd (hr_assignment demo_pg ''dsn'' False ''g2'' demo_revoke granted)"
  have reach: "(access_step demo_pg)\<^sup>*\<^sup>* ungranted granted" unfolding granted_def by (intro r_into_rtranclp access_step.tool)
  have none: "assignments ungranted = []" by code_simp
  have "\<exists>a \<in> set (assignments granted). \<not> as_revoked a \<and> as_id a = ''g1'' \<and> as_principal a = ''hr'' \<and> as_employer a = ''acme''" by code_simp
  then obtain a where a: "a \<in> set (assignments granted)" "\<not> as_revoked a" "as_id a = ''g1''" "as_principal a = ''hr''" "as_employer a = ''acme''" by blast
  have "fst (hr_assignment demo_pg ''dsn'' False ''g2'' demo_revoke granted)" by code_simp
  then have "hr_assignment demo_pg ''dsn'' False ''g2'' demo_revoke granted = (True, ?st)" by (metis prod.collapse)
  from revoked_reviewer_refused [OF reach none a(1,2) this, where st' = ?st and person = "''hr''"] a(3-5)
  have "fst (EmployerList demo_pg ''acme'' ''hr'' 100 ?st) = Inl ErrNotFound"
    by (simp add: demo_revoke_def demo_pg_def)
  moreover have "fst (EmployerList demo_pg ''acme'' ''hr'' 100 granted) \<noteq> Inl ErrNotFound" by code_simp
  ultimately show ?thesis by simp
qed

end
