(* ===== verification/Spec2Isabelle.thy ===== *)
theory Spec2Isabelle
  imports Gate SignVerify SingleFlight RecoverySafety AppShell PublishSafety ReleaseScripts QueryString
    RecruiterSafety EvidenceSafety HrSafety RequestorDetail TrustRoundtrip
    SignInSafety VerifyEmail PasswordSafety NavigationSafety DevTools
    DecisionSafety ClientServer ServerSessionsSafety EmployerAccess
begin

text \<open>
  Verification of the attestation engine and of its client, the TypeScript and JavaScript of the
  repository, and of the core of the API server between them, which is written in Go.

  \<^bold>\<open>The program.\<close> An attestation is a signed statement about an employment. The engine
  (\<open>pkg/\<close>, \<open>scripts/\<close>) signs attestations, publishes the documents they are judged by (the key
  set, the status list, the policy) to an object store, reads these back and verifies attestations
  against them. The client (\<open>apps/evt-ui-expo/\<close>) is an app in which users sign in through Kratos and,
  by their role, request attestations, decide on requests, or read verified candidates. The server
  (\<open>apps/evt-api-go/internal/\<close>) keeps the requests, decides on credentials and answers the client. They
  meet in the verification outcome, which the client turns into a gate in front of a record, and in
  the requests, whose pages, queue and list the client shows.

  \<^bold>\<open>How the code is modelled.\<close>
  \<^item> JavaScript values (\<open>JsValue\<close>): answers, files and stored documents are unchecked JSON, so the
    model computes on values as the code does, with \<open>undefined\<close>, truthiness, optional access and the
    exceptions of an engine; the declared types are records with an encoding \<open>..._js\<close>.
  \<^item> Handlers (\<open>JsAsync\<close>): an \<open>async\<close> function is a resumption over its component's state that reads,
    writes, emits effects and awaits replies; exceptions, \<open>catch\<close> and \<open>finally\<close> are explicit. \<open>run\<close>
    executes a handler alone against an arbitrary world, \<open>wp\<close> is its weakest precondition, pools
    interleave handlers over one state, \<open>iwp\<close> carries invariants through every interleaving. Handlers
    are total: that a theorem speaks of the result of \<open>run\<close> says that the handler returns. No fuel is
    used anywhere.
  \<^item> Pages (\<open>Rendering\<close>, \<open>Screens\<close>): a component's state extends the record of the session, so that the
    session's handlers run on it; a rendered screen is the list of its texts, fields and buttons.
    \<open>run_in\<close> runs a handler on a page that is rendered while the handler waits, and loses the state
    of the components the shell takes off the screen.
  \<^item> Locks (\<open>FlightLock\<close>, \<open>ScreenLock\<close>): the interface of a handler that must not run twice at once,
    as locales; they are interpreted on the session's refresh and on the loads of the HR screen.

  \<^bold>\<open>The engine.\<close>
  \<^item> \<open>NodeHost\<close>, \<open>TrustTypes\<close>: the process (\<open>pkg/logger.ts\<close>) and the documents of \<open>types/trust.ts\<close>.
  \<^item> \<open>TrustEndpoints\<close> (\<open>pkg/verification/trust-endpoints.ts\<close>): configuration, addresses, fetching.
  \<^item> \<open>Verify\<close> (\<open>pkg/verification/verify.ts\<close>, \<open>run-verify.ts\<close>, \<open>pkg/issuer/sign-file.ts\<close>): the ordered
    checks of an attestation, refined from the list of the gates it applies; that list is the
    specification's but for its gate on the claim type, which the code does not have
    (\<open>claim_type_not_checked\<close>). Cryptographic functions are parameters. \<open>SignVerify\<close> composes signer and
    verifier under the laws of the signature library.
  \<^item> \<open>Publish\<close>, \<open>PublishSafety\<close> (\<open>scripts/publish.ts\<close>): publishing to a store that may refuse any
    request; the pointer never dangles. \<open>TrustRoundtrip\<close> composes publisher and consumer over a content
    network that caches: objects without public access are refused, and a cached answer, refusals
    included, is served until its age ends.
  \<^item> \<open>ReleaseScripts\<close> (\<open>scripts/*.mjs\<close>): archives that are written once, and the key set.
  \<^item> \<open>DevTools\<close>: the e-mail template build, the outcome harness, the error boundary.

  \<^bold>\<open>The client.\<close>
  \<^item> \<open>RecruiterTypes\<close>, \<open>Gate\<close>: the candidate rows, the verification gate machine, its hook and the
    detail screen, the outcome client.
  \<^item> \<open>AuthTypes\<close>, \<open>AuthSession\<close>, \<open>AuthSafety\<close>, \<open>SingleFlight\<close> (\<open>src/auth/AuthContext.tsx\<close>): the session:
    single-flight refresh, the fetch interceptor, login, registration, logout, hydration.
  \<^item> \<open>Biometrics\<close>, \<open>AppShell\<close>: the biometric gate, its bootstrap over the interface
    \<open>session_operations\<close>, and what the shell shows.
  \<^item> \<open>SignIn\<close>, \<open>SignInSafety\<close>: the forms that start a session, behind the interface \<open>volatile_form\<close>
    between a form and the shell; \<open>Recovery\<close>, \<open>RecoverySafety\<close>: the recovery reducer and screen;
    \<open>VerifyEmail\<close>; \<open>PasswordSettings\<close>, \<open>PasswordSafety\<close>: the new password and its countdown.
  \<^item> \<open>Navigation\<close>, \<open>NavigationSafety\<close>: the navigators, and the pages each role can get to, by a step
    relation over the stack of pages.
  \<^item> \<open>RecruiterQuery\<close>, \<open>QueryString\<close>, \<open>RecruiterScreen\<close>, \<open>RecruiterSafety\<close>: the filters store, the query
    string, the candidate list and its paging.
  \<^item> \<open>Base64\<close>, \<open>Evidence\<close>, \<open>EvidenceSafety\<close>, \<open>HrReview\<close>, \<open>HrSafety\<close>
    (\<open>screens/HRReviewScreen.SettingsStyle.tsx\<close>): the base64 decoder on 32-bit words, attaching
    evidence, the review queue and the decisions.
  \<^item> \<open>Requestor\<close>, \<open>RequestorDetail\<close>: the requestor's screens; what a request's page becomes is a
    function of the answer of the server (\<open>page_step\<close>).

  \<^bold>\<open>The server.\<close>
  \<^item> \<open>Authority\<close>, \<open>AuthoritySafety\<close> (\<open>internal/authority/\<close>): the lifecycle of an authorization, its
    append-only journal with corrections, the grants projected from it, their evaluation.
  \<^item> \<open>Decision\<close>, \<open>DecisionSafety\<close> (\<open>internal/verification/\<close>, \<open>internal/httpapi/verification_outcome.go\<close>): the
    verifier policy and the outcome endpoint, composed with the journals and with the client's gate.
  \<^item> \<open>RequestStore\<close>, \<open>RequestSafety\<close> (\<open>internal/evt/repo.go\<close>, \<open>internal/db/\<close>, \<open>internal/employeraccess/\<close>): the
    tables of requests and events and every transaction on them; the transactions refine an abstract
    lifecycle (\<open>life_step\<close>), on which the invariants are proved.
  \<^item> \<open>RecruiterCursor\<close>, \<open>RecruiterApi\<close>, \<open>RecruiterApiSafety\<close> (\<open>internal/evt/handlers_recruiter_list.go\<close>): the
    candidate list, the text of its cursors (JSON in base64), and its rows on the client's detail screen.
  \<^item> \<open>RequestApi\<close>, \<open>RequestApiSafety\<close> (\<open>internal/evt/routes.go\<close>, \<open>internal/evt/handlers_*.go\<close>,
    \<open>internal/auth/\<close>): every route with its access check, body and answers, over those transactions;
    who may change a request. \<open>EmployerAccess\<close> (\<open>internal/employeraccess/\<close>, \<open>cmd/hr-assignment/\<close>): the
    operator's tool for the assignments of reviewers, and what a revocation does to their calls.
  \<^item> \<open>ServerSessions\<close>, \<open>ServerSessionsSafety\<close> (\<open>internal/httpapi/auth_handlers.go\<close>, \<open>refresh.go\<close>,
    \<open>logout.go\<close>): exchange, rotation, reuse detection and logout over the rows of sessions and tokens;
    the invariant of a session's tokens, and the client's refresh answered by that server.
  \<^item> \<open>ClientServer\<close>: the client's requests answered by that server: the query of the list, a request
    from its form to the list, the retry of the interceptor in a browser.

  \<^bold>\<open>What the theorems show.\<close> Of each component: the invariant that every interleaving of its
  handlers keeps; what each operation does on every branch, errors included; that a handler comes
  to rest whatever server and network do, or, where it does not, the run that leaves it stuck;
  round trips of the encodings; refinement of the abstract specification where there is one. Across
  components: what is published is what is verified against; a record is shown only for a usable
  verification; the app is shown only behind the biometric gate and an authenticated session; a
  request is changed only by a caller with a right to it, and one created from the form is in the list
  loaded next; a renewal of the session leaves client and server in step, and a session that was ended
  is never renewed.

  \<^bold>\<open>Bounds and widths.\<close> The base64 decoder computes on 32-bit words, bytes have 8 bits. Other numbers
  are integers: the code only counts, compares and adds small ones. The countdown is eight ticks.

  \<^bold>\<open>Idealisations.\<close> A character is one of 256, and a string's length its number of characters.
  State read by a handler is the state at its start, as in the closure of the last render; a state
  setter takes effect at once for the next handler. Numbers of JSON documents are integers. Console
  lines are left out, except where reading their arguments throws. Characters outside the set have
  ASCII counterparts in the texts of the screens. The navigation library, the glob package, the MJML
  compiler, the cryptographic library, the pickers and the file system of a device, the clock and the
  answers of the servers are parameters or arbitrary replies, and so are PostgreSQL's own functions
  (the record \<open>pg\<close>), the credential profiles, the text of a time and the reader of JSON. A transaction of the server is
  one step: its row locks serialise those that meet on a request. A server's clock counts nanoseconds and
  a column of time keeps what the parameter \<open>sv_column\<close> leaves of them; the grants of an authorization
  follow its history at whole microseconds. What a browser asks before a request from another origin,
  and that it keeps the request back when the answer does not name its headers, is the hypothesis
  \<open>preflight_passes\<close>.

  \<^bold>\<open>Not modelled.\<close> The server's credential profiles, its evidence uploads, the signatures of its access
  tokens (a parameter) and the tables of its authority registry; the operations scripts; layout, colours, animations and accessibility labels; the headers and themes of the
  navigation library; the configuration of the client's build; documents, schemas and examples.
\<close>

end
